(* ===== verification/Prelude.thy ===== *)
theory Prelude
  imports Main "HOL-Library.Finite_Map" "HOL-Library.List_Lexorder" "HOL-Library.Char_ord"
    "HOL-Library.Word" "HOL-Library.Code_Target_Nat"
begin

text \<open>
  Shared vocabulary of the development.

  \<^item> Machine integers: the Rust widths as words, with \<open>checked_add\<close>,
    \<open>saturating_add\<close> and \<open>saturating_sub\<close> written out.
  \<^item> Fallible computations: a function of \<open>&self\<close> that returns a Rust \<open>Result\<close>
    is a value of a sum type, \<open>Inl\<close> the failure; \<open>ebind\<close> is the question mark
    between two of them. A function of \<open>&mut self\<close> returns the result together with
    the state it leaves behind, on the failing paths too, so that a mutation before a
    failure stays visible; \<open>attempt\<close> is the question mark on a read-only step and
    \<open>sbind\<close> the one on a mutating step.
  \<^item> \<open>BTreeMap\<close> is a finite map (\<open>fmap\<close>) and \<open>BTreeSet\<close> a finite set (\<open>fset\<close>); \<open>fmvals\<close> lists
    the values in key order, as the Rust iterators do.
\<close>

section \<open>Machine integers\<close>

type_synonym u8 = "8 word"
type_synonym u16 = "16 word"
type_synonym u32 = "32 word"
type_synonym u64 = "64 word"

definition checked_inc :: "u64 \<Rightarrow> u64 option" where
  "checked_inc n = (if n = - 1 then None else Some (n + 1))"

definition saturating_inc :: "u64 \<Rightarrow> u64" where
  "saturating_inc n = (if n = - 1 then n else n + 1)"

definition saturating_dec :: "u64 \<Rightarrow> u64" where
  "saturating_dec n = (if n = 0 then 0 else n - 1)"

section \<open>Fallible computations\<close>

definition ebind :: "'e + 'a \<Rightarrow> ('a \<Rightarrow> 'e + 'b) \<Rightarrow> 'e + 'b" where
  "ebind m k = (case m of Inl e \<Rightarrow> Inl e | Inr x \<Rightarrow> k x)"

definition ok_or :: "'a option \<Rightarrow> 'e \<Rightarrow> 'e + 'a" where
  "ok_or x e = (case x of None \<Rightarrow> Inl e | Some y \<Rightarrow> Inr y)"

definition map_err :: "('e \<Rightarrow> 'f) \<Rightarrow> 'e + 'a \<Rightarrow> 'f + 'a" where
  "map_err f m = (case m of Inl e \<Rightarrow> Inl (f e) | Inr x \<Rightarrow> Inr x)"

definition reject_if :: "bool \<Rightarrow> 'e \<Rightarrow> 'e + unit" where
  "reject_if b e = (if b then Inl e else Inr ())"

definition attempt ::
  "'s \<Rightarrow> 'e + 'a \<Rightarrow> ('a \<Rightarrow> ('e + 'b) \<times> 's) \<Rightarrow> ('e + 'b) \<times> 's" where
  "attempt s m k = (case m of Inl e \<Rightarrow> (Inl e, s) | Inr x \<Rightarrow> k x)"

definition sbind ::
  "('e + 'a) \<times> 's \<Rightarrow> ('a \<Rightarrow> 's \<Rightarrow> ('e + 'b) \<times> 's) \<Rightarrow> ('e + 'b) \<times> 's" where
  "sbind p k = (case p of (Inl e, s) \<Rightarrow> (Inl e, s) | (Inr x, s) \<Rightarrow> k x s)"

text \<open>Checks every element, numbered from \<open>i\<close>, stopping at the first failure.\<close>

fun check_all_from :: "nat \<Rightarrow> (nat \<Rightarrow> 'a \<Rightarrow> 'e + unit) \<Rightarrow> 'a list \<Rightarrow> 'e + unit" where
  "check_all_from i f [] = Inr ()"
| "check_all_from i f (x # xs) = ebind (f i x) (\<lambda>_. check_all_from (Suc i) f xs)"

section \<open>Ordered maps\<close>

definition fmvals :: "('k::linorder, 'v) fmap \<Rightarrow> 'v list" where
  "fmvals m = map snd (sorted_list_of_fmap m)"

definition fmsize :: "('k, 'v) fmap \<Rightarrow> nat" where
  "fmsize m = fcard (fmdom m)"

definition fmhas :: "('k, 'v) fmap \<Rightarrow> 'k \<Rightarrow> bool" where
  "fmhas m k = (fmlookup m k \<noteq> None)"

text \<open>Overwrites the value at a key that is present, the effect of a Rust \<open>get_mut\<close>.\<close>

definition fmmodify :: "'k \<Rightarrow> ('v \<Rightarrow> 'v) \<Rightarrow> ('k, 'v) fmap \<Rightarrow> ('k, 'v) fmap" where
  "fmmodify k f m = (case fmlookup m k of None \<Rightarrow> m | Some v \<Rightarrow> fmupd k (f v) m)"

text \<open>Rust's \<open>retain\<close>.\<close>

definition fmretain :: "('v \<Rightarrow> bool) \<Rightarrow> ('k, 'v) fmap \<Rightarrow> ('k, 'v) fmap" where
  "fmretain P m = fmfilter (\<lambda>k. case fmlookup m k of None \<Rightarrow> False | Some v \<Rightarrow> P v) m"

definition is_some_and :: "'a option \<Rightarrow> ('a \<Rightarrow> bool) \<Rightarrow> bool" where
  "is_some_and x P = (case x of None \<Rightarrow> False | Some y \<Rightarrow> P y)"

definition is_none_or :: "'a option \<Rightarrow> ('a \<Rightarrow> bool) \<Rightarrow> bool" where
  "is_none_or x P = (case x of None \<Rightarrow> True | Some y \<Rightarrow> P y)"

section \<open>Decimal numbers in messages\<close>

fun show_nat :: "nat \<Rightarrow> string" where
  "show_nat n =
     (if n < 10 then [char_of (48 + n)] else show_nat (n div 10) @ [char_of (48 + n mod 10)])"

declare show_nat.simps [simp del]

section \<open>Rules for the combinators\<close>

named_theorems result_simps \<open>characterisations of when a fallible computation succeeds or fails\<close>

lemma ebind_Inr_iff [result_simps]:
  "ebind m k = Inr y \<longleftrightarrow> (\<exists>x. m = Inr x \<and> k x = Inr y)"
  by (auto simp: ebind_def split: sum.splits)

lemma ebind_Inl_iff:
  "ebind m k = Inl e \<longleftrightarrow> m = Inl e \<or> (\<exists>x. m = Inr x \<and> k x = Inl e)"
  by (auto simp: ebind_def split: sum.splits)

lemma ebind_simps [simp]:
  "ebind (Inl e) k = Inl e"
  "ebind (Inr x) k = k x"
  by (simp_all add: ebind_def)

lemma ok_or_Inr_iff [result_simps]: "ok_or x e = Inr y \<longleftrightarrow> x = Some y"
  by (auto simp: ok_or_def split: option.splits)

lemma ok_or_Inl_iff: "ok_or x e = Inl e' \<longleftrightarrow> x = None \<and> e' = e"
  by (auto simp: ok_or_def split: option.splits)

lemma ok_or_simps [simp]:
  "ok_or None e = Inl e"
  "ok_or (Some y) e = Inr y"
  by (simp_all add: ok_or_def)

lemma map_err_Inr_iff [result_simps]: "map_err f m = Inr y \<longleftrightarrow> m = Inr y"
  by (auto simp: map_err_def split: sum.splits)

lemma map_err_Inl_iff: "map_err f m = Inl e \<longleftrightarrow> (\<exists>e'. m = Inl e' \<and> e = f e')"
  by (auto simp: map_err_def split: sum.splits)

lemma map_err_simps [simp]:
  "map_err f (Inl e) = Inl (f e)"
  "map_err f (Inr x) = Inr x"
  by (simp_all add: map_err_def)

lemma reject_if_Inr_iff [result_simps]: "reject_if b e = Inr u \<longleftrightarrow> \<not> b"
  by (auto simp: reject_if_def)

lemma reject_if_Inl_iff: "reject_if b e = Inl e' \<longleftrightarrow> b \<and> e' = e"
  by (auto simp: reject_if_def)

lemma reject_if_simps [simp]:
  "reject_if True e = Inl e"
  "reject_if False e = Inr ()"
  by (simp_all add: reject_if_def)

lemma if_Inl_eq_Inr_iff [result_simps]:
  "(if b then Inl e else r) = Inr y \<longleftrightarrow> \<not> b \<and> r = Inr y"
  by auto

lemma attempt_Inr_iff [result_simps]:
  "attempt s m k = (Inr y, s') \<longleftrightarrow> (\<exists>x. m = Inr x \<and> k x = (Inr y, s'))"
  by (auto simp: attempt_def split: sum.splits)

lemma attempt_InrE:
  assumes "attempt s m k = (Inr y, s')"
  obtains x where "m = Inr x" and "k x = (Inr y, s')"
  using assms by (auto simp: attempt_def split: sum.splits)

lemma attempt_Inl_iff:
  "attempt s m k = (Inl e, s') \<longleftrightarrow>
     m = Inl e \<and> s' = s \<or> (\<exists>x. m = Inr x \<and> k x = (Inl e, s'))"
  by (auto simp: attempt_def split: sum.splits)

lemma attempt_simps [simp]:
  "attempt s (Inl e) k = (Inl e, s)"
  "attempt s (Inr x) k = k x"
  by (simp_all add: attempt_def)

lemma sbind_Inr_iff [result_simps]:
  "sbind p k = (Inr y, s') \<longleftrightarrow> (\<exists>x s1. p = (Inr x, s1) \<and> k x s1 = (Inr y, s'))"
  by (auto simp: sbind_def split: sum.splits prod.splits)

lemma sbind_InrE:
  assumes "sbind p k = (Inr y, s')"
  obtains x s1 where "p = (Inr x, s1)" and "k x s1 = (Inr y, s')"
  using assms by (auto simp: sbind_def split: sum.splits prod.splits)

lemma sbind_Inl_iff:
  "sbind p k = (Inl e, s') \<longleftrightarrow>
     p = (Inl e, s') \<or> (\<exists>x s1. p = (Inr x, s1) \<and> k x s1 = (Inl e, s'))"
  by (auto simp: sbind_def split: sum.splits prod.splits)

lemma sbind_simps [simp]:
  "sbind (Inl e, s) k = (Inl e, s)"
  "sbind (Inr x, s) k = k x s"
  by (simp_all add: sbind_def)

lemma if_Inl_pair_eq_Inr_iff [result_simps]:
  "(if b then (Inl e, s) else r) = (Inr y, s') \<longleftrightarrow> \<not> b \<and> r = (Inr y, s')"
  by auto

lemmas result_error_simps =
  ebind_Inl_iff ok_or_Inl_iff map_err_Inl_iff reject_if_Inl_iff attempt_Inl_iff sbind_Inl_iff

lemma check_all_from_Inr_iff:
  "check_all_from i f xs = Inr () \<longleftrightarrow> (\<forall>j < length xs. f (i + j) (xs ! j) = Inr ())"
proof (induction xs arbitrary: i)
  case Nil
  then show ?case by simp
next
  case (Cons x xs)
  have "(\<forall>j < length (x # xs). f (i + j) ((x # xs) ! j) = Inr ()) \<longleftrightarrow>
      f i x = Inr () \<and> (\<forall>j < length xs. f (Suc i + j) (xs ! j) = Inr ())"
    by (simp only: length_Cons All_less_Suc2) simp
  then show ?case
    by (simp add: ebind_Inr_iff Cons.IH)
qed

section \<open>Rules for the counters\<close>

lemma checked_inc_SomeD:
  assumes "checked_inc n = Some m"
  shows "m = n + 1" and "unat m = Suc (unat n)" and "n < m"
proof -
  from assms have ne: "n \<noteq> - 1" and m: "m = n + 1"
    by (auto simp: checked_inc_def split: if_splits)
  then have "1 + n \<noteq> 0"
    by (metis add.commute add_eq_0_iff)
  then have u: "unat (1 + n) = Suc (unat n)"
    by (rule unatSuc)
  show "m = n + 1" by (rule m)
  show "unat m = Suc (unat n)"
    using u m by (simp add: add.commute)
  then show "n < m"
    by (simp add: word_less_nat_alt)
qed

lemma checked_inc_None_iff: "checked_inc n = None \<longleftrightarrow> n = - 1"
  by (simp add: checked_inc_def)

section \<open>Rules for ordered maps\<close>

named_theorems fmap_simps \<open>lookups in an updated map\<close>

lemma fmlookup_fmmodify [fmap_simps, simp]:
  "fmlookup (fmmodify k f m) k' = (if k' = k then map_option f (fmlookup m k) else fmlookup m k')"
  by (auto simp: fmmodify_def split: option.splits)

lemma fmlookup_fmretain [fmap_simps, simp]:
  "fmlookup (fmretain P m) k =
     (case fmlookup m k of None \<Rightarrow> None | Some v \<Rightarrow> if P v then Some v else None)"
  by (auto simp: fmretain_def split: option.splits)

lemma fmdom_fmmodify [simp]: "fmdom (fmmodify k f m) = fmdom m"
  by (auto simp: fmmodify_def split: option.splits intro: fmdomI)

lemma fmhas_iff: "fmhas m k \<longleftrightarrow> (\<exists>v. fmlookup m k = Some v)"
  by (auto simp: fmhas_def)

lemma fmhas_simps [simp]:
  "\<not> fmhas fmempty k"
  "fmhas (fmupd k' v m) k \<longleftrightarrow> k = k' \<or> fmhas m k"
  "fmhas (fmmodify k' f m) k \<longleftrightarrow> fmhas m k"
  "fmhas (fmmap g m) k \<longleftrightarrow> fmhas m k"
  by (auto simp: fmhas_def)

lemma set_fmvals: "set (fmvals m) = {v. \<exists>k. fmlookup m k = Some v}"
proof -
  have "set (sorted_list_of_fmap m) = {(k, v). fmlookup m k = Some v}"
    by (auto simp: sorted_list_of_fmap_def fmlookup_dom_iff image_iff)
  then show ?thesis
    by (force simp: fmvals_def)
qed

lemma in_fmvals_iff: "v \<in> set (fmvals m) \<longleftrightarrow> (\<exists>k. fmlookup m k = Some v)"
  by (simp add: set_fmvals)

lemma length_fmvals: "length (fmvals m) = fmsize m"
  by (simp add: fmvals_def sorted_list_of_fmap_def fmsize_def sorted_list_of_fset.rep_eq
      fcard.rep_eq)

lemma is_some_and_iff: "is_some_and x P \<longleftrightarrow> (\<exists>y. x = Some y \<and> P y)"
  by (auto simp: is_some_and_def split: option.splits)

lemma is_none_or_iff: "is_none_or x P \<longleftrightarrow> (\<forall>y. x = Some y \<longrightarrow> P y)"
  by (auto simp: is_none_or_def split: option.splits)

lemma is_some_and_simps [simp]:
  "\<not> is_some_and None P"
  "is_some_and (Some y) P \<longleftrightarrow> P y"
  by (simp_all add: is_some_and_def)

lemma is_none_or_simps [simp]:
  "is_none_or None P"
  "is_none_or (Some y) P \<longleftrightarrow> P y"
  by (simp_all add: is_none_or_def)

end
