(* ===== verification/Validation.thy ===== *)
theory Validation
  imports Prelude
begin

text \<open>
  \<open>crates/agsv-protocol/src/validation.rs\<close> and \<open>ids.rs\<close>: the protocol bounds, the
  validation error, the primitive validators, and the constructors of identifiers, fencing
  counters and Git object ids.

  Identifiers hold ASCII only once constructed, so they are byte strings (\<open>string\<close>).
  Free text is a list of Unicode scalar values (\<open>utext\<close>): \<open>chars().count()\<close> is its
  length, \<open>len()\<close> the sum of the UTF-8 widths, and \<open>trim\<close> strips the scalar values of
  the Unicode property White_Space, as the Rust standard library documents.
\<close>

section \<open>Bounds\<close>

definition MAX_EVIDENCE_ITEMS :: nat where "MAX_EVIDENCE_ITEMS = 64"
definition MAX_ACCEPTANCE_CRITERIA :: nat where "MAX_ACCEPTANCE_CRITERIA = 64"
definition MAX_REQUEST_TEXT_CHARACTERS :: nat where "MAX_REQUEST_TEXT_CHARACTERS = 65536"
definition MAX_EVIDENCE_REQUIREMENTS :: nat where "MAX_EVIDENCE_REQUIREMENTS = 16"
definition MAX_ACTOR_CAPABILITIES :: nat where "MAX_ACTOR_CAPABILITIES = 256"
definition MAX_CONFLICT_RESOURCES :: nat where "MAX_CONFLICT_RESOURCES = 256"
definition MAX_DOMAIN_ENTITIES :: nat where "MAX_DOMAIN_ENTITIES = 10000"
definition MAX_DELIVERIES :: nat where "MAX_DELIVERIES = 100000"
definition MAX_ACKNOWLEDGEMENTS :: nat where "MAX_ACKNOWLEDGEMENTS = 10000"
definition MAX_AUDIT_EVENTS :: nat where "MAX_AUDIT_EVENTS = 200000"
definition MAX_FRAME_BYTES :: nat where "MAX_FRAME_BYTES = 1048576"
definition PROTOCOL_VERSION :: u32 where "PROTOCOL_VERSION = 1"

section \<open>Validation errors\<close>

datatype validation_code = Required | InvalidFormat | OutOfRange | Inconsistent | UnsupportedVersion

datatype validation_unit = Characters | Items

record validation_error =
  v_field :: string
  v_code :: validation_code
  v_message :: string
  v_actual :: "nat option"
  v_maximum :: "nat option"
  v_overflow :: "nat option"
  v_unit :: "validation_unit option"

definition validation_error_new :: "string \<Rightarrow> validation_code \<Rightarrow> string \<Rightarrow> validation_error" where
  "validation_error_new fld code msg =
     \<lparr>v_field = fld, v_code = code, v_message = msg,
      v_actual = None, v_maximum = None, v_overflow = None, v_unit = None\<rparr>"

definition with_limit :: "validation_error \<Rightarrow> nat \<Rightarrow> nat \<Rightarrow> validation_unit \<Rightarrow> validation_error" where
  "with_limit err actual maximum unit =
     err\<lparr>v_actual := Some actual, v_maximum := Some maximum,
         v_overflow := Some (actual - maximum), v_unit := Some unit\<rparr>"

text \<open>\<open>ValidationError::at\<close>\<close>

definition error_at :: "string \<Rightarrow> validation_error \<Rightarrow> validation_error" where
  "error_at parent err =
     err\<lparr>v_field := (if v_field err = '''' then parent else parent @ ''.'' @ v_field err)\<rparr>"

section \<open>Tokens\<close>

definition is_ascii_digit :: "char \<Rightarrow> bool" where
  "is_ascii_digit c \<longleftrightarrow> CHR ''0'' \<le> c \<and> c \<le> CHR ''9''"

definition is_ascii_alphanumeric :: "char \<Rightarrow> bool" where
  "is_ascii_alphanumeric c \<longleftrightarrow>
     is_ascii_digit c \<or> (CHR ''A'' \<le> c \<and> c \<le> CHR ''Z'') \<or> (CHR ''a'' \<le> c \<and> c \<le> CHR ''z'')"

definition is_ascii_hexdigit :: "char \<Rightarrow> bool" where
  "is_ascii_hexdigit c \<longleftrightarrow>
     is_ascii_digit c \<or> CHR ''a'' \<le> c \<and> c \<le> CHR ''f'' \<or> CHR ''A'' \<le> c \<and> c \<le> CHR ''F''"

definition validate_token :: "string \<Rightarrow> string \<Rightarrow> validation_error + unit" where
  "validate_token fld value =
     (if value = [] then Inl (validation_error_new fld Required ''must not be empty'')
      else if 128 < length value then
        Inl (validation_error_new fld OutOfRange ''must contain at most 128 bytes'')
      else if \<not> list_all (\<lambda>byte. is_ascii_alphanumeric byte \<or>
                 byte \<in> {CHR ''-'', CHR ''_'', CHR ''.'', CHR '':'', CHR ''/'', CHR ''@''}) value
      then Inl (validation_error_new fld InvalidFormat
                  ''must use ASCII letters, digits, or - _ . : / @'')
      else Inr ())"

text \<open>The constructor \<open>new\<close> of every identifier type.\<close>

definition string_id_new :: "string \<Rightarrow> string \<Rightarrow> validation_error + string" where
  "string_id_new fld value = ebind (validate_token fld value) (\<lambda>_. Inr value)"

section \<open>Text\<close>

type_synonym utext = "nat list"

definition of_ascii :: "string \<Rightarrow> utext" where
  "of_ascii s = map of_char s"

definition utf8_width :: "nat \<Rightarrow> nat" where
  "utf8_width c = (if c < 128 then 1 else if c < 2048 then 2 else if c < 65536 then 3 else 4)"

definition utf8_length :: "utext \<Rightarrow> nat" where
  "utf8_length t = sum_list (map utf8_width t)"

definition char_is_whitespace :: "nat \<Rightarrow> bool" where
  "char_is_whitespace c \<longleftrightarrow>
     9 \<le> c \<and> c \<le> 13 \<or> c = 32 \<or> c = 133 \<or> c = 160 \<or> c = 5760 \<or> 8192 \<le> c \<and> c \<le> 8202 \<or>
     c = 8232 \<or> c = 8233 \<or> c = 8239 \<or> c = 8287 \<or> c = 12288"

definition char_is_control :: "nat \<Rightarrow> bool" where
  "char_is_control c \<longleftrightarrow> c < 32 \<or> 127 \<le> c \<and> c < 160"

definition trim :: "utext \<Rightarrow> utext" where
  "trim t = rev (dropWhile char_is_whitespace (rev (dropWhile char_is_whitespace t)))"

definition validate_text :: "string \<Rightarrow> utext \<Rightarrow> nat \<Rightarrow> validation_error + unit" where
  "validate_text fld value maximum =
     (if trim value = [] then Inl (validation_error_new fld Required ''must not be blank'')
      else
        let actual = length value in
        if maximum < actual then
          let overflow = actual - maximum;
              overflow_unit = (if overflow = 1 then ''character'' else ''characters'')
          in Inl (with_limit
               (validation_error_new fld OutOfRange
                 (''contains '' @ show_nat actual @ '' characters; maximum is '' @ show_nat maximum @
                  ''; exceeds by '' @ show_nat overflow @ '' '' @ overflow_unit))
               actual maximum Characters)
        else Inr ())"

definition validate_count :: "string \<Rightarrow> nat \<Rightarrow> nat \<Rightarrow> validation_error + unit" where
  "validate_count fld count maximum =
     (if maximum < count then
        let overflow = count - maximum;
            overflow_unit = (if overflow = 1 then ''item'' else ''items'')
        in Inl (with_limit
             (validation_error_new fld OutOfRange
               (''contains '' @ show_nat count @ '' items; maximum is '' @ show_nat maximum @
                ''; exceeds by '' @ show_nat overflow @ '' '' @ overflow_unit))
             count maximum Items)
      else Inr ())"

section \<open>Fencing counters\<close>

text \<open>
  The five epoch types are instances of one macro: a positive \<open>u64\<close>. They are modelled as
  \<open>u64\<close>; the constructor refuses zero.
\<close>

definition EPOCH_INITIAL :: u64 where "EPOCH_INITIAL = 1"

definition epoch_new :: "string \<Rightarrow> u64 \<Rightarrow> validation_error + u64" where
  "epoch_new type_name value =
     (if value = 0 then
        Inl (validation_error_new type_name OutOfRange ''must be greater than zero'')
      else Inr value)"

definition checked_next :: "u64 \<Rightarrow> u64 option" where
  "checked_next epoch = checked_inc epoch"

section \<open>Git object ids\<close>

definition to_ascii_lowercase :: "char \<Rightarrow> char" where
  "to_ascii_lowercase c =
     (if CHR ''A'' \<le> c \<and> c \<le> CHR ''Z'' then char_of ((of_char c :: nat) + 32) else c)"

definition git_sha_new :: "string \<Rightarrow> validation_error + string" where
  "git_sha_new value =
     (if length value \<notin> {40, 64} \<or> \<not> list_all is_ascii_hexdigit value then
        Inl (validation_error_new ''git_sha'' InvalidFormat
               ''must be a full 40- or 64-digit hexadecimal object id'')
      else Inr (map to_ascii_lowercase value))"

section \<open>Lemmas\<close>

lemma checked_next_SomeD:
  assumes "checked_next n = Some m"
  shows "m = n + 1" and "unat m = Suc (unat n)" and "n < m"
  using checked_inc_SomeD [of n m] assms by (simp_all add: checked_next_def)

lemma validate_token_Inr_iff:
  "validate_token fld value = Inr u \<longleftrightarrow>
     value \<noteq> [] \<and> length value \<le> 128 \<and>
     list_all (\<lambda>byte. is_ascii_alphanumeric byte \<or>
        byte \<in> {CHR ''-'', CHR ''_'', CHR ''.'', CHR '':'', CHR ''/'', CHR ''@''}) value"
  by (simp add: validate_token_def)

lemma validate_count_Inr_iff [result_simps]: "validate_count fld n m = Inr u \<longleftrightarrow> n \<le> m"
  by (simp add: validate_count_def Let_def)

lemma validate_text_Inr_iff [result_simps]:
  "validate_text fld value m = Inr u \<longleftrightarrow> trim value \<noteq> [] \<and> length value \<le> m"
  by (simp add: validate_text_def Let_def)

end
