(* ===== verification/Bounds.thy ===== *)
theory Bounds
  imports Validation
begin

text \<open>
  The canonical form of git object ids: \<open>hex_value\<close> is the number a hexadecimal digit denotes, in
  either case, and the constructor keeps exactly one spelling of each sequence of digits.
\<close>

definition hex_value :: "char \<Rightarrow> nat option" where
  "hex_value c =
     (if c \<in> set ''0123456789'' then Some (of_char c - 48)
      else if c \<in> set ''abcdef'' then Some (of_char c - 87)
      else if c \<in> set ''ABCDEF'' then Some (of_char c - 55)
      else None)"

abbreviation lower_hex_digits :: string where
  "lower_hex_digits \<equiv> ''0123456789abcdef''"

lemma every_char: "list_all P (map char_of [0..<256::nat]) \<Longrightarrow> P c"
proof -
  assume "list_all P (map char_of [0..<256::nat])"
  moreover have "c = char_of (of_char c :: nat)" and "(of_char c :: nat) < 256"
    by simp_all
  then have "c \<in> set (map char_of [0..<256::nat])"
    by (metis atLeastLessThan_iff imageI list.set_map set_upt zero_le)
  ultimately show "P c"
    by (simp only: list_all_iff)
qed

lemma hex_digit_value: "is_ascii_hexdigit c \<longleftrightarrow> hex_value c \<noteq> None"
  by (rule every_char [where P = "\<lambda>c. is_ascii_hexdigit c \<longleftrightarrow> hex_value c \<noteq> None"]) code_simp

lemma hex_digit_lowered:
  assumes "is_ascii_hexdigit c"
  shows "to_ascii_lowercase c \<in> set lower_hex_digits" and "hex_value (to_ascii_lowercase c) = hex_value c"
proof -
  have "is_ascii_hexdigit c \<longrightarrow>
      to_ascii_lowercase c \<in> set lower_hex_digits \<and> hex_value (to_ascii_lowercase c) = hex_value c"
    by (rule every_char [where P = "\<lambda>c. is_ascii_hexdigit c \<longrightarrow>
          to_ascii_lowercase c \<in> set lower_hex_digits \<and> hex_value (to_ascii_lowercase c) = hex_value c"]) code_simp
  with assms show "to_ascii_lowercase c \<in> set lower_hex_digits" and "hex_value (to_ascii_lowercase c) = hex_value c"
    by simp_all
qed

lemma hex_value_injective:
  assumes "c \<in> set lower_hex_digits" and "d \<in> set lower_hex_digits" and "hex_value c = hex_value d"
  shows "c = d"
proof -
  have "list_all (\<lambda>c. list_all (\<lambda>d. hex_value c = hex_value d \<longrightarrow> c = d) lower_hex_digits) lower_hex_digits"
    by code_simp
  with assms show ?thesis
    unfolding list_all_iff by blast
qed

lemma git_sha_new_Inr:
  "git_sha_new v = Inr sha \<longleftrightarrow>
     length v \<in> {40, 64} \<and> list_all is_ascii_hexdigit v \<and> sha = map to_ascii_lowercase v"
  by (auto simp: git_sha_new_def)

lemma lowered_values: "list_all is_ascii_hexdigit v \<Longrightarrow> map hex_value (map to_ascii_lowercase v) = map hex_value v"
  by (induction v) (simp_all add: hex_digit_lowered)

lemma lowered_equal:
  assumes "list_all is_ascii_hexdigit v" and "map hex_value w = map hex_value v"
  shows "list_all is_ascii_hexdigit w" and "map to_ascii_lowercase w = map to_ascii_lowercase v"
proof -
  have "list_all is_ascii_hexdigit w \<and> map to_ascii_lowercase w = map to_ascii_lowercase v"
    using assms
  proof (induction v arbitrary: w)
    case (Cons c v)
    then obtain d w' where w: "w = d # w'" "hex_value d = hex_value c" "map hex_value w' = map hex_value v"
      by (cases w) auto
    then have "is_ascii_hexdigit d"
      using Cons.prems(1) by (simp add: hex_digit_value)
    moreover from this have "to_ascii_lowercase d = to_ascii_lowercase c"
      using Cons.prems(1) w(2) by (intro hex_value_injective hex_digit_lowered(1)) (simp_all add: hex_digit_lowered(2))
    ultimately show ?case
      using Cons.IH [of w'] Cons.prems(1) w by simp
  qed simp
  then show "list_all is_ascii_hexdigit w" and "map to_ascii_lowercase w = map to_ascii_lowercase v"
    by simp_all
qed

lemma git_sha_spelling:
  assumes "git_sha_new v = Inr sha"
  shows "length sha \<in> {40, 64}" and "set sha \<subseteq> set lower_hex_digits"
    and "map hex_value sha = map hex_value v"
    and "git_sha_new w = Inr sha \<longleftrightarrow> map hex_value w = map hex_value v"
proof -
  have v: "length v \<in> {40, 64}" "list_all is_ascii_hexdigit v" "sha = map to_ascii_lowercase v"
    using assms by (simp_all add: git_sha_new_Inr)
  then show "length sha \<in> {40, 64}" "set sha \<subseteq> set lower_hex_digits"
    using hex_digit_lowered(1) unfolding list_all_iff by (auto simp del: list.set)
  show same_value: "map hex_value sha = map hex_value v"
    using v(3) lowered_values [OF v(2)] by simp
  show "git_sha_new w = Inr sha \<longleftrightarrow> map hex_value w = map hex_value v"
  proof
    assume "git_sha_new w = Inr sha"
    then have "map hex_value sha = map hex_value w"
      using lowered_values [of w] by (simp add: git_sha_new_Inr)
    with same_value show "map hex_value w = map hex_value v"
      by simp
  next
    assume same: "map hex_value w = map hex_value v"
    from lowered_equal [OF v(2) same] map_eq_imp_length_eq [OF same] v show "git_sha_new w = Inr sha"
      by (simp add: git_sha_new_Inr)
  qed
qed

end
