(* ===== verification/Domain_Model.thy ===== *)
theory Domain_Model
  imports Validation
begin

text \<open>
  The durable entities of \<open>crates/agsv-protocol/src/model.rs\<close>: actors, teams, requests,
  runs, candidates, assignments, with their statuses, validators and predicates.

  Structs that the aggregate mutates are records; a record's fields carry a prefix that names
  the struct (\<open>a_\<close> actor, \<open>t_\<close> team, \<open>q_\<close> request, \<open>r_\<close> run). Structs
  that are only compared and stored are datatypes with selectors.
\<close>

section \<open>Identifiers and counters\<close>

type_synonym workspace_id = string
type_synonym team_id = string
type_synonym actor_id = string
type_synonym run_id = string
type_synonym request_id = string
type_synonym message_id = string
type_synonym decision_id = string
type_synonym evidence_id = string
type_synonym handoff_id = string
type_synonym actor_profile_name = string
type_synonym team_profile_name = string
type_synonym capability_id = string
type_synonym assignment_policy_id = string
type_synonym git_sha = string
type_synonym payload_digest = string

type_synonym primary_epoch = u64
type_synonym team_epoch = u64
type_synonym actor_epoch = u64
type_synonym assignment_epoch = u64
type_synonym policy_revision = u64
type_synonym timestamp_millis = u64

section \<open>Actors\<close>

datatype actor_ref = ActorRef (ref_actor_id: actor_id) (ref_actor_epoch: actor_epoch)

datatype actor_role = PrimaryRole | ImplementationRole | CustomRole utext

definition role_as_str :: "actor_role \<Rightarrow> utext" where
  "role_as_str role =
     (case role of
        PrimaryRole \<Rightarrow> of_ascii ''primary''
      | ImplementationRole \<Rightarrow> of_ascii ''implementation''
      | CustomRole value \<Rightarrow> value)"

definition validate_actor_role :: "utext \<Rightarrow> validation_error + unit" where
  "validate_actor_role value =
     (if trim value = [] then
        Inl (validation_error_new ''actor_role'' Required ''must not be empty'')
      else if 128 < utf8_length value then
        Inl (validation_error_new ''actor_role'' OutOfRange ''must contain at most 128 bytes'')
      else if trim value \<noteq> value \<or> list_ex char_is_control value then
        Inl (validation_error_new ''actor_role'' InvalidFormat
               ''must contain no surrounding whitespace or control characters'')
      else Inr ())"

definition role_new :: "utext \<Rightarrow> validation_error + actor_role" where
  "role_new value =
     ebind (validate_actor_role value) (\<lambda>_.
       Inr (if value = of_ascii ''primary'' then PrimaryRole
            else if value = of_ascii ''implementation'' then ImplementationRole
            else CustomRole value))"

definition role_validate :: "actor_role \<Rightarrow> validation_error + unit" where
  "role_validate role =
     ebind (validate_actor_role (role_as_str role)) (\<lambda>_.
       case role of
         CustomRole value \<Rightarrow>
           if value = of_ascii ''primary'' \<or> value = of_ascii ''implementation'' then
             Inl (validation_error_new ''actor_role'' Inconsistent
                    ''legacy role spellings must use their canonical representation'')
           else Inr ()
       | _ \<Rightarrow> Inr ())"

definition HUMAN_FACING_PRIMARY :: capability_id where
  "HUMAN_FACING_PRIMARY = ''human_facing_primary''"

definition IMPLEMENTATION_EXECUTION :: capability_id where
  "IMPLEMENTATION_EXECUTION = ''implementation_execution''"

datatype actor_profile =
  ActorProfile (ap_name: actor_profile_name) (ap_capabilities: "capability_id fset")

definition actor_profile_validate :: "actor_profile \<Rightarrow> validation_error + unit" where
  "actor_profile_validate profile =
     validate_count ''capabilities'' (fcard (ap_capabilities profile)) MAX_ACTOR_CAPABILITIES"

datatype team_profile =
  TeamProfile
    (tp_name: team_profile_name)
    (tp_actor_profile: actor_profile_name)
    (tp_desired_instances: u16)
    (tp_assignment_policy: assignment_policy_id)

definition team_profile_validate :: "team_profile \<Rightarrow> validation_error + unit" where
  "team_profile_validate profile =
     (if 1024 < tp_desired_instances profile then
        Inl (validation_error_new ''desired_instances'' OutOfRange ''must be at most 1024'')
      else Inr ())"

datatype actor_status = ActorStarting | ActorHealthy | ActorStale | ActorRevoked | ActorStopped

record actor =
  a_actor_id :: actor_id
  a_workspace_id :: workspace_id
  a_team_id :: "team_id option"
  a_role :: actor_role
  a_profile :: "actor_profile option"
  a_epoch :: actor_epoch
  a_status :: actor_status
  a_last_heartbeat_at :: "timestamp_millis option"

text \<open>\<open>Actor::actor_ref\<close> and \<open>Actor::has_capability\<close>\<close>

definition actor_ref_of :: "actor \<Rightarrow> actor_ref" where
  "actor_ref_of a = ActorRef (a_actor_id a) (a_epoch a)"

definition has_capability :: "actor \<Rightarrow> capability_id \<Rightarrow> bool" where
  "has_capability a capability =
     (case a_profile a of
        None \<Rightarrow>
          if capability = HUMAN_FACING_PRIMARY then a_role a = PrimaryRole
          else if capability = IMPLEMENTATION_EXECUTION then a_role a = ImplementationRole
          else False
      | Some profile \<Rightarrow> capability |\<in>| ap_capabilities profile)"

definition actor_validate :: "actor \<Rightarrow> validation_error + unit" where
  "actor_validate a =
     ebind (map_err (error_at ''role'') (role_validate (a_role a))) (\<lambda>_.
     ebind (case a_profile a of
              None \<Rightarrow> Inr ()
            | Some profile \<Rightarrow> map_err (error_at ''profile'') (actor_profile_validate profile)) (\<lambda>_.
     if a_profile a = None then
       (case (a_role a, a_team_id a) of
          (PrimaryRole, None) \<Rightarrow> Inr ()
        | (ImplementationRole, Some _) \<Rightarrow> Inr ()
        | (PrimaryRole, Some _) \<Rightarrow>
            Inl (validation_error_new ''team_id'' Inconsistent
                   ''a legacy Primary actor cannot belong to a team'')
        | (ImplementationRole, None) \<Rightarrow>
            Inl (validation_error_new ''team_id'' Required
                   ''a legacy Implementation actor must belong to a team'')
        | (CustomRole _, _) \<Rightarrow>
            Inl (validation_error_new ''profile'' Required
                   ''a custom role requires configured profile metadata''))
     else Inr ()))"

section \<open>Teams\<close>

datatype team_status = TeamActive | TeamPaused | TeamClosing | TeamClosed | TeamRetired

record team =
  t_team_id :: team_id
  t_workspace_id :: workspace_id
  t_epoch :: team_epoch
  t_status :: team_status
  t_actors :: "actor_id list"
  t_profile :: "team_profile option"

definition team_validate :: "team \<Rightarrow> validation_error + unit" where
  "team_validate t =
     ebind (case t_profile t of
              None \<Rightarrow> Inr ()
            | Some profile \<Rightarrow> map_err (error_at ''profile'') (team_profile_validate profile)) (\<lambda>_.
     validate_count ''actors'' (length (t_actors t)) MAX_DOMAIN_ENTITIES)"

section \<open>Requests and runs\<close>

datatype assignment = Assignment (as_actor: actor_ref) (as_epoch: assignment_epoch)

datatype request_status =
    Open | Assigned | InProgress | Blocked | CandidateReady | ChangesRequested | Accepted
  | IntegrationAuthorized | Cancelled | Completed

definition is_terminal :: "request_status \<Rightarrow> bool" where
  "is_terminal status \<longleftrightarrow> status = Cancelled \<or> status = Completed"

definition request_blocks_team_close :: "request_status \<Rightarrow> bool" where
  "request_blocks_team_close status \<longleftrightarrow>
     status \<notin> {Accepted, IntegrationAuthorized, Cancelled, Completed}"

datatype run_status =
    RunPending | RunActive | RunPaused | RunBlocked | RunAwaitingReview | RunRevisionRequested
  | RunAccepted | RunAuthorized | RunCancelled | RunCompleted

record run =
  r_run_id :: run_id
  r_workspace_id :: workspace_id
  r_team_id :: team_id
  r_team_epoch :: team_epoch
  r_request_id :: request_id
  r_status :: run_status
  r_assignment :: "assignment option"

text \<open>\<open>Candidate\<close>: the exact commit, bound to its request, team and creator.\<close>

datatype candidate =
  Candidate
    (c_request_id: request_id)
    (c_team_id: team_id)
    (c_sha: git_sha)
    (c_created_by: actor_ref)
    (c_created_by_profile: "actor_profile_name option")

datatype request_base_source = BaseDeclared | BaseDerived

datatype request_specification_ref =
  RequestSpecificationRef
    (spec_message_id: message_id)
    (spec_payload_digest: payload_digest)
    (spec_base_sha: git_sha)

datatype review_verdict = VerdictAccepted | VerdictRejected

datatype review_decision_ref =
  ReviewDecisionRef
    (dr_message_id: message_id)
    (dr_payload_digest: payload_digest)
    (dr_decision_id: decision_id)
    (dr_candidate: candidate)
    (dr_verdict: review_verdict)
    (dr_reviewer: actor_ref)
    (dr_policy_revision: policy_revision)

datatype integration_authorization =
  IntegrationAuthorization
    (ia_decision_id: decision_id)
    (ia_candidate: candidate)
    (ia_authorized_by: actor_ref)

record request =
  q_request_id :: request_id
  q_workspace_id :: workspace_id
  q_team_id :: team_id
  q_team_epoch :: team_epoch
  q_run_id :: run_id
  q_specification :: request_specification_ref
  q_status :: request_status
  q_assignment :: "assignment option"
  q_candidate :: "candidate option"
  q_decision :: "review_decision_ref option"
  q_integration_authorization :: "integration_authorization option"
  q_rejection_count :: u64
  q_fix_cycle_depth :: u64
  q_candidate_history :: "candidate list"

section \<open>Lemmas\<close>

lemma is_terminal_not_blocking: "is_terminal st \<Longrightarrow> \<not> request_blocks_team_close st"
  by (auto simp: is_terminal_def request_blocks_team_close_def)

lemma ap_capabilities_validate:
  "actor_profile_validate p = Inr u \<longleftrightarrow> fcard (ap_capabilities p) \<le> MAX_ACTOR_CAPABILITIES"
  by (simp add: actor_profile_validate_def result_simps)

lemma has_capability_cong:
  "a_profile a = a_profile b \<Longrightarrow> a_role a = a_role b \<Longrightarrow> has_capability a c = has_capability b c"
  by (cases "a_profile b") (simp_all add: has_capability_def)

lemma actor_ref_of_simps [simp]:
  "ref_actor_id (actor_ref_of a) = a_actor_id a"
  "ref_actor_epoch (actor_ref_of a) = a_epoch a"
  by (simp_all add: actor_ref_of_def)

lemma actor_ref_of_eq_iff:
  "actor_ref_of a = ref \<longleftrightarrow> a_actor_id a = ref_actor_id ref \<and> a_epoch a = ref_actor_epoch ref"
  by (cases ref) (auto simp: actor_ref_of_def)

lemma trim_of_ascii_roles [simp]:
  "validate_actor_role (of_ascii ''primary'') = Inr ()"
  "validate_actor_role (of_ascii ''implementation'') = Inr ()"
  by code_simp+

end
