(* ===== verification/Messages.thy ===== *)
theory Messages
  imports Domain_Model
begin

text \<open>
  The wire side of \<open>crates/agsv-protocol/src/model.rs\<close>: the eighteen typed payloads, the
  envelope and its validation, message kinds with their close-time disposition, and the compact
  text-free facts (\<open>CausalMessage\<close>) that the aggregate keeps of a message.
\<close>

section \<open>Payloads\<close>

datatype evidence_kind = EvGit | EvTest | EvReview | EvArtifact | EvLog | EvOther

datatype digest_algorithm = Sha256 | Blake3

datatype evidence_digest = EvidenceDigest (ed_algorithm: digest_algorithm) (ed_value: string)

datatype evidence =
  Evidence
    (ev_evidence_id: evidence_id)
    (ev_kind: evidence_kind)
    (ev_digest: evidence_digest)
    (ev_reference: utext)
    (ev_summary: utext)

datatype implementation_request =
  ImplementationRequest
    (ir_title: utext)
    (ir_instructions: utext)
    (ir_base_sha: git_sha)
    (ir_base_source: request_base_source)
    (ir_acceptance_criteria: "utext list")
    (ir_evidence_requirements: "evidence_kind list")

datatype progress_update =
  ProgressUpdate (pu_summary: utext) (pu_percent_complete: "u8 option") (pu_evidence: "evidence list")

datatype blocker_notice =
  BlockerNotice (bn_summary: utext) (bn_needs_primary: bool) (bn_evidence: "evidence list")

datatype candidate_ready =
  CandidateReadyPayload (cr_candidate: candidate) (cr_summary: utext) (cr_evidence: "evidence list")

datatype review_decision =
  ReviewDecision
    (rd_decision_id: decision_id)
    (rd_candidate: candidate)
    (rd_verdict: review_verdict)
    (rd_reviewer: actor_ref)
    (rd_policy_revision: policy_revision)
    (rd_rationale: utext)
    (rd_evidence: "evidence list")

datatype fix_request =
  FixRequest (fr_decision_id: decision_id) (fr_candidate: candidate) (fr_instructions: utext)

datatype qa_outcome = QaPassed | QaFailed

datatype qa_result =
  QaResult
    (qr_candidate: candidate) (qr_outcome: qa_outcome) (qr_summary: utext) (qr_evidence: "evidence list")

datatype cancellation = Cancellation (cn_reason: utext)

datatype run_control_action = ControlPause | ControlResume

datatype run_control = RunControl (rc_action: run_control_action)

datatype primary_directive = PrimaryDirective (pd_decision: utext) (pd_rationale: utext)

datatype consultation_request =
  ConsultationRequest
    (cq_consultation_id: message_id)
    (cq_target_team_id: team_id)
    (cq_subject: utext)
    (cq_question: utext)
    (cq_evidence: "evidence list")

datatype consultation_response =
  ConsultationResponse
    (cs_consultation_id: message_id)
    (cs_responding_team_id: team_id)
    (cs_response: utext)
    (cs_evidence: "evidence list")

datatype dependency_notice =
  DependencyNotice
    (dn_blocked_request_id: request_id)
    (dn_depends_on_request_id: request_id)
    (dn_provider_team_id: team_id)
    (dn_description: utext)

datatype conflict_notice =
  ConflictNotice (cf_other_team_id: team_id) (cf_resources: "utext list") (cf_description: utext)

datatype handoff_offer =
  HandoffOffer
    (ho_handoff_id: handoff_id)
    (ho_request_id: request_id)
    (ho_from_team_id: team_id)
    (ho_to_team_id: team_id)
    (ho_candidate: "candidate option")
    (ho_reason: utext)

datatype handoff_acceptance =
  HandoffAcceptance
    (ha_handoff_id: handoff_id)
    (ha_request_id: request_id)
    (ha_from_team_id: team_id)
    (ha_to_team_id: team_id)
    (ha_accepted_by: actor_ref)

datatype integration_complete =
  IntegrationComplete
    (ic_decision_id: decision_id) (ic_candidate: candidate) (ic_evidence: "evidence list")

datatype message =
    MImplementationRequest implementation_request
  | MProgress progress_update
  | MBlocker blocker_notice
  | MCandidateReady candidate_ready
  | MReviewDecision review_decision
  | MFixRequest fix_request
  | MQaResult qa_result
  | MIntegrationAuthorization integration_authorization
  | MCancellation cancellation
  | MRunControl run_control
  | MDirective primary_directive
  | MConsultationRequest consultation_request
  | MConsultationResponse consultation_response
  | MDependencyNotice dependency_notice
  | MConflictNotice conflict_notice
  | MHandoffOffer handoff_offer
  | MHandoffAcceptance handoff_acceptance
  | MIntegrationComplete integration_complete

section \<open>Payload validation\<close>

definition evidence_digest_validate :: "evidence_digest \<Rightarrow> validation_error + unit" where
  "evidence_digest_validate d =
     (if length (ed_value d) \<noteq> 64 \<or> \<not> list_all is_ascii_hexdigit (ed_value d) then
        Inl (validation_error_new ''value'' InvalidFormat ''must be a 64-digit hexadecimal digest'')
      else Inr ())"

definition evidence_validate :: "evidence \<Rightarrow> validation_error + unit" where
  "evidence_validate e =
     ebind (map_err (error_at ''digest'') (evidence_digest_validate (ev_digest e))) (\<lambda>_.
     ebind (validate_text ''reference'' (ev_reference e) 2048) (\<lambda>_.
     validate_text ''summary'' (ev_summary e) 4096))"

text \<open>\<open>PayloadDigest::validate\<close>\<close>

definition payload_digest_validate :: "payload_digest \<Rightarrow> validation_error + unit" where
  "payload_digest_validate d =
     (if length d \<noteq> 64 \<or>
         \<not> list_all (\<lambda>byte. is_ascii_digit byte \<or> CHR ''a'' \<le> byte \<and> byte \<le> CHR ''f'') d
      then Inl (validation_error_new ''sha256'' InvalidFormat
                  ''must be exactly 64 lowercase hexadecimal digits'')
      else Inr ())"

definition indexed :: "string \<Rightarrow> nat \<Rightarrow> string" where
  "indexed fld i = fld @ ''['' @ show_nat i @ '']''"

definition validate_evidence :: "evidence list \<Rightarrow> validation_error + unit" where
  "validate_evidence es =
     ebind (validate_count ''evidence'' (length es) MAX_EVIDENCE_ITEMS) (\<lambda>_.
     check_all_from 0 (\<lambda>i item. map_err (error_at (indexed ''evidence'' i)) (evidence_validate item)) es)"

definition implementation_request_validate :: "implementation_request \<Rightarrow> validation_error + unit" where
  "implementation_request_validate r =
     ebind (validate_text ''title'' (ir_title r) 256) (\<lambda>_.
     ebind (validate_text ''instructions'' (ir_instructions r) MAX_REQUEST_TEXT_CHARACTERS) (\<lambda>_.
     if ir_acceptance_criteria r = [] then
       Inl (validation_error_new ''acceptance_criteria'' Required
              ''must contain at least one criterion'')
     else
     ebind (validate_count ''acceptance_criteria'' (length (ir_acceptance_criteria r))
              MAX_ACCEPTANCE_CRITERIA) (\<lambda>_.
     ebind (validate_count ''evidence_requirements'' (length (ir_evidence_requirements r))
              MAX_EVIDENCE_REQUIREMENTS) (\<lambda>_.
     check_all_from 0
       (\<lambda>i criterion. validate_text (indexed ''acceptance_criteria'' i) criterion
                       MAX_REQUEST_TEXT_CHARACTERS)
       (ir_acceptance_criteria r)))))"

definition progress_update_validate :: "progress_update \<Rightarrow> validation_error + unit" where
  "progress_update_validate p =
     ebind (validate_text ''summary'' (pu_summary p) 8192) (\<lambda>_.
     if is_some_and (pu_percent_complete p) (\<lambda>value. 100 < value) then
       Inl (validation_error_new ''percent_complete'' OutOfRange ''must be between 0 and 100'')
     else validate_evidence (pu_evidence p))"

definition blocker_notice_validate :: "blocker_notice \<Rightarrow> validation_error + unit" where
  "blocker_notice_validate b =
     ebind (validate_text ''summary'' (bn_summary b) 8192) (\<lambda>_. validate_evidence (bn_evidence b))"

definition candidate_ready_validate :: "candidate_ready \<Rightarrow> validation_error + unit" where
  "candidate_ready_validate c =
     ebind (validate_text ''summary'' (cr_summary c) 8192) (\<lambda>_. validate_evidence (cr_evidence c))"

definition review_decision_validate :: "review_decision \<Rightarrow> validation_error + unit" where
  "review_decision_validate d =
     ebind (validate_text ''rationale'' (rd_rationale d) 16384) (\<lambda>_.
     validate_evidence (rd_evidence d))"

definition fix_request_validate :: "fix_request \<Rightarrow> validation_error + unit" where
  "fix_request_validate f = validate_text ''instructions'' (fr_instructions f) 32768"

definition qa_result_validate :: "qa_result \<Rightarrow> validation_error + unit" where
  "qa_result_validate q =
     ebind (validate_text ''summary'' (qr_summary q) 8192) (\<lambda>_. validate_evidence (qr_evidence q))"

definition cancellation_validate :: "cancellation \<Rightarrow> validation_error + unit" where
  "cancellation_validate c = validate_text ''reason'' (cn_reason c) 8192"

definition primary_directive_validate :: "primary_directive \<Rightarrow> validation_error + unit" where
  "primary_directive_validate d =
     ebind (validate_text ''decision'' (pd_decision d) 8192) (\<lambda>_.
     validate_text ''rationale'' (pd_rationale d) 16384)"

definition consultation_request_validate :: "consultation_request \<Rightarrow> validation_error + unit" where
  "consultation_request_validate c =
     ebind (validate_text ''subject'' (cq_subject c) 256) (\<lambda>_.
     ebind (validate_text ''question'' (cq_question c) 16384) (\<lambda>_.
     validate_evidence (cq_evidence c)))"

definition consultation_response_validate :: "consultation_response \<Rightarrow> validation_error + unit" where
  "consultation_response_validate c =
     ebind (validate_text ''response'' (cs_response c) 16384) (\<lambda>_.
     validate_evidence (cs_evidence c))"

definition dependency_notice_validate :: "dependency_notice \<Rightarrow> validation_error + unit" where
  "dependency_notice_validate d =
     (if dn_blocked_request_id d = dn_depends_on_request_id d then
        Inl (validation_error_new ''depends_on_request_id'' Inconsistent
               ''a request cannot depend on itself'')
      else validate_text ''description'' (dn_description d) 8192)"

definition conflict_notice_validate :: "conflict_notice \<Rightarrow> validation_error + unit" where
  "conflict_notice_validate c =
     (if cf_resources c = [] then
        Inl (validation_error_new ''resources'' Required
               ''must identify at least one conflicting resource'')
      else
      ebind (validate_count ''resources'' (length (cf_resources c)) MAX_CONFLICT_RESOURCES) (\<lambda>_.
      ebind (check_all_from 0 (\<lambda>i resource. validate_text (indexed ''resources'' i) resource 2048)
               (cf_resources c)) (\<lambda>_.
      validate_text ''description'' (cf_description c) 8192)))"

definition handoff_offer_validate :: "handoff_offer \<Rightarrow> validation_error + unit" where
  "handoff_offer_validate h =
     (if ho_from_team_id h = ho_to_team_id h then
        Inl (validation_error_new ''to_team_id'' Inconsistent ''handoff teams must be different'')
      else validate_text ''reason'' (ho_reason h) 8192)"

definition handoff_acceptance_validate :: "handoff_acceptance \<Rightarrow> validation_error + unit" where
  "handoff_acceptance_validate h =
     (if ha_from_team_id h = ha_to_team_id h then
        Inl (validation_error_new ''to_team_id'' Inconsistent ''handoff teams must be different'')
      else Inr ())"

definition integration_complete_validate :: "integration_complete \<Rightarrow> validation_error + unit" where
  "integration_complete_validate c = validate_evidence (ic_evidence c)"

definition message_validate :: "message \<Rightarrow> validation_error + unit" where
  "message_validate m =
     (case m of
        MImplementationRequest value \<Rightarrow> implementation_request_validate value
      | MProgress value \<Rightarrow> progress_update_validate value
      | MBlocker value \<Rightarrow> blocker_notice_validate value
      | MCandidateReady value \<Rightarrow> candidate_ready_validate value
      | MReviewDecision value \<Rightarrow> review_decision_validate value
      | MFixRequest value \<Rightarrow> fix_request_validate value
      | MQaResult value \<Rightarrow> qa_result_validate value
      | MIntegrationAuthorization _ \<Rightarrow> Inr ()
      | MRunControl _ \<Rightarrow> Inr ()
      | MCancellation value \<Rightarrow> cancellation_validate value
      | MDirective value \<Rightarrow> primary_directive_validate value
      | MConsultationRequest value \<Rightarrow> consultation_request_validate value
      | MConsultationResponse value \<Rightarrow> consultation_response_validate value
      | MDependencyNotice value \<Rightarrow> dependency_notice_validate value
      | MConflictNotice value \<Rightarrow> conflict_notice_validate value
      | MHandoffOffer value \<Rightarrow> handoff_offer_validate value
      | MHandoffAcceptance value \<Rightarrow> handoff_acceptance_validate value
      | MIntegrationComplete value \<Rightarrow> integration_complete_validate value)"

end
