(* ===== verification/Envelopes.thy ===== *)
theory Envelopes
  imports Messages
begin

text \<open>
  Envelopes, acknowledgements and the compact causal facts of
  \<open>crates/agsv-protocol/src/model.rs\<close>. The envelope extends its text-free header by the
  message, so \<open>EnvelopeHeader::from\<close> is the truncation of the record.
\<close>

section \<open>Message kinds\<close>

datatype message_kind =
    KImplementationRequest | KProgress | KBlocker | KCandidateReady | KReviewDecision | KFixRequest
  | KQaResult | KIntegrationAuthorization | KCancellation | KRunControl | KDirective
  | KConsultationRequest | KConsultationResponse | KDependencyNotice | KConflictNotice
  | KHandoffOffer | KHandoffAcceptance | KIntegrationComplete

datatype team_close_delivery_disposition = ObsoleteOutcome | RequestLifecycle | ActionRequired

fun team_close_disposition :: "message_kind \<Rightarrow> team_close_delivery_disposition" where
  "team_close_disposition KProgress = ObsoleteOutcome"
| "team_close_disposition KBlocker = ObsoleteOutcome"
| "team_close_disposition KCandidateReady = ObsoleteOutcome"
| "team_close_disposition KReviewDecision = ObsoleteOutcome"
| "team_close_disposition KQaResult = ObsoleteOutcome"
| "team_close_disposition KIntegrationAuthorization = ObsoleteOutcome"
| "team_close_disposition KCancellation = ObsoleteOutcome"
| "team_close_disposition KConsultationResponse = ObsoleteOutcome"
| "team_close_disposition KHandoffAcceptance = ObsoleteOutcome"
| "team_close_disposition KIntegrationComplete = ObsoleteOutcome"
| "team_close_disposition KImplementationRequest = RequestLifecycle"
| "team_close_disposition KFixRequest = RequestLifecycle"
| "team_close_disposition KRunControl = RequestLifecycle"
| "team_close_disposition KDirective = ActionRequired"
| "team_close_disposition KConsultationRequest = ActionRequired"
| "team_close_disposition KDependencyNotice = ActionRequired"
| "team_close_disposition KConflictNotice = ActionRequired"
| "team_close_disposition KHandoffOffer = ActionRequired"

fun message_kind_of :: "message \<Rightarrow> message_kind" where
  "message_kind_of (MImplementationRequest _) = KImplementationRequest"
| "message_kind_of (MProgress _) = KProgress"
| "message_kind_of (MBlocker _) = KBlocker"
| "message_kind_of (MCandidateReady _) = KCandidateReady"
| "message_kind_of (MReviewDecision _) = KReviewDecision"
| "message_kind_of (MFixRequest _) = KFixRequest"
| "message_kind_of (MQaResult _) = KQaResult"
| "message_kind_of (MIntegrationAuthorization _) = KIntegrationAuthorization"
| "message_kind_of (MCancellation _) = KCancellation"
| "message_kind_of (MRunControl _) = KRunControl"
| "message_kind_of (MDirective _) = KDirective"
| "message_kind_of (MConsultationRequest _) = KConsultationRequest"
| "message_kind_of (MConsultationResponse _) = KConsultationResponse"
| "message_kind_of (MDependencyNotice _) = KDependencyNotice"
| "message_kind_of (MConflictNotice _) = KConflictNotice"
| "message_kind_of (MHandoffOffer _) = KHandoffOffer"
| "message_kind_of (MHandoffAcceptance _) = KHandoffAcceptance"
| "message_kind_of (MIntegrationComplete _) = KIntegrationComplete"

definition requires_request_context :: "message \<Rightarrow> bool" where
  "requires_request_context m =
     (case m of
        MDirective _ \<Rightarrow> False
      | MConsultationRequest _ \<Rightarrow> False
      | MConsultationResponse _ \<Rightarrow> False
      | MConflictNotice _ \<Rightarrow> False
      | _ \<Rightarrow> True)"

fun message_candidate :: "message \<Rightarrow> candidate option" where
  "message_candidate (MCandidateReady value) = Some (cr_candidate value)"
| "message_candidate (MReviewDecision value) = Some (rd_candidate value)"
| "message_candidate (MFixRequest value) = Some (fr_candidate value)"
| "message_candidate (MQaResult value) = Some (qr_candidate value)"
| "message_candidate (MIntegrationAuthorization value) = Some (ia_candidate value)"
| "message_candidate (MIntegrationComplete value) = Some (ic_candidate value)"
| "message_candidate (MHandoffOffer value) = ho_candidate value"
| "message_candidate _ = None"

definition is_directive :: "message \<Rightarrow> bool" where
  "is_directive m = (case m of MDirective _ \<Rightarrow> True | _ \<Rightarrow> False)"

section \<open>Envelopes\<close>

datatype message_target = TargetPrimary | TargetTeam team_id | TargetActor actor_id | TargetWorkspace

record envelope_header =
  e_protocol_version :: u32
  e_message_id :: message_id
  e_workspace_id :: workspace_id
  e_sender :: actor_ref
  e_target :: message_target
  e_team_id :: "team_id option"
  e_run_id :: "run_id option"
  e_request_id :: "request_id option"
  e_policy_revision :: policy_revision
  e_primary_epoch :: primary_epoch
  e_team_epoch :: "team_epoch option"
  e_assignment_epoch :: "assignment_epoch option"
  e_sent_at :: timestamp_millis

record envelope = envelope_header +
  e_message :: message

definition header_of :: "envelope \<Rightarrow> envelope_header" where
  "header_of env = envelope_header.truncate env"

definition with_message :: "envelope_header \<Rightarrow> message \<Rightarrow> envelope" where
  "with_message h m = envelope_header.extend h (envelope.fields m)"

definition envelope_validate :: "envelope \<Rightarrow> validation_error + unit" where
  "envelope_validate env =
     (if e_protocol_version env \<noteq> PROTOCOL_VERSION then
        Inl (validation_error_new ''protocol_version'' UnsupportedVersion
               (''expected protocol version '' @ show_nat (unat PROTOCOL_VERSION)))
      else
      ebind (case (e_team_id env, e_team_epoch env) of
               (Some _, Some _) \<Rightarrow> Inr ()
             | (None, None) \<Rightarrow> Inr ()
             | (Some _, None) \<Rightarrow>
                 Inl (validation_error_new ''team_epoch'' Required
                        ''team context requires a team epoch'')
             | (None, Some _) \<Rightarrow>
                 Inl (validation_error_new ''team_epoch'' Inconsistent
                        ''team epoch requires a team context'')) (\<lambda>_.
      ebind (case (e_request_id env, e_run_id env) of
               (Some _, Some _) \<Rightarrow> Inr ()
             | (None, None) \<Rightarrow> Inr ()
             | (Some _, None) \<Rightarrow>
                 Inl (validation_error_new ''run_id'' Required ''request context requires a run id'')
             | (None, Some _) \<Rightarrow>
                 Inl (validation_error_new ''request_id'' Required
                        ''run context requires a request id'')) (\<lambda>_.
      if requires_request_context (e_message env) \<and>
         (e_request_id env = None \<or> e_run_id env = None) then
        Inl (validation_error_new ''request_id'' Required
               ''this message requires request and run context'')
      else if is_directive (e_message env) \<and> e_team_id env = None then
        Inl (validation_error_new ''team_id'' Required ''a Primary directive requires team context'')
      else if is_directive (e_message env) \<and> e_assignment_epoch env \<noteq> None then
        Inl (validation_error_new ''assignment_epoch'' Inconsistent
               ''a Primary directive is fenced by Primary, policy, team, and request context'')
      else if e_assignment_epoch env \<noteq> None \<and> e_request_id env = None then
        Inl (validation_error_new ''assignment_epoch'' Inconsistent
               ''assignment epoch requires request context'')
      else
      ebind (case (e_request_id env, message_candidate (e_message env)) of
               (Some request_id, Some candidate) \<Rightarrow>
                 if c_request_id candidate \<noteq> request_id then
                   Inl (validation_error_new ''message.candidate.request_id'' Inconsistent
                          ''candidate does not match envelope request'')
                 else Inr ()
             | _ \<Rightarrow> Inr ()) (\<lambda>_.
      map_err (error_at ''message'') (message_validate (e_message env))))))"

datatype acknowledgement =
  Acknowledgement
    (ak_workspace_id: workspace_id)
    (ak_message_id: message_id)
    (ak_actor: actor_ref)
    (ak_acknowledged_at: timestamp_millis)

section \<open>Recipients and retirement\<close>

datatype delivery_recipient =
    RecipientPrimary
  | RecipientActor (dra_actor: actor_ref) (dra_team_epoch: team_epoch)

datatype delivery_retirement_reason =
    TeamClosedReason team_id team_epoch
  | TeamGenerationSuperseded team_id team_epoch

section \<open>Compact facts of a message\<close>

datatype handoff_offer_ref =
  HandoffOfferRef
    (hr_message_id: message_id)
    (hr_payload_digest: payload_digest)
    (hr_handoff_id: handoff_id)
    (hr_request_id: request_id)
    (hr_from_team_id: team_id)
    (hr_to_team_id: team_id)
    (hr_candidate: "candidate option")

datatype causal_message =
    CausalImplementationRequest git_sha request_base_source
  | CausalProgress
  | CausalBlocker
  | CausalCandidateReady candidate
  | CausalReviewDecision review_decision_ref
  | CausalFixRequest decision_id candidate
  | CausalQaResult candidate qa_outcome
  | CausalIntegrationAuthorization integration_authorization
  | CausalCancellation
  | CausalRunControl run_control_action
  | CausalDirective
  | CausalConsultationRequest message_id team_id
  | CausalConsultationResponse message_id team_id
  | CausalDependencyNotice request_id request_id team_id
  | CausalConflictNotice team_id
  | CausalHandoffOffer handoff_offer_ref
  | CausalHandoffAcceptance handoff_acceptance
  | CausalIntegrationComplete decision_id candidate

end
