(* ===== verification/Causal.thy ===== *)
theory Causal
  imports Envelopes
begin

text \<open>
  \<open>causal_message\<close> and \<open>replay_message\<close> of \<open>crates/agsv-core/src/supervisor.rs\<close>: the
  projection of a payload to the facts that replay needs, and the placeholder payload that
  replay validates in its stead.
\<close>

section \<open>Projection and placeholder\<close>

fun causal_message_of :: "message_id \<Rightarrow> payload_digest \<Rightarrow> message \<Rightarrow> causal_message" where
  "causal_message_of mid digest (MImplementationRequest spec) =
     CausalImplementationRequest (ir_base_sha spec) (ir_base_source spec)"
| "causal_message_of mid digest (MProgress _) = CausalProgress"
| "causal_message_of mid digest (MBlocker _) = CausalBlocker"
| "causal_message_of mid digest (MCandidateReady ready) = CausalCandidateReady (cr_candidate ready)"
| "causal_message_of mid digest (MReviewDecision decision) =
     CausalReviewDecision
       (ReviewDecisionRef mid digest (rd_decision_id decision) (rd_candidate decision)
          (rd_verdict decision) (rd_reviewer decision) (rd_policy_revision decision))"
| "causal_message_of mid digest (MFixRequest fix) =
     CausalFixRequest (fr_decision_id fix) (fr_candidate fix)"
| "causal_message_of mid digest (MQaResult result) =
     CausalQaResult (qr_candidate result) (qr_outcome result)"
| "causal_message_of mid digest (MIntegrationAuthorization authorization) =
     CausalIntegrationAuthorization authorization"
| "causal_message_of mid digest (MCancellation _) = CausalCancellation"
| "causal_message_of mid digest (MRunControl control) = CausalRunControl (rc_action control)"
| "causal_message_of mid digest (MDirective _) = CausalDirective"
| "causal_message_of mid digest (MConsultationRequest request) =
     CausalConsultationRequest (cq_consultation_id request) (cq_target_team_id request)"
| "causal_message_of mid digest (MConsultationResponse response) =
     CausalConsultationResponse (cs_consultation_id response) (cs_responding_team_id response)"
| "causal_message_of mid digest (MDependencyNotice notice) =
     CausalDependencyNotice (dn_blocked_request_id notice) (dn_depends_on_request_id notice)
       (dn_provider_team_id notice)"
| "causal_message_of mid digest (MConflictNotice notice) =
     CausalConflictNotice (cf_other_team_id notice)"
| "causal_message_of mid digest (MHandoffOffer offer) =
     CausalHandoffOffer
       (HandoffOfferRef mid digest (ho_handoff_id offer) (ho_request_id offer)
          (ho_from_team_id offer) (ho_to_team_id offer) (ho_candidate offer))"
| "causal_message_of mid digest (MHandoffAcceptance acceptance) = CausalHandoffAcceptance acceptance"
| "causal_message_of mid digest (MIntegrationComplete complete) =
     CausalIntegrationComplete (ic_decision_id complete) (ic_candidate complete)"

definition archived_text :: utext where
  "archived_text = of_ascii ''archived compact payload''"

fun replay_message :: "causal_message \<Rightarrow> message" where
  "replay_message (CausalImplementationRequest base_sha base_source) =
     MImplementationRequest
       (ImplementationRequest archived_text archived_text base_sha base_source [archived_text] [])"
| "replay_message CausalProgress = MProgress (ProgressUpdate archived_text None [])"
| "replay_message CausalBlocker = MBlocker (BlockerNotice archived_text True [])"
| "replay_message (CausalCandidateReady candidate) =
     MCandidateReady (CandidateReadyPayload candidate archived_text [])"
| "replay_message (CausalReviewDecision decision) =
     MReviewDecision
       (ReviewDecision (dr_decision_id decision) (dr_candidate decision) (dr_verdict decision)
          (dr_reviewer decision) (dr_policy_revision decision) archived_text [])"
| "replay_message (CausalFixRequest decision_id candidate) =
     MFixRequest (FixRequest decision_id candidate archived_text)"
| "replay_message (CausalQaResult candidate outcome) =
     MQaResult (QaResult candidate outcome archived_text [])"
| "replay_message (CausalIntegrationAuthorization value) = MIntegrationAuthorization value"
| "replay_message CausalCancellation = MCancellation (Cancellation archived_text)"
| "replay_message (CausalRunControl action) = MRunControl (RunControl action)"
| "replay_message CausalDirective = MDirective (PrimaryDirective archived_text archived_text)"
| "replay_message (CausalConsultationRequest consultation_id target_team_id) =
     MConsultationRequest
       (ConsultationRequest consultation_id target_team_id archived_text archived_text [])"
| "replay_message (CausalConsultationResponse consultation_id responding_team_id) =
     MConsultationResponse
       (ConsultationResponse consultation_id responding_team_id archived_text [])"
| "replay_message (CausalDependencyNotice blocked depends provider) =
     MDependencyNotice (DependencyNotice blocked depends provider archived_text)"
| "replay_message (CausalConflictNotice other_team_id) =
     MConflictNotice (ConflictNotice other_team_id [archived_text] archived_text)"
| "replay_message (CausalHandoffOffer offer) =
     MHandoffOffer
       (HandoffOffer (hr_handoff_id offer) (hr_request_id offer) (hr_from_team_id offer)
          (hr_to_team_id offer) (hr_candidate offer) archived_text)"
| "replay_message (CausalHandoffAcceptance value) = MHandoffAcceptance value"
| "replay_message (CausalIntegrationComplete decision_id candidate) =
     MIntegrationComplete (IntegrationComplete decision_id candidate [])"

fun causal_kind :: "causal_message \<Rightarrow> message_kind" where
  "causal_kind (CausalImplementationRequest _ _) = KImplementationRequest"
| "causal_kind CausalProgress = KProgress"
| "causal_kind CausalBlocker = KBlocker"
| "causal_kind (CausalCandidateReady _) = KCandidateReady"
| "causal_kind (CausalReviewDecision _) = KReviewDecision"
| "causal_kind (CausalFixRequest _ _) = KFixRequest"
| "causal_kind (CausalQaResult _ _) = KQaResult"
| "causal_kind (CausalIntegrationAuthorization _) = KIntegrationAuthorization"
| "causal_kind CausalCancellation = KCancellation"
| "causal_kind (CausalRunControl _) = KRunControl"
| "causal_kind CausalDirective = KDirective"
| "causal_kind (CausalConsultationRequest _ _) = KConsultationRequest"
| "causal_kind (CausalConsultationResponse _ _) = KConsultationResponse"
| "causal_kind (CausalDependencyNotice _ _ _) = KDependencyNotice"
| "causal_kind (CausalConflictNotice _) = KConflictNotice"
| "causal_kind (CausalHandoffOffer _) = KHandoffOffer"
| "causal_kind (CausalHandoffAcceptance _) = KHandoffAcceptance"
| "causal_kind (CausalIntegrationComplete _ _) = KIntegrationComplete"

text \<open>The content-reference test of \<open>validate_causal_content_ref\<close>.\<close>

definition causal_content_ref_valid :: "message_id \<Rightarrow> payload_digest \<Rightarrow> causal_message \<Rightarrow> bool" where
  "causal_content_ref_valid mid digest causal =
     (case causal of
        CausalReviewDecision r \<Rightarrow> dr_message_id r = mid \<and> dr_payload_digest r = digest
      | CausalHandoffOffer r \<Rightarrow> hr_message_id r = mid \<and> hr_payload_digest r = digest
      | _ \<Rightarrow> True)"

section \<open>Lemmas\<close>

lemma causal_kind_of: "causal_kind (causal_message_of mid digest m) = message_kind_of m"
  by (cases m) simp_all

lemma kind_replay: "message_kind_of (replay_message c) = causal_kind c"
  by (cases c) simp_all

lemma causal_content_ref_valid_of:
  "causal_content_ref_valid mid digest (causal_message_of mid digest m)"
  by (cases m) (simp_all add: causal_content_ref_valid_def)

lemma decision_ref_rebuilt_iff:
  "ReviewDecisionRef mid digest (dr_decision_id r) (dr_candidate r) (dr_verdict r) (dr_reviewer r)
     (dr_policy_revision r) = r \<longleftrightarrow> dr_message_id r = mid \<and> dr_payload_digest r = digest"
  by (cases r) auto

lemma offer_ref_rebuilt_iff:
  "HandoffOfferRef mid digest (hr_handoff_id r) (hr_request_id r) (hr_from_team_id r)
     (hr_to_team_id r) (hr_candidate r) = r \<longleftrightarrow>
   hr_message_id r = mid \<and> hr_payload_digest r = digest"
  by (cases r) auto

lemma causal_of_replay:
  "causal_message_of mid digest (replay_message c) = c \<longleftrightarrow> causal_content_ref_valid mid digest c"
  by (cases c)
    (simp_all add: causal_content_ref_valid_def decision_ref_rebuilt_iff offer_ref_rebuilt_iff)

lemma archived_text_valid:
  assumes "24 \<le> m"
  shows "validate_text fld archived_text m = Inr ()"
proof -
  have "trim archived_text \<noteq> []" "length archived_text = 24"
    by code_simp+
  with assms show ?thesis
    by (simp add: validate_text_Inr_iff)
qed

lemma no_evidence_valid: "validate_evidence [] = Inr ()"
  by (simp add: validate_evidence_def MAX_EVIDENCE_ITEMS_def validate_count_def)

lemmas payload_validate_defs =
  message_validate_def implementation_request_validate_def progress_update_validate_def
  blocker_notice_validate_def candidate_ready_validate_def review_decision_validate_def
  fix_request_validate_def qa_result_validate_def cancellation_validate_def
  primary_directive_validate_def consultation_request_validate_def
  consultation_response_validate_def dependency_notice_validate_def conflict_notice_validate_def
  handoff_offer_validate_def handoff_acceptance_validate_def integration_complete_validate_def

lemmas payload_bounds =
  MAX_REQUEST_TEXT_CHARACTERS_def MAX_ACCEPTANCE_CRITERIA_def MAX_EVIDENCE_REQUIREMENTS_def
  MAX_CONFLICT_RESOURCES_def

lemma replay_message_valid:
  assumes "message_validate m = Inr ()"
  shows "message_validate (replay_message (causal_message_of mid digest m)) = Inr ()"
  using assms
  by (cases m)
    (simp_all add: payload_validate_defs payload_bounds archived_text_valid no_evidence_valid
      validate_count_Inr_iff ebind_Inr_iff split: if_splits)

lemma requires_request_context_replay:
  "requires_request_context (replay_message (causal_message_of mid digest m)) =
     requires_request_context m"
  by (cases m) (simp_all add: requires_request_context_def)

lemma is_directive_replay:
  "is_directive (replay_message (causal_message_of mid digest m)) = is_directive m"
  by (cases m) (simp_all add: is_directive_def)

lemma message_candidate_replay:
  "message_candidate (replay_message (causal_message_of mid digest m)) = message_candidate m"
  by (cases m) simp_all

lemma header_of_simps [simp]:
  "e_protocol_version (header_of env) = e_protocol_version env"
  "e_message_id (header_of env) = e_message_id env"
  "e_workspace_id (header_of env) = e_workspace_id env"
  "e_sender (header_of env) = e_sender env"
  "e_target (header_of env) = e_target env"
  "e_team_id (header_of env) = e_team_id env"
  "e_run_id (header_of env) = e_run_id env"
  "e_request_id (header_of env) = e_request_id env"
  "e_policy_revision (header_of env) = e_policy_revision env"
  "e_primary_epoch (header_of env) = e_primary_epoch env"
  "e_team_epoch (header_of env) = e_team_epoch env"
  "e_assignment_epoch (header_of env) = e_assignment_epoch env"
  "e_sent_at (header_of env) = e_sent_at env"
  by (simp_all add: header_of_def envelope_header.truncate_def)

lemma with_message_simps [simp]:
  "header_of (with_message h m) = h"
  "e_message (with_message h m) = m"
  "e_team_id (with_message h m) = e_team_id h"
  "e_team_epoch (with_message h m) = e_team_epoch h"
  "e_request_id (with_message h m) = e_request_id h"
  "e_run_id (with_message h m) = e_run_id h"
  "e_assignment_epoch (with_message h m) = e_assignment_epoch h"
  "e_protocol_version (with_message h m) = e_protocol_version h"
  by (simp_all add: header_of_def with_message_def envelope_header.defs envelope.defs)

lemma with_message_header_of [simp]: "with_message (header_of env) (e_message env) = env"
  by (simp add: header_of_def with_message_def envelope_header.defs envelope.defs)

lemma envelope_validate_replay:
  assumes "envelope_validate env = Inr ()"
  shows "envelope_validate
    (with_message (header_of env)
       (replay_message (causal_message_of mid digest (e_message env)))) = Inr ()"
  using assms
  by (auto simp: envelope_validate_def requires_request_context_replay is_directive_replay
      message_candidate_replay result_simps replay_message_valid split: option.splits)

text \<open>What an envelope that passed validation satisfies.\<close>

lemma envelope_validateD:
  assumes "envelope_validate env = Inr u"
  shows "e_team_id env \<noteq> None \<longleftrightarrow> e_team_epoch env \<noteq> None"
    and "e_request_id env \<noteq> None \<longleftrightarrow> e_run_id env \<noteq> None"
    and "requires_request_context (e_message env) \<Longrightarrow> e_request_id env \<noteq> None"
    and "message_validate (e_message env) = Inr ()"
  using assms
  by (auto simp: envelope_validate_def result_simps split: option.splits if_splits)

end
