(* ===== verification/Core_Error.thy ===== *)
theory Core_Error
  imports Causal
begin

text \<open>
  \<open>crates/agsv-core/src/error.rs\<close>: the failures of the aggregate.

  A Rust function of the aggregate ends in one of three ways: with a value, with a
  \<open>CoreError\<close>, or in a panic (\<open>expect\<close>). The last two are the two constructors of
  \<open>failure\<close>, so that a panic is a visible outcome that the theorems have to exclude.
\<close>

datatype core_error =
    Validation validation_error
  | WrongWorkspace workspace_id workspace_id
  | DuplicateMessageConflict
  | UnknownActor actor_id
  | StaleActorEpoch actor_epoch actor_epoch
  | ActorNotHealthy actor_id
  | NoActivePrimary
  | NotActivePrimary actor_id
  | StalePrimaryEpoch primary_epoch primary_epoch
  | StalePolicyRevision policy_revision policy_revision
  | UnknownTeam team_id
  | StaleTeamEpoch team_epoch team_epoch
  | WrongTeam
  | UnknownRequest request_id
  | UnknownRun run_id
  | WrongRequestContext
  | StaleAssignmentEpoch assignment_epoch "assignment_epoch option"
  | NotAssignedActor
  | Unauthorized string
  | WrongTarget
  | InvalidTransition string string string
  | AlreadyExists string
  | CandidateMismatch "git_sha option" git_sha
  | CandidateMustChange
  | DecisionMismatch
  | UnknownHandoff
  | UnknownMessage
  | AckNotAuthorized
  | DuplicateAcknowledgementConflict
  | QuotaExceeded string nat
  | EpochExhausted
  | InvalidSnapshot string string

datatype failure = Err core_error | Panic string

text \<open>Rust's \<open>expect\<close>.\<close>

definition expect :: "'a option \<Rightarrow> string \<Rightarrow> failure + 'a" where
  "expect x msg = ok_or x (Panic msg)"

definition quota :: "string \<Rightarrow> nat \<Rightarrow> failure" where
  "quota resource maximum = Err (QuotaExceeded resource maximum)"

definition is_panic :: "failure \<Rightarrow> bool" where
  "is_panic f = (case f of Panic _ \<Rightarrow> True | Err _ \<Rightarrow> False)"

lemma expect_Inr_iff [result_simps]: "expect x msg = Inr y \<longleftrightarrow> x = Some y"
  by (simp add: expect_def result_simps)

lemma expect_Inl_iff: "expect x msg = Inl f \<longleftrightarrow> x = None \<and> f = Panic msg"
  by (auto simp: expect_def ok_or_Inl_iff)

lemma expect_simps [simp]:
  "expect (Some y) msg = Inr y"
  "expect None msg = Inl (Panic msg)"
  by (simp_all add: expect_def)

lemma is_panic_simps [simp]:
  "is_panic (Panic m)"
  "\<not> is_panic (Err e)"
  "\<not> is_panic (quota r n)"
  by (simp_all add: is_panic_def quota_def)

end
