(* ===== verification/Transitions.thy ===== *)
theory Transitions
  imports Core_Error "HOL-Library.Sublist"
begin

text \<open>
  \<open>crates/agsv-core/src/transitions.rs\<close>: the four pure lifecycle machines (request, run,
  actor, team), and what they promise together as an interface, the locale
  \<open>lifecycle\<close>: a repeated event is absorbed by its own result, and a final state is never
  left.
\<close>

section \<open>Requests\<close>

datatype request_event =
    EvAssign | EvStart | EvBlock | EvSubmitCandidate | EvRejectCandidate | EvAcceptCandidate
  | EvAuthorizeIntegration | EvComplete | EvCancel

fun request_event_name :: "request_event \<Rightarrow> string" where
  "request_event_name EvAssign = ''assign''"
| "request_event_name EvStart = ''start''"
| "request_event_name EvBlock = ''block''"
| "request_event_name EvSubmitCandidate = ''submit_candidate''"
| "request_event_name EvRejectCandidate = ''reject_candidate''"
| "request_event_name EvAcceptCandidate = ''accept_candidate''"
| "request_event_name EvAuthorizeIntegration = ''authorize_integration''"
| "request_event_name EvComplete = ''complete''"
| "request_event_name EvCancel = ''cancel''"

text \<open>The \<open>Debug\<close> form of a status, as it appears in the transition error.\<close>

fun debug_request_status :: "request_status \<Rightarrow> string" where
  "debug_request_status Open = ''Open''"
| "debug_request_status Assigned = ''Assigned''"
| "debug_request_status InProgress = ''InProgress''"
| "debug_request_status Blocked = ''Blocked''"
| "debug_request_status CandidateReady = ''CandidateReady''"
| "debug_request_status ChangesRequested = ''ChangesRequested''"
| "debug_request_status Accepted = ''Accepted''"
| "debug_request_status IntegrationAuthorized = ''IntegrationAuthorized''"
| "debug_request_status Cancelled = ''Cancelled''"
| "debug_request_status Completed = ''Completed''"

definition transition_request :: "request_status \<Rightarrow> request_event \<Rightarrow> core_error + request_status" where
  "transition_request current event =
     (let refused = Inl (InvalidTransition ''request'' (debug_request_status current)
                           (request_event_name event)) in
      case event of
        EvAssign \<Rightarrow> if current \<in> {Open, Assigned} then Inr Assigned else refused
      | EvStart \<Rightarrow>
          if current \<in> {Assigned, InProgress, Blocked, ChangesRequested} then Inr InProgress
          else refused
      | EvBlock \<Rightarrow>
          if current \<in> {Assigned, InProgress, Blocked, ChangesRequested} then Inr Blocked
          else refused
      | EvSubmitCandidate \<Rightarrow>
          if current \<in> {Assigned, InProgress, Blocked, ChangesRequested, CandidateReady}
          then Inr CandidateReady else refused
      | EvRejectCandidate \<Rightarrow>
          if current \<in> {CandidateReady, ChangesRequested} then Inr ChangesRequested else refused
      | EvAcceptCandidate \<Rightarrow>
          if current \<in> {CandidateReady, Accepted} then Inr Accepted else refused
      | EvAuthorizeIntegration \<Rightarrow>
          if current \<in> {Accepted, IntegrationAuthorized} then Inr IntegrationAuthorized else refused
      | EvComplete \<Rightarrow>
          if current \<in> {IntegrationAuthorized, Completed} then Inr Completed else refused
      | EvCancel \<Rightarrow>
          if current = Cancelled then Inr Cancelled
          else if \<not> is_terminal current then Inr Cancelled
          else refused)"

section \<open>Runs\<close>

datatype run_event =
    RevStart | RevPause | RevResume | RevBlock | RevSubmitCandidate | RevRejectCandidate
  | RevAcceptCandidate | RevAuthorizeIntegration | RevComplete | RevCancel

fun run_event_name :: "run_event \<Rightarrow> string" where
  "run_event_name RevStart = ''start''"
| "run_event_name RevPause = ''pause''"
| "run_event_name RevResume = ''resume''"
| "run_event_name RevBlock = ''block''"
| "run_event_name RevSubmitCandidate = ''submit_candidate''"
| "run_event_name RevRejectCandidate = ''reject_candidate''"
| "run_event_name RevAcceptCandidate = ''accept_candidate''"
| "run_event_name RevAuthorizeIntegration = ''authorize_integration''"
| "run_event_name RevComplete = ''complete''"
| "run_event_name RevCancel = ''cancel''"

fun debug_run_status :: "run_status \<Rightarrow> string" where
  "debug_run_status RunPending = ''Pending''"
| "debug_run_status RunActive = ''Active''"
| "debug_run_status RunPaused = ''Paused''"
| "debug_run_status RunBlocked = ''Blocked''"
| "debug_run_status RunAwaitingReview = ''AwaitingReview''"
| "debug_run_status RunRevisionRequested = ''RevisionRequested''"
| "debug_run_status RunAccepted = ''Accepted''"
| "debug_run_status RunAuthorized = ''Authorized''"
| "debug_run_status RunCancelled = ''Cancelled''"
| "debug_run_status RunCompleted = ''Completed''"

definition transition_run :: "run_status \<Rightarrow> run_event \<Rightarrow> core_error + run_status" where
  "transition_run current event =
     (let refused = Inl (InvalidTransition ''run'' (debug_run_status current)
                           (run_event_name event)) in
      case event of
        RevStart \<Rightarrow> if current \<in> {RunPending, RunActive} then Inr RunActive else refused
      | RevResume \<Rightarrow>
          if current \<in> {RunPaused, RunBlocked, RunRevisionRequested, RunActive} then Inr RunActive
          else refused
      | RevPause \<Rightarrow> if current \<in> {RunActive, RunPaused} then Inr RunPaused else refused
      | RevBlock \<Rightarrow> if current \<in> {RunActive, RunBlocked} then Inr RunBlocked else refused
      | RevSubmitCandidate \<Rightarrow>
          if current \<in> {RunActive, RunBlocked, RunAwaitingReview, RunRevisionRequested}
          then Inr RunAwaitingReview else refused
      | RevRejectCandidate \<Rightarrow>
          if current \<in> {RunAwaitingReview, RunRevisionRequested} then Inr RunRevisionRequested
          else refused
      | RevAcceptCandidate \<Rightarrow>
          if current \<in> {RunAwaitingReview, RunAccepted} then Inr RunAccepted else refused
      | RevAuthorizeIntegration \<Rightarrow>
          if current \<in> {RunAccepted, RunAuthorized} then Inr RunAuthorized else refused
      | RevComplete \<Rightarrow>
          if current \<in> {RunAuthorized, RunCompleted} then Inr RunCompleted else refused
      | RevCancel \<Rightarrow>
          if current = RunCancelled then Inr RunCancelled
          else if current \<notin> {RunCancelled, RunCompleted} then Inr RunCancelled
          else refused)"

section \<open>Actors and teams\<close>

fun debug_actor_status :: "actor_status \<Rightarrow> string" where
  "debug_actor_status ActorStarting = ''Starting''"
| "debug_actor_status ActorHealthy = ''Healthy''"
| "debug_actor_status ActorStale = ''Stale''"
| "debug_actor_status ActorRevoked = ''Revoked''"
| "debug_actor_status ActorStopped = ''Stopped''"

fun actor_status_event :: "actor_status \<Rightarrow> string" where
  "actor_status_event ActorStarting = ''starting''"
| "actor_status_event ActorHealthy = ''healthy''"
| "actor_status_event ActorStale = ''stale''"
| "actor_status_event ActorRevoked = ''revoked''"
| "actor_status_event ActorStopped = ''stopped''"

definition transition_actor :: "actor_status \<Rightarrow> actor_status \<Rightarrow> core_error + actor_status" where
  "transition_actor current nxt =
     (if current = nxt then Inr current
      else if current \<in> {ActorStarting, ActorStale} \<and> nxt \<in> {ActorHealthy, ActorRevoked, ActorStopped}
           \<or> current = ActorHealthy \<and> nxt \<in> {ActorStale, ActorRevoked, ActorStopped}
           \<or> current = ActorRevoked \<and> nxt = ActorStopped
      then Inr nxt
      else Inl (InvalidTransition ''actor'' (debug_actor_status current) (actor_status_event nxt)))"

fun debug_team_status :: "team_status \<Rightarrow> string" where
  "debug_team_status TeamActive = ''Active''"
| "debug_team_status TeamPaused = ''Paused''"
| "debug_team_status TeamClosing = ''Closing''"
| "debug_team_status TeamClosed = ''Closed''"
| "debug_team_status TeamRetired = ''Retired''"

fun team_status_event :: "team_status \<Rightarrow> string" where
  "team_status_event TeamActive = ''active''"
| "team_status_event TeamPaused = ''paused''"
| "team_status_event TeamClosing = ''closing''"
| "team_status_event TeamClosed = ''closed''"
| "team_status_event TeamRetired = ''retired''"

definition transition_team :: "team_status \<Rightarrow> team_status \<Rightarrow> core_error + team_status" where
  "transition_team current nxt =
     (if current = nxt then Inr current
      else if current = TeamActive \<and> nxt \<in> {TeamPaused, TeamClosing}
           \<or> current = TeamPaused \<and> nxt \<in> {TeamActive, TeamClosing}
           \<or> current = TeamClosing \<and> nxt = TeamClosed
      then Inr nxt
      else Inl (InvalidTransition ''team'' (debug_team_status current) (team_status_event nxt)))"

text \<open>\<open>run_status_matches_request\<close> of \<open>supervisor.rs\<close>.\<close>

definition run_status_matches_request :: "run_status \<Rightarrow> request_status \<Rightarrow> bool" where
  "run_status_matches_request r q =
     (case q of
        Open \<Rightarrow> r = RunPending
      | Assigned \<Rightarrow> r \<in> {RunActive, RunPaused}
      | InProgress \<Rightarrow> r \<in> {RunActive, RunPaused}
      | Blocked \<Rightarrow> r \<in> {RunBlocked, RunPaused}
      | CandidateReady \<Rightarrow> r = RunAwaitingReview
      | ChangesRequested \<Rightarrow> r = RunRevisionRequested
      | Accepted \<Rightarrow> r = RunAccepted
      | IntegrationAuthorized \<Rightarrow> r = RunAuthorized
      | Cancelled \<Rightarrow> r = RunCancelled
      | Completed \<Rightarrow> r = RunCompleted)"

end
