(* ===== verification/Lifecycle.thy ===== *)
theory Lifecycle
  imports Transitions
begin

text \<open>
  What the lifecycle machines of \<open>Transitions\<close> guarantee. The locale \<open>lifecycle\<close> is
  the contract that the aggregate relies on; it is interpreted on all four machines.
\<close>

section \<open>Runs of a machine\<close>

text \<open>A machine driven by a list of events; a refused event leaves the state as it is.\<close>

fun drive :: "('s \<Rightarrow> 'ev \<Rightarrow> 'e + 's) \<Rightarrow> 's \<Rightarrow> 'ev list \<Rightarrow> 's" where
  "drive step s [] = s"
| "drive step s (ev # evs) =
     (case step s ev of Inl _ \<Rightarrow> drive step s evs | Inr t \<Rightarrow> drive step t evs)"

lemma drive_append: "drive step s (xs @ ys) = drive step (drive step s xs) ys"
  by (induction xs arbitrary: s) (auto split: sum.splits)

section \<open>The contract\<close>

locale lifecycle =
  fixes step :: "'s \<Rightarrow> 'ev \<Rightarrow> 'e + 's"
    and final :: "'s \<Rightarrow> bool"
  assumes repeat_absorbed: "step s ev = Inr t \<Longrightarrow> step t ev = Inr t"
    and final_kept: "final s \<Longrightarrow> step s ev = Inr t \<Longrightarrow> t = s"
begin

lemma drive_final: "final s \<Longrightarrow> drive step s evs = s"
  by (induction evs) (auto split: sum.splits dest: final_kept)

lemma drive_final_append: "final (drive step s xs) \<Longrightarrow> drive step s (xs @ ys) = drive step s xs"
  by (simp add: drive_append drive_final)

lemma drive_repeat: "drive step s (ev # ev # evs) = drive step s (ev # evs)"
  by (auto split: sum.splits dest: repeat_absorbed)

end

definition run_final :: "run_status \<Rightarrow> bool" where
  "run_final r \<longleftrightarrow> r = RunCancelled \<or> r = RunCompleted"

definition actor_final :: "actor_status \<Rightarrow> bool" where
  "actor_final a \<longleftrightarrow> a = ActorStopped"

definition team_final :: "team_status \<Rightarrow> bool" where
  "team_final t \<longleftrightarrow> t = TeamClosed \<or> t = TeamRetired"

lemma transition_request_repeat:
  "transition_request s ev = Inr t \<Longrightarrow> transition_request t ev = Inr t"
  by (cases ev) (auto simp: transition_request_def Let_def is_terminal_def split: if_splits)

lemma transition_request_final:
  "is_terminal s \<Longrightarrow> transition_request s ev = Inr t \<Longrightarrow> t = s"
  by (cases ev) (auto simp: transition_request_def Let_def is_terminal_def split: if_splits)

lemma transition_run_repeat: "transition_run s ev = Inr t \<Longrightarrow> transition_run t ev = Inr t"
  by (cases ev) (auto simp: transition_run_def Let_def split: if_splits)

lemma transition_run_final: "run_final s \<Longrightarrow> transition_run s ev = Inr t \<Longrightarrow> t = s"
  by (cases ev) (auto simp: transition_run_def Let_def run_final_def split: if_splits)

lemma transition_actor_Inr: "transition_actor s t = Inr u \<Longrightarrow> u = t"
  by (auto simp: transition_actor_def split: if_splits)

lemma transition_team_Inr: "transition_team s t = Inr u \<Longrightarrow> u = t"
  by (auto simp: transition_team_def split: if_splits)

interpretation request_lc: lifecycle transition_request is_terminal
  by unfold_locales (rule transition_request_repeat transition_request_final; assumption)+

interpretation run_lc: lifecycle transition_run run_final
  by unfold_locales (rule transition_run_repeat transition_run_final; assumption)+

interpretation actor_lc: lifecycle transition_actor actor_final
  by unfold_locales (auto simp: transition_actor_def actor_final_def split: if_splits)

interpretation team_lc: lifecycle transition_team team_final
  by unfold_locales (auto simp: transition_team_def team_final_def split: if_splits)

section \<open>The path to completion\<close>

text \<open>The events that must have been accepted, in order, for a request to be in a status.\<close>

fun required_events :: "request_status \<Rightarrow> request_event list" where
  "required_events Open = []"
| "required_events Assigned = [EvAssign]"
| "required_events InProgress = [EvAssign, EvStart]"
| "required_events Blocked = [EvAssign, EvBlock]"
| "required_events CandidateReady = [EvAssign, EvSubmitCandidate]"
| "required_events ChangesRequested = [EvAssign, EvSubmitCandidate, EvRejectCandidate]"
| "required_events Accepted = [EvAssign, EvSubmitCandidate, EvAcceptCandidate]"
| "required_events IntegrationAuthorized =
     [EvAssign, EvSubmitCandidate, EvAcceptCandidate, EvAuthorizeIntegration]"
| "required_events Cancelled = [EvCancel]"
| "required_events Completed =
     [EvAssign, EvSubmitCandidate, EvAcceptCandidate, EvAuthorizeIntegration, EvComplete]"

lemma transition_request_required:
  "transition_request s ev = Inr t \<Longrightarrow> subseq (required_events t) (required_events s @ [ev])"
  by (cases s; cases ev)
    (auto simp: transition_request_def Let_def is_terminal_def split: if_splits)

lemma drive_request_required: "subseq (required_events (drive transition_request Open evs)) evs"
proof (induction evs rule: rev_induct)
  case Nil
  show ?case by simp
next
  case (snoc ev evs)
  let ?s = "drive transition_request Open evs"
  show ?case
  proof (cases "transition_request ?s ev")
    case (Inl e)
    with snoc.IH show ?thesis
      by (simp add: drive_append list_emb_prefix)
  next
    case (Inr t)
    then have "subseq (required_events t) (required_events ?s @ [ev])"
      by (rule transition_request_required)
    also have "subseq (required_events ?s @ [ev]) (evs @ [ev])"
      using snoc.IH by (simp only: subseq_append)
    finally show ?thesis
      using Inr by (simp add: drive_append)
  qed
qed

section \<open>Requests and runs in step\<close>

text \<open>The event pairs that the aggregate applies to a request and its run together.\<close>

definition paired_events :: "(request_event \<times> run_event) set" where
  "paired_events =
     {(EvStart, RevResume), (EvBlock, RevBlock), (EvSubmitCandidate, RevSubmitCandidate),
      (EvRejectCandidate, RevRejectCandidate), (EvAcceptCandidate, RevAcceptCandidate),
      (EvAuthorizeIntegration, RevAuthorizeIntegration), (EvComplete, RevComplete),
      (EvCancel, RevCancel)}"

text \<open>An accepted event determines the next status.\<close>

fun request_target :: "request_event \<Rightarrow> request_status" where
  "request_target EvAssign = Assigned"
| "request_target EvStart = InProgress"
| "request_target EvBlock = Blocked"
| "request_target EvSubmitCandidate = CandidateReady"
| "request_target EvRejectCandidate = ChangesRequested"
| "request_target EvAcceptCandidate = Accepted"
| "request_target EvAuthorizeIntegration = IntegrationAuthorized"
| "request_target EvComplete = Completed"
| "request_target EvCancel = Cancelled"

fun run_target :: "run_event \<Rightarrow> run_status" where
  "run_target RevStart = RunActive"
| "run_target RevPause = RunPaused"
| "run_target RevResume = RunActive"
| "run_target RevBlock = RunBlocked"
| "run_target RevSubmitCandidate = RunAwaitingReview"
| "run_target RevRejectCandidate = RunRevisionRequested"
| "run_target RevAcceptCandidate = RunAccepted"
| "run_target RevAuthorizeIntegration = RunAuthorized"
| "run_target RevComplete = RunCompleted"
| "run_target RevCancel = RunCancelled"

lemma transition_request_target: "transition_request q ev = Inr q' \<Longrightarrow> q' = request_target ev"
  by (cases ev) (simp_all add: transition_request_def Let_def split: if_splits)

lemma transition_run_target: "transition_run r ev = Inr r' \<Longrightarrow> r' = run_target ev"
  by (cases ev) (simp_all add: transition_run_def Let_def split: if_splits)

lemma paired_transition_matches:
  assumes "(qe, re) \<in> paired_events"
    and "transition_request q qe = Inr q'" and "transition_run r re = Inr r'"
  shows "run_status_matches_request r' q'"
proof -
  from assms(2) have "q' = request_target qe"
    by (rule transition_request_target)
  moreover from assms(3) have "r' = run_target re"
    by (rule transition_run_target)
  ultimately show ?thesis
    using assms(1) by (auto simp: paired_events_def run_status_matches_request_def)
qed

lemma pause_matches:
  assumes "run_status_matches_request r q" and "transition_run r RevPause = Inr r'"
  shows "run_status_matches_request r' q"
  using assms
  by (cases q) (auto simp: transition_run_def run_status_matches_request_def Let_def split: if_splits)

lemma initial_status_matches:
  "transition_request Open EvAssign = Inr Assigned"
  "transition_run RunPending RevStart = Inr RunActive"
  "run_status_matches_request RunActive Assigned"
  by (simp_all add: transition_request_def transition_run_def run_status_matches_request_def Let_def)

end
