(* ===== verification/Recipient_Order.thy ===== *)
theory Recipient_Order
  imports Envelopes
begin

text \<open>
  The derived \<open>Ord\<close> of \<open>ActorRef\<close> and \<open>DeliveryRecipient\<close>: fields are compared in
  declaration order and the Primary slot precedes every actor. The order decides which element
  an iteration over a frozen recipient set meets first.
\<close>

instantiation actor_ref :: linorder
begin

definition less_eq_actor_ref :: "actor_ref \<Rightarrow> actor_ref \<Rightarrow> bool" where
  "less_eq_actor_ref a b \<longleftrightarrow>
     ref_actor_id a < ref_actor_id b \<or>
     ref_actor_id a = ref_actor_id b \<and> ref_actor_epoch a \<le> ref_actor_epoch b"

definition less_actor_ref :: "actor_ref \<Rightarrow> actor_ref \<Rightarrow> bool" where
  "less_actor_ref a b \<longleftrightarrow>
     ref_actor_id a < ref_actor_id b \<or>
     ref_actor_id a = ref_actor_id b \<and> ref_actor_epoch a < ref_actor_epoch b"

instance
proof
  fix a b c :: actor_ref
  show "(a < b) = (a \<le> b \<and> \<not> b \<le> a)"
    by (auto simp: less_actor_ref_def less_eq_actor_ref_def)
  show "a \<le> a"
    by (simp add: less_eq_actor_ref_def)
  show "a \<le> b \<Longrightarrow> b \<le> c \<Longrightarrow> a \<le> c"
    by (auto simp: less_eq_actor_ref_def)
  show "a \<le> b \<Longrightarrow> b \<le> a \<Longrightarrow> a = b"
    by (cases a; cases b) (auto simp: less_eq_actor_ref_def)
  show "a \<le> b \<or> b \<le> a"
    by (auto simp: less_eq_actor_ref_def)
qed

end

instantiation delivery_recipient :: linorder
begin

definition less_eq_delivery_recipient :: "delivery_recipient \<Rightarrow> delivery_recipient \<Rightarrow> bool" where
  "less_eq_delivery_recipient a b =
     (case (a, b) of
        (RecipientPrimary, _) \<Rightarrow> True
      | (RecipientActor _ _, RecipientPrimary) \<Rightarrow> False
      | (RecipientActor a1 e1, RecipientActor a2 e2) \<Rightarrow> a1 < a2 \<or> a1 = a2 \<and> e1 \<le> e2)"

definition less_delivery_recipient :: "delivery_recipient \<Rightarrow> delivery_recipient \<Rightarrow> bool" where
  "less_delivery_recipient a b =
     (case (a, b) of
        (_, RecipientPrimary) \<Rightarrow> False
      | (RecipientPrimary, RecipientActor _ _) \<Rightarrow> True
      | (RecipientActor a1 e1, RecipientActor a2 e2) \<Rightarrow> a1 < a2 \<or> a1 = a2 \<and> e1 < e2)"

instance
proof
  fix a b c :: delivery_recipient
  show "(a < b) = (a \<le> b \<and> \<not> b \<le> a)"
    by (cases a; cases b) (auto simp: less_delivery_recipient_def less_eq_delivery_recipient_def)
  show "a \<le> a"
    by (cases a) (auto simp: less_eq_delivery_recipient_def)
  show "a \<le> b \<Longrightarrow> b \<le> c \<Longrightarrow> a \<le> c"
    by (cases a; cases b; cases c) (auto simp: less_eq_delivery_recipient_def)
  show "a \<le> b \<Longrightarrow> b \<le> a \<Longrightarrow> a = b"
    by (cases a; cases b) (auto simp: less_eq_delivery_recipient_def)
  show "a \<le> b \<or> b \<le> a"
    by (cases a; cases b) (auto simp: less_eq_delivery_recipient_def)
qed

end

section \<open>The first element of a set that meets a condition\<close>

definition bs_find :: "('a::linorder \<Rightarrow> bool) \<Rightarrow> 'a fset \<Rightarrow> 'a option" where
  "bs_find P A = find P (sorted_list_of_fset A)"

lemma bs_find_SomeD:
  assumes "bs_find P A = Some x"
  shows "x |\<in>| A" and "P x"
proof -
  from assms obtain i where "i < length (sorted_list_of_fset A)"
      and "x = sorted_list_of_fset A ! i" and "P x"
    by (auto simp: bs_find_def find_Some_iff)
  then show "x |\<in>| A"
    by (metis nth_mem sorted_list_of_fset_simps(1))
  show "P x" by fact
qed

lemma bs_find_None_iff: "bs_find P A = None \<longleftrightarrow> (\<forall>x. x |\<in>| A \<longrightarrow> \<not> P x)"
  by (auto simp: bs_find_def find_None_iff)

end
