(* ===== verification/Core_State.thy ===== *)
theory Core_State
  imports Lifecycle Recipient_Order
begin

text \<open>
  The state of the workspace aggregate, \<open>Supervisor\<close> of
  \<open>crates/agsv-core/src/supervisor.rs\<close>, with its delivery records, pending handoffs, audit
  log and ephemeral reporting queues, and the read-only guards its operations share.

  JSON serialisation (serde) and SHA-256 are outside the repository: they are the four
  functions of the record \<open>ext\<close>, an argument of the operations that digest or measure
  a message.
\<close>

section \<open>State\<close>

datatype apply_outcome = Applied | DuplicateMessage

datatype ack_outcome = Acknowledged | DuplicateAck

record delivery_record =
  d_envelope :: envelope_header
  d_message_kind :: message_kind
  d_payload_digest :: payload_digest
  d_causal :: causal_message
  d_required_recipients :: "delivery_recipient fset"
  d_acknowledgements :: "(delivery_recipient, acknowledgement) fmap"
  d_undeliverable_recipients :: "(delivery_recipient, delivery_retirement_reason) fmap"
  d_retirement_reason :: "delivery_retirement_reason option"
  d_retired :: bool

datatype pending_handoff =
  PendingHandoff
    (ph_offer: handoff_offer_ref) (ph_offered_by: actor_ref) (ph_assignment_epoch: assignment_epoch)

datatype audit_event_kind =
    MessageAccepted message_id message_kind "payload_digest option"
  | MessageAcknowledged message_id actor_id

datatype audit_event =
  AuditEvent
    (au_sequence: u64)
    (au_occurred_at: timestamp_millis)
    (au_team_id: "team_id option")
    (au_team_epoch: "team_epoch option")
    (au_kind: audit_event_kind)

datatype pending_bulk_content =
  PendingBulkContent
    (pb_message_id: message_id) (pb_payload_digest: payload_digest) (pb_message: message)

datatype team_observability_update =
  TeamObservabilityUpdate
    (tu_team_id: team_id)
    (tu_team_epoch: team_epoch)
    (tu_nonterminal_request_count: u64)
    (tu_preserve_last_activity_at: bool)

datatype actor_generation_anchor =
  ActorGenerationAnchor
    (ga_actor: actor_ref) (ga_team_id: "team_id option") (ga_team_epoch: "team_epoch option")

datatype completed_assignment_credit =
  CompletedAssignmentCredit
    (ca_request_id: request_id) (ca_actor: actor_ref) (ca_team_id: team_id) (ca_team_epoch: team_epoch)

datatype pending_observability_delta =
  PendingObservabilityDelta
    (od_activity_teams: "team_observability_update list")
    (od_actor_generation_anchors: "actor_generation_anchor list")
    (od_completed_assignments: "completed_assignment_credit list")

record pending_observability =
  po_activity_team_ids :: "team_id fset"
  po_epoch_roll_team_ids :: "team_id fset"
  po_actor_generation_keys :: "(actor_id \<times> actor_epoch) fset"
  po_actor_generation_anchors :: "actor_generation_anchor list"
  po_completed_assignments :: "completed_assignment_credit list"

record history_checkpoint =
  h_audit_event_count :: u64
  h_audit_head_sha256 :: "payload_digest option"
  h_archived_delivery_count :: u64
  h_archived_request_count :: u64
  h_archived_run_count :: u64
  h_archived_audit_event_count :: u64
  h_archive_commit_count :: u64
  h_archive_head_sha256 :: "payload_digest option"

datatype chain_checkpoint =
  ChainCheckpoint (ck_count: u64) (ck_head_sha256: "payload_digest option")

record supervisor =
  s_workspace_id :: workspace_id
  s_policy_revision :: policy_revision
  s_primary_epoch :: primary_epoch
  s_active_primary :: "actor_id option"
  s_actors :: "(actor_id, actor) fmap"
  s_teams :: "(team_id, team) fmap"
  s_requests :: "(request_id, request) fmap"
  s_runs :: "(run_id, run) fmap"
  s_mailbox :: "(message_id, delivery_record) fmap"
  s_handoffs :: "(handoff_id, pending_handoff) fmap"
  s_audit :: "audit_event list"
  s_history_checkpoint :: history_checkpoint
  s_observability_checkpoint :: chain_checkpoint
  s_team_generation_checkpoint :: chain_checkpoint
  s_pending_bulk_content :: "pending_bulk_content list"
  s_nonterminal_request_counts :: "(team_id, u64) fmap"
  s_pending_observability :: pending_observability

definition empty_observability :: pending_observability where
  "empty_observability =
     \<lparr>po_activity_team_ids = {||}, po_epoch_roll_team_ids = {||}, po_actor_generation_keys = {||},
      po_actor_generation_anchors = [], po_completed_assignments = []\<rparr>"

definition empty_history :: history_checkpoint where
  "empty_history =
     \<lparr>h_audit_event_count = 0, h_audit_head_sha256 = None, h_archived_delivery_count = 0,
      h_archived_request_count = 0, h_archived_run_count = 0, h_archived_audit_event_count = 0,
      h_archive_commit_count = 0, h_archive_head_sha256 = None\<rparr>"

definition supervisor_new :: "workspace_id \<Rightarrow> policy_revision \<Rightarrow> supervisor" where
  "supervisor_new workspace policy =
     \<lparr>s_workspace_id = workspace, s_policy_revision = policy, s_primary_epoch = EPOCH_INITIAL,
      s_active_primary = None, s_actors = fmempty, s_teams = fmempty, s_requests = fmempty,
      s_runs = fmempty, s_mailbox = fmempty, s_handoffs = fmempty, s_audit = [],
      s_history_checkpoint = empty_history,
      s_observability_checkpoint = ChainCheckpoint 0 None,
      s_team_generation_checkpoint = ChainCheckpoint 0 None,
      s_pending_bulk_content = [], s_nonterminal_request_counts = fmempty,
      s_pending_observability = empty_observability\<rparr>"

section \<open>External functions\<close>

record ext =
  x_json_envelope :: "envelope \<Rightarrow> u8 list option"
  x_json_message :: "message \<Rightarrow> u8 list option"
  x_json_audit_event :: "audit_event \<Rightarrow> u8 list option"
  x_sha256 :: "u8 list \<Rightarrow> u8 list"

definition hex_digit :: "nat \<Rightarrow> char" where
  "hex_digit n = (if n < 10 then char_of (48 + n) else char_of (87 + n))"

definition hex_byte :: "u8 \<Rightarrow> string" where
  "hex_byte b = [hex_digit (unat b div 16), hex_digit (unat b mod 16)]"

definition digest_bytes :: "ext \<Rightarrow> u8 list \<Rightarrow> payload_digest" where
  "digest_bytes x bytes = concat (map hex_byte (x_sha256 x bytes))"

definition digest_message :: "ext \<Rightarrow> message \<Rightarrow> failure + payload_digest" where
  "digest_message x m =
     ebind (ok_or (x_json_message x m) (quota ''serialized message bytes'' MAX_FRAME_BYTES))
       (\<lambda>bytes. Inr (digest_bytes x bytes))"

definition digest_audit_event :: "ext \<Rightarrow> audit_event \<Rightarrow> failure + payload_digest" where
  "digest_audit_event x event =
     ebind (ok_or (x_json_audit_event x event)
              (Err (InvalidSnapshot ''audit_events'' ''audit event cannot be serialized'')))
       (\<lambda>bytes. Inr (digest_bytes x bytes))"

definition validate_envelope_quota :: "ext \<Rightarrow> envelope \<Rightarrow> failure + unit" where
  "validate_envelope_quota x env =
     ebind (ok_or (x_json_envelope x env) (quota ''serialized envelope bytes'' MAX_FRAME_BYTES))
       (\<lambda>bytes. if MAX_FRAME_BYTES < length bytes
                then Inl (quota ''serialized envelope bytes'' MAX_FRAME_BYTES) else Inr ())"

end
