(* ===== verification/Guards.thy ===== *)
theory Guards
  imports Core_State
begin

text \<open>
  The guards of \<open>crates/agsv-core/src/supervisor.rs\<close>: who may act (generation, capability,
  Primary lease), in which context (request, run, team, assignment), on which candidate, and the
  admission check of an envelope, \<open>authorize_envelope\<close>. All are read-only. The append to the
  audit log, which every accepted fact goes through, is here too.
\<close>

section \<open>Actors\<close>

definition healthy_actor ::
  "workspace_id \<Rightarrow> actor_id \<Rightarrow> team_id option \<Rightarrow> actor_role \<Rightarrow> actor_profile option \<Rightarrow>
   actor_epoch \<Rightarrow> actor" where
  "healthy_actor workspace actor_id team_id role profile epoch =
     \<lparr>a_actor_id = actor_id, a_workspace_id = workspace, a_team_id = team_id, a_role = role,
      a_profile = profile, a_epoch = epoch, a_status = ActorHealthy, a_last_heartbeat_at = None\<rparr>"

definition ensure_team_profile_actor :: "team \<Rightarrow> actor_profile option \<Rightarrow> failure + unit" where
  "ensure_team_profile_actor t profile =
     (if (case (t_profile t, profile) of
            (None, None) \<Rightarrow> True
          | (Some tp, Some ap) \<Rightarrow> tp_actor_profile tp = ap_name ap
          | _ \<Rightarrow> False)
      then Inr () else Inl (Err (AlreadyExists ''team actor profile'')))"

definition active_primary :: "supervisor \<Rightarrow> actor_ref option" where
  "active_primary s =
     Option.bind (s_active_primary s) (\<lambda>i. map_option actor_ref_of (fmlookup (s_actors s) i))"

definition next_actor_epoch :: "supervisor \<Rightarrow> actor_id \<Rightarrow> failure + actor_epoch" where
  "next_actor_epoch s actor_id =
     (case fmlookup (s_actors s) actor_id of
        None \<Rightarrow> Inr EPOCH_INITIAL
      | Some a \<Rightarrow> ok_or (checked_next (a_epoch a)) (Err EpochExhausted))"

definition current_actor :: "supervisor \<Rightarrow> actor_ref \<Rightarrow> failure + actor" where
  "current_actor s ref =
     ebind (ok_or (fmlookup (s_actors s) (ref_actor_id ref)) (Err (UnknownActor (ref_actor_id ref))))
       (\<lambda>a. if a_epoch a \<noteq> ref_actor_epoch ref
             then Inl (Err (StaleActorEpoch (a_epoch a) (ref_actor_epoch ref)))
             else Inr a)"

definition require_primary :: "supervisor \<Rightarrow> actor \<Rightarrow> string \<Rightarrow> failure + unit" where
  "require_primary s a action =
     (if has_capability a HUMAN_FACING_PRIMARY \<and> a_team_id a = None \<and>
         s_active_primary s = Some (a_actor_id a)
      then Inr () else Inl (Err (Unauthorized action)))"

definition require_implementation :: "actor \<Rightarrow> string \<Rightarrow> failure + unit" where
  "require_implementation a action =
     (if has_capability a IMPLEMENTATION_EXECUTION then Inr () else Inl (Err (Unauthorized action)))"

definition require_consultation_requester :: "supervisor \<Rightarrow> actor \<Rightarrow> failure + unit" where
  "require_consultation_requester s a =
     (if a_team_id a \<noteq> None \<and> has_capability a IMPLEMENTATION_EXECUTION then Inr ()
      else require_primary s a ''request consultation'')"

section \<open>Teams and targets\<close>

definition ensure_known_team :: "supervisor \<Rightarrow> team_id \<Rightarrow> failure + team" where
  "ensure_known_team s team_id = ok_or (fmlookup (s_teams s) team_id) (Err (UnknownTeam team_id))"

definition ensure_active_target_team :: "supervisor \<Rightarrow> team_id \<Rightarrow> message_target \<Rightarrow> failure + unit" where
  "ensure_active_target_team s team_id target =
     ebind (ensure_known_team s team_id) (\<lambda>t.
     if t_status t \<noteq> TeamActive then Inl (Err (Unauthorized ''target inactive team''))
     else if target \<noteq> TargetTeam team_id then Inl (Err WrongTarget)
     else Inr ())"

definition require_primary_target :: "message_target \<Rightarrow> failure + unit" where
  "require_primary_target target =
     (if target = TargetPrimary then Inr () else Inl (Err WrongTarget))"

definition target_matches :: "supervisor \<Rightarrow> message_target \<Rightarrow> actor \<Rightarrow> bool" where
  "target_matches s target a =
     (case target of
        TargetPrimary \<Rightarrow>
          has_capability a HUMAN_FACING_PRIMARY \<and> s_active_primary s = Some (a_actor_id a)
      | TargetTeam team_id \<Rightarrow> a_team_id a = Some team_id
      | TargetActor actor_id \<Rightarrow> actor_id = a_actor_id a
      | TargetWorkspace \<Rightarrow> True)"

section \<open>Request context\<close>

definition context_ids :: "envelope \<Rightarrow> failure + request_id \<times> run_id" where
  "context_ids env =
     ebind (ok_or (e_request_id env) (Err WrongRequestContext)) (\<lambda>request_id.
     ebind (ok_or (e_run_id env) (Err WrongRequestContext)) (\<lambda>run_id.
     Inr (request_id, run_id)))"

definition request_context :: "supervisor \<Rightarrow> envelope \<Rightarrow> failure + request" where
  "request_context s env =
     ebind (context_ids env) (\<lambda>(request_id, run_id).
     ebind (ok_or (fmlookup (s_requests s) request_id) (Err (UnknownRequest request_id))) (\<lambda>q.
     if q_run_id q \<noteq> run_id then Inl (Err WrongRequestContext) else
     ebind (ok_or (fmlookup (s_runs s) run_id) (Err (UnknownRun run_id))) (\<lambda>r.
     if r_request_id r \<noteq> request_id then Inl (Err WrongRequestContext) else
     let team_matches =
       (case e_message env of
          MHandoffAcceptance acceptance \<Rightarrow>
            q_team_id q = ha_from_team_id acceptance \<and>
            e_team_id env = Some (ha_to_team_id acceptance)
        | _ \<Rightarrow>
            e_team_id env = Some (q_team_id q) \<and>
            (request_blocks_team_close (q_status q) \<or> e_team_epoch env = Some (q_team_epoch q)))
     in if \<not> team_matches then Inl (Err WrongTeam) else Inr q)))"

definition ensure_candidate :: "request \<Rightarrow> candidate \<Rightarrow> failure + unit" where
  "ensure_candidate q candidate =
     (if q_candidate q = Some candidate then Inr ()
      else Inl (Err (CandidateMismatch (map_option c_sha (q_candidate q)) (c_sha candidate))))"

definition ensure_current_assignment :: "supervisor \<Rightarrow> envelope \<Rightarrow> actor \<Rightarrow> failure + unit" where
  "ensure_current_assignment s env a =
     ebind (request_context s env) (\<lambda>q.
     ebind (ok_or (q_assignment q) (Err NotAssignedActor)) (\<lambda>assignment.
     if e_assignment_epoch env \<noteq> Some (as_epoch assignment) then
       Inl (Err (StaleAssignmentEpoch (as_epoch assignment) (e_assignment_epoch env)))
     else if as_actor assignment \<noteq> actor_ref_of a then Inl (Err NotAssignedActor)
     else Inr ()))"

definition ensure_assignee_target :: "supervisor \<Rightarrow> envelope \<Rightarrow> failure + unit" where
  "ensure_assignee_target s env =
     ebind (request_context s env) (\<lambda>q.
     ebind (ok_or (q_assignment q) (Err NotAssignedActor)) (\<lambda>assignment.
     if e_target env = TargetActor (ref_actor_id (as_actor assignment)) \<or>
        e_target env = TargetTeam (q_team_id q)
     then Inr () else Inl (Err WrongTarget)))"

definition is_rejected_candidate_rework :: "request \<Rightarrow> bool" where
  "is_rejected_candidate_rework q =
     is_some_and (q_decision q) (\<lambda>d.
       dr_verdict d = VerdictRejected \<and> q_candidate q = Some (dr_candidate d))"

definition message_requires_team_action ::
  "(request_id, request) fmap \<Rightarrow> message_kind \<Rightarrow> request_id option \<Rightarrow> bool" where
  "message_requires_team_action requests kind request_id =
     (case team_close_disposition kind of
        ObsoleteOutcome \<Rightarrow> False
      | ActionRequired \<Rightarrow> True
      | RequestLifecycle \<Rightarrow>
          is_none_or (Option.bind request_id (fmlookup requests))
            (\<lambda>q. request_blocks_team_close (q_status q)))"

section \<open>Admission\<close>

text \<open>The Primary may still close the cycle of a request of an earlier team generation, quoting
  that generation.\<close>

definition historical_request_epoch :: "supervisor \<Rightarrow> envelope \<Rightarrow> team_id \<Rightarrow> team \<Rightarrow> team_epoch option" where
  "historical_request_epoch s env team_id t =
     (case Option.bind (e_request_id env) (fmlookup (s_requests s)) of
        None \<Rightarrow> None
      | Some q \<Rightarrow>
          if q_team_id q = team_id \<and> \<not> request_blocks_team_close (q_status q) \<and>
             q_team_epoch q < t_epoch t
          then Some (q_team_epoch q) else None)"

definition ensure_team_fence :: "supervisor \<Rightarrow> envelope \<Rightarrow> actor \<Rightarrow> team_id \<Rightarrow> team \<Rightarrow> failure + actor" where
  "ensure_team_fence s env a team_id t =
     (let permits_historical_primary =
            (a_team_id a = None \<and> historical_request_epoch s env team_id t = e_team_epoch env \<and>
             is_some_and (e_team_epoch env) (\<lambda>epoch. epoch < t_epoch t))
      in
      if e_team_epoch env \<noteq> Some (t_epoch t) \<and> \<not> permits_historical_primary then
        ebind (expect (e_team_epoch env) ''validated team epoch'') (\<lambda>actual.
        Inl (Err (StaleTeamEpoch (t_epoch t) actual)))
      else if a_team_id a \<noteq> None \<and> t_status t \<in> {TeamPaused, TeamClosed, TeamRetired} then
        Inl (Err (Unauthorized ''message from inactive team''))
      else Inr a)"

definition authorize_envelope :: "supervisor \<Rightarrow> envelope \<Rightarrow> failure + actor" where
  "authorize_envelope s env =
     (if e_policy_revision env \<noteq> s_policy_revision s then
        Inl (Err (StalePolicyRevision (s_policy_revision s) (e_policy_revision env)))
      else if e_primary_epoch env \<noteq> s_primary_epoch s then
        Inl (Err (StalePrimaryEpoch (s_primary_epoch s) (e_primary_epoch env)))
      else
      ebind (current_actor s (e_sender env)) (\<lambda>a.
      if a_status a \<noteq> ActorHealthy then Inl (Err (ActorNotHealthy (a_actor_id a)))
      else if a_team_id a \<noteq> None \<and> a_team_id a \<noteq> e_team_id env then Inl (Err WrongTeam)
      else case e_team_id env of
        None \<Rightarrow> Inr a
      | Some team_id \<Rightarrow>
          ebind (ok_or (fmlookup (s_teams s) team_id) (Err (UnknownTeam team_id)))
            (ensure_team_fence s env a team_id)))"

section \<open>Audit log\<close>

definition ensure_audit_capacity :: "supervisor \<Rightarrow> failure + unit" where
  "ensure_audit_capacity s =
     (if MAX_AUDIT_EVENTS \<le> length (s_audit s) then Inl (quota ''audit_events'' MAX_AUDIT_EVENTS)
      else ebind (ok_or (checked_inc (h_audit_event_count (s_history_checkpoint s)))
                    (Err EpochExhausted)) (\<lambda>_. Inr ()))"

definition append_audit ::
  "ext \<Rightarrow> supervisor \<Rightarrow> timestamp_millis \<Rightarrow> team_id option \<Rightarrow> team_epoch option \<Rightarrow>
   audit_event_kind \<Rightarrow> (failure + unit) \<times> supervisor" where
  "append_audit x s occurred_at team_id team_epoch kind =
     attempt s (expect (checked_inc (h_audit_event_count (s_history_checkpoint s)))
                  ''capacity checked'') (\<lambda>sequence.
     let event = AuditEvent sequence occurred_at team_id team_epoch kind;
         s1 = s\<lparr>s_history_checkpoint := (s_history_checkpoint s)\<lparr>h_audit_event_count := sequence\<rparr>\<rparr>
     in attempt s1
          (case digest_audit_event x event of
             Inl _ \<Rightarrow> Inl (Panic ''AuditEvent always serializes to canonical JSON'')
           | Inr digest \<Rightarrow> Inr digest) (\<lambda>digest.
        (Inr (), s1\<lparr>s_history_checkpoint :=
                      (s_history_checkpoint s1)\<lparr>h_audit_head_sha256 := Some digest\<rparr>,
                    s_audit := s_audit s1 @ [event]\<rparr>)))"

end
