(* ===== verification/Observability.thy ===== *)
theory Observability
  imports Guards
begin

text \<open>
  The reporting side of \<open>crates/agsv-core/src/supervisor.rs\<close>: which teams an accepted fact
  touches, the incrementally maintained count of nonterminal requests, generation anchors and
  completion credits, and the queues the state store drains.
\<close>

section \<open>Queues\<close>

definition mark_team_activity :: "supervisor \<Rightarrow> team_id \<Rightarrow> supervisor" where
  "mark_team_activity s team_id =
     s\<lparr>s_pending_observability := (s_pending_observability s)\<lparr>po_activity_team_ids :=
         finsert team_id (po_activity_team_ids (s_pending_observability s))\<rparr>\<rparr>"

definition record_actor_generation_anchor ::
  "supervisor \<Rightarrow> actor_ref \<Rightarrow> team_id option \<Rightarrow> supervisor" where
  "record_actor_generation_anchor s ref team_id =
     (let po = s_pending_observability s; key = (ref_actor_id ref, ref_actor_epoch ref) in
      if key |\<in>| po_actor_generation_keys po then s
      else
        let team_epoch =
              Option.bind team_id (\<lambda>t. map_option t_epoch (fmlookup (s_teams s) t))
        in s\<lparr>s_pending_observability :=
               po\<lparr>po_actor_generation_keys := finsert key (po_actor_generation_keys po),
                  po_actor_generation_anchors :=
                    po_actor_generation_anchors po @ [ActorGenerationAnchor ref team_id team_epoch]\<rparr>\<rparr>)"

definition take_pending_bulk_content :: "supervisor \<Rightarrow> pending_bulk_content list \<times> supervisor" where
  "take_pending_bulk_content s = (s_pending_bulk_content s, s\<lparr>s_pending_bulk_content := []\<rparr>)"

text \<open>
  The updates are listed in the order of team ids. The pending queues are emptied before the
  lookups, so they are gone even when a lookup panics.
\<close>

fun team_observability_updates ::
  "supervisor \<Rightarrow> team_id fset \<Rightarrow> team_id list \<Rightarrow> failure + team_observability_update list" where
  "team_observability_updates s rolled [] = Inr []"
| "team_observability_updates s rolled (team_id # team_ids) =
     ebind (expect (fmlookup (s_teams s) team_id) ''pending activity references a known team'') (\<lambda>t.
     ebind (team_observability_updates s rolled team_ids) (\<lambda>updates.
     Inr (TeamObservabilityUpdate team_id (t_epoch t)
            (case fmlookup (s_nonterminal_request_counts s) team_id of None \<Rightarrow> 0 | Some n \<Rightarrow> n)
            (team_id |\<in>| rolled) # updates)))"

definition take_pending_observability_delta ::
  "supervisor \<Rightarrow> (failure + pending_observability_delta) \<times> supervisor" where
  "take_pending_observability_delta s =
     (let po = s_pending_observability s;
          s1 = s\<lparr>s_pending_observability := empty_observability\<rparr>
      in attempt s1
           (team_observability_updates s1 (po_epoch_roll_team_ids po)
              (sorted_list_of_fset (po_activity_team_ids po |\<union>| po_epoch_roll_team_ids po)))
           (\<lambda>updates.
             (Inr (PendingObservabilityDelta updates (po_actor_generation_anchors po)
                     (po_completed_assignments po)), s1)))"

section \<open>Nonterminal request counts\<close>

datatype request_observability =
  RequestObservabilityState
    (ro_team_id: team_id)
    (ro_team_epoch: team_epoch)
    (ro_status: request_status)
    (ro_assignment: "assignment option")

definition request_observability_of :: "request \<Rightarrow> request_observability" where
  "request_observability_of q =
     RequestObservabilityState (q_team_id q) (q_team_epoch q) (q_status q) (q_assignment q)"

definition request_observability_state ::
  "supervisor \<Rightarrow> request_id \<Rightarrow> request_observability option" where
  "request_observability_state s request_id =
     map_option request_observability_of (fmlookup (s_requests s) request_id)"

definition request_state_for_observability ::
  "supervisor \<Rightarrow> envelope \<Rightarrow> request_observability option" where
  "request_state_for_observability s env =
     Option.bind (e_request_id env) (request_observability_state s)"

definition request_state_counts_for_current_generation ::
  "supervisor \<Rightarrow> request_observability \<Rightarrow> bool" where
  "request_state_counts_for_current_generation s ro \<longleftrightarrow>
     \<not> is_terminal (ro_status ro) \<and>
     is_some_and (fmlookup (s_teams s) (ro_team_id ro)) (\<lambda>t.
       request_blocks_team_close (ro_status ro) \<or> ro_team_epoch ro = t_epoch t)"

definition update_request_observability ::
  "supervisor \<Rightarrow> request_id \<Rightarrow> request_observability option \<Rightarrow>
   completed_assignment_credit option \<times> supervisor" where
  "update_request_observability s request_id before =
     (case request_observability_state s request_id of
        None \<Rightarrow> (None, s)
      | Some after \<Rightarrow>
          let before_is_nonterminal =
                is_some_and before (request_state_counts_for_current_generation s);
              after_is_nonterminal = request_state_counts_for_current_generation s after;
              changed_team = is_some_and before (\<lambda>b. ro_team_id b \<noteq> ro_team_id after);
              counts = s_nonterminal_request_counts s;
              counts1 =
                (if before_is_nonterminal \<and> (\<not> after_is_nonterminal \<or> changed_team) then
                   (case before of
                      None \<Rightarrow> counts
                    | Some b \<Rightarrow> fmmodify (ro_team_id b) saturating_dec counts)
                 else counts);
              counts2 =
                (if after_is_nonterminal \<and> (\<not> before_is_nonterminal \<or> changed_team) then
                   fmupd (ro_team_id after)
                     (saturating_inc
                        (case fmlookup counts1 (ro_team_id after) of None \<Rightarrow> 0 | Some n \<Rightarrow> n))
                     counts1
                 else counts1);
              credit =
                (if is_none_or before (\<lambda>b. ro_status b \<noteq> Completed) \<and> ro_status after = Completed
                 then map_option
                        (\<lambda>assignment. CompletedAssignmentCredit request_id (as_actor assignment)
                                        (ro_team_id after) (ro_team_epoch after))
                        (ro_assignment after)
                 else None)
          in (credit, s\<lparr>s_nonterminal_request_counts := counts2\<rparr>))"

definition team_nonterminal_request_count :: "supervisor \<Rightarrow> team_id \<Rightarrow> failure + u64" where
  "team_nonterminal_request_count s team_id =
     (if \<not> fmhas (s_teams s) team_id then Inl (Err (UnknownTeam team_id))
      else Inr (case fmlookup (s_nonterminal_request_counts s) team_id of None \<Rightarrow> 0 | Some n \<Rightarrow> n))"

section \<open>Activity of an accepted message\<close>

definition delivery_references_historical_request ::
  "supervisor \<Rightarrow> 'a envelope_header_scheme \<Rightarrow> bool" where
  "delivery_references_historical_request s env =
     is_some_and (Option.bind (e_request_id env) (fmlookup (s_requests s))) (\<lambda>q.
       is_some_and (fmlookup (s_teams s) (q_team_id q)) (\<lambda>t.
         \<not> request_blocks_team_close (q_status q) \<and> q_team_epoch q < t_epoch t))"

definition opt_fset :: "'a option \<Rightarrow> 'a fset" where
  "opt_fset x = (case x of None \<Rightarrow> {||} | Some y \<Rightarrow> {|y|})"

definition team_of_actor :: "supervisor \<Rightarrow> actor_id \<Rightarrow> team_id option" where
  "team_of_actor s actor_id = Option.bind (fmlookup (s_actors s) actor_id) a_team_id"

definition recipient_team :: "supervisor \<Rightarrow> delivery_recipient \<Rightarrow> team_id fset" where
  "recipient_team s recipient =
     (case recipient of
        RecipientPrimary \<Rightarrow> {||}
      | RecipientActor ref _ \<Rightarrow> opt_fset (team_of_actor s (ref_actor_id ref)))"

definition delivery_activity_teams ::
  "supervisor \<Rightarrow> 'a envelope_header_scheme \<Rightarrow> delivery_recipient fset \<Rightarrow> team_id fset" where
  "delivery_activity_teams s env recipients =
     (if delivery_references_historical_request s env then {||}
      else
        opt_fset (e_team_id env) |\<union>|
        opt_fset (map_option q_team_id (Option.bind (e_request_id env) (fmlookup (s_requests s)))) |\<union>|
        opt_fset (team_of_actor s (ref_actor_id (e_sender env))) |\<union>|
        (case e_target env of
           TargetTeam team_id \<Rightarrow> {|team_id|}
         | TargetActor actor_id \<Rightarrow> opt_fset (team_of_actor s actor_id)
         | _ \<Rightarrow> {||}) |\<union>|
        ffUnion (recipient_team s |`| recipients))"

definition observe_accepted ::
  "supervisor \<Rightarrow> 'a envelope_header_scheme \<Rightarrow> delivery_recipient fset \<Rightarrow>
   request_observability option \<Rightarrow>
   (team_id fset \<times> completed_assignment_credit option) \<times> supervisor" where
  "observe_accepted s env recipients before =
     (let teams = delivery_activity_teams s env recipients;
          teams1 =
            (case before of
               None \<Rightarrow> teams
             | Some b \<Rightarrow>
                 if request_state_counts_for_current_generation s b
                 then finsert (ro_team_id b) teams else teams)
      in case e_request_id env of
           None \<Rightarrow> ((teams1, None), s)
         | Some request_id \<Rightarrow>
             let (credit, s1) = update_request_observability s request_id before
             in ((teams1, credit), s1))"

definition record_accepted_message_observability ::
  "supervisor \<Rightarrow> team_id fset \<Rightarrow> completed_assignment_credit option \<Rightarrow> supervisor" where
  "record_accepted_message_observability s teams credit =
     (let po = s_pending_observability s;
          po1 = po\<lparr>po_activity_team_ids := po_activity_team_ids po |\<union>| teams\<rparr>
      in s\<lparr>s_pending_observability :=
            (case credit of
               None \<Rightarrow> po1
             | Some c \<Rightarrow>
                 po1\<lparr>po_completed_assignments := po_completed_assignments po1 @ [c]\<rparr>)\<rparr>)"

end
