(* ===== verification/Delivery.thy ===== *)
theory Delivery
  imports Observability
begin

text \<open>
  Recipients of a delivery in \<open>crates/agsv-core/src/supervisor.rs\<close>: the set frozen when a
  message is accepted, the recipient slot an actor answers for, the disposition of recipients
  that became unreachable, and the retirement of a resolved delivery.
\<close>

section \<open>Who must acknowledge\<close>

datatype recipient_plan =
    PlanRecipients delivery_recipient "delivery_recipient fset"
  | PlanRetired delivery_retirement_reason

definition actor_delivery_recipient :: "supervisor \<Rightarrow> actor \<Rightarrow> failure + delivery_recipient" where
  "actor_delivery_recipient s a =
     (case a_team_id a of
        None \<Rightarrow> Inr RecipientPrimary
      | Some team_id \<Rightarrow>
          ebind (expect (fmlookup (s_teams s) team_id) ''team actor belongs to a known team'') (\<lambda>t.
          Inr (RecipientActor (actor_ref_of a) (t_epoch t))))"

fun actor_delivery_recipients :: "supervisor \<Rightarrow> actor list \<Rightarrow> failure + delivery_recipient fset" where
  "actor_delivery_recipients s [] = Inr {||}"
| "actor_delivery_recipients s (a # as) =
     ebind (actor_delivery_recipient s a) (\<lambda>r.
     ebind (actor_delivery_recipients s as) (\<lambda>rs. Inr (finsert r rs)))"

definition directive_team_recipients :: "supervisor \<Rightarrow> team_id \<Rightarrow> failure + delivery_recipient fset" where
  "directive_team_recipients s team_id =
     (case fmlookup (s_teams s) team_id of
        None \<Rightarrow> Inr {||}
      | Some t \<Rightarrow>
          let desired_instances =
                (case t_profile t of
                   None \<Rightarrow> length (t_actors t)
                 | Some profile \<Rightarrow> unat (tp_desired_instances profile))
          in actor_delivery_recipients s
               (filter (\<lambda>a. a_status a \<noteq> ActorRevoked)
                  (List.map_filter (fmlookup (s_actors s)) (take desired_instances (t_actors t)))))"

text \<open>The last step of the plan: an empty set is refused, else its first element is split off.\<close>

definition plan_of_recipients :: "delivery_recipient fset \<Rightarrow> failure + recipient_plan" where
  "plan_of_recipients recipients =
     (case sorted_list_of_fset recipients of
        [] \<Rightarrow> Inl (Err (Unauthorized ''deliver message without a durable recipient''))
      | first # _ \<Rightarrow> Inr (PlanRecipients first (recipients |-| {|first|})))"

definition historical_outcome_assignment :: "supervisor \<Rightarrow> envelope \<Rightarrow> request option" where
  "historical_outcome_assignment s env =
     (if team_close_disposition (message_kind_of (e_message env)) = ObsoleteOutcome then
        (case Option.bind (e_request_id env) (fmlookup (s_requests s)) of
           None \<Rightarrow> None
         | Some q \<Rightarrow>
             if is_some_and (fmlookup (s_teams s) (q_team_id q)) (\<lambda>t. q_team_epoch q < t_epoch t)
             then Some q else None)
      else None)"

definition team_is_terminal :: "supervisor \<Rightarrow> team_id \<Rightarrow> bool" where
  "team_is_terminal s team_id =
     is_some_and (fmlookup (s_teams s) team_id) (\<lambda>t. t_status t \<in> {TeamClosed, TeamRetired})"

definition target_recipient_plan :: "supervisor \<Rightarrow> envelope \<Rightarrow> failure + recipient_plan" where
  "target_recipient_plan s env =
     (case e_target env of
        TargetPrimary \<Rightarrow> plan_of_recipients {|RecipientPrimary|}
      | TargetActor actor_id \<Rightarrow>
          ebind (ok_or (fmlookup (s_actors s) actor_id) (Err (UnknownActor actor_id))) (\<lambda>a.
          ebind (actor_delivery_recipient s a) (\<lambda>r. plan_of_recipients {|r|}))
      | TargetTeam team_id \<Rightarrow>
          if is_directive (e_message env) then
            ebind (directive_team_recipients s team_id) (\<lambda>recipients.
            if recipients = {||} then Inl (Err (Unauthorized ''direct zero-capacity team''))
            else plan_of_recipients recipients)
          else if team_close_disposition (message_kind_of (e_message env)) = ObsoleteOutcome \<and>
                  team_is_terminal s team_id then
            (case fmlookup (s_teams s) team_id of
               None \<Rightarrow> Inl (Panic ''closed team checked above'')
             | Some t \<Rightarrow>
                 ebind (actor_delivery_recipients s
                          (filter (\<lambda>a. a_status a \<noteq> ActorRevoked)
                             (List.map_filter (fmlookup (s_actors s)) (t_actors t)))) (\<lambda>recipients.
                 if recipients = {||} then
                   Inr (PlanRetired (TeamClosedReason team_id (t_epoch t)))
                 else plan_of_recipients recipients))
          else
            ebind (actor_delivery_recipients s
                     (filter (\<lambda>a. a_status a \<notin> {ActorRevoked, ActorStopped} \<and>
                                  a_team_id a = Some team_id) (fmvals (s_actors s))))
              plan_of_recipients
      | TargetWorkspace \<Rightarrow>
          ebind (actor_delivery_recipients s
                   (filter (\<lambda>a. a_status a = ActorHealthy) (fmvals (s_actors s))))
            plan_of_recipients)"

definition delivery_recipient_plan :: "supervisor \<Rightarrow> envelope \<Rightarrow> failure + recipient_plan" where
  "delivery_recipient_plan s env =
     ebind (if is_directive (e_message env) then
              ebind (ok_or (e_team_id env) (Err WrongTeam)) (\<lambda>team_id.
              ebind (ensure_known_team s team_id) (\<lambda>t.
              if t_status t \<in> {TeamClosed, TeamRetired} then
                Inl (Err (Unauthorized ''direct inactive team''))
              else Inr ()))
            else Inr ()) (\<lambda>_.
     case historical_outcome_assignment s env of
       Some q \<Rightarrow>
         ebind (ok_or (q_assignment q) (Err NotAssignedActor)) (\<lambda>assignment.
         Inr (PlanRecipients (RecipientActor (as_actor assignment) (q_team_epoch q)) {||}))
     | None \<Rightarrow> target_recipient_plan s env)"

section \<open>The slot an actor answers for\<close>

definition historical_recipient_for_actor ::
  "supervisor \<Rightarrow> message_target \<Rightarrow> delivery_recipient fset \<Rightarrow> actor_ref \<Rightarrow> delivery_recipient option" where
  "historical_recipient_for_actor s target required ref =
     (if target \<in> {TargetPrimary, TargetWorkspace} \<and> RecipientPrimary |\<in>| required \<and>
         is_some_and (fmlookup (s_actors s) (ref_actor_id ref)) (\<lambda>candidate.
           has_capability candidate HUMAN_FACING_PRIMARY \<and> a_team_id candidate = None)
      then Some RecipientPrimary
      else bs_find (\<lambda>r. case r of RecipientActor actor _ \<Rightarrow> actor = ref | _ \<Rightarrow> False) required)"

definition current_recipient_for_actor ::
  "supervisor \<Rightarrow> message_target \<Rightarrow> delivery_recipient fset \<Rightarrow> actor \<Rightarrow> delivery_recipient option" where
  "current_recipient_for_actor s target required a =
     (if target \<in> {TargetPrimary, TargetWorkspace} \<and> RecipientPrimary |\<in>| required \<and>
         has_capability a HUMAN_FACING_PRIMARY \<and> a_team_id a = None
      then (if active_primary s = Some (actor_ref_of a) then Some RecipientPrimary else None)
      else
        case Option.bind (a_team_id a) (fmlookup (s_teams s)) of
          None \<Rightarrow> None
        | Some t \<Rightarrow>
            bs_find (\<lambda>r. case r of
                       RecipientActor actor epoch \<Rightarrow> actor = actor_ref_of a \<and> epoch = t_epoch t
                     | _ \<Rightarrow> False) required)"

section \<open>Dispositions\<close>

fun fm_of_recipients ::
  "(delivery_recipient \<Rightarrow> delivery_retirement_reason option) \<Rightarrow> delivery_recipient list \<Rightarrow>
   (delivery_recipient, delivery_retirement_reason) fmap" where
  "fm_of_recipients f [] = fmempty"
| "fm_of_recipients f (r # rs) =
     (case f r of
        None \<Rightarrow> fm_of_recipients f rs
      | Some reason \<Rightarrow> fmupd r reason (fm_of_recipients f rs))"

definition closed_team_reason ::
  "supervisor \<Rightarrow> delivery_recipient \<Rightarrow> delivery_retirement_reason option" where
  "closed_team_reason s recipient =
     (case recipient of
        RecipientPrimary \<Rightarrow> None
      | RecipientActor ref epoch \<Rightarrow>
          (case team_of_actor s (ref_actor_id ref) of
             None \<Rightarrow> None
           | Some team_id \<Rightarrow>
               (case fmlookup (s_teams s) team_id of
                  None \<Rightarrow> None
                | Some t \<Rightarrow>
                    if t_status t \<in> {TeamClosed, TeamRetired} then
                      Some (if epoch = t_epoch t then TeamClosedReason team_id (t_epoch t)
                            else TeamGenerationSuperseded team_id epoch)
                    else None)))"

definition closed_team_recipients ::
  "supervisor \<Rightarrow> delivery_recipient fset \<Rightarrow> (delivery_recipient, delivery_retirement_reason) fmap" where
  "closed_team_recipients s required =
     fm_of_recipients (closed_team_reason s) (sorted_list_of_fset required)"

definition initial_undeliverable_recipients ::
  "supervisor \<Rightarrow> delivery_retirement_reason option \<Rightarrow> message_kind \<Rightarrow> request_id option \<Rightarrow>
   delivery_recipient fset \<Rightarrow> (delivery_recipient, delivery_retirement_reason) fmap" where
  "initial_undeliverable_recipients s retirement_reason kind request_id required =
     (if retirement_reason \<noteq> None \<or> message_requires_team_action (s_requests s) kind request_id then
        fmempty
      else
        let historical =
              (case Option.bind request_id (fmlookup (s_requests s)) of
                 None \<Rightarrow> None
               | Some q \<Rightarrow>
                   if is_some_and (fmlookup (s_teams s) (q_team_id q)) (\<lambda>t.
                        q_team_epoch q < t_epoch t \<and> \<not> request_blocks_team_close (q_status q))
                   then Some q else None)
        in case historical of
             Some q \<Rightarrow>
               fm_of_recipients
                 (\<lambda>r. case r of
                        RecipientPrimary \<Rightarrow> None
                      | RecipientActor _ _ \<Rightarrow>
                          Some (TeamGenerationSuperseded (q_team_id q) (q_team_epoch q)))
                 (sorted_list_of_fset required)
           | None \<Rightarrow> closed_team_recipients s required)"

definition recipients_include_inactive_team :: "supervisor \<Rightarrow> delivery_recipient fset \<Rightarrow> bool" where
  "recipients_include_inactive_team s required =
     (\<exists>r |\<in>| required.
        case r of
          RecipientPrimary \<Rightarrow> False
        | RecipientActor ref _ \<Rightarrow>
            is_some_and (Option.bind (team_of_actor s (ref_actor_id ref)) (fmlookup (s_teams s)))
              (\<lambda>t. t_status t \<in> {TeamClosing, TeamClosed}))"

section \<open>Retirement\<close>

definition recipient_resolved :: "delivery_record \<Rightarrow> delivery_recipient \<Rightarrow> bool" where
  "recipient_resolved d r \<longleftrightarrow>
     fmhas (d_acknowledgements d) r \<or> fmhas (d_undeliverable_recipients d) r"

definition retires :: "(request_id, request) fmap \<Rightarrow> delivery_record \<Rightarrow> bool" where
  "retires requests d \<longleftrightarrow>
     d_required_recipients d \<noteq> {||} \<and> (\<forall>r |\<in>| d_required_recipients d. recipient_resolved d r) \<and>
     (is_none_or (e_request_id (d_envelope d))
        (\<lambda>request_id. is_some_and (fmlookup requests request_id) (\<lambda>q. is_terminal (q_status q))) \<or>
      fmdom (d_undeliverable_recipients d) \<noteq> {||})"

definition retire_delivery :: "(request_id, request) fmap \<Rightarrow> delivery_record \<Rightarrow> delivery_record" where
  "retire_delivery requests d =
     (if \<not> d_retired d \<and> retires requests d then d\<lparr>d_retired := True\<rparr> else d)"

definition retire_fully_acknowledged :: "supervisor \<Rightarrow> supervisor" where
  "retire_fully_acknowledged s =
     s\<lparr>s_mailbox := fmmap (retire_delivery (s_requests s)) (s_mailbox s)\<rparr>"

end
