(* ===== verification/Membership.thy ===== *)
theory Membership
  imports Delivery
begin

text \<open>
  The membership operations of \<open>crates/agsv-core/src/supervisor.rs\<close>: activating the Primary
  lease, creating teams and moving them through their lifecycle, actor status and heartbeat,
  registering and replacing implementation actors, and the recipient dispositions that a closing
  or recreated team leaves in the mailbox.
\<close>

section \<open>Primary lease\<close>

text \<open>What has to be released before the lease is taken: the holder with its next status, and the
  next lease epoch.\<close>

definition lease_replacement ::
  "supervisor \<Rightarrow> failure + (actor_id \<times> actor_status \<times> primary_epoch) option" where
  "lease_replacement s =
     (case s_active_primary s of
        None \<Rightarrow> Inr None
      | Some previous \<Rightarrow>
          ebind (ok_or (fmlookup (s_actors s) previous) (Err (UnknownActor previous)))
            (\<lambda>previous_actor.
          ebind (map_err Err (transition_actor (a_status previous_actor) ActorRevoked)) (\<lambda>status.
          ebind (ok_or (checked_next (s_primary_epoch s)) (Err EpochExhausted)) (\<lambda>epoch.
          Inr (Some (previous, status, epoch))))))"

definition install_primary ::
  "supervisor \<Rightarrow> (actor_id \<times> actor_status \<times> primary_epoch) option \<Rightarrow> actor_id \<Rightarrow> actor \<Rightarrow>
   supervisor" where
  "install_primary s replacement actor_id a =
     (let s1 = (case replacement of
                  None \<Rightarrow> s
                | Some (previous, status, epoch) \<Rightarrow>
                    s\<lparr>s_actors := fmmodify previous (\<lambda>a. a\<lparr>a_status := status\<rparr>) (s_actors s),
                      s_primary_epoch := epoch\<rparr>)
      in s1\<lparr>s_actors := fmupd actor_id a (s_actors s1), s_active_primary := Some actor_id\<rparr>)"

definition activate_primary_inner ::
  "supervisor \<Rightarrow> actor_id \<Rightarrow> actor_role \<Rightarrow> actor_profile option \<Rightarrow>
   (failure + actor_ref) \<times> supervisor" where
  "activate_primary_inner s actor_id role profile =
     attempt s (reject_if (MAX_DOMAIN_ENTITIES \<le> fmsize (s_actors s) \<and> \<not> fmhas (s_actors s) actor_id)
                  (quota ''actors'' MAX_DOMAIN_ENTITIES)) (\<lambda>_.
     let proposed = healthy_actor (s_workspace_id s) actor_id None role profile EPOCH_INITIAL in
     attempt s (map_err (Err \<circ> Validation) (actor_validate proposed)) (\<lambda>_.
     attempt s (reject_if (\<not> has_capability proposed HUMAN_FACING_PRIMARY)
                  (Err (Unauthorized ''activate Primary without human_facing_primary capability'')))
       (\<lambda>_.
     attempt s (reject_if (is_some_and (fmlookup (s_actors s) actor_id) (\<lambda>a.
                             a_role a \<noteq> role \<or> a_profile a \<noteq> profile \<or> a_team_id a \<noteq> None))
                  (Err (AlreadyExists ''actor id''))) (\<lambda>_.
     if is_some_and (fmlookup (s_actors s) actor_id) (\<lambda>a.
          s_active_primary s = Some actor_id \<and> a_status a = ActorHealthy)
     then attempt s (ok_or (fmlookup (s_actors s) actor_id) (Err (UnknownActor actor_id)))
            (\<lambda>a. (Inr (actor_ref_of a), s))
     else
     attempt s (next_actor_epoch s actor_id) (\<lambda>actor_epoch.
     attempt s (lease_replacement s) (\<lambda>replacement.
     let a = healthy_actor (s_workspace_id s) actor_id None role profile actor_epoch;
         ref = ActorRef actor_id actor_epoch
     in (Inr ref,
         record_actor_generation_anchor (install_primary s replacement actor_id a) ref None)))))))"

definition activate_primary :: "supervisor \<Rightarrow> actor_id \<Rightarrow> (failure + actor_ref) \<times> supervisor" where
  "activate_primary s actor_id = activate_primary_inner s actor_id PrimaryRole None"

definition activate_primary_with_profile ::
  "supervisor \<Rightarrow> actor_id \<Rightarrow> actor_role \<Rightarrow> actor_profile \<Rightarrow> (failure + actor_ref) \<times> supervisor" where
  "activate_primary_with_profile s actor_id role profile =
     activate_primary_inner s actor_id role (Some profile)"

section \<open>Recipient dispositions of closed teams\<close>

definition team_member_ids :: "supervisor \<Rightarrow> team_id \<Rightarrow> actor_id set" where
  "team_member_ids s team_id =
     set (map a_actor_id (filter (\<lambda>a. a_team_id a = Some team_id) (fmvals (s_actors s))))"

definition supersede_recipients ::
  "actor_id set \<Rightarrow> team_id \<Rightarrow> team_epoch \<Rightarrow> delivery_record \<Rightarrow> delivery_record" where
  "supersede_recipients members team_id previous_epoch d =
     (let waived = filter (\<lambda>r. case r of
                      RecipientPrimary \<Rightarrow> False
                    | RecipientActor ref epoch \<Rightarrow>
                        epoch \<le> previous_epoch \<and> ref_actor_id ref \<in> members \<and>
                        \<not> fmhas (d_acknowledgements d) r)
                    (sorted_list_of_fset (d_required_recipients d));
          d1 = d\<lparr>d_undeliverable_recipients :=
                  fold (\<lambda>r m. fmupd r (TeamGenerationSuperseded team_id (dra_team_epoch r)) m) waived
                    (d_undeliverable_recipients d)\<rparr>
      in if (case d_retirement_reason d1 of
               Some (TeamClosedReason retired_team epoch) \<Rightarrow>
                 retired_team = team_id \<and> epoch \<le> previous_epoch
             | _ \<Rightarrow> False)
         then d1\<lparr>d_retirement_reason := Some (TeamGenerationSuperseded team_id previous_epoch)\<rparr>
         else d1)"

definition supersede_terminal_team_delivery_history ::
  "supervisor \<Rightarrow> team_id \<Rightarrow> team_epoch \<Rightarrow> supervisor" where
  "supersede_terminal_team_delivery_history s team_id previous_epoch =
     retire_fully_acknowledged
       (s\<lparr>s_mailbox := fmmap (supersede_recipients (team_member_ids s team_id) team_id previous_epoch)
                        (s_mailbox s)\<rparr>)"

section \<open>Teams\<close>

definition create_team_inner ::
  "supervisor \<Rightarrow> team_id \<Rightarrow> team_profile option \<Rightarrow> (failure + team_epoch) \<times> supervisor" where
  "create_team_inner s team_id profile =
     (case fmlookup (s_teams s) team_id of
        Some t \<Rightarrow>
          if t_profile t \<noteq> profile then (Inl (Err (AlreadyExists ''team profile'')), s)
          else if t_status t \<in> {TeamClosed, TeamRetired} then
            attempt s (ok_or (checked_next (t_epoch t)) (Err EpochExhausted)) (\<lambda>next_epoch.
            let s1 = supersede_terminal_team_delivery_history s team_id (t_epoch t);
                s2 = s1\<lparr>s_teams := fmmodify team_id
                           (\<lambda>t. t\<lparr>t_epoch := next_epoch, t_status := TeamActive, t_actors := []\<rparr>)
                           (s_teams s1),
                         s_nonterminal_request_counts :=
                           fmupd team_id 0 (s_nonterminal_request_counts s1)\<rparr>
            in (Inr next_epoch, mark_team_activity s2 team_id))
          else (Inr (t_epoch t), s)
      | None \<Rightarrow>
          attempt s (case profile of
                       None \<Rightarrow> Inr ()
                     | Some p \<Rightarrow> map_err (Err \<circ> Validation) (team_profile_validate p)) (\<lambda>_.
          attempt s (reject_if (MAX_DOMAIN_ENTITIES \<le> fmsize (s_teams s))
                       (quota ''teams'' MAX_DOMAIN_ENTITIES)) (\<lambda>_.
          let t = \<lparr>t_team_id = team_id, t_workspace_id = s_workspace_id s, t_epoch = EPOCH_INITIAL,
                   t_status = TeamActive, t_actors = [], t_profile = profile\<rparr>;
              s1 = s\<lparr>s_teams := fmupd team_id t (s_teams s),
                     s_nonterminal_request_counts :=
                       fmupd team_id 0 (s_nonterminal_request_counts s)\<rparr>
          in (Inr EPOCH_INITIAL, mark_team_activity s1 team_id))))"

definition create_team :: "supervisor \<Rightarrow> team_id \<Rightarrow> (failure + team_epoch) \<times> supervisor" where
  "create_team s team_id = create_team_inner s team_id None"

definition create_team_with_profile ::
  "supervisor \<Rightarrow> team_id \<Rightarrow> team_profile \<Rightarrow> (failure + team_epoch) \<times> supervisor" where
  "create_team_with_profile s team_id profile = create_team_inner s team_id (Some profile)"

definition set_team_status :: "supervisor \<Rightarrow> team_id \<Rightarrow> team_status \<Rightarrow> (failure + unit) \<times> supervisor" where
  "set_team_status s team_id status =
     attempt s (ok_or (fmlookup (s_teams s) team_id) (Err (UnknownTeam team_id))) (\<lambda>t.
     attempt s (map_err Err (transition_team (t_status t) status)) (\<lambda>next_status.
     let s1 = s\<lparr>s_teams := fmmodify team_id (\<lambda>t. t\<lparr>t_status := next_status\<rparr>) (s_teams s)\<rparr>
     in (Inr (), if next_status \<noteq> t_status t then mark_team_activity s1 team_id else s1)))"

section \<open>Actor status\<close>

definition set_actor_status :: "supervisor \<Rightarrow> actor_ref \<Rightarrow> actor_status \<Rightarrow> (failure + unit) \<times> supervisor" where
  "set_actor_status s ref status =
     attempt s (current_actor s ref) (\<lambda>a.
     attempt s (reject_if (has_capability a HUMAN_FACING_PRIMARY \<and> a_team_id a = None \<and>
                           status = ActorHealthy \<and> s_active_primary s \<noteq> Some (a_actor_id a))
                  (Err (Unauthorized ''activate Primary before marking it healthy''))) (\<lambda>_.
     attempt s (map_err Err (transition_actor (a_status a) status)) (\<lambda>next_status.
     let clears_primary = (s_active_primary s = Some (a_actor_id a) \<and> next_status \<noteq> ActorHealthy) in
     attempt s (if clears_primary
                then ebind (ok_or (checked_next (s_primary_epoch s)) (Err EpochExhausted))
                       (\<lambda>epoch. Inr (Some epoch))
                else Inr None) (\<lambda>next_primary_epoch.
     let s1 = s\<lparr>s_actors := fmmodify (ref_actor_id ref) (\<lambda>a. a\<lparr>a_status := next_status\<rparr>)
                              (s_actors s)\<rparr>
     in (Inr (),
         case next_primary_epoch of
           None \<Rightarrow> s1
         | Some epoch \<Rightarrow> s1\<lparr>s_primary_epoch := epoch, s_active_primary := None\<rparr>)))))"

definition heartbeat :: "supervisor \<Rightarrow> actor_ref \<Rightarrow> timestamp_millis \<Rightarrow> (failure + unit) \<times> supervisor" where
  "heartbeat s ref observed_at =
     attempt s (reject_if (is_some_and (fmlookup (s_actors s) (ref_actor_id ref)) (\<lambda>a.
                             has_capability a HUMAN_FACING_PRIMARY \<and> a_team_id a = None \<and>
                             s_active_primary s \<noteq> Some (a_actor_id a)))
                  (Err (Unauthorized ''heartbeat without active Primary lease''))) (\<lambda>_.
     sbind (set_actor_status s ref ActorHealthy) (\<lambda>_ s1.
     attempt s1 (ok_or (fmlookup (s_actors s1) (ref_actor_id ref))
                   (Err (UnknownActor (ref_actor_id ref)))) (\<lambda>a.
     (Inr (),
      s1\<lparr>s_actors := fmmodify (ref_actor_id ref)
           (\<lambda>a. a\<lparr>a_last_heartbeat_at :=
                  Some (case a_last_heartbeat_at a of
                          None \<Rightarrow> observed_at | Some current \<Rightarrow> max current observed_at)\<rparr>)
           (s_actors s1)\<rparr>))))"

end
