(* ===== verification/Registration.thy ===== *)
theory Registration
  imports Membership
begin

text \<open>
  Registering and replacing implementation actors in
  \<open>crates/agsv-core/src/supervisor.rs\<close>. A replacement advances the team, actor and
  assignment fences together and disposes of the deliveries of the superseded generation. The
  sweep of obsolete recipients at team close is here too.
\<close>

section \<open>Registration\<close>

definition register_fresh ::
  "supervisor \<Rightarrow> team \<Rightarrow> team_id \<Rightarrow> actor_id \<Rightarrow> actor_role \<Rightarrow> actor_profile option \<Rightarrow>
   (failure + actor_ref) \<times> supervisor" where
  "register_fresh s t team_id actor_id role profile =
     attempt s (reject_if (MAX_DOMAIN_ENTITIES \<le> length (t_actors t))
                  (quota ''team actors'' MAX_DOMAIN_ENTITIES)) (\<lambda>_.
     attempt s (next_actor_epoch s actor_id) (\<lambda>actor_epoch.
     let a = healthy_actor (s_workspace_id s) actor_id (Some team_id) role profile actor_epoch;
         s1 = s\<lparr>s_actors := fmupd actor_id a (s_actors s),
                s_teams := fmmodify team_id (\<lambda>t. t\<lparr>t_actors := t_actors t @ [actor_id]\<rparr>)
                             (s_teams s)\<rparr>;
         ref = ActorRef actor_id actor_epoch
     in (Inr ref, record_actor_generation_anchor s1 ref (Some team_id))))"

definition register_implementation_inner ::
  "supervisor \<Rightarrow> team_id \<Rightarrow> actor_id \<Rightarrow> actor_role \<Rightarrow> actor_profile option \<Rightarrow>
   (failure + actor_ref) \<times> supervisor" where
  "register_implementation_inner s team_id actor_id role profile =
     attempt s (reject_if (MAX_DOMAIN_ENTITIES \<le> fmsize (s_actors s) \<and> \<not> fmhas (s_actors s) actor_id)
                  (quota ''actors'' MAX_DOMAIN_ENTITIES)) (\<lambda>_.
     attempt s (ok_or (fmlookup (s_teams s) team_id) (Err (UnknownTeam team_id))) (\<lambda>t.
     attempt s (reject_if (t_status t \<noteq> TeamActive)
                  (Err (Unauthorized ''register actor for inactive team''))) (\<lambda>_.
     attempt s (ensure_team_profile_actor t profile) (\<lambda>_.
     attempt s (map_err (Err \<circ> Validation)
                  (actor_validate (healthy_actor (s_workspace_id s) actor_id (Some team_id) role
                                     profile EPOCH_INITIAL))) (\<lambda>_.
     case fmlookup (s_actors s) actor_id of
       Some a \<Rightarrow>
         if a_role a = role \<and> a_profile a = profile \<and> a_team_id a = Some team_id \<and>
            a_status a = ActorHealthy \<and> actor_id \<in> set (t_actors t)
         then (Inr (actor_ref_of a), s)
         else if a_role a \<noteq> role \<or> a_profile a \<noteq> profile \<or> a_team_id a \<noteq> Some team_id \<or>
                 a_status a \<notin> {ActorStopped, ActorRevoked} \<or> actor_id \<in> set (t_actors t)
         then (Inl (Err (AlreadyExists ''actor id'')), s)
         else register_fresh s t team_id actor_id role profile
     | None \<Rightarrow> register_fresh s t team_id actor_id role profile)))))"

definition register_implementation ::
  "supervisor \<Rightarrow> team_id \<Rightarrow> actor_id \<Rightarrow> (failure + actor_ref) \<times> supervisor" where
  "register_implementation s team_id actor_id =
     register_implementation_inner s team_id actor_id ImplementationRole None"

definition register_implementation_with_profile ::
  "supervisor \<Rightarrow> team_id \<Rightarrow> actor_id \<Rightarrow> actor_role \<Rightarrow> actor_profile \<Rightarrow>
   (failure + actor_ref) \<times> supervisor" where
  "register_implementation_with_profile s team_id actor_id role profile =
     register_implementation_inner s team_id actor_id role (Some profile)"

section \<open>Replacement\<close>

definition replacement_source_actor_id :: "team \<Rightarrow> actor_id \<Rightarrow> failure + actor_id" where
  "replacement_source_actor_id t actor_id =
     (if actor_id \<in> set (t_actors t) then Inr actor_id else Inl (Err (UnknownActor actor_id)))"

fun replacement_plan_of ::
  "supervisor \<Rightarrow> actor_id \<Rightarrow> request list \<Rightarrow>
   failure + (request_id \<times> run_id \<times> assignment_epoch) list" where
  "replacement_plan_of s replaced [] = Inr []"
| "replacement_plan_of s replaced (q # qs) =
     ebind (ok_or (q_assignment q) (Err NotAssignedActor)) (\<lambda>assignment.
     if ref_actor_id (as_actor assignment) \<noteq> replaced then replacement_plan_of s replaced qs
     else if \<not> fmhas (s_runs s) (q_run_id q) then Inl (Err (UnknownRun (q_run_id q)))
     else if \<not> is_terminal (q_status q) then
       ebind (ok_or (checked_next (as_epoch assignment)) (Err EpochExhausted)) (\<lambda>next_epoch.
       ebind (replacement_plan_of s replaced qs) (\<lambda>plan.
       Inr ((q_request_id q, q_run_id q, next_epoch) # plan)))
     else replacement_plan_of s replaced qs)"

definition replacement_assignment_plan ::
  "supervisor \<Rightarrow> team_id \<Rightarrow> actor_id option \<Rightarrow>
   failure + (request_id \<times> run_id \<times> assignment_epoch) list" where
  "replacement_assignment_plan s team_id replaced =
     (case replaced of
        None \<Rightarrow> Inr []
      | Some r \<Rightarrow>
          replacement_plan_of s r (filter (\<lambda>q. q_team_id q = team_id) (fmvals (s_requests s))))"

text \<open>
  The two loops of the commit: every nonterminal request of the team and its run move to the new
  team generation, then the planned assignments move to the new actor generation.
\<close>

fun roll_request_generations ::
  "supervisor \<Rightarrow> team_epoch \<Rightarrow> request list \<Rightarrow> (failure + unit) \<times> supervisor" where
  "roll_request_generations s epoch [] = (Inr (), s)"
| "roll_request_generations s epoch (q # qs) =
     (let s1 = s\<lparr>s_requests := fmmodify (q_request_id q) (\<lambda>q. q\<lparr>q_team_epoch := epoch\<rparr>)
                                (s_requests s)\<rparr> in
      attempt s1 (expect (fmlookup (s_runs s1) (q_run_id q))
                    ''replacement plan validated every active run'') (\<lambda>_.
      roll_request_generations
        (s1\<lparr>s_runs := fmmodify (q_run_id q) (\<lambda>r. r\<lparr>r_team_epoch := epoch\<rparr>) (s_runs s1)\<rparr>) epoch qs))"

fun reassign_requests ::
  "supervisor \<Rightarrow> actor_ref \<Rightarrow> (request_id \<times> run_id \<times> assignment_epoch) list \<Rightarrow>
   (failure + unit) \<times> supervisor" where
  "reassign_requests s ref [] = (Inr (), s)"
| "reassign_requests s ref ((request_id, run_id, next_epoch) # plan) =
     attempt s (expect (fmlookup (s_requests s) request_id) ''replacement request checked above'')
       (\<lambda>q.
     attempt s (expect (q_assignment q) ''replacement assignment checked above'') (\<lambda>_.
     let assignment = Assignment ref next_epoch;
         s1 = s\<lparr>s_requests := fmmodify request_id (\<lambda>q. q\<lparr>q_assignment := Some assignment\<rparr>)
                                (s_requests s)\<rparr> in
     attempt s1 (expect (fmlookup (s_runs s1) run_id) ''replacement run checked above'') (\<lambda>_.
     reassign_requests
       (s1\<lparr>s_runs := fmmodify run_id (\<lambda>r. r\<lparr>r_assignment := Some assignment\<rparr>) (s_runs s1),
           s_handoffs := fmretain (\<lambda>p. hr_request_id (ph_offer p) \<noteq> request_id) (s_handoffs s1)\<rparr>)
       ref plan)))"

definition supersede_live_recipients ::
  "actor_id set \<Rightarrow> team_id \<Rightarrow> team_epoch \<Rightarrow> delivery_record \<Rightarrow> delivery_record" where
  "supersede_live_recipients members team_id previous_epoch d =
     (if d_retired d then d
      else
        let superseded = filter (\<lambda>r. case r of
                           RecipientPrimary \<Rightarrow> False
                         | RecipientActor ref epoch \<Rightarrow>
                             epoch = previous_epoch \<and> ref_actor_id ref \<in> members \<and>
                             \<not> fmhas (d_acknowledgements d) r)
                         (sorted_list_of_fset (d_required_recipients d))
        in d\<lparr>d_undeliverable_recipients :=
               fold (\<lambda>r m. if fmhas m r then m
                            else fmupd r (TeamGenerationSuperseded team_id previous_epoch) m)
                 superseded (d_undeliverable_recipients d)\<rparr>)"

text \<open>The commit up to the two loops: the previous generation is revoked, the new one installed in
  the roster, and the team generation advanced.\<close>

definition install_replacement ::
  "supervisor \<Rightarrow> actor_id \<Rightarrow> actor_status option \<Rightarrow> actor_id \<Rightarrow> actor \<Rightarrow> team_id \<Rightarrow> team_epoch \<Rightarrow>
   supervisor" where
  "install_replacement s replaced_actor_id replaced_actor_status actor_id a team_id next_team_epoch =
     (let s1 = (case replaced_actor_status of
                  None \<Rightarrow> s
                | Some status \<Rightarrow>
                    s\<lparr>s_actors := fmmodify replaced_actor_id (\<lambda>a. a\<lparr>a_status := status\<rparr>)
                                    (s_actors s)\<rparr>)
      in s1\<lparr>s_actors := fmupd actor_id a (s_actors s1),
            s_teams := fmmodify team_id
              (\<lambda>t. t\<lparr>t_epoch := next_team_epoch,
                      t_actors := (if actor_id \<in> set (t_actors t) then t_actors t
                                   else t_actors t @ [actor_id])\<rparr>) (s_teams s1)\<rparr>)"

definition replace_implementation_inner ::
  "supervisor \<Rightarrow> team_id \<Rightarrow> actor_id \<Rightarrow> actor_role \<Rightarrow> actor_profile option \<Rightarrow>
   (failure + actor_ref) \<times> supervisor" where
  "replace_implementation_inner s team_id actor_id role profile =
     attempt s (ok_or (fmlookup (s_teams s) team_id) (Err (UnknownTeam team_id))) (\<lambda>t.
     attempt s (reject_if (t_status t \<noteq> TeamActive)
                  (Err (Unauthorized ''replace actor for inactive team''))) (\<lambda>_.
     attempt s (replacement_source_actor_id t actor_id) (\<lambda>replaced_actor_id.
     attempt s (ensure_team_profile_actor t profile) (\<lambda>_.
     attempt s (map_err (Err \<circ> Validation)
                  (actor_validate (healthy_actor (s_workspace_id s) actor_id (Some team_id) role
                                     profile EPOCH_INITIAL))) (\<lambda>_.
     attempt s (reject_if (is_some_and (fmlookup (s_actors s) actor_id) (\<lambda>a.
                             a_role a \<noteq> role \<or> a_profile a \<noteq> profile \<or> a_team_id a \<noteq> Some team_id))
                  (Err (AlreadyExists ''actor id''))) (\<lambda>_.
     attempt s (reject_if (MAX_DOMAIN_ENTITIES \<le> fmsize (s_actors s) \<and> \<not> fmhas (s_actors s) actor_id)
                  (quota ''actors'' MAX_DOMAIN_ENTITIES)) (\<lambda>_.
     attempt s (reject_if (MAX_DOMAIN_ENTITIES \<le> length (t_actors t) \<and> actor_id \<notin> set (t_actors t))
                  (quota ''team actors'' MAX_DOMAIN_ENTITIES)) (\<lambda>_.
     attempt s (ok_or (checked_next (t_epoch t)) (Err EpochExhausted)) (\<lambda>next_team_epoch.
     attempt s (next_actor_epoch s actor_id) (\<lambda>next_epoch.
     attempt s
       (case fmlookup (s_actors s) replaced_actor_id of
          None \<Rightarrow> Inr None
        | Some a \<Rightarrow>
            if a_status a = ActorStopped then Inr None
            else ebind (map_err Err (transition_actor (a_status a) ActorRevoked))
                   (\<lambda>status. Inr (Some status))) (\<lambda>replaced_actor_status.
     attempt s (replacement_assignment_plan s team_id (Some replaced_actor_id)) (\<lambda>plan.
     let a = healthy_actor (s_workspace_id s) actor_id (Some team_id) role profile next_epoch;
         s2 = install_replacement s replaced_actor_id replaced_actor_status actor_id a team_id
                next_team_epoch;
         ref = ActorRef actor_id next_epoch
     in
     sbind (roll_request_generations s2 next_team_epoch
              (filter (\<lambda>q. q_team_id q = team_id \<and> \<not> is_terminal (q_status q))
                 (fmvals (s_requests s2)))) (\<lambda>_ s3.
     sbind (reassign_requests s3 ref plan) (\<lambda>_ s4.
     let s5 = retire_fully_acknowledged
                (s4\<lparr>s_mailbox :=
                      fmmap (supersede_live_recipients (team_member_ids s4 team_id) team_id (t_epoch t))
                        (s_mailbox s4)\<rparr>);
         s6 = record_actor_generation_anchor s5 ref (Some team_id)
     in (Inr ref,
         s6\<lparr>s_pending_observability := (s_pending_observability s6)\<lparr>po_epoch_roll_team_ids :=
               finsert team_id (po_epoch_roll_team_ids (s_pending_observability s6))\<rparr>\<rparr>)))))))))))))))"

definition replace_implementation ::
  "supervisor \<Rightarrow> team_id \<Rightarrow> actor_id \<Rightarrow> (failure + actor_ref) \<times> supervisor" where
  "replace_implementation s team_id actor_id =
     attempt s (ok_or (fmlookup (s_teams s) team_id) (Err (UnknownTeam team_id))) (\<lambda>t.
     let metadata =
           map_option (\<lambda>a. (a_role a, a_profile a))
             (case fmlookup (s_actors s) actor_id of
                Some a \<Rightarrow> Some a
              | None \<Rightarrow>
                  (case List.map_filter (fmlookup (s_actors s)) (t_actors t) of
                     [] \<Rightarrow> None | a # _ \<Rightarrow> Some a));
         (role, profile) = (case metadata of None \<Rightarrow> (ImplementationRole, None) | Some m \<Rightarrow> m)
     in replace_implementation_inner s team_id actor_id role profile)"

definition replace_implementation_with_profile ::
  "supervisor \<Rightarrow> team_id \<Rightarrow> actor_id \<Rightarrow> actor_role \<Rightarrow> actor_profile \<Rightarrow>
   (failure + actor_ref) \<times> supervisor" where
  "replace_implementation_with_profile s team_id actor_id role profile =
     replace_implementation_inner s team_id actor_id role (Some profile)"

section \<open>Closing a team\<close>

definition obsolete_recipients ::
  "(request_id, request) fmap \<Rightarrow> actor_id set \<Rightarrow> delivery_record \<Rightarrow> delivery_recipient list" where
  "obsolete_recipients requests members d =
     (if d_retired d \<or>
         message_requires_team_action requests (d_message_kind d) (e_request_id (d_envelope d))
      then []
      else filter (\<lambda>r. case r of
             RecipientPrimary \<Rightarrow> False
           | RecipientActor ref _ \<Rightarrow>
               ref_actor_id ref \<in> members \<and> \<not> fmhas (d_acknowledgements d) r \<and>
               \<not> fmhas (d_undeliverable_recipients d) r)
           (sorted_list_of_fset (d_required_recipients d)))"

definition waive_obsolete_recipients ::
  "(request_id, request) fmap \<Rightarrow> actor_id set \<Rightarrow> team_id \<Rightarrow> team_epoch \<Rightarrow> delivery_record \<Rightarrow>
   delivery_record" where
  "waive_obsolete_recipients requests members team_id closing_epoch d =
     d\<lparr>d_undeliverable_recipients :=
         fold (\<lambda>r m.
                 fmupd r (if dra_team_epoch r = closing_epoch
                          then TeamClosedReason team_id closing_epoch
                          else TeamGenerationSuperseded team_id (dra_team_epoch r)) m)
           (obsolete_recipients requests members d) (d_undeliverable_recipients d)\<rparr>"

definition retire_obsolete_team_recipients ::
  "supervisor \<Rightarrow> team_id \<Rightarrow> (failure + message_id list) \<times> supervisor" where
  "retire_obsolete_team_recipients s team_id =
     attempt s (ensure_known_team s team_id) (\<lambda>t.
     attempt s (reject_if (t_status t \<notin> {TeamClosing, TeamClosed, TeamRetired})
                  (Err (Unauthorized ''retire delivery recipients for a team that is not closing'')))
       (\<lambda>_.
     let members = set (t_actors t);
         affected = map (\<lambda>d. e_message_id (d_envelope d))
                      (filter (\<lambda>d. obsolete_recipients (s_requests s) members d \<noteq> [])
                         (fmvals (s_mailbox s)));
         s1 = retire_fully_acknowledged
                (s\<lparr>s_mailbox :=
                     fmmap (waive_obsolete_recipients (s_requests s) members team_id (t_epoch t))
                       (s_mailbox s)\<rparr>)
     in (Inr affected, if affected = [] then s1 else mark_team_activity s1 team_id)))"

end
