(* ===== verification/Handlers.thy ===== *)
theory Handlers
  imports Registration
begin

text \<open>
  The message handlers of \<open>crates/agsv-core/src/supervisor.rs\<close>, one per payload, and their
  dispatcher \<open>apply_message\<close>. A handler checks first and changes the request, its run and the
  pending handoffs only after the last check that can fail.
\<close>

section \<open>Writing a request and its run\<close>

definition upd_request :: "request_id \<Rightarrow> (request \<Rightarrow> request) \<Rightarrow> supervisor \<Rightarrow> supervisor" where
  "upd_request request_id f s = s\<lparr>s_requests := fmmodify request_id f (s_requests s)\<rparr>"

definition upd_run :: "run_id \<Rightarrow> (run \<Rightarrow> run) \<Rightarrow> supervisor \<Rightarrow> supervisor" where
  "upd_run run_id f s = s\<lparr>s_runs := fmmodify run_id f (s_runs s)\<rparr>"

definition drop_handoffs :: "(pending_handoff \<Rightarrow> bool) \<Rightarrow> supervisor \<Rightarrow> supervisor" where
  "drop_handoffs P s = s\<lparr>s_handoffs := fmretain (\<lambda>p. \<not> P p) (s_handoffs s)\<rparr>"

text \<open>\<open>get_mut(..).expect(..)\<close> followed by a write: a missing key is a panic.\<close>

definition put_request ::
  "request_id \<Rightarrow> (request \<Rightarrow> request) \<Rightarrow> supervisor \<Rightarrow> (failure + unit) \<times> supervisor" where
  "put_request request_id f s =
     attempt s (expect (fmlookup (s_requests s) request_id) ''request checked above'') (\<lambda>_.
     (Inr (), upd_request request_id f s))"

definition put_run :: "run_id \<Rightarrow> (run \<Rightarrow> run) \<Rightarrow> supervisor \<Rightarrow> (failure + unit) \<times> supervisor" where
  "put_run run_id f s =
     attempt s (expect (fmlookup (s_runs s) run_id) ''run checked above'') (\<lambda>_.
     (Inr (), upd_run run_id f s))"

definition put_both ::
  "request_id \<Rightarrow> (request \<Rightarrow> request) \<Rightarrow> run_id \<Rightarrow> (run \<Rightarrow> run) \<Rightarrow> supervisor \<Rightarrow>
   (failure + unit) \<times> supervisor" where
  "put_both request_id f run_id g s =
     sbind (put_request request_id f s) (\<lambda>_ s1. put_run run_id g s1)"

definition set_statuses ::
  "request_id \<Rightarrow> run_id \<Rightarrow> request_status \<Rightarrow> run_status \<Rightarrow> supervisor \<Rightarrow>
   (failure + unit) \<times> supervisor" where
  "set_statuses request_id run_id next_request next_run s =
     put_both request_id (\<lambda>q. q\<lparr>q_status := next_request\<rparr>)
       run_id (\<lambda>r. r\<lparr>r_status := next_run\<rparr>) s"

definition transition_context ::
  "supervisor \<Rightarrow> envelope \<Rightarrow> request_event \<Rightarrow> run_event \<Rightarrow> (failure + unit) \<times> supervisor" where
  "transition_context s env request_event run_event =
     attempt s (request_context s env) (\<lambda>q.
     attempt s (map_err Err (transition_request (q_status q) request_event)) (\<lambda>next_request.
     attempt s (ok_or (fmlookup (s_runs s) (q_run_id q)) (Err (UnknownRun (q_run_id q)))) (\<lambda>r.
     attempt s (map_err Err (transition_run (r_status r) run_event)) (\<lambda>next_run.
     set_statuses (q_request_id q) (q_run_id q) next_request next_run s))))"

section \<open>Read-only handlers\<close>

definition apply_consultation_request ::
  "supervisor \<Rightarrow> envelope \<Rightarrow> actor \<Rightarrow> consultation_request \<Rightarrow> failure + unit" where
  "apply_consultation_request s env a consultation =
     ebind (require_consultation_requester s a) (\<lambda>_.
     if cq_consultation_id consultation \<noteq> e_message_id env then Inl (Err WrongRequestContext)
     else if a_team_id a = Some (cq_target_team_id consultation) then Inl (Err WrongTeam)
     else ensure_active_target_team s (cq_target_team_id consultation) (e_target env))"

definition apply_primary_directive :: "supervisor \<Rightarrow> envelope \<Rightarrow> actor \<Rightarrow> failure + unit" where
  "apply_primary_directive s env a =
     ebind (require_primary s a ''issue Primary directive'') (\<lambda>_.
     if e_assignment_epoch env \<noteq> None then
       Inl (Err (Unauthorized ''Primary directive must not carry an executor assignment fence''))
     else
     ebind (ok_or (e_team_id env) (Err WrongTeam)) (\<lambda>team_id.
     ebind (ensure_known_team s team_id) (\<lambda>t.
     if t_status t \<notin> {TeamActive, TeamPaused} then Inl (Err (Unauthorized ''direct inactive team''))
     else if is_some_and (t_profile t) (\<lambda>profile. tp_desired_instances profile = 0) then
       Inl (Err (Unauthorized ''direct zero-capacity team''))
     else
     ebind (if e_request_id env \<noteq> None then ensure_assignee_target s env else Inr ()) (\<lambda>_.
     case e_target env of
       TargetTeam target_team_id \<Rightarrow>
         if target_team_id = team_id then
           ebind (directive_team_recipients s team_id) (\<lambda>recipients.
           if recipients \<noteq> {||} then Inr () else Inl (Err WrongTarget))
         else Inl (Err WrongTarget)
     | TargetActor target_actor_id \<Rightarrow>
         ebind (ok_or (fmlookup (s_actors s) target_actor_id) (Err (UnknownActor target_actor_id)))
           (\<lambda>target.
         if a_team_id target = Some team_id \<and> a_status target \<notin> {ActorRevoked, ActorStopped}
         then Inr () else Inl (Err WrongTarget))
     | _ \<Rightarrow> Inl (Err WrongTarget)))))"

text \<open>The first consultation request in the mailbox with this id: its header and its target.\<close>

definition find_consultation ::
  "supervisor \<Rightarrow> message_id \<Rightarrow> (envelope_header \<times> team_id) option" where
  "find_consultation s consultation_id =
     (case List.map_filter
             (\<lambda>d. case d_causal d of
                     CausalConsultationRequest cid target \<Rightarrow>
                       if cid = consultation_id then Some (d_envelope d, target) else None
                   | _ \<Rightarrow> None) (fmvals (s_mailbox s)) of
        [] \<Rightarrow> None
      | found # _ \<Rightarrow> Some found)"

definition apply_consultation_response ::
  "supervisor \<Rightarrow> envelope \<Rightarrow> actor \<Rightarrow> consultation_response \<Rightarrow> failure + unit" where
  "apply_consultation_response s env a response =
     ebind (require_implementation a ''answer consultation'') (\<lambda>_.
     if a_team_id a \<noteq> Some (cs_responding_team_id response) then Inl (Err WrongTeam)
     else
     ebind (ok_or (find_consultation s (cs_consultation_id response)) (Err UnknownMessage))
       (\<lambda>(request_envelope, target_team_id).
     if target_team_id \<noteq> cs_responding_team_id response then Inl (Err WrongTeam)
     else
       let requester_id = ref_actor_id (e_sender request_envelope);
           expected_target =
             (if is_some_and (fmlookup (s_actors s) requester_id) (\<lambda>requester.
                   has_capability requester HUMAN_FACING_PRIMARY \<and> a_team_id requester = None)
              then TargetPrimary else TargetActor requester_id)
       in if e_target env \<noteq> expected_target then Inl (Err WrongTarget) else Inr ()))"

definition apply_dependency_notice ::
  "supervisor \<Rightarrow> envelope \<Rightarrow> actor \<Rightarrow> dependency_notice \<Rightarrow> failure + unit" where
  "apply_dependency_notice s env a notice =
     ebind (require_implementation a ''declare dependency'') (\<lambda>_.
     ebind (ensure_current_assignment s env a) (\<lambda>_.
     ebind (request_context s env) (\<lambda>blocked.
     if q_request_id blocked \<noteq> dn_blocked_request_id notice then Inl (Err WrongRequestContext)
     else
     ebind (ok_or (fmlookup (s_requests s) (dn_depends_on_request_id notice))
              (Err (UnknownRequest (dn_depends_on_request_id notice)))) (\<lambda>dependency.
     if q_team_id dependency \<noteq> dn_provider_team_id notice then Inl (Err WrongTeam)
     else ensure_active_target_team s (dn_provider_team_id notice) (e_target env)))))"

definition apply_conflict_notice ::
  "supervisor \<Rightarrow> envelope \<Rightarrow> actor \<Rightarrow> conflict_notice \<Rightarrow> failure + unit" where
  "apply_conflict_notice s env a notice =
     ebind (require_implementation a ''report conflict'') (\<lambda>_.
     ebind (ok_or (a_team_id a) (Err WrongTeam)) (\<lambda>sender_team_id.
     if sender_team_id = cf_other_team_id notice then Inl (Err WrongTeam)
     else ensure_active_target_team s (cf_other_team_id notice) (e_target env)))"

definition apply_fix_request :: "supervisor \<Rightarrow> envelope \<Rightarrow> actor \<Rightarrow> fix_request \<Rightarrow> failure + unit" where
  "apply_fix_request s env a fix =
     ebind (require_primary s a ''request fixes'') (\<lambda>_.
     ebind (ensure_assignee_target s env) (\<lambda>_.
     ebind (request_context s env) (\<lambda>q.
     ebind (ensure_candidate q (fr_candidate fix)) (\<lambda>_.
     ebind (ok_or (q_decision q) (Err DecisionMismatch)) (\<lambda>decision.
     if dr_decision_id decision \<noteq> fr_decision_id fix \<or> dr_verdict decision \<noteq> VerdictRejected \<or>
        q_status q \<noteq> ChangesRequested
     then Inl (Err DecisionMismatch) else Inr ())))))"

definition apply_qa_result :: "supervisor \<Rightarrow> envelope \<Rightarrow> actor \<Rightarrow> qa_result \<Rightarrow> failure + unit" where
  "apply_qa_result s env a result =
     ebind (require_implementation a ''report QA'') (\<lambda>_.
     ebind (require_primary_target (e_target env)) (\<lambda>_.
     ebind (ensure_current_assignment s env a) (\<lambda>_.
     ebind (request_context s env) (\<lambda>q. ensure_candidate q (qr_candidate result)))))"

section \<open>Request lifecycle handlers\<close>

definition apply_progress :: "supervisor \<Rightarrow> envelope \<Rightarrow> actor \<Rightarrow> (failure + unit) \<times> supervisor" where
  "apply_progress s env a =
     attempt s (require_implementation a ''report progress'') (\<lambda>_.
     attempt s (require_primary_target (e_target env)) (\<lambda>_.
     attempt s (ensure_current_assignment s env a) (\<lambda>_.
     transition_context s env EvStart RevResume)))"

definition apply_blocker :: "supervisor \<Rightarrow> envelope \<Rightarrow> actor \<Rightarrow> (failure + unit) \<times> supervisor" where
  "apply_blocker s env a =
     attempt s (require_implementation a ''report blocker'') (\<lambda>_.
     attempt s (require_primary_target (e_target env)) (\<lambda>_.
     attempt s (ensure_current_assignment s env a) (\<lambda>_.
     transition_context s env EvBlock RevBlock)))"

definition apply_cancellation :: "supervisor \<Rightarrow> envelope \<Rightarrow> actor \<Rightarrow> (failure + unit) \<times> supervisor" where
  "apply_cancellation s env a =
     attempt s (require_primary s a ''cancel request'') (\<lambda>_.
     attempt s (ensure_assignee_target s env) (\<lambda>_.
     attempt s (ok_or (e_team_epoch env) (Err WrongTeam)) (\<lambda>team_epoch.
     attempt s (ok_or (e_request_id env) (Err WrongRequestContext)) (\<lambda>request_id.
     attempt s (ok_or (fmlookup (s_requests s) request_id) (Err (UnknownRequest request_id))) (\<lambda>q.
     let run_id = q_run_id q in
     sbind (transition_context s env EvCancel RevCancel) (\<lambda>_ s1.
     sbind (put_both request_id (\<lambda>q. q\<lparr>q_team_epoch := team_epoch\<rparr>)
              run_id (\<lambda>r. r\<lparr>r_team_epoch := team_epoch\<rparr>) s1) (\<lambda>_ s2.
     (Inr (), drop_handoffs (\<lambda>p. hr_request_id (ph_offer p) = request_id) s2))))))))"

definition apply_run_control ::
  "supervisor \<Rightarrow> envelope \<Rightarrow> actor \<Rightarrow> run_control_action \<Rightarrow> (failure + unit) \<times> supervisor" where
  "apply_run_control s env a action =
     attempt s (require_primary s a ''control run'') (\<lambda>_.
     attempt s (ensure_assignee_target s env) (\<lambda>_.
     attempt s (reject_if (e_assignment_epoch env \<noteq> None)
       (Err (Unauthorized ''Primary run control cannot carry an executor assignment fence''))) (\<lambda>_.
     attempt s (request_context s env) (\<lambda>q.
     attempt s (case action of
                  ControlPause \<Rightarrow> Inr (q_status q)
                | ControlResume \<Rightarrow> map_err Err (transition_request (q_status q) EvStart))
       (\<lambda>next_request.
     attempt s (ok_or (fmlookup (s_runs s) (q_run_id q)) (Err (UnknownRun (q_run_id q)))) (\<lambda>r.
     attempt s (map_err Err (transition_run (r_status r)
                  (case action of ControlPause \<Rightarrow> RevPause | ControlResume \<Rightarrow> RevResume)))
       (\<lambda>next_run.
     set_statuses (q_request_id q) (q_run_id q) next_request next_run s)))))))"

definition apply_integration_complete ::
  "supervisor \<Rightarrow> envelope \<Rightarrow> actor \<Rightarrow> integration_complete \<Rightarrow> (failure + unit) \<times> supervisor" where
  "apply_integration_complete s env a complete =
     attempt s (require_primary s a ''report integration complete'') (\<lambda>_.
     attempt s (ensure_assignee_target s env) (\<lambda>_.
     attempt s (request_context s env) (\<lambda>q.
     attempt s (ensure_candidate q (ic_candidate complete)) (\<lambda>_.
     attempt s (ok_or (q_integration_authorization q) (Err DecisionMismatch)) (\<lambda>authorization.
     attempt s (reject_if (ia_decision_id authorization \<noteq> ic_decision_id complete)
                  (Err DecisionMismatch)) (\<lambda>_.
     transition_context s env EvComplete RevComplete))))))"

definition apply_implementation_request ::
  "supervisor \<Rightarrow> envelope \<Rightarrow> actor \<Rightarrow> request_specification_ref \<Rightarrow>
   (failure + unit) \<times> supervisor" where
  "apply_implementation_request s env a specification =
     attempt s (require_primary s a ''create implementation request'') (\<lambda>_.
     attempt s (context_ids env) (\<lambda>(request_id, run_id).
     attempt s (reject_if (MAX_DOMAIN_ENTITIES \<le> fmsize (s_requests s) \<or>
                           MAX_DOMAIN_ENTITIES \<le> fmsize (s_runs s))
                  (quota ''requests or runs'' MAX_DOMAIN_ENTITIES)) (\<lambda>_.
     attempt s (reject_if (fmhas (s_requests s) request_id \<or> fmhas (s_runs s) run_id)
                  (Err (AlreadyExists ''request or run''))) (\<lambda>_.
     attempt s (ok_or (e_team_id env) (Err WrongTeam)) (\<lambda>team_id.
     attempt s (ensure_known_team s team_id) (\<lambda>t.
     attempt s (reject_if (t_status t \<noteq> TeamActive)
                  (Err (Unauthorized ''assign work to inactive team''))) (\<lambda>_.
     attempt s (case e_target env of
                  TargetActor target_actor_id \<Rightarrow> Inr target_actor_id
                | _ \<Rightarrow> Inl (Err WrongTarget)) (\<lambda>target_actor_id.
     attempt s (ok_or (fmlookup (s_actors s) target_actor_id) (Err (UnknownActor target_actor_id)))
       (\<lambda>target_actor.
     attempt s (reject_if (\<not> has_capability target_actor IMPLEMENTATION_EXECUTION \<or>
                           a_team_id target_actor \<noteq> Some team_id \<or>
                           a_status target_actor \<noteq> ActorHealthy)
                  (Err (Unauthorized ''assign request to target actor''))) (\<lambda>_.
     attempt s (reject_if (e_assignment_epoch env \<noteq> None)
                  (Err (StaleAssignmentEpoch EPOCH_INITIAL (e_assignment_epoch env)))) (\<lambda>_.
     let assignment = Assignment (actor_ref_of target_actor) EPOCH_INITIAL in
     attempt s (ok_or (e_team_epoch env) (Err WrongTeam)) (\<lambda>team_epoch.
     attempt s (map_err Err (transition_request Open EvAssign)) (\<lambda>request_status.
     attempt s (map_err Err (transition_run RunPending RevStart)) (\<lambda>run_status.
     let q = \<lparr>q_request_id = request_id, q_workspace_id = s_workspace_id s, q_team_id = team_id,
              q_team_epoch = team_epoch, q_run_id = run_id, q_specification = specification,
              q_status = request_status, q_assignment = Some assignment, q_candidate = None,
              q_decision = None, q_integration_authorization = None, q_rejection_count = 0,
              q_fix_cycle_depth = 0, q_candidate_history = []\<rparr>;
         r = \<lparr>r_run_id = run_id, r_workspace_id = s_workspace_id s, r_team_id = team_id,
              r_team_epoch = team_epoch, r_request_id = request_id, r_status = run_status,
              r_assignment = Some assignment\<rparr>
     in (Inr (), s\<lparr>s_requests := fmupd request_id q (s_requests s),
                   s_runs := fmupd run_id r (s_runs s)\<rparr>)))))))))))))))"

end
