(* ===== verification/Outcomes.thy ===== *)
theory Outcomes
  imports Core_Error
begin

text \<open>
  The two promises every operation is checked against, as predicates on outcomes with an
  introduction rule per combinator: \<open>calm\<close> and \<open>never_panics\<close> (no panic), and
  \<open>atomic_from\<close> (a refusal leaves the state it started from).
\<close>

section \<open>Panics\<close>

definition calm :: "failure + 'a \<Rightarrow> bool" where
  "calm r \<longleftrightarrow> (\<forall>m. r \<noteq> Inl (Panic m))"

definition never_panics :: "(failure + 'a) \<times> 's \<Rightarrow> bool" where
  "never_panics p \<longleftrightarrow> calm (fst p)"

named_theorems calm_intros \<open>introduction rules for the absence of panics\<close>

lemma calm_Inr [calm_intros, simp]: "calm (Inr x)"
  by (simp add: calm_def)

lemma calm_Err [calm_intros, simp]: "calm (Inl (Err e))"
  by (simp add: calm_def)

lemma calm_quota [calm_intros, simp]: "calm (Inl (quota r n))"
  by (simp add: calm_def quota_def)

lemma calm_Panic [simp]: "\<not> calm (Inl (Panic m))"
  by (simp add: calm_def)

lemma calm_ebind [calm_intros]:
  "calm m \<Longrightarrow> (\<And>x. m = Inr x \<Longrightarrow> calm (k x)) \<Longrightarrow> calm (ebind m k)"
  by (cases m) (auto simp: calm_def)

lemma calm_ok_or [calm_intros]: "calm (ok_or x (Err e))"
  by (cases x) simp_all

lemma calm_map_err [calm_intros]: "calm (map_err Err m)"
  by (cases m) simp_all

lemma calm_map_err_comp [calm_intros]: "calm (map_err (Err \<circ> f) m)"
  by (cases m) simp_all

lemma calm_reject_if [calm_intros]: "calm (reject_if b (Err e))" "calm (reject_if b (quota r n))"
  by (cases b; simp)+

lemma calm_expect [calm_intros]: "x \<noteq> None \<Longrightarrow> calm (expect x m)"
  by auto

lemma calm_if [calm_intros]: "(b \<Longrightarrow> calm x) \<Longrightarrow> (\<not> b \<Longrightarrow> calm y) \<Longrightarrow> calm (if b then x else y)"
  by simp

lemma calm_option [calm_intros]:
  "(x = None \<Longrightarrow> calm f) \<Longrightarrow> (\<And>y. x = Some y \<Longrightarrow> calm (g y)) \<Longrightarrow>
   calm (case x of None \<Rightarrow> f | Some y \<Rightarrow> g y)"
  by (cases x) simp_all

lemma calm_prod [calm_intros]:
  "(\<And>x y. p = (x, y) \<Longrightarrow> calm (f x y)) \<Longrightarrow> calm (case p of (x, y) \<Rightarrow> f x y)"
  by (cases p) simp

lemma never_panics_Inr [calm_intros, simp]: "never_panics (Inr x, s)"
  by (simp add: never_panics_def)

lemma never_panics_pair [calm_intros]: "calm r \<Longrightarrow> never_panics (r, s)"
  by (simp add: never_panics_def)

lemma never_panics_attempt [calm_intros]:
  "calm m \<Longrightarrow> (\<And>x. m = Inr x \<Longrightarrow> never_panics (k x)) \<Longrightarrow> never_panics (attempt s m k)"
  by (cases m) (auto simp: calm_def never_panics_def)

lemma never_panics_sbind [calm_intros]:
  "never_panics p \<Longrightarrow> (\<And>x s1. p = (Inr x, s1) \<Longrightarrow> never_panics (k x s1)) \<Longrightarrow>
   never_panics (sbind p k)"
  by (cases p; cases "fst p") (auto simp: never_panics_def calm_def)

lemma never_panics_if [calm_intros]:
  "(b \<Longrightarrow> never_panics x) \<Longrightarrow> (\<not> b \<Longrightarrow> never_panics y) \<Longrightarrow> never_panics (if b then x else y)"
  by simp

lemma never_panics_option [calm_intros]:
  "(x = None \<Longrightarrow> never_panics f) \<Longrightarrow> (\<And>y. x = Some y \<Longrightarrow> never_panics (g y)) \<Longrightarrow>
   never_panics (case x of None \<Rightarrow> f | Some y \<Rightarrow> g y)"
  by (cases x) simp_all

lemma never_panics_prod [calm_intros]:
  "(\<And>x y. p = (x, y) \<Longrightarrow> never_panics (f x y)) \<Longrightarrow> never_panics (case p of (x, y) \<Rightarrow> f x y)"
  by (cases p) simp

lemma never_panicsD: "never_panics (Inl f, s) \<Longrightarrow> \<not> is_panic f"
  by (cases f) (simp_all add: never_panics_def)

section \<open>Atomicity\<close>

definition refusing :: "(failure + 'a) \<times> 's \<Rightarrow> bool" where
  "refusing p \<longleftrightarrow> (\<exists>e. fst p = Inl (Err e))"

definition atomic_from :: "'s \<Rightarrow> (failure + 'a) \<times> 's \<Rightarrow> bool" where
  "atomic_from s p \<longleftrightarrow> (refusing p \<longrightarrow> snd p = s)"

named_theorems atomic_intros \<open>introduction rules for atomicity\<close>

lemma atomic_Inr [atomic_intros, simp]: "atomic_from s (Inr x, s')"
  by (simp add: atomic_from_def refusing_def)

lemma atomic_same [atomic_intros, simp]: "atomic_from s (r, s)"
  by (simp add: atomic_from_def)

lemma atomic_not_refusing: "\<not> refusing p \<Longrightarrow> atomic_from s p"
  by (simp add: atomic_from_def)

lemma atomic_attempt [atomic_intros]:
  "(\<And>x. m = Inr x \<Longrightarrow> atomic_from s (k x)) \<Longrightarrow> atomic_from s (attempt s m k)"
  by (cases m) simp_all

lemma atomic_sbind [atomic_intros]:
  "atomic_from s p \<Longrightarrow> (\<And>x s1. p = (Inr x, s1) \<Longrightarrow> \<not> refusing (k x s1)) \<Longrightarrow>
   atomic_from s (sbind p k)"
  by (cases p; cases "fst p") (auto simp: atomic_from_def refusing_def)

lemma atomic_if [atomic_intros]:
  "(b \<Longrightarrow> atomic_from s x) \<Longrightarrow> (\<not> b \<Longrightarrow> atomic_from s y) \<Longrightarrow>
   atomic_from s (if b then x else y)"
  by simp

lemma atomic_option [atomic_intros]:
  "(x = None \<Longrightarrow> atomic_from s f) \<Longrightarrow> (\<And>y. x = Some y \<Longrightarrow> atomic_from s (g y)) \<Longrightarrow>
   atomic_from s (case x of None \<Rightarrow> f | Some y \<Rightarrow> g y)"
  by (cases x) simp_all

lemma atomic_prod [atomic_intros]:
  "(\<And>x y. p = (x, y) \<Longrightarrow> atomic_from s (f x y)) \<Longrightarrow> atomic_from s (case p of (x, y) \<Rightarrow> f x y)"
  by (cases p) simp

lemma refusing_Inr [simp]: "\<not> refusing (Inr x, s)"
  by (simp add: refusing_def)

lemma refusing_Panic [simp]: "\<not> refusing (Inl (Panic m), s)"
  by (simp add: refusing_def)

lemma refusing_Err [simp]: "refusing (Inl (Err e), s)"
  by (simp add: refusing_def)

lemma not_refusing_expect:
  "(\<And>x. \<not> refusing (k x)) \<Longrightarrow> \<not> refusing (attempt s (expect y m) k)"
  by (cases y) simp_all

lemma not_refusing_sbind:
  "\<not> refusing p \<Longrightarrow> (\<And>x s1. \<not> refusing (k x s1)) \<Longrightarrow> \<not> refusing (sbind p k)"
  by (cases p; cases "fst p") (auto simp: refusing_def)

lemma atomicD: "atomic_from s (Inl (Err e), s') \<Longrightarrow> s' = s"
  by (simp add: atomic_from_def)

end
