(* ===== verification/Review_Handlers.thy ===== *)
theory Review_Handlers
  imports Handlers Outcomes
begin

text \<open>
  The handlers of \<open>crates/agsv-core/src/supervisor.rs\<close> that carry the review cycle
  (candidate, decision, authorization) and the handoff of a request between teams, and the
  dispatcher \<open>apply_message\<close>.
\<close>

section \<open>Candidates\<close>

text \<open>The comparison with the request's current candidate: rework must change the commit, any
  other resubmission must repeat it.\<close>

definition check_candidate_change :: "request \<Rightarrow> candidate \<Rightarrow> failure + unit" where
  "check_candidate_change q candidate =
     (case q_candidate q of
        None \<Rightarrow> Inr ()
      | Some previous \<Rightarrow>
          if is_rejected_candidate_rework q then
            (if c_sha previous = c_sha candidate then Inl (Err CandidateMustChange) else Inr ())
          else if previous \<noteq> candidate then
            Inl (Err (CandidateMismatch (Some (c_sha previous)) (c_sha candidate)))
          else Inr ())"

definition tracks_candidate :: "request \<Rightarrow> candidate \<Rightarrow> bool" where
  "tracks_candidate q candidate \<longleftrightarrow>
     q_candidate q \<noteq> Some candidate \<and> (q_candidate q = None \<or> q_candidate_history q \<noteq> [])"

definition next_fix_cycle_depth :: "request \<Rightarrow> candidate \<Rightarrow> failure + u64 option" where
  "next_fix_cycle_depth q candidate =
     (if is_rejected_candidate_rework q \<and> tracks_candidate q candidate
      then ebind (ok_or (checked_inc (q_fix_cycle_depth q)) (Err EpochExhausted))
             (\<lambda>depth. Inr (Some depth))
      else Inr None)"

definition submit_candidate :: "request_status \<Rightarrow> u64 option \<Rightarrow> candidate \<Rightarrow> request \<Rightarrow> request" where
  "submit_candidate status depth candidate q =
     q\<lparr>q_status := status,
       q_candidate_history :=
         (if tracks_candidate q candidate then q_candidate_history q @ [candidate]
          else q_candidate_history q),
       q_fix_cycle_depth := (case depth of None \<Rightarrow> q_fix_cycle_depth q | Some d \<Rightarrow> d),
       q_candidate := Some candidate, q_decision := None, q_integration_authorization := None\<rparr>"

definition apply_candidate ::
  "supervisor \<Rightarrow> envelope \<Rightarrow> actor \<Rightarrow> candidate \<Rightarrow> (failure + unit) \<times> supervisor" where
  "apply_candidate s env a candidate =
     attempt s (request_context s env) (\<lambda>q.
     attempt s (reject_if (c_team_id candidate \<noteq> q_team_id q \<or>
                           c_created_by candidate \<noteq> actor_ref_of a \<or>
                           c_created_by_profile candidate \<noteq> map_option ap_name (a_profile a))
                  (Err (Unauthorized ''submit candidate identity''))) (\<lambda>_.
     attempt s (check_candidate_change q candidate) (\<lambda>_.
     attempt s (reject_if (tracks_candidate q candidate \<and>
                           MAX_DOMAIN_ENTITIES \<le> length (q_candidate_history q))
                  (quota ''candidate history'' MAX_DOMAIN_ENTITIES)) (\<lambda>_.
     attempt s (next_fix_cycle_depth q candidate) (\<lambda>depth.
     attempt s (map_err Err (transition_request (q_status q) EvSubmitCandidate)) (\<lambda>next_request.
     attempt s (ok_or (fmlookup (s_runs s) (q_run_id q)) (Err (UnknownRun (q_run_id q)))) (\<lambda>r.
     attempt s (map_err Err (transition_run (r_status r) RevSubmitCandidate)) (\<lambda>next_run.
     sbind (put_both (q_request_id q) (submit_candidate next_request depth candidate)
              (q_run_id q) (\<lambda>r. r\<lparr>r_status := next_run\<rparr>) s) (\<lambda>_ s1.
     let current = Option.bind (fmlookup (s_requests s1) (q_request_id q)) q_candidate
     in (Inr (),
         drop_handoffs (\<lambda>p. hr_request_id (ph_offer p) = q_request_id q \<and>
                             \<not> is_none_or (hr_candidate (ph_offer p)) (\<lambda>c. Some c = current))
           s1))))))))))"

section \<open>Review\<close>

definition decision_id_used :: "supervisor \<Rightarrow> decision_id \<Rightarrow> bool" where
  "decision_id_used s decision_id =
     list_ex (\<lambda>d. case d_causal d of
                 CausalReviewDecision existing \<Rightarrow> dr_decision_id existing = decision_id
               | _ \<Rightarrow> False) (fmvals (s_mailbox s))"

definition next_rejection_count :: "request \<Rightarrow> review_verdict \<Rightarrow> failure + u64 option" where
  "next_rejection_count q verdict =
     (if verdict = VerdictRejected \<and> q_candidate_history q \<noteq> []
      then ebind (ok_or (checked_inc (q_rejection_count q)) (Err EpochExhausted))
             (\<lambda>n. Inr (Some n))
      else Inr None)"

definition decide ::
  "request_status \<Rightarrow> team_epoch option \<Rightarrow> u64 option \<Rightarrow> review_decision_ref \<Rightarrow> request \<Rightarrow> request" where
  "decide status team_epoch rejections decision q =
     q\<lparr>q_status := status,
       q_team_epoch := (case team_epoch of None \<Rightarrow> q_team_epoch q | Some e \<Rightarrow> e),
       q_rejection_count := (case rejections of None \<Rightarrow> q_rejection_count q | Some n \<Rightarrow> n),
       q_decision := Some decision, q_integration_authorization := None\<rparr>"

fun verdict_events :: "review_verdict \<Rightarrow> request_event \<times> run_event" where
  "verdict_events VerdictAccepted = (EvAcceptCandidate, RevAcceptCandidate)"
| "verdict_events VerdictRejected = (EvRejectCandidate, RevRejectCandidate)"

definition apply_review ::
  "supervisor \<Rightarrow> envelope \<Rightarrow> actor \<Rightarrow> review_decision_ref \<Rightarrow> (failure + unit) \<times> supervisor" where
  "apply_review s env a decision =
     attempt s (reject_if (decision_id_used s (dr_decision_id decision))
                  (Err (AlreadyExists ''decision id''))) (\<lambda>_.
     attempt s (reject_if (dr_reviewer decision \<noteq> actor_ref_of a \<or>
                           dr_policy_revision decision \<noteq> s_policy_revision s)
                  (Err (Unauthorized ''review identity''))) (\<lambda>_.
     attempt s (ensure_assignee_target s env) (\<lambda>_.
     attempt s (request_context s env) (\<lambda>q.
     attempt s (ensure_candidate q (dr_candidate decision)) (\<lambda>_.
     let (request_event, run_event) = verdict_events (dr_verdict decision) in
     attempt s (map_err Err (transition_request (q_status q) request_event)) (\<lambda>next_request.
     attempt s (ok_or (fmlookup (s_runs s) (q_run_id q)) (Err (UnknownRun (q_run_id q)))) (\<lambda>r.
     attempt s (map_err Err (transition_run (r_status r) run_event)) (\<lambda>next_run.
     attempt s (next_rejection_count q (dr_verdict decision)) (\<lambda>rejections.
     attempt s (if dr_verdict decision = VerdictAccepted
                then ebind (ok_or (e_team_epoch env) (Err WrongTeam)) (\<lambda>epoch. Inr (Some epoch))
                else Inr None) (\<lambda>accepted_team_epoch.
     sbind (put_both (q_request_id q) (decide next_request accepted_team_epoch rejections decision)
              (q_run_id q)
              (\<lambda>r. r\<lparr>r_status := next_run,
                      r_team_epoch := (case accepted_team_epoch of None \<Rightarrow> r_team_epoch r
                                                                  | Some e \<Rightarrow> e)\<rparr>) s) (\<lambda>_ s1.
     (Inr (),
      if dr_verdict decision = VerdictAccepted
      then drop_handoffs (\<lambda>p. hr_request_id (ph_offer p) = q_request_id q) s1
      else s1))))))))))))"

definition apply_integration_authorization ::
  "supervisor \<Rightarrow> envelope \<Rightarrow> actor \<Rightarrow> integration_authorization \<Rightarrow>
   (failure + unit) \<times> supervisor" where
  "apply_integration_authorization s env a authorization =
     attempt s (reject_if (ia_authorized_by authorization \<noteq> actor_ref_of a)
                  (Err (Unauthorized ''integration authorization identity''))) (\<lambda>_.
     attempt s (request_context s env) (\<lambda>q.
     attempt s (ensure_candidate q (ia_candidate authorization)) (\<lambda>_.
     attempt s (ok_or (q_decision q) (Err DecisionMismatch)) (\<lambda>decision.
     attempt s (reject_if (dr_decision_id decision \<noteq> ia_decision_id authorization \<or>
                           dr_verdict decision \<noteq> VerdictAccepted) (Err DecisionMismatch)) (\<lambda>_.
     attempt s (map_err Err (transition_request (q_status q) EvAuthorizeIntegration))
       (\<lambda>next_request.
     attempt s (ok_or (fmlookup (s_runs s) (q_run_id q)) (Err (UnknownRun (q_run_id q)))) (\<lambda>r.
     attempt s (map_err Err (transition_run (r_status r) RevAuthorizeIntegration)) (\<lambda>next_run.
     put_both (q_request_id q)
       (\<lambda>q. q\<lparr>q_status := next_request, q_integration_authorization := Some authorization\<rparr>)
       (q_run_id q) (\<lambda>r. r\<lparr>r_status := next_run\<rparr>) s))))))))"

section \<open>Handoffs\<close>

definition apply_handoff_offer ::
  "supervisor \<Rightarrow> envelope \<Rightarrow> actor \<Rightarrow> handoff_offer_ref \<Rightarrow> (failure + unit) \<times> supervisor" where
  "apply_handoff_offer s env a offer =
     attempt s (request_context s env) (\<lambda>q.
     attempt s (reject_if (hr_request_id offer \<noteq> q_request_id q \<or>
                           hr_from_team_id offer \<noteq> q_team_id q \<or>
                           a_team_id a \<noteq> Some (hr_from_team_id offer)) (Err WrongTeam)) (\<lambda>_.
     attempt s (reject_if (q_status q \<in> {Accepted, IntegrationAuthorized, Cancelled, Completed})
                  (Err (Unauthorized ''handoff request in final review state''))) (\<lambda>_.
     attempt s (ensure_active_target_team s (hr_to_team_id offer) (e_target env)) (\<lambda>_.
     attempt s (case hr_candidate offer of
                  None \<Rightarrow> Inr () | Some candidate \<Rightarrow> ensure_candidate q candidate) (\<lambda>_.
     attempt s (reject_if (fmhas (s_handoffs s) (hr_handoff_id offer) \<or>
                           list_ex (\<lambda>p. hr_request_id (ph_offer p) = hr_request_id offer)
                             (fmvals (s_handoffs s)))
                  (Err (AlreadyExists ''handoff''))) (\<lambda>_.
     attempt s (ok_or (q_assignment q) (Err NotAssignedActor)) (\<lambda>assignment.
     (Inr (), s\<lparr>s_handoffs := fmupd (hr_handoff_id offer)
                  (PendingHandoff offer (actor_ref_of a) (as_epoch assignment))
                  (s_handoffs s)\<rparr>))))))))"

text \<open>
  The last part of the acceptance writes the request's team before it reads the envelope's team
  epoch, so a missing epoch would leave the request half moved. Validation makes every envelope
  that names a team carry an epoch.
\<close>

definition move_request ::
  "supervisor \<Rightarrow> envelope \<Rightarrow> request \<Rightarrow> handoff_acceptance \<Rightarrow> assignment \<Rightarrow>
   (failure + unit) \<times> supervisor" where
  "move_request s env q acceptance next_assignment =
     sbind (put_request (q_request_id q) (\<lambda>q. q\<lparr>q_team_id := ha_to_team_id acceptance\<rparr>) s)
       (\<lambda>_ s1.
     attempt s1 (ok_or (e_team_epoch env) (Err WrongTeam)) (\<lambda>team_epoch.
     let s2 = upd_request (q_request_id q)
                (\<lambda>q. q\<lparr>q_team_epoch := team_epoch, q_assignment := Some next_assignment\<rparr>) s1 in
     sbind (put_run (q_run_id q)
              (\<lambda>r. r\<lparr>r_team_id := ha_to_team_id acceptance, r_team_epoch := team_epoch,
                      r_assignment := Some next_assignment\<rparr>) s2) (\<lambda>_ s3.
     (Inr (), s3\<lparr>s_handoffs := fmdrop (ha_handoff_id acceptance) (s_handoffs s3)\<rparr>))))"

definition apply_handoff_acceptance ::
  "supervisor \<Rightarrow> envelope \<Rightarrow> actor \<Rightarrow> handoff_acceptance \<Rightarrow> (failure + unit) \<times> supervisor" where
  "apply_handoff_acceptance s env a acceptance =
     attempt s (reject_if (ha_accepted_by acceptance \<noteq> actor_ref_of a \<or>
                           a_team_id a \<noteq> Some (ha_to_team_id acceptance) \<or>
                           e_team_id env \<noteq> Some (ha_to_team_id acceptance))
                  (Err (Unauthorized ''handoff acceptance identity''))) (\<lambda>_.
     attempt s (reject_if (e_target env \<noteq> TargetTeam (ha_from_team_id acceptance) \<and>
                           e_target env \<noteq> TargetPrimary) (Err WrongTarget)) (\<lambda>_.
     attempt s (ok_or (fmlookup (s_handoffs s) (ha_handoff_id acceptance)) (Err UnknownHandoff))
       (\<lambda>pending.
     attempt s (reject_if (hr_request_id (ph_offer pending) \<noteq> ha_request_id acceptance \<or>
                           hr_from_team_id (ph_offer pending) \<noteq> ha_from_team_id acceptance \<or>
                           hr_to_team_id (ph_offer pending) \<noteq> ha_to_team_id acceptance)
                  (Err UnknownHandoff)) (\<lambda>_.
     attempt s (request_context s env) (\<lambda>q.
     attempt s (reject_if (q_team_id q \<noteq> ha_from_team_id acceptance) (Err WrongTeam)) (\<lambda>_.
     attempt s (ensure_known_team s (ha_to_team_id acceptance)) (\<lambda>t.
     attempt s (reject_if (t_status t \<noteq> TeamActive)
                  (Err (Unauthorized ''assign work to inactive team''))) (\<lambda>_.
     attempt s (case hr_candidate (ph_offer pending) of
                  None \<Rightarrow> Inr () | Some candidate \<Rightarrow> ensure_candidate q candidate) (\<lambda>_.
     attempt s (ok_or (q_assignment q) (Err NotAssignedActor)) (\<lambda>assignment.
     attempt s (reject_if (as_epoch assignment \<noteq> ph_assignment_epoch pending \<or>
                           e_assignment_epoch env \<noteq> Some (as_epoch assignment) \<or>
                           as_actor assignment \<noteq> ph_offered_by pending)
                  (Err (StaleAssignmentEpoch (as_epoch assignment) (e_assignment_epoch env)))) (\<lambda>_.
     attempt s (ok_or (checked_next (as_epoch assignment)) (Err EpochExhausted)) (\<lambda>next_epoch.
     move_request s env q acceptance (Assignment (actor_ref_of a) next_epoch)))))))))))))"

section \<open>Dispatch\<close>

text \<open>A handler that only checks leaves the state as it is.\<close>

definition read_only :: "supervisor \<Rightarrow> failure + unit \<Rightarrow> (failure + unit) \<times> supervisor" where
  "read_only s r = (r, s)"

definition dispatch_message ::
  "supervisor \<Rightarrow> envelope \<Rightarrow> actor \<Rightarrow> payload_digest \<Rightarrow> (failure + unit) \<times> supervisor" where
  "dispatch_message s env a digest =
     (case e_message env of
       MImplementationRequest specification \<Rightarrow>
         apply_implementation_request s env a
           (RequestSpecificationRef (e_message_id env) digest (ir_base_sha specification))
     | MProgress _ \<Rightarrow> apply_progress s env a
     | MBlocker _ \<Rightarrow> apply_blocker s env a
     | MCandidateReady ready \<Rightarrow>
         attempt s (require_implementation a ''submit candidate'') (\<lambda>_.
         attempt s (require_primary_target (e_target env)) (\<lambda>_.
         attempt s (ensure_current_assignment s env a) (\<lambda>_.
         apply_candidate s env a (cr_candidate ready))))
     | MReviewDecision decision \<Rightarrow>
         attempt s (require_primary s a ''submit review decision'') (\<lambda>_.
         apply_review s env a
           (ReviewDecisionRef (e_message_id env) digest (rd_decision_id decision)
              (rd_candidate decision) (rd_verdict decision) (rd_reviewer decision)
              (rd_policy_revision decision)))
     | MFixRequest fix \<Rightarrow> read_only s (apply_fix_request s env a fix)
     | MQaResult result \<Rightarrow> read_only s (apply_qa_result s env a result)
     | MIntegrationAuthorization authorization \<Rightarrow>
         attempt s (require_primary s a ''authorize integration'') (\<lambda>_.
         attempt s (ensure_assignee_target s env) (\<lambda>_.
         apply_integration_authorization s env a authorization))
     | MCancellation _ \<Rightarrow> apply_cancellation s env a
     | MRunControl control \<Rightarrow> apply_run_control s env a (rc_action control)
     | MDirective _ \<Rightarrow> read_only s (apply_primary_directive s env a)
     | MConsultationRequest consultation \<Rightarrow>
         read_only s (apply_consultation_request s env a consultation)
     | MConsultationResponse response \<Rightarrow>
         read_only s (apply_consultation_response s env a response)
     | MDependencyNotice notice \<Rightarrow> read_only s (apply_dependency_notice s env a notice)
     | MConflictNotice notice \<Rightarrow> read_only s (apply_conflict_notice s env a notice)
     | MHandoffOffer offer \<Rightarrow>
         attempt s (require_implementation a ''offer handoff'') (\<lambda>_.
         attempt s (ensure_current_assignment s env a) (\<lambda>_.
         apply_handoff_offer s env a
           (HandoffOfferRef (e_message_id env) digest (ho_handoff_id offer) (ho_request_id offer)
              (ho_from_team_id offer) (ho_to_team_id offer) (ho_candidate offer))))
     | MHandoffAcceptance acceptance \<Rightarrow>
         attempt s (require_implementation a ''accept handoff'') (\<lambda>_.
         apply_handoff_acceptance s env a acceptance)
     | MIntegrationComplete complete \<Rightarrow> apply_integration_complete s env a complete)"

definition apply_message ::
  "supervisor \<Rightarrow> envelope \<Rightarrow> actor \<Rightarrow> payload_digest \<Rightarrow> (failure + unit) \<times> supervisor" where
  "apply_message s env a digest =
     attempt s (if e_request_id env \<noteq> None \<and>
                   message_kind_of (e_message env) \<noteq> KImplementationRequest
                then ebind (request_context s env) (\<lambda>_. Inr ()) else Inr ()) (\<lambda>_.
     dispatch_message s env a digest)"

end
