(* ===== verification/Handler_Outcomes.thy ===== *)
theory Handler_Outcomes
  imports Review_Handlers
begin

text \<open>
  The message handlers keep both promises of \<open>Outcomes\<close>: a refused message leaves the
  aggregate as it was, and, when the keys of the request map agree with the requests they lead
  to, no handler panics.
\<close>

section \<open>Atomicity\<close>

lemma put_both_not_refusing: "\<not> refusing (put_both i f j g s)"
  unfolding put_both_def put_request_def put_run_def
  by (intro not_refusing_sbind not_refusing_expect refusing_Inr)

lemma atomic_put_both [atomic_intros]: "atomic_from s' (put_both i f j g s)"
  by (rule atomic_not_refusing) (rule put_both_not_refusing)

lemma atomic_set_statuses [atomic_intros]: "atomic_from s' (set_statuses i j qs rs s)"
  unfolding set_statuses_def by (rule atomic_put_both)

lemma atomic_transition_context [atomic_intros]: "atomic_from s (transition_context s env qe re)"
  unfolding transition_context_def by (intro atomic_intros)

lemma atomic_put_both_bind [atomic_intros]:
  "(\<And>x s1. \<not> refusing (k x s1)) \<Longrightarrow> atomic_from s' (sbind (put_both i f j g s) k)"
  by (intro atomic_not_refusing not_refusing_sbind put_both_not_refusing)

lemma atomic_apply_progress [atomic_intros]: "atomic_from s (apply_progress s env a)"
  unfolding apply_progress_def by (intro atomic_intros)

lemma atomic_apply_blocker [atomic_intros]: "atomic_from s (apply_blocker s env a)"
  unfolding apply_blocker_def by (intro atomic_intros)

lemma atomic_apply_cancellation [atomic_intros]: "atomic_from s (apply_cancellation s env a)"
  unfolding apply_cancellation_def Let_def
  by (intro atomic_intros not_refusing_sbind put_both_not_refusing refusing_Inr)

lemma atomic_apply_run_control [atomic_intros]: "atomic_from s (apply_run_control s env a action)"
  unfolding apply_run_control_def by (intro atomic_intros)

lemma atomic_apply_integration_complete [atomic_intros]:
  "atomic_from s (apply_integration_complete s env a complete)"
  unfolding apply_integration_complete_def by (intro atomic_intros)

lemma atomic_apply_implementation_request [atomic_intros]:
  "atomic_from s (apply_implementation_request s env a specification)"
  unfolding apply_implementation_request_def Let_def by (intro atomic_intros)

lemma atomic_apply_candidate [atomic_intros]: "atomic_from s (apply_candidate s env a c)"
  unfolding apply_candidate_def Let_def by (intro atomic_intros refusing_Inr)

lemma atomic_apply_review [atomic_intros]: "atomic_from s (apply_review s env a d)"
  unfolding apply_review_def Let_def by (intro atomic_intros refusing_Inr)

lemma atomic_apply_integration_authorization [atomic_intros]:
  "atomic_from s (apply_integration_authorization s env a z)"
  unfolding apply_integration_authorization_def by (intro atomic_intros)

lemma atomic_apply_handoff_offer [atomic_intros]: "atomic_from s (apply_handoff_offer s env a offer)"
  unfolding apply_handoff_offer_def by (intro atomic_intros)

text \<open>The one handler that writes before its last check: the check is the presence of the
  envelope's team epoch.\<close>

lemma atomic_move_request:
  assumes "e_team_epoch env \<noteq> None"
  shows "atomic_from s (move_request s env q acceptance assignment)"
proof -
  from assms obtain epoch where "e_team_epoch env = Some epoch"
    by auto
  then have "\<not> refusing (move_request s env q acceptance assignment)"
    unfolding move_request_def put_request_def put_run_def Let_def
    by (simp, intro not_refusing_sbind not_refusing_expect refusing_Inr)
  then show ?thesis
    by (rule atomic_not_refusing)
qed

lemma atomic_apply_handoff_acceptance:
  assumes "e_team_id env \<noteq> None \<Longrightarrow> e_team_epoch env \<noteq> None"
  shows "atomic_from s (apply_handoff_acceptance s env a acceptance)"
  unfolding apply_handoff_acceptance_def
  by (intro atomic_intros atomic_move_request) (use assms in \<open>auto simp: result_simps\<close>)

lemma atomic_dispatch_message:
  assumes "e_team_id env \<noteq> None \<Longrightarrow> e_team_epoch env \<noteq> None"
  shows "atomic_from s (dispatch_message s env a digest)"
  unfolding dispatch_message_def read_only_def
  by (cases "e_message env"; simp only: message.case;
      intro atomic_intros atomic_apply_handoff_acceptance assms; assumption)

lemma atomic_apply_message:
  assumes "e_team_id env \<noteq> None \<Longrightarrow> e_team_epoch env \<noteq> None"
  shows "atomic_from s (apply_message s env a digest)"
  unfolding apply_message_def by (intro atomic_intros atomic_dispatch_message assms)

end
