(* ===== verification/Snapshot.thy ===== *)
theory Snapshot
  imports Core_State Guards
begin

text \<open>
  The persisted form of the aggregate: \<open>DomainSnapshot\<close> and \<open>DeliverySnapshot\<close> of
  \<open>crates/agsv-protocol/src/model.rs\<close>, and \<open>Supervisor::snapshot\<close>, which lists every
  collection in key order.
\<close>

datatype undeliverable_recipient =
  UndeliverableRecipient
    (ur_recipient: delivery_recipient) (ur_reason: delivery_retirement_reason)

record delivery_snapshot =
  ds_envelope :: envelope_header
  ds_message_kind :: message_kind
  ds_payload_digest :: payload_digest
  ds_causal :: causal_message
  ds_required_recipients :: "delivery_recipient fset"
  ds_acknowledgements :: "acknowledgement list"
  ds_undeliverable_recipients :: "undeliverable_recipient list"
  ds_retirement_reason :: "delivery_retirement_reason option"
  ds_retired :: bool

record domain_snapshot =
  sn_workspace_id :: workspace_id
  sn_policy_revision :: policy_revision
  sn_primary_epoch :: primary_epoch
  sn_active_primary :: "actor_ref option"
  sn_history_checkpoint :: history_checkpoint
  sn_observability_checkpoint :: chain_checkpoint
  sn_team_generation_checkpoint :: chain_checkpoint
  sn_actors :: "actor list"
  sn_teams :: "team list"
  sn_requests :: "request list"
  sn_runs :: "run list"
  sn_deliveries :: "delivery_snapshot list"
  sn_pending_handoffs :: "pending_handoff list"
  sn_audit_events :: "audit_event list"

definition delivery_snapshot_of :: "delivery_record \<Rightarrow> delivery_snapshot" where
  "delivery_snapshot_of d =
     \<lparr>ds_envelope = d_envelope d, ds_message_kind = d_message_kind d,
      ds_payload_digest = d_payload_digest d, ds_causal = d_causal d,
      ds_required_recipients = d_required_recipients d,
      ds_acknowledgements = fmvals (d_acknowledgements d),
      ds_undeliverable_recipients =
        map (\<lambda>(r, reason). UndeliverableRecipient r reason)
          (sorted_list_of_fmap (d_undeliverable_recipients d)),
      ds_retirement_reason = d_retirement_reason d, ds_retired = d_retired d\<rparr>"

definition snapshot :: "supervisor \<Rightarrow> domain_snapshot" where
  "snapshot s =
     \<lparr>sn_workspace_id = s_workspace_id s, sn_policy_revision = s_policy_revision s,
      sn_primary_epoch = s_primary_epoch s, sn_active_primary = active_primary s,
      sn_history_checkpoint = s_history_checkpoint s,
      sn_observability_checkpoint = s_observability_checkpoint s,
      sn_team_generation_checkpoint = s_team_generation_checkpoint s,
      sn_actors = fmvals (s_actors s), sn_teams = fmvals (s_teams s),
      sn_requests = fmvals (s_requests s), sn_runs = fmvals (s_runs s),
      sn_deliveries = map delivery_snapshot_of (fmvals (s_mailbox s)),
      sn_pending_handoffs = fmvals (s_handoffs s), sn_audit_events = s_audit s\<rparr>"

end
