(* ===== verification/Apply.thy ===== *)
theory Apply
  imports Review_Handlers Snapshot
begin

text \<open>
  The message operations of \<open>crates/agsv-core/src/supervisor.rs\<close>: \<open>apply\<close>,
  \<open>acknowledge\<close>, the classification of retries against an archived delivery, and the reads of
  an actor's inbox.
\<close>

section \<open>Accepting a message\<close>

definition exact_retry ::
  "delivery_record \<Rightarrow> envelope_header \<Rightarrow> message_kind \<Rightarrow> payload_digest \<Rightarrow> causal_message \<Rightarrow> bool" where
  "exact_retry d header kind digest causal \<longleftrightarrow>
     d_envelope d = header \<and> d_message_kind d = kind \<and> d_payload_digest d = digest \<and>
     d_causal d = causal"

text \<open>
  A plan that failed is refused with the error of the handler, when it has one, or with its own;
  the handler runs on a copy of the state. A panic in the plan happens before that.
\<close>

definition checked_plan ::
  "supervisor \<Rightarrow> envelope \<Rightarrow> actor \<Rightarrow> payload_digest \<Rightarrow> failure + recipient_plan" where
  "checked_plan s env sender digest =
     (case delivery_recipient_plan s env of
        Inr plan \<Rightarrow> Inr plan
      | Inl (Panic msg) \<Rightarrow> Inl (Panic msg)
      | Inl (Err recipient_error) \<Rightarrow>
          ebind (fst (apply_message s env sender digest)) (\<lambda>_. Inl (Err recipient_error)))"

fun plan_recipients ::
  "recipient_plan \<Rightarrow> delivery_recipient fset \<times> delivery_retirement_reason option" where
  "plan_recipients (PlanRecipients first rest) = (finsert first rest, None)"
| "plan_recipients (PlanRetired reason) = ({||}, Some reason)"

definition blocks_inactive_team ::
  "supervisor \<Rightarrow> message_kind \<Rightarrow> request_id option \<Rightarrow> delivery_recipient fset \<Rightarrow> bool" where
  "blocks_inactive_team s kind request_id required \<longleftrightarrow>
     team_close_disposition kind = RequestLifecycle \<and> kind \<noteq> KImplementationRequest \<and>
     message_requires_team_action (s_requests s) kind request_id \<and>
     recipients_include_inactive_team s required"

text \<open>The part of \<open>apply\<close> after the handler succeeded: the delivery record, the payload for
  the store, the audit event, the sweep and the reporting queues.\<close>

definition record_accepted ::
  "ext \<Rightarrow> supervisor \<Rightarrow> envelope \<Rightarrow> payload_digest \<Rightarrow> delivery_recipient fset \<Rightarrow>
   delivery_retirement_reason option \<Rightarrow> request_observability option \<Rightarrow>
   (failure + apply_outcome) \<times> supervisor" where
  "record_accepted x s env digest required reason before =
     (let header = header_of env; kind = message_kind_of (e_message env);
          ((teams, credit), s1) = observe_accepted s header required before;
          undeliverable =
            initial_undeliverable_recipients s1 reason kind (e_request_id header) required;
          d = \<lparr>d_envelope = header, d_message_kind = kind, d_payload_digest = digest,
               d_causal = causal_message_of (e_message_id env) digest (e_message env),
               d_required_recipients = required, d_acknowledgements = fmempty,
               d_undeliverable_recipients = undeliverable, d_retirement_reason = reason,
               d_retired = (reason \<noteq> None)\<rparr>;
          s2 = s1\<lparr>s_mailbox := fmupd (e_message_id env) d (s_mailbox s1),
                  s_pending_bulk_content := s_pending_bulk_content s1 @
                    [PendingBulkContent (e_message_id env) digest (e_message env)]\<rparr>
      in sbind (append_audit x s2 (e_sent_at env) (e_team_id header) (e_team_epoch header)
                  (MessageAccepted (e_message_id env) kind (Some digest))) (\<lambda>_ s3.
         (Inr Applied,
          record_accepted_message_observability (retire_fully_acknowledged s3) teams credit)))"

definition apply_envelope ::
  "ext \<Rightarrow> supervisor \<Rightarrow> envelope \<Rightarrow> (failure + apply_outcome) \<times> supervisor" where
  "apply_envelope x s env =
     attempt s (validate_envelope_quota x env) (\<lambda>_.
     attempt s (map_err (Err \<circ> Validation) (envelope_validate env)) (\<lambda>_.
     attempt s (reject_if (e_workspace_id env \<noteq> s_workspace_id s)
                  (Err (WrongWorkspace (s_workspace_id s) (e_workspace_id env)))) (\<lambda>_.
     attempt s (digest_message x (e_message env)) (\<lambda>digest.
     let kind = message_kind_of (e_message env);
         causal = causal_message_of (e_message_id env) digest (e_message env)
     in
     case fmlookup (s_mailbox s) (e_message_id env) of
       Some existing \<Rightarrow>
         if exact_retry existing (header_of env) kind digest causal
         then (Inr DuplicateMessage, s)
         else (Inl (Err DuplicateMessageConflict), s)
     | None \<Rightarrow>
         attempt s (reject_if (MAX_DELIVERIES \<le> fmsize (s_mailbox s))
                      (quota ''deliveries'' MAX_DELIVERIES)) (\<lambda>_.
         let before = request_state_for_observability s env in
         attempt s (ensure_audit_capacity s) (\<lambda>_.
         attempt s (authorize_envelope s env) (\<lambda>sender.
         attempt s (checked_plan s env sender digest) (\<lambda>plan.
         let (required, reason) = plan_recipients plan in
         attempt s (reject_if (blocks_inactive_team s kind (e_request_id env) required)
           (Err (Unauthorized ''deliver action-requiring message to a closing or closed team'')))
           (\<lambda>_.
         sbind (apply_message s env sender digest) (\<lambda>_ s1.
         record_accepted x s1 env digest required reason before))))))))))"

section \<open>Retries against the archive\<close>

definition classify_archived_retry ::
  "ext \<Rightarrow> supervisor \<Rightarrow> envelope \<Rightarrow> delivery_snapshot \<Rightarrow> failure + apply_outcome" where
  "classify_archived_retry x s env archived =
     ebind (validate_envelope_quota x env) (\<lambda>_.
     ebind (map_err (Err \<circ> Validation) (envelope_validate env)) (\<lambda>_.
     if e_workspace_id env \<noteq> s_workspace_id s then
       Inl (Err (WrongWorkspace (s_workspace_id s) (e_workspace_id env)))
     else if e_message_id env \<noteq> e_message_id (ds_envelope archived) then Inl (Err UnknownMessage)
     else
     ebind (digest_message x (e_message env)) (\<lambda>digest.
     if ds_envelope archived = header_of env \<and>
        ds_message_kind archived = message_kind_of (e_message env) \<and>
        ds_payload_digest archived = digest \<and>
        ds_causal archived = causal_message_of (e_message_id env) digest (e_message env)
     then Inr DuplicateMessage
     else Inl (Err DuplicateMessageConflict))))"

definition classify_archived_ack ::
  "supervisor \<Rightarrow> acknowledgement \<Rightarrow> delivery_snapshot \<Rightarrow> failure + ack_outcome" where
  "classify_archived_ack s ack archived =
     (if ak_workspace_id ack \<noteq> s_workspace_id s then
        Inl (Err (WrongWorkspace (s_workspace_id s) (ak_workspace_id ack)))
      else if ak_message_id ack \<noteq> e_message_id (ds_envelope archived) then Inl (Err UnknownMessage)
      else
        case find (\<lambda>existing. ak_actor existing = ak_actor ack) (ds_acknowledgements archived) of
          Some existing \<Rightarrow>
            if existing = ack then Inr DuplicateAck else Inl (Err DuplicateAcknowledgementConflict)
        | None \<Rightarrow>
            ebind (current_actor s (ak_actor ack)) (\<lambda>a.
            if a_status a \<noteq> ActorHealthy then Inl (Err (ActorNotHealthy (a_actor_id a)))
            else Inl (Err AckNotAuthorized)))"

section \<open>Acknowledging a delivery\<close>

text \<open>The delivery is open for the slot and the actor is its target.\<close>

definition slot_open :: "supervisor \<Rightarrow> delivery_record \<Rightarrow> actor \<Rightarrow> delivery_recipient \<Rightarrow> bool" where
  "slot_open s d a recipient \<longleftrightarrow>
     \<not> d_retired d \<and> recipient |\<in>| d_required_recipients d \<and>
     \<not> fmhas (d_undeliverable_recipients d) recipient \<and> target_matches s (e_target (d_envelope d)) a"

definition ack_activity_teams :: "supervisor \<Rightarrow> envelope_header \<Rightarrow> actor \<Rightarrow> team_id fset" where
  "ack_activity_teams s header a =
     (if delivery_references_historical_request s header then delivery_activity_teams s header {||}
      else delivery_activity_teams s header {||} |\<union>| opt_fset (a_team_id a))"

definition acknowledge ::
  "ext \<Rightarrow> supervisor \<Rightarrow> acknowledgement \<Rightarrow> (failure + ack_outcome) \<times> supervisor" where
  "acknowledge x s ack =
     attempt s (reject_if (ak_workspace_id ack \<noteq> s_workspace_id s)
                  (Err (WrongWorkspace (s_workspace_id s) (ak_workspace_id ack)))) (\<lambda>_.
     attempt s (ok_or (fmlookup (s_mailbox s) (ak_message_id ack)) (Err UnknownMessage)) (\<lambda>d.
     let target = e_target (d_envelope d); required = d_required_recipients d in
     attempt s (ok_or (historical_recipient_for_actor s target required (ak_actor ack))
                  (Err AckNotAuthorized)) (\<lambda>slot.
     case fmlookup (d_acknowledgements d) slot of
       Some existing \<Rightarrow>
         if existing = ack then (Inr DuplicateAck, s)
         else (Inl (Err DuplicateAcknowledgementConflict), s)
     | None \<Rightarrow>
         attempt s (current_actor s (ak_actor ack)) (\<lambda>a.
         attempt s (ok_or (current_recipient_for_actor s target required a) (Err AckNotAuthorized))
           (\<lambda>recipient.
         attempt s (reject_if (a_status a \<noteq> ActorHealthy) (Err (ActorNotHealthy (a_actor_id a))))
           (\<lambda>_.
         attempt s (reject_if (\<not> slot_open s d a recipient) (Err AckNotAuthorized)) (\<lambda>_.
         attempt s (reject_if (MAX_ACKNOWLEDGEMENTS \<le> fmsize (d_acknowledgements d))
                      (quota ''acknowledgements'' MAX_ACKNOWLEDGEMENTS)) (\<lambda>_.
         let teams = ack_activity_teams s (d_envelope d) a in
         attempt s (ensure_audit_capacity s) (\<lambda>_.
         let s1 = s\<lparr>s_mailbox := fmmodify (ak_message_id ack)
                      (\<lambda>d. d\<lparr>d_acknowledgements :=
                               fmupd recipient ack (d_acknowledgements d)\<rparr>) (s_mailbox s)\<rparr> in
         sbind (append_audit x s1 (ak_acknowledged_at ack) (e_team_id (d_envelope d))
                  (e_team_epoch (d_envelope d))
                  (MessageAcknowledged (ak_message_id ack) (ref_actor_id (ak_actor ack)))) (\<lambda>_ s2.
         let s3 = retire_fully_acknowledged s2 in
         (Inr Acknowledged,
          s3\<lparr>s_pending_observability := (s_pending_observability s3)\<lparr>po_activity_team_ids :=
               po_activity_team_ids (s_pending_observability s3) |\<union>| teams\<rparr>\<rparr>)))))))))))"

section \<open>Inbox reads\<close>

definition awaits_ack_from :: "supervisor \<Rightarrow> actor \<Rightarrow> delivery_record \<Rightarrow> bool" where
  "awaits_ack_from s a d =
     is_some_and
       (current_recipient_for_actor s (e_target (d_envelope d)) (d_required_recipients d) a)
       (\<lambda>recipient. slot_open s d a recipient \<and> \<not> fmhas (d_acknowledgements d) recipient)"

definition delivery_ids :: "(delivery_record \<Rightarrow> bool) \<Rightarrow> supervisor \<Rightarrow> message_id list" where
  "delivery_ids P s = map (\<lambda>d. e_message_id (d_envelope d)) (filter P (fmvals (s_mailbox s)))"

definition unacknowledged_message_ids_for ::
  "supervisor \<Rightarrow> actor_ref \<Rightarrow> failure + message_id list" where
  "unacknowledged_message_ids_for s ref =
     ebind (current_actor s ref) (\<lambda>a.
     if a_status a \<noteq> ActorHealthy then Inl (Err (ActorNotHealthy (a_actor_id a)))
     else Inr (delivery_ids (awaits_ack_from s a) s))"

definition open_actor_slot :: "(actor_id \<Rightarrow> bool) \<Rightarrow> delivery_record \<Rightarrow> bool" where
  "open_actor_slot owns d \<longleftrightarrow>
     (\<exists>r |\<in>| d_required_recipients d.
        case r of
          RecipientPrimary \<Rightarrow> False
        | RecipientActor ref _ \<Rightarrow> owns (ref_actor_id ref) \<and> \<not> recipient_resolved d r)"

definition pending_acknowledgement_message_ids_for :: "supervisor \<Rightarrow> actor_id \<Rightarrow> message_id list" where
  "pending_acknowledgement_message_ids_for s actor_id =
     delivery_ids (\<lambda>d. \<not> d_retired d \<and> open_actor_slot (\<lambda>i. i = actor_id) d) s"

definition team_close_blocking_message_ids_except_request_lifecycle ::
  "supervisor \<Rightarrow> team_id \<Rightarrow> request_id fset \<Rightarrow> message_id list" where
  "team_close_blocking_message_ids_except_request_lifecycle s team_id deferred =
     (case fmlookup (s_teams s) team_id of
        None \<Rightarrow> []
      | Some t \<Rightarrow>
          delivery_ids (\<lambda>d.
            \<not> d_retired d \<and>
            message_requires_team_action (s_requests s) (d_message_kind d)
              (e_request_id (d_envelope d)) \<and>
            \<not> (team_close_disposition (d_message_kind d) = RequestLifecycle \<and>
               is_some_and (e_request_id (d_envelope d)) (\<lambda>i. i |\<in>| deferred)) \<and>
            open_actor_slot (\<lambda>i. i \<in> set (t_actors t)) d) s)"

definition team_close_blocking_message_ids :: "supervisor \<Rightarrow> team_id \<Rightarrow> message_id list" where
  "team_close_blocking_message_ids s team_id =
     team_close_blocking_message_ids_except_request_lifecycle s team_id {||}"

end
