(* ===== verification/Operation_Outcomes.thy ===== *)
theory Operation_Outcomes
  imports Handler_Outcomes Apply Registration
begin

text \<open>Every public operation is atomic: a call that returns an error leaves the aggregate as it was.\<close>

section \<open>Messages and acknowledgements\<close>

lemma append_audit_not_refusing: "\<not> refusing (append_audit x s at team epoch kind)"
  by (auto simp: append_audit_def Let_def attempt_def expect_def ok_or_def refusing_def
      split: sum.splits option.splits)

lemma record_accepted_not_refusing: "\<not> refusing (record_accepted x s env digest required reason before)"
proof -
  obtain teams credit s1 where "observe_accepted s (header_of env) required before = ((teams, credit), s1)"
    by (metis prod.exhaust)
  then show ?thesis
    unfolding record_accepted_def Let_def
    by (simp only: prod.case) (intro not_refusing_sbind append_audit_not_refusing refusing_Inr)
qed

lemma envelope_team_epoch:
  "map_err (Err \<circ> Validation) (envelope_validate env) = Inr u \<Longrightarrow>
   e_team_id env \<noteq> None \<Longrightarrow> e_team_epoch env \<noteq> None"
  using envelope_validateD(1) by (auto simp: map_err_Inr_iff)

lemma atomic_apply_envelope: "atomic_from s (apply_envelope x s env)"
  unfolding apply_envelope_def Let_def
  by (intro atomic_intros atomic_apply_message record_accepted_not_refusing envelope_team_epoch)

lemma atomic_acknowledge: "atomic_from s (acknowledge x s ack)"
  unfolding acknowledge_def Let_def
  by (intro atomic_intros atomic_not_refusing [OF not_refusing_sbind] append_audit_not_refusing
      refusing_Inr)

section \<open>Membership\<close>

lemma atomic_activate_primary_inner: "atomic_from s (activate_primary_inner s i role profile)"
  unfolding activate_primary_inner_def Let_def by (intro atomic_intros)

lemma atomic_create_team_inner: "atomic_from s (create_team_inner s team profile)"
  unfolding create_team_inner_def Let_def by (intro atomic_intros)

lemma atomic_set_team_status: "atomic_from s (set_team_status s team status)"
  unfolding set_team_status_def Let_def by (intro atomic_intros)

lemma atomic_set_actor_status: "atomic_from s (set_actor_status s ref status)"
  unfolding set_actor_status_def Let_def by (intro atomic_intros)

lemma set_actor_status_known:
  "set_actor_status s ref status = (Inr u, s1) \<Longrightarrow> fmlookup (s_actors s1) (ref_actor_id ref) \<noteq> None"
  by (auto simp: set_actor_status_def current_actor_def Let_def result_simps split: option.splits)

lemma atomic_heartbeat: "atomic_from s (heartbeat s ref at)"
  unfolding heartbeat_def
  by (intro atomic_intros atomic_set_actor_status) (auto dest: set_actor_status_known simp: refusing_def)

lemma atomic_register_fresh: "atomic_from s (register_fresh s t team i role profile)"
  unfolding register_fresh_def Let_def by (intro atomic_intros)

lemma atomic_register_implementation_inner:
  "atomic_from s (register_implementation_inner s team i role profile)"
  unfolding register_implementation_inner_def by (intro atomic_intros atomic_register_fresh)

lemma roll_not_refusing: "\<not> refusing (roll_request_generations s epoch qs)"
  by (induction s epoch qs rule: roll_request_generations.induct)
    (auto simp: Let_def intro!: not_refusing_expect)

lemma reassign_not_refusing: "\<not> refusing (reassign_requests s ref plan)"
  by (induction s ref plan rule: reassign_requests.induct)
    (auto simp: Let_def intro!: not_refusing_expect)

lemma atomic_replace_implementation_inner:
  "atomic_from s (replace_implementation_inner s team i role profile)"
  unfolding replace_implementation_inner_def Let_def
  by (intro atomic_intros atomic_not_refusing [OF not_refusing_sbind] not_refusing_sbind
      roll_not_refusing reassign_not_refusing refusing_Inr)

lemma atomic_retire_obsolete: "atomic_from s (retire_obsolete_team_recipients s team)"
  unfolding retire_obsolete_team_recipients_def Let_def by (intro atomic_intros)

end
