(* ===== verification/Evolution.thy ===== *)
theory Evolution
  imports Apply Registration
begin

text \<open>
  How the aggregate may evolve: a preorder on states that every operation respects. Entities
  are never removed, fencing epochs never decrease, identities and accepted facts never change,
  terminal requests stay terminal, and the audit log only grows.
\<close>

section \<open>Entities\<close>

definition actor_le :: "actor \<Rightarrow> actor \<Rightarrow> bool" where
  "actor_le a b \<longleftrightarrow>
     a_actor_id b = a_actor_id a \<and> a_workspace_id b = a_workspace_id a \<and>
     a_team_id b = a_team_id a \<and> a_role b = a_role a \<and> a_profile b = a_profile a \<and>
     a_epoch a \<le> a_epoch b"

definition team_le :: "team \<Rightarrow> team \<Rightarrow> bool" where
  "team_le t u \<longleftrightarrow>
     t_team_id u = t_team_id t \<and> t_workspace_id u = t_workspace_id t \<and>
     t_profile u = t_profile t \<and> t_epoch t \<le> t_epoch u"

definition assignment_le :: "assignment option \<Rightarrow> assignment option \<Rightarrow> bool" where
  "assignment_le x y \<longleftrightarrow>
     (\<forall>as. x = Some as \<longrightarrow> (\<exists>as'. y = Some as' \<and> as_epoch as \<le> as_epoch as'))"

definition request_le :: "request \<Rightarrow> request \<Rightarrow> bool" where
  "request_le q q' \<longleftrightarrow>
     q_request_id q' = q_request_id q \<and> q_workspace_id q' = q_workspace_id q \<and>
     q_run_id q' = q_run_id q \<and> q_specification q' = q_specification q \<and>
     assignment_le (q_assignment q) (q_assignment q') \<and>
     (is_terminal (q_status q) \<longrightarrow> q_status q' = q_status q) \<and>
     prefix (q_candidate_history q) (q_candidate_history q')"

definition delivery_le :: "delivery_record \<Rightarrow> delivery_record \<Rightarrow> bool" where
  "delivery_le d d' \<longleftrightarrow>
     d_envelope d' = d_envelope d \<and> d_message_kind d' = d_message_kind d \<and>
     d_payload_digest d' = d_payload_digest d \<and> d_causal d' = d_causal d \<and>
     d_required_recipients d' = d_required_recipients d \<and>
     fmdom (d_undeliverable_recipients d) |\<subseteq>| fmdom (d_undeliverable_recipients d') \<and>
     (\<forall>r ack. fmlookup (d_acknowledgements d) r = Some ack \<longrightarrow>
        fmlookup (d_acknowledgements d') r = Some ack) \<and>
     (d_retired d \<longrightarrow> d_retired d')"

lemmas entity_le_defs = actor_le_def team_le_def request_le_def delivery_le_def assignment_le_def

text \<open>Every key keeps a value, related to the one before.\<close>

definition fm_le :: "('v \<Rightarrow> 'v \<Rightarrow> bool) \<Rightarrow> ('k, 'v) fmap \<Rightarrow> ('k, 'v) fmap \<Rightarrow> bool" where
  "fm_le R m m' \<longleftrightarrow> (\<forall>k v. fmlookup m k = Some v \<longrightarrow> (\<exists>v'. fmlookup m' k = Some v' \<and> R v v'))"

lemma fm_le_refl: "(\<And>v. R v v) \<Longrightarrow> fm_le R m m"
  by (auto simp: fm_le_def)

lemma fm_le_trans:
  assumes "fm_le R m1 m2" and "fm_le R m2 m3" and "\<And>x y z. R x y \<Longrightarrow> R y z \<Longrightarrow> R x z"
  shows "fm_le R m1 m3"
  using assms unfolding fm_le_def by meson

lemma fm_le_fmupd:
  assumes "\<And>v. R v v" and "is_none_or (fmlookup m k) (\<lambda>v. R v w)"
  shows "fm_le R m (fmupd k w m)"
  using assms by (auto simp: fm_le_def)

lemma fm_le_fmmodify:
  assumes "\<And>v. R v v" and "is_none_or (fmlookup m k) (\<lambda>v. R v (f v))"
  shows "fm_le R m (fmmodify k f m)"
  using assms by (auto simp: fm_le_def)

lemma fm_le_fmmap: "(\<And>v. R v (f v)) \<Longrightarrow> fm_le R m (fmmap f m)"
  by (auto simp: fm_le_def)

lemma actor_le_refl [simp]: "actor_le a a"
  by (simp add: actor_le_def)

lemma team_le_refl [simp]: "team_le t t"
  by (simp add: team_le_def)

lemma request_le_refl [simp]: "request_le q q"
  by (simp add: request_le_def assignment_le_def)

lemma delivery_le_refl [simp]: "delivery_le d d"
  by (simp add: delivery_le_def)

lemma actor_le_trans: "actor_le a b \<Longrightarrow> actor_le b c \<Longrightarrow> actor_le a c"
  by (auto simp: actor_le_def)

lemma team_le_trans: "team_le a b \<Longrightarrow> team_le b c \<Longrightarrow> team_le a c"
  by (auto simp: team_le_def)

lemma assignment_le_trans: "assignment_le a b \<Longrightarrow> assignment_le b c \<Longrightarrow> assignment_le a c"
  by (force simp: assignment_le_def)

lemma request_le_trans: "request_le a b \<Longrightarrow> request_le b c \<Longrightarrow> request_le a c"
  unfolding request_le_def by (auto intro: assignment_le_trans prefix_order.trans)

lemma delivery_le_trans: "delivery_le a b \<Longrightarrow> delivery_le b c \<Longrightarrow> delivery_le a c"
  unfolding delivery_le_def by auto

section \<open>States\<close>

definition grows :: "supervisor \<Rightarrow> supervisor \<Rightarrow> bool" where
  "grows s s' \<longleftrightarrow>
     s_workspace_id s' = s_workspace_id s \<and> s_policy_revision s' = s_policy_revision s \<and>
     s_primary_epoch s \<le> s_primary_epoch s' \<and>
     fm_le actor_le (s_actors s) (s_actors s') \<and> fm_le team_le (s_teams s) (s_teams s') \<and>
     fm_le request_le (s_requests s) (s_requests s') \<and>
     fm_le delivery_le (s_mailbox s) (s_mailbox s') \<and> prefix (s_audit s) (s_audit s')"

lemma grows_refl [simp]: "grows s s"
  by (simp add: grows_def fm_le_refl)

lemma grows_trans: "grows s1 s2 \<Longrightarrow> grows s2 s3 \<Longrightarrow> grows s1 s3"
  unfolding grows_def
  by (auto intro: fm_le_trans [OF _ _ actor_le_trans] fm_le_trans [OF _ _ team_le_trans]
      fm_le_trans [OF _ _ request_le_trans] fm_le_trans [OF _ _ delivery_le_trans]
      prefix_order.trans)

lemma grows_requestD:
  "grows s s' \<Longrightarrow> fmlookup (s_requests s) k = Some q \<Longrightarrow>
   \<exists>q'. fmlookup (s_requests s') k = Some q' \<and> request_le q q'"
  by (auto simp: grows_def fm_le_def)

lemma grows_actorD:
  "grows s s' \<Longrightarrow> fmlookup (s_actors s) k = Some a \<Longrightarrow>
   \<exists>a'. fmlookup (s_actors s') k = Some a' \<and> actor_le a a'"
  by (auto simp: grows_def fm_le_def)

lemma grows_teamD:
  "grows s s' \<Longrightarrow> fmlookup (s_teams s) k = Some t \<Longrightarrow>
   \<exists>t'. fmlookup (s_teams s') k = Some t' \<and> team_le t t'"
  by (auto simp: grows_def fm_le_def)

lemma grows_mailboxD:
  "grows s s' \<Longrightarrow> fmlookup (s_mailbox s) k = Some d \<Longrightarrow>
   \<exists>d'. fmlookup (s_mailbox s') k = Some d' \<and> delivery_le d d'"
  by (auto simp: grows_def fm_le_def)

end
