(* ===== verification/Work_Steps.thy ===== *)
theory Work_Steps
  imports Handler_Outcomes
begin

text \<open>
  The abstract specification of the message handlers: an accepted message leaves the work state
  alone, creates one request with its run, offers a handoff, or takes one request, its run and
  the pending handoffs through one step of \<open>pair_step\<close>. \<open>apply_message\<close> refines it.
\<close>

section \<open>One request and its run\<close>

type_synonym work_item = "request \<times> run \<times> (handoff_id, pending_handoff) fmap"

definition offers_of :: "request \<Rightarrow> pending_handoff \<Rightarrow> bool" where
  "offers_of q p \<longleftrightarrow> hr_request_id (ph_offer p) = q_request_id q"

inductive pair_step ::
  "supervisor \<Rightarrow> envelope \<Rightarrow> actor \<Rightarrow> payload_digest \<Rightarrow> work_item \<Rightarrow> work_item \<Rightarrow> bool"
  for s env a digest where
  start:
    "transition_request (q_status q) EvStart = Inr qs \<Longrightarrow>
     transition_run (r_status r) RevResume = Inr rs \<Longrightarrow>
     message_kind_of (e_message env) \<in> {KProgress, KRunControl} \<Longrightarrow>
     pair_step s env a digest (q, r, h) (q\<lparr>q_status := qs\<rparr>, r\<lparr>r_status := rs\<rparr>, h)"
| block:
    "transition_request (q_status q) EvBlock = Inr qs \<Longrightarrow>
     transition_run (r_status r) RevBlock = Inr rs \<Longrightarrow>
     message_kind_of (e_message env) = KBlocker \<Longrightarrow>
     pair_step s env a digest (q, r, h) (q\<lparr>q_status := qs\<rparr>, r\<lparr>r_status := rs\<rparr>, h)"
| pause:
    "transition_run (r_status r) RevPause = Inr rs \<Longrightarrow>
     message_kind_of (e_message env) = KRunControl \<Longrightarrow>
     pair_step s env a digest (q, r, h) (q, r\<lparr>r_status := rs\<rparr>, h)"
| cancel:
    "transition_request (q_status q) EvCancel = Inr qs \<Longrightarrow>
     transition_run (r_status r) RevCancel = Inr rs \<Longrightarrow>
     e_team_id env = Some (q_team_id q) \<Longrightarrow> e_team_epoch env = Some epoch \<Longrightarrow>
     message_kind_of (e_message env) = KCancellation \<Longrightarrow>
     pair_step s env a digest (q, r, h)
       (q\<lparr>q_status := qs, q_team_epoch := epoch\<rparr>, r\<lparr>r_status := rs, r_team_epoch := epoch\<rparr>,
        fmretain (\<lambda>p. \<not> offers_of q p) h)"
| submit:
    "c_team_id c = q_team_id q \<Longrightarrow> c_created_by c = actor_ref_of a \<Longrightarrow>
     c_created_by_profile c = map_option ap_name (a_profile a) \<Longrightarrow>
     e_message env = MCandidateReady ready \<Longrightarrow> cr_candidate ready = c \<Longrightarrow>
     has_capability a IMPLEMENTATION_EXECUTION \<Longrightarrow>
     check_candidate_change q c = Inr () \<Longrightarrow>
     (tracks_candidate q c \<Longrightarrow> length (q_candidate_history q) < MAX_DOMAIN_ENTITIES) \<Longrightarrow>
     next_fix_cycle_depth q c = Inr depth \<Longrightarrow>
     transition_request (q_status q) EvSubmitCandidate = Inr qs \<Longrightarrow>
     transition_run (r_status r) RevSubmitCandidate = Inr rs \<Longrightarrow>
     pair_step s env a digest (q, r, h)
       (submit_candidate qs depth c q, r\<lparr>r_status := rs\<rparr>,
        fmretain (\<lambda>p. \<not> (offers_of q p \<and>
                          \<not> is_none_or (hr_candidate (ph_offer p)) (\<lambda>c'. c' = c))) h)"
| reject:
    "dr_verdict d = VerdictRejected \<Longrightarrow> q_candidate q = Some (dr_candidate d) \<Longrightarrow>
     dr_reviewer d = actor_ref_of a \<Longrightarrow> dr_policy_revision d = s_policy_revision s \<Longrightarrow>
     causal_message_of (e_message_id env) digest (e_message env) = CausalReviewDecision d \<Longrightarrow>
     \<not> decision_id_used s (dr_decision_id d) \<Longrightarrow>
     transition_request (q_status q) EvRejectCandidate = Inr qs \<Longrightarrow>
     transition_run (r_status r) RevRejectCandidate = Inr rs \<Longrightarrow>
     next_rejection_count q VerdictRejected = Inr rejections \<Longrightarrow>
     pair_step s env a digest (q, r, h)
       (decide qs None rejections d q, r\<lparr>r_status := rs\<rparr>, h)"
| accept:
    "dr_verdict d = VerdictAccepted \<Longrightarrow> q_candidate q = Some (dr_candidate d) \<Longrightarrow>
     dr_reviewer d = actor_ref_of a \<Longrightarrow> dr_policy_revision d = s_policy_revision s \<Longrightarrow>
     causal_message_of (e_message_id env) digest (e_message env) = CausalReviewDecision d \<Longrightarrow>
     \<not> decision_id_used s (dr_decision_id d) \<Longrightarrow>
     transition_request (q_status q) EvAcceptCandidate = Inr qs \<Longrightarrow>
     transition_run (r_status r) RevAcceptCandidate = Inr rs \<Longrightarrow>
     e_team_id env = Some (q_team_id q) \<Longrightarrow> e_team_epoch env = Some epoch \<Longrightarrow>
     pair_step s env a digest (q, r, h)
       (decide qs (Some epoch) None d q, r\<lparr>r_status := rs, r_team_epoch := epoch\<rparr>,
        fmretain (\<lambda>p. \<not> offers_of q p) h)"
| authorize:
    "e_message env = MIntegrationAuthorization z \<Longrightarrow> ia_authorized_by z = actor_ref_of a \<Longrightarrow> q_candidate q = Some (ia_candidate z) \<Longrightarrow>
     q_decision q = Some d \<Longrightarrow> dr_decision_id d = ia_decision_id z \<Longrightarrow>
     dr_verdict d = VerdictAccepted \<Longrightarrow>
     transition_request (q_status q) EvAuthorizeIntegration = Inr qs \<Longrightarrow>
     transition_run (r_status r) RevAuthorizeIntegration = Inr rs \<Longrightarrow>
     pair_step s env a digest (q, r, h)
       (q\<lparr>q_status := qs, q_integration_authorization := Some z\<rparr>, r\<lparr>r_status := rs\<rparr>, h)"
| complete:
    "q_integration_authorization q = Some z \<Longrightarrow>
     e_message env = MIntegrationComplete complete \<Longrightarrow>
     q_candidate q = Some (ic_candidate complete) \<Longrightarrow>
     transition_request (q_status q) EvComplete = Inr qs \<Longrightarrow>
     transition_run (r_status r) RevComplete = Inr rs \<Longrightarrow>
     pair_step s env a digest (q, r, h) (q\<lparr>q_status := qs\<rparr>, r\<lparr>r_status := rs\<rparr>, h)"
| move:
    "e_message env = MHandoffAcceptance acceptance \<Longrightarrow> ha_handoff_id acceptance = hid \<Longrightarrow>
     fmlookup h hid = Some p \<Longrightarrow> hr_to_team_id (ph_offer p) = to \<Longrightarrow>
     hr_from_team_id (ph_offer p) = q_team_id q \<Longrightarrow>
     q_assignment q = Some assignment \<Longrightarrow> as_epoch assignment = ph_assignment_epoch p \<Longrightarrow>
     as_actor assignment = ph_offered_by p \<Longrightarrow>
     e_assignment_epoch env = Some (as_epoch assignment) \<Longrightarrow>
     checked_next (as_epoch assignment) = Some next_epoch \<Longrightarrow>
     e_team_id env = Some to \<Longrightarrow> e_team_epoch env = Some epoch \<Longrightarrow> a_team_id a = Some to \<Longrightarrow>
     has_capability a IMPLEMENTATION_EXECUTION \<Longrightarrow>
     is_some_and (fmlookup (s_teams s) to) (\<lambda>t. t_status t = TeamActive) \<Longrightarrow>
     pair_step s env a digest (q, r, h)
       (q\<lparr>q_team_id := to, q_team_epoch := epoch,
          q_assignment := Some (Assignment (actor_ref_of a) next_epoch)\<rparr>,
        r\<lparr>r_team_id := to, r_team_epoch := epoch,
          r_assignment := Some (Assignment (actor_ref_of a) next_epoch)\<rparr>,
        fmdrop hid h)"

section \<open>The work state\<close>

definition new_request ::
  "supervisor \<Rightarrow> request_id \<Rightarrow> run_id \<Rightarrow> team_id \<Rightarrow> team_epoch \<Rightarrow> request_specification_ref \<Rightarrow>
   assignment \<Rightarrow> request" where
  "new_request s request_id run_id team_id team_epoch specification assignment =
     \<lparr>q_request_id = request_id, q_workspace_id = s_workspace_id s, q_team_id = team_id,
      q_team_epoch = team_epoch, q_run_id = run_id, q_specification = specification,
      q_status = Assigned, q_assignment = Some assignment, q_candidate = None, q_decision = None,
      q_integration_authorization = None, q_rejection_count = 0, q_fix_cycle_depth = 0,
      q_candidate_history = []\<rparr>"

definition new_run ::
  "supervisor \<Rightarrow> request_id \<Rightarrow> run_id \<Rightarrow> team_id \<Rightarrow> team_epoch \<Rightarrow> assignment \<Rightarrow> run" where
  "new_run s request_id run_id team_id team_epoch assignment =
     \<lparr>r_run_id = run_id, r_workspace_id = s_workspace_id s, r_team_id = team_id,
      r_team_epoch = team_epoch, r_request_id = request_id, r_status = RunActive,
      r_assignment = Some assignment\<rparr>"

inductive work_step ::
  "supervisor \<Rightarrow> envelope \<Rightarrow> actor \<Rightarrow> payload_digest \<Rightarrow> supervisor \<Rightarrow> bool"
  for s env a digest where
  unchanged: "work_step s env a digest s"
| created:
    "e_request_id env = Some request_id \<Longrightarrow> e_run_id env = Some run_id \<Longrightarrow>
     e_team_id env = Some team_id \<Longrightarrow> e_team_epoch env = Some team_epoch \<Longrightarrow>
     \<not> fmhas (s_requests s) request_id \<Longrightarrow> \<not> fmhas (s_runs s) run_id \<Longrightarrow>
     is_some_and (fmlookup (s_teams s) team_id) (\<lambda>t. t_status t = TeamActive) \<Longrightarrow>
     fmlookup (s_actors s) target = Some b \<Longrightarrow> has_capability b IMPLEMENTATION_EXECUTION \<Longrightarrow>
     a_team_id b = Some team_id \<Longrightarrow> a_status b = ActorHealthy \<Longrightarrow>
     message_kind_of (e_message env) = KImplementationRequest \<Longrightarrow>
     spec_message_id specification = e_message_id env \<Longrightarrow>
     spec_payload_digest specification = digest \<Longrightarrow>
     assignment = Assignment (actor_ref_of b) EPOCH_INITIAL \<Longrightarrow>
     work_step s env a digest
       (s\<lparr>s_requests := fmupd request_id
            (new_request s request_id run_id team_id team_epoch specification assignment)
            (s_requests s),
          s_runs := fmupd run_id (new_run s request_id run_id team_id team_epoch assignment)
            (s_runs s)\<rparr>)"
| changed:
    "request_context s env = Inr q \<Longrightarrow> fmlookup (s_runs s) (q_run_id q) = Some r \<Longrightarrow>
     pair_step s env a digest (q, r, s_handoffs s) (q', r', h') \<Longrightarrow>
     work_step s env a digest
       (s\<lparr>s_requests := fmupd (q_request_id q) q' (s_requests s),
          s_runs := fmupd (q_run_id q) r' (s_runs s), s_handoffs := h'\<rparr>)"
| offered:
    "request_context s env = Inr q \<Longrightarrow> offers_of q p \<Longrightarrow>
     hr_from_team_id (ph_offer p) = q_team_id q \<Longrightarrow>
     q_status q \<notin> {Accepted, IntegrationAuthorized, Cancelled, Completed} \<Longrightarrow>
     is_some_and (fmlookup (s_teams s) (hr_to_team_id (ph_offer p))) (\<lambda>t. t_status t = TeamActive) \<Longrightarrow>
     is_none_or (hr_candidate (ph_offer p)) (\<lambda>c. q_candidate q = Some c) \<Longrightarrow>
     \<not> fmhas (s_handoffs s) (hr_handoff_id (ph_offer p)) \<Longrightarrow>
     (\<And>k p'. fmlookup (s_handoffs s) k = Some p' \<Longrightarrow> \<not> offers_of q p') \<Longrightarrow>
     q_assignment q = Some assignment \<Longrightarrow> ph_assignment_epoch p = as_epoch assignment \<Longrightarrow>
     ph_offered_by p = as_actor assignment \<Longrightarrow>
     causal_message_of (e_message_id env) digest (e_message env) = CausalHandoffOffer (ph_offer p) \<Longrightarrow>
     work_step s env a digest
       (s\<lparr>s_handoffs := fmupd (hr_handoff_id (ph_offer p)) p (s_handoffs s)\<rparr>)"

inductive_cases pair_stepE: "pair_step s env a digest (q, r, h) (q', r', h')"

section \<open>Contexts and writes\<close>

definition work_keys :: "supervisor \<Rightarrow> bool" where
  "work_keys s \<longleftrightarrow> (\<forall>k q. fmlookup (s_requests s) k = Some q \<longrightarrow> q_request_id q = k)"

lemma request_contextD:
  assumes "request_context s env = Inr q"
  shows "\<exists>k r. e_request_id env = Some k \<and> e_run_id env = Some (q_run_id q) \<and>
    fmlookup (s_requests s) k = Some q \<and> fmlookup (s_runs s) (q_run_id q) = Some r \<and>
    r_request_id r = k \<and>
    (case e_message env of
       MHandoffAcceptance acceptance \<Rightarrow>
         q_team_id q = ha_from_team_id acceptance \<and>
         e_team_id env = Some (ha_to_team_id acceptance)
     | _ \<Rightarrow> e_team_id env = Some (q_team_id q) \<and>
            (request_blocks_team_close (q_status q) \<or> e_team_epoch env = Some (q_team_epoch q)))"
  using assms
  by (auto simp: request_context_def context_ids_def result_simps Let_def split: if_splits prod.splits)

lemma request_context_lookup:
  assumes "work_keys s" and "request_context s env = Inr q"
  shows "fmlookup (s_requests s) (q_request_id q) = Some q"
    and "e_request_id env = Some (q_request_id q)"
    and "e_run_id env = Some (q_run_id q)"
    and "\<exists>r. fmlookup (s_runs s) (q_run_id q) = Some r"
  using request_contextD [OF assms(2)] assms(1) by (auto simp: work_keys_def)

definition accepts_handoff :: "message \<Rightarrow> bool" where
  "accepts_handoff m \<longleftrightarrow> (\<exists>acceptance. m = MHandoffAcceptance acceptance)"

lemma request_context_team:
  "request_context s env = Inr q \<Longrightarrow> \<not> accepts_handoff (e_message env) \<Longrightarrow>
   e_team_id env = Some (q_team_id q)"
  by (drule request_contextD) (auto simp: accepts_handoff_def split: message.splits)

lemma put_both_eq:
  assumes "fmlookup (s_requests s) i = Some q" and "fmlookup (s_runs s) j = Some r"
  shows "put_both i f j g s =
    (Inr (), s\<lparr>s_requests := fmupd i (f q) (s_requests s),
                s_runs := fmupd j (g r) (s_runs s)\<rparr>)"
  using assms
  by (simp add: put_both_def put_request_def put_run_def upd_request_def upd_run_def fmmodify_def)

lemma calm_request_context [calm_intros]: "calm (request_context s env)"
  unfolding request_context_def context_ids_def Let_def by (intro calm_intros)

lemma never_panics_put_both:
  assumes "work_keys s" and "request_context s env = Inr q"
  shows "never_panics (put_both (q_request_id q) f (q_run_id q) g s)"
  using request_context_lookup [OF assms] by (auto simp: put_both_eq)

lemma fmupd_twice [simp]: "fmupd k a (fmupd k b m) = fmupd k a m"
  by (rule fmap_ext) simp

section \<open>The refinement\<close>

lemma work_changedI:
  assumes "work_keys s" and "request_context s env = Inr q"
    and "fmlookup (s_runs s) (q_run_id q) = Some r"
    and "pair_step s env a digest (q, r, s_handoffs s) (q', r', h')"
    and "s' = s\<lparr>s_requests := fmupd (q_request_id q) q' (s_requests s),
                 s_runs := fmupd (q_run_id q) r' (s_runs s), s_handoffs := h'\<rparr>"
  shows "work_step s env a digest s'"
  using work_step.changed [OF assms(2-4)] assms(5) by simp

lemma put_both_step:
  assumes "work_keys s" and "request_context s env = Inr q"
    and "fmlookup (s_runs s) (q_run_id q) = Some r"
    and "put_both (q_request_id q) f (q_run_id q) g s = (Inr (), s')"
    and "pair_step s env a digest (q, r, s_handoffs s) (f q, g r, s_handoffs s)"
  shows "work_step s env a digest s'"
proof -
  have "s' = s\<lparr>s_requests := fmupd (q_request_id q) (f q) (s_requests s),
               s_runs := fmupd (q_run_id q) (g r) (s_runs s), s_handoffs := s_handoffs s\<rparr>"
    using assms(4) put_both_eq [OF request_context_lookup(1) [OF assms(1,2)] assms(3)] by auto
  with assms(1-3,5) show ?thesis
    by (rule work_changedI)
qed

lemma transition_context_step:
  assumes "work_keys s" and "transition_context s env qe re = (Inr (), s')"
  obtains q r qs rs where "request_context s env = Inr q"
    and "fmlookup (s_runs s) (q_run_id q) = Some r"
    and "transition_request (q_status q) qe = Inr qs" and "transition_run (r_status r) re = Inr rs"
    and "s' = s\<lparr>s_requests := fmupd (q_request_id q) (q\<lparr>q_status := qs\<rparr>) (s_requests s),
                 s_runs := fmupd (q_run_id q) (r\<lparr>r_status := rs\<rparr>) (s_runs s)\<rparr>"
proof -
  from assms(2) obtain q r qs rs where *: "request_context s env = Inr q"
      "transition_request (q_status q) qe = Inr qs"
      "fmlookup (s_runs s) (q_run_id q) = Some r" "transition_run (r_status r) re = Inr rs"
    and "set_statuses (q_request_id q) (q_run_id q) qs rs s = (Inr (), s')"
    by (auto simp: transition_context_def result_simps)
  then show thesis
    using put_both_eq [OF request_context_lookup(1) [OF assms(1) *(1)] *(3)]
    by (intro that [OF *(1,3,2,4)]) (simp add: set_statuses_def)
qed

lemma progress_step:
  assumes "work_keys s" and "apply_progress s env a = (Inr (), s')"
    and kind: "message_kind_of (e_message env) = KProgress"
  shows "work_step s env a digest s'"
proof -
  from assms(2) have "transition_context s env EvStart RevResume = (Inr (), s')"
    by (auto simp: apply_progress_def result_simps)
  with assms(1) show ?thesis
    by (rule transition_context_step) (auto intro!: work_changedI [OF assms(1)] pair_step.start simp: kind)
qed

lemma blocker_step:
  assumes "work_keys s" and "apply_blocker s env a = (Inr (), s')"
    and kind: "message_kind_of (e_message env) = KBlocker"
  shows "work_step s env a digest s'"
proof -
  from assms(2) have "transition_context s env EvBlock RevBlock = (Inr (), s')"
    by (auto simp: apply_blocker_def result_simps)
  with assms(1) show ?thesis
    by (rule transition_context_step) (auto intro!: work_changedI [OF assms(1)] pair_step.block kind)
qed

lemma drop_handoffs_offers_of:
  "drop_handoffs (\<lambda>p. hr_request_id (ph_offer p) = q_request_id q) s =
     s\<lparr>s_handoffs := fmretain (\<lambda>p. \<not> offers_of q p) (s_handoffs s)\<rparr>"
  by (simp add: drop_handoffs_def offers_of_def)

lemma cancellation_step:
  assumes keys: "work_keys s" and "apply_cancellation s env a = (Inr (), s')"
    and kind: "message_kind_of (e_message env) = KCancellation"
  shows "work_step s env a digest s'"
proof -
  have msg: "\<not> accepts_handoff (e_message env)"
    using kind by (auto simp: accepts_handoff_def split: message.splits)
  from assms(2) obtain epoch k q0 s1 s2 where epoch: "e_team_epoch env = Some epoch"
    and k: "e_request_id env = Some k" "fmlookup (s_requests s) k = Some q0"
    and t: "transition_context s env EvCancel RevCancel = (Inr (), s1)"
    and p: "put_both k (\<lambda>q. q\<lparr>q_team_epoch := epoch\<rparr>) (q_run_id q0)
              (\<lambda>r. r\<lparr>r_team_epoch := epoch\<rparr>) s1 = (Inr (), s2)"
    and s': "s' = drop_handoffs (\<lambda>p. hr_request_id (ph_offer p) = k) s2"
    by (auto simp: apply_cancellation_def result_simps Let_def)
  from keys t show ?thesis
  proof (rule transition_context_step)
    fix q r qs rs
    assume ctx: "request_context s env = Inr q" and r: "fmlookup (s_runs s) (q_run_id q) = Some r"
      and qs: "transition_request (q_status q) EvCancel = Inr qs"
      and rs: "transition_run (r_status r) RevCancel = Inr rs"
      and s1: "s1 = s\<lparr>s_requests := fmupd (q_request_id q) (q\<lparr>q_status := qs\<rparr>) (s_requests s),
                 s_runs := fmupd (q_run_id q) (r\<lparr>r_status := rs\<rparr>) (s_runs s)\<rparr>"
    from request_context_lookup [OF keys ctx] k have "k = q_request_id q" "q0 = q"
      by auto
    then have "s2 = s\<lparr>s_requests := fmupd (q_request_id q)
                        (q\<lparr>q_status := qs, q_team_epoch := epoch\<rparr>) (s_requests s),
                 s_runs := fmupd (q_run_id q) (r\<lparr>r_status := rs, r_team_epoch := epoch\<rparr>) (s_runs s)\<rparr>"
      using p put_both_eq [of s1 k "q\<lparr>q_status := qs\<rparr>" "q_run_id q" "r\<lparr>r_status := rs\<rparr>"]
      by (auto simp: s1)
    then show ?thesis
      using \<open>k = q_request_id q\<close>
      by (intro work_changedI [OF keys ctx r pair_step.cancel [OF qs rs request_context_team [OF ctx msg] epoch kind]])
        (simp add: s' drop_handoffs_offers_of)
  qed
qed

lemma run_control_step:
  assumes keys: "work_keys s" and "apply_run_control s env a action = (Inr (), s')"
    and kind: "message_kind_of (e_message env) = KRunControl"
  shows "work_step s env a digest s'"
proof -
  from assms(2) obtain q qs r rs where ctx: "request_context s env = Inr q"
    and qs: "(case action of ControlPause \<Rightarrow> Inr (q_status q)
              | ControlResume \<Rightarrow> map_err Err (transition_request (q_status q) EvStart)) = Inr qs"
    and r: "fmlookup (s_runs s) (q_run_id q) = Some r"
    and rs: "transition_run (r_status r)
               (case action of ControlPause \<Rightarrow> RevPause | ControlResume \<Rightarrow> RevResume) = Inr rs"
    and p: "set_statuses (q_request_id q) (q_run_id q) qs rs s = (Inr (), s')"
    by (auto simp: apply_run_control_def result_simps)
  show ?thesis
  proof (cases action)
    case ControlPause
    with qs rs have "q\<lparr>q_status := qs\<rparr> = q" "transition_run (r_status r) RevPause = Inr rs"
      by auto
    then show ?thesis
      using put_both_step [OF keys ctx r p [unfolded set_statuses_def]] by (simp add: pair_step.pause kind)
  next
    case ControlResume
    with qs rs have "transition_request (q_status q) EvStart = Inr qs"
        "transition_run (r_status r) RevResume = Inr rs"
      by (auto simp: result_simps)
    then show ?thesis
      by (intro put_both_step [OF keys ctx r p [unfolded set_statuses_def]] pair_step.start)
        (simp_all add: kind)
  qed
qed

lemma candidate_step:
  assumes keys: "work_keys s" and "apply_candidate s env a c = (Inr (), s')"
    and msg: "e_message env = MCandidateReady ready" "cr_candidate ready = c"
    and impl: "has_capability a IMPLEMENTATION_EXECUTION"
  shows "work_step s env a digest s'"
proof -
  from assms(2) obtain q depth qs r rs s1 where ctx: "request_context s env = Inr q"
    and id: "c_team_id c = q_team_id q" "c_created_by c = actor_ref_of a"
      "c_created_by_profile c = map_option ap_name (a_profile a)"
    and chk: "check_candidate_change q c = Inr ()"
    and len: "\<not> (tracks_candidate q c \<and> MAX_DOMAIN_ENTITIES \<le> length (q_candidate_history q))"
    and depth: "next_fix_cycle_depth q c = Inr depth"
    and qs: "transition_request (q_status q) EvSubmitCandidate = Inr qs"
    and r: "fmlookup (s_runs s) (q_run_id q) = Some r"
    and rs: "transition_run (r_status r) RevSubmitCandidate = Inr rs"
    and p: "put_both (q_request_id q) (submit_candidate qs depth c) (q_run_id q)
              (\<lambda>r. r\<lparr>r_status := rs\<rparr>) s = (Inr (), s1)"
    and s': "s' = drop_handoffs (\<lambda>p. hr_request_id (ph_offer p) = q_request_id q \<and>
               \<not> is_none_or (hr_candidate (ph_offer p))
                   (\<lambda>c. Some c = Option.bind (fmlookup (s_requests s1) (q_request_id q)) q_candidate)) s1"
    by (simp add: apply_candidate_def result_simps Let_def del: de_Morgan_conj) blast
  have s1: "s1 = s\<lparr>s_requests := fmupd (q_request_id q) (submit_candidate qs depth c q) (s_requests s),
                 s_runs := fmupd (q_run_id q) (r\<lparr>r_status := rs\<rparr>) (s_runs s)\<rparr>"
    using p put_both_eq [OF request_context_lookup(1) [OF keys ctx] r] by auto
  have "pair_step s env a digest (q, r, s_handoffs s)
       (submit_candidate qs depth c q, r\<lparr>r_status := rs\<rparr>,
        fmretain (\<lambda>p. \<not> (offers_of q p \<and>
                          \<not> is_none_or (hr_candidate (ph_offer p)) (\<lambda>c'. c' = c))) (s_handoffs s))"
    by (rule pair_step.submit [OF id msg impl chk _ depth qs rs]) (use len in auto)
  then show ?thesis
    by (rule work_changedI [OF keys ctx r])
      (simp add: s' s1 drop_handoffs_def offers_of_def submit_candidate_def)
qed

text \<open>The part of the review handler that does not depend on the verdict.\<close>

lemma review_common:
  assumes "apply_review s env a d = (Inr (), s')"
  obtains q r where "\<not> decision_id_used s (dr_decision_id d)" and "dr_reviewer d = actor_ref_of a"
    and "dr_policy_revision d = s_policy_revision s" and "request_context s env = Inr q"
    and "q_candidate q = Some (dr_candidate d)" and "fmlookup (s_runs s) (q_run_id q) = Some r"
  using assms
  by (cases "dr_verdict d")
    (auto simp: apply_review_def result_simps ensure_candidate_def Let_def split: if_splits)

lemma reject_step:
  assumes keys: "work_keys s" and app: "apply_review s env a d = (Inr (), s')"
    and ref: "causal_message_of (e_message_id env) digest (e_message env) = CausalReviewDecision d"
    and v: "dr_verdict d = VerdictRejected"
  shows "work_step s env a digest s'"
proof -
  from app obtain q r where new: "\<not> decision_id_used s (dr_decision_id d)"
    and id: "dr_reviewer d = actor_ref_of a" "dr_policy_revision d = s_policy_revision s"
    and ctx: "request_context s env = Inr q" and c: "q_candidate q = Some (dr_candidate d)"
    and r: "fmlookup (s_runs s) (q_run_id q) = Some r"
    by (rule review_common)
  from app v ctx r obtain qs rs n where qs: "transition_request (q_status q) EvRejectCandidate = Inr qs"
    and rs: "transition_run (r_status r) RevRejectCandidate = Inr rs"
    and n: "next_rejection_count q VerdictRejected = Inr n"
    and p: "put_both (q_request_id q) (decide qs None n d) (q_run_id q)
              (\<lambda>r. r\<lparr>r_status := rs\<rparr>) s = (Inr (), s')"
    by (auto simp: apply_review_def result_simps Let_def)
  from keys ctx r p show ?thesis
    by (rule put_both_step) (rule pair_step.reject [OF v c id ref new qs rs n])
qed

lemma accept_step:
  assumes keys: "work_keys s" and app: "apply_review s env a d = (Inr (), s')"
    and ref: "causal_message_of (e_message_id env) digest (e_message env) = CausalReviewDecision d"
    and v: "dr_verdict d = VerdictAccepted" and msg: "\<not> accepts_handoff (e_message env)"
  shows "work_step s env a digest s'"
proof -
  from app obtain q r where new: "\<not> decision_id_used s (dr_decision_id d)"
    and id: "dr_reviewer d = actor_ref_of a" "dr_policy_revision d = s_policy_revision s"
    and ctx: "request_context s env = Inr q" and c: "q_candidate q = Some (dr_candidate d)"
    and r: "fmlookup (s_runs s) (q_run_id q) = Some r"
    by (rule review_common)
  from app v ctx r obtain qs rs epoch s1
    where qs: "transition_request (q_status q) EvAcceptCandidate = Inr qs"
    and rs: "transition_run (r_status r) RevAcceptCandidate = Inr rs"
    and epoch: "e_team_epoch env = Some epoch"
    and p: "put_both (q_request_id q) (decide qs (Some epoch) None d) (q_run_id q)
              (\<lambda>r. r\<lparr>r_status := rs, r_team_epoch := epoch\<rparr>) s = (Inr (), s1)"
    and s': "s' = drop_handoffs (\<lambda>p. hr_request_id (ph_offer p) = q_request_id q) s1"
    by (auto simp: apply_review_def result_simps Let_def next_rejection_count_def)
  have "s1 = s\<lparr>s_requests := fmupd (q_request_id q) (decide qs (Some epoch) None d q) (s_requests s),
               s_runs := fmupd (q_run_id q) (r\<lparr>r_status := rs, r_team_epoch := epoch\<rparr>) (s_runs s)\<rparr>"
    using p put_both_eq [OF request_context_lookup(1) [OF keys ctx] r] by auto
  then show ?thesis
    by (intro work_changedI [OF keys ctx r pair_step.accept [OF v c id ref new qs rs request_context_team [OF ctx msg] epoch]])
      (simp add: s' drop_handoffs_offers_of)
qed

lemma review_step:
  assumes "work_keys s" and "apply_review s env a d = (Inr (), s')"
    and "causal_message_of (e_message_id env) digest (e_message env) = CausalReviewDecision d"
    and "\<not> accepts_handoff (e_message env)"
  shows "work_step s env a digest s'"
proof (cases "dr_verdict d")
  case VerdictAccepted
  with assms show ?thesis by (intro accept_step)
next
  case VerdictRejected
  with assms(1-3) show ?thesis by (intro reject_step)
qed

lemma authorization_step:
  assumes keys: "work_keys s" and "apply_integration_authorization s env a z = (Inr (), s')"
    and msg: "e_message env = MIntegrationAuthorization z"
  shows "work_step s env a digest s'"
proof -
  from assms(2) obtain q d qs r rs where ctx: "request_context s env = Inr q"
    and r: "fmlookup (s_runs s) (q_run_id q) = Some r"
    and z: "ia_authorized_by z = actor_ref_of a" "q_candidate q = Some (ia_candidate z)"
      "q_decision q = Some d" "dr_decision_id d = ia_decision_id z" "dr_verdict d = VerdictAccepted"
      "transition_request (q_status q) EvAuthorizeIntegration = Inr qs"
      "transition_run (r_status r) RevAuthorizeIntegration = Inr rs"
    and p: "put_both (q_request_id q)
              (\<lambda>q. q\<lparr>q_status := qs, q_integration_authorization := Some z\<rparr>)
              (q_run_id q) (\<lambda>r. r\<lparr>r_status := rs\<rparr>) s = (Inr (), s')"
    by (auto simp: apply_integration_authorization_def result_simps ensure_candidate_def split: if_splits)
  from keys ctx r p show ?thesis
    by (rule put_both_step) (rule pair_step.authorize [OF msg z])
qed

lemma complete_step:
  assumes keys: "work_keys s" and "apply_integration_complete s env a complete = (Inr (), s')"
    and msg: "e_message env = MIntegrationComplete complete"
  shows "work_step s env a digest s'"
proof -
  from assms(2) obtain q0 z where q0: "request_context s env = Inr q0"
    and z: "q_integration_authorization q0 = Some z" "q_candidate q0 = Some (ic_candidate complete)"
    and t: "transition_context s env EvComplete RevComplete = (Inr (), s')"
    by (auto simp: apply_integration_complete_def result_simps ensure_candidate_def split: if_splits)
  from keys t show ?thesis
  proof (rule transition_context_step)
    fix q r qs rs
    assume "request_context s env = Inr q" "fmlookup (s_runs s) (q_run_id q) = Some r"
      "transition_request (q_status q) EvComplete = Inr qs"
      "transition_run (r_status r) RevComplete = Inr rs"
      "s' = s\<lparr>s_requests := fmupd (q_request_id q) (q\<lparr>q_status := qs\<rparr>) (s_requests s),
              s_runs := fmupd (q_run_id q) (r\<lparr>r_status := rs\<rparr>) (s_runs s)\<rparr>"
    then show ?thesis
      using q0 z msg
      by (auto intro!: work_changedI [OF keys] pair_step.complete)
  qed
qed

lemma implementation_request_step:
  assumes "apply_implementation_request s env a specification = (Inr (), s')"
    and kind: "message_kind_of (e_message env) = KImplementationRequest"
    and spec: "spec_message_id specification = e_message_id env"
      "spec_payload_digest specification = digest"
  shows "work_step s env a digest s'"
proof -
  from assms(1) obtain k j team_id t target b epoch
    where k: "e_request_id env = Some k" "e_run_id env = Some j" "e_team_id env = Some team_id"
      "e_team_epoch env = Some epoch" "\<not> fmhas (s_requests s) k" "\<not> fmhas (s_runs s) j"
    and t: "fmlookup (s_teams s) team_id = Some t" "t_status t = TeamActive"
    and b: "fmlookup (s_actors s) target = Some b" "has_capability b IMPLEMENTATION_EXECUTION"
      "a_team_id b = Some team_id" "a_status b = ActorHealthy"
    and s': "s' = s\<lparr>s_requests := fmupd k
            (new_request s k j team_id epoch specification
               (Assignment (actor_ref_of b) EPOCH_INITIAL)) (s_requests s),
          s_runs := fmupd j (new_run s k j team_id epoch
               (Assignment (actor_ref_of b) EPOCH_INITIAL)) (s_runs s)\<rparr>"
    by (auto simp: apply_implementation_request_def context_ids_def ensure_known_team_def
        result_simps Let_def initial_status_matches new_request_def new_run_def
        split: message_target.splits)
  from t have "is_some_and (fmlookup (s_teams s) team_id) (\<lambda>t. t_status t = TeamActive)"
    by simp
  from work_step.created [OF k(1-4) k(5,6) this b kind spec refl] s' show ?thesis
    by simp
qed

lemma handoff_offer_step:
  assumes keys: "work_keys s" and "apply_handoff_offer s env a offer = (Inr (), s')"
    and own: "ensure_current_assignment s env a = Inr ()"
    and ref: "causal_message_of (e_message_id env) digest (e_message env) = CausalHandoffOffer offer"
  shows "work_step s env a digest s'"
proof -
  from assms(2) obtain q t assignment where ctx: "request_context s env = Inr q"
    and id: "hr_request_id offer = q_request_id q" "hr_from_team_id offer = q_team_id q"
    and st: "q_status q \<notin> {Accepted, IntegrationAuthorized, Cancelled, Completed}"
    and t: "fmlookup (s_teams s) (hr_to_team_id offer) = Some t" "t_status t = TeamActive"
    and c: "(case hr_candidate offer of None \<Rightarrow> Inr ()
             | Some candidate \<Rightarrow> ensure_candidate q candidate) = Inr ()"
    and new: "\<not> fmhas (s_handoffs s) (hr_handoff_id offer)"
      "\<not> list_ex (\<lambda>p. hr_request_id (ph_offer p) = hr_request_id offer) (fmvals (s_handoffs s))"
    and as: "q_assignment q = Some assignment"
    and s': "s' = s\<lparr>s_handoffs := fmupd (hr_handoff_id offer)
               (PendingHandoff offer (actor_ref_of a) (as_epoch assignment)) (s_handoffs s)\<rparr>"
    by (simp add: apply_handoff_offer_def result_simps ensure_active_target_team_def
        ensure_known_team_def del: insert_iff) metis
  let ?p = "PendingHandoff offer (actor_ref_of a) (as_epoch assignment)"
  have "as_actor assignment = actor_ref_of a"
    using own ctx as by (auto simp: ensure_current_assignment_def result_simps)
  moreover have "is_none_or (hr_candidate offer) (\<lambda>c. q_candidate q = Some c)"
    using c by (auto simp: ensure_candidate_def split: option.splits if_splits)
  moreover have "\<not> offers_of q p'" if "fmlookup (s_handoffs s) k = Some p'" for k p'
    using new(2) that id(1) by (force simp: list_ex_iff in_fmvals_iff offers_of_def)
  ultimately have "work_step s env a digest
       (s\<lparr>s_handoffs := fmupd (hr_handoff_id (ph_offer ?p)) ?p (s_handoffs s)\<rparr>)"
    using st t new(1) id ref by (intro work_step.offered [OF ctx _ _ st _ _ _ _ as])
      (simp_all add: offers_of_def)
  then show ?thesis
    by (simp add: s')
qed

lemma handoff_acceptance_step:
  assumes keys: "work_keys s" and "apply_handoff_acceptance s env a acceptance = (Inr (), s')"
    and msg: "e_message env = MHandoffAcceptance acceptance"
    and impl: "has_capability a IMPLEMENTATION_EXECUTION"
  shows "work_step s env a digest s'"
proof -
  let ?to = "ha_to_team_id acceptance" and ?hid = "ha_handoff_id acceptance"
  from assms(2) obtain p q t assignment next_epoch
    where team: "a_team_id a = Some ?to" "e_team_id env = Some ?to"
    and p: "fmlookup (s_handoffs s) ?hid = Some p"
    and offer: "hr_request_id (ph_offer p) = ha_request_id acceptance"
      "hr_from_team_id (ph_offer p) = q_team_id q" "hr_to_team_id (ph_offer p) = ?to"
    and ctx: "request_context s env = Inr q"
    and t: "fmlookup (s_teams s) ?to = Some t" "t_status t = TeamActive"
    and as: "q_assignment q = Some assignment" "as_epoch assignment = ph_assignment_epoch p"
      "as_actor assignment = ph_offered_by p" "e_assignment_epoch env = Some (as_epoch assignment)"
      "checked_next (as_epoch assignment) = Some next_epoch"
    and m: "move_request s env q acceptance (Assignment (actor_ref_of a) next_epoch) = (Inr (), s')"
    by (simp add: apply_handoff_acceptance_def result_simps ensure_known_team_def) metis
  obtain r where r: "fmlookup (s_runs s) (q_run_id q) = Some r"
    using request_context_lookup [OF keys ctx] by auto
  from m request_context_lookup [OF keys ctx] r obtain epoch where epoch: "e_team_epoch env = Some epoch"
    and s': "s' = s\<lparr>s_requests := fmupd (q_request_id q)
        (q\<lparr>q_team_id := ?to, q_team_epoch := epoch,
           q_assignment := Some (Assignment (actor_ref_of a) next_epoch)\<rparr>) (s_requests s),
      s_runs := fmupd (q_run_id q)
        (r\<lparr>r_team_id := ?to, r_team_epoch := epoch,
           r_assignment := Some (Assignment (actor_ref_of a) next_epoch)\<rparr>) (s_runs s),
      s_handoffs := fmdrop ?hid (s_handoffs s)\<rparr>"
    by (auto simp: move_request_def put_request_def put_run_def upd_request_def upd_run_def
        fmmodify_def result_simps Let_def)
  have "is_some_and (fmlookup (s_teams s) ?to) (\<lambda>t. t_status t = TeamActive)"
    using t by simp
  from pair_step.move [OF msg refl p offer(3,2) as team(2) epoch team(1) impl this] show ?thesis
    by (rule work_changedI [OF keys ctx r]) (rule s')
qed

lemma dispatch_step:
  assumes keys: "work_keys s" and app: "dispatch_message s env a digest = (Inr (), s')"
  shows "work_step s env a digest s'"
proof (cases "e_message env")
  case (MCandidateReady m)
  with app have "apply_candidate s env a (cr_candidate m) = (Inr (), s')"
      "has_capability a IMPLEMENTATION_EXECUTION"
    by (auto simp: dispatch_message_def result_simps require_implementation_def split: if_splits)
  with keys MCandidateReady show ?thesis
    by (auto intro: candidate_step)
next
  case (MHandoffAcceptance m)
  with app have "apply_handoff_acceptance s env a m = (Inr (), s')"
      "has_capability a IMPLEMENTATION_EXECUTION"
    by (auto simp: dispatch_message_def result_simps require_implementation_def split: if_splits)
  with keys MHandoffAcceptance show ?thesis
    by (intro handoff_acceptance_step)
next
  case (MHandoffOffer m)
  with app keys show ?thesis
    by (auto simp: dispatch_message_def result_simps intro: handoff_offer_step)
next
  case (MImplementationRequest m)
  with app show ?thesis
    by (auto simp: dispatch_message_def intro: implementation_request_step)
next
  case (MReviewDecision m)
  with app keys show ?thesis
    by (auto simp: dispatch_message_def result_simps accepts_handoff_def intro: review_step)
next
  case (MIntegrationComplete m)
  with app keys show ?thesis
    by (auto simp: dispatch_message_def intro: complete_step)
next
  case (MIntegrationAuthorization m)
  with app keys show ?thesis
    by (auto simp: dispatch_message_def result_simps intro: authorization_step)
qed (use app keys in \<open>auto simp: dispatch_message_def read_only_def accepts_handoff_def intro: work_step.unchanged
      progress_step blocker_step cancellation_step run_control_step\<close>)

text \<open>Every accepted message is a step of the abstract specification.\<close>

lemma apply_message_step:
  assumes "work_keys s" and "apply_message s env a digest = (Inr (), s')"
  shows "work_step s env a digest s'"
  using assms by (auto simp: apply_message_def result_simps intro: dispatch_step)

end
