(* ===== verification/Panic_Freedom.thy ===== *)
theory Panic_Freedom
  imports Work_Steps
begin

text \<open>
  No message handler panics when the request map is keyed by request id: the lookups that the
  Rust code expects to succeed were made on the same keys before.
\<close>

section \<open>Guards\<close>

lemma calm_require [calm_intros]:
  "calm (require_primary s a action)"
  "calm (require_implementation a action)"
  "calm (require_consultation_requester s a)"
  "calm (require_primary_target target)"
  unfolding require_primary_def require_implementation_def require_consultation_requester_def
    require_primary_target_def by (intro calm_intros)+

lemma calm_teams [calm_intros]:
  "calm (ensure_known_team s team_id)"
  "calm (ensure_active_target_team s team_id target)"
  "calm (ensure_candidate q c)"
  "calm (current_actor s ref)"
  "calm (context_ids env)"
  "calm (next_actor_epoch s actor_id)"
  unfolding ensure_known_team_def ensure_active_target_team_def ensure_candidate_def
    current_actor_def context_ids_def next_actor_epoch_def by (intro calm_intros)+

lemma calm_assignment [calm_intros]:
  "calm (ensure_current_assignment s env a)"
  "calm (ensure_assignee_target s env)"
  unfolding ensure_current_assignment_def ensure_assignee_target_def by (intro calm_intros)+

section \<open>Handlers\<close>

lemma never_panics_transition_context [calm_intros]:
  "work_keys s \<Longrightarrow> never_panics (transition_context s env qe re)"
  unfolding transition_context_def set_statuses_def by (intro calm_intros never_panics_put_both)

lemma never_panics_put_present:
  assumes "fmlookup (s_requests s) i \<noteq> None" and "fmlookup (s_runs s) j \<noteq> None"
  shows "never_panics (put_both i f j g s)"
  using assms by (auto simp: put_both_eq)

lemma never_panics_cancellation [calm_intros]:
  assumes keys: "work_keys s"
  shows "never_panics (apply_cancellation s env a)"
proof -
  have "never_panics (put_both k f (q_run_id q) g s1)"
    if k: "e_request_id env = Some k" "fmlookup (s_requests s) k = Some q"
      and t: "transition_context s env EvCancel RevCancel = (Inr x, s1)" for k q x s1 f g
  proof -
    from t have "transition_context s env EvCancel RevCancel = (Inr (), s1)"
      by simp
    with keys show ?thesis
    proof (rule transition_context_step)
      fix q' r qs rs
      assume "request_context s env = Inr q'"
        and s1: "s1 = s\<lparr>s_requests := fmupd (q_request_id q') (q'\<lparr>q_status := qs\<rparr>) (s_requests s),
             s_runs := fmupd (q_run_id q') (r\<lparr>r_status := rs\<rparr>) (s_runs s)\<rparr>"
      with keys have "e_request_id env = Some (q_request_id q')"
          "fmlookup (s_requests s) (q_request_id q') = Some q'"
        by (auto dest: request_context_lookup)
      with k s1 show ?thesis
        by (intro never_panics_put_present) auto
    qed
  qed
  then show ?thesis
    unfolding apply_cancellation_def Let_def by (intro calm_intros keys) (auto simp: result_simps)
qed

lemma never_panics_simple_handlers [calm_intros]:
  assumes "work_keys s"
  shows "never_panics (apply_progress s env a)" "never_panics (apply_blocker s env a)"
    "never_panics (apply_integration_complete s env a complete)"
  unfolding apply_progress_def apply_blocker_def apply_integration_complete_def
  by (intro calm_intros assms)+

lemma never_panics_run_control [calm_intros]:
  assumes "work_keys s"
  shows "never_panics (apply_run_control s env a action)"
  unfolding apply_run_control_def set_statuses_def
  by (cases action; simp; intro calm_intros never_panics_put_both assms; assumption)

lemma never_panics_implementation_request [calm_intros]:
  "never_panics (apply_implementation_request s env a specification)"
  unfolding apply_implementation_request_def Let_def
  by (cases "e_target env"; simp; intro calm_intros)

lemma calm_counters [calm_intros]:
  "calm (check_candidate_change q c)"
  "calm (next_fix_cycle_depth q c)"
  "calm (next_rejection_count q v)"
  unfolding check_candidate_change_def next_fix_cycle_depth_def next_rejection_count_def
  by (intro calm_intros)+

lemma never_panics_candidate [calm_intros]:
  assumes "work_keys s"
  shows "never_panics (apply_candidate s env a c)"
  unfolding apply_candidate_def Let_def by (intro calm_intros never_panics_put_both assms; assumption)

lemma never_panics_review [calm_intros]:
  assumes "work_keys s"
  shows "never_panics (apply_review s env a d)"
  unfolding apply_review_def Let_def by (intro calm_intros never_panics_put_both assms; assumption)

lemma never_panics_authorization [calm_intros]:
  assumes "work_keys s"
  shows "never_panics (apply_integration_authorization s env a z)"
  unfolding apply_integration_authorization_def
  by (intro calm_intros never_panics_put_both assms; assumption)

lemma never_panics_handoff_offer [calm_intros]: "never_panics (apply_handoff_offer s env a offer)"
  unfolding apply_handoff_offer_def by (intro calm_intros)

lemma never_panics_move_request:
  assumes "work_keys s" and "request_context s env = Inr q"
  shows "never_panics (move_request s env q acceptance assignment)"
  using request_context_lookup [OF assms]
  by (cases "e_team_epoch env")
    (auto simp: move_request_def put_request_def put_run_def upd_request_def upd_run_def
      Let_def never_panics_def)

lemma never_panics_handoff_acceptance [calm_intros]:
  assumes "work_keys s"
  shows "never_panics (apply_handoff_acceptance s env a acceptance)"
  unfolding apply_handoff_acceptance_def
  by (intro calm_intros never_panics_move_request assms; assumption)

lemma calm_read_only [calm_intros]:
  "calm (apply_fix_request s env a fix)"
  "calm (apply_qa_result s env a result)"
  "calm (apply_consultation_request s env a consultation)"
  "calm (apply_dependency_notice s env a dependency)"
  "calm (apply_conflict_notice s env a conflict)"
  unfolding apply_fix_request_def apply_qa_result_def apply_consultation_request_def
    apply_dependency_notice_def apply_conflict_notice_def by (intro calm_intros)+

lemma calm_consultation_response [calm_intros]: "calm (apply_consultation_response s env a response)"
  unfolding apply_consultation_response_def Let_def by (intro calm_intros)

end
