(* ===== verification/Growth.thy ===== *)
theory Growth
  imports Evolution Panic_Freedom
begin

text \<open>Every operation of the aggregate respects the preorder \<open>grows\<close>.\<close>

section \<open>Rules for the combinators\<close>

named_theorems growth_intros \<open>introduction rules for growth\<close>

lemma grows_pair [growth_intros]: "grows s (snd (r, s))"
  by simp

lemma grows_attempt [growth_intros]:
  "(\<And>x. m = Inr x \<Longrightarrow> grows s (snd (k x))) \<Longrightarrow> grows s (snd (attempt s m k))"
  by (cases m) simp_all

lemma grows_sbind [growth_intros]:
  "grows s (snd p) \<Longrightarrow> (\<And>x s1. p = (Inr x, s1) \<Longrightarrow> grows s (snd (k x s1))) \<Longrightarrow>
   grows s (snd (sbind p k))"
  by (cases p; cases "fst p") auto

lemma grows_if [growth_intros]:
  "(b \<Longrightarrow> grows s (snd x)) \<Longrightarrow> (\<not> b \<Longrightarrow> grows s (snd y)) \<Longrightarrow> grows s (snd (if b then x else y))"
  by simp

lemma grows_option [growth_intros]:
  "(x = None \<Longrightarrow> grows s (snd f)) \<Longrightarrow> (\<And>y. x = Some y \<Longrightarrow> grows s (snd (g y))) \<Longrightarrow>
   grows s (snd (case x of None \<Rightarrow> f | Some y \<Rightarrow> g y))"
  by (cases x) simp_all

lemma grows_prod [growth_intros]:
  "(\<And>x y. p = (x, y) \<Longrightarrow> grows s (snd (f x y))) \<Longrightarrow>
   grows s (snd (case p of (x, y) \<Rightarrow> f x y))"
  by (cases p) simp

section \<open>Message handlers\<close>

lemma terminal_kept:
  "transition_request q ev = Inr q' \<Longrightarrow> is_terminal q \<Longrightarrow> q' = q"
  by (rule transition_request_final)

lemma assignment_le_refl [simp]: "assignment_le x x"
  by (simp add: assignment_le_def)

lemma pair_step_request_le:
  assumes "pair_step s env a digest (q, r, h) (q', r', h')"
  shows "request_le q q'"
  using assms
proof (cases rule: pair_step.cases)
  case (move acceptance hid p to assignment next_epoch epoch)
  have "as_epoch assignment \<le> next_epoch"
    using checked_next_SomeD(3) [OF move(13)] by simp
  with move show ?thesis
    by (simp add: request_le_def assignment_le_def)
qed (auto simp: request_le_def submit_candidate_def decide_def dest: terminal_kept)

lemma work_step_grows:
  assumes keys: "work_keys s" and "work_step s env a digest s'"
  shows "grows s s'"
  using assms(2)
proof (cases rule: work_step.cases)
  case (changed q r q' r' h')
  have "fm_le request_le (s_requests s) (fmupd (q_request_id q) q' (s_requests s))"
    using pair_step_request_le [OF changed(4)] request_context_lookup(1) [OF keys changed(2)]
    by (intro fm_le_fmupd) simp_all
  then show ?thesis
    by (simp add: changed(1) grows_def fm_le_refl)
next
  case (created k j team_id epoch target b sp assignment)
  then have "fmlookup (s_requests s) k = None"
    by (simp add: fmhas_def)
  then have "fm_le request_le (s_requests s) (fmupd k
      (new_request s k j team_id epoch sp assignment) (s_requests s))"
    by (intro fm_le_fmupd) simp_all
  then show ?thesis
    by (simp add: created(1) grows_def fm_le_refl)
qed (simp_all add: grows_def fm_le_refl)

text \<open>A handler touches the work state only.\<close>

lemma work_step_frame:
  assumes "work_step s env a digest s'"
  shows "s' = s\<lparr>s_requests := s_requests s', s_runs := s_runs s', s_handoffs := s_handoffs s'\<rparr>"
  using assms by cases simp_all

lemma work_step_fields:
  assumes "work_step s env a digest s'"
  shows "s_workspace_id s' = s_workspace_id s" "s_policy_revision s' = s_policy_revision s"
    "s_primary_epoch s' = s_primary_epoch s" "s_active_primary s' = s_active_primary s"
    "s_actors s' = s_actors s" "s_teams s' = s_teams s" "s_mailbox s' = s_mailbox s"
    "s_audit s' = s_audit s" "s_history_checkpoint s' = s_history_checkpoint s"
    "s_nonterminal_request_counts s' = s_nonterminal_request_counts s"
    "s_pending_observability s' = s_pending_observability s"
    "s_pending_bulk_content s' = s_pending_bulk_content s"
  by (subst work_step_frame [OF assms]; simp)+

section \<open>Delivery sweeps\<close>

lemma retire_delivery_le: "delivery_le d (retire_delivery requests d)"
  by (simp add: retire_delivery_def delivery_le_def)

lemma retire_fully_acknowledged_simps [simp]:
  "s_workspace_id (retire_fully_acknowledged s) = s_workspace_id s"
  "s_policy_revision (retire_fully_acknowledged s) = s_policy_revision s"
  "s_primary_epoch (retire_fully_acknowledged s) = s_primary_epoch s"
  "s_active_primary (retire_fully_acknowledged s) = s_active_primary s"
  "s_actors (retire_fully_acknowledged s) = s_actors s"
  "s_teams (retire_fully_acknowledged s) = s_teams s"
  "s_requests (retire_fully_acknowledged s) = s_requests s"
  "s_runs (retire_fully_acknowledged s) = s_runs s"
  "s_handoffs (retire_fully_acknowledged s) = s_handoffs s"
  "s_audit (retire_fully_acknowledged s) = s_audit s"
  "s_history_checkpoint (retire_fully_acknowledged s) = s_history_checkpoint s"
  "s_nonterminal_request_counts (retire_fully_acknowledged s) = s_nonterminal_request_counts s"
  "s_pending_observability (retire_fully_acknowledged s) = s_pending_observability s"
  "s_pending_bulk_content (retire_fully_acknowledged s) = s_pending_bulk_content s"
  "s_mailbox (retire_fully_acknowledged s) =
     fmmap (retire_delivery (s_requests s)) (s_mailbox s)"
  by (simp_all add: retire_fully_acknowledged_def)

lemma fm_le_sweep:
  "(\<And>d. delivery_le d (f d)) \<Longrightarrow> fm_le delivery_le m (fmmap (retire_delivery requests) (fmmap f m))"
  by (auto simp: fm_le_def intro: delivery_le_trans retire_delivery_le)

lemma sweep_grows: "grows s (retire_fully_acknowledged s)"
  by (simp add: grows_def fm_le_refl fm_le_fmmap retire_delivery_le)

lemma fmlookup_fold_fmupd:
  "fmlookup (fold (\<lambda>r m. fmupd r (f r) m) rs m) k =
     (if k \<in> set rs then Some (f k) else fmlookup m k)"
  by (induction rs arbitrary: m) auto

lemma fmlookup_fold_keep:
  "fmlookup (fold (\<lambda>r m. if fmhas m r then m else fmupd r v m) rs m) k =
     (if k \<in> set rs \<and> \<not> fmhas m k then Some v else fmlookup m k)"
  by (induction rs arbitrary: m) (auto simp: fmhas_def)

lemma supersede_recipients_le: "delivery_le d (supersede_recipients members team_id epoch d)"
  by (auto simp: supersede_recipients_def delivery_le_def Let_def fmlookup_fold_fmupd fmlookup_dom_iff
      split: option.splits delivery_retirement_reason.splits)

lemma supersede_live_recipients_le: "delivery_le d (supersede_live_recipients members team_id epoch d)"
  by (auto simp: supersede_live_recipients_def delivery_le_def Let_def fmlookup_fold_keep
      fmlookup_dom_iff)

lemma waive_obsolete_recipients_le:
  "delivery_le d (waive_obsolete_recipients requests members team_id epoch d)"
  by (auto simp: waive_obsolete_recipients_def delivery_le_def fmlookup_fold_fmupd fmlookup_dom_iff)

section \<open>Accepting a message\<close>

lemma dispatch_keeps_on_panic:
  assumes keys: "work_keys s" and "dispatch_message s env a digest = (Inl (Panic m), s')"
  shows "s' = s"
proof (cases "is_directive (e_message env)")
  case True
  with assms(2) show ?thesis
    by (auto simp: is_directive_def dispatch_message_def read_only_def split: message.splits)
next
  case False
  have "never_panics (dispatch_message s env a digest)"
    using False unfolding dispatch_message_def read_only_def is_directive_def
    by (cases "e_message env"; simp only: message.case simp_thms;
        (intro calm_intros keys; assumption)?)
  with assms(2) show ?thesis
    by (simp add: never_panics_def)
qed

lemma apply_message_refused:
  assumes keys: "work_keys s" and "e_team_id env \<noteq> None \<Longrightarrow> e_team_epoch env \<noteq> None"
    and app: "apply_message s env a digest = (Inl f, s')"
  shows "s' = s"
proof (cases f)
  case (Err e)
  with app atomic_apply_message [OF assms(2), of s a digest] show ?thesis
    by (auto dest: atomicD)
next
  case (Panic m)
  with app show ?thesis
    by (auto simp: apply_message_def result_error_simps dest: dispatch_keeps_on_panic [OF keys])
qed

lemma append_audit_Inr:
  assumes "append_audit x s at team epoch kind = (Inr u, s')"
  obtains sequence digest where
    "checked_inc (h_audit_event_count (s_history_checkpoint s)) = Some sequence"
    "s' = s\<lparr>s_history_checkpoint := (s_history_checkpoint s)\<lparr>h_audit_event_count := sequence,
              h_audit_head_sha256 := Some digest\<rparr>,
            s_audit := s_audit s @ [AuditEvent sequence at team epoch kind]\<rparr>"
  using assms by (auto simp: append_audit_def Let_def attempt_def expect_Inr_iff split: sum.splits)

lemma append_audit_grows: "grows s (snd (append_audit x s at team epoch kind))"
  by (auto simp: append_audit_def Let_def attempt_def grows_def fm_le_refl split: sum.splits)

lemma observe_accepted_fields:
  assumes "observe_accepted s env recipients before = (y, s')"
  shows "s' = s\<lparr>s_nonterminal_request_counts := s_nonterminal_request_counts s'\<rparr>"
  using assms
  by (auto simp: observe_accepted_def update_request_observability_def Let_def
      split: option.splits prod.splits if_splits)

text \<open>What accepting a message does to the state, the counters aside.\<close>

definition accepted_record ::
  "supervisor \<Rightarrow> envelope \<Rightarrow> payload_digest \<Rightarrow> delivery_recipient fset \<Rightarrow>
   delivery_retirement_reason option \<Rightarrow> delivery_record" where
  "accepted_record s env digest required reason =
     \<lparr>d_envelope = header_of env, d_message_kind = message_kind_of (e_message env),
      d_payload_digest = digest,
      d_causal = causal_message_of (e_message_id env) digest (e_message env),
      d_required_recipients = required, d_acknowledgements = fmempty,
      d_undeliverable_recipients =
        initial_undeliverable_recipients s reason (message_kind_of (e_message env))
          (e_request_id env) required,
      d_retirement_reason = reason, d_retired = (reason \<noteq> None)\<rparr>"

lemma closed_team_reason_counts [simp]:
  "closed_team_reason (s\<lparr>s_nonterminal_request_counts := c\<rparr>) = closed_team_reason s"
  by (rule ext) (simp add: closed_team_reason_def team_of_actor_def
      cong: delivery_recipient.case_cong option.case_cong)

lemma initial_undeliverable_counts [simp]:
  "initial_undeliverable_recipients (s\<lparr>s_nonterminal_request_counts := c\<rparr>) reason kind i required =
     initial_undeliverable_recipients s reason kind i required"
  by (simp add: initial_undeliverable_recipients_def closed_team_recipients_def Let_def
      cong: option.case_cong)

lemma record_accepted_Inr:
  assumes "record_accepted x s env digest required reason before = (Inr u, s')"
  obtains sequence where
    "s' = s\<lparr>s_mailbox := fmmap (retire_delivery (s_requests s))
               (fmupd (e_message_id env) (accepted_record s env digest required reason) (s_mailbox s)),
            s_audit := s_audit s @ [AuditEvent sequence (e_sent_at env) (e_team_id env)
              (e_team_epoch env)
              (MessageAccepted (e_message_id env) (message_kind_of (e_message env)) (Some digest))],
            s_history_checkpoint := s_history_checkpoint s',
            s_pending_bulk_content := s_pending_bulk_content s @
              [PendingBulkContent (e_message_id env) digest (e_message env)],
            s_nonterminal_request_counts := s_nonterminal_request_counts s',
            s_pending_observability := s_pending_observability s'\<rparr>"
    "u = Applied"
    "checked_inc (h_audit_event_count (s_history_checkpoint s)) = Some sequence"
    "h_audit_event_count (s_history_checkpoint s') = sequence"
proof -
  obtain teams credit s1 where o: "observe_accepted s (header_of env) required before = ((teams, credit), s1)"
    by (metis prod.exhaust)
  note s1 = observe_accepted_fields [OF o]
  let ?d = "accepted_record s env digest required reason"
  let ?s2 = "s\<lparr>s_nonterminal_request_counts := s_nonterminal_request_counts s1,
      s_mailbox := fmupd (e_message_id env) ?d (s_mailbox s),
      s_pending_bulk_content := s_pending_bulk_content s @
        [PendingBulkContent (e_message_id env) digest (e_message env)]\<rparr>"
  from assms o obtain s3 where
    a: "append_audit x ?s2 (e_sent_at env) (e_team_id env) (e_team_epoch env)
      (MessageAccepted (e_message_id env) (message_kind_of (e_message env)) (Some digest)) = (Inr (), s3)"
    and s': "s' = record_accepted_message_observability (retire_fully_acknowledged s3) teams credit"
    and u: "u = Applied"
    by (subst (asm) s1)
      (auto simp: record_accepted_def Let_def result_simps accepted_record_def)
  from a obtain sequence d where "checked_inc (h_audit_event_count (s_history_checkpoint ?s2)) = Some sequence"
    and "s3 = ?s2\<lparr>s_history_checkpoint := (s_history_checkpoint ?s2)\<lparr>h_audit_event_count := sequence,
              h_audit_head_sha256 := Some d\<rparr>,
            s_audit := s_audit ?s2 @ [AuditEvent sequence (e_sent_at env) (e_team_id env) (e_team_epoch env)
      (MessageAccepted (e_message_id env) (message_kind_of (e_message env)) (Some digest))]\<rparr>"
    by (rule append_audit_Inr)
  then show thesis
    using u by (intro that)
      (simp_all add: s' record_accepted_message_observability_def Let_def retire_fully_acknowledged_def)
qed

lemma record_observability_grows: "grows s (record_accepted_message_observability s teams credit)"
  by (simp add: record_accepted_message_observability_def Let_def grows_def fm_le_refl)

lemma record_accepted_grows [growth_intros]:
  assumes "fmlookup (s_mailbox s) (e_message_id env) = None"
  shows "grows s (snd (record_accepted x s env digest required reason before))"
proof -
  obtain teams credit s1 where o: "observe_accepted s (header_of env) required before = ((teams, credit), s1)"
    by (metis prod.exhaust)
  obtain c where s1: "s1 = s\<lparr>s_nonterminal_request_counts := c\<rparr>"
    using observe_accepted_fields [OF o] by blast
  let ?s2 = "s1\<lparr>s_mailbox := fmupd (e_message_id env) (accepted_record s1 env digest required reason)
        (s_mailbox s1), s_pending_bulk_content := s_pending_bulk_content s1 @
        [PendingBulkContent (e_message_id env) digest (e_message env)]\<rparr>"
  let ?audit = "append_audit x ?s2 (e_sent_at env) (e_team_id env) (e_team_epoch env)
        (MessageAccepted (e_message_id env) (message_kind_of (e_message env)) (Some digest))"
  have "grows s ?s2"
    using assms by (simp add: s1 grows_def fm_le_refl fm_le_fmupd)
  then have audit: "grows s (snd ?audit)"
    using append_audit_grows grows_trans by blast
  have "record_accepted x s env digest required reason before =
      sbind ?audit (\<lambda>_ s3. (Inr Applied,
        record_accepted_message_observability (retire_fully_acknowledged s3) teams credit))"
    by (simp add: record_accepted_def o Let_def accepted_record_def)
  moreover have "grows s (record_accepted_message_observability (retire_fully_acknowledged s3) teams credit)"
    if "?audit = (u, s3)" for u s3
    using audit that sweep_grows record_observability_grows grows_trans by (metis snd_conv)
  ultimately show ?thesis
    by (simp add: grows_sbind audit)
qed

lemma apply_message_grows:
  assumes keys: "work_keys s" and team: "e_team_id env \<noteq> None \<Longrightarrow> e_team_epoch env \<noteq> None"
  shows "grows s (snd (apply_message s env a digest))"
proof (cases "apply_message s env a digest")
  case (Pair r s1)
  show ?thesis
  proof (cases r)
    case (Inl f)
    with Pair apply_message_refused [OF keys team, of a digest f s1] show ?thesis
      by simp
  next
    case (Inr u)
    with Pair work_step_grows [OF keys apply_message_step [OF keys]] show ?thesis
      by simp
  qed
qed

lemma apply_envelope_grows:
  assumes keys: "work_keys s"
  shows "grows s (snd (apply_envelope x s env))"
  unfolding apply_envelope_def Let_def
proof (intro growth_intros)
  fix digest sender plan required reason and v :: unit
  assume v: "map_err (Err \<circ> Validation) (envelope_validate env) = Inr v"
    and new: "fmlookup (s_mailbox s) (e_message_id env) = None"
  have team: "e_team_id env \<noteq> None \<Longrightarrow> e_team_epoch env \<noteq> None"
    using v envelope_validateD(1) by (auto simp: map_err_Inr_iff)
  let ?m = "apply_message s env sender digest"
  show "grows s (snd ?m)"
    using keys team by (rule apply_message_grows)
  fix u s1
  assume "?m = (Inr u, s1)"
  then have w: "work_step s env sender digest s1"
    using apply_message_step [OF keys] by simp
  then have "fmlookup (s_mailbox s1) (e_message_id env) = None"
    using new by (simp add: work_step_fields)
  then show "grows s (snd (record_accepted x s1 env digest required reason
      (request_state_for_observability s env)))"
    using record_accepted_grows work_step_grows [OF keys w] grows_trans by blast
qed

section \<open>Acknowledgement and close\<close>

lemma grows_mailbox_modify:
  "(\<And>d. fmlookup (s_mailbox s) k = Some d \<Longrightarrow> delivery_le d (f d)) \<Longrightarrow>
   grows s (s\<lparr>s_mailbox := fmmodify k f (s_mailbox s)\<rparr>)"
  by (auto simp: grows_def fm_le_refl is_none_or_iff intro!: fm_le_fmmodify)

lemma bs_find_recipient:
  assumes "bs_find P required = Some r"
  shows "r |\<in>| required" and "P r"
  using bs_find_SomeD [OF assms] by auto

lemma current_recipient_required:
  "current_recipient_for_actor s target required a = Some r \<Longrightarrow> r |\<in>| required"
  by (auto simp: current_recipient_for_actor_def split: if_splits option.splits dest: bs_find_recipient)

text \<open>The slot an actor acknowledges now is the slot it was found to hold.\<close>

lemma grows_queue:
  "grows s s' \<Longrightarrow> grows s (s'\<lparr>s_pending_observability := po\<rparr>)"
  by (simp add: grows_def)

lemma acknowledge_grows:
  assumes fresh: "\<And>d slot a recipient. fmlookup (s_mailbox s) (ak_message_id ack) = Some d \<Longrightarrow>
      historical_recipient_for_actor s (e_target (d_envelope d)) (d_required_recipients d)
        (ak_actor ack) = Some slot \<Longrightarrow>
      fmlookup (d_acknowledgements d) slot = None \<Longrightarrow> current_actor s (ak_actor ack) = Inr a \<Longrightarrow>
      current_recipient_for_actor s (e_target (d_envelope d)) (d_required_recipients d) a
        = Some recipient \<Longrightarrow> fmlookup (d_acknowledgements d) recipient = None"
  shows "grows s (snd (acknowledge x s ack))"
  unfolding acknowledge_def Let_def
proof (intro growth_intros)
  fix d slot a recipient
  assume d: "ok_or (fmlookup (s_mailbox s) (ak_message_id ack)) (Err UnknownMessage) = Inr d"
    and slot: "ok_or (historical_recipient_for_actor s (e_target (d_envelope d))
        (d_required_recipients d) (ak_actor ack)) (Err AckNotAuthorized) = Inr slot"
    and none: "fmlookup (d_acknowledgements d) slot = None"
    and a: "current_actor s (ak_actor ack) = Inr a"
    and r: "ok_or (current_recipient_for_actor s (e_target (d_envelope d))
        (d_required_recipients d) a) (Err AckNotAuthorized) = Inr recipient"
  let ?s1 = "s\<lparr>s_mailbox := fmmodify (ak_message_id ack)
      (\<lambda>d. d\<lparr>d_acknowledgements := fmupd recipient ack (d_acknowledgements d)\<rparr>) (s_mailbox s)\<rparr>"
  have "grows s ?s1"
  proof (rule grows_mailbox_modify)
    fix d' assume "fmlookup (s_mailbox s) (ak_message_id ack) = Some d'"
    with d have "d' = d" by (simp add: result_simps)
    moreover have "fmlookup (d_acknowledgements d) recipient = None"
      using fresh d slot none a r by (auto simp: result_simps)
    ultimately show "delivery_le d' (d'\<lparr>d_acknowledgements := fmupd recipient ack (d_acknowledgements d')\<rparr>)"
      by (simp add: delivery_le_def)
  qed
  then show audit: "grows s (snd (append_audit x ?s1 (ak_acknowledged_at ack)
      (e_team_id (d_envelope d)) (e_team_epoch (d_envelope d))
      (MessageAcknowledged (ak_message_id ack) (ref_actor_id (ak_actor ack)))))"
    using append_audit_grows grows_trans by blast
  fix u s2
  assume "append_audit x ?s1 (ak_acknowledged_at ack) (e_team_id (d_envelope d))
      (e_team_epoch (d_envelope d))
      (MessageAcknowledged (ak_message_id ack) (ref_actor_id (ak_actor ack))) = (Inr u, s2)"
  with audit have "grows s (retire_fully_acknowledged s2)"
    using sweep_grows grows_trans by (metis snd_conv)
  then show "grows s (snd (Inr Acknowledged :: failure + ack_outcome,
      (retire_fully_acknowledged s2)\<lparr>s_pending_observability :=
        (s_pending_observability (retire_fully_acknowledged s2))\<lparr>po_activity_team_ids :=
          po_activity_team_ids (s_pending_observability (retire_fully_acknowledged s2)) |\<union>|
          ack_activity_teams s (d_envelope d) a\<rparr>\<rparr>))"
    by (simp add: grows_queue)
qed

end
