(* ===== verification/Membership_Growth.thy ===== *)
theory Membership_Growth
  imports Growth
begin

text \<open>The membership operations respect \<open>grows\<close>.\<close>

section \<open>Building blocks\<close>

lemma grows_actor_upd:
  assumes "is_none_or (fmlookup (s_actors s) i) (\<lambda>b. actor_le b a)"
  shows "grows s (s\<lparr>s_actors := fmupd i a (s_actors s)\<rparr>)"
  using assms by (simp add: grows_def fm_le_refl fm_le_fmupd)

lemma grows_anchor: "grows s s' \<Longrightarrow> grows s (record_actor_generation_anchor s' ref team)"
  by (simp add: record_actor_generation_anchor_def Let_def grows_def)

lemma grows_activity: "grows s s' \<Longrightarrow> grows s (mark_team_activity s' team)"
  by (simp add: mark_team_activity_def grows_def)

lemma next_actor_epoch_le:
  assumes "next_actor_epoch s i = Inr e"
  shows "is_none_or (fmlookup (s_actors s) i) (\<lambda>b. a_epoch b < e)"
  using assms checked_next_SomeD(3)
  by (auto simp: next_actor_epoch_def result_simps split: option.splits)

definition actors_keyed :: "supervisor \<Rightarrow> bool" where
  "actors_keyed s \<longleftrightarrow>
     (\<forall>i a. fmlookup (s_actors s) i = Some a \<longrightarrow>
        a_actor_id a = i \<and> a_workspace_id a = s_workspace_id s)"

text \<open>The generation of an actor that an activation, a registration or a replacement installs.\<close>

lemma healthy_actor_le:
  assumes "actors_keyed s" and "next_actor_epoch s i = Inr e"
    and "is_none_or (fmlookup (s_actors s) i) (\<lambda>b.
           a_role b = role \<and> a_profile b = profile \<and> a_team_id b = team)"
  shows "is_none_or (fmlookup (s_actors s) i)
           (\<lambda>b. actor_le b (healthy_actor (s_workspace_id s) i team role profile e))"
  using assms next_actor_epoch_le [OF assms(2)]
  by (auto simp: is_none_or_iff healthy_actor_def actor_le_def actors_keyed_def)

section \<open>Primary lease, teams and status\<close>

lemma install_primary_simps [simp]:
  "s_workspace_id (install_primary s rep i a) = s_workspace_id s"
  "s_policy_revision (install_primary s rep i a) = s_policy_revision s"
  "s_active_primary (install_primary s rep i a) = Some i"
  "s_teams (install_primary s rep i a) = s_teams s"
  "s_requests (install_primary s rep i a) = s_requests s"
  "s_runs (install_primary s rep i a) = s_runs s"
  "s_mailbox (install_primary s rep i a) = s_mailbox s"
  "s_handoffs (install_primary s rep i a) = s_handoffs s"
  "s_audit (install_primary s rep i a) = s_audit s"
  "s_history_checkpoint (install_primary s rep i a) = s_history_checkpoint s"
  "s_pending_observability (install_primary s rep i a) = s_pending_observability s"
  "s_primary_epoch (install_primary s rep i a) =
     (case rep of None \<Rightarrow> s_primary_epoch s | Some (_, _, e) \<Rightarrow> e)"
  "s_actors (install_primary s rep i a) = fmupd i a
     (case rep of None \<Rightarrow> s_actors s
      | Some (previous, status, _) \<Rightarrow>
          fmmodify previous (\<lambda>a. a\<lparr>a_status := status\<rparr>) (s_actors s))"
  by (auto simp: install_primary_def Let_def split: option.splits)

lemma lease_replacement_Inr:
  assumes "lease_replacement s = Inr rep"
  shows "s_active_primary s = None \<and> rep = None \<or>
    (\<exists>previous epoch. s_active_primary s = Some previous \<and> rep = Some (previous, ActorRevoked, epoch) \<and>
       checked_next (s_primary_epoch s) = Some epoch)"
  using assms
  by (auto simp: lease_replacement_def result_simps dest: transition_actor_Inr split: option.splits)

lemma install_primary_grows:
  assumes "is_none_or (fmlookup (s_actors s) i) (\<lambda>b. actor_le b a)"
    and "lease_replacement s = Inr rep"
  shows "grows s (install_primary s rep i a)"
  using lease_replacement_Inr [OF assms(2)]
proof (elim disjE exE conjE)
  fix previous epoch
  assume rep: "rep = Some (previous, ActorRevoked, epoch)"
    and e: "checked_next (s_primary_epoch s) = Some epoch"
  have "fm_le actor_le (s_actors s)
      (fmupd i a (fmmodify previous (\<lambda>a. a\<lparr>a_status := ActorRevoked\<rparr>) (s_actors s)))"
    using assms(1) by (auto simp: fm_le_def is_none_or_iff actor_le_def)
  then show ?thesis
    using checked_next_SomeD(3) [OF e] by (simp add: grows_def fm_le_refl rep)
qed (use assms(1) in \<open>simp add: grows_def fm_le_refl fm_le_fmupd\<close>)

lemma activate_primary_inner_grows:
  assumes keyed: "actors_keyed s"
  shows "grows s (snd (activate_primary_inner s i role profile))"
  unfolding activate_primary_inner_def Let_def
proof (intro growth_intros)
  fix u e replacement
  assume r: "reject_if (is_some_and (fmlookup (s_actors s) i) (\<lambda>a.
               a_role a \<noteq> role \<or> a_profile a \<noteq> profile \<or> a_team_id a \<noteq> None))
             (Err (AlreadyExists ''actor id'')) = Inr u"
    and e: "next_actor_epoch s i = Inr e" and rep: "lease_replacement s = Inr replacement"
  let ?a = "healthy_actor (s_workspace_id s) i None role profile e"
  have "is_none_or (fmlookup (s_actors s) i) (\<lambda>b. actor_le b ?a)"
    using r by (intro healthy_actor_le [OF keyed e]) (auto simp: result_simps is_none_or_iff is_some_and_iff)
  then have "grows s (install_primary s replacement i ?a)"
    using rep by (rule install_primary_grows)
  then show "grows s (snd (Inr (ActorRef i e) :: failure + actor_ref,
      record_actor_generation_anchor (install_primary s replacement i ?a) (ActorRef i e) None))"
    by (simp add: grows_anchor)
qed

lemma grows_team_status:
  "(\<And>t. team_le t (f t)) \<Longrightarrow> grows s (s\<lparr>s_teams := fmmodify team f (s_teams s)\<rparr>)"
  by (simp add: grows_def fm_le_refl fm_le_fmmodify is_none_or_iff)

lemma grows_actor_modify:
  "(\<And>a. actor_le a (f a)) \<Longrightarrow> grows s (s\<lparr>s_actors := fmmodify i f (s_actors s)\<rparr>)"
  by (simp add: grows_def fm_le_refl fm_le_fmmodify is_none_or_iff)

lemma supersede_history_grows:
  "grows s (supersede_terminal_team_delivery_history s team epoch)"
proof -
  have "grows s (s\<lparr>s_mailbox := fmmap (supersede_recipients (team_member_ids s team) team epoch)
                     (s_mailbox s)\<rparr>)"
    by (simp add: grows_def fm_le_refl fm_le_fmmap supersede_recipients_le)
  then show ?thesis
    unfolding supersede_terminal_team_delivery_history_def using sweep_grows grows_trans by blast
qed

lemma supersede_history_fields [simp]:
  "s_actors (supersede_terminal_team_delivery_history s team epoch) = s_actors s"
  "s_teams (supersede_terminal_team_delivery_history s team epoch) = s_teams s"
  "s_requests (supersede_terminal_team_delivery_history s team epoch) = s_requests s"
  "s_runs (supersede_terminal_team_delivery_history s team epoch) = s_runs s"
  "s_handoffs (supersede_terminal_team_delivery_history s team epoch) = s_handoffs s"
  "s_workspace_id (supersede_terminal_team_delivery_history s team epoch) = s_workspace_id s"
  "s_policy_revision (supersede_terminal_team_delivery_history s team epoch) = s_policy_revision s"
  "s_primary_epoch (supersede_terminal_team_delivery_history s team epoch) = s_primary_epoch s"
  "s_active_primary (supersede_terminal_team_delivery_history s team epoch) = s_active_primary s"
  "s_audit (supersede_terminal_team_delivery_history s team epoch) = s_audit s"
  "s_history_checkpoint (supersede_terminal_team_delivery_history s team epoch) = s_history_checkpoint s"
  "s_pending_observability (supersede_terminal_team_delivery_history s team epoch) =
     s_pending_observability s"
  by (simp_all add: supersede_terminal_team_delivery_history_def)

lemma create_team_inner_grows: "grows s (snd (create_team_inner s team profile))"
  unfolding create_team_inner_def Let_def
proof (intro growth_intros)
  fix t e
  assume t: "fmlookup (s_teams s) team = Some t"
    and e: "ok_or (checked_next (t_epoch t)) (Err EpochExhausted) = Inr e"
  let ?s1 = "supersede_terminal_team_delivery_history s team (t_epoch t)"
  have "t_epoch t \<le> e"
    using e by (auto simp: result_simps dest: checked_next_SomeD(3))
  then have "fm_le team_le (s_teams s) (fmmodify team
      (\<lambda>t. t\<lparr>t_epoch := e, t_status := TeamActive, t_actors := []\<rparr>) (s_teams s))"
    using t by (intro fm_le_fmmodify) (simp_all add: team_le_def)
  then have "grows s (?s1\<lparr>s_teams := fmmodify team
      (\<lambda>t. t\<lparr>t_epoch := e, t_status := TeamActive, t_actors := []\<rparr>) (s_teams ?s1),
      s_nonterminal_request_counts := fmupd team 0 (s_nonterminal_request_counts ?s1)\<rparr>)"
    using supersede_history_grows [of s team "t_epoch t"] by (simp add: grows_def)
  then show "grows s (snd (Inr e :: failure + team_epoch, mark_team_activity
      (?s1\<lparr>s_teams := fmmodify team
        (\<lambda>t. t\<lparr>t_epoch := e, t_status := TeamActive, t_actors := []\<rparr>) (s_teams ?s1),
        s_nonterminal_request_counts := fmupd team 0 (s_nonterminal_request_counts ?s1)\<rparr>) team))"
    by (simp add: grows_activity)
next
  assume "fmlookup (s_teams s) team = None"
  then show "grows s (snd (Inr EPOCH_INITIAL :: failure + team_epoch, mark_team_activity
      (s\<lparr>s_teams := fmupd team
           \<lparr>t_team_id = team, t_workspace_id = s_workspace_id s, t_epoch = EPOCH_INITIAL,
            t_status = TeamActive, t_actors = [], t_profile = profile\<rparr> (s_teams s),
         s_nonterminal_request_counts := fmupd team 0 (s_nonterminal_request_counts s)\<rparr>) team))"
    by (simp add: mark_team_activity_def grows_def fm_le_refl fm_le_fmupd)
qed

lemma set_team_status_grows: "grows s (snd (set_team_status s team status))"
  unfolding set_team_status_def Let_def
  by (intro growth_intros) (auto intro!: grows_activity grows_team_status simp: team_le_def)

lemma set_actor_status_grows: "grows s (snd (set_actor_status s ref status))"
  unfolding set_actor_status_def Let_def
proof (intro growth_intros)
  fix a st e
  assume e: "(if s_active_primary s = Some (a_actor_id a) \<and> st \<noteq> ActorHealthy
      then ebind (ok_or (checked_next (s_primary_epoch s)) (Err EpochExhausted)) (\<lambda>epoch. Inr (Some epoch))
      else Inr None) = Inr e"
  have le: "is_none_or e (\<lambda>epoch. s_primary_epoch s \<le> epoch)"
    using e by (auto simp: result_simps dest!: checked_next_SomeD(3) split: if_splits)
  let ?s1 = "s\<lparr>s_actors := fmmodify (ref_actor_id ref) (\<lambda>a. a\<lparr>a_status := st\<rparr>) (s_actors s)\<rparr>"
  have "grows s ?s1"
    by (intro grows_actor_modify) (simp add: actor_le_def)
  with le have "grows s (case e of None \<Rightarrow> ?s1
      | Some epoch \<Rightarrow> ?s1\<lparr>s_primary_epoch := epoch, s_active_primary := None\<rparr>)"
    by (auto simp: grows_def split: option.splits)
  then show "grows s (snd (Inr () :: failure + unit, case e of None \<Rightarrow> ?s1
      | Some epoch \<Rightarrow> ?s1\<lparr>s_primary_epoch := epoch, s_active_primary := None\<rparr>))"
    by simp
qed

lemma heartbeat_grows: "grows s (snd (heartbeat s ref at))"
  unfolding heartbeat_def
proof (intro growth_intros)
  show "grows s (snd (set_actor_status s ref ActorHealthy))"
    by (rule set_actor_status_grows)
  fix u s1
  assume "set_actor_status s ref ActorHealthy = (Inr u, s1)"
  then have "grows s s1"
    using set_actor_status_grows [of s ref ActorHealthy] by simp
  moreover have "grows s1 (s1\<lparr>s_actors := fmmodify (ref_actor_id ref) f (s_actors s1)\<rparr>)"
    if "\<And>a. actor_le a (f a)" for f
    using that by (rule grows_actor_modify)
  ultimately show "grows s (snd (attempt s1
      (ok_or (fmlookup (s_actors s1) (ref_actor_id ref)) (Err (UnknownActor (ref_actor_id ref))))
      (\<lambda>a. (Inr () :: failure + unit, s1\<lparr>s_actors := fmmodify (ref_actor_id ref)
           (\<lambda>a. a\<lparr>a_last_heartbeat_at :=
                  Some (case a_last_heartbeat_at a of
                          None \<Rightarrow> at | Some current \<Rightarrow> max current at)\<rparr>) (s_actors s1)\<rparr>))))"
    by (auto simp: actor_le_def attempt_def split: sum.splits intro: grows_trans)
qed

end
