(* ===== verification/Registration_Growth.thy ===== *)
theory Registration_Growth
  imports Membership_Growth
begin

text \<open>Registration, replacement, the close sweep and the drains respect \<open>grows\<close>.\<close>

section \<open>Ordered maps keyed by their values\<close>

lemma fmvals_keys:
  assumes "\<And>k v. fmlookup m k = Some v \<Longrightarrow> key v = k"
  shows "map key (fmvals m) = sorted_list_of_fset (fmdom m)"
proof -
  have "map key (fmvals m) = map fst (sorted_list_of_fmap m)"
    unfolding fmvals_def map_map
  proof (rule map_cong [OF refl])
    fix p assume "p \<in> set (sorted_list_of_fmap m)"
    then have "fmlookup m (fst p) = Some (snd p)"
      by (auto simp: sorted_list_of_fmap_def fmlookup_dom_iff)
    with assms show "(key \<circ> snd) p = fst p" by simp
  qed
  then show ?thesis
    by (simp add: sorted_list_of_fmap_def comp_def)
qed

lemma distinct_fmvals_keys:
  "(\<And>k v. fmlookup m k = Some v \<Longrightarrow> key v = k) \<Longrightarrow> distinct (map key (fmvals m))"
  by (simp add: fmvals_keys sorted_list_of_fset.rep_eq)

section \<open>Registration\<close>

lemma register_fresh_grows:
  assumes keyed: "actors_keyed s"
    and same: "is_none_or (fmlookup (s_actors s) i) (\<lambda>b.
           a_role b = role \<and> a_profile b = profile \<and> a_team_id b = Some team)"
  shows "grows s (snd (register_fresh s t team i role profile))"
  unfolding register_fresh_def Let_def
proof (intro growth_intros)
  fix e
  assume e: "next_actor_epoch s i = Inr e"
  let ?a = "healthy_actor (s_workspace_id s) i (Some team) role profile e"
  have "fm_le actor_le (s_actors s) (fmupd i ?a (s_actors s))"
    using healthy_actor_le [OF keyed e same] by (simp add: fm_le_fmupd)
  then have "grows s (s\<lparr>s_actors := fmupd i ?a (s_actors s),
      s_teams := fmmodify team (\<lambda>t. t\<lparr>t_actors := t_actors t @ [i]\<rparr>) (s_teams s)\<rparr>)"
    by (simp add: grows_def fm_le_refl fm_le_fmmodify is_none_or_iff team_le_def)
  then show "grows s (snd (Inr (ActorRef i e) :: failure + actor_ref, record_actor_generation_anchor
      (s\<lparr>s_actors := fmupd i ?a (s_actors s),
         s_teams := fmmodify team (\<lambda>t. t\<lparr>t_actors := t_actors t @ [i]\<rparr>) (s_teams s)\<rparr>)
      (ActorRef i e) (Some team)))"
    by (simp add: grows_anchor)
qed

lemma register_implementation_inner_grows:
  assumes keyed: "actors_keyed s"
  shows "grows s (snd (register_implementation_inner s team i role profile))"
  unfolding register_implementation_inner_def
  by (intro growth_intros register_fresh_grows keyed) (auto simp: is_none_or_iff)

section \<open>Replacement\<close>

lemma replacement_plan_entry:
  assumes "replacement_plan_of s replaced qs = Inr plan" and "(i, j, e) \<in> set plan"
  shows "\<exists>q \<in> set qs. \<exists>as. q_request_id q = i \<and> q_run_id q = j \<and> \<not> is_terminal (q_status q) \<and>
           fmhas (s_runs s) j \<and> q_assignment q = Some as \<and>
           ref_actor_id (as_actor as) = replaced \<and> checked_next (as_epoch as) = Some e"
  using assms
proof (induction qs arbitrary: plan)
  case (Cons q qs)
  then obtain as where as: "q_assignment q = Some as"
    by (auto simp: result_simps)
  show ?case
  proof (cases "ref_actor_id (as_actor as) \<noteq> replaced \<or> is_terminal (q_status q)")
    case True
    with Cons as have "replacement_plan_of s replaced qs = Inr plan"
      by (auto split: if_splits)
    with Cons.IH Cons.prems(2) show ?thesis by fastforce
  next
    case False
    with Cons.prems(1) as obtain e' plan' where e': "checked_next (as_epoch as) = Some e'"
      and plan': "replacement_plan_of s replaced qs = Inr plan'"
      and "plan = (q_request_id q, q_run_id q, e') # plan'" and "fmhas (s_runs s) (q_run_id q)"
      by (auto simp: result_simps split: if_splits)
    with Cons.prems(2) Cons.IH [OF plan'] False as show ?thesis
      by (auto intro: bexI [of _ q])
  qed
qed simp

text \<open>Both loops of the commit change requests, runs and handoffs only.\<close>

lemma roll_frame:
  assumes "roll_request_generations s e qs = (r, s')"
  shows "s' = s\<lparr>s_requests := s_requests s', s_runs := s_runs s'\<rparr>"
  using assms
proof (induction qs arbitrary: s)
  case (Cons q qs)
  let ?s1 = "s\<lparr>s_requests := fmmodify (q_request_id q) (\<lambda>q. q\<lparr>q_team_epoch := e\<rparr>) (s_requests s)\<rparr>"
  show ?case
  proof (cases "fmlookup (s_runs s) (q_run_id q)")
    case None
    with Cons.prems show ?thesis by auto
  next
    case (Some r')
    with Cons.prems have "roll_request_generations
        (?s1\<lparr>s_runs := fmmodify (q_run_id q) (\<lambda>r. r\<lparr>r_team_epoch := e\<rparr>) (s_runs ?s1)\<rparr>) e qs = (r, s')"
      by simp
    from Cons.IH [OF this] show ?thesis by simp
  qed
qed simp

lemma reassign_frame:
  assumes "reassign_requests s ref plan = (r, s')"
  shows "s' = s\<lparr>s_requests := s_requests s', s_runs := s_runs s', s_handoffs := s_handoffs s'\<rparr>"
  using assms
proof (induction plan arbitrary: s)
  case (Cons p plan)
  obtain i j e where p: "p = (i, j, e)"
    by (cases p)
  let ?s1 = "s\<lparr>s_requests := fmmodify i (\<lambda>q. q\<lparr>q_assignment := Some (Assignment ref e)\<rparr>) (s_requests s)\<rparr>"
  let ?s2 = "?s1\<lparr>s_runs := fmmodify j (\<lambda>r. r\<lparr>r_assignment := Some (Assignment ref e)\<rparr>) (s_runs ?s1),
           s_handoffs := fmretain (\<lambda>p. hr_request_id (ph_offer p) \<noteq> i) (s_handoffs ?s1)\<rparr>"
  from Cons.prems have "s' = s \<or> s' = ?s1 \<or> reassign_requests ?s2 ref plan = (r, s')"
    by (auto simp: p Let_def attempt_def split: sum.splits)
  then show ?case
  proof (elim disjE)
    assume "reassign_requests ?s2 ref plan = (r, s')"
    from Cons.IH [OF this] show ?thesis by simp
  qed simp_all
qed simp

text \<open>A request after the two loops.\<close>

lemma roll_requests:
  assumes "roll_request_generations s e qs = (r, s')"
  shows "fm_le (\<lambda>q q'. q' = q \<or> q' = q\<lparr>q_team_epoch := e\<rparr>) (s_requests s) (s_requests s')"
  using assms
proof (induction qs arbitrary: s)
  case (Cons q qs)
  let ?R = "\<lambda>q q'. q' = q \<or> q' = q\<lparr>q_team_epoch := e\<rparr>"
  let ?s1 = "s\<lparr>s_requests := fmmodify (q_request_id q) (\<lambda>q. q\<lparr>q_team_epoch := e\<rparr>) (s_requests s)\<rparr>"
  let ?s2 = "?s1\<lparr>s_runs := fmmodify (q_run_id q) (\<lambda>r. r\<lparr>r_team_epoch := e\<rparr>) (s_runs ?s1)\<rparr>"
  have le: "fm_le ?R (s_requests s) (s_requests ?s1)"
    by (auto simp: fm_le_def)
  from Cons.prems have "s' = ?s1 \<or> roll_request_generations ?s2 e qs = (r, s')"
    by (auto simp: Let_def attempt_def split: sum.splits)
  then show ?case
  proof
    assume "roll_request_generations ?s2 e qs = (r, s')"
    from Cons.IH [OF this] have "fm_le ?R (s_requests ?s1) (s_requests s')"
      by simp
    with le show ?thesis
      by (rule fm_le_trans) auto
  qed (use le in simp)
qed (simp add: fm_le_refl)

lemma reassign_requests_le:
  assumes "reassign_requests s ref plan = (r, s')" and "distinct (map fst plan)"
    and "\<And>i j e q. (i, j, e) \<in> set plan \<Longrightarrow> fmlookup (s_requests s) i = Some q \<Longrightarrow>
           is_none_or (q_assignment q) (\<lambda>as. as_epoch as \<le> e)"
  shows "fm_le request_le (s_requests s) (s_requests s')"
  using assms
proof (induction plan arbitrary: s)
  case (Cons p plan)
  obtain i j e where p: "p = (i, j, e)"
    by (cases p)
  let ?s1 = "s\<lparr>s_requests := fmmodify i (\<lambda>q. q\<lparr>q_assignment := Some (Assignment ref e)\<rparr>) (s_requests s)\<rparr>"
  let ?s2 = "?s1\<lparr>s_runs := fmmodify j (\<lambda>r. r\<lparr>r_assignment := Some (Assignment ref e)\<rparr>) (s_runs ?s1),
           s_handoffs := fmretain (\<lambda>p. hr_request_id (ph_offer p) \<noteq> i) (s_handoffs ?s1)\<rparr>"
  have le: "fm_le request_le (s_requests s) (s_requests ?s1)"
    using Cons.prems(3) [of i j e] p
    by (auto simp: fm_le_def request_le_def assignment_le_def is_none_or_iff)
  from Cons.prems(1) have "s' = s \<or> s' = ?s1 \<or> reassign_requests ?s2 ref plan = (r, s')"
    by (auto simp: p Let_def attempt_def split: sum.splits)
  then show ?case
  proof (elim disjE)
    assume *: "reassign_requests ?s2 ref plan = (r, s')"
    have "fm_le request_le (s_requests ?s2) (s_requests s')"
    proof (rule Cons.IH [OF *])
      show "distinct (map fst plan)"
        using Cons.prems(2) by simp
      fix i' j' e' q
      assume "(i', j', e') \<in> set plan" and "fmlookup (s_requests ?s2) i' = Some q"
      moreover from this Cons.prems(2) p have "i' \<noteq> i"
        by force
      ultimately show "is_none_or (q_assignment q) (\<lambda>as. as_epoch as \<le> e')"
        using Cons.prems(3) [of i' j' e' q] p by simp
    qed
    with le show ?thesis
      by (auto intro: fm_le_trans [OF _ _ request_le_trans])
  qed (use le in \<open>simp_all add: fm_le_refl\<close>)
qed (simp add: fm_le_refl)

lemma replacement_plan_distinct:
  assumes "replacement_plan_of s replaced qs = Inr plan" and "distinct (map q_request_id qs)"
  shows "distinct (map fst plan)"
  using assms
proof (induction qs arbitrary: plan)
  case (Cons q qs)
  then have "replacement_plan_of s replaced qs = Inr plan \<or>
      (\<exists>e plan'. replacement_plan_of s replaced qs = Inr plan' \<and>
         plan = (q_request_id q, q_run_id q, e) # plan')"
    by (auto simp: result_simps split: if_splits)
  then show ?case
  proof (elim disjE exE conjE)
    fix e plan'
    assume p: "replacement_plan_of s replaced qs = Inr plan'"
      "plan = (q_request_id q, q_run_id q, e) # plan'"
    have "q_request_id q \<notin> fst ` set plan'"
      using replacement_plan_entry [OF p(1)] Cons.prems(2) by fastforce
    with p Cons show ?thesis by simp
  qed (use Cons in simp)
qed simp

lemma replacement_assignment_plan_keyed:
  assumes keys: "work_keys s" and "replacement_assignment_plan s team replaced = Inr plan"
  shows "distinct (map fst plan)"
    and "(i, j, e) \<in> set plan \<Longrightarrow> \<exists>q as. fmlookup (s_requests s) i = Some q \<and> q_run_id q = j \<and>
           q_team_id q = team \<and> \<not> is_terminal (q_status q) \<and> fmhas (s_runs s) j \<and>
           q_assignment q = Some as \<and> checked_next (as_epoch as) = Some e"
proof -
  let ?qs = "filter (\<lambda>q. q_team_id q = team) (fmvals (s_requests s))"
  have "distinct (map q_request_id (fmvals (s_requests s)))"
    using keys by (intro distinct_fmvals_keys) (simp add: work_keys_def)
  then have "distinct (map q_request_id ?qs)"
    by (rule distinct_map_filter)
  then show "distinct (map fst plan)"
    using assms(2) replacement_plan_distinct
    by (auto simp: replacement_assignment_plan_def split: option.splits)
  assume e: "(i, j, e) \<in> set plan"
  then obtain r where "replacement_plan_of s r ?qs = Inr plan"
    using assms(2) by (auto simp: replacement_assignment_plan_def split: option.splits)
  from replacement_plan_entry [OF this e] keys
  show "\<exists>q as. fmlookup (s_requests s) i = Some q \<and> q_run_id q = j \<and>
           q_team_id q = team \<and> \<not> is_terminal (q_status q) \<and> fmhas (s_runs s) j \<and>
           q_assignment q = Some as \<and> checked_next (as_epoch as) = Some e"
    by (force simp: in_fmvals_iff work_keys_def)
qed

lemma install_replacement_simps [simp]:
  "s_requests (install_replacement s i st i a team e) = s_requests s"
  "s_runs (install_replacement s i st i a team e) = s_runs s"
  "s_handoffs (install_replacement s i st i a team e) = s_handoffs s"
  "s_mailbox (install_replacement s i st i a team e) = s_mailbox s"
  "s_audit (install_replacement s i st i a team e) = s_audit s"
  "s_history_checkpoint (install_replacement s i st i a team e) = s_history_checkpoint s"
  "s_workspace_id (install_replacement s i st i a team e) = s_workspace_id s"
  "s_policy_revision (install_replacement s i st i a team e) = s_policy_revision s"
  "s_primary_epoch (install_replacement s i st i a team e) = s_primary_epoch s"
  "s_active_primary (install_replacement s i st i a team e) = s_active_primary s"
  "s_pending_observability (install_replacement s i st i a team e) = s_pending_observability s"
  "s_nonterminal_request_counts (install_replacement s i st i a team e) = s_nonterminal_request_counts s"
  "s_teams (install_replacement s i st i a team e) = fmmodify team
     (\<lambda>t. t\<lparr>t_epoch := e,
             t_actors := (if i \<in> set (t_actors t) then t_actors t else t_actors t @ [i])\<rparr>) (s_teams s)"
  "s_actors (install_replacement s i st i a team e) = fmupd i a (s_actors s)"
  by (auto simp: install_replacement_def Let_def fmmodify_def split: option.splits)

lemma roll_then_reassign_grows:
  assumes keys: "work_keys s" and g: "grows s s2"
    and same: "s_requests s2 = s_requests s"
    and plan: "replacement_assignment_plan s team replaced = Inr plan"
    and roll: "roll_request_generations s2 e qs = (r3, s3)"
    and re: "reassign_requests s3 ref plan = (r4, s4)"
  shows "grows s s3" and "grows s s4"
proof -
  note roll_le = roll_requests [OF roll]
  have le3: "fm_le request_le (s_requests s) (s_requests s3)"
    using roll_le by (fastforce simp: same fm_le_def request_le_def)
  then show g3: "grows s s3"
    using g by (subst roll_frame [OF roll]) (simp add: grows_def)
  have "fm_le request_le (s_requests s3) (s_requests s4)"
  proof (rule reassign_requests_le [OF re replacement_assignment_plan_keyed(1) [OF keys plan]])
    fix i j n q
    assume "(i, j, n) \<in> set plan" and q: "fmlookup (s_requests s3) i = Some q"
    then obtain q0 as where q0: "fmlookup (s_requests s) i = Some q0" "q_assignment q0 = Some as"
        "checked_next (as_epoch as) = Some n"
      using replacement_assignment_plan_keyed(2) [OF keys plan] by blast
    then obtain q' where "fmlookup (s_requests s3) i = Some q'" "q' = q0 \<or> q' = q0\<lparr>q_team_epoch := e\<rparr>"
      using roll_le by (auto simp: same fm_le_def)
    with q q0(2) have "q_assignment q = Some as"
      by auto
    then show "is_none_or (q_assignment q) (\<lambda>as. as_epoch as \<le> n)"
      using checked_next_SomeD(3) [OF q0(3)] by simp
  qed
  then have "grows s3 s4"
    by (subst reassign_frame [OF re]) (simp add: grows_def fm_le_refl)
  with g3 show "grows s s4"
    by (rule grows_trans)
qed

text \<open>What a successful replacement did, step by step.\<close>

lemma replace_implementation_inner_Inr:
  assumes "replace_implementation_inner s team i role profile = (Inr ref, s')"
  obtains t te ae st plan s3 s4 where "fmlookup (s_teams s) team = Some t" and "t_status t = TeamActive"
    and "i \<in> set (t_actors t)" and "ensure_team_profile_actor t profile = Inr ()"
    and "actor_validate (healthy_actor (s_workspace_id s) i (Some team) role profile EPOCH_INITIAL)
          = Inr ()"
    and "is_none_or (fmlookup (s_actors s) i) (\<lambda>b.
           a_role b = role \<and> a_profile b = profile \<and> a_team_id b = Some team)"
    and "checked_next (t_epoch t) = Some te" and "next_actor_epoch s i = Inr ae"
    and "ref = ActorRef i ae"
    and "replacement_assignment_plan s team (Some i) = Inr plan"
    and "roll_request_generations
           (install_replacement s i st i (healthy_actor (s_workspace_id s) i (Some team) role profile ae) team te)
           te (filter (\<lambda>q. q_team_id q = team \<and> \<not> is_terminal (q_status q))
                 (fmvals (s_requests s))) = (Inr (), s3)"
    and "reassign_requests s3 ref plan = (Inr (), s4)"
    and "s' = s4\<lparr>s_mailbox := fmmap (retire_delivery (s_requests s4))
           (fmmap (supersede_live_recipients (team_member_ids s4 team) team (t_epoch t))
             (s_mailbox s4)), s_pending_observability := s_pending_observability s'\<rparr>"
proof -
  from assms obtain t te ae st plan s3 s4 u3 u4 and r1 r2 r3 r4 r5 r6 r7 where
    raw: "ok_or (fmlookup (s_teams s) team) (Err (UnknownTeam team)) = Inr t"
      "reject_if (t_status t \<noteq> TeamActive)
         (Err (Unauthorized ''replace actor for inactive team'')) = Inr r1"
      "replacement_source_actor_id t i = Inr r2"
      "ensure_team_profile_actor t profile = Inr r3"
      "map_err (Err \<circ> Validation) (actor_validate
         (healthy_actor (s_workspace_id s) i (Some team) role profile EPOCH_INITIAL)) = Inr r4"
      "reject_if (is_some_and (fmlookup (s_actors s) i) (\<lambda>a.
         a_role a \<noteq> role \<or> a_profile a \<noteq> profile \<or> a_team_id a \<noteq> Some team))
         (Err (AlreadyExists ''actor id'')) = Inr r5"
      "ok_or (checked_next (t_epoch t)) (Err EpochExhausted) = Inr te"
      "next_actor_epoch s i = Inr ae"
      "replacement_assignment_plan s team (Some r2) = Inr plan"
      "roll_request_generations (install_replacement s r2 st i
           (healthy_actor (s_workspace_id s) i (Some team) role profile ae) team te) te
         (filter (\<lambda>q. q_team_id q = team \<and> \<not> is_terminal (q_status q))
            (fmvals (s_requests (install_replacement s r2 st i
               (healthy_actor (s_workspace_id s) i (Some team) role profile ae) team te))))
         = (Inr u3, s3)"
      "reassign_requests s3 (ActorRef i ae) plan = (Inr u4, s4)"
    and fin: "(let s5 = retire_fully_acknowledged
                (s4\<lparr>s_mailbox :=
                      fmmap (supersede_live_recipients (team_member_ids s4 team) team (t_epoch t))
                        (s_mailbox s4)\<rparr>);
         s6 = record_actor_generation_anchor s5 (ActorRef i ae) (Some team)
     in (Inr (ActorRef i ae) :: failure + actor_ref,
         s6\<lparr>s_pending_observability := (s_pending_observability s6)\<lparr>po_epoch_roll_team_ids :=
               finsert team (po_epoch_roll_team_ids (s_pending_observability s6))\<rparr>\<rparr>)) = (Inr ref, s')"
    unfolding replace_implementation_inner_def Let_def
    by (elim attempt_InrE sbind_InrE) (rule that, assumption+, simp only: Let_def)
  have r2: "r2 = i" "i \<in> set (t_actors t)"
    using raw(3) by (auto simp: replacement_source_actor_id_def split: if_splits)
  have ref: "ref = ActorRef i ae"
    using fin by (simp add: Let_def)
  have s': "s' = s4\<lparr>s_mailbox := fmmap (retire_delivery (s_requests s4))
           (fmmap (supersede_live_recipients (team_member_ids s4 team) team (t_epoch t))
             (s_mailbox s4)), s_pending_observability := s_pending_observability s'\<rparr>"
    using fin by (auto simp: Let_def record_actor_generation_anchor_def retire_fully_acknowledged_def)
  show thesis
  proof (rule that [OF _ _ r2(2) _ _ _ _ raw(8) ref _ _ _ s'])
    show "replacement_assignment_plan s team (Some i) = Inr plan"
      using raw(9) r2(1) by simp
    show "roll_request_generations
           (install_replacement s i st i (healthy_actor (s_workspace_id s) i (Some team) role profile ae) team te)
           te (filter (\<lambda>q. q_team_id q = team \<and> \<not> is_terminal (q_status q))
                 (fmvals (s_requests s))) = (Inr (), s3)"
      using raw(10) r2(1) by simp
  qed (use raw ref in \<open>auto simp: result_simps is_none_or_iff is_some_and_iff\<close>)
qed

lemma replace_implementation_inner_grows_Inr:
  assumes keys: "work_keys s" "actors_keyed s"
    and app: "replace_implementation_inner s team i role profile = (Inr ref, s')"
  shows "grows s s'"
  using app
proof (rule replace_implementation_inner_Inr)
  fix t te ae st plan s3 s4
  let ?a = "healthy_actor (s_workspace_id s) i (Some team) role profile ae"
  let ?s2 = "install_replacement s i st i ?a team te"
  assume t: "fmlookup (s_teams s) team = Some t" and te: "checked_next (t_epoch t) = Some te"
    and ae: "next_actor_epoch s i = Inr ae"
    and same: "is_none_or (fmlookup (s_actors s) i) (\<lambda>b.
           a_role b = role \<and> a_profile b = profile \<and> a_team_id b = Some team)"
    and plan: "replacement_assignment_plan s team (Some i) = Inr plan"
    and roll: "roll_request_generations ?s2 te
        (filter (\<lambda>q. q_team_id q = team \<and> \<not> is_terminal (q_status q)) (fmvals (s_requests s)))
        = (Inr (), s3)"
    and re: "reassign_requests s3 ref plan = (Inr (), s4)"
    and s': "s' = s4\<lparr>s_mailbox := fmmap (retire_delivery (s_requests s4))
           (fmmap (supersede_live_recipients (team_member_ids s4 team) team (t_epoch t))
             (s_mailbox s4)), s_pending_observability := s_pending_observability s'\<rparr>"
  have "fm_le team_le (s_teams s) (s_teams ?s2)"
    using t checked_next_SomeD(3) [OF te] by (simp add: fm_le_fmmodify team_le_def)
  then have "grows s ?s2"
    using healthy_actor_le [OF keys(2) ae same] by (simp add: grows_def fm_le_refl fm_le_fmupd)
  from roll_then_reassign_grows(2) [OF keys(1) this _ plan roll re] have "grows s s4"
    by simp
  moreover have "grows s4 s'"
    by (subst s') (simp add: grows_def fm_le_refl fm_le_sweep supersede_live_recipients_le)
  ultimately show ?thesis
    by (rule grows_trans)
qed

end
