(* ===== verification/Restore.thy ===== *)
theory Restore
  imports Snapshot
begin

text \<open>
  The entity validators of \<open>Supervisor::from_snapshot\<close> in
  \<open>crates/agsv-core/src/supervisor.rs\<close>: actors, the active Primary, teams and their reverse
  links, requests with their assignment, candidate and review state, runs, the links between
  requests and runs, and the counts derived from them.
\<close>

section \<open>Errors and paths\<close>

definition invalid_snapshot :: "string \<Rightarrow> string \<Rightarrow> failure + 'a" where
  "invalid_snapshot path reason = Inl (Err (InvalidSnapshot path reason))"

definition require :: "bool \<Rightarrow> string \<Rightarrow> string \<Rightarrow> failure + unit" where
  "require b path reason = (if b then Inr () else invalid_snapshot path reason)"

lemma require_Inr_iff [result_simps]: "require b path reason = Inr u \<longleftrightarrow> b"
  by (simp add: require_def invalid_snapshot_def)

lemma require_True [simp]: "require True path reason = Inr ()"
  by (simp add: require_def)

lemma invalid_snapshot_not_Inr [simp]: "invalid_snapshot path reason \<noteq> Inr v"
  by (simp add: invalid_snapshot_def)

text \<open>The check of one indexed element, then its insertion; a key met before is an error.\<close>

fun restore_from ::
  "(nat \<Rightarrow> 'v \<Rightarrow> failure + unit) \<Rightarrow> ('v \<Rightarrow> 'k) \<Rightarrow> (nat \<Rightarrow> string) \<Rightarrow> string \<Rightarrow> nat \<Rightarrow>
   ('k, 'v) fmap \<Rightarrow> 'v list \<Rightarrow> failure + ('k, 'v) fmap" where
  "restore_from check key path reason i m [] = Inr m"
| "restore_from check key path reason i m (v # vs) =
     ebind (check i v) (\<lambda>_.
     if fmhas m (key v) then invalid_snapshot (path i) reason
     else restore_from check key path reason (Suc i) (fmupd (key v) v m) vs)"

section \<open>Actors and teams\<close>

definition check_actor :: "workspace_id \<Rightarrow> nat \<Rightarrow> actor \<Rightarrow> failure + unit" where
  "check_actor workspace i a =
     ebind (map_err (Err \<circ> Validation) (actor_validate a)) (\<lambda>_.
     require (a_workspace_id a = workspace) (indexed ''actors'' i @ ''.workspace_id'')
       ''actor belongs to another workspace'')"

definition restore_actors ::
  "workspace_id \<Rightarrow> actor list \<Rightarrow> failure + (actor_id, actor) fmap" where
  "restore_actors workspace actors =
     restore_from (check_actor workspace) a_actor_id (\<lambda>i. indexed ''actors'' i @ ''.actor_id'')
       ''duplicate actor id'' 0 fmempty actors"

definition is_primary_topology :: "actor \<Rightarrow> bool" where
  "is_primary_topology a \<longleftrightarrow> has_capability a HUMAN_FACING_PRIMARY \<and> a_team_id a = None"

definition validate_active_primary ::
  "actor_ref option \<Rightarrow> (actor_id, actor) fmap \<Rightarrow> failure + unit" where
  "validate_active_primary active actors =
     ebind
       (case active of
          None \<Rightarrow> Inr ()
        | Some ref \<Rightarrow>
            (case fmlookup actors (ref_actor_id ref) of
               None \<Rightarrow> invalid_snapshot ''active_primary.actor_id''
                         ''active Primary actor is missing''
             | Some a \<Rightarrow>
                 require (has_capability a HUMAN_FACING_PRIMARY \<and> actor_ref_of a = ref \<and>
                          a_status a = ActorHealthy \<and> a_team_id a = None) ''active_primary''
                   ''active Primary capability, topology, actor epoch, or health is inconsistent''))
       (\<lambda>_.
     require
       (list_all (\<lambda>a. is_some_and active (\<lambda>ref. ref_actor_id ref = a_actor_id a))
          (filter (\<lambda>a. is_primary_topology a \<and> a_status a = ActorHealthy) (fmvals actors)))
       ''active_primary'' ''a healthy Primary actor must hold the active lease'')"

definition team_profile_matches_actor :: "team \<Rightarrow> actor \<Rightarrow> bool" where
  "team_profile_matches_actor t a =
     (case (t_profile t, a_profile a) of
        (None, None) \<Rightarrow> True
      | (Some tp, Some ap) \<Rightarrow> tp_actor_profile tp = ap_name ap
      | _ \<Rightarrow> False)"

fun check_team_actors ::
  "(actor_id, actor) fmap \<Rightarrow> string \<Rightarrow> team \<Rightarrow> actor_id list \<Rightarrow> actor_id list \<Rightarrow> failure + unit" where
  "check_team_actors actors path t seen [] = Inr ()"
| "check_team_actors actors path t seen (i # is) =
     ebind (require (i \<notin> set seen) path ''duplicate actor id in team'') (\<lambda>_.
     case fmlookup actors i of
       None \<Rightarrow> invalid_snapshot path ''team references an unknown actor''
     | Some a \<Rightarrow>
         ebind (require (a_team_id a = Some (t_team_id t) \<and> team_profile_matches_actor t a) path
                  ''team actor profile or reverse team link is inconsistent'') (\<lambda>_.
         check_team_actors actors path t (i # seen) is))"

definition check_team :: "workspace_id \<Rightarrow> (actor_id, actor) fmap \<Rightarrow> nat \<Rightarrow> team \<Rightarrow> failure + unit" where
  "check_team workspace actors i t =
     ebind (map_err (Err \<circ> Validation \<circ> error_at (indexed ''teams'' i)) (team_validate t)) (\<lambda>_.
     ebind (require (t_workspace_id t = workspace) (indexed ''teams'' i @ ''.workspace_id'')
              ''team belongs to another workspace'') (\<lambda>_.
     check_team_actors actors (indexed ''teams'' i @ ''.actors'') t [] (t_actors t)))"

definition restore_teams ::
  "workspace_id \<Rightarrow> team list \<Rightarrow> (actor_id, actor) fmap \<Rightarrow> failure + (team_id, team) fmap" where
  "restore_teams workspace teams actors =
     restore_from (check_team workspace actors) t_team_id (\<lambda>i. indexed ''teams'' i @ ''.team_id'')
       ''duplicate team id'' 0 fmempty teams"

definition check_actor_team_link :: "(team_id, team) fmap \<Rightarrow> actor \<Rightarrow> failure + unit" where
  "check_actor_team_link teams a =
     (case a_team_id a of
        None \<Rightarrow> Inr ()
      | Some team_id \<Rightarrow>
          (case fmlookup teams team_id of
             None \<Rightarrow> invalid_snapshot ''actors.team_id'' ''actor team is missing''
           | Some t \<Rightarrow>
               require (a_actor_id a \<in> set (t_actors t) \<and> team_profile_matches_actor t a)
                 ''actors.team_id'' ''team actor profile or reverse link is inconsistent''))"

definition validate_actor_team_links ::
  "(actor_id, actor) fmap \<Rightarrow> (team_id, team) fmap \<Rightarrow> failure + unit" where
  "validate_actor_team_links actors teams =
     check_all_from 0 (\<lambda>_. check_actor_team_link teams) (fmvals actors)"

section \<open>Requests\<close>

definition validate_request_assignment ::
  "string \<Rightarrow> request \<Rightarrow> (actor_id, actor) fmap \<Rightarrow> team \<Rightarrow> failure + unit" where
  "validate_request_assignment path q actors t =
     (case (q_assignment q, q_status q) of
        (None, Open) \<Rightarrow> Inr ()
      | (None, _) \<Rightarrow>
          invalid_snapshot (path @ ''.assignment'') ''non-open request has no active assignment''
      | (Some _, Open) \<Rightarrow>
          invalid_snapshot (path @ ''.assignment'') ''open request unexpectedly has an assignment''
      | (Some assignment, _) \<Rightarrow>
          (case fmlookup actors (ref_actor_id (as_actor assignment)) of
             None \<Rightarrow>
               invalid_snapshot (path @ ''.assignment.actor'') ''assignment actor is missing''
           | Some a \<Rightarrow>
               let historical_closed_generation =
                     (q_team_epoch q < t_epoch t \<and> \<not> request_blocks_team_close (q_status q));
                   generation_matches =
                     (actor_ref_of a = as_actor assignment \<or>
                      historical_closed_generation \<and>
                        ref_actor_epoch (as_actor assignment) \<le> a_epoch a)
               in require (generation_matches \<and> has_capability a IMPLEMENTATION_EXECUTION \<and>
                           a_team_id a = Some (q_team_id q)) (path @ ''.assignment.actor'')
                    ''assignment actor generation, capability, or team is inconsistent''))"

definition validate_candidate_provenance ::
  "string \<Rightarrow> request_id \<Rightarrow> candidate \<Rightarrow> (actor_id, actor) fmap \<Rightarrow> (team_id, team) fmap \<Rightarrow>
   failure + unit" where
  "validate_candidate_provenance path request_id c actors teams =
     ebind (require (c_request_id c = request_id \<and> fmhas teams (c_team_id c)) path
              ''candidate request or team reference is inconsistent'') (\<lambda>_.
     case fmlookup actors (ref_actor_id (c_created_by c)) of
       None \<Rightarrow> invalid_snapshot (path @ ''.created_by'') ''candidate creator is missing''
     | Some creator \<Rightarrow>
         ebind (require (has_capability creator IMPLEMENTATION_EXECUTION \<and>
                         a_team_id creator = Some (c_team_id c) \<and>
                         ref_actor_epoch (c_created_by c) \<le> a_epoch creator)
                  (path @ ''.created_by'')
                  ''candidate creator generation, capability, or team is inconsistent'') (\<lambda>_.
         case c_created_by_profile c of
           None \<Rightarrow> Inr ()
         | Some profile \<Rightarrow>
             require (map_option ap_name (a_profile creator) = Some profile)
               (path @ ''.created_by_profile'')
               ''candidate creator profile attribution is inconsistent''))"

definition request_metrics_are_legacy_default :: "request \<Rightarrow> bool" where
  "request_metrics_are_legacy_default q \<longleftrightarrow>
     q_rejection_count q = 0 \<and> q_fix_cycle_depth q = 0 \<and> q_candidate_history q = []"

text \<open>\<open>windows(2)\<close>: some neighbours have the same commit.\<close>

fun repeats_commit :: "candidate list \<Rightarrow> bool" where
  "repeats_commit (c1 # c2 # cs) \<longleftrightarrow> c_sha c1 = c_sha c2 \<or> repeats_commit (c2 # cs)"
| "repeats_commit _ \<longleftrightarrow> False"

definition validate_candidate_metrics :: "string \<Rightarrow> request \<Rightarrow> failure + unit" where
  "validate_candidate_metrics path q =
     ebind (require (\<not> repeats_commit (q_candidate_history q)) (path @ ''.candidate_history'')
              ''successive rejected candidates must use different commits'') (\<lambda>_.
     let expected_fix_cycle_depth = length (q_candidate_history q) - 1 in
     ebind (require (unat (q_fix_cycle_depth q) = expected_fix_cycle_depth)
              (path @ ''.fix_cycle_depth'')
              ''fix-cycle depth does not match candidate history'') (\<lambda>_.
     let current_is_rejected = is_some_and (q_decision q) (\<lambda>d. dr_verdict d = VerdictRejected) in
     ebind (if current_is_rejected
            then ok_or (checked_inc (q_fix_cycle_depth q)) (Err EpochExhausted)
            else Inr (q_fix_cycle_depth q)) (\<lambda>expected_rejection_count.
     require (q_rejection_count q = expected_rejection_count) (path @ ''.rejection_count'')
       ''rejection count does not match candidate review history'')))"

definition validate_request_candidate ::
  "string \<Rightarrow> request \<Rightarrow> (actor_id, actor) fmap \<Rightarrow> (team_id, team) fmap \<Rightarrow> failure + unit" where
  "validate_request_candidate path q actors teams =
     (case q_candidate q of
        None \<Rightarrow>
          ebind (require (q_decision q = None \<and> q_integration_authorization q = None \<and>
                          request_metrics_are_legacy_default q) (path @ ''.candidate'')
                   ''review state or outcome metrics exist without a candidate'') (\<lambda>_.
          require (q_status q \<notin> {CandidateReady, ChangesRequested, Accepted,
                                 IntegrationAuthorized, Completed}) (path @ ''.candidate'')
            ''request state requires a candidate'')
      | Some candidate \<Rightarrow>
          ebind (validate_candidate_provenance (path @ ''.candidate'') (q_request_id q) candidate
                   actors teams) (\<lambda>_.
          if request_metrics_are_legacy_default q then Inr ()
          else
          ebind (require (q_candidate_history q \<noteq> []) (path @ ''.candidate_history'')
                   ''instrumented candidate history is empty'') (\<lambda>_.
          ebind (require (last (q_candidate_history q) = candidate) (path @ ''.candidate_history'')
                   ''candidate history does not end at the current candidate'') (\<lambda>_.
          ebind (check_all_from 0
                   (\<lambda>i c. validate_candidate_provenance
                             (path @ indexed ''.candidate_history'' i) (q_request_id q) c
                             actors teams) (q_candidate_history q)) (\<lambda>_.
          validate_candidate_metrics path q)))))"

definition validate_primary_history_ref ::
  "actor_ref \<Rightarrow> (actor_id, actor) fmap \<Rightarrow> string \<Rightarrow> failure + unit" where
  "validate_primary_history_ref ref actors path =
     require (is_some_and (fmlookup actors (ref_actor_id ref)) is_primary_topology) path
       ''historical Primary actor is missing or lacks the active-lease topology''"

definition validate_status_review_shape :: "string \<Rightarrow> request \<Rightarrow> failure + unit" where
  "validate_status_review_shape path q =
     (let verdict = map_option dr_verdict (q_decision q);
          authorized = (q_integration_authorization q \<noteq> None)
      in require
           (case q_status q of
              CandidateReady \<Rightarrow> q_decision q = None \<and> \<not> authorized
            | ChangesRequested \<Rightarrow> verdict = Some VerdictRejected \<and> \<not> authorized
            | Accepted \<Rightarrow> verdict = Some VerdictAccepted \<and> \<not> authorized
            | IntegrationAuthorized \<Rightarrow> verdict = Some VerdictAccepted \<and> authorized
            | Completed \<Rightarrow> verdict = Some VerdictAccepted \<and> authorized
            | _ \<Rightarrow> True)
           (path @ ''.status'') ''request status contradicts its review or authorization state'')"

definition validate_request_review_state ::
  "string \<Rightarrow> policy_revision \<Rightarrow> request \<Rightarrow> (actor_id, actor) fmap \<Rightarrow> failure + unit" where
  "validate_request_review_state path policy q actors =
     ebind
       (case q_decision q of
          None \<Rightarrow> Inr ()
        | Some d \<Rightarrow>
            ebind (map_err (Err \<circ> Validation \<circ> error_at (path @ ''.decision.payload_digest''))
                     (payload_digest_validate (dr_payload_digest d))) (\<lambda>_.
            ebind (require (dr_policy_revision d = policy) (path @ ''.decision.policy_revision'')
                     ''current decision was issued under another policy revision'') (\<lambda>_.
            ebind (require (q_candidate q = Some (dr_candidate d)) (path @ ''.decision.candidate'')
                     ''decision does not bind the current exact candidate'') (\<lambda>_.
            validate_primary_history_ref (dr_reviewer d) actors (path @ ''.decision''))))) (\<lambda>_.
     ebind
       (case q_integration_authorization q of
          None \<Rightarrow> Inr ()
        | Some authorization \<Rightarrow>
            ebind (require (q_candidate q = Some (ia_candidate authorization) \<and>
                            is_some_and (q_decision q) (\<lambda>d.
                              dr_decision_id d = ia_decision_id authorization \<and>
                              dr_verdict d = VerdictAccepted))
                     (path @ ''.integration_authorization'')
                     ''authorization does not bind the accepted current candidate'') (\<lambda>_.
            validate_primary_history_ref (ia_authorized_by authorization) actors
              (path @ ''.integration_authorization''))) (\<lambda>_.
     validate_status_review_shape path q))"

definition validate_request ::
  "workspace_id \<Rightarrow> policy_revision \<Rightarrow> (actor_id, actor) fmap \<Rightarrow> (team_id, team) fmap \<Rightarrow> nat \<Rightarrow>
   request \<Rightarrow> failure + unit" where
  "validate_request workspace policy actors teams i q =
     (let path = indexed ''requests'' i in
      ebind (require (q_workspace_id q = workspace) (path @ ''.workspace_id'')
               ''request belongs to another workspace'') (\<lambda>_.
      case fmlookup teams (q_team_id q) of
        None \<Rightarrow> invalid_snapshot (path @ ''.team_id'') ''request team is missing''
      | Some t \<Rightarrow>
          ebind (require (q_team_epoch q \<le> t_epoch t) (path @ ''.team_epoch'')
                   ''request team generation is newer than its logical team'') (\<lambda>_.
          ebind (require (\<not> request_blocks_team_close (q_status q) \<or> q_team_epoch q = t_epoch t)
                   (path @ ''.team_epoch'')
                   ''active request does not belong to the current team generation'') (\<lambda>_.
          ebind (map_err (Err \<circ> Validation \<circ> error_at (path @ ''.specification.payload_digest''))
                   (payload_digest_validate (spec_payload_digest (q_specification q)))) (\<lambda>_.
          ebind (validate_request_assignment path q actors t) (\<lambda>_.
          ebind (validate_request_candidate path q actors teams) (\<lambda>_.
          validate_request_review_state path policy q actors)))))))"

fun restore_requests_from ::
  "(nat \<Rightarrow> request \<Rightarrow> failure + unit) \<Rightarrow> nat \<Rightarrow> decision_id list \<Rightarrow> (request_id, request) fmap \<Rightarrow>
   request list \<Rightarrow> failure + (request_id, request) fmap" where
  "restore_requests_from check i decisions m [] = Inr m"
| "restore_requests_from check i decisions m (q # qs) =
     ebind (check i q) (\<lambda>_.
     ebind (require (is_none_or (q_decision q) (\<lambda>d. dr_decision_id d \<notin> set decisions))
              (indexed ''requests'' i @ ''.decision.decision_id'')
              ''duplicate current decision id'') (\<lambda>_.
     let decisions1 = (case q_decision q of None \<Rightarrow> decisions
                                          | Some d \<Rightarrow> dr_decision_id d # decisions) in
     if fmhas m (q_request_id q)
     then invalid_snapshot (indexed ''requests'' i @ ''.request_id'') ''duplicate request id''
     else restore_requests_from check (Suc i) decisions1 (fmupd (q_request_id q) q m) qs))"

definition restore_requests ::
  "workspace_id \<Rightarrow> policy_revision \<Rightarrow> request list \<Rightarrow> (actor_id, actor) fmap \<Rightarrow>
   (team_id, team) fmap \<Rightarrow> failure + (request_id, request) fmap" where
  "restore_requests workspace policy requests actors teams =
     restore_requests_from (validate_request workspace policy actors teams) 0 [] fmempty requests"

section \<open>Counts\<close>

definition counts_for_current_generation :: "(team_id, team) fmap \<Rightarrow> request \<Rightarrow> bool" where
  "counts_for_current_generation teams q \<longleftrightarrow>
     is_some_and (fmlookup teams (q_team_id q)) (\<lambda>t.
       \<not> is_terminal (q_status q) \<and>
       (request_blocks_team_close (q_status q) \<or> q_team_epoch q = t_epoch t))"

fun count_requests ::
  "(team_id, u64) fmap \<Rightarrow> request list \<Rightarrow> failure + (team_id, u64) fmap" where
  "count_requests counts [] = Inr counts"
| "count_requests counts (q # qs) =
     (case fmlookup counts (q_team_id q) of
        None \<Rightarrow> invalid_snapshot ''requests.team_id''
                  ''request team is missing while deriving observability counts''
      | Some n \<Rightarrow>
          ebind (ok_or (checked_inc n) (Err EpochExhausted)) (\<lambda>n'.
          count_requests (fmupd (q_team_id q) n' counts) qs))"

definition derive_nonterminal_request_counts ::
  "(team_id, team) fmap \<Rightarrow> (request_id, request) fmap \<Rightarrow> failure + (team_id, u64) fmap" where
  "derive_nonterminal_request_counts teams requests =
     count_requests (fmmap (\<lambda>_. 0) teams)
       (filter (counts_for_current_generation teams) (fmvals requests))"

section \<open>Runs\<close>

definition check_run ::
  "workspace_id \<Rightarrow> (request_id, request) fmap \<Rightarrow> (team_id, team) fmap \<Rightarrow> nat \<Rightarrow> run \<Rightarrow>
   failure + unit" where
  "check_run workspace requests teams i r =
     ebind (require (r_workspace_id r = workspace) (indexed ''runs'' i @ ''.workspace_id'')
              ''run belongs to another workspace'') (\<lambda>_.
     case fmlookup teams (r_team_id r) of
       None \<Rightarrow> invalid_snapshot (indexed ''runs'' i) ''run request or team is missing''
     | Some t \<Rightarrow>
         require (r_team_epoch r \<le> t_epoch t \<and> fmhas requests (r_request_id r))
           (indexed ''runs'' i @ ''.team_epoch'')
           ''run team generation or request is inconsistent'')"

definition restore_runs ::
  "workspace_id \<Rightarrow> run list \<Rightarrow> (request_id, request) fmap \<Rightarrow> (team_id, team) fmap \<Rightarrow>
   failure + (run_id, run) fmap" where
  "restore_runs workspace runs requests teams =
     restore_from (check_run workspace requests teams) r_run_id
       (\<lambda>i. indexed ''runs'' i @ ''.run_id'') ''duplicate run id'' 0 fmempty runs"

definition run_matches_request :: "run \<Rightarrow> request \<Rightarrow> bool" where
  "run_matches_request r q \<longleftrightarrow>
     r_request_id r = q_request_id q \<and> r_team_id r = q_team_id q \<and>
     r_team_epoch r = q_team_epoch q \<and> r_assignment r = q_assignment q \<and>
     run_status_matches_request (r_status r) (q_status q)"

definition check_request_run :: "(run_id, run) fmap \<Rightarrow> request \<Rightarrow> failure + unit" where
  "check_request_run runs q =
     (case fmlookup runs (q_run_id q) of
        None \<Rightarrow> invalid_snapshot ''requests.run_id'' ''request run is missing''
      | Some r \<Rightarrow>
          require (run_matches_request r q) ''requests.run_id''
            ''request and run state are inconsistent'')"

definition check_run_request :: "(request_id, request) fmap \<Rightarrow> run \<Rightarrow> failure + unit" where
  "check_run_request requests r =
     require (is_some_and (fmlookup requests (r_request_id r)) (\<lambda>q. q_run_id q = r_run_id r))
       ''runs.request_id'' ''run and request reverse links are inconsistent''"

definition validate_request_run_links ::
  "(request_id, request) fmap \<Rightarrow> (run_id, run) fmap \<Rightarrow> failure + unit" where
  "validate_request_run_links requests runs =
     ebind (check_all_from 0 (\<lambda>_. check_request_run runs) (fmvals requests)) (\<lambda>_.
     check_all_from 0 (\<lambda>_. check_run_request requests) (fmvals runs))"

end
