(* ===== verification/Invariants.thy ===== *)
theory Invariants
  imports Registration_Growth Restore
begin

text \<open>
  The invariant of the aggregate, one predicate per collection: members (actors and teams), the
  Primary lease, and the work (requests and runs). Each is stated over the collections it reads,
  so that an operation that does not touch them keeps it.
\<close>

section \<open>Predicates\<close>

definition actors_ok ::
  "workspace_id \<Rightarrow> (actor_id, actor) fmap \<Rightarrow> (team_id, team) fmap \<Rightarrow> bool" where
  "actors_ok workspace actors teams \<longleftrightarrow>
     (\<forall>i a. fmlookup actors i = Some a \<longrightarrow>
        a_actor_id a = i \<and> a_workspace_id a = workspace \<and> actor_validate a = Inr () \<and>
        is_none_or (a_team_id a) (fmhas teams))"

definition member_ok :: "(actor_id, actor) fmap \<Rightarrow> team \<Rightarrow> actor_id \<Rightarrow> bool" where
  "member_ok actors t i \<longleftrightarrow>
     is_some_and (fmlookup actors i) (\<lambda>a.
       a_team_id a = Some (t_team_id t) \<and> team_profile_matches_actor t a)"

definition teams_ok ::
  "workspace_id \<Rightarrow> (actor_id, actor) fmap \<Rightarrow> (team_id, team) fmap \<Rightarrow> bool" where
  "teams_ok workspace actors teams \<longleftrightarrow>
     (\<forall>k t. fmlookup teams k = Some t \<longrightarrow>
        t_team_id t = k \<and> t_workspace_id t = workspace \<and> team_validate t = Inr () \<and>
        distinct (t_actors t) \<and> (\<forall>i \<in> set (t_actors t). member_ok actors t i))"

definition lease_ok :: "actor_id option \<Rightarrow> (actor_id, actor) fmap \<Rightarrow> bool" where
  "lease_ok active actors \<longleftrightarrow>
     is_none_or active (\<lambda>i. is_some_and (fmlookup actors i) (\<lambda>a.
       is_primary_topology a \<and> a_status a = ActorHealthy)) \<and>
     (\<forall>i a. fmlookup actors i = Some a \<longrightarrow> is_primary_topology a \<longrightarrow> a_status a = ActorHealthy \<longrightarrow>
        active = Some i)"

definition assignee_ok :: "(actor_id, actor) fmap \<Rightarrow> request \<Rightarrow> bool" where
  "assignee_ok actors q \<longleftrightarrow>
     is_some_and (q_assignment q) (\<lambda>as.
       is_some_and (fmlookup actors (ref_actor_id (as_actor as))) (\<lambda>a.
         a_team_id a = Some (q_team_id q) \<and> has_capability a IMPLEMENTATION_EXECUTION \<and>
         ref_actor_epoch (as_actor as) \<le> a_epoch a))"

text \<open>The review state binds the exact candidate.\<close>

definition review_ok :: "policy_revision \<Rightarrow> request \<Rightarrow> bool" where
  "review_ok policy q \<longleftrightarrow>
     is_none_or (q_candidate q) (\<lambda>c. c_request_id c = q_request_id q) \<and>
     is_none_or (q_decision q) (\<lambda>d.
       q_candidate q = Some (dr_candidate d) \<and> dr_policy_revision d = policy) \<and>
     is_none_or (q_integration_authorization q) (\<lambda>z.
       q_candidate q = Some (ia_candidate z) \<and>
       is_some_and (q_decision q) (\<lambda>d.
         dr_decision_id d = ia_decision_id z \<and> dr_verdict d = VerdictAccepted)) \<and>
     (q_candidate q = None \<longrightarrow>
        q_status q \<notin> {CandidateReady, ChangesRequested, Accepted, IntegrationAuthorized, Completed}) \<and>
     validate_status_review_shape [] q = Inr ()"

definition request_ok ::
  "workspace_id \<Rightarrow> policy_revision \<Rightarrow> (actor_id, actor) fmap \<Rightarrow> (team_id, team) fmap \<Rightarrow>
   (run_id, run) fmap \<Rightarrow> request_id \<Rightarrow> request \<Rightarrow> bool" where
  "request_ok workspace policy actors teams runs k q \<longleftrightarrow>
     q_request_id q = k \<and> q_workspace_id q = workspace \<and> q_status q \<noteq> Open \<and>
     is_some_and (fmlookup teams (q_team_id q)) (\<lambda>t. q_team_epoch q \<le> t_epoch t) \<and>
     is_some_and (fmlookup runs (q_run_id q)) (\<lambda>r. run_matches_request r q) \<and>
     assignee_ok actors q \<and> review_ok policy q"

definition run_ok ::
  "workspace_id \<Rightarrow> (request_id, request) fmap \<Rightarrow> run_id \<Rightarrow> run \<Rightarrow> bool" where
  "run_ok workspace requests j r \<longleftrightarrow>
     r_run_id r = j \<and> r_workspace_id r = workspace \<and>
     is_some_and (fmlookup requests (r_request_id r)) (\<lambda>q. q_run_id q = j)"

definition work_ok ::
  "workspace_id \<Rightarrow> policy_revision \<Rightarrow> (actor_id, actor) fmap \<Rightarrow> (team_id, team) fmap \<Rightarrow>
   (request_id, request) fmap \<Rightarrow> (run_id, run) fmap \<Rightarrow> bool" where
  "work_ok workspace policy actors teams requests runs \<longleftrightarrow>
     (\<forall>k q. fmlookup requests k = Some q \<longrightarrow> request_ok workspace policy actors teams runs k q) \<and>
     (\<forall>j r. fmlookup runs j = Some r \<longrightarrow> run_ok workspace requests j r)"

section \<open>Monotonicity\<close>

lemma actor_le_capability: "actor_le a b \<Longrightarrow> has_capability b c = has_capability a c"
  by (auto simp: actor_le_def intro!: has_capability_cong)

lemma assignee_ok_mono:
  assumes "fm_le actor_le actors actors'" and "assignee_ok actors q"
  shows "assignee_ok actors' q"
proof -
  from assms(2) obtain as a where as: "q_assignment q = Some as"
    and a: "fmlookup actors (ref_actor_id (as_actor as)) = Some a" "a_team_id a = Some (q_team_id q)"
      "has_capability a IMPLEMENTATION_EXECUTION" "ref_actor_epoch (as_actor as) \<le> a_epoch a"
    by (auto simp: assignee_ok_def is_some_and_iff)
  then obtain a' where "fmlookup actors' (ref_actor_id (as_actor as)) = Some a'" "actor_le a a'"
    using assms(1) by (auto simp: fm_le_def)
  with as a show ?thesis
    by (auto simp: assignee_ok_def actor_le_capability) (auto simp: actor_le_def)
qed

lemma work_ok_mono:
  assumes "work_ok workspace policy actors teams requests runs"
    and "fm_le actor_le actors actors'" and "fm_le team_le teams teams'"
  shows "work_ok workspace policy actors' teams' requests runs"
proof -
  have "request_ok workspace policy actors' teams' runs k q"
    if q: "request_ok workspace policy actors teams runs k q" for k q
  proof -
    from q obtain t where "fmlookup teams (q_team_id q) = Some t" "q_team_epoch q \<le> t_epoch t"
      by (auto simp: request_ok_def is_some_and_iff)
    moreover from this assms(3) obtain t' where "fmlookup teams' (q_team_id q) = Some t'" "team_le t t'"
      by (auto simp: fm_le_def)
    ultimately have "is_some_and (fmlookup teams' (q_team_id q)) (\<lambda>t. q_team_epoch q \<le> t_epoch t)"
      by (auto simp: team_le_def)
    with q show ?thesis
      using assignee_ok_mono [OF assms(2)] by (simp add: request_ok_def)
  qed
  with assms(1) show ?thesis
    by (simp add: work_ok_def)
qed

section \<open>The message handlers keep the work invariant\<close>

lemma shape_simp:
  "validate_status_review_shape path q = Inr () \<longleftrightarrow>
     (case q_status q of
        CandidateReady \<Rightarrow> q_decision q = None \<and> q_integration_authorization q = None
      | ChangesRequested \<Rightarrow>
          map_option dr_verdict (q_decision q) = Some VerdictRejected \<and>
          q_integration_authorization q = None
      | Accepted \<Rightarrow>
          map_option dr_verdict (q_decision q) = Some VerdictAccepted \<and>
          q_integration_authorization q = None
      | IntegrationAuthorized \<Rightarrow>
          map_option dr_verdict (q_decision q) = Some VerdictAccepted \<and>
          q_integration_authorization q \<noteq> None
      | Completed \<Rightarrow>
          map_option dr_verdict (q_decision q) = Some VerdictAccepted \<and>
          q_integration_authorization q \<noteq> None
      | _ \<Rightarrow> True)"
  by (cases "q_status q")
    (simp_all add: validate_status_review_shape_def require_def invalid_snapshot_def)

lemma submitted_candidate_request:
  assumes "envelope_validate env = Inr ()" and "e_request_id env = Some k"
    and "message_candidate (e_message env) = Some c"
  shows "c_request_id c = k"
  using assms by (auto simp: envelope_validate_def result_simps split: option.splits if_splits)

lemma pair_step_review_ok:
  assumes "pair_step s env a digest (q, r, h) (q', r', h')"
    and "review_ok (s_policy_revision s) q" and "envelope_validate env = Inr ()"
    and "e_request_id env = Some (q_request_id q)"
  shows "review_ok (s_policy_revision s) q'"
  using assms
proof (cases rule: pair_step.cases)
  case (submit c ready depth qs rs)
  then show ?thesis
    using submitted_candidate_request [OF assms(3,4)] transition_request_target [OF submit(13)]
    by (simp add: review_ok_def shape_simp submit_candidate_def)
next
  case (start qs rs)
  then show ?thesis
    using assms(2) transition_request_target [OF start(4)] by (simp add: review_ok_def shape_simp)
next
  case (block qs rs)
  then show ?thesis
    using assms(2) transition_request_target [OF block(4)] by (simp add: review_ok_def shape_simp)
next
  case (pause rs)
  then show ?thesis
    using assms(2) by simp
next
  case (cancel qs rs epoch)
  then show ?thesis
    using assms(2) transition_request_target [OF cancel(4)] by (simp add: review_ok_def shape_simp)
next
  case (reject d qs rs rejections)
  then show ?thesis
    using assms(2) transition_request_target [OF reject(10)]
    by (simp add: review_ok_def shape_simp decide_def)
next
  case (accept d qs rs epoch)
  then show ?thesis
    using assms(2) transition_request_target [OF accept(10)]
    by (simp add: review_ok_def shape_simp decide_def)
next
  case (authorize z d qs rs)
  then show ?thesis
    using assms(2) transition_request_target [OF authorize(10)]
    by (auto simp: review_ok_def shape_simp)
next
  case (complete z complete qs rs)
  then have "q_status q = IntegrationAuthorized \<or> q_status q = Completed"
    by (auto simp: transition_request_def Let_def split: if_splits)
  then show ?thesis
    using complete assms(2) transition_request_target [OF complete(7)]
    by (auto simp: review_ok_def shape_simp)
next
  case (move acceptance hid p to assignment next_epoch epoch)
  then show ?thesis
    using assms(2) by (simp add: review_ok_def shape_simp cong: request_status.case_cong)
qed

text \<open>What admission establishes about the sender and the envelope's team fence.\<close>

definition admitted :: "supervisor \<Rightarrow> envelope \<Rightarrow> actor \<Rightarrow> bool" where
  "admitted s env a \<longleftrightarrow>
     fmlookup (s_actors s) (ref_actor_id (e_sender env)) = Some a \<and>
     (\<forall>team epoch. e_team_id env = Some team \<longrightarrow> e_team_epoch env = Some epoch \<longrightarrow>
        is_some_and (fmlookup (s_teams s) team) (\<lambda>t. epoch \<le> t_epoch t))"

lemma ensure_team_fence_Inr:
  assumes "ensure_team_fence s env a team t = Inr b"
  shows "b = a" and "a_team_id a \<noteq> None \<Longrightarrow> t_status t \<notin> {TeamPaused, TeamClosed, TeamRetired}"
    and "e_team_epoch env = Some (t_epoch t) \<or>
         a_team_id a = None \<and> historical_request_epoch s env team t = e_team_epoch env \<and>
         is_some_and (e_team_epoch env) (\<lambda>epoch. epoch < t_epoch t)"
  using assms by (auto simp: ensure_team_fence_def Let_def ebind_Inr_iff split: if_splits)

lemma authorize_envelope_Inr:
  assumes "authorize_envelope s env = Inr a"
  shows "e_policy_revision env = s_policy_revision s" and "e_primary_epoch env = s_primary_epoch s"
    and "fmlookup (s_actors s) (ref_actor_id (e_sender env)) = Some a"
    and "a_epoch a = ref_actor_epoch (e_sender env)" and "a_status a = ActorHealthy"
    and "a_team_id a \<noteq> None \<Longrightarrow> a_team_id a = e_team_id env"
    and "\<And>team. e_team_id env = Some team \<Longrightarrow>
           \<exists>t. fmlookup (s_teams s) team = Some t \<and> ensure_team_fence s env a team t = Inr a"
proof -
  from assms obtain b where b: "e_policy_revision env = s_policy_revision s"
      "e_primary_epoch env = s_primary_epoch s" "current_actor s (e_sender env) = Inr b"
      "a_status b = ActorHealthy" "a_team_id b = None \<or> a_team_id b = e_team_id env"
    and rest: "(case e_team_id env of None \<Rightarrow> Inr b
      | Some team_id \<Rightarrow> ebind (ok_or (fmlookup (s_teams s) team_id) (Err (UnknownTeam team_id)))
            (ensure_team_fence s env b team_id)) = Inr a"
    by (auto simp: authorize_envelope_def ebind_Inr_iff split: if_splits)
  have "b = a"
    using rest ensure_team_fence_Inr(1) by (fastforce simp: ebind_Inr_iff split: option.splits)
  with b rest show "e_policy_revision env = s_policy_revision s" "e_primary_epoch env = s_primary_epoch s"
      "fmlookup (s_actors s) (ref_actor_id (e_sender env)) = Some a"
      "a_epoch a = ref_actor_epoch (e_sender env)" "a_status a = ActorHealthy"
      "a_team_id a \<noteq> None \<Longrightarrow> a_team_id a = e_team_id env"
    by (auto simp: current_actor_def ebind_Inr_iff ok_or_Inr_iff split: if_splits)
  show "\<exists>t. fmlookup (s_teams s) team = Some t \<and> ensure_team_fence s env a team t = Inr a"
    if "e_team_id env = Some team" for team
    using rest that \<open>b = a\<close> by (auto simp: ebind_Inr_iff ok_or_Inr_iff)
qed

lemma authorize_admitted:
  assumes "authorize_envelope s env = Inr a"
  shows "admitted s env a"
  unfolding admitted_def
proof (intro conjI allI impI)
  show "fmlookup (s_actors s) (ref_actor_id (e_sender env)) = Some a"
    by (rule authorize_envelope_Inr(3) [OF assms])
  fix team epoch
  assume "e_team_id env = Some team" and e: "e_team_epoch env = Some epoch"
  then obtain t where t: "fmlookup (s_teams s) team = Some t" "ensure_team_fence s env a team t = Inr a"
    using authorize_envelope_Inr(7) [OF assms] by blast
  then show "is_some_and (fmlookup (s_teams s) team) (\<lambda>t. epoch \<le> t_epoch t)"
    using ensure_team_fence_Inr(3) [OF t(2)] e by auto
qed

lemma pair_step_identity:
  assumes "pair_step s env a digest (q, r, h) (q', r', h')"
  shows "q_request_id q' = q_request_id q" "q_run_id q' = q_run_id q"
    "q_workspace_id q' = q_workspace_id q" "r_run_id r' = r_run_id r"
    "r_request_id r' = r_request_id r" "r_workspace_id r' = r_workspace_id r"
  using assms by (cases rule: pair_step.cases; simp add: submit_candidate_def decide_def)+

lemma pair_step_matches:
  assumes "pair_step s env a digest (q, r, h) (q', r', h')" and "run_matches_request r q"
  shows "run_matches_request r' q'"
  using assms
  by (cases rule: pair_step.cases)
    (auto simp: run_matches_request_def submit_candidate_def decide_def
      intro: pause_matches paired_transition_matches simp: paired_events_def)

lemma pair_step_status:
  assumes "pair_step s env a digest (q, r, h) (q', r', h')" and "q_status q \<noteq> Open"
  shows "q_status q' \<noteq> Open"
  using assms
  by (cases rule: pair_step.cases)
    (auto simp: submit_candidate_def decide_def dest!: transition_request_target)

lemma pair_step_team:
  assumes "pair_step s env a digest (q, r, h) (q', r', h')" and "admitted s env a"
    and "is_some_and (fmlookup (s_teams s) (q_team_id q)) (\<lambda>t. q_team_epoch q \<le> t_epoch t)"
  shows "is_some_and (fmlookup (s_teams s) (q_team_id q')) (\<lambda>t. q_team_epoch q' \<le> t_epoch t)"
  using assms
  by (cases rule: pair_step.cases) (auto simp: submit_candidate_def decide_def admitted_def)

lemma pair_step_assignee:
  assumes "pair_step s env a digest (q, r, h) (q', r', h')" and "admitted s env a"
    and "actors_ok workspace (s_actors s) (s_teams s)" and "assignee_ok (s_actors s) q"
  shows "assignee_ok (s_actors s) q'"
  using assms
  by (cases rule: pair_step.cases)
    (auto simp: assignee_ok_def submit_candidate_def decide_def admitted_def actors_ok_def)

text \<open>Writing a request together with its own run keeps the pairing of all the others.\<close>

lemma work_ok_pair:
  assumes ok: "work_ok workspace policy actors teams requests runs"
    and q: "fmlookup requests k = Some q" and r: "fmlookup runs (q_run_id q) = Some r"
    and q': "request_ok workspace policy actors teams (fmupd (q_run_id q) r' runs) k q'"
    and id: "q_run_id q' = q_run_id q" "r_run_id r' = r_run_id r"
      "r_request_id r' = r_request_id r" "r_workspace_id r' = r_workspace_id r"
  shows "work_ok workspace policy actors teams (fmupd k q' requests) (fmupd (q_run_id q) r' runs)"
proof -
  have "request_ok workspace policy actors teams runs k q"
    using ok q by (simp add: work_ok_def)
  with ok r have r_ok: "run_ok workspace requests (q_run_id q) r" "r_request_id r = k"
    by (simp_all add: work_ok_def request_ok_def run_matches_request_def)
  have other: "request_ok workspace policy actors teams (fmupd (q_run_id q) r' runs) i p"
    if p: "fmlookup requests i = Some p" and i: "i \<noteq> k" for i p
  proof -
    from ok p have p_ok: "request_ok workspace policy actors teams runs i p"
      by (simp add: work_ok_def)
    then have "q_run_id p \<noteq> q_run_id q"
      using i r r_ok(2) by (auto simp: request_ok_def run_matches_request_def)
    with p_ok show ?thesis
      by (simp add: request_ok_def)
  qed
  have runs: "run_ok workspace (fmupd k q' requests) j p" if "run_ok workspace requests j p" for j p
    using that q id(1) by (auto simp: run_ok_def is_some_and_iff)
  moreover have "run_ok workspace requests (q_run_id q) r'"
    using r_ok(1) id by (simp add: run_ok_def)
  ultimately show ?thesis
    using ok q' other by (auto simp: work_ok_def)
qed

lemma work_step_work_ok:
  assumes "work_step s env a digest s'" and adm: "admitted s env a"
    and acts: "actors_ok (s_workspace_id s) (s_actors s) (s_teams s)"
    and valid: "envelope_validate env = Inr ()"
    and ok: "work_ok (s_workspace_id s) (s_policy_revision s) (s_actors s) (s_teams s)
               (s_requests s) (s_runs s)"
  shows "work_ok (s_workspace_id s) (s_policy_revision s) (s_actors s) (s_teams s)
           (s_requests s') (s_runs s')"
  using assms(1)
proof (cases rule: work_step.cases)
  case (changed q r q' r' h')
  have keys: "work_keys s"
    using ok by (auto simp: work_keys_def work_ok_def request_ok_def)
  note look = request_context_lookup [OF keys changed(2)]
  have q: "request_ok (s_workspace_id s) (s_policy_revision s) (s_actors s) (s_teams s) (s_runs s)
             (q_request_id q) q"
    using ok look(1) by (simp add: work_ok_def)
  have r: "run_ok (s_workspace_id s) (s_requests s) (q_run_id q) r" "run_matches_request r q"
    using ok changed(3) q by (auto simp: work_ok_def request_ok_def)
  note id = pair_step_identity [OF changed(4)]
  have q': "request_ok (s_workspace_id s) (s_policy_revision s) (s_actors s) (s_teams s)
              (fmupd (q_run_id q) r' (s_runs s)) (q_request_id q) q'"
    using q r(2) pair_step_review_ok [OF changed(4) _ valid look(2)] pair_step_status [OF changed(4)]
      pair_step_team [OF changed(4) adm] pair_step_assignee [OF changed(4) adm acts]
      pair_step_matches [OF changed(4)]
    by (simp add: request_ok_def id)
  show ?thesis
    unfolding changed(1) using work_ok_pair [OF ok look(1) changed(3) q'] id by simp
next
  case (created k j team epoch target b sp assignment)
  let ?q = "new_request s k j team epoch sp assignment" and ?r = "new_run s k j team epoch assignment"
  have fresh: "fmlookup (s_requests s) k = None" "fmlookup (s_runs s) j = None"
    using created by (simp_all add: fmhas_def)
  have b: "a_actor_id b = target"
    using acts created by (auto simp: actors_ok_def)
  have "request_ok (s_workspace_id s) (s_policy_revision s) (s_actors s) (s_teams s)
          (fmupd j ?r (s_runs s)) k ?q"
    using created adm b initial_status_matches(3)
    by (auto simp: request_ok_def new_request_def new_run_def run_matches_request_def assignee_ok_def
        review_ok_def shape_simp admitted_def)
  moreover have "q_run_id p \<noteq> j" if "fmlookup (s_requests s) i = Some p" for i p
    using ok that fresh(2) by (force simp: work_ok_def request_ok_def)
  moreover have "r_request_id r \<noteq> k" if "fmlookup (s_runs s) i = Some r" for i r
    using ok that fresh(1) by (force simp: work_ok_def run_ok_def)
  ultimately show ?thesis
    using ok by (auto simp: created(1) work_ok_def run_ok_def request_ok_def new_run_def new_request_def)
qed (use ok in simp_all)

end
