(* ===== verification/Membership_Invariants.thy ===== *)
theory Membership_Invariants
  imports Invariants
begin

text \<open>The membership operations keep the invariants of members, lease and work.\<close>

section \<open>Stability\<close>

lemma team_profile_matches_cong:
  "a_profile b = a_profile a \<Longrightarrow> t_profile u = t_profile t \<Longrightarrow>
   team_profile_matches_actor u b = team_profile_matches_actor t a"
  by (simp add: team_profile_matches_actor_def)

lemma member_ok_mono:
  assumes "fm_le actor_le actors actors'" and "member_ok actors t i"
    and "t_team_id u = t_team_id t" and "t_profile u = t_profile t"
  shows "member_ok actors' u i"
proof -
  from assms(2) obtain a where a: "fmlookup actors i = Some a" "a_team_id a = Some (t_team_id t)"
      "team_profile_matches_actor t a"
    by (auto simp: member_ok_def is_some_and_iff)
  with assms(1) obtain a' where a': "fmlookup actors' i = Some a'" "actor_le a a'"
    by (auto simp: fm_le_def)
  have "team_profile_matches_actor u a'"
    using team_profile_matches_cong [of a' a u t] a(3) a'(2) assms(4) by (simp add: actor_le_def)
  with a a' assms(3) show ?thesis
    by (simp add: member_ok_def actor_le_def)
qed

lemma teams_ok_mono:
  assumes "fm_le actor_le actors actors'" and "teams_ok workspace actors teams"
  shows "teams_ok workspace actors' teams"
  unfolding teams_ok_def
proof (intro allI impI)
  fix k t assume "fmlookup teams k = Some t"
  with assms(2) have "t_team_id t = k \<and> t_workspace_id t = workspace \<and> team_validate t = Inr () \<and>
        distinct (t_actors t) \<and> (\<forall>i \<in> set (t_actors t). member_ok actors t i)"
    by (simp add: teams_ok_def)
  then show "t_team_id t = k \<and> t_workspace_id t = workspace \<and> team_validate t = Inr () \<and>
        distinct (t_actors t) \<and> (\<forall>i \<in> set (t_actors t). member_ok actors' t i)"
    using member_ok_mono [OF assms(1)] by blast
qed

lemma actors_ok_teams_mono:
  assumes "actors_ok workspace actors teams" and "fm_le team_le teams teams'"
  shows "actors_ok workspace actors teams'"
  using assms by (fastforce simp: actors_ok_def fm_le_def is_none_or_iff fmhas_def)

lemma actor_validate_cong:
  "a_role b = a_role a \<Longrightarrow> a_profile b = a_profile a \<Longrightarrow> a_team_id b = a_team_id a \<Longrightarrow>
   actor_validate b = actor_validate a"
  by (simp add: actor_validate_def)

lemma healthy_actor_simps [simp]:
  "a_actor_id (healthy_actor w i team role profile e) = i"
  "a_workspace_id (healthy_actor w i team role profile e) = w"
  "a_team_id (healthy_actor w i team role profile e) = team"
  "a_role (healthy_actor w i team role profile e) = role"
  "a_profile (healthy_actor w i team role profile e) = profile"
  "a_epoch (healthy_actor w i team role profile e) = e"
  "a_status (healthy_actor w i team role profile e) = ActorHealthy"
  by (simp_all add: healthy_actor_def)

lemma actor_validate_epoch:
  "actor_validate (healthy_actor w i team role profile EPOCH_INITIAL) = res \<Longrightarrow>
   actor_validate (healthy_actor w i team role profile e) = res"
  by (subst actor_validate_cong [of _ "healthy_actor w i team role profile EPOCH_INITIAL"]) simp_all

lemma actors_ok_upd:
  assumes "actors_ok workspace actors teams" and "a_actor_id a = i" and "a_workspace_id a = workspace"
    and "actor_validate a = Inr ()" and "is_none_or (a_team_id a) (fmhas teams)"
  shows "actors_ok workspace (fmupd i a actors) teams"
  using assms by (auto simp: actors_ok_def)

lemma actors_ok_modify:
  assumes "actors_ok workspace actors teams"
    and "\<And>a. a_actor_id (f a) = a_actor_id a \<and> a_workspace_id (f a) = a_workspace_id a \<and>
           a_team_id (f a) = a_team_id a \<and> a_role (f a) = a_role a \<and> a_profile (f a) = a_profile a"
  shows "actors_ok workspace (fmmodify i f actors) teams"
proof -
  have "actor_validate (f a) = actor_validate a" for a
    using assms(2) by (intro actor_validate_cong) simp_all
  with assms show ?thesis
    by (auto simp: actors_ok_def)
qed

lemma is_primary_topology_cong:
  "a_role b = a_role a \<Longrightarrow> a_profile b = a_profile a \<Longrightarrow> a_team_id b = a_team_id a \<Longrightarrow>
   is_primary_topology b = is_primary_topology a"
  using has_capability_cong [of b a] by (auto simp: is_primary_topology_def)

lemma is_primary_topology_updates [simp]:
  "is_primary_topology (a\<lparr>a_status := st\<rparr>) = is_primary_topology a"
  "is_primary_topology (a\<lparr>a_last_heartbeat_at := t\<rparr>) = is_primary_topology a"
  by (rule is_primary_topology_cong; simp)+

section \<open>The combined invariant\<close>

definition supervisor_ok :: "supervisor \<Rightarrow> bool" where
  "supervisor_ok s \<longleftrightarrow>
     actors_ok (s_workspace_id s) (s_actors s) (s_teams s) \<and>
     teams_ok (s_workspace_id s) (s_actors s) (s_teams s) \<and>
     lease_ok (s_active_primary s) (s_actors s) \<and>
     work_ok (s_workspace_id s) (s_policy_revision s) (s_actors s) (s_teams s)
       (s_requests s) (s_runs s)"

lemma wf_work_keys: "supervisor_ok s \<Longrightarrow> work_keys s"
  by (auto simp: supervisor_ok_def work_ok_def request_ok_def work_keys_def)

lemma wf_actors_keyed: "supervisor_ok s \<Longrightarrow> actors_keyed s"
  by (auto simp: supervisor_ok_def actors_ok_def actors_keyed_def)

lemma wf_cong:
  assumes "supervisor_ok s" and "s_workspace_id s' = s_workspace_id s" and "s_actors s' = s_actors s"
    and "s_teams s' = s_teams s" and "s_active_primary s' = s_active_primary s"
    and "s_policy_revision s' = s_policy_revision s" and "s_requests s' = s_requests s"
    and "s_runs s' = s_runs s"
  shows "supervisor_ok s'"
  using assms by (simp add: supervisor_ok_def)

lemma wf_new: "supervisor_ok (supervisor_new workspace policy)"
  by (simp add: supervisor_ok_def supervisor_new_def actors_ok_def teams_ok_def lease_ok_def work_ok_def)

lemma wf_work_mono:
  assumes "supervisor_ok s" and "grows s s'" and "s_requests s' = s_requests s" and "s_runs s' = s_runs s"
  shows "work_ok (s_workspace_id s') (s_policy_revision s') (s_actors s') (s_teams s')
           (s_requests s') (s_runs s')"
  using assms work_ok_mono by (auto simp: supervisor_ok_def grows_def)

text \<open>An operation that leaves requests and runs alone has to account for members and lease.\<close>

lemma wf_grown:
  assumes "supervisor_ok s" and "grows s s'" and "s_requests s' = s_requests s" and "s_runs s' = s_runs s"
    and "actors_ok (s_workspace_id s) (s_actors s') (s_teams s')"
    and "teams_ok (s_workspace_id s) (s_actors s') (s_teams s')"
    and "lease_ok (s_active_primary s') (s_actors s')"
  shows "supervisor_ok s'"
proof -
  have "s_workspace_id s' = s_workspace_id s"
    using assms(2) by (simp add: grows_def)
  then show ?thesis
    unfolding supervisor_ok_def using assms(5-7) wf_work_mono [OF assms(1-4)] by simp
qed

lemma wf_grown_same_teams:
  assumes "supervisor_ok s" and "grows s s'" and "s_requests s' = s_requests s" and "s_runs s' = s_runs s"
    and "s_teams s' = s_teams s" and "actors_ok (s_workspace_id s) (s_actors s') (s_teams s)"
    and "lease_ok (s_active_primary s') (s_actors s')"
  shows "supervisor_ok s'"
proof (rule wf_grown [OF assms(1-4)])
  have "fm_le actor_le (s_actors s) (s_actors s')" "teams_ok (s_workspace_id s) (s_actors s) (s_teams s)"
    using assms(1,2) by (simp_all add: grows_def supervisor_ok_def)
  then show "teams_ok (s_workspace_id s) (s_actors s') (s_teams s')"
    unfolding assms(5) by (rule teams_ok_mono)
qed (use assms in simp_all)

section \<open>Primary lease\<close>

lemma record_anchor_simps [simp]:
  "s_workspace_id (record_actor_generation_anchor s ref team) = s_workspace_id s"
  "s_policy_revision (record_actor_generation_anchor s ref team) = s_policy_revision s"
  "s_primary_epoch (record_actor_generation_anchor s ref team) = s_primary_epoch s"
  "s_active_primary (record_actor_generation_anchor s ref team) = s_active_primary s"
  "s_actors (record_actor_generation_anchor s ref team) = s_actors s"
  "s_teams (record_actor_generation_anchor s ref team) = s_teams s"
  "s_requests (record_actor_generation_anchor s ref team) = s_requests s"
  "s_runs (record_actor_generation_anchor s ref team) = s_runs s"
  "s_mailbox (record_actor_generation_anchor s ref team) = s_mailbox s"
  "s_handoffs (record_actor_generation_anchor s ref team) = s_handoffs s"
  "s_audit (record_actor_generation_anchor s ref team) = s_audit s"
  "s_history_checkpoint (record_actor_generation_anchor s ref team) = s_history_checkpoint s"
  by (simp_all add: record_actor_generation_anchor_def Let_def)

lemma mark_activity_simps [simp]:
  "s_workspace_id (mark_team_activity s team) = s_workspace_id s"
  "s_policy_revision (mark_team_activity s team) = s_policy_revision s"
  "s_primary_epoch (mark_team_activity s team) = s_primary_epoch s"
  "s_active_primary (mark_team_activity s team) = s_active_primary s"
  "s_actors (mark_team_activity s team) = s_actors s"
  "s_teams (mark_team_activity s team) = s_teams s"
  "s_requests (mark_team_activity s team) = s_requests s"
  "s_runs (mark_team_activity s team) = s_runs s"
  "s_mailbox (mark_team_activity s team) = s_mailbox s"
  "s_handoffs (mark_team_activity s team) = s_handoffs s"
  "s_audit (mark_team_activity s team) = s_audit s"
  "s_history_checkpoint (mark_team_activity s team) = s_history_checkpoint s"
  by (simp_all add: mark_team_activity_def)

text \<open>Revoking the previous holder and installing the next one keeps the lease exclusive.\<close>

lemma lease_ok_handover:
  assumes "lease_ok active actors" and "is_primary_topology a" and "a_status a = ActorHealthy"
    and "\<And>b. is_primary_topology (f b) = is_primary_topology b"
    and "\<And>b. a_status (f b) \<noteq> ActorHealthy"
    and "actors' = (case active of None \<Rightarrow> actors | Some previous \<Rightarrow> fmmodify previous f actors)"
  shows "lease_ok (Some i) (fmupd i a actors')"
  using assms by (auto simp: lease_ok_def is_none_or_iff split: option.splits if_splits)

lemma install_primary_wf:
  assumes ok: "supervisor_ok s" and rep: "lease_replacement s = Inr replacement"
    and a: "a_actor_id a = i" "a_workspace_id a = s_workspace_id s" "actor_validate a = Inr ()"
      "a_status a = ActorHealthy" "is_primary_topology a"
    and le: "is_none_or (fmlookup (s_actors s) i) (\<lambda>b. actor_le b a)"
  shows "supervisor_ok (install_primary s replacement i a)"
proof -
  let ?s' = "install_primary s replacement i a"
  have g: "grows s ?s'"
    by (rule install_primary_grows [OF le rep])
  have team: "a_team_id a = None"
    using a(5) by (simp add: is_primary_topology_def)
  have "actors_ok (s_workspace_id s) (s_actors ?s') (s_teams s)"
    using ok a team by (auto simp: supervisor_ok_def split: option.splits intro!: actors_ok_upd actors_ok_modify)
  moreover have "lease_ok (Some i) (s_actors ?s')"
    using lease_replacement_Inr [OF rep]
  proof (elim disjE exE conjE)
    assume "s_active_primary s = None" "replacement = None"
    with ok a show ?thesis by (auto simp: supervisor_ok_def lease_ok_def)
  next
    fix previous epoch
    assume "s_active_primary s = Some previous" "replacement = Some (previous, ActorRevoked, epoch)"
    moreover have "lease_ok (s_active_primary s) (s_actors s)"
      using ok by (simp add: supervisor_ok_def)
    ultimately show ?thesis
      using lease_ok_handover [of "Some previous" "s_actors s" a "\<lambda>a. a\<lparr>a_status := ActorRevoked\<rparr>"] a
      by simp
  qed
  ultimately show ?thesis
    by (intro wf_grown_same_teams [OF ok g]) simp_all
qed

lemma wf_anchor: "supervisor_ok s \<Longrightarrow> supervisor_ok (record_actor_generation_anchor s ref team)"
  by (rule wf_cong) simp_all

lemma wf_activity: "supervisor_ok s \<Longrightarrow> supervisor_ok (mark_team_activity s team)"
  by (rule wf_cong) simp_all

lemma activate_primary_inner_wf:
  assumes ok: "supervisor_ok s" and app: "activate_primary_inner s i role profile = (Inr ref, s')"
  shows "supervisor_ok s'"
proof (cases "is_some_and (fmlookup (s_actors s) i) (\<lambda>a.
          s_active_primary s = Some i \<and> a_status a = ActorHealthy)")
  case True
  from app have "s' = s"
    unfolding activate_primary_inner_def Let_def if_P [OF True] by (elim attempt_InrE) simp
  with ok show ?thesis by simp
next
  case False
  let ?a = "\<lambda>e. healthy_actor (s_workspace_id s) i None role profile e"
  from app False obtain e replacement where v: "actor_validate (?a EPOCH_INITIAL) = Inr ()"
      "has_capability (?a EPOCH_INITIAL) HUMAN_FACING_PRIMARY"
    and same: "is_none_or (fmlookup (s_actors s) i) (\<lambda>b.
           a_role b = role \<and> a_profile b = profile \<and> a_team_id b = None)"
    and e: "next_actor_epoch s i = Inr e" and rep: "lease_replacement s = Inr replacement"
    and s': "s' = record_actor_generation_anchor (install_primary s replacement i (?a e))
               (ActorRef i e) None"
  proof -
    from app False obtain e replacement and u :: unit and v :: unit and w :: unit where raw:
      "map_err (Err \<circ> Validation) (actor_validate (?a EPOCH_INITIAL)) = Inr u"
      "reject_if (\<not> has_capability (?a EPOCH_INITIAL) HUMAN_FACING_PRIMARY)
         (Err (Unauthorized ''activate Primary without human_facing_primary capability'')) = Inr v"
      "reject_if (is_some_and (fmlookup (s_actors s) i) (\<lambda>a.
         a_role a \<noteq> role \<or> a_profile a \<noteq> profile \<or> a_team_id a \<noteq> None))
         (Err (AlreadyExists ''actor id'')) = Inr w"
      "next_actor_epoch s i = Inr e" "lease_replacement s = Inr replacement"
      "(Inr (ActorRef i e) :: failure + actor_ref, record_actor_generation_anchor (install_primary s replacement i (?a e))
         (ActorRef i e) None) = (Inr ref, s')"
      unfolding activate_primary_inner_def Let_def if_not_P [OF False]
      by (elim attempt_InrE) (rule that, assumption+)
    then show thesis
      by (intro that) (auto simp: result_simps is_none_or_iff is_some_and_iff)
  qed
  have "is_primary_topology (?a e)"
    using v(2) has_capability_cong [of "?a e" "?a EPOCH_INITIAL"] by (simp add: is_primary_topology_def)
  then show ?thesis
    unfolding s' using healthy_actor_le [OF wf_actors_keyed [OF ok] e same] actor_validate_epoch [OF v(1)]
    by (intro wf_anchor install_primary_wf [OF ok rep]) simp_all
qed

section \<open>Teams\<close>

lemma teams_ok_upd:
  assumes "teams_ok workspace actors teams" and "t_team_id t = k" and "t_workspace_id t = workspace"
    and "team_validate t = Inr ()" and "distinct (t_actors t)"
    and "\<forall>i \<in> set (t_actors t). member_ok actors t i"
  shows "teams_ok workspace actors (fmupd k t teams)"
  using assms by (auto simp: teams_ok_def)

lemma teams_ok_lookup:
  assumes "teams_ok workspace actors teams" and "fmlookup teams k = Some t"
  shows "t_team_id t = k" "t_workspace_id t = workspace" "team_validate t = Inr ()"
    "distinct (t_actors t)" "\<And>i. i \<in> set (t_actors t) \<Longrightarrow> member_ok actors t i"
  using assms by (auto simp: teams_ok_def)

text \<open>Changing status or generation, with the roster kept or emptied.\<close>

lemma team_validate_cong:
  "t_profile u = t_profile t \<Longrightarrow> length (t_actors u) \<le> length (t_actors t) \<Longrightarrow>
   team_validate t = Inr () \<Longrightarrow> team_validate u = Inr ()"
  by (auto simp: team_validate_def ebind_Inr_iff validate_count_Inr_iff split: option.splits)

lemma member_ok_cong:
  "t_team_id u = t_team_id t \<Longrightarrow> t_profile u = t_profile t \<Longrightarrow> member_ok actors u i = member_ok actors t i"
  using team_profile_matches_cong [of _ _ u t] by (simp add: member_ok_def)

lemma teams_ok_modify:
  assumes "teams_ok workspace actors teams"
    and "\<And>t. t_team_id (f t) = t_team_id t \<and> t_workspace_id (f t) = t_workspace_id t \<and>
           t_profile (f t) = t_profile t \<and> (t_actors (f t) = t_actors t \<or> t_actors (f t) = [])"
  shows "teams_ok workspace actors (fmmodify k f teams)"
  unfolding teams_ok_def
proof (intro allI impI)
  fix j u assume u: "fmlookup (fmmodify k f teams) j = Some u"
  then obtain t where t: "fmlookup teams j = Some t" "u = t \<or> u = f t"
    by (auto split: if_splits)
  note ok = teams_ok_lookup [OF assms(1) t(1)]
  have same: "t_team_id u = t_team_id t" "t_workspace_id u = t_workspace_id t"
      "t_profile u = t_profile t" "t_actors u = t_actors t \<or> t_actors u = []"
    using t(2) assms(2) [of t] by auto
  then have "team_validate u = Inr ()"
    using ok(3) by (intro team_validate_cong [of u t]) auto
  moreover have "member_ok actors u i" if "i \<in> set (t_actors u)" for i
    using same ok(5) that member_ok_cong [of u t] by auto
  ultimately show "t_team_id u = j \<and> t_workspace_id u = workspace \<and> team_validate u = Inr () \<and>
      distinct (t_actors u) \<and> (\<forall>i \<in> set (t_actors u). member_ok actors u i)"
    using same ok by auto
qed

lemma create_team_inner_wf:
  assumes ok: "supervisor_ok s" and app: "create_team_inner s team profile = (Inr e, s')"
  shows "supervisor_ok s'"
proof (cases "fmlookup (s_teams s) team")
  case None
  from app None obtain v :: unit where
    v: "(case profile of None \<Rightarrow> Inr () | Some p \<Rightarrow> team_profile_validate p) = Inr v"
    and s': "s' = mark_team_activity (s\<lparr>s_teams := fmupd team
           \<lparr>t_team_id = team, t_workspace_id = s_workspace_id s, t_epoch = EPOCH_INITIAL,
            t_status = TeamActive, t_actors = [], t_profile = profile\<rparr> (s_teams s),
         s_nonterminal_request_counts := fmupd team 0 (s_nonterminal_request_counts s)\<rparr>) team"
    by (auto simp: create_team_inner_def Let_def result_simps split: option.splits)
  have g: "grows s s'"
    using create_team_inner_grows [of s team profile] app by simp
  show ?thesis
  proof (rule wf_grown [OF ok g])
    show "actors_ok (s_workspace_id s) (s_actors s') (s_teams s')"
      using ok g actors_ok_teams_mono [of "s_workspace_id s" "s_actors s" "s_teams s" "s_teams s'"]
      by (simp add: s' supervisor_ok_def grows_def)
    show "teams_ok (s_workspace_id s) (s_actors s') (s_teams s')"
      using ok v by (auto simp: s' supervisor_ok_def team_validate_def result_simps split: option.splits
          intro!: teams_ok_upd)
  qed (use ok in \<open>simp_all add: s' supervisor_ok_def\<close>)
next
  case (Some t)
  show ?thesis
  proof (cases "t_status t \<in> {TeamClosed, TeamRetired}")
    case False
    with app Some have "s' = s"
      by (auto simp: create_team_inner_def split: if_splits)
    with ok show ?thesis by simp
  next
    case True
    have g: "grows s s'"
      using create_team_inner_grows [of s team profile] app by simp
    let ?f = "\<lambda>t. t\<lparr>t_epoch := e, t_status := TeamActive, t_actors := []\<rparr>"
    let ?s1 = "supersede_terminal_team_delivery_history s team (t_epoch t)"
    from app Some True have s': "s' = mark_team_activity
        (?s1\<lparr>s_teams := fmmodify team ?f (s_teams ?s1),
           s_nonterminal_request_counts := fmupd team 0 (s_nonterminal_request_counts ?s1)\<rparr>) team"
      by (auto simp: create_team_inner_def Let_def result_simps split: if_splits)
    show ?thesis
    proof (rule wf_grown [OF ok g])
      show "actors_ok (s_workspace_id s) (s_actors s') (s_teams s')"
        using ok g actors_ok_teams_mono [of "s_workspace_id s" "s_actors s" "s_teams s" "s_teams s'"]
        by (simp add: s' supervisor_ok_def grows_def)
      show "teams_ok (s_workspace_id s) (s_actors s') (s_teams s')"
        using ok teams_ok_modify [of "s_workspace_id s" "s_actors s" "s_teams s" ?f]
        by (simp add: s' supervisor_ok_def)
    qed (use ok in \<open>simp_all add: s' supervisor_ok_def\<close>)
  qed
qed

lemma set_team_status_wf:
  assumes ok: "supervisor_ok s" and app: "set_team_status s team status = (Inr u, s')"
  shows "supervisor_ok s'"
proof -
  have g: "grows s s'"
    using set_team_status_grows [of s team status] app by simp
  from app obtain t :: team and st where "(Inr () :: failure + unit,
      if st \<noteq> t_status t
      then mark_team_activity
             (s\<lparr>s_teams := fmmodify team (\<lambda>t. t\<lparr>t_status := st\<rparr>) (s_teams s)\<rparr>) team
      else s\<lparr>s_teams := fmmodify team (\<lambda>t. t\<lparr>t_status := st\<rparr>) (s_teams s)\<rparr>) = (Inr u, s')"
    unfolding set_team_status_def Let_def by (elim attempt_InrE) (rule that, assumption)
  then have s': "s' =
      (if st \<noteq> t_status t
       then mark_team_activity
              (s\<lparr>s_teams := fmmodify team (\<lambda>t. t\<lparr>t_status := st\<rparr>) (s_teams s)\<rparr>) team
       else s\<lparr>s_teams := fmmodify team (\<lambda>t. t\<lparr>t_status := st\<rparr>) (s_teams s)\<rparr>)"
    by simp
  then have teams: "s_teams s' = fmmodify team (\<lambda>t. t\<lparr>t_status := st\<rparr>) (s_teams s)"
    and rest: "s_actors s' = s_actors s" "s_active_primary s' = s_active_primary s"
      "s_requests s' = s_requests s" "s_runs s' = s_runs s"
    by simp_all
  show ?thesis
  proof (rule wf_grown [OF ok g rest(3,4)])
    show "actors_ok (s_workspace_id s) (s_actors s') (s_teams s')"
      using ok g actors_ok_teams_mono [of "s_workspace_id s" "s_actors s" "s_teams s" "s_teams s'"]
      by (simp add: rest supervisor_ok_def grows_def)
    show "teams_ok (s_workspace_id s) (s_actors s') (s_teams s')"
      using ok teams_ok_modify [of "s_workspace_id s" "s_actors s" "s_teams s" "\<lambda>t. t\<lparr>t_status := st\<rparr>"]
      by (simp add: rest teams supervisor_ok_def)
  qed (use ok in \<open>simp_all add: rest supervisor_ok_def\<close>)
qed

section \<open>Actor status\<close>

lemma actors_ok_lookup:
  assumes "actors_ok workspace actors teams" and "fmlookup actors i = Some a"
  shows "a_actor_id a = i" "a_workspace_id a = workspace" "actor_validate a = Inr ()"
    "is_none_or (a_team_id a) (fmhas teams)"
  using assms by (auto simp: actors_ok_def)

lemma lease_okI:
  assumes "\<And>i. active = Some i \<Longrightarrow>
      \<exists>a. fmlookup actors i = Some a \<and> is_primary_topology a \<and> a_status a = ActorHealthy"
    and "\<And>i a. fmlookup actors i = Some a \<Longrightarrow> is_primary_topology a \<Longrightarrow>
      a_status a = ActorHealthy \<Longrightarrow> active = Some i"
  shows "lease_ok active actors"
  using assms by (simp add: lease_ok_def is_none_or_iff is_some_and_iff)

lemma lease_okD:
  assumes "lease_ok active actors"
  shows "active = Some i \<Longrightarrow>
      \<exists>a. fmlookup actors i = Some a \<and> is_primary_topology a \<and> a_status a = ActorHealthy"
    and "fmlookup actors i = Some a \<Longrightarrow> is_primary_topology a \<Longrightarrow> a_status a = ActorHealthy \<Longrightarrow>
      active = Some i"
  using assms by (simp_all add: lease_ok_def is_none_or_iff is_some_and_iff)

lemma lease_ok_modify:
  assumes ok: "lease_ok active actors" and f: "\<And>a. is_primary_topology (f a) = is_primary_topology a"
    "\<And>a. a_status (f a) = a_status a"
  shows "lease_ok active (fmmodify i f actors)"
proof (rule lease_okI)
  fix j assume "active = Some j"
  then obtain a where "fmlookup actors j = Some a" "is_primary_topology a" "a_status a = ActorHealthy"
    using lease_okD(1) [OF ok] by blast
  then show "\<exists>a. fmlookup (fmmodify i f actors) j = Some a \<and> is_primary_topology a \<and>
      a_status a = ActorHealthy"
    using f by (cases "j = i") simp_all
next
  fix j b assume "fmlookup (fmmodify i f actors) j = Some b" "is_primary_topology b"
    "a_status b = ActorHealthy"
  then show "active = Some j"
    using lease_okD(2) [OF ok, of j] f by (cases "j = i") auto
qed

lemma lease_ok_healthy:
  assumes ok: "lease_ok active actors" and a: "fmlookup actors i = Some a"
    and act: "is_primary_topology a \<Longrightarrow> active = Some i"
  shows "lease_ok active (fmmodify i (\<lambda>a. a\<lparr>a_status := ActorHealthy\<rparr>) actors)"
proof (rule lease_okI)
  fix j assume "active = Some j"
  then obtain b where "fmlookup actors j = Some b" "is_primary_topology b" "a_status b = ActorHealthy"
    using lease_okD(1) [OF ok] by blast
  then show "\<exists>a. fmlookup (fmmodify i (\<lambda>a. a\<lparr>a_status := ActorHealthy\<rparr>) actors) j = Some a \<and>
      is_primary_topology a \<and> a_status a = ActorHealthy"
    by (cases "j = i") simp_all
next
  fix j b assume "fmlookup (fmmodify i (\<lambda>a. a\<lparr>a_status := ActorHealthy\<rparr>) actors) j = Some b"
    "is_primary_topology b" "a_status b = ActorHealthy"
  then show "active = Some j"
    using lease_okD(2) [OF ok, of j] a act by (cases "j = i") auto
qed

lemma lease_ok_unhealthy:
  assumes ok: "lease_ok active actors" and st: "st \<noteq> ActorHealthy"
  shows "lease_ok (if active = Some i then None else active)
           (fmmodify i (\<lambda>a. a\<lparr>a_status := st\<rparr>) actors)"
proof (rule lease_okI)
  fix j assume "(if active = Some i then None else active) = Some j"
  then have "active = Some j" "j \<noteq> i"
    by (auto split: if_splits)
  then show "\<exists>a. fmlookup (fmmodify i (\<lambda>a. a\<lparr>a_status := st\<rparr>) actors) j = Some a \<and>
      is_primary_topology a \<and> a_status a = ActorHealthy"
    using lease_okD(1) [OF ok] by simp
next
  fix j b assume b: "fmlookup (fmmodify i (\<lambda>a. a\<lparr>a_status := st\<rparr>) actors) j = Some b"
    "is_primary_topology b" "a_status b = ActorHealthy"
  then have "j \<noteq> i"
    using st by auto
  with b lease_okD(2) [OF ok, of j b] show "(if active = Some i then None else active) = Some j"
    by simp
qed

lemma set_actor_status_wf:
  assumes ok: "supervisor_ok s" and app: "set_actor_status s ref status = (Inr u, s')"
  shows "supervisor_ok s'"
proof -
  let ?i = "ref_actor_id ref"
  from app obtain a e where a: "fmlookup (s_actors s) ?i = Some a"
    and act: "\<not> (is_primary_topology a \<and> status = ActorHealthy \<and> s_active_primary s \<noteq> Some (a_actor_id a))"
    and e: "(if s_active_primary s = Some (a_actor_id a) \<and> status \<noteq> ActorHealthy
      then ebind (ok_or (checked_next (s_primary_epoch s)) (Err EpochExhausted)) (\<lambda>epoch. Inr (Some epoch))
      else Inr None) = Inr e"
    and s': "s' = (let s1 = s\<lparr>s_actors := fmmodify ?i (\<lambda>a. a\<lparr>a_status := status\<rparr>) (s_actors s)\<rparr>
       in case e of None \<Rightarrow> s1 | Some epoch \<Rightarrow> s1\<lparr>s_primary_epoch := epoch, s_active_primary := None\<rparr>)"
  proof -
    from app obtain a st e and v :: unit where raw: "current_actor s ref = Inr a"
        "reject_if (has_capability a HUMAN_FACING_PRIMARY \<and> a_team_id a = None \<and>
           status = ActorHealthy \<and> s_active_primary s \<noteq> Some (a_actor_id a))
           (Err (Unauthorized ''activate Primary before marking it healthy'')) = Inr v"
        "map_err Err (transition_actor (a_status a) status) = Inr st"
        "(if s_active_primary s = Some (a_actor_id a) \<and> st \<noteq> ActorHealthy
          then ebind (ok_or (checked_next (s_primary_epoch s)) (Err EpochExhausted))
                 (\<lambda>epoch. Inr (Some epoch)) else Inr None) = Inr e"
        "(Inr () :: failure + unit, case e of
           None \<Rightarrow> s\<lparr>s_actors := fmmodify ?i (\<lambda>a. a\<lparr>a_status := st\<rparr>) (s_actors s)\<rparr>
         | Some epoch \<Rightarrow> (s\<lparr>s_actors := fmmodify ?i (\<lambda>a. a\<lparr>a_status := st\<rparr>) (s_actors s)\<rparr>)
             \<lparr>s_primary_epoch := epoch, s_active_primary := None\<rparr>) = (Inr u, s')"
      unfolding set_actor_status_def Let_def by (elim attempt_InrE) (rule that, assumption+)
    have st: "st = status"
      using raw(3) by (auto simp: result_simps dest: transition_actor_Inr)
    show thesis
      using raw unfolding st
      by (intro that [of a e])
        (auto simp: current_actor_def result_simps is_primary_topology_def Let_def split: if_splits)
  qed
  have id: "a_actor_id a = ?i"
    using ok a by (auto simp: supervisor_ok_def dest: actors_ok_lookup)
  have g: "grows s s'"
    using set_actor_status_grows [of s ref status] app by simp
  have actors: "s_actors s' = fmmodify ?i (\<lambda>a. a\<lparr>a_status := status\<rparr>) (s_actors s)"
    and rest: "s_requests s' = s_requests s" "s_runs s' = s_runs s" "s_teams s' = s_teams s"
      "s_active_primary s' = (if e = None then s_active_primary s else None)"
    by (auto simp: s' Let_def split: option.splits)
  have "lease_ok (s_active_primary s) (s_actors s)"
    using ok by (simp add: supervisor_ok_def)
  then have "lease_ok (s_active_primary s') (s_actors s')"
  proof (cases "status = ActorHealthy")
    case True
    with e have "e = None" by simp
    with \<open>lease_ok _ _\<close> a act id True show ?thesis
      by (simp add: actors rest lease_ok_healthy)
  next
    case False
    with e id have "(if e = None then s_active_primary s else None) =
        (if s_active_primary s = Some ?i then None else s_active_primary s)"
      by (auto simp: result_simps split: if_splits)
    with \<open>lease_ok _ _\<close> False show ?thesis
      by (simp only: actors rest lease_ok_unhealthy not_False_eq_True)
  qed
  moreover have "actors_ok (s_workspace_id s) (s_actors s') (s_teams s)"
    using ok unfolding actors by (intro actors_ok_modify) (simp_all add: supervisor_ok_def)
  ultimately show ?thesis
    by (intro wf_grown_same_teams [OF ok g rest(1,2,3)])
qed

lemma heartbeat_wf:
  assumes ok: "supervisor_ok s" and app: "heartbeat s ref at = (Inr u, s')"
  shows "supervisor_ok s'"
proof -
  from app obtain s1 f where s1: "set_actor_status s ref ActorHealthy = (Inr (), s1)"
    and s': "s' = s1\<lparr>s_actors := fmmodify (ref_actor_id ref) (\<lambda>a. a\<lparr>a_last_heartbeat_at := f a\<rparr>) (s_actors s1)\<rparr>"
    by (auto simp: heartbeat_def result_simps)
  have ok1: "supervisor_ok s1"
    by (rule set_actor_status_wf [OF ok s1])
  have "lease_ok (s_active_primary s1) (s_actors s1)"
    using ok1 by (simp add: supervisor_ok_def)
  then have "lease_ok (s_active_primary s') (s_actors s')"
    by (simp add: s' lease_ok_modify)
  moreover have "actors_ok (s_workspace_id s1) (s_actors s') (s_teams s1)"
    using ok1 unfolding s' by (simp add: supervisor_ok_def actors_ok_modify)
  moreover have "grows s1 s'"
    unfolding s' by (intro grows_actor_modify) (simp add: actor_le_def)
  ultimately show ?thesis
    by (intro wf_grown_same_teams [OF ok1]) (simp_all add: s')
qed

end
