(* ===== verification/Registration_Invariants.thy ===== *)
theory Registration_Invariants
  imports Membership_Invariants
begin

text \<open>Registering and replacing implementation actors keep the invariants.\<close>

section \<open>Roster changes\<close>

lemma ensure_team_profile_actor_matches:
  "ensure_team_profile_actor t profile = Inr u \<Longrightarrow> a_profile a = profile \<Longrightarrow>
   team_profile_matches_actor t a"
  by (auto simp: ensure_team_profile_actor_def team_profile_matches_actor_def
      split: option.splits if_splits)

text \<open>A team member can replace a team member without touching the lease.\<close>

lemma lease_ok_member:
  assumes ok: "lease_ok active actors" and a: "a_team_id a \<noteq> None"
    and old: "is_none_or (fmlookup actors i) (\<lambda>b. a_team_id b \<noteq> None)"
  shows "lease_ok active (fmupd i a actors)"
proof (rule lease_okI)
  fix j assume "active = Some j"
  then obtain b where b: "fmlookup actors j = Some b" "is_primary_topology b" "a_status b = ActorHealthy"
    using lease_okD(1) [OF ok] by blast
  then have "j \<noteq> i"
    using old by (auto simp: is_primary_topology_def)
  with b show "\<exists>b. fmlookup (fmupd i a actors) j = Some b \<and> is_primary_topology b \<and>
      a_status b = ActorHealthy"
    by simp
next
  fix j b assume b: "fmlookup (fmupd i a actors) j = Some b" "is_primary_topology b"
    "a_status b = ActorHealthy"
  then have "j \<noteq> i"
    using a by (auto simp: is_primary_topology_def)
  with b lease_okD(2) [OF ok, of j b] show "active = Some j"
    by simp
qed

text \<open>Writing a member and its roster entry.\<close>

lemma teams_ok_roster:
  assumes ok: "teams_ok workspace actors teams" and t: "fmlookup teams team = Some t"
    and le: "is_none_or (fmlookup actors i) (\<lambda>b. actor_le b a)"
    and a: "a_team_id a = Some team" "team_profile_matches_actor t a"
    and u: "u = t\<lparr>t_epoch := e, t_actors := roster\<rparr>" "distinct roster"
      "set roster \<subseteq> insert i (set (t_actors t))" "length roster \<le> MAX_DOMAIN_ENTITIES"
  shows "teams_ok workspace (fmupd i a actors) (fmupd team u teams)"
proof -
  note t_ok = teams_ok_lookup [OF ok t]
  have "fm_le actor_le actors (fmupd i a actors)"
    using le by (simp add: fm_le_fmupd)
  then have ok': "teams_ok workspace (fmupd i a actors) teams"
    using ok by (rule teams_ok_mono)
  have "team_validate u = Inr ()"
    using t_ok(3) u(4) by (auto simp: u(1) team_validate_def ebind_Inr_iff validate_count_Inr_iff)
  moreover have "member_ok (fmupd i a actors) u j" if "j \<in> set roster" for j
  proof (cases "j = i")
    case True
    with a t_ok(1) team_profile_matches_cong [of a a u t] show ?thesis
      by (simp add: member_ok_def u(1))
  next
    case False
    with that u(3) have "j \<in> set (t_actors t)" by auto
    with teams_ok_lookup(5) [OF ok' t] show ?thesis
      using member_ok_cong [of u t] by (simp add: u(1))
  qed
  ultimately show ?thesis
    using t_ok u(2) by (intro teams_ok_upd [OF ok']) (simp_all add: u(1))
qed

section \<open>Registration\<close>

lemma fmmodify_present: "fmlookup m k = Some v \<Longrightarrow> fmmodify k f m = fmupd k (f v) m"
  by (simp add: fmmodify_def)

lemma register_fresh_wf:
  assumes ok: "supervisor_ok s" and t: "fmlookup (s_teams s) team = Some t"
    and profile: "ensure_team_profile_actor t profile = Inr u"
    and valid: "actor_validate (healthy_actor (s_workspace_id s) i (Some team) role profile
                  EPOCH_INITIAL) = Inr ()"
    and old: "is_none_or (fmlookup (s_actors s) i) (\<lambda>b.
           a_role b = role \<and> a_profile b = profile \<and> a_team_id b = Some team)"
    and new: "i \<notin> set (t_actors t)"
    and app: "register_fresh s t team i role profile = (Inr ref, s')"
  shows "supervisor_ok s'"
proof -
  from app obtain e and v :: unit where
    raw: "reject_if (MAX_DOMAIN_ENTITIES \<le> length (t_actors t))
            (quota ''team actors'' MAX_DOMAIN_ENTITIES) = Inr v"
      "next_actor_epoch s i = Inr e"
      "(Inr (ActorRef i e) :: failure + actor_ref, record_actor_generation_anchor
         (s\<lparr>s_actors := fmupd i (healthy_actor (s_workspace_id s) i (Some team) role profile e) (s_actors s),
            s_teams := fmmodify team (\<lambda>t. t\<lparr>t_actors := t_actors t @ [i]\<rparr>) (s_teams s)\<rparr>)
         (ActorRef i e) (Some team)) = (Inr ref, s')"
    unfolding register_fresh_def Let_def by (elim attempt_InrE) (rule that, assumption+)
  let ?a = "healthy_actor (s_workspace_id s) i (Some team) role profile e"
  let ?s1 = "s\<lparr>s_actors := fmupd i ?a (s_actors s),
            s_teams := fmmodify team (\<lambda>t. t\<lparr>t_actors := t_actors t @ [i]\<rparr>) (s_teams s)\<rparr>"
  have s': "s' = record_actor_generation_anchor ?s1 (ActorRef i e) (Some team)"
    using raw(3) by auto
  have g: "grows s s'"
    using register_fresh_grows [OF wf_actors_keyed [OF ok] old, of t] app by simp
  have parts: "actors_ok (s_workspace_id s) (s_actors s) (s_teams s)"
      "teams_ok (s_workspace_id s) (s_actors s) (s_teams s)" "lease_ok (s_active_primary s) (s_actors s)"
    using ok by (simp_all add: supervisor_ok_def)
  have "teams_ok (s_workspace_id s) (s_actors s') (s_teams s')"
    unfolding s' using raw(1) new teams_ok_lookup(4) [OF parts(2) t] t
    by (auto simp: fmmodify_present result_simps
        intro!: teams_ok_roster [where e = "t_epoch t", OF parts(2) t healthy_actor_le [OF wf_actors_keyed [OF ok] raw(2) old]]
          ensure_team_profile_actor_matches [OF profile])
  moreover have "actors_ok (s_workspace_id s) (s_actors s') (s_teams s)"
    unfolding s' using t by (simp, intro actors_ok_upd [OF parts(1)])
      (simp_all add: actor_validate_epoch [OF valid] fmhas_def)
  then have "actors_ok (s_workspace_id s) (s_actors s') (s_teams s')"
    by (rule actors_ok_teams_mono) (use g in \<open>simp add: grows_def\<close>)
  moreover have "lease_ok (s_active_primary s') (s_actors s')"
    using old by (simp add: s', intro lease_ok_member [OF parts(3)]) (auto simp: is_none_or_iff)
  ultimately show ?thesis
    by (intro wf_grown [OF ok g]) (simp_all add: s')
qed

lemma register_implementation_inner_wf:
  assumes ok: "supervisor_ok s" and app: "register_implementation_inner s team i role profile = (Inr ref, s')"
  shows "supervisor_ok s'"
proof -
  let ?old = "\<lambda>t b. a_role b = role \<and> a_profile b = profile \<and> a_team_id b = Some team \<and>
      i \<notin> set (t_actors t)"
  from app obtain t and u :: unit where t: "fmlookup (s_teams s) team = Some t"
    and profile: "ensure_team_profile_actor t profile = Inr u"
    and valid: "actor_validate (healthy_actor (s_workspace_id s) i (Some team) role profile
                  EPOCH_INITIAL) = Inr ()"
    and step: "(case fmlookup (s_actors s) i of
       Some a \<Rightarrow>
         if a_role a = role \<and> a_profile a = profile \<and> a_team_id a = Some team \<and>
            a_status a = ActorHealthy \<and> i \<in> set (t_actors t)
         then (Inr (actor_ref_of a), s)
         else if a_role a \<noteq> role \<or> a_profile a \<noteq> profile \<or> a_team_id a \<noteq> Some team \<or>
                 a_status a \<notin> {ActorStopped, ActorRevoked} \<or> i \<in> set (t_actors t)
         then (Inl (Err (AlreadyExists ''actor id'')), s)
         else register_fresh s t team i role profile
     | None \<Rightarrow> register_fresh s t team i role profile) = (Inr ref, s')"
    unfolding register_implementation_inner_def
    by (elim attempt_InrE) (rule that; (assumption | simp add: result_simps))
  have rest: "s' = s \<or> register_fresh s t team i role profile = (Inr ref, s') \<and>
      is_none_or (fmlookup (s_actors s) i) (?old t)"
  proof (cases "fmlookup (s_actors s) i")
    case (Some a)
    with step show ?thesis by (simp split: if_splits)
  qed (use step in simp)
  from rest show ?thesis
  proof (elim disjE conjE)
    assume app: "register_fresh s t team i role profile = (Inr ref, s')"
      and old: "is_none_or (fmlookup (s_actors s) i) (\<lambda>b. a_role b = role \<and> a_profile b = profile \<and>
        a_team_id b = Some team \<and> i \<notin> set (t_actors t))"
    have "teams_ok (s_workspace_id s) (s_actors s) (s_teams s)"
      using ok by (simp add: supervisor_ok_def)
    from teams_ok_lookup(5) [OF this t] old have "i \<notin> set (t_actors t)"
      by (auto simp: member_ok_def is_none_or_iff is_some_and_iff)
    with old show ?thesis
      by (intro register_fresh_wf [OF ok t profile valid _ _ app]) (auto simp: is_none_or_iff)
  qed (use ok in simp)
qed

section \<open>Replacement\<close>

lemma review_ok_frame [simp]:
  "review_ok policy (q\<lparr>q_team_epoch := e\<rparr>) = review_ok policy q"
  "review_ok policy (q\<lparr>q_assignment := a\<rparr>) = review_ok policy q"
  by (simp_all add: review_ok_def shape_simp cong: request_status.case_cong)

text \<open>One iteration of the generation loop, and one of the assignment loop.\<close>

lemma work_ok_generation:
  assumes ok: "work_ok workspace policy actors teams requests runs"
    and q: "fmlookup requests k = Some q" and r: "fmlookup runs (q_run_id q) = Some r"
    and t: "fmlookup teams (q_team_id q) = Some t" "e \<le> t_epoch t"
  shows "work_ok workspace policy actors teams
           (fmmodify k (\<lambda>q. q\<lparr>q_team_epoch := e\<rparr>) requests)
           (fmmodify (q_run_id q) (\<lambda>r. r\<lparr>r_team_epoch := e\<rparr>) runs)"
  unfolding fmmodify_present [OF q] fmmodify_present [OF r]
proof (rule work_ok_pair [OF ok q r])
  have "request_ok workspace policy actors teams runs k q"
    using ok q by (simp add: work_ok_def)
  with r t show "request_ok workspace policy actors teams
      (fmupd (q_run_id q) (r\<lparr>r_team_epoch := e\<rparr>) runs) k (q\<lparr>q_team_epoch := e\<rparr>)"
    by (simp add: request_ok_def run_matches_request_def assignee_ok_def)
qed simp_all

lemma work_ok_assignment:
  assumes ok: "work_ok workspace policy actors teams requests runs"
    and q: "fmlookup requests k = Some q" and r: "fmlookup runs (q_run_id q) = Some r"
    and a: "assignee_ok actors (q\<lparr>q_assignment := Some as\<rparr>)"
  shows "work_ok workspace policy actors teams
           (fmmodify k (\<lambda>q. q\<lparr>q_assignment := Some as\<rparr>) requests)
           (fmmodify (q_run_id q) (\<lambda>r. r\<lparr>r_assignment := Some as\<rparr>) runs)"
  unfolding fmmodify_present [OF q] fmmodify_present [OF r]
proof (rule work_ok_pair [OF ok q r])
  have "request_ok workspace policy actors teams runs k q"
    using ok q by (simp add: work_ok_def)
  with r a show "request_ok workspace policy actors teams
      (fmupd (q_run_id q) (r\<lparr>r_assignment := Some as\<rparr>) runs) k (q\<lparr>q_assignment := Some as\<rparr>)"
    by (simp add: request_ok_def run_matches_request_def)
qed simp_all

lemma roll_work_ok:
  assumes "roll_request_generations s e qs = (Inr u, s')"
    and "work_ok workspace policy actors teams (s_requests s) (s_runs s)"
    and "\<And>q. q \<in> set qs \<Longrightarrow> \<exists>q0. fmlookup (s_requests s) (q_request_id q) = Some q0 \<and>
           q_run_id q0 = q_run_id q \<and> q_team_id q0 = team"
    and t: "fmlookup teams team = Some t" "e \<le> t_epoch t"
  shows "work_ok workspace policy actors teams (s_requests s') (s_runs s')"
  using assms(1-3)
proof (induction qs arbitrary: s)
  case (Cons q qs)
  let ?s1 = "s\<lparr>s_requests := fmmodify (q_request_id q) (\<lambda>q. q\<lparr>q_team_epoch := e\<rparr>) (s_requests s)\<rparr>"
  let ?s2 = "?s1\<lparr>s_runs := fmmodify (q_run_id q) (\<lambda>r. r\<lparr>r_team_epoch := e\<rparr>) (s_runs ?s1)\<rparr>"
  from Cons.prems(1) obtain r where r: "fmlookup (s_runs s) (q_run_id q) = Some r"
    and rest: "roll_request_generations ?s2 e qs = (Inr u, s')"
    by (auto simp: Let_def result_simps)
  from Cons.prems(3) [of q] obtain q0 where q0: "fmlookup (s_requests s) (q_request_id q) = Some q0"
      "q_run_id q0 = q_run_id q" "q_team_id q0 = team"
    by auto
  show ?case
  proof (rule Cons.IH [OF rest])
    show "work_ok workspace policy actors teams (s_requests ?s2) (s_runs ?s2)"
      using work_ok_generation [OF Cons.prems(2) q0(1)] r t q0 by simp
    fix p assume "p \<in> set qs"
    with Cons.prems(3) [of p] show "\<exists>q0. fmlookup (s_requests ?s2) (q_request_id p) = Some q0 \<and>
        q_run_id q0 = q_run_id p \<and> q_team_id q0 = team"
      by auto
  qed
qed simp

lemma reassign_work_ok:
  assumes "reassign_requests s ref plan = (Inr u, s')"
    and "work_ok workspace policy actors teams (s_requests s) (s_runs s)"
    and "\<And>i j n. (i, j, n) \<in> set plan \<Longrightarrow> \<exists>q. fmlookup (s_requests s) i = Some q \<and> q_run_id q = j \<and>
           (\<forall>e. assignee_ok actors (q\<lparr>q_assignment := Some (Assignment ref e)\<rparr>))"
  shows "work_ok workspace policy actors teams (s_requests s') (s_runs s')"
  using assms
proof (induction plan arbitrary: s)
  case (Cons p plan)
  obtain i j e where p: "p = (i, j, e)"
    by (cases p)
  let ?s1 = "s\<lparr>s_requests := fmmodify i (\<lambda>q. q\<lparr>q_assignment := Some (Assignment ref e)\<rparr>) (s_requests s)\<rparr>"
  let ?s2 = "?s1\<lparr>s_runs := fmmodify j (\<lambda>r. r\<lparr>r_assignment := Some (Assignment ref e)\<rparr>) (s_runs ?s1),
           s_handoffs := fmretain (\<lambda>p. hr_request_id (ph_offer p) \<noteq> i) (s_handoffs ?s1)\<rparr>"
  from Cons.prems(1) obtain r where r: "fmlookup (s_runs s) j = Some r"
    and rest: "reassign_requests ?s2 ref plan = (Inr u, s')"
    by (auto simp: p Let_def result_simps)
  from Cons.prems(3) [of i j e] obtain q where q: "fmlookup (s_requests s) i = Some q"
      "q_run_id q = j" "\<forall>e. assignee_ok actors (q\<lparr>q_assignment := Some (Assignment ref e)\<rparr>)"
    by (auto simp: p)
  show ?case
  proof (rule Cons.IH [OF rest])
    show "work_ok workspace policy actors teams (s_requests ?s2) (s_runs ?s2)"
      using work_ok_assignment [OF Cons.prems(2) q(1), of r "Assignment ref e"] r q by simp
    fix i' j' n assume "(i', j', n) \<in> set plan"
    with Cons.prems(3) [of i' j' n] show "\<exists>q. fmlookup (s_requests ?s2) i' = Some q \<and> q_run_id q = j' \<and>
        (\<forall>e. assignee_ok actors (q\<lparr>q_assignment := Some (Assignment ref e)\<rparr>))"
      by (auto simp: assignee_ok_def)
  qed
qed simp

text \<open>The plan names assignments of the replaced actor.\<close>

lemma replacement_plan_assignee:
  assumes "work_keys s" and "replacement_assignment_plan s team (Some i) = Inr plan"
    and "(k, j, e) \<in> set plan"
  obtains q as where "fmlookup (s_requests s) k = Some q" and "q_run_id q = j" and "q_team_id q = team"
    and "q_assignment q = Some as" and "ref_actor_id (as_actor as) = i"
proof -
  from assms(2) have "replacement_plan_of s i
      (filter (\<lambda>q. q_team_id q = team) (fmvals (s_requests s))) = Inr plan"
    by (simp add: replacement_assignment_plan_def)
  from replacement_plan_entry [OF this assms(3)] assms(1) show thesis
    using that by (force simp: in_fmvals_iff work_keys_def)
qed

lemma replace_implementation_inner_wf:
  assumes ok: "supervisor_ok s" and app: "replace_implementation_inner s team i role profile = (Inr ref, s')"
  shows "supervisor_ok s'"
  using app
proof (rule replace_implementation_inner_Inr)
  fix t te ae st plan s3 s4
  let ?a = "healthy_actor (s_workspace_id s) i (Some team) role profile ae"
  let ?s2 = "install_replacement s i st i ?a team te"
  let ?qs = "filter (\<lambda>q. q_team_id q = team \<and> \<not> is_terminal (q_status q)) (fmvals (s_requests s))"
  assume t: "fmlookup (s_teams s) team = Some t" "i \<in> set (t_actors t)"
    and profile: "ensure_team_profile_actor t profile = Inr ()"
    and valid: "actor_validate (healthy_actor (s_workspace_id s) i (Some team) role profile
                  EPOCH_INITIAL) = Inr ()"
    and same: "is_none_or (fmlookup (s_actors s) i) (\<lambda>b.
           a_role b = role \<and> a_profile b = profile \<and> a_team_id b = Some team)"
    and te: "checked_next (t_epoch t) = Some te" and ae: "next_actor_epoch s i = Inr ae"
    and ref: "ref = ActorRef i ae"
    and plan: "replacement_assignment_plan s team (Some i) = Inr plan"
    and roll: "roll_request_generations ?s2 te ?qs = (Inr (), s3)"
    and re: "reassign_requests s3 ref plan = (Inr (), s4)"
    and s': "s' = s4\<lparr>s_mailbox := fmmap (retire_delivery (s_requests s4))
           (fmmap (supersede_live_recipients (team_member_ids s4 team) team (t_epoch t))
             (s_mailbox s4)), s_pending_observability := s_pending_observability s'\<rparr>"
  have keys: "work_keys s" and keyed: "actors_keyed s"
    using ok by (simp_all add: wf_work_keys wf_actors_keyed)
  have parts: "actors_ok (s_workspace_id s) (s_actors s) (s_teams s)"
      "teams_ok (s_workspace_id s) (s_actors s) (s_teams s)" "lease_ok (s_active_primary s) (s_actors s)"
      "work_ok (s_workspace_id s) (s_policy_revision s) (s_actors s) (s_teams s) (s_requests s) (s_runs s)"
    using ok by (simp_all add: supervisor_ok_def)
  note le = healthy_actor_le [OF keyed ae same]
  let ?teams = "s_teams ?s2" and ?actors = "s_actors ?s2"
  have u: "?teams = fmupd team (t\<lparr>t_epoch := te, t_actors := t_actors t\<rparr>) (s_teams s)"
    using t by (simp add: fmmodify_present)
  have teams_le: "fm_le team_le (s_teams s) ?teams"
    using t checked_next_SomeD(3) [OF te] by (simp add: fm_le_fmmodify team_le_def)
  have actors_le: "fm_le actor_le (s_actors s) ?actors"
    using le by (simp add: fm_le_fmupd)
  have "teams_ok (s_workspace_id s) ?actors ?teams"
    unfolding u using teams_ok_lookup(3,4) [OF parts(2) t(1)] t(2)
    by (simp, intro teams_ok_roster [OF parts(2) t(1) le])
      (auto simp: team_validate_def ebind_Inr_iff validate_count_Inr_iff
        intro: ensure_team_profile_actor_matches [OF profile])
  moreover have "actors_ok (s_workspace_id s) ?actors (s_teams s)"
    using t by (simp, intro actors_ok_upd [OF parts(1)])
      (simp_all add: actor_validate_epoch [OF valid] fmhas_def)
  then have "actors_ok (s_workspace_id s) ?actors ?teams"
    using teams_le by (rule actors_ok_teams_mono)
  moreover have "lease_ok (s_active_primary s) ?actors"
    using same by (simp, intro lease_ok_member [OF parts(3)]) (auto simp: is_none_or_iff)
  moreover
  have "work_ok (s_workspace_id s) (s_policy_revision s) ?actors ?teams (s_requests s3) (s_runs s3)"
  proof (rule roll_work_ok [OF roll])
    show "work_ok (s_workspace_id s) (s_policy_revision s) ?actors ?teams (s_requests ?s2) (s_runs ?s2)"
      using work_ok_mono [OF parts(4) actors_le teams_le] by simp
    show "\<exists>q0. fmlookup (s_requests ?s2) (q_request_id q) = Some q0 \<and> q_run_id q0 = q_run_id q \<and>
        q_team_id q0 = team" if "q \<in> set ?qs" for q
      using that keys by (auto simp: in_fmvals_iff work_keys_def)
    show "fmlookup ?teams team = Some (t\<lparr>t_epoch := te, t_actors := t_actors t\<rparr>)"
      unfolding u by simp
  qed simp
  then have "work_ok (s_workspace_id s) (s_policy_revision s) ?actors ?teams (s_requests s4) (s_runs s4)"
  proof (rule reassign_work_ok [OF re])
    fix k j e assume "(k, j, e) \<in> set plan"
    then obtain q as where q: "fmlookup (s_requests s) k = Some q" "q_run_id q = j"
        "q_team_id q = team" "q_assignment q = Some as" "ref_actor_id (as_actor as) = i"
      using replacement_plan_assignee [OF keys plan] by blast
    then have "assignee_ok (s_actors s) q"
      using parts(4) by (auto simp: work_ok_def request_ok_def)
    then have "has_capability ?a IMPLEMENTATION_EXECUTION"
      using q(4,5) le by (auto simp: assignee_ok_def is_some_and_iff is_none_or_iff actor_le_capability)
    moreover obtain q3 where "fmlookup (s_requests s3) k = Some q3" "q3 = q \<or> q3 = q\<lparr>q_team_epoch := te\<rparr>"
      using roll_requests [OF roll] q(1) by (auto simp: fm_le_def)
    ultimately show "\<exists>q. fmlookup (s_requests s3) k = Some q \<and> q_run_id q = j \<and>
        (\<forall>e. assignee_ok ?actors (q\<lparr>q_assignment := Some (Assignment ref e)\<rparr>))"
      using q by (auto simp: ref assignee_ok_def)
  qed
  moreover have "s_workspace_id s3 = s_workspace_id s" "s_policy_revision s3 = s_policy_revision s"
      "s_active_primary s3 = s_active_primary s" "s_actors s3 = ?actors" "s_teams s3 = ?teams"
    by (subst roll_frame [OF roll], simp)+
  moreover have "s_workspace_id s4 = s_workspace_id s3" "s_policy_revision s4 = s_policy_revision s3"
      "s_active_primary s4 = s_active_primary s3" "s_actors s4 = s_actors s3" "s_teams s4 = s_teams s3"
    by (subst reassign_frame [OF re], simp)+
  moreover have "s_workspace_id s' = s_workspace_id s4" "s_policy_revision s' = s_policy_revision s4"
      "s_active_primary s' = s_active_primary s4" "s_actors s' = s_actors s4" "s_teams s' = s_teams s4"
      "s_requests s' = s_requests s4" "s_runs s' = s_runs s4"
    by (subst s', simp)+
  ultimately show ?thesis
    by (simp add: supervisor_ok_def)
qed

end
