(* ===== verification/Message_Invariants.thy ===== *)
theory Message_Invariants
  imports Registration_Invariants
begin

text \<open>
  What an accepted message, an acknowledgement and a close sweep did, and that they keep the
  invariants of members, lease and work.
\<close>

section \<open>Accepting a message\<close>

text \<open>The two ways \<open>apply\<close> succeeds.\<close>

lemma apply_envelope_Inr:
  assumes "apply_envelope x s env = (Inr outcome, s')"
  obtains (duplicate) digest d where "outcome = DuplicateMessage" and "s' = s"
      and "digest_message x (e_message env) = Inr digest"
      and "fmlookup (s_mailbox s) (e_message_id env) = Some d"
      and "exact_retry d (header_of env) (message_kind_of (e_message env)) digest
             (causal_message_of (e_message_id env) digest (e_message env))"
  | (applied) digest sender plan required reason s1 where "outcome = Applied"
      and "envelope_validate env = Inr ()" and "e_workspace_id env = s_workspace_id s"
      and "digest_message x (e_message env) = Inr digest"
      and "fmlookup (s_mailbox s) (e_message_id env) = None"
      and "fmsize (s_mailbox s) < MAX_DELIVERIES"
      and "authorize_envelope s env = Inr sender"
      and "delivery_recipient_plan s env = Inr plan" and "plan_recipients plan = (required, reason)"
      and "\<not> blocks_inactive_team s (message_kind_of (e_message env)) (e_request_id env) required"
      and "apply_message s env sender digest = (Inr (), s1)"
      and "record_accepted x s1 env digest required reason
             (request_state_for_observability s env) = (Inr Applied, s')"
proof -
  let ?kind = "message_kind_of (e_message env)"
  from assms obtain digest where valid: "envelope_validate env = Inr ()"
      "e_workspace_id env = s_workspace_id s" and digest: "digest_message x (e_message env) = Inr digest"
    and step: "(case fmlookup (s_mailbox s) (e_message_id env) of
       Some existing \<Rightarrow>
         if exact_retry existing (header_of env) ?kind digest
              (causal_message_of (e_message_id env) digest (e_message env))
         then (Inr DuplicateMessage, s)
         else (Inl (Err DuplicateMessageConflict), s)
     | None \<Rightarrow>
         attempt s (reject_if (MAX_DELIVERIES \<le> fmsize (s_mailbox s))
                      (quota ''deliveries'' MAX_DELIVERIES)) (\<lambda>_.
         attempt s (ensure_audit_capacity s) (\<lambda>_.
         attempt s (authorize_envelope s env) (\<lambda>sender.
         attempt s (checked_plan s env sender digest) (\<lambda>plan.
         case plan_recipients plan of (required, reason) \<Rightarrow>
         attempt s (reject_if (blocks_inactive_team s ?kind (e_request_id env) required)
           (Err (Unauthorized ''deliver action-requiring message to a closing or closed team'')))
           (\<lambda>_.
         sbind (apply_message s env sender digest) (\<lambda>_ s1.
         record_accepted x s1 env digest required reason
           (request_state_for_observability s env)))))))) = (Inr outcome, s')"
    unfolding apply_envelope_def Let_def
    by (elim attempt_InrE) (rule that; (assumption | simp add: result_simps))
  show thesis
  proof (cases "fmlookup (s_mailbox s) (e_message_id env)")
    case (Some d)
    with step show thesis
      using duplicate digest by (auto split: if_splits)
  next
    case None
    obtain sender plan where room: "\<not> MAX_DELIVERIES \<le> fmsize (s_mailbox s)"
      and auth: "authorize_envelope s env = Inr sender"
      and plan: "checked_plan s env sender digest = Inr plan"
      and rest: "(case plan_recipients plan of (required, reason) \<Rightarrow>
         attempt s (reject_if (blocks_inactive_team s ?kind (e_request_id env) required)
           (Err (Unauthorized ''deliver action-requiring message to a closing or closed team'')))
           (\<lambda>_.
         sbind (apply_message s env sender digest) (\<lambda>_ s1.
         record_accepted x s1 env digest required reason
           (request_state_for_observability s env)))) = (Inr outcome, s')"
      using step unfolding None option.case
      by (elim attempt_InrE) (rule that; (assumption | simp add: result_simps))
    obtain required reason where p: "plan_recipients plan = (required, reason)"
      by fastforce
    with rest obtain s1 where block: "\<not> blocks_inactive_team s ?kind (e_request_id env) required"
      and msg: "apply_message s env sender digest = (Inr (), s1)"
      and recorded: "record_accepted x s1 env digest required reason
          (request_state_for_observability s env) = (Inr outcome, s')"
      by (auto simp: result_simps)
    have "delivery_recipient_plan s env = Inr plan"
      using plan by (auto simp: checked_plan_def result_simps split: sum.splits failure.splits)
    moreover have "outcome = Applied"
      using recorded by (rule record_accepted_Inr)
    ultimately show thesis
      using applied [OF _ valid digest None _ auth _ p block msg] room recorded by simp
  qed
qed

lemma record_accepted_wf:
  assumes "supervisor_ok s" and "record_accepted x s env digest required reason before = (Inr u, s')"
  shows "supervisor_ok s'"
  using assms(2)
proof (rule record_accepted_Inr)
  fix sequence
  assume s': "s' = s\<lparr>s_mailbox := fmmap (retire_delivery (s_requests s))
               (fmupd (e_message_id env) (accepted_record s env digest required reason) (s_mailbox s)),
            s_audit := s_audit s @ [AuditEvent sequence (e_sent_at env) (e_team_id env)
              (e_team_epoch env)
              (MessageAccepted (e_message_id env) (message_kind_of (e_message env)) (Some digest))],
            s_history_checkpoint := s_history_checkpoint s',
            s_pending_bulk_content := s_pending_bulk_content s @
              [PendingBulkContent (e_message_id env) digest (e_message env)],
            s_nonterminal_request_counts := s_nonterminal_request_counts s',
            s_pending_observability := s_pending_observability s'\<rparr>"
  show ?thesis
    by (rule wf_cong [OF assms(1)]; subst s'; simp)
qed

lemma work_step_wf:
  assumes ok: "supervisor_ok s" and step: "work_step s env a digest s'"
    and "admitted s env a" and "envelope_validate env = Inr ()"
  shows "supervisor_ok s'"
proof -
  have "work_ok (s_workspace_id s) (s_policy_revision s) (s_actors s) (s_teams s)
           (s_requests s') (s_runs s')"
    using work_step_work_ok [OF step assms(3) _ assms(4)] ok by (simp add: supervisor_ok_def)
  with ok show ?thesis
    by (simp add: supervisor_ok_def work_step_fields [OF step])
qed

lemma apply_envelope_wf:
  assumes ok: "supervisor_ok s" and app: "apply_envelope x s env = (Inr outcome, s')"
  shows "supervisor_ok s'"
  using app
proof (rule apply_envelope_Inr)
  fix digest sender required reason s1
  assume valid: "envelope_validate env = Inr ()" and auth: "authorize_envelope s env = Inr sender"
    and msg: "apply_message s env sender digest = (Inr (), s1)"
    and recorded: "record_accepted x s1 env digest required reason
          (request_state_for_observability s env) = (Inr Applied, s')"
  have "work_step s env sender digest s1"
    using wf_work_keys [OF ok] msg by (rule apply_message_step)
  then have "supervisor_ok s1"
    using work_step_wf [OF ok] authorize_admitted [OF auth] valid by blast
  then show ?thesis
    using recorded by (rule record_accepted_wf)
qed (use ok in simp)

section \<open>Acknowledgement\<close>

text \<open>The two ways \<open>acknowledge\<close> succeeds.\<close>

lemma acknowledge_Inr:
  assumes "acknowledge x s ack = (Inr outcome, s')"
  obtains (duplicate) d slot where "outcome = DuplicateAck" and "s' = s"
      and "fmlookup (s_mailbox s) (ak_message_id ack) = Some d"
      and "fmlookup (d_acknowledgements d) slot = Some ack"
  | (recorded) d slot a recipient sequence where "outcome = Acknowledged"
      and "fmlookup (s_mailbox s) (ak_message_id ack) = Some d"
      and "historical_recipient_for_actor s (e_target (d_envelope d)) (d_required_recipients d)
             (ak_actor ack) = Some slot"
      and "fmlookup (d_acknowledgements d) slot = None"
      and "current_actor s (ak_actor ack) = Inr a" and "a_status a = ActorHealthy"
      and "current_recipient_for_actor s (e_target (d_envelope d)) (d_required_recipients d) a
             = Some recipient"
      and "slot_open s d a recipient"
      and "checked_inc (h_audit_event_count (s_history_checkpoint s)) = Some sequence"
      and "h_audit_event_count (s_history_checkpoint s') = sequence"
      and "s' = s\<lparr>s_mailbox := fmmap (retire_delivery (s_requests s))
             (fmmodify (ak_message_id ack)
                (\<lambda>d. d\<lparr>d_acknowledgements := fmupd recipient ack (d_acknowledgements d)\<rparr>) (s_mailbox s)),
           s_audit := s_audit s @ [AuditEvent sequence (ak_acknowledged_at ack)
             (e_team_id (d_envelope d)) (e_team_epoch (d_envelope d))
             (MessageAcknowledged (ak_message_id ack) (ref_actor_id (ak_actor ack)))],
           s_history_checkpoint := s_history_checkpoint s',
           s_pending_observability := s_pending_observability s'\<rparr>"
proof -
  let ?s1 = "\<lambda>recipient. s\<lparr>s_mailbox := fmmodify (ak_message_id ack)
      (\<lambda>d. d\<lparr>d_acknowledgements := fmupd recipient ack (d_acknowledgements d)\<rparr>) (s_mailbox s)\<rparr>"
  from assms obtain d slot where d: "fmlookup (s_mailbox s) (ak_message_id ack) = Some d"
    and slot: "historical_recipient_for_actor s (e_target (d_envelope d)) (d_required_recipients d)
             (ak_actor ack) = Some slot"
    and step: "acknowledge x s ack = (Inr outcome, s')"
    by (auto simp: acknowledge_def Let_def result_simps)
  show thesis
  proof (cases "fmlookup (d_acknowledgements d) slot")
    case (Some existing)
    with step d slot show thesis
      using duplicate [OF _ _ d] by (auto simp: acknowledge_def Let_def result_simps split: if_splits)
  next
    case None
    with step d slot obtain a recipient s2 where a: "current_actor s (ak_actor ack) = Inr a"
        "a_status a = ActorHealthy"
      and r: "current_recipient_for_actor s (e_target (d_envelope d)) (d_required_recipients d) a
             = Some recipient" "slot_open s d a recipient"
      and audit: "append_audit x (?s1 recipient) (ak_acknowledged_at ack)
             (e_team_id (d_envelope d)) (e_team_epoch (d_envelope d))
             (MessageAcknowledged (ak_message_id ack) (ref_actor_id (ak_actor ack))) = (Inr (), s2)"
      and fin: "outcome = Acknowledged" "s' = (retire_fully_acknowledged s2)\<lparr>s_pending_observability :=
           s_pending_observability s'\<rparr>"
      by (auto simp: acknowledge_def Let_def result_simps)
    from audit show thesis
    proof (rule append_audit_Inr)
      fix sequence h
      assume sequence: "checked_inc (h_audit_event_count (s_history_checkpoint (?s1 recipient))) = Some sequence"
        and s2: "s2 = (?s1 recipient)\<lparr>s_history_checkpoint := (s_history_checkpoint (?s1 recipient))
              \<lparr>h_audit_event_count := sequence, h_audit_head_sha256 := Some h\<rparr>,
            s_audit := s_audit (?s1 recipient) @ [AuditEvent sequence (ak_acknowledged_at ack)
              (e_team_id (d_envelope d)) (e_team_epoch (d_envelope d))
              (MessageAcknowledged (ak_message_id ack) (ref_actor_id (ak_actor ack)))]\<rparr>"
      have hc: "s_history_checkpoint s' = s_history_checkpoint s2"
        by (subst fin(2)) (simp add: retire_fully_acknowledged_def)
      show thesis
      proof (rule recorded [OF fin(1) d slot None a r, of sequence])
        show "checked_inc (h_audit_event_count (s_history_checkpoint s)) = Some sequence"
          using sequence by simp
        show "h_audit_event_count (s_history_checkpoint s') = sequence"
          by (simp add: hc s2)
        show "s' = s\<lparr>s_mailbox := fmmap (retire_delivery (s_requests s))
             (fmmodify (ak_message_id ack)
                (\<lambda>d. d\<lparr>d_acknowledgements := fmupd recipient ack (d_acknowledgements d)\<rparr>) (s_mailbox s)),
           s_audit := s_audit s @ [AuditEvent sequence (ak_acknowledged_at ack)
             (e_team_id (d_envelope d)) (e_team_epoch (d_envelope d))
             (MessageAcknowledged (ak_message_id ack) (ref_actor_id (ak_actor ack)))],
           s_history_checkpoint := s_history_checkpoint s',
           s_pending_observability := s_pending_observability s'\<rparr>"
          unfolding hc by (subst fin(2)) (simp add: retire_fully_acknowledged_def s2)
      qed
    qed
  qed
qed

lemma acknowledge_wf:
  assumes ok: "supervisor_ok s" and app: "acknowledge x s ack = (Inr outcome, s')"
  shows "supervisor_ok s'"
  using app
proof (rule acknowledge_Inr)
  fix d recipient sequence
  assume s': "s' = s\<lparr>s_mailbox := fmmap (retire_delivery (s_requests s))
             (fmmodify (ak_message_id ack)
                (\<lambda>d. d\<lparr>d_acknowledgements := fmupd recipient ack (d_acknowledgements d)\<rparr>) (s_mailbox s)),
           s_audit := s_audit s @ [AuditEvent sequence (ak_acknowledged_at ack)
             (e_team_id (d_envelope d)) (e_team_epoch (d_envelope d))
             (MessageAcknowledged (ak_message_id ack) (ref_actor_id (ak_actor ack)))],
           s_history_checkpoint := s_history_checkpoint s',
           s_pending_observability := s_pending_observability s'\<rparr>"
  show ?thesis
    by (rule wf_cong [OF ok]; subst s'; simp)
qed (use ok in simp)

section \<open>The close sweep and the drained queues\<close>

lemma retire_obsolete_Inr:
  assumes "retire_obsolete_team_recipients s team = (Inr affected, s')"
  obtains t where "fmlookup (s_teams s) team = Some t"
    and "s' = s\<lparr>s_mailbox := fmmap (retire_delivery (s_requests s))
               (fmmap (waive_obsolete_recipients (s_requests s) (set (t_actors t)) team (t_epoch t))
                 (s_mailbox s)), s_pending_observability := s_pending_observability s'\<rparr>"
proof -
  from assms obtain t where t: "ensure_known_team s team = Inr t"
    and eq: "(let members = set (t_actors t);
         affected = map (\<lambda>d. e_message_id (d_envelope d))
                      (filter (\<lambda>d. obsolete_recipients (s_requests s) members d \<noteq> [])
                         (fmvals (s_mailbox s)));
         s1 = retire_fully_acknowledged
                (s\<lparr>s_mailbox :=
                     fmmap (waive_obsolete_recipients (s_requests s) members team (t_epoch t))
                       (s_mailbox s)\<rparr>)
     in (Inr affected :: failure + message_id list, if affected = [] then s1 else mark_team_activity s1 team)) = (Inr affected, s')"
    unfolding retire_obsolete_team_recipients_def by (elim attempt_InrE) (rule that; assumption)
  have "fmlookup (s_teams s) team = Some t"
    using t by (auto simp: ensure_known_team_def result_simps)
  then show thesis
  proof (rule that)
    show "s' = s\<lparr>s_mailbox := fmmap (retire_delivery (s_requests s))
               (fmmap (waive_obsolete_recipients (s_requests s) (set (t_actors t)) team (t_epoch t))
                 (s_mailbox s)), s_pending_observability := s_pending_observability s'\<rparr>"
      using eq by (auto simp: Let_def retire_fully_acknowledged_def mark_team_activity_def)
  qed
qed

lemma retire_obsolete_wf:
  assumes ok: "supervisor_ok s" and app: "retire_obsolete_team_recipients s team = (Inr affected, s')"
  shows "supervisor_ok s'"
  using app
proof (rule retire_obsolete_Inr)
  fix t
  assume s': "s' = s\<lparr>s_mailbox := fmmap (retire_delivery (s_requests s))
               (fmmap (waive_obsolete_recipients (s_requests s) (set (t_actors t)) team (t_epoch t))
                 (s_mailbox s)), s_pending_observability := s_pending_observability s'\<rparr>"
  show ?thesis
    by (rule wf_cong [OF ok]; subst s'; simp)
qed

lemma take_bulk_wf: "supervisor_ok s \<Longrightarrow> supervisor_ok (snd (take_pending_bulk_content s))"
  by (rule wf_cong; simp add: take_pending_bulk_content_def)

end
