(* ===== verification/Restore_Deliveries.thy ===== *)
theory Restore_Deliveries
  imports Restore Causal Delivery
begin

text \<open>
  The validators of \<open>Supervisor::from_snapshot\<close> in \<open>crates/agsv-core/src/supervisor.rs\<close> for
  deliveries and pending handoffs: historical envelopes and their causal facts, frozen recipients,
  acknowledgements, dispositions, retirement and the mailbox of closed teams.
\<close>

section \<open>Context\<close>

record historical_delivery_context =
  hc_workspace_id :: workspace_id
  hc_actors :: "(actor_id, actor) fmap"
  hc_teams :: "(team_id, team) fmap"
  hc_requests :: "(request_id, request) fmap"
  hc_runs :: "(run_id, run) fmap"

definition delivery_path :: "nat \<Rightarrow> string \<Rightarrow> string" where
  "delivery_path i fld = indexed ''deliveries'' i @ fld"

definition historical_target_matches :: "message_target \<Rightarrow> actor \<Rightarrow> bool" where
  "historical_target_matches target a =
     (case target of
        TargetPrimary \<Rightarrow> has_capability a HUMAN_FACING_PRIMARY \<and> a_team_id a = None
      | TargetTeam team_id \<Rightarrow> a_team_id a = Some team_id
      | TargetActor actor_id \<Rightarrow> actor_id = a_actor_id a
      | TargetWorkspace \<Rightarrow> True)"

section \<open>Envelopes\<close>

definition validate_causal_content_ref :: "nat \<Rightarrow> delivery_snapshot \<Rightarrow> failure + unit" where
  "validate_causal_content_ref i d =
     require (causal_content_ref_valid (e_message_id (ds_envelope d)) (ds_payload_digest d) (ds_causal d))
       (delivery_path i ''.causal'')
       ''causal content reference contradicts its archived delivery''"

definition validate_historical_envelope ::
  "nat \<Rightarrow> envelope_header \<Rightarrow> causal_message \<Rightarrow> historical_delivery_context \<Rightarrow> failure + unit" where
  "validate_historical_envelope i header causal ctx =
     ebind (map_err (Err \<circ> Validation) (envelope_validate (with_message header (replay_message causal))))
       (\<lambda>_.
     ebind (require (e_workspace_id header = hc_workspace_id ctx \<and>
                     fmhas (hc_actors ctx) (ref_actor_id (e_sender header)))
              (delivery_path i ''.envelope'') ''delivery workspace or sender is inconsistent'') (\<lambda>_.
     ebind (require (is_none_or (e_team_id header) (fmhas (hc_teams ctx)) \<and>
                     (case e_target header of
                        TargetTeam team_id \<Rightarrow> fmhas (hc_teams ctx) team_id
                      | TargetActor actor_id \<Rightarrow> fmhas (hc_actors ctx) actor_id
                      | _ \<Rightarrow> True))
              (delivery_path i ''.envelope.target'')
              ''delivery references an unknown actor or team'') (\<lambda>_.
     ebind (case e_request_id header of
              None \<Rightarrow> Inr ()
            | Some request_id \<Rightarrow>
                (case fmlookup (hc_requests ctx) request_id of
                   None \<Rightarrow> invalid_snapshot (delivery_path i ''.envelope.request_id'')
                             ''delivery request is missing''
                 | Some q \<Rightarrow>
                     require (is_none_or (e_run_id header) (\<lambda>run_id. q_run_id q = run_id))
                       (delivery_path i ''.envelope.run_id'')
                       ''delivery request and run are inconsistent'')) (\<lambda>_.
     require (is_none_or (e_run_id header) (fmhas (hc_runs ctx)))
       (delivery_path i ''.envelope.run_id'') ''delivery run is missing''))))"

section \<open>Frozen recipients\<close>

definition acknowledged_or_waived ::
  "actor_ref \<Rightarrow> acknowledgement list \<Rightarrow> (delivery_retirement_reason \<Rightarrow> bool) \<Rightarrow>
   undeliverable_recipient list \<Rightarrow> team_epoch \<Rightarrow> bool" where
  "acknowledged_or_waived ref acks accepts undeliverable epoch \<longleftrightarrow>
     list_ex (\<lambda>ack. ak_actor ack = ref) acks \<or>
     list_ex (\<lambda>u. ur_recipient u = RecipientActor ref epoch \<and> accepts (ur_reason u)) undeliverable"

definition historical_actor_recipient_is_current_or_resolved ::
  "message_target \<Rightarrow> actor_ref \<Rightarrow> team_epoch \<Rightarrow> acknowledgement list \<Rightarrow> undeliverable_recipient list \<Rightarrow>
   historical_delivery_context \<Rightarrow> bool" where
  "historical_actor_recipient_is_current_or_resolved target ref epoch acks undeliverable ctx =
     (case fmlookup (hc_actors ctx) (ref_actor_id ref) of
        None \<Rightarrow> False
      | Some a \<Rightarrow>
          (case Option.bind (a_team_id a) (fmlookup (hc_teams ctx)) of
             None \<Rightarrow> False
           | Some t \<Rightarrow>
               if a_epoch a < ref_actor_epoch ref \<or> t_epoch t < epoch \<or>
                  \<not> historical_target_matches target a
               then False
               else if ref = actor_ref_of a \<and> epoch = t_epoch t then True
               else acknowledged_or_waived ref acks (\<lambda>_. True) undeliverable epoch))"

definition directive_recipient_ok ::
  "team_id \<Rightarrow> team \<Rightarrow> actor_id list \<Rightarrow> acknowledgement list \<Rightarrow> undeliverable_recipient list \<Rightarrow>
   historical_delivery_context \<Rightarrow> delivery_recipient \<Rightarrow> bool" where
  "directive_recipient_ok team_id t desired acks undeliverable ctx recipient =
     (case recipient of
        RecipientPrimary \<Rightarrow> False
      | RecipientActor ref epoch \<Rightarrow>
          (case fmlookup (hc_actors ctx) (ref_actor_id ref) of
             None \<Rightarrow> False
           | Some a \<Rightarrow>
               if ref_actor_id ref \<notin> set desired \<or> a_team_id a \<noteq> Some team_id \<or>
                  a_epoch a < ref_actor_epoch ref \<or> t_epoch t < epoch
               then False
               else if ref = actor_ref_of a \<and> epoch = t_epoch t then True
               else if t_epoch t \<le> epoch then False
               else acknowledged_or_waived ref acks
                      (\<lambda>reason. reason = TeamGenerationSuperseded team_id epoch) undeliverable epoch))"

definition validate_historical_directive_recipients ::
  "nat \<Rightarrow> team_id \<Rightarrow> delivery_recipient fset \<Rightarrow> acknowledgement list \<Rightarrow>
   undeliverable_recipient list \<Rightarrow> historical_delivery_context \<Rightarrow> failure + unit" where
  "validate_historical_directive_recipients i team_id required acks undeliverable ctx =
     (let path = delivery_path i ''.required_recipients'' in
      case fmlookup (hc_teams ctx) team_id of
        None \<Rightarrow> invalid_snapshot path ''Directive target team is missing''
      | Some t \<Rightarrow>
          let desired = take (case t_profile t of
                                None \<Rightarrow> length (t_actors t)
                              | Some p \<Rightarrow> unat (tp_desired_instances p)) (t_actors t)
          in require (required \<noteq> {||} \<and>
                      (\<forall>r |\<in>| required. directive_recipient_ok team_id t desired acks undeliverable ctx r))
               path ''Team directive lacks a desired current or resolved historical recipient'')"

definition frozen_refs :: "delivery_recipient fset \<Rightarrow> actor_ref list" where
  "frozen_refs required =
     List.map_filter (\<lambda>r. case r of RecipientPrimary \<Rightarrow> None | RecipientActor ref _ \<Rightarrow> Some ref)
       (sorted_list_of_fset required)"

definition validate_historical_required_recipients ::
  "nat \<Rightarrow> message_kind \<Rightarrow> message_target \<Rightarrow> delivery_recipient fset \<Rightarrow> acknowledgement list \<Rightarrow>
   undeliverable_recipient list \<Rightarrow> historical_delivery_context \<Rightarrow> failure + unit" where
  "validate_historical_required_recipients i kind target required acks undeliverable ctx =
     (let path = delivery_path i ''.required_recipients'';
          resolved = (\<lambda>ref epoch. historical_actor_recipient_is_current_or_resolved target ref epoch
                                    acks undeliverable ctx)
      in
      ebind (require (distinct (frozen_refs required)) path
               ''one actor generation cannot own multiple frozen team generations'') (\<lambda>_.
      case target of
        TargetActor target_actor_id \<Rightarrow>
          ebind (require (fmhas (hc_actors ctx) target_actor_id) path
                   ''deterministic target actor is missing'') (\<lambda>_.
          require (fcard required = 1 \<and>
                   (\<forall>r |\<in>| required. case r of
                      RecipientPrimary \<Rightarrow> False
                    | RecipientActor ref epoch \<Rightarrow>
                        ref_actor_id ref = target_actor_id \<and> resolved ref epoch))
            path ''deterministic target has a forged recipient set'')
      | TargetPrimary \<Rightarrow>
          require (required = {|RecipientPrimary|}) path
            ''deterministic target has a forged recipient set''
      | _ \<Rightarrow>
          ebind (case (kind, target) of
                   (KDirective, TargetTeam team_id) \<Rightarrow>
                     validate_historical_directive_recipients i team_id required acks undeliverable ctx
                 | _ \<Rightarrow> Inr ()) (\<lambda>_.
          require (\<forall>r |\<in>| required. case r of
                     RecipientPrimary \<Rightarrow> target = TargetWorkspace
                   | RecipientActor ref epoch \<Rightarrow> resolved ref epoch)
            path ''required recipient is outside the current route or lacks an exact historical resolution'')))"

section \<open>Acknowledgements\<close>

definition recipient_for_historical_ack ::
  "envelope_header \<Rightarrow> delivery_recipient fset \<Rightarrow> acknowledgement \<Rightarrow> (actor_id, actor) fmap \<Rightarrow>
   delivery_recipient option" where
  "recipient_for_historical_ack header required ack actors =
     (if e_target header \<in> {TargetPrimary, TargetWorkspace} \<and> RecipientPrimary |\<in>| required \<and>
         is_some_and (fmlookup actors (ref_actor_id (ak_actor ack))) (\<lambda>a.
           has_capability a HUMAN_FACING_PRIMARY \<and> a_team_id a = None)
      then Some RecipientPrimary
      else bs_find (\<lambda>r. case r of RecipientActor actor _ \<Rightarrow> actor = ak_actor ack | _ \<Rightarrow> False) required)"

definition validate_historical_ack ::
  "nat \<Rightarrow> workspace_id \<Rightarrow> envelope_header \<Rightarrow> delivery_recipient fset \<Rightarrow> delivery_recipient \<Rightarrow>
   acknowledgement \<Rightarrow> (actor_id, actor) fmap \<Rightarrow> failure + unit" where
  "validate_historical_ack i workspace header required recipient ack actors =
     ebind (require (ak_workspace_id ack = workspace \<and> ak_message_id ack = e_message_id header)
              (delivery_path i ''.acknowledgements'')
              ''acknowledgement workspace or message is inconsistent'') (\<lambda>_.
     case fmlookup actors (ref_actor_id (ak_actor ack)) of
       None \<Rightarrow> invalid_snapshot (delivery_path i ''.acknowledgements.actor'')
                 ''acknowledging actor is missing''
     | Some a \<Rightarrow>
         require (recipient |\<in>| required \<and> ref_actor_epoch (ak_actor ack) \<le> a_epoch a \<and>
                  historical_target_matches (e_target header) a)
           (delivery_path i ''.acknowledgements.actor'')
           ''acknowledging actor is outside the delivery target'')"

fun restore_acknowledgements ::
  "nat \<Rightarrow> workspace_id \<Rightarrow> envelope_header \<Rightarrow> delivery_recipient fset \<Rightarrow> (actor_id, actor) fmap \<Rightarrow>
   (delivery_recipient, acknowledgement) fmap \<Rightarrow> acknowledgement list \<Rightarrow>
   failure + (delivery_recipient, acknowledgement) fmap" where
  "restore_acknowledgements i workspace header required actors m [] = Inr m"
| "restore_acknowledgements i workspace header required actors m (ack # acks) =
     (case recipient_for_historical_ack header required ack actors of
        None \<Rightarrow> invalid_snapshot (delivery_path i ''.acknowledgements.actor'')
                  ''acknowledging actor does not own a frozen recipient generation''
      | Some recipient \<Rightarrow>
          ebind (validate_historical_ack i workspace header required recipient ack actors) (\<lambda>_.
          if fmhas m recipient
          then invalid_snapshot (delivery_path i ''.acknowledgements'') ''duplicate acknowledgement actor''
          else restore_acknowledgements i workspace header required actors (fmupd recipient ack m) acks))"

section \<open>Dispositions\<close>

fun restore_undeliverable ::
  "nat \<Rightarrow> (delivery_recipient, delivery_retirement_reason) fmap \<Rightarrow> undeliverable_recipient list \<Rightarrow>
   failure + (delivery_recipient, delivery_retirement_reason) fmap" where
  "restore_undeliverable i m [] = Inr m"
| "restore_undeliverable i m (u # us) =
     (if fmhas m (ur_recipient u)
      then invalid_snapshot (delivery_path i ''.undeliverable_recipients'')
             ''duplicate undeliverable recipient''
      else restore_undeliverable i (fmupd (ur_recipient u) (ur_reason u) m) us)"

definition team_is_closing :: "team \<Rightarrow> bool" where
  "team_is_closing t \<longleftrightarrow> t_status t \<in> {TeamClosing, TeamClosed, TeamRetired}"

definition check_undeliverable_recipient ::
  "string \<Rightarrow> bool \<Rightarrow> delivery_recipient fset \<Rightarrow> (delivery_recipient, acknowledgement) fmap \<Rightarrow>
   historical_delivery_context \<Rightarrow> delivery_recipient \<times> delivery_retirement_reason \<Rightarrow> failure + unit" where
  "check_undeliverable_recipient path requires_team_action required acks ctx = (\<lambda>(recipient, reason).
     ebind (require (recipient |\<in>| required \<and> \<not> fmhas acks recipient) path
              ''undeliverable recipient is not frozen or was also acknowledged'') (\<lambda>_.
     case recipient of
       RecipientPrimary \<Rightarrow>
         invalid_snapshot path ''the logical Primary recipient cannot be retired by a team close''
     | RecipientActor ref slot_epoch \<Rightarrow>
         (case fmlookup (hc_actors ctx) (ref_actor_id ref) of
            None \<Rightarrow> invalid_snapshot path ''undeliverable recipient actor is missing''
          | Some a \<Rightarrow>
              require
                (case reason of
                   TeamClosedReason team_id team_epoch \<Rightarrow>
                     ref_actor_epoch ref \<le> a_epoch a \<and> a_team_id a = Some team_id \<and>
                     slot_epoch = team_epoch \<and>
                     is_some_and (fmlookup (hc_teams ctx) team_id) (\<lambda>t.
                       team_epoch = t_epoch t \<and> team_is_closing t) \<and>
                     \<not> requires_team_action
                 | TeamGenerationSuperseded team_id team_epoch \<Rightarrow>
                     is_some_and (fmlookup (hc_teams ctx) team_id) (\<lambda>t.
                       a_team_id a = Some team_id \<and> slot_epoch = team_epoch \<and>
                       ref_actor_epoch ref \<le> a_epoch a \<and> team_epoch < t_epoch t))
                path ''recipient disposition contradicts current actor/team state'')))"

definition validate_historical_undeliverable_recipients ::
  "nat \<Rightarrow> message_kind \<Rightarrow> envelope_header \<Rightarrow> delivery_recipient fset \<Rightarrow>
   (delivery_recipient, acknowledgement) fmap \<Rightarrow>
   (delivery_recipient, delivery_retirement_reason) fmap \<Rightarrow> historical_delivery_context \<Rightarrow>
   failure + unit" where
  "validate_historical_undeliverable_recipients i kind header required acks undeliverable ctx =
     (let path = delivery_path i ''.undeliverable_recipients'' in
      ebind (require (fmsize undeliverable \<le> MAX_ACKNOWLEDGEMENTS) path
               ''undeliverable recipient count exceeds the protocol quota'') (\<lambda>_.
      let requires_team_action =
            message_requires_team_action (hc_requests ctx) kind (e_request_id header)
      in check_all_from 0 (\<lambda>_. check_undeliverable_recipient path requires_team_action required acks ctx)
           (sorted_list_of_fmap undeliverable)))"

definition validate_historical_retirement_reason ::
  "nat \<Rightarrow> message_kind \<Rightarrow> message_target \<Rightarrow> delivery_recipient fset \<Rightarrow>
   (delivery_recipient, acknowledgement) fmap \<Rightarrow>
   (delivery_recipient, delivery_retirement_reason) fmap \<Rightarrow> delivery_retirement_reason option \<Rightarrow>
   (team_id, team) fmap \<Rightarrow> failure + unit" where
  "validate_historical_retirement_reason i kind target required acks undeliverable reason teams =
     (let path = delivery_path i ''.retirement_reason'' in
      case reason of
        None \<Rightarrow>
          require (required \<noteq> {||}) path ''recipientless delivery lacks a terminal disposition''
      | Some why \<Rightarrow>
          ebind (require (required = {||} \<and> fmsize acks = 0 \<and> fmsize undeliverable = 0) path
                   ''delivery-level disposition requires an empty recipient resolution set'') (\<lambda>_.
          ebind (require (team_close_disposition kind = ObsoleteOutcome) path
                   ''delivery-level team-close disposition requires an obsolete outcome'') (\<lambda>_.
          case target of
            TargetTeam target_team_id \<Rightarrow>
              require
                (case why of
                   TeamClosedReason team_id team_epoch \<Rightarrow>
                     target_team_id = team_id \<and>
                     is_some_and (fmlookup teams team_id) (\<lambda>t.
                       team_epoch = t_epoch t \<and> team_is_closing t)
                 | TeamGenerationSuperseded team_id team_epoch \<Rightarrow>
                     target_team_id = team_id \<and>
                     is_some_and (fmlookup teams team_id) (\<lambda>t. team_epoch < t_epoch t))
                path ''delivery-level team-close disposition contradicts its terminal target''
          | _ \<Rightarrow>
              invalid_snapshot path
                ''delivery-level team-close disposition requires a Team target'')))"

section \<open>Deliveries\<close>

definition delivery_retired_exactly ::
  "(request_id, request) fmap \<Rightarrow> delivery_snapshot \<Rightarrow> (delivery_recipient, acknowledgement) fmap \<Rightarrow>
   (delivery_recipient, delivery_retirement_reason) fmap \<Rightarrow> bool" where
  "delivery_retired_exactly requests d acks undeliverable \<longleftrightarrow>
     (let fully_resolved =
            (ds_retirement_reason d \<noteq> None \<or>
             ds_required_recipients d \<noteq> {||} \<and>
             (\<forall>r |\<in>| ds_required_recipients d. fmhas acks r \<or> fmhas undeliverable r));
          retirement_eligible =
            (is_none_or (e_request_id (ds_envelope d)) (\<lambda>request_id.
               is_some_and (fmlookup requests request_id) (\<lambda>q. is_terminal (q_status q))) \<or>
             fmsize undeliverable \<noteq> 0 \<or> ds_retirement_reason d \<noteq> None)
      in ds_retired d = (fully_resolved \<and> retirement_eligible))"

definition restore_delivery ::
  "historical_delivery_context \<Rightarrow> nat \<Rightarrow> delivery_snapshot \<Rightarrow> failure + delivery_record" where
  "restore_delivery ctx i d =
     ebind (map_err (Err \<circ> Validation \<circ> error_at (delivery_path i ''.payload_digest''))
              (payload_digest_validate (ds_payload_digest d))) (\<lambda>_.
     ebind (require (ds_message_kind d = causal_kind (ds_causal d)) (delivery_path i ''.causal'')
              ''causal message kind contradicts the archived payload kind'') (\<lambda>_.
     ebind (validate_causal_content_ref i d) (\<lambda>_.
     ebind (validate_historical_envelope i (ds_envelope d) (ds_causal d) ctx) (\<lambda>_.
     ebind (validate_historical_required_recipients i (ds_message_kind d) (e_target (ds_envelope d))
              (ds_required_recipients d) (ds_acknowledgements d) (ds_undeliverable_recipients d) ctx)
       (\<lambda>_.
     ebind (restore_acknowledgements i (hc_workspace_id ctx) (ds_envelope d) (ds_required_recipients d)
              (hc_actors ctx) fmempty (ds_acknowledgements d)) (\<lambda>acks.
     ebind (restore_undeliverable i fmempty (ds_undeliverable_recipients d)) (\<lambda>undeliverable.
     ebind (validate_historical_undeliverable_recipients i (ds_message_kind d) (ds_envelope d)
              (ds_required_recipients d) acks undeliverable ctx) (\<lambda>_.
     ebind (validate_historical_retirement_reason i (ds_message_kind d) (e_target (ds_envelope d))
              (ds_required_recipients d) acks undeliverable (ds_retirement_reason d) (hc_teams ctx))
       (\<lambda>_.
     ebind (require (delivery_retired_exactly (hc_requests ctx) d acks undeliverable)
              (delivery_path i ''.retired'')
              ''retired state contradicts recipient disposition or request lifecycle'') (\<lambda>_.
     Inr \<lparr>d_envelope = ds_envelope d, d_message_kind = ds_message_kind d,
          d_payload_digest = ds_payload_digest d, d_causal = ds_causal d,
          d_required_recipients = ds_required_recipients d, d_acknowledgements = acks,
          d_undeliverable_recipients = undeliverable, d_retirement_reason = ds_retirement_reason d,
          d_retired = ds_retired d\<rparr>))))))))))"

fun restore_deliveries_from ::
  "historical_delivery_context \<Rightarrow> nat \<Rightarrow> (message_id, delivery_record) fmap \<Rightarrow>
   delivery_snapshot list \<Rightarrow> failure + (message_id, delivery_record) fmap" where
  "restore_deliveries_from ctx i m [] = Inr m"
| "restore_deliveries_from ctx i m (d # ds) =
     ebind (restore_delivery ctx i d) (\<lambda>r.
     if fmhas m (e_message_id (ds_envelope d))
     then invalid_snapshot (delivery_path i ''.envelope.message_id'') ''duplicate message id''
     else restore_deliveries_from ctx (Suc i) (fmupd (e_message_id (ds_envelope d)) r m) ds)"

definition restore_deliveries ::
  "workspace_id \<Rightarrow> delivery_snapshot list \<Rightarrow> (actor_id, actor) fmap \<Rightarrow> (team_id, team) fmap \<Rightarrow>
   (request_id, request) fmap \<Rightarrow> (run_id, run) fmap \<Rightarrow>
   failure + (message_id, delivery_record) fmap" where
  "restore_deliveries workspace deliveries actors teams requests runs =
     restore_deliveries_from
       \<lparr>hc_workspace_id = workspace, hc_actors = actors, hc_teams = teams, hc_requests = requests,
        hc_runs = runs\<rparr> 0 fmempty deliveries"

definition validate_closed_team_delivery_dispositions ::
  "(team_id, team) fmap \<Rightarrow> (request_id, request) fmap \<Rightarrow> (message_id, delivery_record) fmap \<Rightarrow>
   failure + unit" where
  "validate_closed_team_delivery_dispositions teams requests mailbox =
     check_all_from 0 (\<lambda>_ t.
       require (\<not> list_ex (\<lambda>d.
                  \<not> d_retired d \<and>
                  message_requires_team_action requests (d_message_kind d)
                    (e_request_id (d_envelope d)) \<and>
                  (\<exists>r |\<in>| d_required_recipients d. case r of
                     RecipientPrimary \<Rightarrow> False
                   | RecipientActor ref _ \<Rightarrow>
                       ref_actor_id ref \<in> set (t_actors t) \<and>
                       \<not> fmhas (d_acknowledgements d) r \<and>
                       \<not> fmhas (d_undeliverable_recipients d) r)) (fmvals mailbox))
         ''deliveries'' ''closed team retains an unread action-requiring delivery'')
       (filter (\<lambda>t. t_status t = TeamClosed) (fmvals teams))"

section \<open>Pending handoffs\<close>

fun restore_handoffs_from ::
  "(actor_id, actor) fmap \<Rightarrow> (team_id, team) fmap \<Rightarrow> (request_id, request) fmap \<Rightarrow> nat \<Rightarrow>
   request_id list \<Rightarrow> (handoff_id, pending_handoff) fmap \<Rightarrow> pending_handoff list \<Rightarrow>
   failure + (handoff_id, pending_handoff) fmap" where
  "restore_handoffs_from actors teams requests i seen m [] = Inr m"
| "restore_handoffs_from actors teams requests i seen m (p # ps) =
     (let path = indexed ''pending_handoffs'' i; offer = ph_offer p in
      ebind (map_err (Err \<circ> Validation \<circ> error_at (path @ ''.offer''))
               (payload_digest_validate (hr_payload_digest offer))) (\<lambda>_.
      case fmlookup requests (hr_request_id offer) of
        None \<Rightarrow> invalid_snapshot (path @ ''.offer.request_id'') ''handoff request is missing''
      | Some q \<Rightarrow>
          (case q_assignment q of
             None \<Rightarrow> invalid_snapshot (path @ ''.assignment_epoch'')
                       ''handoff request has no assignment''
           | Some assignment \<Rightarrow>
               ebind (require (q_request_id q \<notin> set seen \<and>
                               q_status q \<notin> {Accepted, IntegrationAuthorized, Cancelled, Completed})
                        (path @ ''.offer.request_id'')
                        ''request has multiple or ineligible pending handoffs'') (\<lambda>_.
               ebind (require (q_team_id q = hr_from_team_id offer \<and>
                               fmhas teams (hr_to_team_id offer) \<and>
                               as_actor assignment = ph_offered_by p \<and>
                               as_epoch assignment = ph_assignment_epoch p \<and>
                               is_some_and (fmlookup actors (ref_actor_id (ph_offered_by p)))
                                 (\<lambda>a. actor_ref_of a = ph_offered_by p) \<and>
                               is_none_or (hr_candidate offer) (\<lambda>c. q_candidate q = Some c))
                        path ''handoff teams, actor, assignment, or candidate are inconsistent'') (\<lambda>_.
               if fmhas m (hr_handoff_id offer)
               then invalid_snapshot (path @ ''.offer.handoff_id'') ''duplicate handoff id''
               else restore_handoffs_from actors teams requests (Suc i) (q_request_id q # seen)
                      (fmupd (hr_handoff_id offer) p m) ps)))))"

definition restore_handoffs ::
  "pending_handoff list \<Rightarrow> (actor_id, actor) fmap \<Rightarrow> (team_id, team) fmap \<Rightarrow>
   (request_id, request) fmap \<Rightarrow> failure + (handoff_id, pending_handoff) fmap" where
  "restore_handoffs handoffs actors teams requests =
     restore_handoffs_from actors teams requests 0 [] fmempty handoffs"

end
