(* ===== verification/Restore_History.thy ===== *)
theory Restore_History
  imports Restore_Deliveries
begin

text \<open>
  The validators of \<open>Supervisor::from_snapshot\<close> in \<open>crates/agsv-core/src/supervisor.rs\<close> for the
  history: quotas, the checkpoints of the archive, the audit log and its links to the mailbox, and
  the references of an archived cycle to other requests.
\<close>

section \<open>Quotas\<close>

definition MAX_SNAPSHOT_BYTES :: nat where "MAX_SNAPSHOT_BYTES = 67108864"

definition check_quota :: "nat \<Rightarrow> string \<times> nat \<times> nat \<Rightarrow> failure + unit" where
  "check_quota i = (\<lambda>(resource, count, maximum).
     if maximum < count then Inl (quota resource maximum) else Inr ())"

definition validate_snapshot_quota ::
  "(domain_snapshot \<Rightarrow> u8 list option) \<Rightarrow> domain_snapshot \<Rightarrow> failure + unit" where
  "validate_snapshot_quota snapshot_json sn =
     ebind (check_all_from 0 check_quota
       [(''actors'', length (sn_actors sn), MAX_DOMAIN_ENTITIES),
        (''teams'', length (sn_teams sn), MAX_DOMAIN_ENTITIES),
        (''requests'', length (sn_requests sn), MAX_DOMAIN_ENTITIES),
        (''runs'', length (sn_runs sn), MAX_DOMAIN_ENTITIES),
        (''pending handoffs'', length (sn_pending_handoffs sn), MAX_DOMAIN_ENTITIES),
        (''deliveries'', length (sn_deliveries sn), MAX_DELIVERIES),
        (''audit events'', length (sn_audit_events sn), MAX_AUDIT_EVENTS)]) (\<lambda>_.
     if list_ex (\<lambda>t. MAX_DOMAIN_ENTITIES < length (t_actors t)) (sn_teams sn) \<or>
        list_ex (\<lambda>q. MAX_DOMAIN_ENTITIES < length (q_candidate_history q)) (sn_requests sn) \<or>
        list_ex (\<lambda>d. MAX_ACKNOWLEDGEMENTS < length (ds_acknowledgements d) \<or>
                     MAX_ACKNOWLEDGEMENTS < length (ds_undeliverable_recipients d)) (sn_deliveries sn)
     then Inl (quota ''nested snapshot collection'' MAX_DOMAIN_ENTITIES)
     else
     ebind (ok_or (snapshot_json sn) (quota ''serialized snapshot bytes'' MAX_SNAPSHOT_BYTES)) (\<lambda>bytes.
     if MAX_SNAPSHOT_BYTES < length bytes
     then Inl (quota ''serialized snapshot bytes'' MAX_SNAPSHOT_BYTES) else Inr ()))"

definition validate_archived_group_quota ::
  "delivery_snapshot list \<Rightarrow> audit_event list \<Rightarrow> failure + unit" where
  "validate_archived_group_quota deliveries audit =
     (if MAX_DELIVERIES < length deliveries then
        Inl (quota ''archived cycle deliveries'' MAX_DELIVERIES)
      else if MAX_AUDIT_EVENTS < length audit then
        Inl (quota ''archived cycle audit events'' MAX_AUDIT_EVENTS)
      else if list_ex (\<lambda>d. MAX_ACKNOWLEDGEMENTS < length (ds_acknowledgements d)) deliveries then
        Inl (quota ''archived cycle acknowledgements'' MAX_ACKNOWLEDGEMENTS)
      else Inr ())"

section \<open>Checkpoints\<close>

text \<open>The two rolling checkpoints have the same shape and differ in the name of their chain.\<close>

definition chain_checkpoint_validate :: "string \<Rightarrow> chain_checkpoint \<Rightarrow> validation_error + unit" where
  "chain_checkpoint_validate chain c =
     (case (ck_count c = 0, ck_head_sha256 c) of
        (True, None) \<Rightarrow> Inr ()
      | (True, Some _) \<Rightarrow>
          Inl (validation_error_new ''head_sha256'' Inconsistent
                 (''an empty '' @ chain @ '' chain cannot have a head digest''))
      | (False, None) \<Rightarrow>
          Inl (validation_error_new ''head_sha256'' Required
                 (''a non-empty '' @ chain @ '' chain requires a head digest''))
      | (False, Some head) \<Rightarrow> map_err (error_at ''head_sha256'') (payload_digest_validate head))"

definition observability_checkpoint_validate :: "chain_checkpoint \<Rightarrow> validation_error + unit" where
  "observability_checkpoint_validate = chain_checkpoint_validate ''observability''"

definition team_generation_checkpoint_validate :: "chain_checkpoint \<Rightarrow> validation_error + unit" where
  "team_generation_checkpoint_validate = chain_checkpoint_validate ''team-generation''"

definition checked_add :: "u64 \<Rightarrow> u64 \<Rightarrow> u64 option" where
  "checked_add a b = (if unat a + unat b < 2 ^ 64 then Some (a + b) else None)"

text \<open>\<open>u64::try_from\<close> of a length.\<close>

definition u64_of_length :: "nat \<Rightarrow> failure + u64" where
  "u64_of_length n = (if n < 2 ^ 64 then Inr (of_nat n) else Inl (Err EpochExhausted))"

definition validate_archive_commit_checkpoint :: "history_checkpoint \<Rightarrow> failure + unit" where
  "validate_archive_commit_checkpoint h =
     ebind (ok_or (Option.bind (checked_add (h_archived_delivery_count h) (h_archived_request_count h))
                     (\<lambda>n. checked_add n (h_archived_audit_event_count h))) (Err EpochExhausted))
       (\<lambda>archived_row_count.
     if archived_row_count = 0 then
       require (h_archive_commit_count h = 0 \<and> h_archive_head_sha256 h = None)
         ''history_checkpoint.archive_head_sha256''
         ''empty archive has a commit count or rolling head''
     else
     ebind (require (h_archive_commit_count h \<noteq> 0 \<and> h_archive_commit_count h \<le> archived_row_count)
              ''history_checkpoint.archive_commit_count''
              ''non-empty archive has an impossible commit count'') (\<lambda>_.
     case h_archive_head_sha256 h of
       None \<Rightarrow> invalid_snapshot ''history_checkpoint.archive_head_sha256''
                 ''non-empty archive lacks a rolling head''
     | Some head \<Rightarrow>
         map_err (Err \<circ> Validation \<circ> error_at ''history_checkpoint.archive_head_sha256'')
           (payload_digest_validate head)))"

text \<open>A snapshot from before the checkpoints gets one derived from its audit log.\<close>

definition adopt_legacy_audit ::
  "ext \<Rightarrow> history_checkpoint \<Rightarrow> audit_event list \<Rightarrow> failure + history_checkpoint" where
  "adopt_legacy_audit x h audit =
     (if h = empty_history \<and> audit \<noteq> [] then
        ebind (u64_of_length (length audit)) (\<lambda>count.
        ebind (digest_audit_event x (last audit)) (\<lambda>digest.
        Inr (h\<lparr>h_audit_event_count := count, h_audit_head_sha256 := Some digest\<rparr>)))
      else Inr h)"

definition validate_audit_head ::
  "ext \<Rightarrow> history_checkpoint \<Rightarrow> audit_event list \<Rightarrow> failure + unit" where
  "validate_audit_head x h audit =
     (if h_audit_event_count h = 0 then
        require (h_audit_head_sha256 h = None) ''history_checkpoint.audit_head_sha256''
          ''empty audit history has a head digest''
      else
        case h_audit_head_sha256 h of
          None \<Rightarrow> invalid_snapshot ''history_checkpoint.audit_head_sha256''
                    ''non-empty audit history lacks a head digest''
        | Some head \<Rightarrow>
            ebind (map_err (Err \<circ> Validation \<circ> error_at ''history_checkpoint.audit_head_sha256'')
                     (payload_digest_validate head)) (\<lambda>_.
            if audit \<noteq> [] \<and> au_sequence (last audit) = h_audit_event_count h then
              ebind (digest_audit_event x (last audit)) (\<lambda>digest.
              require (digest = head) ''history_checkpoint.audit_head_sha256''
                ''hot final audit event contradicts the global head digest'')
            else Inr ()))"

definition restore_history_checkpoint ::
  "ext \<Rightarrow> history_checkpoint \<Rightarrow> audit_event list \<Rightarrow> failure + history_checkpoint" where
  "restore_history_checkpoint x checkpoint audit =
     ebind (adopt_legacy_audit x checkpoint audit) (\<lambda>h.
     ebind (require (h_archived_request_count h = h_archived_run_count h \<and>
                     h_archived_audit_event_count h \<le> h_audit_event_count h \<and>
                     h_archived_delivery_count h \<le> h_archived_audit_event_count h \<and>
                     h_archived_request_count h \<le> h_archived_delivery_count h)
              ''history_checkpoint'' ''archive counts are internally inconsistent'') (\<lambda>_.
     ebind (validate_archive_commit_checkpoint h) (\<lambda>_.
     ebind (u64_of_length (length audit)) (\<lambda>hot_count.
     ebind (require (checked_add (h_archived_audit_event_count h) hot_count =
                       Some (h_audit_event_count h))
              ''history_checkpoint.audit_event_count''
              ''global audit count does not equal archived plus hot events'') (\<lambda>_.
     ebind (validate_audit_head x h audit) (\<lambda>_.
     Inr h))))))"

section \<open>Audit links\<close>

record audit_scan =
  sc_accepted :: "message_id list"
  sc_acknowledged :: "(message_id \<times> delivery_recipient) list"
  sc_previous_sequence :: u64

definition audit_path :: "nat \<Rightarrow> string \<Rightarrow> string" where
  "audit_path i fld = indexed ''audit_events'' i @ fld"

text \<open>The slot that the audit event of an acknowledgement means: the logical Primary when its
  slot was acknowledged by the actor, else the slot of the actor's acknowledgement.\<close>

definition audit_ack_recipient ::
  "nat \<Rightarrow> delivery_record \<Rightarrow> actor_id \<Rightarrow> failure + delivery_recipient" where
  "audit_ack_recipient i d actor_id =
     (if e_target (d_envelope d) \<in> {TargetPrimary, TargetWorkspace} \<and>
         is_some_and (fmlookup (d_acknowledgements d) RecipientPrimary)
           (\<lambda>ack. ref_actor_id (ak_actor ack) = actor_id)
      then Inr RecipientPrimary
      else
        case find (\<lambda>ack. ref_actor_id (ak_actor ack) = actor_id) (fmvals (d_acknowledgements d)) of
          None \<Rightarrow> invalid_snapshot (audit_path i '''') ''acknowledgement audit link is missing''
        | Some ack \<Rightarrow>
            (case find (\<lambda>r. case r of RecipientPrimary \<Rightarrow> False
                             | RecipientActor actor _ \<Rightarrow> actor = ak_actor ack)
                    (sorted_list_of_fset (fmdom (d_acknowledgements d))) of
               None \<Rightarrow> invalid_snapshot (audit_path i '''')
                         ''acknowledgement recipient generation is missing''
             | Some r \<Rightarrow> Inr r))"

definition check_audit_event ::
  "(message_id, delivery_record) fmap \<Rightarrow> u64 option \<Rightarrow> nat \<Rightarrow> audit_event \<Rightarrow> audit_scan \<Rightarrow>
   failure + audit_scan" where
  "check_audit_event mailbox maximum i event scan =
     ebind (require (au_sequence event \<noteq> 0 \<and> sc_previous_sequence scan < au_sequence event \<and>
                     is_none_or maximum (\<lambda>m. au_sequence event \<le> m))
              (audit_path i ''.sequence'')
              ''audit sequence is zero, duplicated, unordered, or beyond the global count'') (\<lambda>_.
     let scan1 = scan\<lparr>sc_previous_sequence := au_sequence event\<rparr> in
     case au_kind event of
       MessageAccepted message_id kind digest \<Rightarrow>
         (case fmlookup mailbox message_id of
            None \<Rightarrow> invalid_snapshot (audit_path i ''.message_id'') ''accepted audit message is missing''
          | Some d \<Rightarrow>
              ebind (require (d_message_kind d = kind \<and> digest = Some (d_payload_digest d) \<and>
                              au_occurred_at event = e_sent_at (d_envelope d) \<and>
                              au_team_id event = e_team_id (d_envelope d) \<and>
                              au_team_epoch event = e_team_epoch (d_envelope d) \<and>
                              message_id \<notin> set (sc_accepted scan1))
                       (audit_path i '''') ''accepted audit kind is wrong or duplicated'') (\<lambda>_.
              Inr (scan1\<lparr>sc_accepted := message_id # sc_accepted scan1\<rparr>)))
     | MessageAcknowledged message_id actor_id \<Rightarrow>
         (case fmlookup mailbox message_id of
            None \<Rightarrow> invalid_snapshot (audit_path i ''.message_id'')
                      ''acknowledged audit message is missing''
          | Some d \<Rightarrow>
              ebind (audit_ack_recipient i d actor_id) (\<lambda>recipient.
              ebind (require (message_id \<in> set (sc_accepted scan1) \<and>
                              au_team_id event = e_team_id (d_envelope d) \<and>
                              au_team_epoch event = e_team_epoch (d_envelope d) \<and>
                              is_some_and (fmlookup (d_acknowledgements d) recipient) (\<lambda>ack.
                                ref_actor_id (ak_actor ack) = actor_id \<and>
                                au_occurred_at event = ak_acknowledged_at ack) \<and>
                              (message_id, recipient) \<notin> set (sc_acknowledged scan1))
                       (audit_path i '''')
                       ''acknowledgement audit link is missing, premature, or duplicated'') (\<lambda>_.
              Inr (scan1\<lparr>sc_acknowledged := (message_id, recipient) # sc_acknowledged scan1\<rparr>)))))"

fun check_audit_from ::
  "(message_id, delivery_record) fmap \<Rightarrow> u64 option \<Rightarrow> nat \<Rightarrow> audit_scan \<Rightarrow> audit_event list \<Rightarrow>
   failure + audit_scan" where
  "check_audit_from mailbox maximum i scan [] = Inr scan"
| "check_audit_from mailbox maximum i scan (e # es) =
     ebind (check_audit_event mailbox maximum i e scan) (\<lambda>scan1.
     check_audit_from mailbox maximum (Suc i) scan1 es)"

definition delivery_audited :: "audit_scan \<Rightarrow> message_id \<times> delivery_record \<Rightarrow> bool" where
  "delivery_audited scan = (\<lambda>(message_id, d).
     message_id \<in> set (sc_accepted scan) \<and>
     (\<forall>r |\<in>| fmdom (d_acknowledgements d). (message_id, r) \<in> set (sc_acknowledged scan)))"

definition validate_audit_links ::
  "audit_event list \<Rightarrow> (message_id, delivery_record) fmap \<Rightarrow> u64 option \<Rightarrow> failure + unit" where
  "validate_audit_links audit mailbox maximum =
     ebind (check_audit_from mailbox maximum 0
              \<lparr>sc_accepted = [], sc_acknowledged = [], sc_previous_sequence = 0\<rparr> audit) (\<lambda>scan.
     require (list_all (delivery_audited scan) (sorted_list_of_fmap mailbox)) ''audit_events''
       ''delivery or acknowledgement has no matching audit event'')"

definition validate_audit ::
  "audit_event list \<Rightarrow> (message_id, delivery_record) fmap \<Rightarrow> history_checkpoint \<Rightarrow> failure + unit" where
  "validate_audit audit mailbox h = validate_audit_links audit mailbox (Some (h_audit_event_count h))"

definition validate_archived_audit ::
  "audit_event list \<Rightarrow> (message_id, delivery_record) fmap \<Rightarrow> failure + unit" where
  "validate_archived_audit audit mailbox = validate_audit_links audit mailbox None"

section \<open>References of an archived cycle\<close>

datatype archived_request_reference =
  ArchivedRequestReference
    (ar_request_id: request_id) (ar_team_id: team_id) (ar_creation_audit_sequence: u64)

datatype replay_external_request =
  ReplayExternalRequest (rx_team_id: team_id) (rx_creation_audit_sequence: u64)

fun restore_references_from ::
  "request_id \<Rightarrow> (team_id, team) fmap \<Rightarrow> nat \<Rightarrow> (request_id, replay_external_request) fmap \<Rightarrow>
   archived_request_reference list \<Rightarrow> failure + (request_id, replay_external_request) fmap" where
  "restore_references_from archived teams i m [] = Inr m"
| "restore_references_from archived teams i m (r # rs) =
     ebind (require (ar_request_id r \<noteq> archived \<and> ar_creation_audit_sequence r \<noteq> 0 \<and>
                     fmhas teams (ar_team_id r))
              (indexed ''archived_request_references'' i)
              ''dependency reference is self-referential, unsequenced, or has an unknown team'') (\<lambda>_.
     if fmhas m (ar_request_id r)
     then invalid_snapshot (indexed ''archived_request_references'' i @ ''.request_id'')
            ''duplicate dependency request reference''
     else restore_references_from archived teams (Suc i)
            (fmupd (ar_request_id r)
               (ReplayExternalRequest (ar_team_id r) (ar_creation_audit_sequence r)) m) rs)"

definition restore_archived_request_references ::
  "archived_request_reference list \<Rightarrow> request_id \<Rightarrow> (team_id, team) fmap \<Rightarrow>
   failure + (request_id, replay_external_request) fmap" where
  "restore_archived_request_references references archived teams =
     (if MAX_DOMAIN_ENTITIES < length references
      then Inl (quota ''archived dependency request references'' MAX_DOMAIN_ENTITIES)
      else restore_references_from archived teams 0 fmempty references)"

end
