(* ===== verification/Causal_Replay.thy ===== *)
theory Causal_Replay
  imports Restore_Deliveries Restore_History Review_Handlers
begin

text \<open>
  \<open>CausalReplay\<close> of \<open>crates/agsv-core/src/supervisor.rs\<close>: \<open>from_snapshot\<close> and the archive validators
  replay the accepted messages in audit order, from their compact facts, on a small machine of
  requests, runs, handoffs and consultations, and compare what it reaches with what was persisted.

  A replay is local to its caller, which drops it at the first error, so its methods return an
  error or the next replay.
\<close>

section \<open>State\<close>

datatype replay_consultation =
  ReplayConsultation
    (rc_requester: actor_ref) (rc_requester_is_primary: bool) (rc_target_team_id: team_id)

record causal_replay =
  rp_requests :: "(request_id, request) fmap"
  rp_runs :: "(run_id, run) fmap"
  rp_handoffs :: "(handoff_id, pending_handoff) fmap"
  rp_consultations :: "(message_id, replay_consultation) fmap"
  rp_decision_ids :: "decision_id fset"
  rp_primary_actors :: "(primary_epoch, actor_id) fmap"
  rp_actor_epochs :: "(actor_id, actor_epoch) fmap"
  rp_team_epochs :: "(team_id, team_epoch) fmap"
  rp_last_primary_epoch :: "primary_epoch option"
  rp_snapshot_active_primary :: "actor_ref option"
  rp_external_requests :: "(request_id, replay_external_request) fmap"
  rp_current_audit_sequence :: u64

text \<open>What the replay is given: the arguments of \<open>CausalReplay::apply\<close> that stay the same.\<close>

record causal_history =
  ch_policy_revision :: policy_revision
  ch_primary_epoch :: primary_epoch
  ch_active_primary :: "actor_ref option"
  ch_audit :: "audit_event list"
  ch_mailbox :: "(message_id, delivery_record) fmap"
  ch_actors :: "(actor_id, actor) fmap"
  ch_teams :: "(team_id, team) fmap"
  ch_requests :: "(request_id, request) fmap"
  ch_runs :: "(run_id, run) fmap"
  ch_handoffs :: "(handoff_id, pending_handoff) fmap"
  ch_external_requests :: "(request_id, replay_external_request) fmap option"
  ch_require_completed_consultations :: bool

section \<open>Checks on the sender and the route\<close>

definition require_history_capability :: "actor \<Rightarrow> capability_id \<Rightarrow> string \<Rightarrow> failure + unit" where
  "require_history_capability a capability action =
     require (has_capability a capability) ''deliveries.envelope.sender'' action"

definition require_history_primary :: "actor \<Rightarrow> string \<Rightarrow> failure + unit" where
  "require_history_primary a action =
     require (has_capability a HUMAN_FACING_PRIMARY \<and> a_team_id a = None)
       ''deliveries.envelope.sender'' action"

definition require_history_consultation_requester :: "actor \<Rightarrow> failure + unit" where
  "require_history_consultation_requester a =
     (if a_team_id a \<noteq> None \<and> has_capability a IMPLEMENTATION_EXECUTION then Inr ()
      else require_history_primary a ''consultation request'')"

definition require_history_target :: "message_target \<Rightarrow> message_target \<Rightarrow> failure + unit" where
  "require_history_target actual expected =
     require (actual = expected) ''deliveries.envelope.target''
       ''accepted message used an unauthorized route''"

definition require_known_history_team :: "(team_id, team) fmap \<Rightarrow> team_id \<Rightarrow> failure + unit" where
  "require_known_history_team teams team_id =
     require (fmhas teams team_id) ''deliveries.envelope.target''
       ''accepted message targeted an unknown team''"

definition ensure_replay_candidate :: "request \<Rightarrow> candidate \<Rightarrow> failure + unit" where
  "ensure_replay_candidate q candidate =
     require (q_candidate q = Some candidate) ''deliveries.message.candidate''
       ''message does not bind the current exact candidate''"

definition required_request_id :: "envelope \<Rightarrow> failure + request_id" where
  "required_request_id env =
     ok_or (e_request_id env)
       (Err (InvalidSnapshot ''deliveries.envelope.request_id''
          ''request-scoped message lacks a request id''))"

section \<open>Fences of the history\<close>

definition validate_history_team_fence ::
  "(team_id, team) fmap \<Rightarrow> envelope \<Rightarrow> actor \<Rightarrow> causal_replay \<Rightarrow> failure + causal_replay" where
  "validate_history_team_fence teams env a rp =
     (case e_team_id env of
        None \<Rightarrow> Inr rp
      | Some team_id \<Rightarrow>
          ebind (ok_or (fmlookup teams team_id)
                   (Err (InvalidSnapshot ''deliveries.envelope.team_id''
                      ''historical team is missing''))) (\<lambda>t.
          ebind (ok_or (e_team_epoch env)
                   (Err (InvalidSnapshot ''deliveries.envelope.team_epoch''
                      ''team fence is missing''))) (\<lambda>epoch.
          let regresses =
                (a_team_id a \<noteq> None \<and>
                 is_some_and (fmlookup (rp_team_epochs rp) team_id) (\<lambda>previous. epoch < previous))
          in ebind (require (\<not> (t_epoch t < epoch \<or> regresses)) ''deliveries.envelope.team_epoch''
                      ''accepted team epoch is impossible or regresses'') (\<lambda>_.
             Inr (if a_team_id a \<noteq> None
                  then rp\<lparr>rp_team_epochs := fmupd team_id epoch (rp_team_epochs rp)\<rparr>
                  else rp)))))"

definition authorize_history_primary ::
  "primary_epoch \<Rightarrow> envelope \<Rightarrow> actor \<Rightarrow> causal_replay \<Rightarrow> failure + causal_replay" where
  "authorize_history_primary primary_epoch env a rp =
     (if has_capability a HUMAN_FACING_PRIMARY \<and> a_team_id a = None then
        ebind (require (\<not> (e_primary_epoch env = primary_epoch \<and>
                           rp_snapshot_active_primary rp \<noteq> Some (e_sender env)))
                 ''deliveries.envelope.sender''
                 ''current-epoch Primary sender is not the active Primary'') (\<lambda>_.
        case fmlookup (rp_primary_actors rp) (e_primary_epoch env) of
          None \<Rightarrow> Inr (rp\<lparr>rp_primary_actors :=
                           fmupd (e_primary_epoch env) (a_actor_id a) (rp_primary_actors rp)\<rparr>)
        | Some existing \<Rightarrow>
            if existing \<noteq> a_actor_id a
            then invalid_snapshot ''deliveries.envelope.primary_epoch''
                   ''multiple Primary actors used the same lease epoch''
            else Inr rp)
      else Inr rp)"

definition authorize_history ::
  "causal_history \<Rightarrow> envelope \<Rightarrow> causal_replay \<Rightarrow> failure + actor \<times> causal_replay" where
  "authorize_history ch env rp =
     ebind (require (e_policy_revision env = ch_policy_revision ch \<and>
                     e_primary_epoch env \<le> ch_primary_epoch ch)
              ''deliveries.envelope''
              ''accepted message has a stale policy or impossible Primary fence'') (\<lambda>_.
     ebind (require (\<not> is_some_and (rp_last_primary_epoch rp)
                          (\<lambda>previous. e_primary_epoch env < previous))
              ''audit_events'' ''accepted Primary epochs regress in audit order'') (\<lambda>_.
     let rp1 = rp\<lparr>rp_last_primary_epoch := Some (e_primary_epoch env)\<rparr> in
     ebind (ok_or (fmlookup (ch_actors ch) (ref_actor_id (e_sender env)))
              (Err (InvalidSnapshot ''deliveries.envelope.sender''
                 ''historical sender is missing''))) (\<lambda>a.
     ebind (require (\<not> (a_epoch a < ref_actor_epoch (e_sender env) \<or>
                        is_some_and (fmlookup (rp_actor_epochs rp1) (a_actor_id a))
                          (\<lambda>previous. ref_actor_epoch (e_sender env) < previous)))
              ''deliveries.envelope.sender.actor_epoch''
              ''accepted actor epoch is impossible or regresses'') (\<lambda>_.
     let rp2 = rp1\<lparr>rp_actor_epochs :=
                 fmupd (a_actor_id a) (ref_actor_epoch (e_sender env)) (rp_actor_epochs rp1)\<rparr> in
     ebind (require (a_team_id a = None \<or> a_team_id a = e_team_id env)
              ''deliveries.envelope.team_id'' ''team actor used another team context'') (\<lambda>_.
     ebind (validate_history_team_fence (ch_teams ch) env a rp2) (\<lambda>rp3.
     ebind (authorize_history_primary (ch_primary_epoch ch) env a rp3) (\<lambda>rp4.
     Inr (a, rp4))))))))"

section \<open>Request context\<close>

definition replay_request_context :: "envelope \<Rightarrow> causal_replay \<Rightarrow> failure + request" where
  "replay_request_context env rp =
     ebind (context_ids env) (\<lambda>(request_id, run_id).
     ebind (ok_or (fmlookup (rp_requests rp) request_id)
              (Err (InvalidSnapshot ''deliveries.envelope.request_id''
                 ''request was not created yet''))) (\<lambda>q.
     ebind (require (q_run_id q = run_id \<and>
                     \<not> is_none_or (fmlookup (rp_runs rp) run_id) (\<lambda>r. r_request_id r \<noteq> request_id))
              ''deliveries.envelope.run_id'' ''request and run provenance are inconsistent'') (\<lambda>_.
     let team_matches =
       (case e_message env of
          MHandoffAcceptance acceptance \<Rightarrow>
            q_team_id q = ha_from_team_id acceptance \<and>
            e_team_id env = Some (ha_to_team_id acceptance)
        | _ \<Rightarrow>
            e_team_id env = Some (q_team_id q) \<and>
            (request_blocks_team_close (q_status q) \<or> e_team_epoch env = Some (q_team_epoch q)))
     in ebind (require team_matches ''deliveries.envelope.team_id''
                 ''request-scoped message used the wrong team context'') (\<lambda>_. Inr q))))"

text \<open>\<open>get_mut(..).ok_or(..)\<close> followed by a write.\<close>

definition replay_put_request ::
  "request_id \<Rightarrow> (request \<Rightarrow> request) \<Rightarrow> causal_replay \<Rightarrow> failure + causal_replay" where
  "replay_put_request request_id f rp =
     ebind (ok_or (fmlookup (rp_requests rp) request_id) (Err (UnknownRequest request_id))) (\<lambda>_.
     Inr (rp\<lparr>rp_requests := fmmodify request_id f (rp_requests rp)\<rparr>))"

definition replay_put_run ::
  "run_id \<Rightarrow> (run \<Rightarrow> run) \<Rightarrow> causal_replay \<Rightarrow> failure + causal_replay" where
  "replay_put_run run_id f rp =
     ebind (ok_or (fmlookup (rp_runs rp) run_id) (Err (UnknownRun run_id))) (\<lambda>_.
     Inr (rp\<lparr>rp_runs := fmmodify run_id f (rp_runs rp)\<rparr>))"

definition replay_drop_handoffs :: "(pending_handoff \<Rightarrow> bool) \<Rightarrow> causal_replay \<Rightarrow> causal_replay" where
  "replay_drop_handoffs P rp = rp\<lparr>rp_handoffs := fmretain (\<lambda>p. \<not> P p) (rp_handoffs rp)\<rparr>"

definition replay_assignee_target :: "envelope \<Rightarrow> causal_replay \<Rightarrow> failure + unit" where
  "replay_assignee_target env rp =
     ebind (replay_request_context env rp) (\<lambda>q.
     ebind (ok_or (q_assignment q) (Err NotAssignedActor)) (\<lambda>assignment.
     require (e_target env = TargetActor (ref_actor_id (as_actor assignment)) \<or>
              e_target env = TargetTeam (q_team_id q))
       ''deliveries.envelope.target'' ''Primary request message was not routed to its assignee''))"

text \<open>Replacements of actors leave no message, so an executor may quote an assignment that is newer
  than the replayed one; the replay then adopts it.\<close>

definition replay_ensure_assignment ::
  "envelope \<Rightarrow> actor \<Rightarrow> causal_replay \<Rightarrow> failure + causal_replay" where
  "replay_ensure_assignment env a rp =
     ebind (required_request_id env) (\<lambda>request_id.
     ebind (ok_or (e_assignment_epoch env)
              (Err (InvalidSnapshot ''deliveries.envelope.assignment_epoch''
                 ''executor message lacks assignment fence''))) (\<lambda>supplied.
     ebind (replay_request_context env rp) (\<lambda>q.
     ebind (ok_or (q_assignment q) (Err NotAssignedActor)) (\<lambda>assignment.
     ebind (require (\<not> (supplied < as_epoch assignment \<or> a_team_id a \<noteq> Some (q_team_id q) \<or>
                        supplied = as_epoch assignment \<and>
                        ref_actor_id (as_actor assignment) \<noteq> a_actor_id a))
              ''deliveries.envelope.assignment_epoch''
              ''accepted executor assignment is stale or belongs to another actor'') (\<lambda>_.
     if as_epoch assignment < supplied \<or> as_actor assignment \<noteq> e_sender env then
       let next_assignment = Assignment (e_sender env) supplied in
       ebind (replay_put_request request_id (\<lambda>q. q\<lparr>q_assignment := Some next_assignment\<rparr>) rp) (\<lambda>rp1.
       ebind (expect (fmlookup (rp_requests rp1) request_id) ''no entry found for key'') (\<lambda>q1.
       replay_put_run (q_run_id q1) (\<lambda>r. r\<lparr>r_assignment := Some next_assignment\<rparr>) rp1))
     else Inr rp)))))"

text \<open>The status changes of a replayed message, with the paths of their errors.\<close>

definition replay_transition_request ::
  "string \<Rightarrow> request_status \<Rightarrow> request_event \<Rightarrow> failure + request_status" where
  "replay_transition_request reason st event =
     map_err (\<lambda>_. Err (InvalidSnapshot ''audit_events'' reason)) (transition_request st event)"

definition replay_transition_run ::
  "string \<Rightarrow> run_status \<Rightarrow> run_event \<Rightarrow> failure + run_status" where
  "replay_transition_run reason st event =
     map_err (\<lambda>_. Err (InvalidSnapshot ''audit_events'' reason)) (transition_run st event)"

definition replay_set_statuses ::
  "request_id \<Rightarrow> run_id \<Rightarrow> request_status \<Rightarrow> run_status \<Rightarrow> causal_replay \<Rightarrow>
   failure + causal_replay" where
  "replay_set_statuses request_id run_id request_status run_status rp =
     ebind (replay_put_request request_id (\<lambda>q. q\<lparr>q_status := request_status\<rparr>) rp)
       (replay_put_run run_id (\<lambda>r. r\<lparr>r_status := run_status\<rparr>))"

definition replay_transition ::
  "envelope \<Rightarrow> request_event \<Rightarrow> run_event \<Rightarrow> causal_replay \<Rightarrow> failure + causal_replay" where
  "replay_transition env request_event run_event rp =
     ebind (replay_request_context env rp) (\<lambda>q.
     ebind (replay_transition_request ''request transition provenance is illegal''
              (q_status q) request_event) (\<lambda>request_status.
     ebind (ok_or (fmlookup (rp_runs rp) (q_run_id q)) (Err (UnknownRun (q_run_id q)))) (\<lambda>r.
     ebind (replay_transition_run ''run transition provenance is illegal''
              (r_status r) run_event) (\<lambda>run_status.
     replay_set_statuses (q_request_id q) (q_run_id q) request_status run_status rp))))"

section \<open>Messages\<close>

text \<open>\<open>CausalReplay::create_request\<close>\<close>

definition frozen_actor_recipient ::
  "actor_id \<Rightarrow> delivery_recipient fset \<Rightarrow> actor_ref option" where
  "frozen_actor_recipient target_id required =
     map_option dra_actor
       (find (\<lambda>r. case r of RecipientPrimary \<Rightarrow> False
                  | RecipientActor ref _ \<Rightarrow> ref_actor_id ref = target_id)
          (sorted_list_of_fset required))"

definition replay_create_request ::
  "envelope \<Rightarrow> actor \<Rightarrow> request_specification_ref \<Rightarrow> (actor_id, actor) fmap \<Rightarrow>
   delivery_recipient fset \<Rightarrow> causal_replay \<Rightarrow> failure + causal_replay" where
  "replay_create_request env a specification actors required rp =
     ebind (require_history_primary a ''implementation request'') (\<lambda>_.
     ebind (context_ids env) (\<lambda>(request_id, run_id).
     ebind (ok_or (e_team_id env) (Err WrongTeam)) (\<lambda>team_id.
     ebind (case e_target env of
              TargetActor target_id \<Rightarrow> Inr target_id
            | _ \<Rightarrow> invalid_snapshot ''deliveries.envelope.target''
                     ''implementation request was not targeted to an actor'') (\<lambda>target_id.
     ebind (ok_or (fmlookup actors target_id)
              (Err (InvalidSnapshot ''deliveries.envelope.target''
                 ''assigned actor is missing''))) (\<lambda>target.
     ebind (ok_or (frozen_actor_recipient target_id required)
              (Err (InvalidSnapshot ''deliveries.required_recipients''
                 ''implementation request lacks its exact assigned actor generation''))) (\<lambda>frozen.
     ebind (require (has_capability target IMPLEMENTATION_EXECUTION \<and> a_team_id target = Some team_id)
              ''deliveries.envelope.target''
              ''assigned actor capability or team is inconsistent'') (\<lambda>_.
     ebind (require (e_assignment_epoch env = None \<and> \<not> fmhas (rp_requests rp) request_id \<and>
                     \<not> fmhas (rp_runs rp) run_id)
              ''deliveries''
              ''implementation request reused ids or supplied an assignment fence'') (\<lambda>_.
     let assignment = Assignment frozen EPOCH_INITIAL in
     ebind (ok_or (e_team_epoch env) (Err WrongTeam)) (\<lambda>team_epoch.
     let q = \<lparr>q_request_id = request_id, q_workspace_id = e_workspace_id env, q_team_id = team_id,
              q_team_epoch = team_epoch, q_run_id = run_id, q_specification = specification,
              q_status = Assigned, q_assignment = Some assignment, q_candidate = None,
              q_decision = None, q_integration_authorization = None, q_rejection_count = 0,
              q_fix_cycle_depth = 0, q_candidate_history = []\<rparr>;
         r = \<lparr>r_run_id = run_id, r_workspace_id = e_workspace_id env, r_team_id = team_id,
              r_team_epoch = team_epoch, r_request_id = request_id, r_status = RunActive,
              r_assignment = Some assignment\<rparr>
     in Inr (rp\<lparr>rp_requests := fmupd request_id q (rp_requests rp),
                rp_runs := fmupd run_id r (rp_runs rp)\<rparr>))))))))))"

definition replay_primary_directive ::
  "envelope \<Rightarrow> actor \<Rightarrow> (actor_id, actor) fmap \<Rightarrow> (team_id, team) fmap \<Rightarrow> causal_replay \<Rightarrow>
   failure + causal_replay" where
  "replay_primary_directive env a actors teams rp =
     ebind (require_history_primary a ''Primary directive'') (\<lambda>_.
     ebind (require (e_assignment_epoch env = None) ''deliveries.envelope.assignment_epoch''
              ''accepted Primary directive carried an executor assignment fence'') (\<lambda>_.
     ebind (ok_or (e_team_id env)
              (Err (InvalidSnapshot ''deliveries.envelope.team_id''
                 ''accepted Primary directive lacks team scope''))) (\<lambda>team_id.
     ebind (require_known_history_team teams team_id) (\<lambda>_.
     ebind (require (\<not> is_some_and (fmlookup teams team_id)
                          (\<lambda>t. is_some_and (t_profile t) (\<lambda>p. tp_desired_instances p = 0)))
              ''deliveries.envelope.team_id''
              ''accepted Primary directive targeted a zero-capacity team'') (\<lambda>_.
     if e_request_id env \<noteq> None then ebind (replay_assignee_target env rp) (\<lambda>_. Inr rp)
     else
       ebind (require
                (case e_target env of
                   TargetTeam target_team_id \<Rightarrow> target_team_id = team_id
                 | TargetActor target_actor_id \<Rightarrow>
                     is_some_and (fmlookup actors target_actor_id)
                       (\<lambda>target. a_team_id target = Some team_id)
                 | _ \<Rightarrow> False)
                ''deliveries.envelope.target''
                ''accepted Primary directive used an addressee outside its team scope'') (\<lambda>_.
       Inr rp))))))"

definition replay_check_rework :: "request \<Rightarrow> candidate \<Rightarrow> failure + unit" where
  "replay_check_rework q candidate =
     (case q_candidate q of
        None \<Rightarrow> Inr ()
      | Some previous \<Rightarrow>
          ebind (require (\<not> (is_rejected_candidate_rework q \<and> c_sha previous = c_sha candidate))
                   ''deliveries.message.candidate.sha'' ''rejected candidate was not changed'') (\<lambda>_.
          require (\<not> (\<not> is_rejected_candidate_rework q \<and> previous \<noteq> candidate))
            ''deliveries.message.candidate''
            ''candidate changed outside a rejected review cycle''))"

definition replay_submit_candidate ::
  "envelope \<Rightarrow> actor \<Rightarrow> candidate \<Rightarrow> causal_replay \<Rightarrow> failure + causal_replay" where
  "replay_submit_candidate env a candidate rp =
     ebind (replay_request_context env rp) (\<lambda>q.
     ebind (require (\<not> (c_request_id candidate \<noteq> q_request_id q \<or>
                        c_team_id candidate \<noteq> q_team_id q \<or>
                        c_created_by candidate \<noteq> e_sender env \<or>
                        a_actor_id a \<noteq> ref_actor_id (e_sender env) \<or>
                        is_some_and (c_created_by_profile candidate)
                          (\<lambda>profile. map_option ap_name (a_profile a) \<noteq> Some profile)))
              ''deliveries.message.candidate'' ''candidate provenance is inconsistent'') (\<lambda>_.
     let rework = is_rejected_candidate_rework q; is_new = (q_candidate q \<noteq> Some candidate) in
     ebind (replay_check_rework q candidate) (\<lambda>_.
     ebind (require (\<not> (is_new \<and> MAX_DOMAIN_ENTITIES \<le> length (q_candidate_history q)))
              ''deliveries.message.candidate'' ''candidate history exceeds its quota'') (\<lambda>_.
     ebind (if rework \<and> is_new
            then ebind (ok_or (checked_inc (q_fix_cycle_depth q)) (Err EpochExhausted))
                   (\<lambda>depth. Inr (Some depth))
            else Inr None) (\<lambda>depth.
     ebind (replay_transition env EvSubmitCandidate RevSubmitCandidate rp) (\<lambda>rp1.
     ebind (replay_put_request (c_request_id candidate)
              (\<lambda>q. q\<lparr>q_candidate_history :=
                        (if is_new then q_candidate_history q @ [candidate]
                         else q_candidate_history q),
                      q_fix_cycle_depth :=
                        (case depth of None \<Rightarrow> q_fix_cycle_depth q | Some d \<Rightarrow> d),
                      q_candidate := Some candidate, q_decision := None,
                      q_integration_authorization := None\<rparr>) rp1) (\<lambda>rp2.
     Inr (replay_drop_handoffs
            (\<lambda>p. hr_request_id (ph_offer p) = c_request_id candidate \<and>
                 \<not> is_none_or (hr_candidate (ph_offer p)) (\<lambda>offered. offered = candidate))
            rp2))))))))"

definition replay_review ::
  "envelope \<Rightarrow> actor \<Rightarrow> review_decision_ref \<Rightarrow> causal_replay \<Rightarrow> failure + causal_replay" where
  "replay_review env a decision rp =
     ebind (replay_assignee_target env rp) (\<lambda>_.
     ebind (require (\<not> (dr_reviewer decision \<noteq> e_sender env \<or>
                        a_actor_id a \<noteq> ref_actor_id (e_sender env) \<or>
                        dr_policy_revision decision \<noteq> e_policy_revision env \<or>
                        dr_decision_id decision |\<in>| rp_decision_ids rp))
              ''deliveries.message.review_decision''
              ''review identity, policy, or decision id is inconsistent'') (\<lambda>_.
     let rp1 = rp\<lparr>rp_decision_ids := finsert (dr_decision_id decision) (rp_decision_ids rp)\<rparr> in
     ebind (replay_request_context env rp1) (\<lambda>q.
     ebind (ensure_replay_candidate q (dr_candidate decision)) (\<lambda>_.
     let (request_event, run_event) = verdict_events (dr_verdict decision) in
     ebind (if dr_verdict decision = VerdictRejected
            then ebind (ok_or (checked_inc (q_rejection_count q)) (Err EpochExhausted))
                   (\<lambda>n. Inr (Some n))
            else Inr None) (\<lambda>rejections.
     ebind (replay_transition env request_event run_event rp1) (\<lambda>rp2.
     ebind (required_request_id env) (\<lambda>request_id.
     ebind (if dr_verdict decision = VerdictAccepted
            then ebind (ok_or (e_team_epoch env)
                          (Err (InvalidSnapshot ''deliveries.envelope.team_epoch''
                             ''accepted review lacks a team generation fence'')))
                   (\<lambda>epoch. Inr (Some epoch))
            else Inr None) (\<lambda>team_epoch.
     ebind (ok_or (fmlookup (rp_requests rp2) request_id) (Err (UnknownRequest request_id))) (\<lambda>q2.
     ebind (case team_epoch of
              None \<Rightarrow> Inr rp2
            | Some epoch \<Rightarrow> replay_put_run (q_run_id q2) (\<lambda>r. r\<lparr>r_team_epoch := epoch\<rparr>) rp2) (\<lambda>rp3.
     ebind (replay_put_request request_id
              (\<lambda>q. q\<lparr>q_team_epoch := (case team_epoch of None \<Rightarrow> q_team_epoch q | Some e \<Rightarrow> e),
                      q_rejection_count :=
                        (case rejections of None \<Rightarrow> q_rejection_count q | Some n \<Rightarrow> n),
                      q_decision := Some decision, q_integration_authorization := None\<rparr>)
              rp3) (\<lambda>rp4.
     Inr (if dr_verdict decision = VerdictAccepted
          then replay_drop_handoffs (\<lambda>p. hr_request_id (ph_offer p) = request_id) rp4
          else rp4))))))))))))"

definition replay_fix ::
  "envelope \<Rightarrow> fix_request \<Rightarrow> causal_replay \<Rightarrow> failure + causal_replay" where
  "replay_fix env fix_request rp =
     ebind (replay_assignee_target env rp) (\<lambda>_.
     ebind (replay_request_context env rp) (\<lambda>q.
     ebind (ensure_replay_candidate q (fr_candidate fix_request)) (\<lambda>_.
     ebind (require (\<not> (is_none_or (q_decision q)
                           (\<lambda>d. dr_decision_id d \<noteq> fr_decision_id fix_request \<or>
                                dr_verdict d \<noteq> VerdictRejected) \<or>
                         q_status q \<noteq> ChangesRequested))
              ''deliveries.message.fix_request''
              ''fix request lacks its rejected decision'') (\<lambda>_.
     Inr rp))))"

definition replay_control_run ::
  "envelope \<Rightarrow> run_control_action \<Rightarrow> causal_replay \<Rightarrow> failure + causal_replay" where
  "replay_control_run env action rp =
     ebind (replay_assignee_target env rp) (\<lambda>_.
     ebind (require (e_assignment_epoch env = None) ''deliveries.envelope.assignment_epoch''
              ''Primary run control carried an executor assignment fence'') (\<lambda>_.
     ebind (replay_request_context env rp) (\<lambda>q.
     ebind (case action of
              ControlPause \<Rightarrow> Inr (q_status q)
            | ControlResume \<Rightarrow>
                replay_transition_request ''run resume request provenance is illegal''
                  (q_status q) EvStart) (\<lambda>request_status.
     ebind (ok_or (fmlookup (rp_runs rp) (q_run_id q)) (Err (UnknownRun (q_run_id q)))) (\<lambda>r.
     ebind (replay_transition_run ''run control provenance is illegal'' (r_status r)
              (case action of ControlPause \<Rightarrow> RevPause | ControlResume \<Rightarrow> RevResume))
       (\<lambda>run_status.
     replay_set_statuses (q_request_id q) (q_run_id q) request_status run_status rp))))))"

definition replay_authorize_integration ::
  "envelope \<Rightarrow> actor \<Rightarrow> integration_authorization \<Rightarrow> causal_replay \<Rightarrow> failure + causal_replay" where
  "replay_authorize_integration env a authorization rp =
     ebind (replay_assignee_target env rp) (\<lambda>_.
     ebind (require (ia_authorized_by authorization = e_sender env \<and>
                     a_actor_id a = ref_actor_id (e_sender env))
              ''deliveries.message.integration_authorization''
              ''authorization identity is inconsistent'') (\<lambda>_.
     ebind (replay_request_context env rp) (\<lambda>q.
     ebind (ensure_replay_candidate q (ia_candidate authorization)) (\<lambda>_.
     ebind (require (\<not> is_none_or (q_decision q)
                          (\<lambda>d. dr_decision_id d \<noteq> ia_decision_id authorization \<or>
                               dr_verdict d \<noteq> VerdictAccepted))
              ''deliveries.message.integration_authorization''
              ''authorization lacks its accepted decision'') (\<lambda>_.
     ebind (replay_transition env EvAuthorizeIntegration RevAuthorizeIntegration rp) (\<lambda>rp1.
     replay_put_request (c_request_id (ia_candidate authorization))
       (\<lambda>q. q\<lparr>q_integration_authorization := Some authorization\<rparr>) rp1))))))"

definition replay_complete_integration ::
  "envelope \<Rightarrow> actor \<Rightarrow> integration_complete \<Rightarrow> causal_replay \<Rightarrow> failure + causal_replay" where
  "replay_complete_integration env a complete rp =
     ebind (require_history_primary a ''integration complete'') (\<lambda>_.
     ebind (replay_assignee_target env rp) (\<lambda>_.
     ebind (replay_request_context env rp) (\<lambda>q.
     ebind (ensure_replay_candidate q (ic_candidate complete)) (\<lambda>_.
     ebind (require (\<not> is_none_or (q_integration_authorization q)
                          (\<lambda>authorization. ia_decision_id authorization \<noteq> ic_decision_id complete))
              ''deliveries'' ''integration completion lacks matching authorization'') (\<lambda>_.
     replay_transition env EvComplete RevComplete rp)))))"

definition replay_cancellation ::
  "envelope \<Rightarrow> actor \<Rightarrow> causal_replay \<Rightarrow> failure + causal_replay" where
  "replay_cancellation env a rp =
     ebind (require_history_primary a ''cancellation'') (\<lambda>_.
     ebind (replay_assignee_target env rp) (\<lambda>_.
     ebind (required_request_id env) (\<lambda>request_id.
     ebind (ok_or (e_team_epoch env)
              (Err (InvalidSnapshot ''deliveries.envelope.team_epoch''
                 ''accepted cancellation lacks a team generation fence''))) (\<lambda>team_epoch.
     ebind (ok_or (fmlookup (rp_requests rp) request_id) (Err (UnknownRequest request_id))) (\<lambda>q.
     ebind (replay_transition env EvCancel RevCancel rp) (\<lambda>rp1.
     ebind (replay_put_request request_id (\<lambda>q. q\<lparr>q_team_epoch := team_epoch\<rparr>) rp1) (\<lambda>rp2.
     ebind (replay_put_run (q_run_id q) (\<lambda>r. r\<lparr>r_team_epoch := team_epoch\<rparr>) rp2) (\<lambda>rp3.
     Inr (replay_drop_handoffs (\<lambda>p. hr_request_id (ph_offer p) = request_id) rp3)))))))))"

definition replay_consult ::
  "envelope \<Rightarrow> actor \<Rightarrow> consultation_request \<Rightarrow> (team_id, team) fmap \<Rightarrow> causal_replay \<Rightarrow>
   failure + causal_replay" where
  "replay_consult env a consultation teams rp =
     ebind (require_history_consultation_requester a) (\<lambda>_.
     ebind (require (\<not> (cq_consultation_id consultation \<noteq> e_message_id env \<or>
                        a_team_id a = Some (cq_target_team_id consultation) \<or>
                        fmhas (rp_consultations rp) (cq_consultation_id consultation)))
              ''deliveries.message.consultation_request''
              ''consultation id or requester/target relation is inconsistent'') (\<lambda>_.
     ebind (require_history_target (e_target env) (TargetTeam (cq_target_team_id consultation))) (\<lambda>_.
     ebind (require_known_history_team teams (cq_target_team_id consultation)) (\<lambda>_.
     Inr (rp\<lparr>rp_consultations :=
            fmupd (cq_consultation_id consultation)
              (ReplayConsultation (e_sender env)
                 (has_capability a HUMAN_FACING_PRIMARY \<and> a_team_id a = None)
                 (cq_target_team_id consultation)) (rp_consultations rp)\<rparr>)))))"

definition replay_respond_to_consult ::
  "envelope \<Rightarrow> actor \<Rightarrow> consultation_response \<Rightarrow> causal_replay \<Rightarrow> failure + causal_replay" where
  "replay_respond_to_consult env a response rp =
     ebind (require_history_capability a IMPLEMENTATION_EXECUTION ''consultation response'') (\<lambda>_.
     ebind (ok_or (fmlookup (rp_consultations rp) (cs_consultation_id response))
              (Err (InvalidSnapshot ''deliveries.message.consultation_response''
                 ''consultation response has no accepted request''))) (\<lambda>consultation.
     let expected =
           (if rc_requester_is_primary consultation then TargetPrimary
            else TargetActor (ref_actor_id (rc_requester consultation))) in
     ebind (require (cs_responding_team_id response = rc_target_team_id consultation \<and>
                     a_team_id a = Some (cs_responding_team_id response))
              ''deliveries.message.consultation_response''
              ''consultation responder is not the requested team'') (\<lambda>_.
     ebind (require_history_target (e_target env) expected) (\<lambda>_.
     Inr (rp\<lparr>rp_consultations := fmdrop (cs_consultation_id response) (rp_consultations rp)\<rparr>)))))"

definition replay_dependency_team :: "request_id \<Rightarrow> causal_replay \<Rightarrow> failure + team_id" where
  "replay_dependency_team request_id rp =
     (case fmlookup (rp_requests rp) request_id of
        Some dependency \<Rightarrow> Inr (q_team_id dependency)
      | None \<Rightarrow>
          (case fmlookup (rp_external_requests rp) request_id of
             Some dependency \<Rightarrow>
               if rx_creation_audit_sequence dependency < rp_current_audit_sequence rp
               then Inr (rx_team_id dependency)
               else invalid_snapshot ''deliveries.message.dependency_notice''
                      ''dependency request was not created before this notice''
           | None \<Rightarrow> invalid_snapshot ''deliveries.message.dependency_notice''
                       ''dependency request was not created before this notice''))"

definition replay_dependency ::
  "envelope \<Rightarrow> actor \<Rightarrow> dependency_notice \<Rightarrow> (team_id, team) fmap \<Rightarrow> causal_replay \<Rightarrow>
   failure + causal_replay" where
  "replay_dependency env a notice teams rp =
     ebind (require_history_capability a IMPLEMENTATION_EXECUTION ''dependency'') (\<lambda>_.
     ebind (replay_ensure_assignment env a rp) (\<lambda>rp1.
     ebind (replay_request_context env rp1) (\<lambda>blocked.
     ebind (replay_dependency_team (dn_depends_on_request_id notice) rp1) (\<lambda>dependency_team.
     ebind (require (q_request_id blocked = dn_blocked_request_id notice \<and>
                     dependency_team = dn_provider_team_id notice)
              ''deliveries.message.dependency_notice''
              ''dependency requests or provider team are inconsistent'') (\<lambda>_.
     ebind (require_history_target (e_target env) (TargetTeam (dn_provider_team_id notice))) (\<lambda>_.
     ebind (require_known_history_team teams (dn_provider_team_id notice)) (\<lambda>_.
     Inr rp1)))))))"

definition replay_conflict ::
  "envelope \<Rightarrow> actor \<Rightarrow> conflict_notice \<Rightarrow> (team_id, team) fmap \<Rightarrow> causal_replay \<Rightarrow>
   failure + causal_replay" where
  "replay_conflict env a notice teams rp =
     ebind (require_history_capability a IMPLEMENTATION_EXECUTION ''conflict'') (\<lambda>_.
     ebind (ok_or (a_team_id a)
              (Err (InvalidSnapshot ''deliveries.envelope.sender''
                 ''accepted conflict sender has no team''))) (\<lambda>sender_team_id.
     ebind (require (sender_team_id \<noteq> cf_other_team_id notice) ''deliveries''
              ''self-conflict was accepted'') (\<lambda>_.
     ebind (require_history_target (e_target env) (TargetTeam (cf_other_team_id notice))) (\<lambda>_.
     ebind (require_known_history_team teams (cf_other_team_id notice)) (\<lambda>_.
     Inr rp)))))"

definition replay_offer_handoff ::
  "envelope \<Rightarrow> actor \<Rightarrow> handoff_offer_ref \<Rightarrow> (team_id, team) fmap \<Rightarrow> causal_replay \<Rightarrow>
   failure + causal_replay" where
  "replay_offer_handoff env a offer teams rp =
     ebind (require_history_capability a IMPLEMENTATION_EXECUTION ''handoff offer'') (\<lambda>_.
     ebind (replay_ensure_assignment env a rp) (\<lambda>rp1.
     ebind (replay_request_context env rp1) (\<lambda>q.
     ebind (require (\<not> (hr_request_id offer \<noteq> q_request_id q \<or> hr_from_team_id offer \<noteq> q_team_id q \<or>
                        a_team_id a \<noteq> Some (hr_from_team_id offer) \<or>
                        fmhas (rp_handoffs rp1) (hr_handoff_id offer) \<or>
                        list_ex (\<lambda>p. hr_request_id (ph_offer p) = hr_request_id offer)
                          (fmvals (rp_handoffs rp1))))
              ''deliveries.message.handoff_offer''
              ''handoff offer identity or ownership is inconsistent'') (\<lambda>_.
     ebind (require_history_target (e_target env) (TargetTeam (hr_to_team_id offer))) (\<lambda>_.
     ebind (require_known_history_team teams (hr_to_team_id offer)) (\<lambda>_.
     ebind (case hr_candidate offer of
              None \<Rightarrow> Inr () | Some candidate \<Rightarrow> ensure_replay_candidate q candidate) (\<lambda>_.
     ebind (ok_or (q_assignment q) (Err NotAssignedActor)) (\<lambda>assignment.
     Inr (rp1\<lparr>rp_handoffs :=
            fmupd (hr_handoff_id offer)
              (PendingHandoff offer (e_sender env) (as_epoch assignment))
              (rp_handoffs rp1)\<rparr>)))))))))"

definition replay_accept_handoff ::
  "envelope \<Rightarrow> actor \<Rightarrow> handoff_acceptance \<Rightarrow> causal_replay \<Rightarrow> failure + causal_replay" where
  "replay_accept_handoff env a acceptance rp =
     ebind (require_history_capability a IMPLEMENTATION_EXECUTION ''handoff acceptance'') (\<lambda>_.
     ebind (ok_or (fmlookup (rp_handoffs rp) (ha_handoff_id acceptance))
              (Err (InvalidSnapshot ''deliveries'' ''handoff acceptance has no offer''))) (\<lambda>pending.
     ebind (replay_request_context env rp) (\<lambda>q.
     ebind (ok_or (q_assignment q) (Err NotAssignedActor)) (\<lambda>assignment.
     ebind (require (\<not> (ha_accepted_by acceptance \<noteq> e_sender env \<or>
                        a_team_id a \<noteq> Some (ha_to_team_id acceptance) \<or>
                        hr_request_id (ph_offer pending) \<noteq> ha_request_id acceptance \<or>
                        hr_from_team_id (ph_offer pending) \<noteq> ha_from_team_id acceptance \<or>
                        hr_to_team_id (ph_offer pending) \<noteq> ha_to_team_id acceptance \<or>
                        as_actor assignment \<noteq> ph_offered_by pending \<or>
                        as_epoch assignment \<noteq> ph_assignment_epoch pending \<or>
                        e_assignment_epoch env \<noteq> Some (as_epoch assignment)))
              ''deliveries.message.handoff_acceptance''
              ''handoff acceptance does not match its offer or assignment'') (\<lambda>_.
     ebind (require_history_target (e_target env) (TargetTeam (ha_from_team_id acceptance))) (\<lambda>_.
     ebind (ok_or (checked_next (as_epoch assignment)) (Err EpochExhausted)) (\<lambda>next_epoch.
     let next_assignment = Assignment (e_sender env) next_epoch in
     ebind (replay_put_request (q_request_id q) (\<lambda>q. q\<lparr>q_team_id := ha_to_team_id acceptance\<rparr>) rp)
       (\<lambda>rp1.
     ebind (ok_or (e_team_epoch env) (Err WrongTeam)) (\<lambda>team_epoch.
     ebind (replay_put_request (q_request_id q)
              (\<lambda>q. q\<lparr>q_team_epoch := team_epoch, q_assignment := Some next_assignment\<rparr>) rp1) (\<lambda>rp2.
     ebind (replay_put_run (q_run_id q)
              (\<lambda>r. r\<lparr>r_team_id := ha_to_team_id acceptance, r_team_epoch := team_epoch,
                      r_assignment := Some next_assignment\<rparr>) rp2) (\<lambda>rp3.
     Inr (rp3\<lparr>rp_handoffs := fmdrop (ha_handoff_id acceptance) (rp_handoffs rp3)\<rparr>))))))))))))"

section \<open>One message\<close>

text \<open>The executor's messages: the sender's capability, the route and the assignment come first.\<close>

definition replay_executor ::
  "string \<Rightarrow> envelope \<Rightarrow> actor \<Rightarrow> causal_replay \<Rightarrow> failure + causal_replay" where
  "replay_executor action env a rp =
     ebind (require_history_capability a IMPLEMENTATION_EXECUTION action) (\<lambda>_.
     ebind (require_history_target (e_target env) TargetPrimary) (\<lambda>_.
     replay_ensure_assignment env a rp))"

definition replay_dispatch ::
  "causal_history \<Rightarrow> envelope \<Rightarrow> payload_digest \<Rightarrow> delivery_recipient fset \<Rightarrow> actor \<Rightarrow>
   causal_replay \<Rightarrow> failure + causal_replay" where
  "replay_dispatch ch env digest required a rp =
     (case e_message env of
        MImplementationRequest specification \<Rightarrow>
          replay_create_request env a
            (RequestSpecificationRef (e_message_id env) digest (ir_base_sha specification))
            (ch_actors ch) required rp
      | MProgress _ \<Rightarrow>
          ebind (replay_executor ''progress'' env a rp) (replay_transition env EvStart RevResume)
      | MBlocker _ \<Rightarrow>
          ebind (replay_executor ''blocker'' env a rp) (replay_transition env EvBlock RevBlock)
      | MCandidateReady ready \<Rightarrow>
          ebind (replay_executor ''candidate'' env a rp)
            (replay_submit_candidate env a (cr_candidate ready))
      | MReviewDecision decision \<Rightarrow>
          ebind (require_history_primary a ''review'') (\<lambda>_.
          replay_review env a
            (ReviewDecisionRef (e_message_id env) digest (rd_decision_id decision)
               (rd_candidate decision) (rd_verdict decision) (rd_reviewer decision)
               (rd_policy_revision decision)) rp)
      | MFixRequest fix_request \<Rightarrow>
          ebind (require_history_primary a ''fix request'') (\<lambda>_. replay_fix env fix_request rp)
      | MQaResult result \<Rightarrow>
          ebind (replay_executor ''QA'' env a rp) (\<lambda>rp1.
          ebind (replay_request_context env rp1) (\<lambda>q.
          ebind (ensure_replay_candidate q (qr_candidate result)) (\<lambda>_. Inr rp1)))
      | MIntegrationAuthorization authorization \<Rightarrow>
          ebind (require_history_primary a ''authorization'') (\<lambda>_.
          replay_authorize_integration env a authorization rp)
      | MCancellation _ \<Rightarrow> replay_cancellation env a rp
      | MRunControl control \<Rightarrow>
          ebind (require_history_primary a ''run control'') (\<lambda>_.
          replay_control_run env (rc_action control) rp)
      | MDirective _ \<Rightarrow> replay_primary_directive env a (ch_actors ch) (ch_teams ch) rp
      | MConsultationRequest consultation \<Rightarrow> replay_consult env a consultation (ch_teams ch) rp
      | MConsultationResponse response \<Rightarrow> replay_respond_to_consult env a response rp
      | MDependencyNotice notice \<Rightarrow> replay_dependency env a notice (ch_teams ch) rp
      | MConflictNotice notice \<Rightarrow> replay_conflict env a notice (ch_teams ch) rp
      | MHandoffOffer offer \<Rightarrow>
          replay_offer_handoff env a
            (HandoffOfferRef (e_message_id env) digest (ho_handoff_id offer) (ho_request_id offer)
               (ho_from_team_id offer) (ho_to_team_id offer) (ho_candidate offer)) (ch_teams ch) rp
      | MHandoffAcceptance acceptance \<Rightarrow> replay_accept_handoff env a acceptance rp
      | MIntegrationComplete complete \<Rightarrow> replay_complete_integration env a complete rp)"

definition is_implementation_request :: "message \<Rightarrow> bool" where
  "is_implementation_request m = (case m of MImplementationRequest _ \<Rightarrow> True | _ \<Rightarrow> False)"

definition replay_apply ::
  "causal_history \<Rightarrow> envelope \<Rightarrow> payload_digest \<Rightarrow> delivery_recipient fset \<Rightarrow> causal_replay \<Rightarrow>
   failure + causal_replay" where
  "replay_apply ch env digest required rp =
     ebind (authorize_history ch env rp) (\<lambda>(a, rp1).
     ebind (if e_request_id env \<noteq> None \<and> \<not> is_implementation_request (e_message env)
            then ebind (replay_request_context env rp1) (\<lambda>_. Inr ()) else Inr ()) (\<lambda>_.
     replay_dispatch ch env digest required a rp1))"

section \<open>The whole history\<close>

definition replay_audit_event ::
  "causal_history \<Rightarrow> audit_event \<Rightarrow> causal_replay \<Rightarrow> failure + causal_replay" where
  "replay_audit_event ch event rp =
     (case au_kind event of
        MessageAcknowledged _ _ \<Rightarrow> Inr rp
      | MessageAccepted message_id _ _ \<Rightarrow>
          let rp1 = rp\<lparr>rp_current_audit_sequence := au_sequence event\<rparr> in
          ebind (ok_or (fmlookup (ch_mailbox ch) message_id)
                   (Err (InvalidSnapshot ''audit_events'' ''audit delivery is missing''))) (\<lambda>d.
          ebind (require (au_team_id event = e_team_id (d_envelope d) \<and>
                          au_team_epoch event = e_team_epoch (d_envelope d))
                   ''audit_events.team_epoch''
                   ''audit team generation does not match its accepted envelope'') (\<lambda>_.
          replay_apply ch (with_message (d_envelope d) (replay_message (d_causal d)))
            (d_payload_digest d) (d_required_recipients d) rp1)))"

fun replay_audit ::
  "causal_history \<Rightarrow> audit_event list \<Rightarrow> causal_replay \<Rightarrow> failure + causal_replay" where
  "replay_audit ch [] rp = Inr rp"
| "replay_audit ch (e # es) rp = ebind (replay_audit_event ch e rp) (replay_audit ch es)"

text \<open>\<open>CausalReplay::finish\<close>: what messages do not carry is adopted from the persisted entity
  before the comparison: assignments and team generations of open work, and the metrics of
  requests that predate them.\<close>

definition finish_request :: "request \<Rightarrow> request \<Rightarrow> request" where
  "finish_request current replayed =
     (let q1 = (if is_terminal (q_status current) then replayed
                else let q = replayed\<lparr>q_assignment := q_assignment current\<rparr> in
                     if q_team_id q = q_team_id current \<and> q_team_epoch q \<le> q_team_epoch current
                     then q\<lparr>q_team_epoch := q_team_epoch current\<rparr> else q)
      in if request_metrics_are_legacy_default current
         then q1\<lparr>q_rejection_count := 0, q_fix_cycle_depth := 0, q_candidate_history := []\<rparr>
         else q1)"

definition finish_run :: "request \<Rightarrow> run \<Rightarrow> run \<Rightarrow> run" where
  "finish_run current current_run replayed =
     (if is_terminal (q_status current) then replayed
      else let r = replayed\<lparr>r_assignment := q_assignment current\<rparr> in
           if r_team_id r = r_team_id current_run \<and> r_team_epoch r \<le> r_team_epoch current_run
           then r\<lparr>r_team_epoch := r_team_epoch current_run\<rparr> else r)"

definition finish_check ::
  "(run_id, run) fmap \<Rightarrow> request_id \<times> request \<Rightarrow> causal_replay \<Rightarrow> failure + causal_replay" where
  "finish_check runs = (\<lambda>(request_id, current) rp.
     ebind (ok_or (fmlookup (rp_requests rp) request_id)
              (Err (InvalidSnapshot ''requests'' ''request lacks its creation event''))) (\<lambda>replayed.
     let finished = finish_request current replayed in
     ebind (ok_or (fmlookup (rp_runs rp) (q_run_id current))
              (Err (InvalidSnapshot ''runs'' ''run lacks its creation event''))) (\<lambda>replayed_run.
     ebind (ok_or (fmlookup runs (q_run_id current))
              (Err (InvalidSnapshot ''runs'' ''request run is missing''))) (\<lambda>current_run.
     let finished_run = finish_run current current_run replayed_run in
     ebind (require (finished = current \<and> finished_run = current_run) ''requests''
              ''persisted request state lacks complete transition provenance'') (\<lambda>_.
     Inr (rp\<lparr>rp_requests := fmupd request_id finished (rp_requests rp),
             rp_runs := fmupd (q_run_id current) finished_run (rp_runs rp)\<rparr>))))))"

fun finish_all ::
  "(run_id, run) fmap \<Rightarrow> (request_id \<times> request) list \<Rightarrow> causal_replay \<Rightarrow>
   failure + causal_replay" where
  "finish_all runs [] rp = Inr rp"
| "finish_all runs (q # qs) rp = ebind (finish_check runs q rp) (finish_all runs qs)"

definition handoff_still_offered :: "(request_id, request) fmap \<Rightarrow> pending_handoff \<Rightarrow> bool" where
  "handoff_still_offered requests p =
     is_some_and (Option.bind (fmlookup requests (hr_request_id (ph_offer p))) q_assignment)
       (\<lambda>assignment. as_actor assignment = ph_offered_by p \<and>
                     as_epoch assignment = ph_assignment_epoch p)"

definition replay_finish ::
  "(request_id, request) fmap \<Rightarrow> (run_id, run) fmap \<Rightarrow> (handoff_id, pending_handoff) fmap \<Rightarrow> bool \<Rightarrow>
   causal_replay \<Rightarrow> failure + unit" where
  "replay_finish requests runs handoffs require_completed_consultations rp =
     ebind (require (fmsize (rp_requests rp) = fmsize requests \<and> fmsize (rp_runs rp) = fmsize runs)
              ''requests''
              ''persisted requests or runs lack complete accepted-message provenance'') (\<lambda>_.
     ebind (finish_all runs (sorted_list_of_fmap requests) rp) (\<lambda>rp1.
     ebind (require (fmretain (handoff_still_offered requests) (rp_handoffs rp1) = handoffs)
              ''pending_handoffs'' ''persisted handoff state lacks complete message provenance'') (\<lambda>_.
     require (\<not> (require_completed_consultations \<and> fmsize (rp_consultations rp1) \<noteq> 0))
       ''deliveries.message.consultation_request''
       ''unanswered consultation must remain in hot history'')))"

definition replay_start :: "causal_history \<Rightarrow> causal_replay" where
  "replay_start ch =
     \<lparr>rp_requests = fmempty, rp_runs = fmempty, rp_handoffs = fmempty, rp_consultations = fmempty,
      rp_decision_ids = {||}, rp_primary_actors = fmempty, rp_actor_epochs = fmempty,
      rp_team_epochs = fmempty, rp_last_primary_epoch = None,
      rp_snapshot_active_primary = ch_active_primary ch,
      rp_external_requests =
        (case ch_external_requests ch of None \<Rightarrow> fmempty | Some external \<Rightarrow> external),
      rp_current_audit_sequence = 0\<rparr>"

definition validate_causal_history :: "causal_history \<Rightarrow> failure + unit" where
  "validate_causal_history ch =
     ebind (replay_audit ch (ch_audit ch) (replay_start ch))
       (replay_finish (ch_requests ch) (ch_runs ch) (ch_handoffs ch)
          (ch_require_completed_consultations ch))"

end
