(* ===== verification/From_Snapshot.thy ===== *)
theory From_Snapshot
  imports Causal_Replay
begin

text \<open>
  \<open>Supervisor::from_snapshot\<close> of \<open>crates/agsv-core/src/supervisor.rs\<close>: the validators of the
  entities, deliveries, audit log and causal history in the order of the code, and the aggregate
  they admit.
\<close>

definition restored_history ::
  "domain_snapshot \<Rightarrow> (message_id, delivery_record) fmap \<Rightarrow> (actor_id, actor) fmap \<Rightarrow>
   (team_id, team) fmap \<Rightarrow> (request_id, request) fmap \<Rightarrow> (run_id, run) fmap \<Rightarrow>
   (handoff_id, pending_handoff) fmap \<Rightarrow> causal_history" where
  "restored_history sn mailbox actors teams requests runs handoffs =
     \<lparr>ch_policy_revision = sn_policy_revision sn, ch_primary_epoch = sn_primary_epoch sn,
      ch_active_primary = sn_active_primary sn, ch_audit = sn_audit_events sn,
      ch_mailbox = mailbox, ch_actors = actors, ch_teams = teams, ch_requests = requests,
      ch_runs = runs, ch_handoffs = handoffs, ch_external_requests = None,
      ch_require_completed_consultations = False\<rparr>"

definition from_snapshot ::
  "ext \<Rightarrow> (domain_snapshot \<Rightarrow> u8 list option) \<Rightarrow> domain_snapshot \<Rightarrow> failure + supervisor" where
  "from_snapshot x snapshot_json sn =
     (let workspace = sn_workspace_id sn; policy = sn_policy_revision sn;
          audit = sn_audit_events sn in
     ebind (validate_snapshot_quota snapshot_json sn) (\<lambda>_.
     ebind (restore_history_checkpoint x (sn_history_checkpoint sn) audit) (\<lambda>history.
     ebind (map_err (Err \<circ> Validation \<circ> error_at ''observability_checkpoint'')
              (observability_checkpoint_validate (sn_observability_checkpoint sn))) (\<lambda>_.
     ebind (map_err (Err \<circ> Validation \<circ> error_at ''team_generation_checkpoint'')
              (team_generation_checkpoint_validate (sn_team_generation_checkpoint sn))) (\<lambda>_.
     ebind (restore_actors workspace (sn_actors sn)) (\<lambda>actors.
     ebind (validate_active_primary (sn_active_primary sn) actors) (\<lambda>_.
     ebind (restore_teams workspace (sn_teams sn) actors) (\<lambda>teams.
     ebind (validate_actor_team_links actors teams) (\<lambda>_.
     ebind (restore_requests workspace policy (sn_requests sn) actors teams) (\<lambda>requests.
     ebind (restore_runs workspace (sn_runs sn) requests teams) (\<lambda>runs.
     ebind (validate_request_run_links requests runs) (\<lambda>_.
     ebind (restore_deliveries workspace (sn_deliveries sn) actors teams requests runs) (\<lambda>mailbox.
     ebind (validate_closed_team_delivery_dispositions teams requests mailbox) (\<lambda>_.
     ebind (restore_handoffs (sn_pending_handoffs sn) actors teams requests) (\<lambda>handoffs.
     ebind (validate_audit audit mailbox history) (\<lambda>_.
     ebind (validate_causal_history
              (restored_history sn mailbox actors teams requests runs handoffs)) (\<lambda>_.
     ebind (derive_nonterminal_request_counts teams requests) (\<lambda>counts.
     Inr \<lparr>s_workspace_id = workspace, s_policy_revision = policy,
          s_primary_epoch = sn_primary_epoch sn,
          s_active_primary = map_option ref_actor_id (sn_active_primary sn),
          s_actors = actors, s_teams = teams, s_requests = requests, s_runs = runs,
          s_mailbox = mailbox, s_handoffs = handoffs, s_audit = audit,
          s_history_checkpoint = history,
          s_observability_checkpoint = sn_observability_checkpoint sn,
          s_team_generation_checkpoint = sn_team_generation_checkpoint sn,
          s_pending_bulk_content = [], s_nonterminal_request_counts = counts,
          s_pending_observability = empty_observability\<rparr>))))))))))))))))))"

definition try_from_snapshot ::
  "ext \<Rightarrow> (domain_snapshot \<Rightarrow> u8 list option) \<Rightarrow> domain_snapshot \<Rightarrow> failure + supervisor" where
  "try_from_snapshot = from_snapshot"

end
