(* ===== verification/Operations.thy ===== *)
theory Operations
  imports Operation_Outcomes Message_Invariants From_Snapshot
begin

text \<open>
  The public operations of the aggregate in one type, as the control plane calls them, the step
  relation they induce and the states reachable from a new or a restored aggregate. The contract of an
  operation is a locale; every operation interprets it.
\<close>

section \<open>Operations\<close>

datatype operation =
    OpActivatePrimary actor_id
  | OpActivatePrimaryWithProfile actor_id actor_role actor_profile
  | OpCreateTeam team_id
  | OpCreateTeamWithProfile team_id team_profile
  | OpSetTeamStatus team_id team_status
  | OpSetActorStatus actor_ref actor_status
  | OpHeartbeat actor_ref timestamp_millis
  | OpRegister team_id actor_id
  | OpRegisterWithProfile team_id actor_id actor_role actor_profile
  | OpReplace team_id actor_id
  | OpReplaceWithProfile team_id actor_id actor_role actor_profile
  | OpApply envelope
  | OpAcknowledge acknowledgement
  | OpRetireObsolete team_id
  | OpTakeBulkContent
  | OpTakeObservability

text \<open>What a caller can tell from an outcome without its value.\<close>

definition forget :: "(failure + 'a) \<times> supervisor \<Rightarrow> (failure + unit) \<times> supervisor" where
  "forget p = (map_sum id (\<lambda>_. ()) (fst p), snd p)"

fun run_op :: "ext \<Rightarrow> supervisor \<Rightarrow> operation \<Rightarrow> (failure + unit) \<times> supervisor" where
  "run_op x s (OpActivatePrimary i) = forget (activate_primary s i)"
| "run_op x s (OpActivatePrimaryWithProfile i role profile) =
     forget (activate_primary_with_profile s i role profile)"
| "run_op x s (OpCreateTeam team) = forget (create_team s team)"
| "run_op x s (OpCreateTeamWithProfile team profile) = forget (create_team_with_profile s team profile)"
| "run_op x s (OpSetTeamStatus team status) = set_team_status s team status"
| "run_op x s (OpSetActorStatus ref status) = set_actor_status s ref status"
| "run_op x s (OpHeartbeat ref at) = heartbeat s ref at"
| "run_op x s (OpRegister team i) = forget (register_implementation s team i)"
| "run_op x s (OpRegisterWithProfile team i role profile) =
     forget (register_implementation_with_profile s team i role profile)"
| "run_op x s (OpReplace team i) = forget (replace_implementation s team i)"
| "run_op x s (OpReplaceWithProfile team i role profile) =
     forget (replace_implementation_with_profile s team i role profile)"
| "run_op x s (OpApply env) = forget (apply_envelope x s env)"
| "run_op x s (OpAcknowledge ack) = forget (acknowledge x s ack)"
| "run_op x s (OpRetireObsolete team) = forget (retire_obsolete_team_recipients s team)"
| "run_op x s OpTakeBulkContent = (Inr (), snd (take_pending_bulk_content s))"
| "run_op x s OpTakeObservability = forget (take_pending_observability_delta s)"

text \<open>A sequence of calls; a call that returns an error is followed by the next one.\<close>

fun run_ops :: "ext \<Rightarrow> supervisor \<Rightarrow> operation list \<Rightarrow> supervisor" where
  "run_ops x s [] = s"
| "run_ops x s (op # ops) = run_ops x (snd (run_op x s op)) ops"

lemma forget_simps [simp]:
  "forget (Inl f, s) = (Inl f, s)"
  "forget (Inr v, s) = (Inr (), s)"
  "snd (forget p) = snd p"
  "forget p = (Inl f, s') \<longleftrightarrow> p = (Inl f, s')"
  by (cases p; cases "fst p"; auto simp: forget_def)+

lemma forget_Inr: "forget p = (Inr u, s') \<longleftrightarrow> (\<exists>v. p = (Inr v, s'))"
  by (cases p; cases "fst p") (auto simp: forget_def)

lemma atomic_forget [atomic_intros]: "atomic_from s p \<Longrightarrow> atomic_from s (forget p)"
  by (cases p; cases "fst p") (auto simp: atomic_from_def refusing_def forget_def)

section \<open>Steps\<close>

text \<open>A call completes, is refused with an error, or panics. Only the first two return.\<close>

inductive op_step :: "ext \<Rightarrow> supervisor \<Rightarrow> operation \<Rightarrow> supervisor \<Rightarrow> bool" for x where
  completed: "run_op x s op = (Inr (), s') \<Longrightarrow> op_step x s op s'"
| refused: "run_op x s op = (Inl (Err e), s') \<Longrightarrow> op_step x s op s'"

text \<open>An aggregate starts empty or from a persisted snapshot.\<close>

inductive reachable :: "ext \<Rightarrow> supervisor \<Rightarrow> bool" for x where
  new: "reachable x (supervisor_new workspace policy)"
| restored: "from_snapshot x snapshot_json sn = Inr s \<Longrightarrow> reachable x s"
| step: "reachable x s \<Longrightarrow> op_step x s op s' \<Longrightarrow> reachable x s'"

inductive_cases op_stepE [elim]: "op_step x s op s'"

section \<open>The contract of an operation\<close>

text \<open>
  \<open>call\<close> is one operation with its arguments. \<open>inv\<close> is what it may assume of the aggregate and
  must keep; \<open>le\<close> is the order in which it may move the aggregate.
\<close>

locale operation_contract =
  fixes inv :: "supervisor \<Rightarrow> bool"
    and le :: "supervisor \<Rightarrow> supervisor \<Rightarrow> bool"
    and call :: "supervisor \<Rightarrow> (failure + 'a) \<times> supervisor"
  assumes call_atomic: "atomic_from s (call s)"
    and call_inv: "inv s \<Longrightarrow> call s = (Inr v, s') \<Longrightarrow> inv s'"
    and call_le: "inv s \<Longrightarrow> call s = (Inr v, s') \<Longrightarrow> le s s'"
    and le_refl: "le s s"
begin

lemma returns:
  assumes "inv s" and "forget (call s) = (r, s')" and "r = Inr () \<or> r = Inl (Err e)"
  shows "inv s' \<and> le s s'"
  using assms(3)
proof
  assume "r = Inr ()"
  with assms(2) obtain v where "call s = (Inr v, s')"
    by (auto simp: forget_Inr)
  with assms(1) show ?thesis
    using call_inv call_le by blast
next
  assume "r = Inl (Err e)"
  with assms(2) have "s' = s"
    using call_atomic [of s] by (auto dest: atomicD)
  with assms(1) show ?thesis
    by (simp add: le_refl)
qed

end

end
