(* ===== verification/Mail_Invariants.thy ===== *)
theory Mail_Invariants
  imports Operations
begin

text \<open>
  The invariant of the mailbox, the pending handoffs and the audit log. Every delivery is keyed by
  its message, its slots are one per actor generation, acknowledged and waived slots are
  disjoint parts of the required ones, and a delivery retires only when all of them are settled.
\<close>

section \<open>Deliveries\<close>

text \<open>An actor generation holds at most one slot.\<close>

definition one_slot_each :: "delivery_recipient fset \<Rightarrow> bool" where
  "one_slot_each required \<longleftrightarrow>
     (\<forall>ref e e'. RecipientActor ref e |\<in>| required \<longrightarrow> RecipientActor ref e' |\<in>| required \<longrightarrow> e = e')"

definition ack_matches :: "message_id \<Rightarrow> delivery_recipient \<Rightarrow> acknowledgement \<Rightarrow> bool" where
  "ack_matches k slot ack \<longleftrightarrow>
     ak_message_id ack = k \<and>
     (case slot of RecipientPrimary \<Rightarrow> True | RecipientActor ref _ \<Rightarrow> ak_actor ack = ref)"

definition delivery_ok :: "message_id \<Rightarrow> delivery_record \<Rightarrow> bool" where
  "delivery_ok k d \<longleftrightarrow>
     e_message_id (d_envelope d) = k \<and> d_message_kind d = causal_kind (d_causal d) \<and>
     causal_content_ref_valid k (d_payload_digest d) (d_causal d) \<and>
     one_slot_each (d_required_recipients d) \<and>
     (\<forall>r ack. fmlookup (d_acknowledgements d) r = Some ack \<longrightarrow>
        r |\<in>| d_required_recipients d \<and> ack_matches k r ack \<and>
        \<not> fmhas (d_undeliverable_recipients d) r) \<and>
     (\<forall>r. fmhas (d_undeliverable_recipients d) r \<longrightarrow> r |\<in>| d_required_recipients d) \<and>
     (d_required_recipients d = {||} \<longleftrightarrow> d_retirement_reason d \<noteq> None) \<and>
     (d_retired d \<longrightarrow> (\<forall>r. r |\<in>| d_required_recipients d \<longrightarrow> recipient_resolved d r))"

definition mail_ok :: "(message_id, delivery_record) fmap \<Rightarrow> bool" where
  "mail_ok mailbox \<longleftrightarrow> (\<forall>k d. fmlookup mailbox k = Some d \<longrightarrow> delivery_ok k d)"

lemma mail_okD: "mail_ok mailbox \<Longrightarrow> fmlookup mailbox k = Some d \<Longrightarrow> delivery_ok k d"
  by (simp add: mail_ok_def)

lemma mail_ok_fmmap: "mail_ok m \<Longrightarrow> (\<And>k d. delivery_ok k d \<Longrightarrow> delivery_ok k (f d)) \<Longrightarrow> mail_ok (fmmap f m)"
  by (auto simp: mail_ok_def)

lemma mail_ok_fmupd: "mail_ok m \<Longrightarrow> delivery_ok k d \<Longrightarrow> mail_ok (fmupd k d m)"
  by (auto simp: mail_ok_def)

section \<open>Waivers and retirement\<close>

text \<open>Adding dispositions for open required slots.\<close>

lemma delivery_ok_waive:
  assumes ok: "delivery_ok k d"
    and new: "\<And>r. fmhas u r \<Longrightarrow> fmhas (d_undeliverable_recipients d) r \<or>
           r |\<in>| d_required_recipients d \<and> \<not> fmhas (d_acknowledgements d) r"
    and old: "\<And>r. fmhas (d_undeliverable_recipients d) r \<Longrightarrow> fmhas u r"
  shows "delivery_ok k (d\<lparr>d_undeliverable_recipients := u\<rparr>)"
proof -
  let ?d = "d\<lparr>d_undeliverable_recipients := u\<rparr>"
  have "recipient_resolved ?d r" if "recipient_resolved d r" for r
    using that old by (auto simp: recipient_resolved_def)
  with ok have "\<forall>r. r |\<in>| d_required_recipients d \<longrightarrow> recipient_resolved ?d r" if "d_retired d"
    using that by (simp add: delivery_ok_def)
  moreover have "r |\<in>| d_required_recipients d \<and> ack_matches k r ack \<and> \<not> fmhas u r"
    if "fmlookup (d_acknowledgements d) r = Some ack" for r ack
  proof -
    from that ok have "r |\<in>| d_required_recipients d \<and> ack_matches k r ack \<and>
        \<not> fmhas (d_undeliverable_recipients d) r"
      by (simp add: delivery_ok_def)
    moreover have "fmhas (d_acknowledgements d) r"
      using that by (simp add: fmhas_def)
    ultimately show ?thesis
      using new [of r] by blast
  qed
  moreover have "r |\<in>| d_required_recipients d" if "fmhas u r" for r
    using new [OF that] ok by (auto simp: delivery_ok_def)
  ultimately show ?thesis
    using ok by (simp add: delivery_ok_def)
qed

lemma delivery_ok_reason:
  "delivery_ok k d \<Longrightarrow> d_retirement_reason d \<noteq> None \<Longrightarrow>
   delivery_ok k (d\<lparr>d_retirement_reason := Some why\<rparr>)"
  unfolding delivery_ok_def recipient_resolved_def by auto

lemma fmhas_fold_fmupd:
  "fmhas (fold (\<lambda>r m. fmupd r (f r) m) rs m) k \<longleftrightarrow> k \<in> set rs \<or> fmhas m k"
  by (induction rs arbitrary: m) auto

lemma fmhas_fold_keep:
  "fmhas (fold (\<lambda>r m. if fmhas m r then m else fmupd r v m) rs m) k \<longleftrightarrow> k \<in> set rs \<or> fmhas m k"
  by (induction rs arbitrary: m) auto

lemma actor_slot_case:
  "(case r of RecipientPrimary \<Rightarrow> False | RecipientActor ref e \<Rightarrow> P ref e) \<longleftrightarrow>
     (\<exists>ref e. r = RecipientActor ref e \<and> P ref e)"
  by (cases r) auto

lemmas waive_simps = fmhas_fold_fmupd fmhas_fold_keep actor_slot_case

lemma delivery_ok_retire: "delivery_ok k d \<Longrightarrow> delivery_ok k (retire_delivery requests d)"
  by (auto simp: delivery_ok_def retire_delivery_def retires_def recipient_resolved_def)

lemma delivery_ok_supersede:
  "delivery_ok k d \<Longrightarrow> delivery_ok k (supersede_recipients members team epoch d)"
proof -
  assume ok: "delivery_ok k d"
  let ?waived = "filter (\<lambda>r. case r of
                      RecipientPrimary \<Rightarrow> False
                    | RecipientActor ref e \<Rightarrow>
                        e \<le> epoch \<and> ref_actor_id ref \<in> members \<and> \<not> fmhas (d_acknowledgements d) r)
                    (sorted_list_of_fset (d_required_recipients d))"
  let ?d1 = "d\<lparr>d_undeliverable_recipients :=
                  fold (\<lambda>r m. fmupd r (TeamGenerationSuperseded team (dra_team_epoch r)) m) ?waived
                    (d_undeliverable_recipients d)\<rparr>"
  have "delivery_ok k ?d1"
    by (rule delivery_ok_waive [OF ok]) (auto simp: waive_simps)
  then show ?thesis
    using delivery_ok_reason [of k ?d1]
    by (auto simp: supersede_recipients_def Let_def split: option.splits delivery_retirement_reason.splits)
qed

lemma delivery_ok_supersede_live:
  "delivery_ok k d \<Longrightarrow> delivery_ok k (supersede_live_recipients members team epoch d)"
  unfolding supersede_live_recipients_def Let_def
  by (auto intro!: delivery_ok_waive
      simp: waive_simps)

lemma delivery_ok_waive_obsolete:
  "delivery_ok k d \<Longrightarrow> delivery_ok k (waive_obsolete_recipients requests members team epoch d)"
  unfolding waive_obsolete_recipients_def
  by (rule delivery_ok_waive)
    (auto simp: obsolete_recipients_def waive_simps split: if_splits)

lemmas mail_intros = mail_ok_fmmap delivery_ok_retire delivery_ok_supersede
  delivery_ok_supersede_live delivery_ok_waive_obsolete

section \<open>Planned recipients\<close>

text \<open>The slot of a member in its team's current generation.\<close>

definition member_slot :: "supervisor \<Rightarrow> actor_ref \<Rightarrow> team_epoch \<Rightarrow> bool" where
  "member_slot s ref e \<longleftrightarrow>
     (\<exists>i a t. fmlookup (s_actors s) i = Some a \<and> ref = actor_ref_of a \<and>
        Option.bind (a_team_id a) (fmlookup (s_teams s)) = Some t \<and> e = t_epoch t)"

lemma member_slot_unique:
  assumes keyed: "actors_keyed s" and "member_slot s ref e" and "member_slot s ref e'"
  shows "e = e'"
proof -
  from assms(2,3) obtain i a t j b u where a: "fmlookup (s_actors s) i = Some a" "ref = actor_ref_of a"
      "Option.bind (a_team_id a) (fmlookup (s_teams s)) = Some t" "e = t_epoch t"
    and b: "fmlookup (s_actors s) j = Some b" "ref = actor_ref_of b"
      "Option.bind (a_team_id b) (fmlookup (s_teams s)) = Some u" "e' = t_epoch u"
    unfolding member_slot_def by blast
  have "i = a_actor_id a" "j = a_actor_id b"
    using keyed a(1) b(1) by (simp_all add: actors_keyed_def)
  with a(2) b(2) have "i = j"
    by (simp add: actor_ref_of_def)
  with a b show ?thesis by simp
qed

definition slots_ok :: "supervisor \<Rightarrow> delivery_recipient fset \<Rightarrow> bool" where
  "slots_ok s required \<longleftrightarrow> (\<forall>ref e. RecipientActor ref e |\<in>| required \<longrightarrow> member_slot s ref e)"

definition known_actors :: "supervisor \<Rightarrow> actor list \<Rightarrow> bool" where
  "known_actors s as \<longleftrightarrow> (\<forall>a \<in> set as. \<exists>i. fmlookup (s_actors s) i = Some a)"

lemma known_actors_simps [simp]:
  "known_actors s (filter P (List.map_filter (fmlookup (s_actors s)) is))"
  "known_actors s (filter P (fmvals (s_actors s)))"
  by (auto simp: known_actors_def List.map_filter_def in_fmvals_iff)

lemma slots_ok_one_each: "actors_keyed s \<Longrightarrow> slots_ok s rs \<Longrightarrow> one_slot_each rs"
  unfolding slots_ok_def one_slot_each_def using member_slot_unique by blast

lemma actor_delivery_recipient_slot:
  assumes "actor_delivery_recipient s a = Inr (RecipientActor ref e)" and "fmlookup (s_actors s) i = Some a"
  shows "member_slot s ref e"
proof -
  from assms(1) obtain t where "Option.bind (a_team_id a) (fmlookup (s_teams s)) = Some t"
      "ref = actor_ref_of a" "e = t_epoch t"
    by (auto simp: actor_delivery_recipient_def result_simps split: option.splits)
  with assms(2) show ?thesis
    by (auto simp: member_slot_def)
qed

lemma actor_delivery_recipients_slots:
  assumes "actor_delivery_recipients s as = Inr rs" and "known_actors s as"
  shows "slots_ok s rs"
  using assms
proof (induction as arbitrary: rs)
  case Nil
  then show ?case by (simp add: slots_ok_def)
next
  case (Cons a as)
  then obtain r rs' i where r: "actor_delivery_recipient s a = Inr r" "fmlookup (s_actors s) i = Some a"
    and rs: "actor_delivery_recipients s as = Inr rs'" "rs = finsert r rs'"
    by (auto simp: result_simps known_actors_def)
  have "slots_ok s rs'"
    using Cons.IH [OF rs(1)] Cons.prems(2) by (simp add: known_actors_def)
  then show ?case
    using r actor_delivery_recipient_slot by (auto simp: rs(2) slots_ok_def)
qed

lemma plan_of_recipients_Inr:
  assumes "plan_of_recipients rs = Inr plan"
  shows "plan_recipients plan = (rs, None)" and "rs \<noteq> {||}"
proof -
  from assms obtain first rest where f: "sorted_list_of_fset rs = first # rest"
      "plan = PlanRecipients first (rs |-| {|first|})"
    by (auto simp: plan_of_recipients_def split: list.splits)
  then have "first |\<in>| rs"
    by (metis list.set_intros(1) sorted_list_of_fset_simps(1))
  with f show "plan_recipients plan = (rs, None)" "rs \<noteq> {||}"
    by auto
qed

lemma directive_recipients_slots:
  assumes "directive_team_recipients s team = Inr rs"
  shows "slots_ok s rs"
proof (cases "fmlookup (s_teams s) team")
  case None
  with assms show ?thesis
    by (simp add: directive_team_recipients_def slots_ok_def)
next
  case (Some t)
  with assms show ?thesis
    unfolding directive_team_recipients_def Let_def by (auto intro: actor_delivery_recipients_slots)
qed

lemma planned_slots_ok:
  "plan_of_recipients rs = Inr plan \<Longrightarrow> plan_recipients plan = (required, reason) \<Longrightarrow> slots_ok s rs \<Longrightarrow>
   slots_ok s required \<and> (required = {||} \<longleftrightarrow> reason \<noteq> None)"
  using plan_of_recipients_Inr by auto

lemma team_plan_slots:
  assumes "target_recipient_plan s env = Inr plan" and "e_target env = TargetTeam team"
  obtains (planned) rs where "plan_of_recipients rs = Inr plan" and "slots_ok s rs"
    | (closed) t :: team where "plan = PlanRetired (TeamClosedReason team (t_epoch t))"
proof (cases "is_directive (e_message env)")
  case True
  with assms show thesis
    by (auto simp: target_recipient_plan_def result_simps split: if_splits
        intro: planned directive_recipients_slots)
next
  case not_directive: False
  show thesis
  proof (cases "team_close_disposition (message_kind_of (e_message env)) = ObsoleteOutcome \<and>
      team_is_terminal s team")
    case True
    with assms not_directive obtain t :: team and rs where rs: "actor_delivery_recipients s
        (filter (\<lambda>a. a_status a \<noteq> ActorRevoked)
           (List.map_filter (fmlookup (s_actors s)) (t_actors t))) = Inr rs"
      and plan: "(if rs = {||} then Inr (PlanRetired (TeamClosedReason team (t_epoch t)))
            else plan_of_recipients rs) = Inr plan"
      by (auto simp: target_recipient_plan_def result_simps split: option.splits)
    have "slots_ok s rs"
      by (rule actor_delivery_recipients_slots [OF rs]) simp
    with plan show thesis
      by (cases "rs = {||}") (rule closed [of t], simp, rule planned [of rs], simp_all)
  next
    case False
    with assms not_directive have "ebind (actor_delivery_recipients s
        (filter (\<lambda>a. a_status a \<notin> {ActorRevoked, ActorStopped} \<and> a_team_id a = Some team)
           (fmvals (s_actors s)))) plan_of_recipients = Inr plan"
      unfolding target_recipient_plan_def by (simp only: message_target.case if_False)
    then show thesis
      by (auto simp only: ebind_Inr_iff intro: planned actor_delivery_recipients_slots known_actors_simps)
  qed
qed

lemma target_plan_slots:
  assumes "target_recipient_plan s env = Inr plan" and p: "plan_recipients plan = (required, reason)"
  shows "slots_ok s required \<and> (required = {||} \<longleftrightarrow> reason \<noteq> None)"
proof (cases "e_target env")
  case TargetPrimary
  with assms(1) have "plan_of_recipients {|RecipientPrimary|} = Inr plan"
    by (simp add: target_recipient_plan_def)
  then show ?thesis
    using p by (rule planned_slots_ok) (simp add: slots_ok_def)
next
  case (TargetActor i)
  with assms(1) obtain a r where a: "fmlookup (s_actors s) i = Some a"
    and r: "actor_delivery_recipient s a = Inr r" "plan_of_recipients {|r|} = Inr plan"
    by (auto simp: target_recipient_plan_def result_simps)
  show ?thesis
    by (rule planned_slots_ok [OF r(2) p])
      (use r(1) a in \<open>auto simp: slots_ok_def intro: actor_delivery_recipient_slot\<close>)
next
  case (TargetTeam team)
  with assms(1) show ?thesis
  proof (cases rule: team_plan_slots)
    case (planned rs)
    from planned_slots_ok [OF planned(1) p planned(2)] show ?thesis .
  next
    case (closed t)
    with p show ?thesis by (auto simp: slots_ok_def)
  qed
next
  case TargetWorkspace
  with assms(1) obtain rs where rs: "actor_delivery_recipients s
      (filter (\<lambda>a. a_status a = ActorHealthy) (fmvals (s_actors s))) = Inr rs"
    "plan_of_recipients rs = Inr plan"
    by (auto simp: target_recipient_plan_def result_simps)
  have "slots_ok s rs"
    by (rule actor_delivery_recipients_slots [OF rs(1)]) simp
  with planned_slots_ok [OF rs(2) p] show ?thesis by simp
qed

lemma planned_slots:
  assumes keyed: "actors_keyed s" and plan: "delivery_recipient_plan s env = Inr plan"
    and "plan_recipients plan = (required, reason)"
  shows "required = {||} \<longleftrightarrow> reason \<noteq> None" and "one_slot_each required"
proof -
  have "(required = {||} \<longleftrightarrow> reason \<noteq> None) \<and> one_slot_each required"
  proof (cases "historical_outcome_assignment s env")
    case None
    with plan have t: "target_recipient_plan s env = Inr plan"
      by (auto simp: delivery_recipient_plan_def result_simps)
    from target_plan_slots [OF t assms(3)] show ?thesis
      using slots_ok_one_each [OF keyed] by simp
  next
    case (Some q)
    with assms(2,3) show ?thesis
      by (auto simp: delivery_recipient_plan_def result_simps one_slot_each_def)
  qed
  then show "required = {||} \<longleftrightarrow> reason \<noteq> None" "one_slot_each required"
    by auto
qed

section \<open>New deliveries and acknowledgements\<close>

lemma fmhas_fm_of_recipients: "fmhas (fm_of_recipients f rs) r \<Longrightarrow> r \<in> set rs"
  by (induction rs) (auto split: option.splits)

lemma initial_undeliverable_required:
  "fmhas (initial_undeliverable_recipients s reason kind i required) r \<Longrightarrow> r |\<in>| required"
  by (auto simp: initial_undeliverable_recipients_def closed_team_recipients_def Let_def
      dest!: fmhas_fm_of_recipients split: if_splits option.splits)

lemma accepted_record_ok:
  assumes "required = {||} \<longleftrightarrow> reason \<noteq> None" and "one_slot_each required"
  shows "delivery_ok (e_message_id env) (accepted_record s env digest required reason)"
  using assms initial_undeliverable_required [of s reason "message_kind_of (e_message env)" "e_request_id env" required]
  unfolding delivery_ok_def accepted_record_def
  by (auto simp: causal_kind_of causal_content_ref_valid_of)

lemma apply_envelope_mail:
  assumes ok: "supervisor_ok s" and mail: "mail_ok (s_mailbox s)"
    and app: "apply_envelope x s env = (Inr outcome, s')"
  shows "mail_ok (s_mailbox s')"
  using app
proof (rule apply_envelope_Inr)
  fix digest sender plan required reason s1
  assume plan: "delivery_recipient_plan s env = Inr plan" "plan_recipients plan = (required, reason)"
    and msg: "apply_message s env sender digest = (Inr (), s1)"
    and recorded: "record_accepted x s1 env digest required reason
          (request_state_for_observability s env) = (Inr Applied, s')"
  have step: "work_step s env sender digest s1"
    using wf_work_keys [OF ok] msg by (rule apply_message_step)
  note slots = planned_slots [OF wf_actors_keyed [OF ok] plan]
  from recorded show ?thesis
  proof (rule record_accepted_Inr)
    fix sequence
    assume s': "s' = s1\<lparr>s_mailbox := fmmap (retire_delivery (s_requests s1))
               (fmupd (e_message_id env) (accepted_record s1 env digest required reason) (s_mailbox s1)),
            s_audit := s_audit s1 @ [AuditEvent sequence (e_sent_at env) (e_team_id env)
              (e_team_epoch env)
              (MessageAccepted (e_message_id env) (message_kind_of (e_message env)) (Some digest))],
            s_history_checkpoint := s_history_checkpoint s',
            s_pending_bulk_content := s_pending_bulk_content s1 @
              [PendingBulkContent (e_message_id env) digest (e_message env)],
            s_nonterminal_request_counts := s_nonterminal_request_counts s',
            s_pending_observability := s_pending_observability s'\<rparr>"
    have "mail_ok (fmupd (e_message_id env) (accepted_record s1 env digest required reason) (s_mailbox s1))"
      using mail work_step_fields(7) [OF step] by (simp add: mail_ok_fmupd accepted_record_ok [OF slots])
    then show ?thesis
      by (subst s') (simp add: mail_ok_fmmap delivery_ok_retire)
  qed
qed (use mail in simp)

text \<open>The slot found for a past generation is the one found for the current generation.\<close>

lemma slots_agree:
  assumes keyed: "actors_keyed s" and one: "one_slot_each required"
    and slot: "historical_recipient_for_actor s target required ref = Some slot"
    and a: "current_actor s ref = Inr a"
    and r: "current_recipient_for_actor s target required a = Some recipient"
  shows "recipient = slot" and "actor_ref_of a = ref"
proof -
  from a have look: "fmlookup (s_actors s) (ref_actor_id ref) = Some a" "a_epoch a = ref_actor_epoch ref"
    by (auto simp: current_actor_def result_simps split: if_splits)
  then have "a_actor_id a = ref_actor_id ref"
    using keyed by (simp add: actors_keyed_def)
  with look(2) show ref: "actor_ref_of a = ref"
    by (cases ref) (simp add: actor_ref_of_def)
  show "recipient = slot"
  proof (cases "target \<in> {TargetPrimary, TargetWorkspace} \<and> RecipientPrimary |\<in>| required \<and>
      has_capability a HUMAN_FACING_PRIMARY \<and> a_team_id a = None")
    case True
    with slot r look(1) show ?thesis
      by (auto simp: historical_recipient_for_actor_def current_recipient_for_actor_def split: if_splits)
  next
    case False
    from slot False look(1) have h: "bs_find (\<lambda>r. case r of RecipientActor actor _ \<Rightarrow> actor = ref | _ \<Rightarrow> False)
        required = Some slot"
      by (simp add: historical_recipient_for_actor_def split: if_splits)
    from r False obtain t :: team where c: "bs_find (\<lambda>r. case r of
          RecipientActor actor epoch \<Rightarrow> actor = actor_ref_of a \<and> epoch = t_epoch t | _ \<Rightarrow> False) required
        = Some recipient"
      unfolding current_recipient_for_actor_def if_not_P [OF False] by (auto split: option.splits)
    from bs_find_SomeD [OF h] bs_find_SomeD [OF c] one show ?thesis
      unfolding ref one_slot_each_def by (cases slot; cases recipient) auto
  qed
qed

lemma acknowledge_fresh:
  assumes "supervisor_ok s" and "mail_ok (s_mailbox s)"
  shows "grows s (snd (acknowledge x s ack))"
proof (rule acknowledge_grows)
  fix d slot a recipient
  assume "fmlookup (s_mailbox s) (ak_message_id ack) = Some d"
    and slot: "historical_recipient_for_actor s (e_target (d_envelope d)) (d_required_recipients d)
        (ak_actor ack) = Some slot"
    and none: "fmlookup (d_acknowledgements d) slot = None"
    and a: "current_actor s (ak_actor ack) = Inr a"
    and r: "current_recipient_for_actor s (e_target (d_envelope d)) (d_required_recipients d) a
        = Some recipient"
  then have "delivery_ok (ak_message_id ack) d"
    using assms(2) by (simp add: mail_okD)
  then have "one_slot_each (d_required_recipients d)"
    by (simp add: delivery_ok_def)
  with none show "fmlookup (d_acknowledgements d) recipient = None"
    using slots_agree(1) [OF wf_actors_keyed [OF assms(1)] _ slot a r] by simp
qed

lemma recipient_of_actor:
  assumes "current_recipient_for_actor s target required a = Some (RecipientActor ref e)"
  shows "ref = actor_ref_of a"
proof -
  from assms obtain t :: team where "bs_find (\<lambda>r. case r of
          RecipientActor actor epoch \<Rightarrow> actor = actor_ref_of a \<and> epoch = t_epoch t | _ \<Rightarrow> False) required
        = Some (RecipientActor ref e)"
    by (auto simp: current_recipient_for_actor_def split: if_splits option.splits)
  from bs_find_SomeD(2) [OF this] show ?thesis by simp
qed

lemma acknowledge_mail:
  assumes ok: "supervisor_ok s" and mail: "mail_ok (s_mailbox s)"
    and app: "acknowledge x s ack = (Inr outcome, s')"
  shows "mail_ok (s_mailbox s')"
  using app
proof (rule acknowledge_Inr)
  fix d slot a recipient sequence
  let ?k = "ak_message_id ack"
  let ?f = "\<lambda>d. d\<lparr>d_acknowledgements := fmupd recipient ack (d_acknowledgements d)\<rparr>"
  assume d: "fmlookup (s_mailbox s) ?k = Some d"
    and slot: "historical_recipient_for_actor s (e_target (d_envelope d)) (d_required_recipients d)
             (ak_actor ack) = Some slot"
    and a: "current_actor s (ak_actor ack) = Inr a"
    and r: "current_recipient_for_actor s (e_target (d_envelope d)) (d_required_recipients d) a
             = Some recipient"
    and opn: "slot_open s d a recipient"
    and s': "s' = s\<lparr>s_mailbox := fmmap (retire_delivery (s_requests s)) (fmmodify ?k ?f (s_mailbox s)),
           s_audit := s_audit s @ [AuditEvent sequence (ak_acknowledged_at ack)
             (e_team_id (d_envelope d)) (e_team_epoch (d_envelope d))
             (MessageAcknowledged ?k (ref_actor_id (ak_actor ack)))],
           s_history_checkpoint := s_history_checkpoint s',
           s_pending_observability := s_pending_observability s'\<rparr>"
  have d_ok: "delivery_ok ?k d"
    using mail d by (rule mail_okD)
  then have "actor_ref_of a = ak_actor ack"
    using slots_agree(2) [OF wf_actors_keyed [OF ok] _ slot a r] by (simp add: delivery_ok_def)
  then have "ack_matches ?k recipient ack"
    using r recipient_of_actor by (auto simp: ack_matches_def split: delivery_recipient.splits)
  then have "delivery_ok ?k (?f d)"
    using d_ok opn by (auto simp: delivery_ok_def slot_open_def)
  then have "mail_ok (fmmodify ?k ?f (s_mailbox s))"
    using mail d by (simp add: fmmodify_present mail_ok_fmupd)
  then show ?thesis
    by (subst s') (simp add: mail_ok_fmmap delivery_ok_retire)
qed (use mail in simp)

end
