(* ===== verification/Provenance.thy ===== *)
theory Provenance
  imports Mail_Invariants
begin

text \<open>
  Where the facts of the aggregate come from: every request, every current review decision and
  every pending handoff is backed by the accepted message that introduced it, a decision id is
  accepted once, at most one handoff per request is pending, and the audit log is numbered
  without gaps.
\<close>

section \<open>Predicates\<close>

definition delivery_has :: "(message_id, delivery_record) fmap \<Rightarrow> message_id \<Rightarrow> (delivery_record \<Rightarrow> bool) \<Rightarrow> bool" where
  "delivery_has mailbox k P \<longleftrightarrow> is_some_and (fmlookup mailbox k) P"

definition specification_backed :: "(message_id, delivery_record) fmap \<Rightarrow> request \<Rightarrow> bool" where
  "specification_backed mailbox q \<longleftrightarrow>
     delivery_has mailbox (spec_message_id (q_specification q)) (\<lambda>d.
       d_message_kind d = KImplementationRequest \<and>
       d_payload_digest d = spec_payload_digest (q_specification q) \<and>
       e_request_id (d_envelope d) = Some (q_request_id q))"

definition decision_backed :: "(message_id, delivery_record) fmap \<Rightarrow> request \<Rightarrow> bool" where
  "decision_backed mailbox q \<longleftrightarrow>
     is_none_or (q_decision q) (\<lambda>r.
       delivery_has mailbox (dr_message_id r) (\<lambda>d.
         d_causal d = CausalReviewDecision r \<and>
         e_request_id (d_envelope d) = Some (q_request_id q)))"

definition offer_backed :: "(message_id, delivery_record) fmap \<Rightarrow> pending_handoff \<Rightarrow> bool" where
  "offer_backed mailbox p \<longleftrightarrow>
     delivery_has mailbox (hr_message_id (ph_offer p)) (\<lambda>d.
       d_causal d = CausalHandoffOffer (ph_offer p))"

definition decisions_unique :: "(message_id, delivery_record) fmap \<Rightarrow> bool" where
  "decisions_unique mailbox \<longleftrightarrow>
     (\<forall>i j d e r r'. fmlookup mailbox i = Some d \<longrightarrow> fmlookup mailbox j = Some e \<longrightarrow>
        d_causal d = CausalReviewDecision r \<longrightarrow> d_causal e = CausalReviewDecision r' \<longrightarrow>
        dr_decision_id r = dr_decision_id r' \<longrightarrow> i = j)"

definition closed_to_handoff :: "request_status set" where
  "closed_to_handoff = {Accepted, IntegrationAuthorized, Cancelled, Completed}"

definition handoffs_ok ::
  "(request_id, request) fmap \<Rightarrow> (handoff_id, pending_handoff) fmap \<Rightarrow> bool" where
  "handoffs_ok requests handoffs \<longleftrightarrow>
     (\<forall>k p. fmlookup handoffs k = Some p \<longrightarrow>
        hr_handoff_id (ph_offer p) = k \<and>
        is_some_and (fmlookup requests (hr_request_id (ph_offer p))) (\<lambda>q.
          q_status q \<notin> closed_to_handoff)) \<and>
     (\<forall>k j p p'. fmlookup handoffs k = Some p \<longrightarrow> fmlookup handoffs j = Some p' \<longrightarrow>
        hr_request_id (ph_offer p) = hr_request_id (ph_offer p') \<longrightarrow> k = j)"

definition provenance_ok :: "supervisor \<Rightarrow> bool" where
  "provenance_ok s \<longleftrightarrow>
     (\<forall>k q. fmlookup (s_requests s) k = Some q \<longrightarrow>
        specification_backed (s_mailbox s) q \<and> decision_backed (s_mailbox s) q) \<and>
     (\<forall>k p. fmlookup (s_handoffs s) k = Some p \<longrightarrow> offer_backed (s_mailbox s) p) \<and>
     decisions_unique (s_mailbox s) \<and> handoffs_ok (s_requests s) (s_handoffs s)"

text \<open>The hot audit log, from which archived events may be missing, is strictly ordered and its
  numbers are positive and covered by the count of the checkpoint.\<close>

definition audit_ok :: "audit_event list \<Rightarrow> history_checkpoint \<Rightarrow> bool" where
  "audit_ok audit history \<longleftrightarrow>
     sorted_wrt (<) (map au_sequence audit) \<and>
     (\<forall>e \<in> set audit. au_sequence e \<noteq> 0 \<and> au_sequence e \<le> h_audit_event_count history)"

text \<open>What a step adds to the log is numbered without gaps from the count it found.\<close>

definition audit_grows :: "supervisor \<Rightarrow> supervisor \<Rightarrow> bool" where
  "audit_grows s s' \<longleftrightarrow>
     h_audit_event_count (s_history_checkpoint s) \<le> h_audit_event_count (s_history_checkpoint s') \<and>
     (\<exists>new. s_audit s' = s_audit s @ new \<and>
        map (\<lambda>e. unat (au_sequence e)) new =
          [Suc (unat (h_audit_event_count (s_history_checkpoint s)))
             ..< Suc (unat (h_audit_event_count (s_history_checkpoint s')))])"

section \<open>Monotonicity\<close>

lemma delivery_has_mono:
  assumes "fm_le delivery_le mailbox mailbox'" and "delivery_has mailbox k P"
    and "\<And>d d'. delivery_le d d' \<Longrightarrow> P d \<Longrightarrow> P d'"
  shows "delivery_has mailbox' k P"
  using assms unfolding delivery_has_def fm_le_def by (force simp: is_some_and_iff)

lemma backed_mono:
  assumes "fm_le delivery_le mailbox mailbox'"
  shows "specification_backed mailbox q \<Longrightarrow> specification_backed mailbox' q"
    and "decision_backed mailbox q \<Longrightarrow> decision_backed mailbox' q"
    and "offer_backed mailbox p \<Longrightarrow> offer_backed mailbox' p"
  unfolding specification_backed_def decision_backed_def offer_backed_def is_none_or_iff
  by (auto elim!: delivery_has_mono [OF assms] simp: delivery_le_def)

lemma decisions_unique_mono:
  assumes "fm_le delivery_le mailbox mailbox'" and "fmdom mailbox' = fmdom mailbox"
    and "decisions_unique mailbox"
  shows "decisions_unique mailbox'"
proof -
  have "\<exists>d. fmlookup mailbox k = Some d \<and> d_causal d = d_causal d'" if "fmlookup mailbox' k = Some d'" for k d'
  proof -
    from that assms(2) obtain d where "fmlookup mailbox k = Some d"
      by (metis fmdomI fmdomE)
    with assms(1) that show ?thesis
      by (force simp: fm_le_def delivery_le_def)
  qed
  with assms(3) show ?thesis
    unfolding decisions_unique_def by metis
qed

section \<open>Quiet steps\<close>

text \<open>
  The operations other than \<open>apply\<close> and \<open>acknowledge\<close> add no message and no audit event, give
  no request a new specification, decision or status, and offer no handoff.
\<close>

definition same_facts :: "request \<Rightarrow> request \<Rightarrow> bool" where
  "same_facts q q' \<longleftrightarrow>
     q_request_id q' = q_request_id q \<and> q_specification q' = q_specification q \<and>
     q_decision q' = q_decision q \<and> q_status q' = q_status q"

definition quiet :: "supervisor \<Rightarrow> supervisor \<Rightarrow> bool" where
  "quiet s s' \<longleftrightarrow>
     s_audit s' = s_audit s \<and>
     h_audit_event_count (s_history_checkpoint s') = h_audit_event_count (s_history_checkpoint s) \<and>
     fmdom (s_mailbox s') = fmdom (s_mailbox s) \<and>
     fm_le delivery_le (s_mailbox s) (s_mailbox s') \<and>
     (mail_ok (s_mailbox s) \<longrightarrow> mail_ok (s_mailbox s')) \<and>
     fmdom (s_requests s') = fmdom (s_requests s) \<and>
     fm_le same_facts (s_requests s) (s_requests s') \<and>
     (\<forall>k p. fmlookup (s_handoffs s') k = Some p \<longrightarrow> fmlookup (s_handoffs s) k = Some p)"

lemma same_facts_backed:
  assumes "same_facts q q'"
  shows "specification_backed mailbox q' = specification_backed mailbox q"
    and "decision_backed mailbox q' = decision_backed mailbox q"
  using assms by (simp_all add: same_facts_def specification_backed_def decision_backed_def)

lemma same_facts_refl [simp]: "same_facts q q"
  by (simp add: same_facts_def)

lemma quiet_refl [simp]: "quiet s s"
  by (simp add: quiet_def fm_le_refl)

lemma same_facts_trans: "same_facts p q \<Longrightarrow> same_facts q r \<Longrightarrow> same_facts p r"
  by (simp add: same_facts_def)

lemmas fm_le_delivery_trans = fm_le_trans [OF _ _ delivery_le_trans]

lemmas fm_le_facts_trans = fm_le_trans [OF _ _ same_facts_trans]

lemma quietD:
  assumes "quiet s s'"
  shows "s_audit s' = s_audit s"
    and "h_audit_event_count (s_history_checkpoint s') = h_audit_event_count (s_history_checkpoint s)"
    and "fmdom (s_mailbox s') = fmdom (s_mailbox s)"
    and "fm_le delivery_le (s_mailbox s) (s_mailbox s')"
    and "mail_ok (s_mailbox s) \<Longrightarrow> mail_ok (s_mailbox s')"
    and "fmdom (s_requests s') = fmdom (s_requests s)"
    and "fm_le same_facts (s_requests s) (s_requests s')"
    and "fmlookup (s_handoffs s') k = Some p \<Longrightarrow> fmlookup (s_handoffs s) k = Some p"
  using assms unfolding quiet_def by blast+

lemma quiet_trans:
  assumes "quiet s1 s2" and "quiet s2 s3"
  shows "quiet s1 s3"
  unfolding quiet_def
proof (intro conjI)
  note first = quietD [OF assms(1)] and second = quietD [OF assms(2)]
  show "fm_le delivery_le (s_mailbox s1) (s_mailbox s3)"
    by (rule fm_le_delivery_trans [OF first(4) second(4)])
  show "fm_le same_facts (s_requests s1) (s_requests s3)"
    by (rule fm_le_facts_trans [OF first(7) second(7)])
  show "mail_ok (s_mailbox s1) \<longrightarrow> mail_ok (s_mailbox s3)"
    using first(5) second(5) by blast
  show "\<forall>k p. fmlookup (s_handoffs s3) k = Some p \<longrightarrow> fmlookup (s_handoffs s1) k = Some p"
    using first(8) second(8) by blast
qed (simp_all only: quietD(1,2,3,6) [OF assms(1)] quietD(1,2,3,6) [OF assms(2)])

text \<open>Every value of the later map has a related one before.\<close>

lemma fm_le_back:
  assumes "fm_le R m m'" and "fmdom m' = fmdom m" and "fmlookup m' k = Some v'"
  obtains v where "fmlookup m k = Some v" and "R v v'"
proof -
  from assms(2,3) obtain v where v: "fmlookup m k = Some v"
    by (metis fmdomI fmdomE)
  with assms(1) obtain w where "fmlookup m' k = Some w" "R v w"
    by (auto simp: fm_le_def)
  with assms(3) v that show thesis by simp
qed

lemma handoffs_ok_mono:
  assumes "handoffs_ok requests handoffs" and "fm_le same_facts requests requests'"
    and "\<And>k p. fmlookup handoffs' k = Some p \<Longrightarrow> fmlookup handoffs k = Some p"
  shows "handoffs_ok requests' handoffs'"
proof -
  have "is_some_and (fmlookup requests' i) (\<lambda>q. q_status q \<notin> closed_to_handoff)"
    if "is_some_and (fmlookup requests i) (\<lambda>q. q_status q \<notin> closed_to_handoff)" for i
    using that assms(2) by (fastforce simp: is_some_and_iff fm_le_def same_facts_def)
  with assms(1,3) show ?thesis
    unfolding handoffs_ok_def by (metis (no_types, lifting))
qed

lemma quiet_provenance:
  assumes quiet: "quiet s s'" and ok: "provenance_ok s"
  shows "provenance_ok s'"
proof -
  have le: "fm_le delivery_le (s_mailbox s) (s_mailbox s')" and dom: "fmdom (s_mailbox s') = fmdom (s_mailbox s)"
    and req: "fm_le same_facts (s_requests s) (s_requests s')" "fmdom (s_requests s') = fmdom (s_requests s)"
    and off: "\<And>k p. fmlookup (s_handoffs s') k = Some p \<Longrightarrow> fmlookup (s_handoffs s) k = Some p"
    using quiet by (simp_all add: quiet_def)
  have "specification_backed (s_mailbox s') q' \<and> decision_backed (s_mailbox s') q'"
    if q': "fmlookup (s_requests s') k = Some q'" for k q'
    using req q'
  proof (rule fm_le_back)
    fix q assume q: "fmlookup (s_requests s) k = Some q" "same_facts q q'"
    then have "specification_backed (s_mailbox s) q \<and> decision_backed (s_mailbox s) q"
      using ok by (auto simp: provenance_ok_def)
    then show ?thesis
      using backed_mono [OF le] by (simp add: same_facts_backed [OF q(2)])
  qed
  moreover have "offer_backed (s_mailbox s') p" if "fmlookup (s_handoffs s') k = Some p" for k p
    using ok off [OF that] backed_mono(3) [OF le] by (auto simp: provenance_ok_def)
  moreover have "decisions_unique (s_mailbox s')"
    using decisions_unique_mono [OF le dom] ok by (simp add: provenance_ok_def)
  moreover have "handoffs_ok (s_requests s') (s_handoffs s')"
    by (rule handoffs_ok_mono [OF _ req(1) off]) (use ok in \<open>simp_all add: provenance_ok_def\<close>)
  ultimately show ?thesis
    by (auto simp: provenance_ok_def)
qed

section \<open>The audit log\<close>

lemma audit_grows_quiet: "quiet s s' \<Longrightarrow> audit_grows s s'"
  by (simp add: quiet_def audit_grows_def)

lemma audit_grows_refl [simp]: "audit_grows s s"
  by (simp add: audit_grows_def)

lemma audit_grows_snoc:
  assumes "checked_inc (h_audit_event_count (s_history_checkpoint s)) = Some sequence"
    and "h_audit_event_count (s_history_checkpoint s') = sequence"
    and "s_audit s' = s_audit s @ [e]" and "au_sequence e = sequence"
  shows "audit_grows s s'"
  using assms checked_inc_SomeD [OF assms(1)] by (simp add: audit_grows_def)

lemma audit_grows_trans:
  assumes "audit_grows s s1" and "audit_grows s1 s2"
  shows "audit_grows s s2"
proof -
  let ?n = "\<lambda>s. unat (h_audit_event_count (s_history_checkpoint s))"
  have le: "?n s \<le> ?n s1" "?n s1 \<le> ?n s2"
    using assms by (simp_all add: audit_grows_def word_le_nat_alt)
  then have "[Suc (?n s) ..< Suc (?n s2)] = [Suc (?n s) ..< Suc (?n s1)] @ [Suc (?n s1) ..< Suc (?n s2)]"
    using upt_add_eq_append [of "Suc (?n s)" "Suc (?n s1)" "?n s2 - ?n s1"] by simp
  with assms le show ?thesis
    unfolding audit_grows_def by (auto simp: word_le_nat_alt simp del: upt_Suc)
qed

lemma audit_ok_grows:
  assumes "audit_ok (s_audit s) (s_history_checkpoint s)" and "audit_grows s s'"
  shows "audit_ok (s_audit s') (s_history_checkpoint s')"
proof -
  let ?n = "h_audit_event_count (s_history_checkpoint s)"
  let ?n' = "h_audit_event_count (s_history_checkpoint s')"
  from assms(2) obtain new where new: "s_audit s' = s_audit s @ new" "?n \<le> ?n'"
    "map (\<lambda>e. unat (au_sequence e)) new = [Suc (unat ?n) ..< Suc (unat ?n')]"
    by (auto simp: audit_grows_def)
  have "sorted_wrt (<) (map (\<lambda>e. unat (au_sequence e)) new)"
    unfolding new(3) by (simp only: sorted_wrt_upt)
  then have sorted: "sorted_wrt (<) (map au_sequence new)"
    by (simp add: sorted_wrt_map word_less_nat_alt)
  have "unat (au_sequence e) \<in> set [Suc (unat ?n) ..< Suc (unat ?n')]" if "e \<in> set new" for e
    using that by (simp only: new(3) [symmetric]) simp
  then have bounds: "?n < au_sequence e \<and> au_sequence e \<le> ?n'" if "e \<in> set new" for e
    using that by (fastforce simp: word_less_nat_alt word_le_nat_alt)
  show ?thesis
    using assms(1) sorted bounds new(2) unfolding new(1) audit_ok_def
    by (fastforce simp: sorted_wrt_append)
qed

section \<open>Accepted messages\<close>

lemma pair_step_decision:
  assumes "pair_step s env a digest (q, r, h) (q', r', h')" and "q_decision q' = Some d"
  shows "q_decision q = Some d \<or>
    causal_message_of (e_message_id env) digest (e_message env) = CausalReviewDecision d"
  using assms by (cases rule: pair_step.cases) (auto simp: submit_candidate_def decide_def)

lemma pair_step_specification:
  "pair_step s env a digest (q, r, h) (q', r', h') \<Longrightarrow> q_specification q' = q_specification q"
  by (erule pair_step.cases) (auto simp: submit_candidate_def decide_def)

lemma pair_step_handoffs:
  "pair_step s env a digest (q, r, h) (q', r', h') \<Longrightarrow> fmlookup h' k = Some p \<Longrightarrow> fmlookup h k = Some p"
  by (erule pair_step.cases) (auto split: option.splits if_splits)

text \<open>A step that closes a request to handoffs drops its offer.\<close>

lemma pair_step_open_offer:
  assumes "pair_step s env a digest (q, r, h) (q', r', h')" and "fmlookup h' k = Some p"
    and "offers_of q p" and "q_status q \<notin> closed_to_handoff"
  shows "q_status q' \<notin> closed_to_handoff"
  using assms
  by (cases rule: pair_step.cases)
    (auto simp: closed_to_handoff_def submit_candidate_def decide_def transition_request_def Let_def
      split: option.splits if_splits)

lemma causal_decision_message:
  "causal_message_of k digest m = CausalReviewDecision d \<Longrightarrow> dr_message_id d = k"
  by (cases m) auto

lemma causal_offer_message:
  "causal_message_of k digest m = CausalHandoffOffer p \<Longrightarrow> hr_message_id p = k"
  by (cases m) auto

lemma apply_message_new_decision:
  assumes "apply_message s env a digest = (Inr u, s')"
    and "causal_message_of (e_message_id env) digest (e_message env) = CausalReviewDecision d"
  shows "\<not> decision_id_used s (dr_decision_id d)"
proof (cases "e_message env")
  case (MReviewDecision decision)
  with assms show ?thesis
    by (auto simp: apply_message_def dispatch_message_def result_simps elim: review_common)
qed (use assms(2) in simp_all)

lemma decision_id_used_iff:
  "decision_id_used s i \<longleftrightarrow>
     (\<exists>k d r. fmlookup (s_mailbox s) k = Some d \<and> d_causal d = CausalReviewDecision r \<and> dr_decision_id r = i)"
proof -
  have iff: "(case d_causal d of CausalReviewDecision r \<Rightarrow> dr_decision_id r = i | _ \<Rightarrow> False) \<longleftrightarrow>
      (\<exists>r. d_causal d = CausalReviewDecision r \<and> dr_decision_id r = i)" for d
    by (cases "d_causal d") simp_all
  show ?thesis
    unfolding decision_id_used_def list_ex_iff iff Bex_def in_fmvals_iff by blast
qed

lemma decisions_unique_upd:
  assumes "decisions_unique mailbox" and "fmlookup mailbox k = None"
    and "\<And>r j e r'. d_causal d = CausalReviewDecision r \<Longrightarrow> fmlookup mailbox j = Some e \<Longrightarrow>
           d_causal e = CausalReviewDecision r' \<Longrightarrow> dr_decision_id r' \<noteq> dr_decision_id r"
  shows "decisions_unique (fmupd k d mailbox)"
  unfolding decisions_unique_def
proof (intro allI impI)
  fix i j e f r r'
  assume "fmlookup (fmupd k d mailbox) i = Some e" "fmlookup (fmupd k d mailbox) j = Some f"
    "d_causal e = CausalReviewDecision r" "d_causal f = CausalReviewDecision r'"
    "dr_decision_id r = dr_decision_id r'"
  note these = this
  show "i = j"
  proof (cases "i = k")
    case True
    then show ?thesis
      using these assms(3) [of r j f r'] by (cases "j = k") auto
  next
    case False
    show ?thesis
    proof (cases "j = k")
      case True
      then show ?thesis
        using False these assms(3) [of r' i e r] by auto
    next
      case j: False
      then show ?thesis
        using False these assms(1) [unfolded decisions_unique_def, rule_format, of i e j f r r'] by simp
    qed
  qed
qed

lemma work_step_handoffs_ok:
  assumes keys: "work_keys s" and step: "work_step s env a digest s'"
    and ok: "handoffs_ok (s_requests s) (s_handoffs s)"
  shows "handoffs_ok (s_requests s') (s_handoffs s')"
  using step
proof (cases rule: work_step.cases)
  case (created k j team epoch target b sp assignment)
  then have "fmlookup (s_requests s) k = None"
    by (simp add: fmhas_def)
  then have "fm_le same_facts (s_requests s) (s_requests s')"
    by (simp add: created(1) fm_le_fmupd)
  with ok show ?thesis
    by (rule handoffs_ok_mono) (simp add: created(1))
next
  case (changed q r q' r' h')
  note sub = pair_step_handoffs [OF changed(4)]
  have "is_some_and (fmlookup (s_requests s') (hr_request_id (ph_offer p))) (\<lambda>q. q_status q \<notin> closed_to_handoff)"
    if p: "fmlookup h' k = Some p" for k p
  proof (cases "offers_of q p")
    case True
    moreover have "is_some_and (fmlookup (s_requests s) (hr_request_id (ph_offer p)))
        (\<lambda>q. q_status q \<notin> closed_to_handoff)"
      using ok sub [OF p] by (simp add: handoffs_ok_def)
    ultimately have "q_status q \<notin> closed_to_handoff"
      using request_context_lookup(1) [OF keys changed(2)] by (simp add: offers_of_def)
    then show ?thesis
      using pair_step_open_offer [OF changed(4) p True] True by (simp add: changed(1) offers_of_def)
  next
    case False
    then show ?thesis
      using ok sub [OF p] by (auto simp: changed(1) handoffs_ok_def offers_of_def)
  qed
  then show ?thesis
    using ok sub unfolding handoffs_ok_def by (simp add: changed(1))
next
  case (offered q p assignment)
  have "fmlookup (s_requests s) (hr_request_id (ph_offer p)) = Some q"
    using request_context_lookup(1) [OF keys offered(2)] offered(3) by (simp add: offers_of_def)
  then show ?thesis
    using ok offered(3,5,9) unfolding handoffs_ok_def
    by (auto simp: offered(1) closed_to_handoff_def offers_of_def split: if_splits; blast)
qed (use ok in simp)

lemma work_step_provenance:
  assumes keys: "work_keys s" and step: "work_step s env a digest s1" and ok: "provenance_ok s"
    and new: "fmlookup (s_mailbox s) (e_message_id env) = None"
    and d: "d_envelope d = header_of env" "d_message_kind d = message_kind_of (e_message env)"
      "d_payload_digest d = digest"
      "d_causal d = causal_message_of (e_message_id env) digest (e_message env)"
    and decision: "\<And>r. d_causal d = CausalReviewDecision r \<Longrightarrow> \<not> decision_id_used s (dr_decision_id r)"
  shows "provenance_ok (s1\<lparr>s_mailbox := fmupd (e_message_id env) d (s_mailbox s)\<rparr>)"
proof -
  let ?k = "e_message_id env"
  let ?m = "fmupd ?k d (s_mailbox s)"
  have le: "fm_le delivery_le (s_mailbox s) ?m"
    using new by (simp add: fm_le_fmupd)
  have here: "delivery_has ?m ?k P" if "P d" for P
    using that by (simp add: delivery_has_def)
  have requests: "specification_backed ?m q \<and> decision_backed ?m q"
    if "fmlookup (s_requests s) i = Some q" for i q
    using ok that backed_mono [OF le] by (auto simp: provenance_ok_def)
  have offers: "offer_backed ?m p" if "fmlookup (s_handoffs s) i = Some p" for i p
    using ok that backed_mono [OF le] by (auto simp: provenance_ok_def)
  have "decisions_unique ?m"
    using ok new decision by (intro decisions_unique_upd)
      (auto simp: provenance_ok_def decision_id_used_iff)
  moreover have "handoffs_ok (s_requests s1) (s_handoffs s1)"
    using work_step_handoffs_ok [OF keys step] ok by (simp add: provenance_ok_def)
  moreover have "(\<forall>i q. fmlookup (s_requests s1) i = Some q \<longrightarrow> specification_backed ?m q \<and> decision_backed ?m q) \<and>
      (\<forall>i p. fmlookup (s_handoffs s1) i = Some p \<longrightarrow> offer_backed ?m p)"
    using step
  proof (cases rule: work_step.cases)
    case unchanged
    then show ?thesis using requests offers by simp
  next
    case (created k j team epoch target b sp assignment)
    have "specification_backed ?m (new_request s k j team epoch sp assignment)"
      using created d here by (simp add: specification_backed_def new_request_def)
    moreover have "decision_backed ?m (new_request s k j team epoch sp assignment)"
      by (simp add: decision_backed_def new_request_def)
    ultimately show ?thesis
      using requests offers by (auto simp: created(1))
  next
    case (offered q p assignment)
    have "offer_backed ?m p"
      using offered(13) d here causal_offer_message [OF offered(13)] by (simp add: offer_backed_def)
    then show ?thesis
      using requests offers by (auto simp: offered(1))
  next
    case (changed q r q' r' h')
    note look = request_context_lookup [OF keys changed(2)]
    note q = requests [OF look(1)]
    have id: "q_request_id q' = q_request_id q"
      by (rule pair_step_identity(1) [OF changed(4)])
    have "specification_backed ?m q'"
      using q by (simp add: specification_backed_def pair_step_specification [OF changed(4)] id)
    moreover have "decision_backed ?m q'"
    proof (cases "q_decision q'")
      case (Some c)
      from pair_step_decision [OF changed(4) Some] show ?thesis
      proof
        assume "q_decision q = Some c"
        with q Some show ?thesis by (simp add: decision_backed_def id)
      next
        assume c: "causal_message_of ?k digest (e_message env) = CausalReviewDecision c"
        have "d_causal d = CausalReviewDecision c \<and> e_request_id (d_envelope d) = Some (q_request_id q')"
          using c d look(2) id by simp
        then show ?thesis
          using here causal_decision_message [OF c] by (simp add: decision_backed_def Some)
      qed
    qed (simp add: decision_backed_def)
    ultimately show ?thesis
      using requests offers [OF pair_step_handoffs [OF changed(4)]] by (auto simp: changed(1))
  qed
  ultimately show ?thesis
    by (auto simp: provenance_ok_def)
qed

section \<open>The invariant of the aggregate\<close>

definition aggregate_ok :: "supervisor \<Rightarrow> bool" where
  "aggregate_ok s \<longleftrightarrow>
     supervisor_ok s \<and> mail_ok (s_mailbox s) \<and> provenance_ok s \<and>
     audit_ok (s_audit s) (s_history_checkpoint s)"

end
