(* ===== verification/Provenance_Steps.thy ===== *)
theory Provenance_Steps
  imports Provenance
begin

text \<open>
  Every operation keeps the provenance of the aggregate: \<open>apply\<close> and \<open>acknowledge\<close> because of
  what they add, the others because they are quiet.
\<close>

section \<open>Accepting and acknowledging\<close>

lemma provenance_cong:
  assumes "provenance_ok s" and "s_requests s' = s_requests s" and "s_handoffs s' = s_handoffs s"
    and "s_mailbox s' = s_mailbox s"
  shows "provenance_ok s'"
  using assms by (simp add: provenance_ok_def)

lemma fmdom_fmmap [simp]: "fmdom (fmmap f m) = fmdom m"
  by (rule fset_eqI) (simp add: fmlookup_dom_iff)

text \<open>A sweep of the mailbox over unchanged work.\<close>

lemma quiet_mailbox:
  assumes "\<And>k d. delivery_ok k d \<Longrightarrow> delivery_ok k (f d)" and "\<And>d. delivery_le d (f d)"
  shows "quiet s (s\<lparr>s_mailbox := fmmap f (s_mailbox s)\<rparr>)"
  using assms by (simp add: quiet_def fm_le_refl fm_le_fmmap mail_ok_fmmap)

lemma quiet_sweep: "quiet s (retire_fully_acknowledged s)"
  unfolding retire_fully_acknowledged_def
  by (rule quiet_mailbox) (simp_all add: delivery_ok_retire retire_delivery_le)

lemma apply_envelope_provenance:
  assumes ok: "supervisor_ok s" and prov: "provenance_ok s"
    and app: "apply_envelope x s env = (Inr outcome, s')"
  shows "provenance_ok s'" and "audit_grows s s'"
proof -
  have "provenance_ok s' \<and> audit_grows s s'"
    using app
  proof (rule apply_envelope_Inr)
    fix digest sender required reason s1
    assume new: "fmlookup (s_mailbox s) (e_message_id env) = None"
      and msg: "apply_message s env sender digest = (Inr (), s1)"
      and recorded: "record_accepted x s1 env digest required reason
            (request_state_for_observability s env) = (Inr Applied, s')"
    have step: "work_step s env sender digest s1"
      using wf_work_keys [OF ok] msg by (rule apply_message_step)
    note fields = work_step_fields [OF step]
    let ?d = "accepted_record s1 env digest required reason"
    let ?s2 = "s1\<lparr>s_mailbox := fmupd (e_message_id env) ?d (s_mailbox s)\<rparr>"
    have "provenance_ok ?s2"
      by (rule work_step_provenance [OF wf_work_keys [OF ok] step prov new])
        (use apply_message_new_decision [OF msg] in \<open>simp_all add: accepted_record_def\<close>)
    then have swept: "provenance_ok (retire_fully_acknowledged ?s2)"
      by (rule quiet_provenance [OF quiet_sweep])
    from recorded show ?thesis
    proof (rule record_accepted_Inr)
      fix sequence
      assume s': "s' = s1\<lparr>s_mailbox := fmmap (retire_delivery (s_requests s1))
                 (fmupd (e_message_id env) ?d (s_mailbox s1)),
              s_audit := s_audit s1 @ [AuditEvent sequence (e_sent_at env) (e_team_id env)
                (e_team_epoch env)
                (MessageAccepted (e_message_id env) (message_kind_of (e_message env)) (Some digest))],
              s_history_checkpoint := s_history_checkpoint s',
              s_pending_bulk_content := s_pending_bulk_content s1 @
                [PendingBulkContent (e_message_id env) digest (e_message env)],
              s_nonterminal_request_counts := s_nonterminal_request_counts s',
              s_pending_observability := s_pending_observability s'\<rparr>"
        and count: "checked_inc (h_audit_event_count (s_history_checkpoint s1)) = Some sequence"
          "h_audit_event_count (s_history_checkpoint s') = sequence"
      have "provenance_ok s'"
        by (rule provenance_cong [OF swept]; subst s'; simp add: fields)
      moreover have "audit_grows s s'"
        by (rule audit_grows_snoc [OF _ count(2)], use count(1) in \<open>simp add: fields\<close>,
          subst s', simp add: fields, simp)
      ultimately show ?thesis by simp
    qed
  qed (use prov in simp)
  then show "provenance_ok s'" and "audit_grows s s'"
    by auto
qed

lemma acknowledge_provenance:
  assumes prov: "provenance_ok s" and app: "acknowledge x s ack = (Inr outcome, s')" and grown: "grows s s'"
  shows "provenance_ok s'" and "audit_grows s s'"
proof -
  have "provenance_ok s' \<and> audit_grows s s'"
    using app
  proof (rule acknowledge_Inr)
    fix d recipient sequence
    let ?m = "fmmap (retire_delivery (s_requests s))
             (fmmodify (ak_message_id ack)
                (\<lambda>d. d\<lparr>d_acknowledgements := fmupd recipient ack (d_acknowledgements d)\<rparr>) (s_mailbox s))"
    let ?e = "AuditEvent sequence (ak_acknowledged_at ack)
             (e_team_id (d_envelope d)) (e_team_epoch (d_envelope d))
             (MessageAcknowledged (ak_message_id ack) (ref_actor_id (ak_actor ack)))"
    assume s': "s' = s\<lparr>s_mailbox := ?m, s_audit := s_audit s @ [?e],
           s_history_checkpoint := s_history_checkpoint s',
           s_pending_observability := s_pending_observability s'\<rparr>"
      and count: "checked_inc (h_audit_event_count (s_history_checkpoint s)) = Some sequence"
          "h_audit_event_count (s_history_checkpoint s') = sequence"
    have f: "s_mailbox s' = ?m" "s_audit s' = s_audit s @ [?e]" "s_requests s' = s_requests s"
      "s_handoffs s' = s_handoffs s"
      by (subst s'; simp)+
    let ?s1 = "s\<lparr>s_mailbox := ?m\<rparr>"
    have le: "fm_le delivery_le (s_mailbox s) ?m"
      using grown by (simp add: grows_def f)
    have dom: "fmdom ?m = fmdom (s_mailbox s)"
      by simp
    have "provenance_ok ?s1"
      using prov backed_mono [OF le] decisions_unique_mono [OF le dom] by (auto simp: provenance_ok_def)
    then have "provenance_ok s'"
      by (rule provenance_cong) (simp_all add: f)
    with audit_grows_snoc [OF count f(2)] show ?thesis
      by simp
  qed (use prov in simp)
  then show "provenance_ok s'" and "audit_grows s s'"
    by auto
qed

section \<open>Quiet operations\<close>

named_theorems quiet_intros \<open>introduction rules for quiet steps\<close>

lemma quiet_pair [quiet_intros]: "quiet s (snd (r, s))"
  by simp

lemma quiet_attempt [quiet_intros]:
  "(\<And>v. m = Inr v \<Longrightarrow> quiet s (snd (k v))) \<Longrightarrow> quiet s (snd (attempt s m k))"
  by (cases m) simp_all

lemma quiet_sbind [quiet_intros]:
  "quiet s (snd p) \<Longrightarrow> (\<And>v s1. p = (Inr v, s1) \<Longrightarrow> quiet s (snd (k v s1))) \<Longrightarrow>
   quiet s (snd (sbind p k))"
  by (cases p; cases "fst p") auto

lemma quiet_if [quiet_intros]:
  "(b \<Longrightarrow> quiet s (snd p)) \<Longrightarrow> (\<not> b \<Longrightarrow> quiet s (snd q)) \<Longrightarrow> quiet s (snd (if b then p else q))"
  by simp

lemma quiet_option [quiet_intros]:
  "(v = None \<Longrightarrow> quiet s (snd f)) \<Longrightarrow> (\<And>y. v = Some y \<Longrightarrow> quiet s (snd (g y))) \<Longrightarrow>
   quiet s (snd (case v of None \<Rightarrow> f | Some y \<Rightarrow> g y))"
  by (cases v) simp_all

lemma quiet_same:
  assumes "quiet s s1" and "s_audit s' = s_audit s1" "s_history_checkpoint s' = s_history_checkpoint s1"
    and "s_mailbox s' = s_mailbox s1" "s_requests s' = s_requests s1" "s_handoffs s' = s_handoffs s1"
  shows "quiet s s'"
  using assms by (simp add: quiet_def)

lemmas quiet_unrelated = quiet_same [OF quiet_refl]

lemma activate_primary_inner_quiet: "quiet s (snd (activate_primary_inner s i role profile))"
  unfolding activate_primary_inner_def Let_def
  by (intro quiet_intros) (auto intro: quiet_unrelated)

lemma quiet_supersede_history: "quiet s (supersede_terminal_team_delivery_history s team epoch)"
  unfolding supersede_terminal_team_delivery_history_def
  by (rule quiet_trans [OF quiet_mailbox quiet_sweep])
    (simp_all add: delivery_ok_supersede supersede_recipients_le)

lemma create_team_inner_quiet: "quiet s (snd (create_team_inner s team profile))"
  unfolding create_team_inner_def Let_def
  by (intro quiet_intros) (auto intro: quiet_unrelated quiet_same [OF quiet_supersede_history])

lemma set_team_status_quiet: "quiet s (snd (set_team_status s team status))"
  unfolding set_team_status_def Let_def
  by (intro quiet_intros) (auto intro: quiet_unrelated)

lemma set_actor_status_quiet: "quiet s (snd (set_actor_status s ref status))"
  unfolding set_actor_status_def Let_def
  by (intro quiet_intros) (auto intro: quiet_unrelated split: option.splits)

lemma heartbeat_quiet: "quiet s (snd (heartbeat s ref at))"
  unfolding heartbeat_def
proof (intro quiet_intros set_actor_status_quiet)
  fix u s1
  assume "set_actor_status s ref ActorHealthy = (Inr u, s1)"
  then have "quiet s s1"
    using set_actor_status_quiet [of s ref ActorHealthy] by simp
  then show "quiet s (snd (attempt s1
      (ok_or (fmlookup (s_actors s1) (ref_actor_id ref)) (Err (UnknownActor (ref_actor_id ref))))
      (\<lambda>a. (Inr () :: failure + unit, s1\<lparr>s_actors := fmmodify (ref_actor_id ref)
           (\<lambda>a. a\<lparr>a_last_heartbeat_at :=
                  Some (case a_last_heartbeat_at a of
                          None \<Rightarrow> at | Some current \<Rightarrow> max current at)\<rparr>) (s_actors s1)\<rparr>))))"
    by (auto simp: attempt_def intro: quiet_same split: sum.splits)
qed

lemma register_implementation_inner_quiet:
  "quiet s (snd (register_implementation_inner s team i role profile))"
  unfolding register_implementation_inner_def register_fresh_def Let_def
  by (intro quiet_intros) (auto intro: quiet_unrelated)

section \<open>Replacement and the close sweep\<close>

lemma quiet_request_modify:
  assumes "\<And>q. same_facts q (f q)"
    and "\<And>k p. fmlookup handoffs k = Some p \<Longrightarrow> fmlookup (s_handoffs s) k = Some p"
  shows "quiet s (s\<lparr>s_requests := fmmodify i f (s_requests s), s_runs := runs, s_handoffs := handoffs\<rparr>)"
  using assms by (simp add: quiet_def fm_le_refl fm_le_fmmodify is_none_or_iff)

lemma roll_quiet:
  "roll_request_generations s e qs = (r, s') \<Longrightarrow> quiet s s'"
proof (induction qs arbitrary: s)
  case (Cons q qs)
  let ?s1 = "s\<lparr>s_requests := fmmodify (q_request_id q) (\<lambda>q. q\<lparr>q_team_epoch := e\<rparr>) (s_requests s)\<rparr>"
  have one: "quiet s (?s1\<lparr>s_runs := runs\<rparr>)" for runs
    using quiet_request_modify [where f = "\<lambda>q. q\<lparr>q_team_epoch := e\<rparr>" and s = s and handoffs = "s_handoffs s" and runs = runs and i = "q_request_id q"]
    by (simp add: same_facts_def)
  show ?case
  proof (cases "fmlookup (s_runs s) (q_run_id q)")
    case None
    with Cons.prems one [of "s_runs s"] show ?thesis by auto
  next
    case (Some r')
    with Cons.prems have "roll_request_generations
        (?s1\<lparr>s_runs := fmmodify (q_run_id q) (\<lambda>r. r\<lparr>r_team_epoch := e\<rparr>) (s_runs ?s1)\<rparr>) e qs = (r, s')"
      by simp
    from quiet_trans [OF one Cons.IH [OF this]] show ?thesis .
  qed
qed simp

lemma reassign_quiet:
  "reassign_requests s ref plan = (r, s') \<Longrightarrow> quiet s s'"
proof (induction plan arbitrary: s)
  case (Cons p plan)
  obtain i j e where p: "p = (i, j, e)"
    by (cases p)
  let ?f = "\<lambda>q. q\<lparr>q_assignment := Some (Assignment ref e)\<rparr>"
  let ?s1 = "s\<lparr>s_requests := fmmodify i ?f (s_requests s)\<rparr>"
  let ?s2 = "?s1\<lparr>s_runs := fmmodify j (\<lambda>r. r\<lparr>r_assignment := Some (Assignment ref e)\<rparr>) (s_runs ?s1),
           s_handoffs := fmretain (\<lambda>p. hr_request_id (ph_offer p) \<noteq> i) (s_handoffs ?s1)\<rparr>"
  have "fmlookup (s_handoffs s) k = Some p"
    if "fmlookup (fmretain (\<lambda>p. hr_request_id (ph_offer p) \<noteq> i) (s_handoffs s)) k = Some p" for k p
    using that by (simp split: option.splits if_splits)
  then have "quiet s ?s2"
    using quiet_request_modify [where f = ?f and handoffs = "fmretain (\<lambda>p. hr_request_id (ph_offer p) \<noteq> i) (s_handoffs s)" and s = s and i = i]
    by (simp add: same_facts_def)
  moreover have "quiet s ?s1"
    using quiet_request_modify [where f = ?f and handoffs = "s_handoffs s" and s = s and i = i and runs = "s_runs s"] by (simp add: same_facts_def)
  moreover from Cons.prems have "s' = s \<or> s' = ?s1 \<or> reassign_requests ?s2 ref plan = (r, s')"
    by (auto simp: p Let_def attempt_def split: sum.splits)
  ultimately show ?case
    by (elim disjE) (simp_all only: quiet_refl, rule quiet_trans, assumption, rule Cons.IH)
qed simp

lemma replace_implementation_inner_quiet:
  assumes "replace_implementation_inner s team i role profile = (Inr ref, s')"
  shows "quiet s s'"
  using assms
proof (rule replace_implementation_inner_Inr)
  fix t te ae st plan s3 s4
  let ?a = "healthy_actor (s_workspace_id s) i (Some team) role profile ae"
  let ?s2 = "install_replacement s i st i ?a team te"
  let ?s5 = "s4\<lparr>s_mailbox := fmmap (supersede_live_recipients (team_member_ids s4 team) team (t_epoch t))
      (s_mailbox s4)\<rparr>"
  assume roll: "roll_request_generations ?s2 te
        (filter (\<lambda>q. q_team_id q = team \<and> \<not> is_terminal (q_status q)) (fmvals (s_requests s)))
        = (Inr (), s3)"
    and re: "reassign_requests s3 ref plan = (Inr (), s4)"
    and s': "s' = s4\<lparr>s_mailbox := fmmap (retire_delivery (s_requests s4))
           (fmmap (supersede_live_recipients (team_member_ids s4 team) team (t_epoch t))
             (s_mailbox s4)), s_pending_observability := s_pending_observability s'\<rparr>"
  have "quiet s ?s2"
    by (rule quiet_unrelated) simp_all
  moreover note roll_quiet [OF roll] reassign_quiet [OF re]
  moreover have "quiet s4 ?s5"
    by (rule quiet_mailbox) (simp_all add: delivery_ok_supersede_live supersede_live_recipients_le)
  moreover have "quiet ?s5 s'"
    by (rule quiet_same [OF quiet_sweep]; subst s'; simp)
  ultimately show ?thesis
    using quiet_trans by blast
qed

lemma retire_obsolete_quiet:
  assumes "retire_obsolete_team_recipients s team = (Inr affected, s')"
  shows "quiet s s'"
  using assms
proof (rule retire_obsolete_Inr)
  fix t
  let ?s1 = "s\<lparr>s_mailbox := fmmap (waive_obsolete_recipients (s_requests s) (set (t_actors t)) team (t_epoch t))
      (s_mailbox s)\<rparr>"
  assume s': "s' = s\<lparr>s_mailbox := fmmap (retire_delivery (s_requests s))
               (fmmap (waive_obsolete_recipients (s_requests s) (set (t_actors t)) team (t_epoch t))
                 (s_mailbox s)), s_pending_observability := s_pending_observability s'\<rparr>"
  have "quiet s ?s1"
    by (rule quiet_mailbox) (simp_all add: delivery_ok_waive_obsolete waive_obsolete_recipients_le)
  moreover have "quiet ?s1 s'"
    by (rule quiet_same [OF quiet_sweep]; subst s'; simp)
  ultimately show ?thesis
    by (rule quiet_trans)
qed

end
