(* ===== verification/Restore_Soundness.thy ===== *)
theory Restore_Soundness
  imports Provenance From_Snapshot
begin

text \<open>
  What the validators of \<open>from_snapshot\<close> establish. Each lemma reads the acceptance of one validator
  as the part of the invariant of the aggregate that it guards: members, lease, work, mailbox and
  pending handoffs.
\<close>

section \<open>Restored maps\<close>

lemma ebind_InrE:
  "ebind m k = Inr y \<Longrightarrow> (\<And>x. m = Inr x \<Longrightarrow> k x = Inr y \<Longrightarrow> P) \<Longrightarrow> P"
  by (auto simp: ebind_Inr_iff)

lemma restore_from_Inr:
  assumes "restore_from check key path reason i m vs = Inr m'" and "fmlookup m' k = Some v"
  shows "fmlookup m k = Some v \<or> v \<in> set vs \<and> key v = k \<and> (\<exists>j. check j v = Inr ())"
  using assms
proof (induction vs arbitrary: i m)
  case (Cons w vs)
  then have "check i w = Inr ()" and rest: "restore_from check key path reason (Suc i) (fmupd (key w) w m) vs = Inr m'"
    by (auto simp: result_simps split: if_splits)
  with Cons.IH [OF rest Cons.prems(2)] show ?case
    by (auto split: if_splits)
qed simp

lemma restored_value:
  assumes "restore_from check key path reason 0 fmempty vs = Inr m" and "fmlookup m k = Some v"
  obtains j where "v \<in> set vs" and "key v = k" and "check j v = Inr ()"
  using restore_from_Inr [OF assms] by auto

section \<open>Members\<close>

lemma checked_all:
  assumes "check_all_from n f vs = Inr ()" and "v \<in> set vs"
  shows "\<exists>i. f i v = Inr ()"
  using assms by (induction vs arbitrary: n) (auto simp: result_simps)

lemma restored_actor:
  assumes "restore_actors w actors = Inr m" and "fmlookup m i = Some a"
  shows "a_actor_id a = i" and "a_workspace_id a = w" and "actor_validate a = Inr ()"
proof -
  from assms obtain j where "a_actor_id a = i" "check_actor w j a = Inr ()"
    unfolding restore_actors_def by (rule restored_value)
  then show "a_actor_id a = i" "a_workspace_id a = w" "actor_validate a = Inr ()"
    by (auto simp: check_actor_def result_simps)
qed

lemma linked_actor:
  assumes "validate_actor_team_links actors teams = Inr ()" and "fmlookup actors i = Some a"
    and "a_team_id a = Some k"
  obtains t where "fmlookup teams k = Some t" and "a_actor_id a \<in> set (t_actors t)"
proof -
  have "a \<in> set (fmvals actors)"
    using assms(2) by (auto simp: in_fmvals_iff)
  with assms(1) have "check_actor_team_link teams a = Inr ()"
    unfolding validate_actor_team_links_def by (auto dest: checked_all)
  with assms(3) that show thesis
    by (auto simp: check_actor_team_link_def result_simps split: option.splits)
qed

lemma restored_actors_ok:
  assumes "restore_actors w actors = Inr m" and "validate_actor_team_links m teams = Inr ()"
  shows "actors_ok w m teams"
  unfolding actors_ok_def is_none_or_iff
proof (intro allI impI conjI)
  fix i a assume a: "fmlookup m i = Some a"
  show "a_actor_id a = i" "a_workspace_id a = w" "actor_validate a = Inr ()"
    by (rule restored_actor [OF assms(1) a])+
  show "fmhas teams k" if "a_team_id a = Some k" for k
    using assms(2) a that by (rule linked_actor) (simp add: fmhas_def)
qed

lemma checked_team_actors:
  assumes "check_team_actors actors path t seen is = Inr ()"
  shows "distinct is" and "set seen \<inter> set is = {}" and "\<forall>i \<in> set is. member_ok actors t i"
proof -
  have "distinct is \<and> set seen \<inter> set is = {} \<and> (\<forall>i \<in> set is. member_ok actors t i)"
    using assms
  proof (induction "is" arbitrary: seen)
    case (Cons i "is")
    then have "i \<notin> set seen" "member_ok actors t i" "check_team_actors actors path t (i # seen) is = Inr ()"
      by (auto simp: result_simps member_ok_def split: option.splits)
    with Cons.IH [of "i # seen"] show ?case by auto
  qed simp
  then show "distinct is" and "set seen \<inter> set is = {}" and "\<forall>i \<in> set is. member_ok actors t i"
    by auto
qed

lemma restored_teams_ok:
  assumes "restore_teams w teams actors = Inr m"
  shows "teams_ok w actors m"
  unfolding teams_ok_def
proof (intro allI impI)
  fix k t assume "fmlookup m k = Some t"
  with assms obtain j where "t_team_id t = k" "check_team w actors j t = Inr ()"
    unfolding restore_teams_def by (rule restored_value)
  then show "t_team_id t = k \<and> t_workspace_id t = w \<and> team_validate t = Inr () \<and>
      distinct (t_actors t) \<and> (\<forall>i \<in> set (t_actors t). member_ok actors t i)"
    using checked_team_actors by (auto simp: check_team_def result_simps)
qed

lemma validated_lease_ok:
  assumes "validate_active_primary active actors = Inr ()"
    and keyed: "\<And>i a. fmlookup actors i = Some a \<Longrightarrow> a_actor_id a = i"
  shows "lease_ok (map_option ref_actor_id active) actors"
proof -
  have sole: "list_all (\<lambda>a. is_some_and active (\<lambda>ref. ref_actor_id ref = a_actor_id a))
      (filter (\<lambda>a. is_primary_topology a \<and> a_status a = ActorHealthy) (fmvals actors))"
    using assms(1) by (auto simp: validate_active_primary_def result_simps)
  have "map_option ref_actor_id active = Some i"
    if "fmlookup actors i = Some a" "is_primary_topology a" "a_status a = ActorHealthy" for i a
    using sole that keyed [OF that(1)] by (auto simp: list_all_iff in_fmvals_iff is_some_and_iff)
  moreover have "is_some_and (fmlookup actors (ref_actor_id ref))
      (\<lambda>a. is_primary_topology a \<and> a_status a = ActorHealthy)" if "active = Some ref" for ref
    using assms(1) that
    by (auto simp: validate_active_primary_def is_primary_topology_def result_simps split: option.splits)
  ultimately show ?thesis
    by (auto simp: lease_ok_def is_none_or_iff)
qed

text \<open>The lease that the restored aggregate reports is the persisted one.\<close>

lemma validated_lease:
  assumes "validate_active_primary (Some ref) actors = Inr ()"
  obtains a where "fmlookup actors (ref_actor_id ref) = Some a" and "actor_ref_of a = ref"
  using assms by (auto simp: validate_active_primary_def result_simps split: option.splits)

section \<open>Work\<close>

lemma restore_requests_from_Inr:
  assumes "restore_requests_from check i decisions m qs = Inr m'" and "fmlookup m' k = Some q"
  shows "fmlookup m k = Some q \<or> q \<in> set qs \<and> q_request_id q = k \<and> (\<exists>j. check j q = Inr ())"
  using assms
proof (induction qs arbitrary: i decisions m)
  case (Cons w qs)
  then obtain decisions' where "check i w = Inr ()"
    and rest: "restore_requests_from check (Suc i) decisions' (fmupd (q_request_id w) w m) qs = Inr m'"
    by (auto simp: result_simps Let_def split: if_splits)
  with Cons.IH [OF rest Cons.prems(2)] show ?case
    by (auto split: if_splits)
qed simp

lemma restored_request:
  assumes "restore_requests w policy qs actors teams = Inr m" and "fmlookup m k = Some q"
  obtains j where "q \<in> set qs" and "q_request_id q = k"
    and "validate_request w policy actors teams j q = Inr ()"
  using restore_requests_from_Inr [OF assms(1) [unfolded restore_requests_def] assms(2)] by auto

lemma validated_assignee:
  assumes "validate_request_assignment path q actors t = Inr ()" and "q_status q \<noteq> Open"
  shows "assignee_ok actors q"
proof -
  from assms obtain as a where as: "q_assignment q = Some as"
    and a: "fmlookup actors (ref_actor_id (as_actor as)) = Some a"
    by (auto simp: validate_request_assignment_def split: option.splits request_status.splits)
  with assms have "(actor_ref_of a = as_actor as \<or> ref_actor_epoch (as_actor as) \<le> a_epoch a) \<and>
      has_capability a IMPLEMENTATION_EXECUTION \<and> a_team_id a = Some (q_team_id q)"
    by (cases "q_status q") (auto simp: validate_request_assignment_def result_simps)
  moreover have "ref_actor_epoch (as_actor as) \<le> a_epoch a" if "actor_ref_of a = as_actor as"
    unfolding that [symmetric] by (simp add: actor_ref_of_def)
  ultimately show ?thesis
    using as a by (auto simp: assignee_ok_def)
qed

lemma validated_review:
  assumes "validate_request_candidate path q actors teams = Inr ()"
    and "validate_request_review_state path policy q actors = Inr ()"
  shows "review_ok policy q"
proof -
  have "validate_status_review_shape path q = Inr ()"
    using assms(2) by (auto simp: validate_request_review_state_def result_simps)
  then have "validate_status_review_shape [] q = Inr ()"
    by (simp add: shape_simp)
  with assms show ?thesis
    by (auto simp: review_ok_def validate_request_candidate_def validate_request_review_state_def
        validate_candidate_provenance_def is_none_or_iff result_simps split: option.splits)
qed

lemma linked_request:
  assumes "validate_request_run_links requests runs = Inr ()" and "fmlookup requests k = Some q"
  obtains r where "fmlookup runs (q_run_id q) = Some r" and "run_matches_request r q"
proof -
  have "q \<in> set (fmvals requests)"
    using assms(2) by (auto simp: in_fmvals_iff)
  with assms(1) have "check_request_run runs q = Inr ()"
    unfolding validate_request_run_links_def by (auto simp: result_simps dest: checked_all)
  with that show thesis
    by (auto simp: check_request_run_def result_simps split: option.splits)
qed

lemma linked_run:
  assumes "validate_request_run_links requests runs = Inr ()" and "fmlookup runs j = Some r"
  obtains q where "fmlookup requests (r_request_id r) = Some q" and "q_run_id q = r_run_id r"
proof -
  have "r \<in> set (fmvals runs)"
    using assms(2) by (auto simp: in_fmvals_iff)
  with assms(1) have "check_run_request requests r = Inr ()"
    unfolding validate_request_run_links_def by (auto simp: result_simps dest: checked_all)
  with that show thesis
    by (auto simp: check_run_request_def is_some_and_iff result_simps)
qed

lemma restored_run:
  assumes "restore_runs w runs requests teams = Inr m" and "fmlookup m j = Some r"
  shows "r_run_id r = j" and "r_workspace_id r = w"
proof -
  from assms obtain i where "r_run_id r = j" "check_run w requests teams i r = Inr ()"
    unfolding restore_runs_def by (rule restored_value)
  then show "r_run_id r = j" "r_workspace_id r = w"
    by (auto simp: check_run_def result_simps)
qed

text \<open>The validators of the entities admit an open request without an assignment; no message creates
  one, and the causal replay excludes it.\<close>

lemma restored_work_ok:
  assumes requests: "restore_requests w policy qs actors teams = Inr requests"
    and runs: "restore_runs w rs requests teams = Inr runs"
    and links: "validate_request_run_links requests runs = Inr ()"
    and assigned: "\<And>k q. fmlookup requests k = Some q \<Longrightarrow> q_status q \<noteq> Open"
  shows "work_ok w policy actors teams requests runs"
  unfolding work_ok_def
proof (intro conjI allI impI)
  fix k q assume q: "fmlookup requests k = Some q"
  from requests q obtain j where key: "q_request_id q = k"
    and valid: "validate_request w policy actors teams j q = Inr ()"
    by (rule restored_request)
  from links q obtain r where r: "fmlookup runs (q_run_id q) = Some r" "run_matches_request r q"
    by (rule linked_request)
  from valid obtain t path where "q_workspace_id q = w" and t: "fmlookup teams (q_team_id q) = Some t"
      "q_team_epoch q \<le> t_epoch t" and "validate_request_assignment path q actors t = Inr ()"
      "validate_request_candidate path q actors teams = Inr ()"
      "validate_request_review_state path policy q actors = Inr ()"
    by (auto simp: validate_request_def Let_def result_simps split: option.splits)
  with key r assigned [OF q] show "request_ok w policy actors teams runs k q"
    by (simp add: request_ok_def validated_assignee validated_review)
next
  fix j r assume r: "fmlookup runs j = Some r"
  with links obtain q where "fmlookup requests (r_request_id r) = Some q" "q_run_id q = r_run_id r"
    by (rule linked_run)
  with restored_run [OF runs r] show "run_ok w requests j r"
    by (simp add: run_ok_def)
qed

end
