(* ===== verification/Restore_Mail.thy ===== *)
theory Restore_Mail
  imports Restore_Soundness
begin

text \<open>
  What the validators of deliveries, dispositions and pending handoffs establish: the invariant
  \<open>mail_ok\<close> of the restored mailbox, and at most one open handoff per request.
\<close>

section \<open>Recipients\<close>

lemma distinct_map_filter_inj:
  assumes "distinct (List.map_filter f xs)" and "x \<in> set xs" and "y \<in> set xs"
    and "f x = Some z" and "f y = Some z"
  shows "x = y"
proof -
  have member: "w \<in> set ws \<Longrightarrow> f w = Some v \<Longrightarrow> v \<in> set (List.map_filter f ws)" for w v ws
    by (induction ws) (auto simp: List.map_filter_simps split: option.splits)
  show ?thesis
    using assms
  proof (induction xs)
    case (Cons w ws)
    then show ?case
      using member [of x ws z] member [of y ws z]
      by (auto simp: List.map_filter_simps split: option.splits)
  qed simp
qed

lemma frozen_one_slot_each:
  assumes "distinct (frozen_refs required)"
  shows "one_slot_each required"
  unfolding one_slot_each_def
proof (intro allI impI)
  fix ref e e' assume "RecipientActor ref e |\<in>| required" "RecipientActor ref e' |\<in>| required"
  then have "RecipientActor ref e = RecipientActor ref e'"
    by (intro distinct_map_filter_inj [OF assms [unfolded frozen_refs_def]]) (simp_all)
  then show "e = e'" by simp
qed

section \<open>Acknowledgements and dispositions\<close>

lemma historical_ack_matches:
  assumes "recipient_for_historical_ack header required ack actors = Some r"
    and "validate_historical_ack i w header required r ack actors = Inr ()"
  shows "r |\<in>| required" and "ack_matches (e_message_id header) r ack"
proof -
  show "r |\<in>| required"
    using assms(2) by (auto simp: validate_historical_ack_def result_simps split: option.splits)
  have "case r of RecipientPrimary \<Rightarrow> True | RecipientActor ref _ \<Rightarrow> ak_actor ack = ref"
    using assms(1) bs_find_SomeD
    by (fastforce simp: recipient_for_historical_ack_def split: if_splits delivery_recipient.splits)
  then show "ack_matches (e_message_id header) r ack"
    using assms(2) by (simp add: ack_matches_def validate_historical_ack_def result_simps)
qed

lemma restored_acknowledgements:
  assumes "restore_acknowledgements i w header required actors m acks = Inr m'"
    and "fmlookup m' r = Some ack"
  shows "fmlookup m r = Some ack \<or> r |\<in>| required \<and> ack_matches (e_message_id header) r ack"
  using assms
proof (induction acks arbitrary: m)
  case (Cons a acks)
  then obtain slot where slot: "recipient_for_historical_ack header required a actors = Some slot"
      "validate_historical_ack i w header required slot a actors = Inr ()"
    and rest: "restore_acknowledgements i w header required actors (fmupd slot a m) acks = Inr m'"
    by (auto simp: result_simps split: option.splits if_splits)
  from Cons.IH [OF rest Cons.prems(2)] historical_ack_matches [OF slot] show ?case
    by (auto split: if_splits)
qed simp

lemma checked_undeliverable:
  assumes "validate_historical_undeliverable_recipients i kind header required acks u ctx = Inr v"
    and "fmhas u r"
  shows "r |\<in>| required" and "\<not> fmhas acks r"
proof -
  from assms(2) obtain reason where look: "fmlookup u r = Some reason"
    by (auto simp: fmhas_iff)
  then have "(r, reason) = (r, the (fmlookup u r))" and "r \<in> fset (fmdom u)"
    by (simp_all add: fmdomI)
  then have "(r, reason) \<in> set (sorted_list_of_fmap u)"
    unfolding sorted_list_of_fmap_def by (auto intro: image_eqI)
  moreover have "check_all_from 0
      (\<lambda>_. check_undeliverable_recipient (delivery_path i ''.undeliverable_recipients'')
         (message_requires_team_action (hc_requests ctx) kind (e_request_id header)) required acks ctx)
      (sorted_list_of_fmap u) = Inr ()"
    using assms(1) by (auto simp: validate_historical_undeliverable_recipients_def Let_def result_simps)
  ultimately have "\<exists>path action. check_undeliverable_recipient path action required acks ctx (r, reason) = Inr ()"
    by (auto dest: checked_all)
  then show "r |\<in>| required" "\<not> fmhas acks r"
    by (auto simp: check_undeliverable_recipient_def result_simps)
qed

section \<open>Deliveries\<close>

lemma restore_delivery_parts:
  assumes "restore_delivery ctx i d = Inr r"
  obtains acks u v1 v2 v3 v4 where
      "restore_acknowledgements i (hc_workspace_id ctx) (ds_envelope d)
          (ds_required_recipients d) (hc_actors ctx) fmempty (ds_acknowledgements d) = Inr acks"
    and "restore_undeliverable i fmempty (ds_undeliverable_recipients d) = Inr u"
    and "validate_historical_undeliverable_recipients i (ds_message_kind d) (ds_envelope d)
          (ds_required_recipients d) acks u ctx = Inr v1"
    and "ds_message_kind d = causal_kind (ds_causal d)"
    and "validate_causal_content_ref i d = Inr v2"
    and "validate_historical_required_recipients i (ds_message_kind d)
          (e_target (ds_envelope d)) (ds_required_recipients d) (ds_acknowledgements d)
          (ds_undeliverable_recipients d) ctx = Inr v3"
    and "validate_historical_retirement_reason i (ds_message_kind d)
          (e_target (ds_envelope d)) (ds_required_recipients d) acks u (ds_retirement_reason d)
          (hc_teams ctx) = Inr v4"
    and "delivery_retired_exactly (hc_requests ctx) d acks u"
    and "Inr \<lparr>d_envelope = ds_envelope d, d_message_kind = ds_message_kind d,
          d_payload_digest = ds_payload_digest d, d_causal = ds_causal d,
          d_required_recipients = ds_required_recipients d, d_acknowledgements = acks,
          d_undeliverable_recipients = u, d_retirement_reason = ds_retirement_reason d,
          d_retired = ds_retired d\<rparr> = (Inr r :: failure + delivery_record)"
  using assms(1) unfolding restore_delivery_def
  by (elim ebind_InrE, intro that) (assumption | simp only: require_Inr_iff)+

lemma restored_delivery_ok:
  assumes "restore_delivery ctx i d = Inr r"
  shows "delivery_ok (e_message_id (ds_envelope d)) r" and "d_envelope r = ds_envelope d"
proof -
  let ?k = "e_message_id (ds_envelope d)"
  from assms obtain acks u v1 v2 v3 v4 where
      acks: "restore_acknowledgements i (hc_workspace_id ctx) (ds_envelope d)
          (ds_required_recipients d) (hc_actors ctx) fmempty (ds_acknowledgements d) = Inr acks"
    and "restore_undeliverable i fmempty (ds_undeliverable_recipients d) = Inr u"
    and u: "validate_historical_undeliverable_recipients i (ds_message_kind d) (ds_envelope d)
          (ds_required_recipients d) acks u ctx = Inr v1"
    and kind: "ds_message_kind d = causal_kind (ds_causal d)"
    and content: "validate_causal_content_ref i d = Inr v2"
    and required: "validate_historical_required_recipients i (ds_message_kind d)
          (e_target (ds_envelope d)) (ds_required_recipients d) (ds_acknowledgements d)
          (ds_undeliverable_recipients d) ctx = Inr v3"
    and reason: "validate_historical_retirement_reason i (ds_message_kind d)
          (e_target (ds_envelope d)) (ds_required_recipients d) acks u (ds_retirement_reason d)
          (hc_teams ctx) = Inr v4"
    and retired: "delivery_retired_exactly (hc_requests ctx) d acks u"
    and r: "Inr \<lparr>d_envelope = ds_envelope d, d_message_kind = ds_message_kind d,
          d_payload_digest = ds_payload_digest d, d_causal = ds_causal d,
          d_required_recipients = ds_required_recipients d, d_acknowledgements = acks,
          d_undeliverable_recipients = u, d_retirement_reason = ds_retirement_reason d,
          d_retired = ds_retired d\<rparr> = (Inr r :: failure + delivery_record)"
    by (rule restore_delivery_parts)
  note r = r [symmetric, simplified]
  show "d_envelope r = ds_envelope d"
    by (simp add: r)
  have slots: "one_slot_each (ds_required_recipients d)"
    using required by (auto simp: validate_historical_required_recipients_def Let_def result_simps
        intro: frozen_one_slot_each)
  have acked: "rr |\<in>| ds_required_recipients d \<and> ack_matches ?k rr ack \<and> \<not> fmhas u rr"
    if "fmlookup acks rr = Some ack" for rr ack
    using restored_acknowledgements [OF acks that] checked_undeliverable(2) [OF u, of rr] that
    by (cases "fmlookup u rr") (auto simp: fmhas_def)
  have empty: "ds_required_recipients d = {||} \<longleftrightarrow> ds_retirement_reason d \<noteq> None"
    using reason by (auto simp: validate_historical_retirement_reason_def Let_def result_simps
        split: option.splits)
  have resolved: "recipient_resolved r rr" if "ds_retired d" "rr |\<in>| ds_required_recipients d" for rr
    using retired that empty by (auto simp: delivery_retired_exactly_def Let_def r recipient_resolved_def)
  show "delivery_ok ?k r"
    using kind content slots acked checked_undeliverable(1) [OF u] empty resolved
    by (simp add: delivery_ok_def r validate_causal_content_ref_def result_simps)
qed

lemma restored_deliveries_from:
  assumes "restore_deliveries_from ctx i m ds = Inr m'" and "mail_ok m"
  shows "mail_ok m'"
  using assms
proof (induction ds arbitrary: i m)
  case (Cons d ds)
  then obtain r where r: "restore_delivery ctx i d = Inr r"
    and rest: "restore_deliveries_from ctx (Suc i) (fmupd (e_message_id (ds_envelope d)) r m) ds = Inr m'"
    by (auto simp: result_simps split: if_splits)
  have "mail_ok (fmupd (e_message_id (ds_envelope d)) r m)"
    using Cons.prems(2) restored_delivery_ok(1) [OF r] by (rule mail_ok_fmupd)
  with rest show ?case by (rule Cons.IH)
qed simp

lemma restored_mail_ok:
  "restore_deliveries w ds actors teams requests runs = Inr m \<Longrightarrow> mail_ok m"
  unfolding restore_deliveries_def by (erule restored_deliveries_from) (simp add: mail_ok_def)

section \<open>Pending handoffs\<close>

lemma restored_handoffs_from:
  assumes "restore_handoffs_from actors teams requests i seen m ps = Inr m'"
    and "handoffs_ok requests m"
    and "\<And>k p. fmlookup m k = Some p \<Longrightarrow> hr_request_id (ph_offer p) \<in> set seen"
    and "\<And>k q. fmlookup requests k = Some q \<Longrightarrow> q_request_id q = k"
  shows "handoffs_ok requests m'"
  using assms
proof (induction ps arbitrary: i seen m)
  case (Cons p ps)
  let ?m = "fmupd (hr_handoff_id (ph_offer p)) p m"
  from Cons.prems(1) obtain q where q: "fmlookup requests (hr_request_id (ph_offer p)) = Some q"
    and fresh: "q_request_id q \<notin> set seen" "q_status q \<notin> closed_to_handoff"
      "\<not> fmhas m (hr_handoff_id (ph_offer p))"
    and rest: "restore_handoffs_from actors teams requests (Suc i) (q_request_id q # seen) ?m ps = Inr m'"
    by (auto simp: Let_def result_simps closed_to_handoff_def split: option.splits if_splits)
  have id: "q_request_id q = hr_request_id (ph_offer p)"
    using Cons.prems(4) [OF q] .
  from rest show ?case
  proof (rule Cons.IH)
    have other: "hr_request_id (ph_offer p') \<noteq> hr_request_id (ph_offer p)"
      if "fmlookup m k = Some p'" for k p'
      using Cons.prems(3) [OF that] fresh(1) id by auto
    show "handoffs_ok requests ?m"
      using Cons.prems(2) q fresh(2) other unfolding handoffs_ok_def
      by (auto split: if_splits) (metis other)+
    show "hr_request_id (ph_offer p') \<in> set (q_request_id q # seen)" if "fmlookup ?m k = Some p'" for k p'
      using that Cons.prems(3) id by (auto split: if_splits)
    show "q_request_id q' = k" if "fmlookup requests k = Some q'" for k q'
      using that by (rule Cons.prems(4))
  qed
qed simp

lemma restored_handoffs_ok:
  assumes "restore_handoffs ps actors teams requests = Inr m"
    and "\<And>k q. fmlookup requests k = Some q \<Longrightarrow> q_request_id q = k"
  shows "handoffs_ok requests m"
  using assms(1) unfolding restore_handoffs_def
  by (rule restored_handoffs_from) (simp_all add: handoffs_ok_def assms(2))

end
