(* ===== verification/Replay_Invariants.thy ===== *)
theory Replay_Invariants
  imports Restore_Mail
begin

text \<open>
  What the replay of the causal history establishes. Every replayed request, decision and handoff
  offer is backed by the accepted message that introduced it, no replayed request is open, and a
  review decision id is accepted once; the comparison at the end carries this over to the
  persisted requests and handoffs.
\<close>

section \<open>The invariant of a replay\<close>

definition request_fact :: "(message_id, delivery_record) fmap \<Rightarrow> request \<Rightarrow> bool" where
  "request_fact mailbox q \<longleftrightarrow>
     specification_backed mailbox q \<and> decision_backed mailbox q \<and> q_status q \<noteq> Open"

definition replay_ok ::
  "(message_id, delivery_record) fmap \<Rightarrow> decision_id fset \<Rightarrow> causal_replay \<Rightarrow> bool" where
  "replay_ok mailbox ids rp \<longleftrightarrow>
     (\<forall>k q. fmlookup (rp_requests rp) k = Some q \<longrightarrow> q_request_id q = k \<and> request_fact mailbox q) \<and>
     (\<forall>k p. fmlookup (rp_handoffs rp) k = Some p \<longrightarrow> offer_backed mailbox p) \<and>
     ids |\<subseteq>| rp_decision_ids rp"

text \<open>A fallible step keeps the invariant when it succeeds.\<close>

definition replays :: "(message_id, delivery_record) fmap \<Rightarrow> decision_id fset \<Rightarrow> failure + causal_replay \<Rightarrow> bool" where
  "replays mailbox ids m \<longleftrightarrow> (\<forall>rp. m = Inr rp \<longrightarrow> replay_ok mailbox ids rp)"

named_theorems replays_intros \<open>introduction rules for the steps of a replay\<close>

lemma replays_Inl [replays_intros]: "replays mb ids (Inl e)"
  by (simp add: replays_def)

lemma replays_invalid [replays_intros]: "replays mb ids (invalid_snapshot path reason)"
  by (simp add: replays_def)

lemma replays_Inr [replays_intros]: "replay_ok mb ids rp \<Longrightarrow> replays mb ids (Inr rp)"
  by (simp add: replays_def)

lemma replays_check [replays_intros]:
  "(\<And>x. m = Inr x \<Longrightarrow> replays mb ids (k x)) \<Longrightarrow> replays mb ids (ebind m k)"
  by (auto simp: replays_def result_simps)

lemma replays_bind:
  "replays mb ids m \<Longrightarrow> (\<And>rp. replay_ok mb ids rp \<Longrightarrow> replays mb ids (k rp)) \<Longrightarrow> replays mb ids (ebind m k)"
  by (auto simp: replays_def result_simps)

lemma replays_if [replays_intros]:
  "(b \<Longrightarrow> replays mb ids m) \<Longrightarrow> (\<not> b \<Longrightarrow> replays mb ids n) \<Longrightarrow> replays mb ids (if b then m else n)"
  by simp

lemma replays_option [replays_intros]:
  "(x = None \<Longrightarrow> replays mb ids m) \<Longrightarrow> (\<And>y. x = Some y \<Longrightarrow> replays mb ids (f y)) \<Longrightarrow>
   replays mb ids (case x of None \<Rightarrow> m | Some y \<Rightarrow> f y)"
  by (cases x) simp_all

lemma replay_okD: "replay_ok mb ids rp \<Longrightarrow> fmlookup (rp_requests rp) k = Some q \<Longrightarrow> request_fact mb q"
  and replay_ok_id: "replay_ok mb ids rp \<Longrightarrow> fmlookup (rp_requests rp) k = Some q \<Longrightarrow> q_request_id q = k"
  by (simp_all add: replay_ok_def)

lemma replay_ok_cong:
  assumes "replay_ok mb ids rp" and "rp_requests rp' = rp_requests rp"
    and "rp_handoffs rp' = rp_handoffs rp" and "rp_decision_ids rp |\<subseteq>| rp_decision_ids rp'"
  shows "replay_ok mb ids rp'"
  using assms by (auto simp: replay_ok_def)

section \<open>Writes\<close>

text \<open>A write that keeps what a request is known by, and gives it no other decision than one that
  is backed.\<close>

definition keeps_fact :: "(message_id, delivery_record) fmap \<Rightarrow> request_id \<Rightarrow> (request \<Rightarrow> request) \<Rightarrow> bool" where
  "keeps_fact mailbox k f \<longleftrightarrow>
     (\<forall>q. q_request_id q = k \<longrightarrow> request_fact mailbox q \<longrightarrow>
        q_request_id (f q) = k \<and> request_fact mailbox (f q))"

lemma replay_put_request_ok [replays_intros]:
  assumes "replay_ok mb ids rp" and "keeps_fact mb k f"
  shows "replays mb ids (replay_put_request k f rp)"
  using assms by (auto simp: replays_def replay_put_request_def replay_ok_def keeps_fact_def result_simps)

lemma replay_put_run_ok [replays_intros]: "replay_ok mb ids rp \<Longrightarrow> replays mb ids (replay_put_run k f rp)"
  by (auto simp: replays_def replay_put_run_def replay_ok_def result_simps)

lemma replay_drop_handoffs_ok [replays_intros]:
  "replay_ok mb ids rp \<Longrightarrow> replay_ok mb ids (replay_drop_handoffs P rp)"
  by (auto simp: replay_ok_def replay_drop_handoffs_def split: option.splits if_splits)

lemma keeps_fact_same:
  assumes "\<And>q. q_request_id (f q) = q_request_id q" and "\<And>q. q_specification (f q) = q_specification q"
    and "\<And>q. q_decision (f q) = q_decision q \<or> q_decision (f q) = None"
    and "\<And>q. q_status q \<noteq> Open \<Longrightarrow> q_status (f q) \<noteq> Open"
  shows "keeps_fact mb k f"
  unfolding keeps_fact_def
proof (intro allI impI)
  fix q assume "q_request_id q = k" and fact: "request_fact mb q"
  from fact assms(3) [of q] have "decision_backed mb (f q)"
    by (auto simp: request_fact_def decision_backed_def is_none_or_def assms(1))
  with fact assms \<open>q_request_id q = k\<close> show "q_request_id (f q) = k \<and> request_fact mb (f q)"
    by (simp add: request_fact_def specification_backed_def)
qed

lemma replayed_status_not_open:
  "replay_transition_request reason st event = Inr st' \<Longrightarrow> st' \<noteq> Open"
  by (auto simp: replay_transition_request_def transition_request_def Let_def result_simps
      split: request_event.splits if_splits)

lemma replay_set_statuses_ok [replays_intros]:
  assumes "replay_ok mb ids rp" and "st \<noteq> Open"
  shows "replays mb ids (replay_set_statuses k j st rs rp)"
  unfolding replay_set_statuses_def
  by (intro replays_bind replays_intros keeps_fact_same assms; assumption?) (use assms in simp_all)

lemma replay_context_lookup:
  assumes "replay_request_context env rp = Inr q"
  obtains k where "e_request_id env = Some k" and "fmlookup (rp_requests rp) k = Some q"
  using assms by (auto simp: replay_request_context_def context_ids_def result_simps Let_def)

lemma replay_transition_ok [replays_intros]:
  "replay_ok mb ids rp \<Longrightarrow> replays mb ids (replay_transition env qe re rp)"
  unfolding replay_transition_def
  by (intro replays_check replay_set_statuses_ok) (auto dest: replayed_status_not_open)

lemma replay_ensure_assignment_ok [replays_intros]:
  assumes "replay_ok mb ids rp"
  shows "replays mb ids (replay_ensure_assignment env a rp)"
  unfolding replay_ensure_assignment_def Let_def
  by (intro replays_bind replays_intros keeps_fact_same assms; assumption?) simp_all

lemma replay_executor_ok [replays_intros]:
  "replay_ok mb ids rp \<Longrightarrow> replays mb ids (replay_executor action env a rp)"
  unfolding replay_executor_def by (intro replays_intros)

section \<open>Messages\<close>

text \<open>The delivery whose facts are replayed.\<close>

definition replays_delivery ::
  "(message_id, delivery_record) fmap \<Rightarrow> envelope \<Rightarrow> payload_digest \<Rightarrow> bool" where
  "replays_delivery mailbox env digest \<longleftrightarrow>
     delivery_has mailbox (e_message_id env) (\<lambda>d.
       d_payload_digest d = digest \<and> e_request_id (d_envelope d) = e_request_id env \<and>
       d_message_kind d = message_kind_of (e_message env) \<and>
       d_causal d = causal_message_of (e_message_id env) digest (e_message env))"

lemma replay_create_request_ok:
  assumes "replay_ok mb ids rp" and "replays_delivery mb env digest"
    and "e_message env = MImplementationRequest spec"
  shows "replays mb ids (replay_create_request env a
    (RequestSpecificationRef (e_message_id env) digest base) actors required rp)"
proof -
  have fact: "request_fact mb q"
    if "e_request_id env = Some (q_request_id q)" "q_decision q = None" "q_status q = Assigned"
      "q_specification q = RequestSpecificationRef (e_message_id env) digest base" for q
    using assms(2,3) that
    by (auto simp: request_fact_def specification_backed_def decision_backed_def replays_delivery_def
        delivery_has_def is_none_or_def is_some_and_iff)
  with assms(1) show ?thesis
    by (auto simp: replays_def replay_create_request_def replay_ok_def context_ids_def Let_def
        result_simps split: if_splits)
qed

lemma replay_submit_candidate_ok:
  assumes "replay_ok mb ids rp"
  shows "replays mb ids (replay_submit_candidate env a c rp)"
  unfolding replay_submit_candidate_def Let_def
  by (intro replays_bind replays_intros assms keeps_fact_same; assumption?) simp_all

text \<open>A review sets the decision that its message carries.\<close>

lemma keeps_fact_decide:
  assumes "replays_delivery mb env digest" and "e_request_id env = Some k"
    and "causal_message_of (e_message_id env) digest (e_message env) = CausalReviewDecision d"
  shows "keeps_fact mb k (\<lambda>q. q\<lparr>q_team_epoch := e q, q_rejection_count := n q, q_decision := Some d,
    q_integration_authorization := None\<rparr>)"
  using assms causal_decision_message [OF assms(3)]
  by (auto simp: keeps_fact_def request_fact_def specification_backed_def decision_backed_def
      replays_delivery_def delivery_has_def is_none_or_def is_some_and_iff)

lemma required_request_id_Inr [result_simps]:
  "required_request_id env = Inr k \<longleftrightarrow> e_request_id env = Some k"
  by (auto simp: required_request_id_def result_simps)

lemma replay_review_ok:
  assumes "replay_ok mb ids rp" and "replays_delivery mb env digest"
    and "causal_message_of (e_message_id env) digest (e_message env) = CausalReviewDecision d"
  shows "replays mb (finsert (dr_decision_id d) ids) (replay_review env a d rp)"
proof -
  let ?ids = "finsert (dr_decision_id d) ids"
  let ?rp = "rp\<lparr>rp_decision_ids := finsert (dr_decision_id d) (rp_decision_ids rp)\<rparr>"
  have start: "replay_ok mb ?ids ?rp"
    using assms(1) by (auto simp: replay_ok_def)
  note decide = keeps_fact_decide [OF assms(2) _ assms(3)]
  show ?thesis
    unfolding replay_review_def Let_def prod.case_eq_if
    by (intro replays_bind replays_intros start decide; assumption?)
      (simp_all add: required_request_id_Inr replay_drop_handoffs_ok)
qed

lemma replay_fix_ok [replays_intros]: "replay_ok mb ids rp \<Longrightarrow> replays mb ids (replay_fix env f rp)"
  unfolding replay_fix_def by (intro replays_intros)

lemma replay_control_run_ok [replays_intros]:
  "replay_ok mb ids rp \<Longrightarrow> replays mb ids (replay_control_run env action rp)"
  unfolding replay_control_run_def
proof (intro replays_intros; assumption?)
  fix q st assume ok: "replay_ok mb ids rp" and q: "replay_request_context env rp = Inr q"
    and st: "(case action of ControlPause \<Rightarrow> Inr (q_status q) | ControlResume \<Rightarrow>
      replay_transition_request ''run resume request provenance is illegal'' (q_status q) EvStart) = Inr st"
  from q obtain k where "fmlookup (rp_requests rp) k = Some q"
    by (rule replay_context_lookup)
  with ok st show "st \<noteq> Open"
    by (auto simp: request_fact_def dest: replay_okD replayed_status_not_open split: run_control_action.splits)
qed

lemma replay_authorize_integration_ok [replays_intros]:
  "replay_ok mb ids rp \<Longrightarrow> replays mb ids (replay_authorize_integration env a z rp)"
  unfolding replay_authorize_integration_def
  by (intro replays_bind replays_intros keeps_fact_same; assumption?) simp_all

lemma replay_complete_integration_ok [replays_intros]:
  "replay_ok mb ids rp \<Longrightarrow> replays mb ids (replay_complete_integration env a z rp)"
  unfolding replay_complete_integration_def by (intro replays_intros)

lemma replay_cancellation_ok [replays_intros]:
  "replay_ok mb ids rp \<Longrightarrow> replays mb ids (replay_cancellation env a rp)"
  unfolding replay_cancellation_def
  by (intro replays_bind replays_intros keeps_fact_same; assumption?) simp_all

lemma replay_unrelated_ok [replays_intros]:
  assumes "replay_ok mb ids rp"
  shows "replays mb ids (replay_consult env a consultation teams rp)"
    and "replays mb ids (replay_respond_to_consult env a response rp)"
    and "replays mb ids (replay_conflict env a conflict teams rp)"
    and "replays mb ids (replay_primary_directive env a actors teams rp)"
  unfolding replay_consult_def replay_respond_to_consult_def replay_conflict_def
    replay_primary_directive_def Let_def
  by (intro replays_intros assms replay_ok_cong [OF assms]; simp)+

lemma replay_dependency_ok [replays_intros]:
  "replay_ok mb ids rp \<Longrightarrow> replays mb ids (replay_dependency env a notice teams rp)"
  unfolding replay_dependency_def by (intro replays_bind replays_intros)

text \<open>An offer is the offer of its message.\<close>

lemma replay_offer_handoff_ok:
  assumes "replay_ok mb ids rp" and "replays_delivery mb env digest"
    and "causal_message_of (e_message_id env) digest (e_message env) = CausalHandoffOffer offer"
  shows "replays mb ids (replay_offer_handoff env a offer teams rp)"
proof -
  have "offer_backed mb (PendingHandoff offer ref epoch)" for ref epoch
    using assms(2,3) causal_offer_message [OF assms(3)]
    by (auto simp: offer_backed_def replays_delivery_def delivery_has_def is_some_and_iff)
  then have "replay_ok mb ids (r\<lparr>rp_handoffs := fmupd k (PendingHandoff offer ref epoch) (rp_handoffs r)\<rparr>)"
    if "replay_ok mb ids r" for r k ref epoch
    using that by (auto simp: replay_ok_def)
  with assms(1) show ?thesis
    unfolding replay_offer_handoff_def by (intro replays_bind replays_intros) auto
qed

lemma replay_accept_handoff_ok [replays_intros]:
  assumes "replay_ok mb ids rp"
  shows "replays mb ids (replay_accept_handoff env a acceptance rp)"
proof -
  have "replay_ok mb ids (r\<lparr>rp_handoffs := fmdrop k (rp_handoffs r)\<rparr>)" if "replay_ok mb ids r" for r k
    using that by (auto simp: replay_ok_def)
  then show ?thesis
    unfolding replay_accept_handoff_def Let_def
    by (intro replays_bind replays_intros keeps_fact_same assms; assumption?) simp_all
qed

section \<open>One accepted message\<close>

definition decision_ids_of :: "message \<Rightarrow> decision_id fset" where
  "decision_ids_of m = (case m of MReviewDecision d \<Rightarrow> {|rd_decision_id d|} | _ \<Rightarrow> {||})"

lemma replay_dispatch_ok:
  assumes "replay_ok mb ids rp" and "replays_delivery mb env digest"
  shows "replays mb (decision_ids_of (e_message env) |\<union>| ids) (replay_dispatch ch env digest required a rp)"
proof (cases "e_message env")
  case (MReviewDecision d)
  let ?d = "ReviewDecisionRef (e_message_id env) digest (rd_decision_id d) (rd_candidate d)
     (rd_verdict d) (rd_reviewer d) (rd_policy_revision d)"
  have "replays mb (finsert (rd_decision_id d) ids) (replay_review env a ?d rp)"
    using replay_review_ok [OF assms, of ?d] MReviewDecision by simp
  then show ?thesis
    unfolding replay_dispatch_def MReviewDecision decision_ids_of_def message.case
    by (simp add: replays_check)
qed (use assms in \<open>simp_all add: replay_dispatch_def decision_ids_of_def replay_create_request_ok
    replay_offer_handoff_ok\<close>; intro replays_bind replays_intros replay_submit_candidate_ok; assumption)+

lemma second_check:
  "ebind m (\<lambda>x. ebind (require b path reason) (k x)) = Inr y \<Longrightarrow> b"
  by (auto simp: result_simps)

lemma replay_dispatch_fresh:
  assumes "replay_dispatch ch env digest required a rp = Inr rp'" and "e_message env = MReviewDecision d"
  shows "rd_decision_id d |\<notin>| rp_decision_ids rp"
proof -
  let ?d = "ReviewDecisionRef (e_message_id env) digest (rd_decision_id d) (rd_candidate d)
     (rd_verdict d) (rd_reviewer d) (rd_policy_revision d)"
  have "replay_review env a ?d rp = Inr rp'"
    using assms by (simp add: replay_dispatch_def ebind_Inr_iff)
  from second_check [OF this [unfolded replay_review_def]] show ?thesis
    by simp
qed

text \<open>The fences do not touch the work.\<close>

definition same_work :: "causal_replay \<Rightarrow> causal_replay \<Rightarrow> bool" where
  "same_work rp rp' \<longleftrightarrow>
     rp_requests rp' = rp_requests rp \<and> rp_handoffs rp' = rp_handoffs rp \<and>
     rp_decision_ids rp' = rp_decision_ids rp \<and> rp_runs rp' = rp_runs rp"

lemma same_work_simps [simp]:
  "same_work rp rp"
  "same_work rp (rp\<lparr>rp_team_epochs := te\<rparr>)"
  "same_work rp (rp\<lparr>rp_primary_actors := pa\<rparr>)"
  by (simp_all add: same_work_def)

lemma team_fence_frame: "validate_history_team_fence teams env a rp = Inr rp' \<Longrightarrow> same_work rp rp'"
  unfolding validate_history_team_fence_def Let_def
  by (cases "e_team_id env") (auto elim!: ebind_InrE)

lemma primary_fence_frame: "authorize_history_primary epoch env a rp = Inr rp' \<Longrightarrow> same_work rp rp'"
  unfolding authorize_history_primary_def
  by (auto elim!: ebind_InrE split: if_splits option.splits)

definition fenced_actor :: "envelope \<Rightarrow> actor \<Rightarrow> causal_replay \<Rightarrow> causal_replay" where
  "fenced_actor env a rp =
     rp\<lparr>rp_last_primary_epoch := Some (e_primary_epoch env),
       rp_actor_epochs := fmupd (a_actor_id a) (ref_actor_epoch (e_sender env)) (rp_actor_epochs rp)\<rparr>"

lemma authorize_history_parts:
  assumes "authorize_history ch env rp = Inr (a, rp')"
  obtains rp1 where "\<not> is_some_and (rp_last_primary_epoch rp) (\<lambda>previous. e_primary_epoch env < previous)"
    and "fmlookup (ch_actors ch) (ref_actor_id (e_sender env)) = Some a"
    and "\<not> (a_epoch a < ref_actor_epoch (e_sender env) \<or>
          is_some_and (fmlookup (rp_actor_epochs rp) (a_actor_id a))
            (\<lambda>previous. ref_actor_epoch (e_sender env) < previous))"
    and "validate_history_team_fence (ch_teams ch) env a (fenced_actor env a rp) = Inr rp1"
    and "authorize_history_primary (ch_primary_epoch ch) env a rp1 = Inr rp'"
  using assms(1) unfolding authorize_history_def Let_def
  by (elim ebind_InrE, intro that) (simp_all add: require_Inr_iff ok_or_Inr_iff fenced_actor_def)

lemma authorize_history_frame:
  assumes "authorize_history ch env rp = Inr (a, rp')"
  shows "same_work rp rp'"
  using assms
proof (rule authorize_history_parts)
  fix rp1
  assume "validate_history_team_fence (ch_teams ch) env a (fenced_actor env a rp) = Inr rp1"
    and "authorize_history_primary (ch_primary_epoch ch) env a rp1 = Inr rp'"
  then show "same_work rp rp'"
    using team_fence_frame primary_fence_frame by (fastforce simp: same_work_def fenced_actor_def)
qed

lemma replay_apply_ok:
  assumes "replay_ok mb ids rp" and "replays_delivery mb env digest"
    and app: "replay_apply ch env digest required rp = Inr rp'"
  shows "replay_ok mb (decision_ids_of (e_message env) |\<union>| ids) rp'"
    and "e_message env = MReviewDecision d \<Longrightarrow> rd_decision_id d |\<notin>| rp_decision_ids rp"
proof -
  from app obtain a rp1 where auth: "authorize_history ch env rp = Inr (a, rp1)"
    and dispatch: "replay_dispatch ch env digest required a rp1 = Inr rp'"
    by (auto simp: replay_apply_def result_simps)
  note frame = authorize_history_frame [OF auth]
  have "replay_ok mb ids rp1"
    using assms(1) by (rule replay_ok_cong) (use frame in \<open>simp_all add: same_work_def\<close>)
  from replay_dispatch_ok [OF this assms(2)] dispatch
  show "replay_ok mb (decision_ids_of (e_message env) |\<union>| ids) rp'"
    by (auto simp: replays_def)
  show "e_message env = MReviewDecision d \<Longrightarrow> rd_decision_id d |\<notin>| rp_decision_ids rp"
    using replay_dispatch_fresh [OF dispatch] frame by (simp add: same_work_def)
qed

text \<open>A delivery of a well-formed mailbox replays itself.\<close>

lemma delivery_replays:
  assumes "mail_ok mb" and "fmlookup mb k = Some d"
  shows "replays_delivery mb (with_message (d_envelope d) (replay_message (d_causal d))) (d_payload_digest d)"
proof -
  have ok: "delivery_ok k d"
    using assms by (rule mail_okD)
  moreover have "e_message_id (with_message (d_envelope d) m) = e_message_id (d_envelope d)" for m
    by (simp add: with_message_def envelope_header.defs envelope.defs)
  ultimately show ?thesis
    using assms(2)
    by (simp add: replays_delivery_def delivery_has_def delivery_ok_def kind_replay
        causal_of_replay [THEN iffD2])
qed

section \<open>The whole history\<close>

fun accepted_ids :: "audit_event list \<Rightarrow> message_id set" where
  "accepted_ids [] = {}"
| "accepted_ids (e # es) =
     (case au_kind e of MessageAccepted k _ _ \<Rightarrow> insert k (accepted_ids es)
      | MessageAcknowledged _ _ \<Rightarrow> accepted_ids es)"

definition decisions_within ::
  "(message_id, delivery_record) fmap \<Rightarrow> message_id set \<Rightarrow> decision_id fset \<Rightarrow> bool" where
  "decisions_within mailbox K ids \<longleftrightarrow>
     (\<forall>i d r. i \<in> K \<longrightarrow> fmlookup mailbox i = Some d \<longrightarrow> d_causal d = CausalReviewDecision r \<longrightarrow>
        dr_decision_id r |\<in>| ids)"

definition decisions_unique_on :: "(message_id, delivery_record) fmap \<Rightarrow> message_id set \<Rightarrow> bool" where
  "decisions_unique_on mailbox K \<longleftrightarrow>
     (\<forall>i j d e r r'. i \<in> K \<longrightarrow> j \<in> K \<longrightarrow> fmlookup mailbox i = Some d \<longrightarrow> fmlookup mailbox j = Some e \<longrightarrow>
        d_causal d = CausalReviewDecision r \<longrightarrow> d_causal e = CausalReviewDecision r' \<longrightarrow>
        dr_decision_id r = dr_decision_id r' \<longrightarrow> i = j)"

definition replayed_upto ::
  "(message_id, delivery_record) fmap \<Rightarrow> message_id set \<Rightarrow> causal_replay \<Rightarrow> bool" where
  "replayed_upto mailbox K rp \<longleftrightarrow>
     (\<exists>ids. replay_ok mailbox ids rp \<and> decisions_within mailbox K ids) \<and> decisions_unique_on mailbox K"

lemma replay_delivery_step:
  assumes mail: "mail_ok mb" and d: "fmlookup mb k = Some d" and upto: "replayed_upto mb K rp"
    and app: "replay_apply ch (with_message (d_envelope d) (replay_message (d_causal d)))
      (d_payload_digest d) required rp = Inr rp'"
  shows "replayed_upto mb (insert k K) rp'"
proof -
  let ?m = "replay_message (d_causal d)"
  from upto obtain ids where ok: "replay_ok mb ids rp" and within: "decisions_within mb K ids"
    and unique: "decisions_unique_on mb K"
    by (auto simp: replayed_upto_def)
  note step = replay_apply_ok [OF ok delivery_replays [OF mail d] app, simplified]
  have review: "?m = MReviewDecision (ReviewDecision (dr_decision_id r) (dr_candidate r)
      (dr_verdict r) (dr_reviewer r) (dr_policy_revision r) archived_text [])"
    if "d_causal d = CausalReviewDecision r" for r
    by (simp add: that)
  have "decisions_within mb (insert k K) (decision_ids_of ?m |\<union>| ids)"
    using within d review by (auto simp: decisions_within_def decision_ids_of_def)
  moreover have "dr_decision_id r \<noteq> dr_decision_id r'"
    if "d_causal d = CausalReviewDecision r" "i \<in> K" "fmlookup mb i = Some e" "d_causal e = CausalReviewDecision r'"
    for r i e r'
  proof -
    have "dr_decision_id r |\<notin>| rp_decision_ids rp"
      using step(2) [OF review [OF that(1)]] by simp
    moreover have "dr_decision_id r' |\<in>| rp_decision_ids rp"
      using within that ok by (auto simp: decisions_within_def replay_ok_def)
    ultimately show ?thesis by auto
  qed
  then have "decisions_unique_on mb (insert k K)"
    using unique d unfolding decisions_unique_on_def
    by (intro allI impI) (metis insert_iff option.inject)
  ultimately show ?thesis
    using step(1) by (auto simp: replayed_upto_def)
qed

lemma replay_audit_upto:
  assumes "replay_audit ch es rp = Inr rp'" and "mail_ok (ch_mailbox ch)"
    and "replayed_upto (ch_mailbox ch) K rp"
  shows "replayed_upto (ch_mailbox ch) (K \<union> accepted_ids es) rp'"
  using assms
proof (induction es arbitrary: rp K)
  case (Cons e es)
  from Cons.prems(1) obtain rp1 where head: "replay_audit_event ch e rp = Inr rp1"
    and rest: "replay_audit ch es rp1 = Inr rp'"
    by (auto simp: result_simps)
  show ?case
  proof (cases "au_kind e")
    case (MessageAccepted k kind digest)
    let ?rp = "rp\<lparr>rp_current_audit_sequence := au_sequence e\<rparr>"
    have "replayed_upto (ch_mailbox ch) K ?rp"
      using Cons.prems(3) replay_ok_cong [of "ch_mailbox ch" _ rp ?rp] by (fastforce simp: replayed_upto_def)
    with head MessageAccepted have "replayed_upto (ch_mailbox ch) (insert k K) rp1"
      by (auto simp: replay_audit_event_def Let_def result_simps
          intro: replay_delivery_step [OF Cons.prems(2)])
    from Cons.IH [OF rest Cons.prems(2) this] MessageAccepted show ?thesis by simp
  next
    case (MessageAcknowledged k i)
    with head Cons.IH [OF rest Cons.prems(2)] Cons.prems(3) show ?thesis
      by (simp add: replay_audit_event_def)
  qed
qed simp

section \<open>The comparison with the persisted work\<close>

lemma finish_request_facts:
  "q_request_id (finish_request c q) = q_request_id q"
  "q_specification (finish_request c q) = q_specification q"
  "q_decision (finish_request c q) = q_decision q"
  "q_status (finish_request c q) = q_status q"
  by (simp_all add: finish_request_def Let_def)

lemma finish_check_ok:
  assumes "finish_check runs (k, current) rp = Inr rp'" and "replay_ok mb ids rp"
  shows "replay_ok mb ids rp'" and "q_request_id current = k" and "request_fact mb current"
proof -
  from assms(1) obtain q r where q: "fmlookup (rp_requests rp) k = Some q"
    and same: "finish_request current q = current"
    and rp': "rp' = rp\<lparr>rp_requests := fmupd k current (rp_requests rp),
               rp_runs := fmupd (q_run_id current) r (rp_runs rp)\<rparr>"
    by (auto simp: finish_check_def Let_def require_Inr_iff ok_or_Inr_iff elim!: ebind_InrE)
  have "q_request_id current = k \<and> request_fact mb current"
    using replay_okD [OF assms(2) q] replay_ok_id [OF assms(2) q]
      finish_request_facts [of current q] unfolding same
    by (simp add: request_fact_def specification_backed_def decision_backed_def)
  then show "q_request_id current = k" and "request_fact mb current"
    by simp_all
  with assms(2) show "replay_ok mb ids rp'"
    by (auto simp: rp' replay_ok_def)
qed

lemma finish_all_ok:
  assumes "finish_all runs qs rp = Inr rp'" and "replay_ok mb ids rp"
  shows "replay_ok mb ids rp' \<and> (\<forall>(k, q) \<in> set qs. q_request_id q = k \<and> request_fact mb q)"
  using assms
proof (induction qs arbitrary: rp)
  case (Cons kq qs)
  obtain k q where kq: "kq = (k, q)" by fastforce
  from Cons.prems(1) obtain rp1 where head: "finish_check runs (k, q) rp = Inr rp1"
    and rest: "finish_all runs qs rp1 = Inr rp'"
    by (auto simp: kq result_simps)
  note step = finish_check_ok [OF head Cons.prems(2)]
  from Cons.IH [OF rest step(1)] step kq show ?case by auto
qed simp

lemma sorted_list_of_fmap_member:
  "fmlookup m k = Some v \<Longrightarrow> (k, v) \<in> set (sorted_list_of_fmap m)"
  by (auto simp: sorted_list_of_fmap_def fmlookup_dom_iff intro!: rev_image_eqI [of k])

theorem replayed_history_facts:
  assumes "validate_causal_history ch = Inr ()" and "mail_ok (ch_mailbox ch)"
  shows "fmlookup (ch_requests ch) k = Some q \<Longrightarrow> request_fact (ch_mailbox ch) q"
    and "fmlookup (ch_handoffs ch) h = Some p \<Longrightarrow> offer_backed (ch_mailbox ch) p"
    and "decisions_unique_on (ch_mailbox ch) (accepted_ids (ch_audit ch))"
proof -
  let ?mb = "ch_mailbox ch"
  from assms(1) obtain rp where replay: "replay_audit ch (ch_audit ch) (replay_start ch) = Inr rp"
    and finish: "replay_finish (ch_requests ch) (ch_runs ch) (ch_handoffs ch)
          (ch_require_completed_consultations ch) rp = Inr ()"
    by (auto simp: validate_causal_history_def result_simps)
  have "replayed_upto ?mb {} (replay_start ch)"
    by (auto simp: replayed_upto_def replay_ok_def replay_start_def decisions_within_def
        decisions_unique_on_def)
  from replay_audit_upto [OF replay assms(2) this] have upto: "replayed_upto ?mb (accepted_ids (ch_audit ch)) rp"
    by simp
  then show "decisions_unique_on ?mb (accepted_ids (ch_audit ch))"
    by (simp add: replayed_upto_def)
  from upto obtain ids where ok: "replay_ok ?mb ids rp"
    by (auto simp: replayed_upto_def)
  from finish obtain rp1 where all: "finish_all (ch_runs ch) (sorted_list_of_fmap (ch_requests ch)) rp = Inr rp1"
    and handoffs: "fmretain (handoff_still_offered (ch_requests ch)) (rp_handoffs rp1) = ch_handoffs ch"
    by (auto simp: replay_finish_def result_simps)
  note finished = finish_all_ok [OF all ok]
  show "request_fact ?mb q" if "fmlookup (ch_requests ch) k = Some q"
    using finished sorted_list_of_fmap_member [OF that] by auto
  show "offer_backed ?mb p" if "fmlookup (ch_handoffs ch) h = Some p"
    using that finished unfolding handoffs [symmetric]
    by (auto simp: replay_ok_def split: option.splits if_splits)
qed

end
