(* ===== verification/Restart.thy ===== *)
theory Restart
  imports Replay_Invariants
begin

text \<open>
  Restarts: the aggregate that \<open>from_snapshot\<close> admits satisfies the invariant of the aggregate, so
  whatever holds of reachable states holds after a restart as well.
\<close>

section \<open>The audit log\<close>

lemma checked_audit_event:
  assumes "check_audit_event mailbox maximum i e scan = Inr scan'"
  shows "au_sequence e \<noteq> 0" and "sc_previous_sequence scan < au_sequence e"
    and "is_none_or maximum (\<lambda>m. au_sequence e \<le> m)"
    and "sc_previous_sequence scan' = au_sequence e"
    and "set (sc_accepted scan') \<subseteq> set (sc_accepted scan) \<union> accepted_ids [e]"
  using assms
  by (auto simp: check_audit_event_def Let_def require_Inr_iff elim!: ebind_InrE
      split: audit_event_kind.splits option.splits)

lemma checked_audit:
  assumes "check_audit_from mailbox maximum i scan es = Inr scan'"
  shows "sorted_wrt (<) (map au_sequence es)"
    and "e \<in> set es \<Longrightarrow> sc_previous_sequence scan < au_sequence e"
    and "e \<in> set es \<Longrightarrow> au_sequence e \<noteq> 0 \<and> is_none_or maximum (\<lambda>m. au_sequence e \<le> m)"
    and "set (sc_accepted scan') \<subseteq> set (sc_accepted scan) \<union> accepted_ids es"
proof -
  have "sorted_wrt (<) (map au_sequence es) \<and>
      (\<forall>e \<in> set es. sc_previous_sequence scan < au_sequence e \<and> au_sequence e \<noteq> 0 \<and>
         is_none_or maximum (\<lambda>m. au_sequence e \<le> m)) \<and>
      set (sc_accepted scan') \<subseteq> set (sc_accepted scan) \<union> accepted_ids es"
    using assms
  proof (induction es arbitrary: i scan)
    case (Cons e es)
    then obtain scan1 where head: "check_audit_event mailbox maximum i e scan = Inr scan1"
      and rest: "check_audit_from mailbox maximum (Suc i) scan1 es = Inr scan'"
      by (auto simp: result_simps)
    note step = checked_audit_event [OF head]
    have "sc_previous_sequence scan < au_sequence f" if "f \<in> set es" for f
      using Cons.IH [OF rest] step(2,4) that by fastforce
    moreover have "accepted_ids (e # es) = accepted_ids [e] \<union> accepted_ids es"
      by (auto split: audit_event_kind.splits)
    ultimately show ?case
      using Cons.IH [OF rest] step by auto
  qed simp
  then show "sorted_wrt (<) (map au_sequence es)"
    and "e \<in> set es \<Longrightarrow> sc_previous_sequence scan < au_sequence e"
    and "e \<in> set es \<Longrightarrow> au_sequence e \<noteq> 0 \<and> is_none_or maximum (\<lambda>m. au_sequence e \<le> m)"
    and "set (sc_accepted scan') \<subseteq> set (sc_accepted scan) \<union> accepted_ids es"
    by auto
qed

lemma validated_audit:
  assumes "validate_audit_links audit mailbox maximum = Inr ()"
  shows "sorted_wrt (<) (map au_sequence audit)"
    and "e \<in> set audit \<Longrightarrow> au_sequence e \<noteq> 0 \<and> is_none_or maximum (\<lambda>m. au_sequence e \<le> m)"
    and "fmlookup mailbox k = Some d \<Longrightarrow> k \<in> accepted_ids audit"
proof -
  from assms obtain scan where scan: "check_audit_from mailbox maximum 0
        \<lparr>sc_accepted = [], sc_acknowledged = [], sc_previous_sequence = 0\<rparr> audit = Inr scan"
    and all: "list_all (delivery_audited scan) (sorted_list_of_fmap mailbox)"
    by (auto simp: validate_audit_links_def result_simps)
  show "sorted_wrt (<) (map au_sequence audit)"
    and "e \<in> set audit \<Longrightarrow> au_sequence e \<noteq> 0 \<and> is_none_or maximum (\<lambda>m. au_sequence e \<le> m)"
    using checked_audit [OF scan] by auto
  show "k \<in> accepted_ids audit" if "fmlookup mailbox k = Some d"
    using all sorted_list_of_fmap_member [OF that] checked_audit(4) [OF scan]
    by (auto simp: list_all_iff delivery_audited_def)
qed

section \<open>The restored aggregate\<close>

lemma from_snapshot_parts:
  assumes "from_snapshot x snapshot_json sn = Inr s"
  obtains actors teams requests runs mailbox handoffs history counts where
    "restore_actors (sn_workspace_id sn) (sn_actors sn) = Inr actors"
    and "validate_active_primary (sn_active_primary sn) actors = Inr ()"
    and "restore_teams (sn_workspace_id sn) (sn_teams sn) actors = Inr teams"
    and "validate_actor_team_links actors teams = Inr ()"
    and "restore_requests (sn_workspace_id sn) (sn_policy_revision sn) (sn_requests sn)
          actors teams = Inr requests"
    and "restore_runs (sn_workspace_id sn) (sn_runs sn) requests teams = Inr runs"
    and "validate_request_run_links requests runs = Inr ()"
    and "restore_deliveries (sn_workspace_id sn) (sn_deliveries sn) actors teams requests
          runs = Inr mailbox"
    and "restore_handoffs (sn_pending_handoffs sn) actors teams requests = Inr handoffs"
    and "validate_audit (sn_audit_events sn) mailbox history = Inr ()"
    and "validate_causal_history
          (restored_history sn mailbox actors teams requests runs handoffs) = Inr ()"
    and "restore_history_checkpoint x (sn_history_checkpoint sn) (sn_audit_events sn) = Inr history"
    and "derive_nonterminal_request_counts teams requests = Inr counts"
    and "s = \<lparr>s_workspace_id = sn_workspace_id sn, s_policy_revision = sn_policy_revision sn,
          s_primary_epoch = sn_primary_epoch sn,
          s_active_primary = map_option ref_actor_id (sn_active_primary sn),
          s_actors = actors, s_teams = teams, s_requests = requests, s_runs = runs,
          s_mailbox = mailbox, s_handoffs = handoffs, s_audit = sn_audit_events sn,
          s_history_checkpoint = history,
          s_observability_checkpoint = sn_observability_checkpoint sn,
          s_team_generation_checkpoint = sn_team_generation_checkpoint sn,
          s_pending_bulk_content = [], s_nonterminal_request_counts = counts,
          s_pending_observability = empty_observability\<rparr>"
  using assms(1) unfolding from_snapshot_def Let_def
  by (elim ebind_InrE, intro that) (assumption | simp)+

theorem from_snapshot_ok:
  assumes "from_snapshot x snapshot_json sn = Inr s"
  shows "aggregate_ok s"
proof -
  from assms obtain actors teams requests runs mailbox handoffs history counts where
      actors: "restore_actors (sn_workspace_id sn) (sn_actors sn) = Inr actors"
    and lease: "validate_active_primary (sn_active_primary sn) actors = Inr ()"
    and teams: "restore_teams (sn_workspace_id sn) (sn_teams sn) actors = Inr teams"
    and links: "validate_actor_team_links actors teams = Inr ()"
    and requests: "restore_requests (sn_workspace_id sn) (sn_policy_revision sn) (sn_requests sn)
          actors teams = Inr requests"
    and runs: "restore_runs (sn_workspace_id sn) (sn_runs sn) requests teams = Inr runs"
    and work: "validate_request_run_links requests runs = Inr ()"
    and mailbox: "restore_deliveries (sn_workspace_id sn) (sn_deliveries sn) actors teams requests
          runs = Inr mailbox"
    and handoffs: "restore_handoffs (sn_pending_handoffs sn) actors teams requests = Inr handoffs"
    and audit: "validate_audit (sn_audit_events sn) mailbox history = Inr ()"
    and causal: "validate_causal_history
          (restored_history sn mailbox actors teams requests runs handoffs) = Inr ()"
    and history: "restore_history_checkpoint x (sn_history_checkpoint sn) (sn_audit_events sn) = Inr history"
    and counts: "derive_nonterminal_request_counts teams requests = Inr counts"
    and s: "s = \<lparr>s_workspace_id = sn_workspace_id sn, s_policy_revision = sn_policy_revision sn,
          s_primary_epoch = sn_primary_epoch sn,
          s_active_primary = map_option ref_actor_id (sn_active_primary sn),
          s_actors = actors, s_teams = teams, s_requests = requests, s_runs = runs,
          s_mailbox = mailbox, s_handoffs = handoffs, s_audit = sn_audit_events sn,
          s_history_checkpoint = history,
          s_observability_checkpoint = sn_observability_checkpoint sn,
          s_team_generation_checkpoint = sn_team_generation_checkpoint sn,
          s_pending_bulk_content = [], s_nonterminal_request_counts = counts,
          s_pending_observability = empty_observability\<rparr>"
    by (rule from_snapshot_parts)
  have mail: "mail_ok mailbox"
    using mailbox by (rule restored_mail_ok)
  let ?ch = "restored_history sn mailbox actors teams requests runs handoffs"
  have ch: "ch_mailbox ?ch = mailbox" "ch_requests ?ch = requests" "ch_handoffs ?ch = handoffs"
      "ch_audit ?ch = sn_audit_events sn"
    by (simp_all add: restored_history_def)
  note facts = replayed_history_facts [OF causal, unfolded ch, OF mail]
  have not_open: "q_status q \<noteq> Open" if "fmlookup requests k = Some q" for k q
    using facts(1) [OF that] by (simp add: request_fact_def)
  have keyed: "q_request_id q = k" if "fmlookup requests k = Some q" for k q
    using requests that by (rule restored_request)
  have "supervisor_ok s"
    unfolding supervisor_ok_def s
    using restored_actors_ok [OF actors links] restored_teams_ok [OF teams]
      validated_lease_ok [OF lease restored_actor(1) [OF actors]]
      restored_work_ok [OF requests runs work not_open]
    by simp
  moreover have "decisions_unique mailbox"
    using facts(3) validated_audit(3) [OF audit [unfolded validate_audit_def]]
    unfolding decisions_unique_def decisions_unique_on_def by blast
  then have "provenance_ok s"
    using facts(1,2) restored_handoffs_ok [OF handoffs keyed]
    by (simp add: provenance_ok_def s request_fact_def)
  moreover have "audit_ok (s_audit s) (s_history_checkpoint s)"
    using validated_audit(1,2) [OF audit [unfolded validate_audit_def]]
    by (auto simp: audit_ok_def s)
  ultimately show ?thesis
    using mail by (simp add: aggregate_ok_def s)
qed

end
