(* ===== verification/Reachability.thy ===== *)
theory Reachability
  imports Operations Provenance_Steps Restart
begin

text \<open>
  Every public operation meets the contract of \<open>Operations\<close> for the invariant of the aggregate
  and the order \<open>grows\<close>, so every reachable state satisfies the invariant and grows along the
  steps.
\<close>

section \<open>The invariant of the aggregate\<close>

lemma aggregate_new: "aggregate_ok (supervisor_new workspace policy)"
  by (simp add: aggregate_ok_def wf_new)
    (simp add: supervisor_new_def mail_ok_def provenance_ok_def decisions_unique_def handoffs_ok_def
      audit_ok_def empty_history_def)

lemma aggregate_quiet:
  "aggregate_ok s \<Longrightarrow> supervisor_ok s' \<Longrightarrow> quiet s s' \<Longrightarrow> aggregate_ok s'"
  using quiet_provenance audit_ok_grows [OF _ audit_grows_quiet] by (auto simp: aggregate_ok_def quiet_def)

text \<open>How a step moves the aggregate.\<close>

definition evolves :: "supervisor \<Rightarrow> supervisor \<Rightarrow> bool" where
  "evolves s s' \<longleftrightarrow> grows s s' \<and> audit_grows s s'"

lemma evolves_refl [simp]: "evolves s s"
  by (simp add: evolves_def grows_refl)

lemma evolves_trans: "evolves s s1 \<Longrightarrow> evolves s1 s2 \<Longrightarrow> evolves s s2"
  using grows_trans audit_grows_trans by (auto simp: evolves_def)

lemmas aggregate_wf = aggregate_ok_def [THEN iffD1, THEN conjunct1]

section \<open>The operations\<close>

text \<open>A quiet operation with a growth lemma meets the contract.\<close>

lemma quiet_contract:
  assumes "\<And>s. atomic_from s (call s)"
    and "\<And>s v s'. supervisor_ok s \<Longrightarrow> call s = (Inr v, s') \<Longrightarrow> supervisor_ok s'"
    and "\<And>s v s'. supervisor_ok s \<Longrightarrow> call s = (Inr v, s') \<Longrightarrow> grows s s'"
    and "\<And>s v s'. call s = (Inr v, s') \<Longrightarrow> quiet s s'"
  shows "operation_contract aggregate_ok evolves call"
proof
  fix s v s'
  show "atomic_from s (call s)" by (rule assms(1))
  assume ok: "aggregate_ok s" and app: "call s = (Inr v, s')"
  note wf = aggregate_wf [OF ok]
  show "aggregate_ok s'"
    by (rule aggregate_quiet [OF ok assms(2) [OF wf app] assms(4) [OF app]])
  show "evolves s s'"
    using assms(3) [OF wf app] audit_grows_quiet [OF assms(4) [OF app]] by (simp add: evolves_def)
qed simp

lemma grows_of: "grows s (snd p) \<Longrightarrow> p = (r, s') \<Longrightarrow> grows s s'"
  and quiet_of: "quiet s (snd p) \<Longrightarrow> p = (r, s') \<Longrightarrow> quiet s s'"
  by simp_all

interpretation activation: operation_contract aggregate_ok evolves
  "\<lambda>s. activate_primary_inner s i role profile" for i role profile
  by (rule quiet_contract; (rule atomic_activate_primary_inner | erule (1) activate_primary_inner_wf
    | erule grows_of [OF activate_primary_inner_grows [OF wf_actors_keyed]], assumption
    | rule quiet_of [OF activate_primary_inner_quiet], assumption))

interpretation team_creation: operation_contract aggregate_ok evolves
  "\<lambda>s. create_team_inner s team profile" for team profile
  by (rule quiet_contract; (rule atomic_create_team_inner | erule (1) create_team_inner_wf
    | rule grows_of [OF create_team_inner_grows], assumption
    | rule quiet_of [OF create_team_inner_quiet], assumption))

interpretation team_status: operation_contract aggregate_ok evolves
  "\<lambda>s. set_team_status s team status" for team status
  by (rule quiet_contract; (rule atomic_set_team_status | erule (1) set_team_status_wf
    | rule grows_of [OF set_team_status_grows], assumption
    | rule quiet_of [OF set_team_status_quiet], assumption))

interpretation actor_status: operation_contract aggregate_ok evolves
  "\<lambda>s. set_actor_status s ref status" for ref status
  by (rule quiet_contract; (rule atomic_set_actor_status | erule (1) set_actor_status_wf
    | rule grows_of [OF set_actor_status_grows], assumption
    | rule quiet_of [OF set_actor_status_quiet], assumption))

interpretation heartbeats: operation_contract aggregate_ok evolves "\<lambda>s. heartbeat s ref at" for ref at
  by (rule quiet_contract; (rule atomic_heartbeat | erule (1) heartbeat_wf
    | rule grows_of [OF heartbeat_grows], assumption | rule quiet_of [OF heartbeat_quiet], assumption))

interpretation registration: operation_contract aggregate_ok evolves
  "\<lambda>s. register_implementation_inner s team i role profile" for team i role profile
  by (rule quiet_contract; (rule atomic_register_implementation_inner
    | erule (1) register_implementation_inner_wf
    | erule grows_of [OF register_implementation_inner_grows [OF wf_actors_keyed]], assumption
    | rule quiet_of [OF register_implementation_inner_quiet], assumption))

interpretation replacement: operation_contract aggregate_ok evolves
  "\<lambda>s. replace_implementation_inner s team i role profile" for team i role profile
  by (rule quiet_contract; (rule atomic_replace_implementation_inner
    | erule (1) replace_implementation_inner_wf
    | (rule replace_implementation_inner_grows_Inr; (assumption | erule wf_work_keys wf_actors_keyed))
    | erule replace_implementation_inner_quiet))

lemma retire_obsolete_grows:
  assumes "retire_obsolete_team_recipients s team = (Inr affected, s')"
  shows "grows s s'"
  using assms
proof (rule retire_obsolete_Inr)
  fix t
  assume s': "s' = s\<lparr>s_mailbox := fmmap (retire_delivery (s_requests s))
               (fmmap (waive_obsolete_recipients (s_requests s) (set (t_actors t)) team (t_epoch t))
                 (s_mailbox s)), s_pending_observability := s_pending_observability s'\<rparr>"
  show ?thesis
    by (subst s') (simp add: grows_def fm_le_refl fm_le_sweep waive_obsolete_recipients_le)
qed

interpretation close_sweep: operation_contract aggregate_ok evolves
  "\<lambda>s. retire_obsolete_team_recipients s team" for team
  by (rule quiet_contract; (rule atomic_retire_obsolete | erule (1) retire_obsolete_wf
    | erule retire_obsolete_grows | erule retire_obsolete_quiet))

interpretation messages: operation_contract aggregate_ok evolves "\<lambda>s. apply_envelope x s env" for x env
proof
  fix s outcome s'
  show "atomic_from s (apply_envelope x s env)" by (rule atomic_apply_envelope)
  assume ok: "aggregate_ok s" and app: "apply_envelope x s env = (Inr outcome, s')"
  then show "aggregate_ok s'"
    using apply_envelope_wf [OF _ app] apply_envelope_mail [OF _ _ app]
      apply_envelope_provenance [OF _ _ app] audit_ok_grows
    by (auto simp: aggregate_ok_def)
  show "evolves s s'"
    using apply_envelope_grows [OF wf_work_keys [OF aggregate_wf [OF ok]], of x env] app
      apply_envelope_provenance(2) [OF _ _ app] ok
    by (simp add: evolves_def aggregate_ok_def)
qed simp

interpretation acknowledgements: operation_contract aggregate_ok evolves "\<lambda>s. acknowledge x s ack" for x ack
proof
  fix s outcome s'
  show "atomic_from s (acknowledge x s ack)" by (rule atomic_acknowledge)
  assume ok: "aggregate_ok s" and app: "acknowledge x s ack = (Inr outcome, s')"
  then have parts: "supervisor_ok s" "mail_ok (s_mailbox s)" "provenance_ok s"
      "audit_ok (s_audit s) (s_history_checkpoint s)"
    by (simp_all add: aggregate_ok_def)
  have le: "grows s s'"
    using acknowledge_fresh [OF parts(1,2), of x ack] app by simp
  note provenance = acknowledge_provenance [OF parts(3) app le]
  show "evolves s s'"
    using le provenance(2) by (simp add: evolves_def)
  show "aggregate_ok s'"
    using acknowledge_wf [OF parts(1) app] acknowledge_mail [OF parts(1,2) app] provenance(1)
      audit_ok_grows [OF parts(4) provenance(2)]
    by (simp add: aggregate_ok_def)
qed simp

lemma evolves_grows: "evolves s s' \<Longrightarrow> grows s s'"
  by (simp add: evolves_def)

lemmas message_grows = evolves_grows [OF messages.call_le]
lemmas acknowledgement_grows = evolves_grows [OF acknowledgements.call_le]

lemma drained_wf:
  "supervisor_ok s \<Longrightarrow> take_pending_observability_delta s = (r, s') \<Longrightarrow> supervisor_ok s'"
  by (rule wf_cong [of s])
    (auto simp: take_pending_observability_delta_def Let_def attempt_def split: sum.splits)

lemma drained_frame:
  assumes "take_pending_observability_delta s = (r, s')"
  shows "s' = s\<lparr>s_pending_observability := empty_observability\<rparr>"
  using assms by (auto simp: take_pending_observability_delta_def Let_def attempt_def split: sum.splits)

lemma updates_not_Err: "team_observability_updates s rolled teams \<noteq> Inl (Err e)"
  by (induction teams)
    (auto simp: expect_def ebind_def ok_or_def split: sum.splits option.splits)

lemma drained_atomic: "atomic_from s (take_pending_observability_delta s)"
  using updates_not_Err
  by (auto simp: take_pending_observability_delta_def Let_def attempt_def atomic_from_def refusing_def
      split: sum.splits)

lemma drained_quiet: "take_pending_observability_delta s = (r, s') \<Longrightarrow> quiet s s'"
  by (drule drained_frame) (simp add: quiet_def fm_le_refl)

interpretation drain: operation_contract aggregate_ok evolves take_pending_observability_delta
  by (rule quiet_contract; (rule drained_atomic | erule (1) drained_wf | erule drained_quiet
    | (drule drained_frame, simp add: grows_def fm_le_refl)))

section \<open>Runs\<close>

lemma forget_unit: "forget p = p"
  by (cases p; cases "fst p"; simp add: forget_def)

lemma replace_implementation_cases:
  "replace_implementation s team i = (Inl (Err (UnknownTeam team)), s) \<or>
   (\<exists>role profile. replace_implementation s team i = replace_implementation_inner s team i role profile)"
  by (cases "fmlookup (s_teams s) team") (auto simp: replace_implementation_def Let_def split: prod.splits)

lemmas wrapper_defs = activate_primary_def activate_primary_with_profile_def create_team_def
  create_team_with_profile_def register_implementation_def register_implementation_with_profile_def
  replace_implementation_with_profile_def

lemma run_op_atomic: "atomic_from s (run_op x s op)"
proof (cases op)
  case (OpReplace team i)
  have "atomic_from s (replace_implementation s team i)"
    using replace_implementation_cases [of s team i] replacement.call_atomic
    by (auto simp: atomic_from_def refusing_def)
  with OpReplace show ?thesis
    by (simp add: atomic_forget)
qed (auto simp: wrapper_defs intro: atomic_forget activation.call_atomic team_creation.call_atomic
    team_status.call_atomic actor_status.call_atomic heartbeats.call_atomic registration.call_atomic
    replacement.call_atomic close_sweep.call_atomic messages.call_atomic
    acknowledgements.call_atomic drain.call_atomic)

lemma run_op_refused: "run_op x s op = (Inl (Err e), s') \<Longrightarrow> s' = s"
  using run_op_atomic [of s x op] by (auto dest: atomicD)

lemma run_op_contract:
  assumes ok: "aggregate_ok s" and run: "run_op x s op = (r, s')" and r: "r = Inr () \<or> r = Inl (Err e)"
  shows "aggregate_ok s' \<and> evolves s s'"
proof (cases op)
  case OpTakeBulkContent
  with run have s': "s' = snd (take_pending_bulk_content s)" by simp
  then have "quiet s s'" and "grows s s'"
    by (auto simp: take_pending_bulk_content_def grows_def fm_le_refl intro: quiet_unrelated)
  with aggregate_quiet [OF ok take_bulk_wf [OF aggregate_wf [OF ok]]] s' show ?thesis
    by (simp add: evolves_def audit_grows_quiet)
next
  case (OpReplace team i)
  with run have eq: "forget (replace_implementation s team i) = (r, s')" by simp
  from replace_implementation_cases [of s team i] show ?thesis
  proof (elim disjE exE)
    assume "replace_implementation s team i = (Inl (Err (UnknownTeam team)), s)"
    with eq ok show ?thesis by auto
  next
    fix role profile
    assume "replace_implementation s team i = replace_implementation_inner s team i role profile"
    with eq show ?thesis
      using replacement.returns [OF ok _ r] by simp
  qed
next
  case (OpSetTeamStatus team status)
  with run show ?thesis
    using team_status.returns [OF ok _ r] by (simp add: forget_unit)
next
  case (OpSetActorStatus ref status)
  with run show ?thesis
    using actor_status.returns [OF ok _ r] by (simp add: forget_unit)
next
  case (OpHeartbeat ref at)
  with run show ?thesis
    using heartbeats.returns [OF ok _ r] by (simp add: forget_unit)
qed (use run in \<open>auto simp: wrapper_defs dest: activation.returns [OF ok _ r] team_creation.returns [OF ok _ r]
    registration.returns [OF ok _ r] replacement.returns [OF ok _ r] close_sweep.returns [OF ok _ r]
    messages.returns [OF ok _ r] acknowledgements.returns [OF ok _ r] drain.returns [OF ok _ r]\<close>)

lemma op_step_contract: "aggregate_ok s \<Longrightarrow> op_step x s op s' \<Longrightarrow> aggregate_ok s' \<and> evolves s s'"
  by (erule op_stepE) (use run_op_contract in blast)+

lemma reachable_ok: "reachable x s \<Longrightarrow> aggregate_ok s"
  by (induction rule: reachable.induct) (simp_all add: aggregate_new from_snapshot_ok op_step_contract)

lemmas reachable_wf = aggregate_wf [OF reachable_ok]

lemma reachable_parts:
  assumes "reachable x s"
  shows "mail_ok (s_mailbox s)" and "provenance_ok s" and "audit_ok (s_audit s) (s_history_checkpoint s)"
  using reachable_ok [OF assms] by (simp_all add: aggregate_ok_def)

text \<open>A later state of the same run.\<close>

inductive leads_to :: "ext \<Rightarrow> supervisor \<Rightarrow> supervisor \<Rightarrow> bool" for x where
  here: "leads_to x s s"
| later: "leads_to x s s1 \<Longrightarrow> op_step x s1 op s' \<Longrightarrow> leads_to x s s'"

lemma leads_to_evolves:
  "leads_to x s s' \<Longrightarrow> aggregate_ok s \<Longrightarrow> aggregate_ok s' \<and> evolves s s'"
proof (induction rule: leads_to.induct)
  case (later s s1 op s')
  then show ?case
    using op_step_contract evolves_trans by blast
qed simp

lemma leads_to_contract:
  "leads_to x s s' \<Longrightarrow> aggregate_ok s \<Longrightarrow> aggregate_ok s' \<and> grows s s'"
  using leads_to_evolves by (auto simp: evolves_def)

text \<open>A sequence of calls none of which panics.\<close>

fun no_panic :: "ext \<Rightarrow> supervisor \<Rightarrow> operation list \<Rightarrow> bool" where
  "no_panic x s [] = True"
| "no_panic x s (op # ops) =
     (case run_op x s op of
        (Inl (Panic _), _) \<Rightarrow> False
      | (_, s1) \<Rightarrow> no_panic x s1 ops)"

lemma run_op_step:
  "\<nexists>msg. fst (run_op x s op) = Inl (Panic msg) \<Longrightarrow> op_step x s op (snd (run_op x s op))"
proof (cases "run_op x s op")
  case (Pair r s')
  assume "\<nexists>msg. fst (run_op x s op) = Inl (Panic msg)"
  with Pair show ?thesis
    by (cases r; cases "projl r") (auto intro: op_step.intros)
qed

lemma run_ops_reachable: "reachable x s \<Longrightarrow> no_panic x s ops \<Longrightarrow> reachable x (run_ops x s ops)"
proof (induction ops arbitrary: s)
  case (Cons op ops)
  obtain r s1 where run: "run_op x s op = (r, s1)" by fastforce
  with Cons.prems have np: "\<nexists>msg. r = Inl (Panic msg)" and rest: "no_panic x s1 ops"
    by (auto split: sum.splits failure.splits)
  from np run have "op_step x s op s1"
    using run_op_step [of x s op] by simp
  with Cons.prems(1) have "reachable x s1"
    by (rule reachable.step)
  from Cons.IH [OF this rest] run show ?case by simp
qed simp

lemma run_ops_leads_to: "no_panic x s ops \<Longrightarrow> leads_to x s (run_ops x s ops)"
proof -
  have "leads_to x s0 s \<Longrightarrow> no_panic x s ops \<Longrightarrow> leads_to x s0 (run_ops x s ops)" for s0
  proof (induction ops arbitrary: s)
    case (Cons op ops)
    obtain r s1 where run: "run_op x s op = (r, s1)" by fastforce
    with Cons.prems have np: "\<nexists>msg. r = Inl (Panic msg)" and rest: "no_panic x s1 ops"
      by (auto split: sum.splits failure.splits)
    from np run have "op_step x s op s1"
      using run_op_step [of x s op] by simp
    with Cons.prems(1) have "leads_to x s0 s1"
      by (rule leads_to.later)
    from Cons.IH [OF this rest] run show ?case by simp
  qed simp
  then show "no_panic x s ops \<Longrightarrow> leads_to x s (run_ops x s ops)"
    by (simp add: leads_to.here)
qed

lemma leads_to_reachable: "leads_to x s s' \<Longrightarrow> reachable x s \<Longrightarrow> reachable x s'"
  by (induction rule: leads_to.induct) (auto intro: reachable.step)

end
