(* ===== verification/Scenario.thy ===== *)
theory Scenario
  imports Reachability Lifecycle
begin

text \<open>
  A concrete run of the aggregate, used to show that the hypotheses of the properties can be met:
  a Primary and an implementation team take a request through candidate, rejection, rework,
  acceptance, authorization and completion; a second request is handed to another team.
\<close>

definition sample_ext :: ext where
  "sample_ext =
     \<lparr>x_json_envelope = \<lambda>_. Some [], x_json_message = \<lambda>_. Some [],
      x_json_audit_event = \<lambda>_. Some [], x_sha256 = \<lambda>_. replicate 32 0\<rparr>"

definition boss :: actor_ref where "boss = ActorRef ''boss'' 1"
definition ann :: actor_ref where "ann = ActorRef ''ann'' 1"
definition bob :: actor_ref where "bob = ActorRef ''bob'' 1"

definition sha1 :: git_sha where "sha1 = replicate 40 (CHR ''a'')"
definition sha2 :: git_sha where "sha2 = replicate 40 (CHR ''b'')"

definition remark :: utext where "remark = of_ascii ''ok''"

definition sample_envelope ::
  "message_id \<Rightarrow> actor_ref \<Rightarrow> message_target \<Rightarrow> assignment_epoch option \<Rightarrow> message \<Rightarrow> envelope" where
  "sample_envelope i sender target assignment m =
     \<lparr>e_protocol_version = PROTOCOL_VERSION, e_message_id = i, e_workspace_id = ''ws'',
      e_sender = sender, e_target = target, e_team_id = Some ''core'', e_run_id = Some ''run'',
      e_request_id = Some ''req'', e_policy_revision = 1, e_primary_epoch = 1,
      e_team_epoch = Some 1, e_assignment_epoch = assignment, e_sent_at = 0, e_message = m\<rparr>"

definition first_candidate :: candidate where
  "first_candidate = Candidate ''req'' ''core'' sha1 ann None"

definition second_candidate :: candidate where
  "second_candidate = Candidate ''req'' ''core'' sha2 ann None"

definition request_message :: envelope where
  "request_message = sample_envelope ''m1'' boss (TargetActor ''ann'') None
     (MImplementationRequest (ImplementationRequest remark remark sha1 BaseDeclared [remark] []))"

definition candidate_message :: "message_id \<Rightarrow> candidate \<Rightarrow> envelope" where
  "candidate_message i c = sample_envelope i ann TargetPrimary (Some 1)
     (MCandidateReady (CandidateReadyPayload c remark []))"

definition review_message :: "message_id \<Rightarrow> decision_id \<Rightarrow> candidate \<Rightarrow> review_verdict \<Rightarrow> envelope" where
  "review_message i d c v = sample_envelope i boss (TargetActor ''ann'') None
     (MReviewDecision (ReviewDecision d c v boss 1 remark []))"

definition offer_message :: envelope where
  "offer_message = sample_envelope ''m8'' ann (TargetTeam ''web'') (Some 1)
     (MHandoffOffer (HandoffOffer ''h1'' ''req'' ''core'' ''web'' None remark))"

definition founded :: supervisor where
  "founded = run_ops sample_ext (supervisor_new ''ws'' 1)
     [OpActivatePrimary ''boss'', OpCreateTeam ''core'', OpRegister ''core'' ''ann'',
      OpCreateTeam ''web'', OpRegister ''web'' ''bob'']"

definition assigned :: supervisor where
  "assigned = run_ops sample_ext founded [OpApply request_message]"

definition rejected :: supervisor where
  "rejected = run_ops sample_ext assigned
     [OpApply (candidate_message ''m2'' first_candidate),
      OpApply (review_message ''m3'' ''d1'' first_candidate VerdictRejected)]"

definition offered :: supervisor where
  "offered = run_ops sample_ext assigned [OpApply offer_message]"

lemma founded_reachable: "reachable sample_ext founded"
  unfolding founded_def by (rule run_ops_reachable [OF reachable.new]) code_simp

lemma assigned_reachable: "reachable sample_ext assigned"
  unfolding assigned_def by (rule run_ops_reachable [OF founded_reachable]) code_simp

lemma offered_reachable: "reachable sample_ext offered"
  unfolding offered_def by (rule run_ops_reachable [OF assigned_reachable]) code_simp

lemma rejected_later: "leads_to sample_ext assigned rejected"
  unfolding rejected_def by (rule run_ops_leads_to) code_simp

lemmas rejected_reachable = leads_to_reachable [OF rejected_later assigned_reachable]

text \<open>The error of a restart from the state's own snapshot.\<close>

definition restart_refusal :: "supervisor \<Rightarrow> failure option" where
  "restart_refusal s =
     (case from_snapshot sample_ext (\<lambda>_. Some []) (snapshot s) of Inl e \<Rightarrow> Some e | Inr _ \<Rightarrow> None)"

lemma accepted_restart:
  assumes "restart_refusal s = None"
  obtains s' where "from_snapshot sample_ext (\<lambda>_. Some []) (snapshot s) = Inr s'"
  using assms by (auto simp: restart_refusal_def split: sum.splits)

lemma assigned_restarts: "restart_refusal assigned = None"
  by code_simp

end
