(* ===== verification/Exactly_Once.thy ===== *)
theory Exactly_Once
  imports Reachability
begin

text \<open>
  Messages and acknowledgements take effect once: a retry of an accepted message or of a recorded
  acknowledgement is recognised in every later state, in the mailbox and in the archive, and
  envelopes of a superseded generation are never accepted.
\<close>

section \<open>Retries of a message\<close>

text \<open>The checks of \<open>apply\<close> that come before the mailbox.\<close>

definition well_formed :: "ext \<Rightarrow> workspace_id \<Rightarrow> envelope \<Rightarrow> payload_digest \<Rightarrow> bool" where
  "well_formed x workspace env digest \<longleftrightarrow>
     validate_envelope_quota x env = Inr () \<and> envelope_validate env = Inr () \<and>
     e_workspace_id env = workspace \<and> digest_message x (e_message env) = Inr digest"

abbreviation retry_of :: "delivery_record \<Rightarrow> envelope \<Rightarrow> payload_digest \<Rightarrow> bool" where
  "retry_of d env digest \<equiv>
     exact_retry d (header_of env) (message_kind_of (e_message env)) digest
       (causal_message_of (e_message_id env) digest (e_message env))"

lemma apply_well_formed:
  assumes "apply_envelope x s env = (Inr outcome, s')"
  obtains digest where "well_formed x (s_workspace_id s) env digest"
  using assms unfolding apply_envelope_def Let_def
  by (elim attempt_InrE) (rule that, auto simp: well_formed_def result_simps)

lemma well_formed_unique:
  "well_formed x workspace env digest \<Longrightarrow> digest_message x (e_message env) = Inr digest' \<Longrightarrow> digest' = digest"
  by (simp add: well_formed_def)

lemma apply_known:
  assumes "well_formed x (s_workspace_id s) env digest"
    and "fmlookup (s_mailbox s) (e_message_id env) = Some d"
  shows "apply_envelope x s env =
    (if retry_of d env digest then Inr DuplicateMessage else Inl (Err DuplicateMessageConflict), s)"
  using assms by (simp add: apply_envelope_def well_formed_def reject_if_def)

lemma retry_mono: "delivery_le d d' \<Longrightarrow> retry_of d env digest \<Longrightarrow> retry_of d' env digest"
  by (simp add: exact_retry_def delivery_le_def)

lemma accepted_retry: "retry_of (accepted_record s env digest required reason) env digest"
  by (simp add: exact_retry_def accepted_record_def)

lemma applied_delivery:
  assumes ok: "work_keys s" and app: "apply_envelope x s env = (Inr outcome, s')"
    and digest: "digest_message x (e_message env) = Inr digest"
  obtains d where "fmlookup (s_mailbox s') (e_message_id env) = Some d" and "retry_of d env digest"
  using app
proof (rule apply_envelope_Inr)
  fix digest' sender plan required reason s1
  assume d': "digest_message x (e_message env) = Inr digest'"
    and recorded: "record_accepted x s1 env digest' required reason
             (request_state_for_observability s env) = (Inr Applied, s')"
  with digest have eq: "digest' = digest" by simp
  from recorded show thesis
  proof (rule record_accepted_Inr)
    fix sequence
    assume s': "s' = s1\<lparr>s_mailbox := fmmap (retire_delivery (s_requests s1))
               (fmupd (e_message_id env) (accepted_record s1 env digest' required reason) (s_mailbox s1)),
            s_audit := s_audit s1 @ [AuditEvent sequence (e_sent_at env) (e_team_id env)
              (e_team_epoch env)
              (MessageAccepted (e_message_id env) (message_kind_of (e_message env)) (Some digest'))],
            s_history_checkpoint := s_history_checkpoint s',
            s_pending_bulk_content := s_pending_bulk_content s1 @
              [PendingBulkContent (e_message_id env) digest' (e_message env)],
            s_nonterminal_request_counts := s_nonterminal_request_counts s',
            s_pending_observability := s_pending_observability s'\<rparr>"
    show thesis
      by (rule that [OF _ retry_mono [OF retire_delivery_le accepted_retry]]) (subst s'; simp add: eq)
  qed
next
  fix digest' d
  assume "s' = s" "digest_message x (e_message env) = Inr digest'"
    "fmlookup (s_mailbox s) (e_message_id env) = Some d" "retry_of d env digest'"
  with digest show thesis
    by (intro that) simp_all
qed

lemma later_retry:
  assumes ok: "aggregate_ok s" and app: "apply_envelope x s env = (Inr outcome, s')"
    and later: "leads_to x s' s''"
  shows "apply_envelope x s'' env = (Inr DuplicateMessage, s'')"
proof -
  obtain digest where wf: "well_formed x (s_workspace_id s) env digest"
    using app by (rule apply_well_formed)
  then have "digest_message x (e_message env) = Inr digest"
    by (simp add: well_formed_def)
  with wf_work_keys [OF aggregate_wf [OF ok]] app obtain d
    where d: "fmlookup (s_mailbox s') (e_message_id env) = Some d" "retry_of d env digest"
    by (rule applied_delivery)
  have g1: "grows s s'" and ok1: "aggregate_ok s'"
    using message_grows [OF ok app] messages.call_inv [OF ok app] .
  have g2: "grows s' s''"
    using leads_to_contract [OF later ok1] by simp
  obtain d' where d': "fmlookup (s_mailbox s'') (e_message_id env) = Some d'" "delivery_le d d'"
    using grows_mailboxD [OF g2 d(1)] by blast
  have "s_workspace_id s'' = s_workspace_id s"
    using g1 g2 by (simp add: grows_def)
  with wf have "well_formed x (s_workspace_id s'') env digest" by simp
  from apply_known [OF this d'(1)] retry_mono [OF d'(2) d(2)] show ?thesis by simp
qed

section \<open>Retries against the archive\<close>

lemma fst_attempt: "fst (attempt s m k) = ebind m (\<lambda>v. fst (k v))"
  by (cases m) simp_all

lemma ebind_reject_if: "ebind (reject_if b e) k = (if b then Inl e else k ())"
  by (simp add: reject_if_def)

lemma archived_retry_agrees:
  assumes "fmlookup (s_mailbox s) (e_message_id env) = Some d"
    and "e_message_id (d_envelope d) = e_message_id env"
  shows "classify_archived_retry x s env (delivery_snapshot_of d) = fst (apply_envelope x s env)"
  using assms
  by (simp add: classify_archived_retry_def apply_envelope_def Let_def fst_attempt ebind_reject_if
      delivery_snapshot_of_def exact_retry_def if_distrib [of fst] cong: if_cong)

section \<open>Retries of an acknowledgement\<close>

lemma has_historical_slot_mono:
  assumes "grows s s'" and "fmlookup (s_actors s) (ref_actor_id ref) \<noteq> None"
  shows "historical_recipient_for_actor s' target required ref =
    historical_recipient_for_actor s target required ref"
proof -
  from assms(2) obtain a where a: "fmlookup (s_actors s) (ref_actor_id ref) = Some a" by blast
  obtain a' where a': "fmlookup (s_actors s') (ref_actor_id ref) = Some a'" "actor_le a a'"
    using grows_actorD [OF assms(1) a] by blast
  then have "has_capability a' c = has_capability a c" "a_team_id a' = a_team_id a" for c
    by (simp_all add: actor_le_capability, simp add: actor_le_def)
  with a a' show ?thesis
    by (simp add: historical_recipient_for_actor_def)
qed

lemma acknowledge_known:
  assumes "ak_workspace_id ack = s_workspace_id s"
    and "fmlookup (s_mailbox s) (ak_message_id ack) = Some d"
    and "historical_recipient_for_actor s (e_target (d_envelope d)) (d_required_recipients d)
           (ak_actor ack) = Some slot"
    and "fmlookup (d_acknowledgements d) slot = Some existing"
  shows "acknowledge x s ack =
    (if existing = ack then Inr DuplicateAck else Inl (Err DuplicateAcknowledgementConflict), s)"
  using assms by (simp add: acknowledge_def Let_def reject_if_def)

lemma acknowledge_workspace:
  "acknowledge x s ack = (Inr outcome, s') \<Longrightarrow> ak_workspace_id ack = s_workspace_id s"
  unfolding acknowledge_def by (elim attempt_InrE) (simp add: result_simps)

lemma acknowledged_slot:
  assumes ok: "aggregate_ok s" and app: "acknowledge x s ack = (Inr Acknowledged, s')"
  obtains d d' slot where "fmlookup (s_mailbox s) (ak_message_id ack) = Some d"
    and "historical_recipient_for_actor s (e_target (d_envelope d)) (d_required_recipients d)
           (ak_actor ack) = Some slot"
    and "fmlookup (s_actors s) (ref_actor_id (ak_actor ack)) \<noteq> None"
    and "fmlookup (s_mailbox s') (ak_message_id ack) = Some d'" and "delivery_le d d'"
    and "fmlookup (d_acknowledgements d') slot = Some ack"
  using app
proof (rule acknowledge_Inr)
  fix d slot a recipient sequence
  let ?f = "\<lambda>d. d\<lparr>d_acknowledgements := fmupd recipient ack (d_acknowledgements d)\<rparr>"
  assume d: "fmlookup (s_mailbox s) (ak_message_id ack) = Some d"
    and slot: "historical_recipient_for_actor s (e_target (d_envelope d)) (d_required_recipients d)
             (ak_actor ack) = Some slot"
    and a: "current_actor s (ak_actor ack) = Inr a"
    and r: "current_recipient_for_actor s (e_target (d_envelope d)) (d_required_recipients d) a
             = Some recipient"
    and s': "s' = s\<lparr>s_mailbox := fmmap (retire_delivery (s_requests s))
             (fmmodify (ak_message_id ack) ?f (s_mailbox s)),
           s_audit := s_audit s @ [AuditEvent sequence (ak_acknowledged_at ack)
             (e_team_id (d_envelope d)) (e_team_epoch (d_envelope d))
             (MessageAcknowledged (ak_message_id ack) (ref_actor_id (ak_actor ack)))],
           s_history_checkpoint := s_history_checkpoint s',
           s_pending_observability := s_pending_observability s'\<rparr>"
  have "delivery_ok (ak_message_id ack) d"
    using ok d mail_okD by (auto simp: aggregate_ok_def)
  then have "recipient = slot"
    using slots_agree(1) [OF wf_actors_keyed [OF aggregate_wf [OF ok]] _ slot a r]
    by (simp add: delivery_ok_def)
  moreover have look: "fmlookup (s_mailbox s') (ak_message_id ack) =
      Some (retire_delivery (s_requests s) (?f d))"
    by (subst s') (simp add: d)
  moreover have "d_acknowledgements (retire_delivery (s_requests s) (?f d)) =
      fmupd recipient ack (d_acknowledgements d)"
    by (simp add: retire_delivery_def)
  moreover obtain d' where "fmlookup (s_mailbox s') (ak_message_id ack) = Some d'" "delivery_le d d'"
    using grows_mailboxD [OF acknowledgement_grows [OF ok app] d] by blast
  moreover have "fmlookup (s_actors s) (ref_actor_id (ak_actor ack)) \<noteq> None"
    using a by (auto simp: current_actor_def result_simps)
  ultimately show thesis
    using that [OF d slot] by simp
qed simp

lemma later_acknowledgement:
  assumes ok: "aggregate_ok s" and app: "acknowledge x s ack = (Inr Acknowledged, s')"
    and later: "leads_to x s' s''"
  shows "acknowledge x s'' ack = (Inr DuplicateAck, s'')"
proof -
  obtain d d' slot where d: "fmlookup (s_mailbox s) (ak_message_id ack) = Some d"
      "historical_recipient_for_actor s (e_target (d_envelope d)) (d_required_recipients d)
         (ak_actor ack) = Some slot"
    and known: "fmlookup (s_actors s) (ref_actor_id (ak_actor ack)) \<noteq> None"
    and d': "fmlookup (s_mailbox s') (ak_message_id ack) = Some d'" "delivery_le d d'"
      "fmlookup (d_acknowledgements d') slot = Some ack"
    using ok app by (rule acknowledged_slot)
  have g1: "grows s s'" and ok1: "aggregate_ok s'"
    using acknowledgement_grows [OF ok app] acknowledgements.call_inv [OF ok app] .
  have g2: "grows s' s''"
    using leads_to_contract [OF later ok1] by simp
  obtain d'' where d'': "fmlookup (s_mailbox s'') (ak_message_id ack) = Some d''" "delivery_le d' d''"
    using grows_mailboxD [OF g2 d'(1)] by blast
  have same: "d_envelope d'' = d_envelope d" "d_required_recipients d'' = d_required_recipients d"
    using d'(2) d''(2) by (simp_all add: delivery_le_def)
  have "fmlookup (d_acknowledgements d'') slot = Some ack"
    using d''(2) d'(3) by (simp add: delivery_le_def)
  moreover have "historical_recipient_for_actor s'' (e_target (d_envelope d''))
      (d_required_recipients d'') (ak_actor ack) = Some slot"
    using has_historical_slot_mono [OF grows_trans [OF g1 g2] known] d(2) by (simp add: same)
  moreover have "ak_workspace_id ack = s_workspace_id s''"
    using acknowledge_workspace [OF app] g1 g2 by (simp add: grows_def)
  ultimately show ?thesis
    using acknowledge_known [OF _ d''(1)] by simp
qed

section \<open>Superseded generations\<close>

text \<open>The envelope quotes an actor generation or a lease that is over.\<close>

definition superseded :: "supervisor \<Rightarrow> envelope \<Rightarrow> bool" where
  "superseded s env \<longleftrightarrow>
     e_policy_revision env \<noteq> s_policy_revision s \<or> e_primary_epoch env < s_primary_epoch s \<or>
     is_some_and (fmlookup (s_actors s) (ref_actor_id (e_sender env))) (\<lambda>a.
       ref_actor_epoch (e_sender env) < a_epoch a)"

text \<open>The sender belongs to a team and quotes a generation of it that is over.\<close>

definition team_superseded :: "supervisor \<Rightarrow> envelope \<Rightarrow> bool" where
  "team_superseded s env \<longleftrightarrow>
     is_some_and (fmlookup (s_actors s) (ref_actor_id (e_sender env))) (\<lambda>a. a_team_id a \<noteq> None) \<and>
     is_some_and (e_team_id env) (\<lambda>team.
       is_some_and (fmlookup (s_teams s) team) (\<lambda>t. e_team_epoch env \<noteq> None \<and>
         is_some_and (e_team_epoch env) (\<lambda>e. e < t_epoch t)))"

lemma superseded_mono: "grows s s' \<Longrightarrow> superseded s env \<Longrightarrow> superseded s' env"
proof -
  assume g: "grows s s'" and old: "superseded s env"
  show "superseded s' env"
  proof (cases "fmlookup (s_actors s) (ref_actor_id (e_sender env))")
    case None
    with g old show ?thesis by (auto simp: superseded_def grows_def)
  next
    case (Some a)
    obtain a' where "fmlookup (s_actors s') (ref_actor_id (e_sender env)) = Some a'" "actor_le a a'"
      using grows_actorD [OF g Some] by blast
    with g old Some show ?thesis
      by (auto simp: superseded_def grows_def actor_le_def)
  qed
qed

lemma superseded_unauthorized: "superseded s env \<Longrightarrow> authorize_envelope s env \<noteq> Inr a"
  using authorize_envelope_Inr(1-4) [of s env a] by (auto simp: superseded_def is_some_and_iff)

lemma team_superseded_mono:
  assumes "grows s s'" and "team_superseded s env"
  shows "team_superseded s' env"
proof -
  from assms(2) obtain a team t e where a: "fmlookup (s_actors s) (ref_actor_id (e_sender env)) = Some a"
      "a_team_id a \<noteq> None" and t: "e_team_id env = Some team" "fmlookup (s_teams s) team = Some t"
      "e_team_epoch env = Some e" "e < t_epoch t"
    by (auto simp: team_superseded_def is_some_and_iff)
  obtain a' where "fmlookup (s_actors s') (ref_actor_id (e_sender env)) = Some a'" "actor_le a a'"
    using grows_actorD [OF assms(1) a(1)] by blast
  moreover obtain t' where "fmlookup (s_teams s') team = Some t'" "team_le t t'"
    using grows_teamD [OF assms(1) t(2)] by blast
  ultimately show ?thesis
    using a t by (auto simp: team_superseded_def actor_le_def team_le_def)
qed

lemma team_superseded_unauthorized:
  assumes "team_superseded s env"
  shows "authorize_envelope s env \<noteq> Inr a"
proof
  assume auth: "authorize_envelope s env = Inr a"
  from assms obtain team t e where t: "e_team_id env = Some team" "fmlookup (s_teams s) team = Some t"
      "e_team_epoch env = Some e" "e < t_epoch t" and a: "a_team_id a \<noteq> None"
    using authorize_envelope_Inr(3) [OF auth] by (auto simp: team_superseded_def is_some_and_iff)
  obtain u where "fmlookup (s_teams s) team = Some u" and fence: "ensure_team_fence s env a team u = Inr a"
    using authorize_envelope_Inr(7) [OF auth t(1)] by blast
  with t have "u = t" by simp
  with ensure_team_fence_Inr(3) [OF fence] t a show False by auto
qed

lemma unauthorized_not_applied:
  assumes "\<And>a. authorize_envelope s env \<noteq> Inr a"
  shows "fst (apply_envelope x s env) \<noteq> Inr Applied"
proof
  assume "fst (apply_envelope x s env) = Inr Applied"
  then have "apply_envelope x s env = (Inr Applied, snd (apply_envelope x s env))"
    by (simp add: prod_eq_iff)
  then show False
    by (rule apply_envelope_Inr) (use assms in auto)
qed

lemma superseded_forever:
  assumes "aggregate_ok s" and "superseded s env \<or> team_superseded s env" and "leads_to x s s'"
  shows "fst (apply_envelope x s' env) \<noteq> Inr Applied"
proof (rule unauthorized_not_applied)
  fix a
  have "grows s s'"
    using leads_to_contract [OF assms(3,1)] by simp
  with assms(2) have "superseded s' env \<or> team_superseded s' env"
    using superseded_mono team_superseded_mono by blast
  then show "authorize_envelope s' env \<noteq> Inr a"
    using superseded_unauthorized team_superseded_unauthorized by blast
qed

end
