(* ===== verification/Inbox.thy ===== *)
theory Inbox
  imports Exactly_Once
begin

text \<open>
  What an actor sees of the mailbox: every message listed in its inbox can be acknowledged, and an
  acknowledged message is no longer listed.
\<close>

lemma unacknowledged_Inr:
  assumes "unacknowledged_message_ids_for s ref = Inr ids" and "m \<in> set ids"
  obtains a d where "current_actor s ref = Inr a" and "a_status a = ActorHealthy"
    and "d \<in> set (fmvals (s_mailbox s))" and "awaits_ack_from s a d"
    and "e_message_id (d_envelope d) = m"
  using assms
  by (auto simp: unacknowledged_message_ids_for_def result_simps delivery_ids_def split: if_splits)

lemma mailbox_keyed:
  "mail_ok (s_mailbox s) \<Longrightarrow> fmlookup (s_mailbox s) k = Some d \<Longrightarrow> e_message_id (d_envelope d) = k"
  using mail_okD by (auto simp: delivery_ok_def)

text \<open>The slot of the current generation is also found by the historical lookup.\<close>

lemma current_is_historical:
  assumes keyed: "actors_keyed s" and a: "fmlookup (s_actors s) i = Some a"
    and one: "one_slot_each required"
    and r: "current_recipient_for_actor s target required a = Some recipient"
  shows "historical_recipient_for_actor s target required (actor_ref_of a) = Some recipient"
proof -
  have look: "fmlookup (s_actors s) (a_actor_id a) = Some a"
    using keyed a by (auto simp: actors_keyed_def)
  show ?thesis
  proof (cases "target \<in> {TargetPrimary, TargetWorkspace} \<and> RecipientPrimary |\<in>| required \<and>
      has_capability a HUMAN_FACING_PRIMARY \<and> a_team_id a = None")
    case True
    with r look show ?thesis
      by (auto simp: historical_recipient_for_actor_def current_recipient_for_actor_def split: if_splits)
  next
    case False
    obtain t :: team where c: "bs_find (\<lambda>r. case r of
          RecipientActor actor epoch \<Rightarrow> actor = actor_ref_of a \<and> epoch = t_epoch t | _ \<Rightarrow> False) required
        = Some recipient"
      using r unfolding current_recipient_for_actor_def if_not_P [OF False] by (auto split: option.splits)
    let ?P = "\<lambda>r. case r of RecipientActor actor _ \<Rightarrow> actor = actor_ref_of a | _ \<Rightarrow> False"
    obtain e where rec: "recipient = RecipientActor (actor_ref_of a) e" "recipient |\<in>| required"
      using bs_find_SomeD [OF c] by (auto split: delivery_recipient.splits)
    then obtain w where w: "bs_find ?P required = Some w"
      using bs_find_None_iff [of ?P required] by fastforce
    then have "w = recipient"
      using bs_find_SomeD [OF w] rec one by (auto simp: one_slot_each_def split: delivery_recipient.splits)
    with w False look show ?thesis
      by (auto simp: historical_recipient_for_actor_def)
  qed
qed


lemma append_audit_returns:
  assumes "checked_inc (h_audit_event_count (s_history_checkpoint s)) = Some sequence"
    and "\<And>event. x_json_audit_event x event \<noteq> None"
  shows "fst (sbind (append_audit x s at team epoch kind) (\<lambda>u s1. (Inr v, f u s1))) = Inr v"
proof -
  obtain bytes where "x_json_audit_event x (AuditEvent sequence at team epoch kind) = Some bytes"
    using assms(2) by blast
  with assms(1) show ?thesis
    by (simp add: append_audit_def Let_def digest_audit_event_def)
qed

lemma inbox_acknowledgeable:
  assumes ok: "aggregate_ok s" and inbox: "unacknowledged_message_ids_for s ref = Inr ids"
    and m: "m \<in> set ids"
    and room: "ensure_audit_capacity s = Inr ()"
      "\<And>d. fmlookup (s_mailbox s) m = Some d \<Longrightarrow> fmsize (d_acknowledgements d) < MAX_ACKNOWLEDGEMENTS"
    and json: "\<And>event. x_json_audit_event x event \<noteq> None"
  shows "fst (acknowledge x s (Acknowledgement (s_workspace_id s) m ref at)) = Inr Acknowledged"
proof -
  have parts: "supervisor_ok s" "mail_ok (s_mailbox s)"
    using ok by (simp_all add: aggregate_ok_def)
  obtain a d where a: "current_actor s ref = Inr a" "a_status a = ActorHealthy"
    and d: "d \<in> set (fmvals (s_mailbox s))" "awaits_ack_from s a d" "e_message_id (d_envelope d) = m"
    using inbox m by (rule unacknowledged_Inr)
  then have look: "fmlookup (s_mailbox s) m = Some d"
    using mailbox_keyed [OF parts(2)] by (auto simp: in_fmvals_iff)
  obtain recipient where r: "current_recipient_for_actor s (e_target (d_envelope d))
        (d_required_recipients d) a = Some recipient"
    and slot: "slot_open s d a recipient" "\<not> fmhas (d_acknowledgements d) recipient"
    using d(2) by (auto simp: awaits_ack_from_def is_some_and_iff)
  have act: "fmlookup (s_actors s) (ref_actor_id ref) = Some a" "actor_ref_of a = ref"
  proof -
    show *: "fmlookup (s_actors s) (ref_actor_id ref) = Some a"
      using a by (auto simp: current_actor_def result_simps split: if_splits)
    have "a_epoch a = ref_actor_epoch ref"
      using a by (auto simp: current_actor_def result_simps split: if_splits)
    moreover have "a_actor_id a = ref_actor_id ref"
      using wf_actors_keyed [OF parts(1)] * by (simp add: actors_keyed_def)
    ultimately show "actor_ref_of a = ref"
      by (cases ref) (simp add: actor_ref_of_def)
  qed
  have "delivery_ok m d"
    using parts(2) look by (rule mail_okD)
  then have hist: "historical_recipient_for_actor s (e_target (d_envelope d))
      (d_required_recipients d) ref = Some recipient"
    using current_is_historical [OF wf_actors_keyed [OF parts(1)] act(1) _ r] act(2)
    by (simp add: delivery_ok_def)
  have none: "fmlookup (d_acknowledgements d) recipient = None"
    using slot(2) by (simp add: fmhas_def)
  obtain sequence where seq: "checked_inc (h_audit_event_count (s_history_checkpoint s)) = Some sequence"
    using room(1) by (auto simp: ensure_audit_capacity_def result_simps split: if_splits)
  have "\<not> MAX_ACKNOWLEDGEMENTS \<le> fmsize (d_acknowledgements d)"
    using room(2) [OF look] by simp
  then show ?thesis
    using look hist none a r slot(1) room(1) seq json
    by (simp add: acknowledge_def Let_def reject_if_def append_audit_returns)
qed

lemma acknowledged_leaves_inbox:
  assumes ok: "aggregate_ok s" and app: "acknowledge x s ack = (Inr Acknowledged, s')"
    and inbox: "unacknowledged_message_ids_for s' (ak_actor ack) = Inr ids"
  shows "ak_message_id ack \<notin> set ids"
proof
  assume "ak_message_id ack \<in> set ids"
  with inbox obtain a d where a: "current_actor s' (ak_actor ack) = Inr a"
    and d: "d \<in> set (fmvals (s_mailbox s'))" "awaits_ack_from s' a d"
      "e_message_id (d_envelope d) = ak_message_id ack"
    by (rule unacknowledged_Inr)
  have ok': "aggregate_ok s'"
    using ok app by (rule acknowledgements.call_inv)
  then have parts: "supervisor_ok s'" "mail_ok (s_mailbox s')"
    by (simp_all add: aggregate_ok_def)
  have look: "fmlookup (s_mailbox s') (ak_message_id ack) = Some d"
    using mailbox_keyed [OF parts(2)] d(1,3) by (auto simp: in_fmvals_iff)
  obtain recipient where r: "current_recipient_for_actor s' (e_target (d_envelope d))
        (d_required_recipients d) a = Some recipient" "\<not> fmhas (d_acknowledgements d) recipient"
    using d(2) by (auto simp: awaits_ack_from_def is_some_and_iff)
  obtain d0 d1 slot where d0: "fmlookup (s_mailbox s) (ak_message_id ack) = Some d0"
      "historical_recipient_for_actor s (e_target (d_envelope d0)) (d_required_recipients d0)
           (ak_actor ack) = Some slot"
    and known: "fmlookup (s_actors s) (ref_actor_id (ak_actor ack)) \<noteq> None"
    and d1: "fmlookup (s_mailbox s') (ak_message_id ack) = Some d1" "delivery_le d0 d1"
      "fmlookup (d_acknowledgements d1) slot = Some ack"
    using ok app by (rule acknowledged_slot)
  have "d1 = d" using d1(1) look by simp
  have "historical_recipient_for_actor s' (e_target (d_envelope d)) (d_required_recipients d)
      (ak_actor ack) = Some slot"
    using has_historical_slot_mono [OF acknowledgement_grows [OF ok app] known] d0(2) d1(2) \<open>d1 = d\<close>
    by (simp add: delivery_le_def)
  moreover have "one_slot_each (d_required_recipients d)"
    using mail_okD [OF parts(2) look] by (simp add: delivery_ok_def)
  ultimately have "recipient = slot"
    using slots_agree(1) [OF wf_actors_keyed [OF parts(1)] _ _ a r(1)] by blast
  with r(2) d1(3) \<open>d1 = d\<close> show False
    by (simp add: fmhas_def)
qed

end
