(* ===== verification/Panic_Absence.thy ===== *)
theory Panic_Absence
  imports Inbox
begin

text \<open>
  The message operations return: no reachable state and no envelope make \<open>apply\<close> or \<open>acknowledge\<close>
  reach an \<^verbatim>\<open>expect\<close> that fails, as long as an audit event serializes.
\<close>

section \<open>Guards and recipients\<close>

lemma calm_digests [calm_intros]:
  "calm (digest_message x m)"
  "calm (validate_envelope_quota x env)"
  "calm (ensure_audit_capacity s)"
  "calm (plan_of_recipients rs)"
  unfolding digest_message_def validate_envelope_quota_def ensure_audit_capacity_def plan_of_recipients_def
  by (auto intro!: calm_intros simp: ok_or_def quota_def split: list.split option.split)

lemma calm_authorize:
  assumes "e_team_id env \<noteq> None \<Longrightarrow> e_team_epoch env \<noteq> None"
  shows "calm (authorize_envelope s env)"
  unfolding authorize_envelope_def ensure_team_fence_def Let_def
  by (intro calm_intros) (use assms in auto)

lemma calm_actor_recipient:
  assumes "supervisor_ok s" and "\<exists>i. fmlookup (s_actors s) i = Some a"
  shows "calm (actor_delivery_recipient s a)"
proof -
  have "is_none_or (a_team_id a) (fmhas (s_teams s))"
    using assms by (auto simp: supervisor_ok_def actors_ok_def)
  then show ?thesis
    unfolding actor_delivery_recipient_def by (intro calm_intros) (auto simp: fmhas_def)
qed

lemma calm_actor_recipients:
  "supervisor_ok s \<Longrightarrow> known_actors s as \<Longrightarrow> calm (actor_delivery_recipients s as)"
proof (induction as)
  case (Cons a as)
  then show ?case
    by (auto intro!: calm_intros calm_actor_recipient simp: known_actors_def)
qed simp

lemma known_actors_members: "known_actors s (filter P (List.map_filter (fmlookup (s_actors s)) is))"
  by (auto simp: known_actors_def List.map_filter_def)

lemma known_actors_all: "known_actors s (filter P (fmvals (s_actors s)))"
  by (auto simp: known_actors_def in_fmvals_iff)

lemma calm_directive_recipients: "supervisor_ok s \<Longrightarrow> calm (directive_team_recipients s team)"
  unfolding directive_team_recipients_def Let_def
  by (intro calm_intros calm_actor_recipients known_actors_members)

lemma calm_target_plan:
  assumes "supervisor_ok s"
  shows "calm (target_recipient_plan s env)"
proof -
  note recipients = calm_actor_recipients [OF assms known_actors_members]
    calm_actor_recipients [OF assms known_actors_all] calm_directive_recipients [OF assms]
  have "\<not> team_is_terminal s team" if "fmlookup (s_teams s) team = None" for team
    using that by (simp add: team_is_terminal_def)
  then show ?thesis
    unfolding target_recipient_plan_def
    by (cases "e_target env")
      (auto intro!: calm_intros recipients calm_actor_recipient [OF assms] simp: result_simps)
qed

lemma calm_plan:
  assumes "supervisor_ok s"
  shows "calm (delivery_recipient_plan s env)"
  unfolding delivery_recipient_plan_def
  by (intro calm_intros calm_target_plan assms)

section \<open>Handlers\<close>

lemma calm_directive: "supervisor_ok s \<Longrightarrow> calm (apply_primary_directive s env a)"
  unfolding apply_primary_directive_def
  by (intro calm_intros) (auto intro!: calm_intros calm_directive_recipients split: message_target.split)

lemma never_panics_read_only [calm_intros]: "calm r \<Longrightarrow> never_panics (read_only s r)"
  by (cases r) (simp_all add: read_only_def never_panics_def calm_def)

lemma never_panics_apply_message:
  assumes "supervisor_ok s"
  shows "never_panics (apply_message s env a digest)"
  unfolding apply_message_def dispatch_message_def
  by (cases "e_message env"; simp only: message.case;
      intro calm_intros wf_work_keys calm_directive assms; assumption)

lemma calm_checked_plan:
  assumes "supervisor_ok s"
  shows "calm (checked_plan s env a digest)"
proof -
  have "calm (fst (apply_message s env a digest))"
    using never_panics_apply_message [OF assms] by (simp add: never_panics_def)
  then show ?thesis
    using calm_plan [OF assms, of env] unfolding checked_plan_def
    by (auto intro!: calm_intros split: sum.split failure.split)
qed

section \<open>The audit event\<close>

lemma never_panics_append_audit:
  assumes "checked_inc (h_audit_event_count (s_history_checkpoint s)) \<noteq> None"
    and "\<And>event. x_json_audit_event x event \<noteq> None"
  shows "never_panics (append_audit x s at team epoch kind)"
proof -
  have "\<exists>digest. digest_audit_event x event = Inr digest" for event
    using assms(2) [of event] by (auto simp: digest_audit_event_def)
  then have "calm (case digest_audit_event x event of
      Inl e \<Rightarrow> Inl (Panic ''AuditEvent always serializes to canonical JSON'') | Inr digest \<Rightarrow> Inr digest)" for event
    by (metis calm_Inr sum.case(2))
  with assms(1) show ?thesis
    unfolding append_audit_def Let_def by (intro calm_intros)
qed

lemma never_panics_record_accepted:
  assumes "checked_inc (h_audit_event_count (s_history_checkpoint s)) \<noteq> None"
    and "\<And>event. x_json_audit_event x event \<noteq> None"
  shows "never_panics (record_accepted x s env digest required reason before)"
proof -
  obtain teams credit s1 where observed:
      "observe_accepted s (header_of env) required before = ((teams, credit), s1)"
    by (metis prod.collapse)
  have "s_history_checkpoint s1 = s_history_checkpoint s"
    by (subst observe_accepted_fields [OF observed]) simp
  then show ?thesis
    unfolding record_accepted_def Let_def observed prod.case
    by (intro never_panics_sbind never_panics_append_audit assms(2) never_panics_Inr) (use assms(1) in simp)
qed

lemma room_for_audit:
  "ensure_audit_capacity s = Inr u \<Longrightarrow> checked_inc (h_audit_event_count (s_history_checkpoint s)) \<noteq> None"
  by (auto simp: ensure_audit_capacity_def result_simps)

section \<open>The operations\<close>

lemma apply_envelope_calm:
  assumes ok: "supervisor_ok s" and json: "\<And>event. x_json_audit_event x event \<noteq> None"
  shows "never_panics (apply_envelope x s env)"
proof -
  have fence: "calm (authorize_envelope s env)"
    if "map_err (Err \<circ> Validation) (envelope_validate env) = Inr u" for u
    by (rule calm_authorize) (rule envelope_team_epoch [OF that])
  have recorded: "never_panics (record_accepted x s1 env digest required reason before)"
    if "ensure_audit_capacity s = Inr u" and "apply_message s env a digest = (Inr (), s1)"
    for u a s1 digest required reason before
  proof (rule never_panics_record_accepted [OF _ json])
    from apply_message_step [OF wf_work_keys [OF ok] that(2)]
    have "work_step s env a digest s1" .
    then show "checked_inc (h_audit_event_count (s_history_checkpoint s1)) \<noteq> None"
      using room_for_audit [OF that(1)] by (simp add: work_step_fields)
  qed
  show ?thesis
    unfolding apply_envelope_def Let_def
    by (intro calm_intros fence recorded calm_checked_plan ok never_panics_apply_message;
        (assumption | simp add: never_panics_def)?)
qed

lemma acknowledge_calm:
  assumes "\<And>event. x_json_audit_event x event \<noteq> None"
  shows "never_panics (acknowledge x s ack)"
  unfolding acknowledge_def Let_def
  by (intro calm_intros never_panics_append_audit assms) (auto dest: room_for_audit)

end
