(* ===== verification/Restore_Facts.thy ===== *)
theory Restore_Facts
  imports Reachability Snapshot
begin

text \<open>
  The entity validators of \<open>from_snapshot\<close> accept what \<open>snapshot\<close> writes: restoring the actors,
  teams and runs of a persisted aggregate gives back the maps it had, and the checks of the active
  Primary and of the links between requests and runs pass.
\<close>

section \<open>Restoring a sorted list of values\<close>

lemma check_allI: "(\<And>v i. v \<in> set vs \<Longrightarrow> f i v = Inr ()) \<Longrightarrow> check_all_from n f vs = Inr ()"
  by (induction vs arbitrary: n) simp_all

lemma restore_from_fresh:
  assumes "\<And>i v. v \<in> set vs \<Longrightarrow> check i v = Inr ()" and "distinct (map key vs)"
    and "\<And>v. v \<in> set vs \<Longrightarrow> \<not> fmhas m (key v)"
  shows "restore_from check key path reason i m vs = Inr (fold (\<lambda>v m. fmupd (key v) v m) vs m)"
  using assms
proof (induction vs arbitrary: i m)
  case (Cons v vs)
  have "restore_from check key path reason (Suc i) (fmupd (key v) v m) vs =
      Inr (fold (\<lambda>v m. fmupd (key v) v m) vs (fmupd (key v) v m))"
    by (rule Cons.IH) (use Cons.prems in \<open>auto simp: image_iff\<close>)
  with Cons.prems show ?case by simp
qed simp

lemma fmlookup_fold_other:
  "k \<notin> key ` set vs \<Longrightarrow> fmlookup (fold (\<lambda>v m. fmupd (key v) v m) vs m) k = fmlookup m k"
  by (induction vs arbitrary: m) auto

lemma fmlookup_fold_insert:
  "distinct (map key vs) \<Longrightarrow> v \<in> set vs \<Longrightarrow>
   fmlookup (fold (\<lambda>v m. fmupd (key v) v m) vs m) (key v) = Some v"
proof (induction vs arbitrary: m)
  case (Cons w vs)
  show ?case
  proof (cases "v = w")
    case True
    with Cons.prems show ?thesis
      using fmlookup_fold_other [of "key w" key vs "fmupd (key w) w m"] by simp
  next
    case False
    with Cons show ?thesis by simp
  qed
qed simp

lemma fold_insert_fmvals:
  assumes keyed: "\<And>k v. fmlookup m k = Some v \<Longrightarrow> key v = k"
  shows "fold (\<lambda>v m. fmupd (key v) v m) (fmvals m) fmempty = m"
proof (rule fmap_ext)
  have distinct: "distinct (map key (fmvals m))"
    using keyed by (rule distinct_fmvals_keys)
  fix k
  show "fmlookup (fold (\<lambda>v m. fmupd (key v) v m) (fmvals m) fmempty) k = fmlookup m k"
  proof (cases "fmlookup m k")
    case None
    then have "k \<notin> key ` set (fmvals m)"
      using keyed by (fastforce simp: in_fmvals_iff)
    with None show ?thesis
      by (simp add: fmlookup_fold_other [of k key])
  next
    case (Some v)
    then have "v \<in> set (fmvals m)"
      by (auto simp: in_fmvals_iff)
    from fmlookup_fold_insert [OF distinct this, of fmempty] keyed [OF Some] Some show ?thesis
      by simp
  qed
qed

lemma restore_from_fmvals:
  assumes check: "\<And>i k v. fmlookup m k = Some v \<Longrightarrow> check i v = Inr ()"
    and keyed: "\<And>k v. fmlookup m k = Some v \<Longrightarrow> key v = k"
  shows "restore_from check key path reason 0 fmempty (fmvals m) = Inr m"
proof -
  have "restore_from check key path reason 0 fmempty (fmvals m) =
      Inr (fold (\<lambda>v m. fmupd (key v) v m) (fmvals m) fmempty)"
    by (rule restore_from_fresh [OF _ distinct_fmvals_keys [OF keyed]])
      (use check in \<open>auto simp: in_fmvals_iff\<close>)
  then show ?thesis
    by (simp add: fold_insert_fmvals [OF keyed])
qed

section \<open>What the invariant says of one entity\<close>

lemma wf_request:
  assumes "supervisor_ok s" and "fmlookup (s_requests s) k = Some q"
  obtains t r where "fmlookup (s_teams s) (q_team_id q) = Some t" and "q_team_epoch q \<le> t_epoch t"
    and "fmlookup (s_runs s) (q_run_id q) = Some r" and "run_matches_request r q"
    and "q_request_id q = k" and "q_workspace_id q = s_workspace_id s" and "q_status q \<noteq> Open"
    and "assignee_ok (s_actors s) q" and "review_ok (s_policy_revision s) q"
proof -
  have "request_ok (s_workspace_id s) (s_policy_revision s) (s_actors s) (s_teams s) (s_runs s) k q"
    using assms by (simp add: supervisor_ok_def work_ok_def)
  then show thesis
    using that unfolding request_ok_def is_some_and_iff by blast
qed

lemma wf_run:
  assumes "supervisor_ok s" and "fmlookup (s_runs s) j = Some r"
  obtains q where "fmlookup (s_requests s) (r_request_id r) = Some q" and "q_run_id q = j"
    and "r_run_id r = j" and "r_workspace_id r = s_workspace_id s"
proof -
  have "run_ok (s_workspace_id s) (s_requests s) j r"
    using assms by (simp add: supervisor_ok_def work_ok_def)
  then show thesis
    using that unfolding run_ok_def is_some_and_iff by blast
qed

lemma wf_actor:
  assumes "supervisor_ok s" and "fmlookup (s_actors s) i = Some a"
  shows "a_actor_id a = i" and "a_workspace_id a = s_workspace_id s" and "actor_validate a = Inr ()"
  using assms by (auto simp: supervisor_ok_def actors_ok_def)

section \<open>Members\<close>

lemma restore_actors_snapshot:
  assumes "supervisor_ok s"
  shows "restore_actors (s_workspace_id s) (fmvals (s_actors s)) = Inr (s_actors s)"
  unfolding restore_actors_def
  by (rule restore_from_fmvals)
    (use assms in \<open>auto simp: supervisor_ok_def actors_ok_def check_actor_def\<close>)

lemma check_team_actors_ok:
  assumes "distinct is" and "set seen \<inter> set is = {}" and "\<And>i. i \<in> set is \<Longrightarrow> member_ok actors t i"
  shows "check_team_actors actors path t seen is = Inr ()"
  using assms
proof (induction "is" arbitrary: seen)
  case (Cons i "is")
  have "check_team_actors actors path t (i # seen) is = Inr ()"
    by (rule Cons.IH) (use Cons.prems in auto)
  moreover obtain a where "fmlookup actors i = Some a" "a_team_id a = Some (t_team_id t)"
      "team_profile_matches_actor t a"
    using Cons.prems(3) [of i] by (auto simp: member_ok_def is_some_and_iff)
  ultimately show ?case
    using Cons.prems(2) by simp
qed simp

lemma restore_teams_snapshot:
  assumes "supervisor_ok s"
  shows "restore_teams (s_workspace_id s) (fmvals (s_teams s)) (s_actors s) = Inr (s_teams s)"
  unfolding restore_teams_def
proof (rule restore_from_fmvals)
  fix i k t
  assume t: "fmlookup (s_teams s) k = Some t"
  then have ok: "t_team_id t = k" "t_workspace_id t = s_workspace_id s" "team_validate t = Inr ()"
      "distinct (t_actors t)" "\<forall>i \<in> set (t_actors t). member_ok (s_actors s) t i"
    using assms by (auto simp: supervisor_ok_def teams_ok_def)
  then have "check_team_actors (s_actors s) path t [] (t_actors t) = Inr ()" for path
    by (intro check_team_actors_ok) auto
  with ok show "check_team (s_workspace_id s) (s_actors s) i t = Inr ()"
    by (simp add: check_team_def)
  show "t_team_id t = k" by (rule ok(1))
qed

lemma validate_lease:
  assumes "supervisor_ok s"
  shows "validate_active_primary (active_primary s) (s_actors s) = Inr ()"
proof -
  have lease: "lease_ok (s_active_primary s) (s_actors s)"
    using assms by (simp add: supervisor_ok_def)
  have sole: "s_active_primary s = Some (a_actor_id a)"
    if "a \<in> set (fmvals (s_actors s))" "is_primary_topology a" "a_status a = ActorHealthy" for a
    using lease that wf_actor(1) [OF assms] by (auto simp: lease_ok_def in_fmvals_iff)
  show ?thesis
  proof (cases "s_active_primary s")
    case None
    then show ?thesis
      using sole by (auto simp: validate_active_primary_def active_primary_def result_simps list_all_iff)
  next
    case (Some i)
    with lease obtain a where a: "fmlookup (s_actors s) i = Some a" "is_primary_topology a"
        "a_status a = ActorHealthy"
      by (auto simp: lease_ok_def is_some_and_iff)
    note id = wf_actor(1) [OF assms a(1)]
    have ref: "active_primary s = Some (actor_ref_of a)"
      by (simp add: active_primary_def Some a)
    have "a_actor_id b = i" if "b \<in> set (fmvals (s_actors s))" "is_primary_topology b"
        "a_status b = ActorHealthy" for b
      using sole [OF that] Some by simp
    then show ?thesis
      using a id by (simp add: validate_active_primary_def ref list_all_iff is_primary_topology_def require_def)
  qed
qed

section \<open>Work\<close>

lemma restore_runs_snapshot:
  assumes "supervisor_ok s"
  shows "restore_runs (s_workspace_id s) (fmvals (s_runs s)) (s_requests s) (s_teams s) = Inr (s_runs s)"
  unfolding restore_runs_def
proof (rule restore_from_fmvals)
  fix i j r
  assume r: "fmlookup (s_runs s) j = Some r"
  then obtain q where q: "fmlookup (s_requests s) (r_request_id r) = Some q" "q_run_id q = j"
    and run: "r_run_id r = j" "r_workspace_id r = s_workspace_id s"
    by (rule wf_run [OF assms])
  then obtain t where "fmlookup (s_teams s) (q_team_id q) = Some t" "q_team_epoch q \<le> t_epoch t"
      "run_matches_request r q"
    using r by (metis wf_request [OF assms q(1)] option.inject)
  then show "check_run (s_workspace_id s) (s_requests s) (s_teams s) i r = Inr ()"
    using q run by (auto simp: check_run_def run_matches_request_def fmhas_def require_def)
  show "r_run_id r = j" by (rule run(1))
qed

lemma validate_links:
  assumes "supervisor_ok s"
  shows "validate_request_run_links (s_requests s) (s_runs s) = Inr ()"
proof -
  have "check_request_run (s_runs s) q = Inr ()" if "fmlookup (s_requests s) k = Some q" for k q
    using assms that by (rule wf_request) (simp add: check_request_run_def)
  then have "check_all_from 0 (\<lambda>_. check_request_run (s_runs s)) (fmvals (s_requests s)) = Inr ()"
    by (intro check_allI) (auto simp: in_fmvals_iff)
  moreover have "check_run_request (s_requests s) r = Inr ()" if "fmlookup (s_runs s) j = Some r" for j r
    using assms that by (rule wf_run) (simp add: check_run_request_def)
  then have "check_all_from 0 (\<lambda>_. check_run_request (s_requests s)) (fmvals (s_runs s)) = Inr ()"
    by (intro check_allI) (auto simp: in_fmvals_iff)
  ultimately show ?thesis
    by (simp add: validate_request_run_links_def)
qed

end
