(* ===== verification/Restart_Round_Trip.thy ===== *)
theory Restart_Round_Trip
  imports Restore_Facts
begin

text \<open>
  A restart is the identity: when \<open>from_snapshot\<close> accepts the snapshot of an aggregate, it gives
  back the aggregate, apart from the queues that a snapshot leaves out.
\<close>

section \<open>Requests, handoffs and the history checkpoint\<close>

lemma restored_requests_fold:
  "restore_requests_from check i ds m qs = Inr m' \<Longrightarrow>
   m' = fold (\<lambda>q m. fmupd (q_request_id q) q m) qs m"
proof (induction qs arbitrary: i ds m)
  case (Cons q qs)
  then obtain j ds' where
      "restore_requests_from check j ds' (fmupd (q_request_id q) q m) qs = Inr m'"
    by (auto simp: result_simps Let_def invalid_snapshot_def split: if_splits)
  from Cons.IH [OF this] show ?case by simp
qed simp

lemma restored_handoffs_fold:
  "restore_handoffs_from actors teams requests i seen m ps = Inr m' \<Longrightarrow>
   m' = fold (\<lambda>p m. fmupd (hr_handoff_id (ph_offer p)) p m) ps m"
proof (induction ps arbitrary: i seen m)
  case (Cons p ps)
  then obtain j seen' where
      "restore_handoffs_from actors teams requests j seen'
         (fmupd (hr_handoff_id (ph_offer p)) p m) ps = Inr m'"
    by (auto simp: result_simps Let_def invalid_snapshot_def split: if_splits option.splits)
  from Cons.IH [OF this] show ?case by simp
qed simp

lemma restored_history_checkpoint:
  assumes "restore_history_checkpoint x h audit = Inr h'" and "audit_ok audit h"
  shows "h' = h"
proof -
  have "\<not> (h = empty_history \<and> audit \<noteq> [])"
  proof
    assume "h = empty_history \<and> audit \<noteq> []"
    then have "last audit \<in> set audit" and "h_audit_event_count h = 0"
      by (simp_all add: empty_history_def)
    with assms(2) show False
      by (auto simp: audit_ok_def)
  qed
  with assms(1) show ?thesis
    unfolding restore_history_checkpoint_def adopt_legacy_audit_def
    by (auto simp: result_simps split: if_splits)
qed

section \<open>Deliveries\<close>

text \<open>The same delivery, with the same acknowledgements.\<close>

definition same_delivery :: "delivery_record \<Rightarrow> delivery_record \<Rightarrow> bool" where
  "same_delivery d r \<longleftrightarrow>
     r = d\<lparr>d_acknowledgements := d_acknowledgements r\<rparr> \<and>
     set (fmvals (d_acknowledgements r)) = set (fmvals (d_acknowledgements d))"

lemma restored_acknowledgement_values:
  "restore_acknowledgements i w header required actors m acks = Inr m' \<Longrightarrow>
   {a. \<exists>k. fmlookup m' k = Some a} = {a. \<exists>k. fmlookup m k = Some a} \<union> set acks"
proof (induction acks arbitrary: m)
  case (Cons a acks)
  then obtain slot where fresh: "\<not> fmhas m slot"
    and rest: "restore_acknowledgements i w header required actors (fmupd slot a m) acks = Inr m'"
    by (auto simp: result_simps invalid_snapshot_def split: option.splits if_splits)
  have "{b. \<exists>k. fmlookup (fmupd slot a m) k = Some b} = insert a {b. \<exists>k. fmlookup m k = Some b}"
    using fresh by (auto simp: fmhas_def split: if_splits) (metis option.distinct(1))
  with Cons.IH [OF rest] show ?case by auto
qed simp

lemma restored_undeliverable_fold:
  "restore_undeliverable i m us = Inr m' \<Longrightarrow>
   m' = fold (\<lambda>u m. fmupd (ur_recipient u) (ur_reason u) m) us m"
  by (induction us arbitrary: m) (auto simp: invalid_snapshot_def split: if_splits)

lemma fold_insert_pairs:
  "fold (\<lambda>u m. fmupd (ur_recipient u) (ur_reason u) m)
     (map (\<lambda>(r, reason). UndeliverableRecipient r reason) (sorted_list_of_fmap w)) fmempty = w"
proof -
  have "fold (\<lambda>u m. fmupd (ur_recipient u) (ur_reason u) m)
      (map (\<lambda>(r, reason). UndeliverableRecipient r reason) kvs) m =
      fold (\<lambda>(k, v) m. fmupd k v m) kvs m" for kvs and m :: "(delivery_recipient, delivery_retirement_reason) fmap"
    by (induction kvs arbitrary: m) auto
  moreover have "fmlookup (fold (\<lambda>(k, v) m. fmupd k v m) kvs m) k =
      (case map_of kvs k of Some v \<Rightarrow> Some v | None \<Rightarrow> fmlookup m k)"
    if "distinct (map fst kvs)" for kvs and m :: "(delivery_recipient, delivery_retirement_reason) fmap" and k
    using that
  proof (induction kvs arbitrary: m)
    case (Cons kv kvs)
    then show ?case
      by (cases kv) (auto split: option.splits simp: map_of_eq_None_iff [symmetric])
  qed simp
  moreover have "distinct (map fst (sorted_list_of_fmap w))"
    by (simp add: sorted_list_of_fmap_def comp_def sorted_list_of_fset.rep_eq)
  moreover have "map_of (sorted_list_of_fmap w) k = fmlookup w k" for k
    by simp
  ultimately show ?thesis
    by (intro fmap_ext) (simp split: option.splits)
qed

lemma restored_delivery_same:
  assumes "restore_delivery ctx i (delivery_snapshot_of d) = Inr r"
  shows "same_delivery d r"
proof -
  from assms obtain acks u where
      acks: "restore_acknowledgements i (hc_workspace_id ctx) (d_envelope d)
          (d_required_recipients d) (hc_actors ctx) fmempty (fmvals (d_acknowledgements d)) = Inr acks"
    and u: "restore_undeliverable i fmempty (map (\<lambda>(r, reason). UndeliverableRecipient r reason)
          (sorted_list_of_fmap (d_undeliverable_recipients d))) = Inr u"
    and r: "r = \<lparr>d_envelope = d_envelope d, d_message_kind = d_message_kind d,
          d_payload_digest = d_payload_digest d, d_causal = d_causal d,
          d_required_recipients = d_required_recipients d, d_acknowledgements = acks,
          d_undeliverable_recipients = u, d_retirement_reason = d_retirement_reason d,
          d_retired = d_retired d\<rparr>"
    by (rule restore_delivery_parts) (simp add: delivery_snapshot_of_def)
  have "u = d_undeliverable_recipients d"
    using restored_undeliverable_fold [OF u] by (simp add: fold_insert_pairs)
  moreover have "set (fmvals acks) = set (fmvals (d_acknowledgements d))"
    using restored_acknowledgement_values [OF acks] by (simp add: set_fmvals)
  ultimately show ?thesis
    by (simp add: same_delivery_def r)
qed

lemma restored_deliveries_same:
  assumes "restore_deliveries_from ctx i m (map delivery_snapshot_of ds) = Inr m'"
    and "distinct (map (\<lambda>d. e_message_id (d_envelope d)) ds)"
    and "\<And>d. d \<in> set ds \<Longrightarrow> \<not> fmhas m (e_message_id (d_envelope d))"
  shows "d \<in> set ds \<Longrightarrow> \<exists>r. fmlookup m' (e_message_id (d_envelope d)) = Some r \<and> same_delivery d r"
    and "k \<notin> (\<lambda>d. e_message_id (d_envelope d)) ` set ds \<Longrightarrow> fmlookup m' k = fmlookup m k"
proof -
  have "(\<forall>d \<in> set ds. \<exists>r. fmlookup m' (e_message_id (d_envelope d)) = Some r \<and> same_delivery d r) \<and>
      (\<forall>k. k \<notin> (\<lambda>d. e_message_id (d_envelope d)) ` set ds \<longrightarrow> fmlookup m' k = fmlookup m k)"
    using assms
  proof (induction ds arbitrary: i m)
    case (Cons d ds)
    let ?k = "e_message_id (d_envelope d)"
    have key: "e_message_id (ds_envelope (delivery_snapshot_of d)) = ?k"
      by (simp add: delivery_snapshot_of_def)
    from Cons.prems(1) obtain r where r: "restore_delivery ctx i (delivery_snapshot_of d) = Inr r"
      and rest: "restore_deliveries_from ctx (Suc i) (fmupd ?k r m) (map delivery_snapshot_of ds) = Inr m'"
      by (auto simp: result_simps key invalid_snapshot_def split: if_splits)
    have "(\<forall>d \<in> set ds. \<exists>r. fmlookup m' (e_message_id (d_envelope d)) = Some r \<and> same_delivery d r) \<and>
      (\<forall>k. k \<notin> (\<lambda>d. e_message_id (d_envelope d)) ` set ds \<longrightarrow> fmlookup m' k = fmlookup (fmupd ?k r m) k)"
      using rest by (rule Cons.IH) (use Cons.prems(2,3) in \<open>auto simp: image_iff\<close>)
    moreover have "?k \<notin> (\<lambda>d. e_message_id (d_envelope d)) ` set ds"
      using Cons.prems(2) by auto
    ultimately show ?case
      using restored_delivery_same [OF r] by auto
  qed simp
  then show "d \<in> set ds \<Longrightarrow> \<exists>r. fmlookup m' (e_message_id (d_envelope d)) = Some r \<and> same_delivery d r"
    and "k \<notin> (\<lambda>d. e_message_id (d_envelope d)) ` set ds \<Longrightarrow> fmlookup m' k = fmlookup m k"
    by blast+
qed

lemma restored_mailbox_same:
  assumes "restore_deliveries w (map delivery_snapshot_of (fmvals mailbox)) actors teams requests runs = Inr m'"
    and "mail_ok mailbox"
  shows "fmrel same_delivery mailbox m'"
proof (rule fmrelI)
  fix k
  have id: "e_message_id (d_envelope d) = j" if "fmlookup mailbox j = Some d" for j d
    using mail_okD [OF assms(2) that] by (simp add: delivery_ok_def)
  note same = restored_deliveries_same [OF assms(1) [unfolded restore_deliveries_def]
      distinct_fmvals_keys [OF id]]
  show "rel_option same_delivery (fmlookup mailbox k) (fmlookup m' k)"
  proof (cases "fmlookup mailbox k")
    case None
    then have "k \<notin> (\<lambda>d. e_message_id (d_envelope d)) ` set (fmvals mailbox)"
      using id by (fastforce simp: in_fmvals_iff)
    with same(2) None show ?thesis by simp
  next
    case (Some d)
    then have "d \<in> set (fmvals mailbox)"
      by (auto simp: in_fmvals_iff)
    then obtain r where "fmlookup m' k = Some r" and "same_delivery d r"
      using same(1) [of d] id [OF Some] by auto
    with Some show ?thesis by simp
  qed
qed

section \<open>The aggregate\<close>

lemma lease_holder_id:
  assumes "supervisor_ok s"
  shows "map_option ref_actor_id (active_primary s) = s_active_primary s"
proof (cases "s_active_primary s")
  case (Some i)
  then obtain a where a: "fmlookup (s_actors s) i = Some a"
    using assms by (auto simp: supervisor_ok_def lease_ok_def is_some_and_iff)
  then have "a_actor_id a = i"
    by (rule wf_actor(1) [OF assms])
  with Some a show ?thesis
    by (simp add: active_primary_def actor_ref_of_def)
qed (simp add: active_primary_def)

lemma restart_is_identity:
  assumes ok: "aggregate_ok s" and restored: "from_snapshot x j (snapshot s) = Inr s'"
  shows "s' = s\<lparr>s_mailbox := s_mailbox s',
           s_nonterminal_request_counts := s_nonterminal_request_counts s',
           s_pending_bulk_content := [], s_pending_observability := empty_observability\<rparr>"
    and "fmrel same_delivery (s_mailbox s) (s_mailbox s')"
proof -
  have wf: "supervisor_ok s" and mail: "mail_ok (s_mailbox s)" and prov: "provenance_ok s"
    and audit: "audit_ok (s_audit s) (s_history_checkpoint s)"
    using ok by (simp_all add: aggregate_ok_def)
  from restored obtain actors teams requests runs mailbox handoffs history counts where
      actors: "restore_actors (s_workspace_id s) (fmvals (s_actors s)) = Inr actors"
    and teams: "restore_teams (s_workspace_id s) (fmvals (s_teams s)) actors = Inr teams"
    and requests: "restore_requests (s_workspace_id s) (s_policy_revision s) (fmvals (s_requests s))
          actors teams = Inr requests"
    and runs: "restore_runs (s_workspace_id s) (fmvals (s_runs s)) requests teams = Inr runs"
    and mailbox: "restore_deliveries (s_workspace_id s) (map delivery_snapshot_of (fmvals (s_mailbox s)))
          actors teams requests runs = Inr mailbox"
    and handoffs: "restore_handoffs (fmvals (s_handoffs s)) actors teams requests = Inr handoffs"
    and history: "restore_history_checkpoint x (s_history_checkpoint s) (s_audit s) = Inr history"
    and s': "s' = \<lparr>s_workspace_id = s_workspace_id s, s_policy_revision = s_policy_revision s,
          s_primary_epoch = s_primary_epoch s,
          s_active_primary = map_option ref_actor_id (active_primary s),
          s_actors = actors, s_teams = teams, s_requests = requests, s_runs = runs,
          s_mailbox = mailbox, s_handoffs = handoffs, s_audit = s_audit s,
          s_history_checkpoint = history,
          s_observability_checkpoint = s_observability_checkpoint s,
          s_team_generation_checkpoint = s_team_generation_checkpoint s,
          s_pending_bulk_content = [], s_nonterminal_request_counts = counts,
          s_pending_observability = empty_observability\<rparr>"
    by (rule from_snapshot_parts) (simp add: snapshot_def)
  have [simp]: "actors = s_actors s"
    using actors restore_actors_snapshot [OF wf] by simp
  have [simp]: "teams = s_teams s"
    using teams restore_teams_snapshot [OF wf] by simp
  have "q_request_id q = k" if "fmlookup (s_requests s) k = Some q" for k q
    using wf that by (rule wf_request)
  from fold_insert_fmvals [where key = q_request_id, OF this]
  have [simp]: "requests = s_requests s"
    using restored_requests_fold [OF requests [unfolded restore_requests_def]] by simp
  have [simp]: "runs = s_runs s"
    using runs restore_runs_snapshot [OF wf] by simp
  have "hr_handoff_id (ph_offer p) = k" if "fmlookup (s_handoffs s) k = Some p" for k p
    using prov that by (simp add: provenance_ok_def handoffs_ok_def)
  from fold_insert_fmvals [where key = "\<lambda>p. hr_handoff_id (ph_offer p)", OF this]
  have [simp]: "handoffs = s_handoffs s"
    using restored_handoffs_fold [OF handoffs [unfolded restore_handoffs_def]] by simp
  have [simp]: "history = s_history_checkpoint s"
    using restored_history_checkpoint [OF history audit] .
  have "map_option ref_actor_id (active_primary s) = s_active_primary s"
    using wf by (rule lease_holder_id)
  then show "s' = s\<lparr>s_mailbox := s_mailbox s',
           s_nonterminal_request_counts := s_nonterminal_request_counts s',
           s_pending_bulk_content := [], s_pending_observability := empty_observability\<rparr>"
    by (simp add: s')
  show "fmrel same_delivery (s_mailbox s) (s_mailbox s')"
    using restored_mailbox_same [OF mailbox mail] by (simp add: s')
qed

end
