(* ===== verification/Restart_Gaps.thy ===== *)
theory Restart_Gaps
  imports Scenario Restart_Round_Trip
begin

text \<open>
  Where the live operations and the validators of a restart disagree. A rejection of a candidate that
  is already rejected, the reopening of a closed team that former members still name, and a handoff
  acceptance that is not addressed to the offering team are accepted by the live operations; the
  lemmas show for all states that \<open>from_snapshot\<close> refuses the snapshot taken afterwards.
\<close>

section \<open>What an accepted snapshot has passed\<close>





section \<open>A second rejection of one candidate\<close>




section \<open>A closed team that is created again\<close>



section \<open>A handoff acceptance on the wrong route\<close>

lemma replayed_event:
  assumes "replay_audit ch es rp = Inr rp'" and "e \<in> set es" and "au_kind e = MessageAccepted k kind digest"
  obtains d rp1 rp2 where "fmlookup (ch_mailbox ch) k = Some d"
    and "replay_apply ch (with_message (d_envelope d) (replay_message (d_causal d)))
           (d_payload_digest d) (d_required_recipients d) rp1 = Inr rp2"
  using assms
proof (induction es arbitrary: rp thesis)
  case (Cons e1 es)
  from Cons.prems(2) obtain rp1 where head: "replay_audit_event ch e1 rp = Inr rp1"
    and rest: "replay_audit ch es rp1 = Inr rp'"
    by (auto simp: result_simps)
  show ?case
  proof (cases "e = e1")
    case True
    with head Cons.prems(1,4) show ?thesis
      by (auto simp: replay_audit_event_def Let_def result_simps)
  next
    case False
    with Cons.prems(1,3,4) Cons.IH [OF _ rest] show ?thesis
      by auto
  qed
qed simp

lemma replayed_acceptance_route:
  assumes "replay_apply ch env digest required rp = Inr rp'" and "e_message env = MHandoffAcceptance acceptance"
  shows "e_target env = TargetTeam (ha_from_team_id acceptance)"
  using assms
  by (auto simp: replay_apply_def replay_dispatch_def replay_accept_handoff_def require_history_target_def
      require_Inr_iff Let_def elim!: ebind_InrE split: prod.splits)

lemma restorable_acceptance_route:
  assumes restored: "from_snapshot y g (snapshot s) = Inr r" and ok: "aggregate_ok s"
    and e: "e \<in> set (s_audit s)" "au_kind e = MessageAccepted k kind digest"
    and d: "fmlookup (s_mailbox s) k = Some d" "d_causal d = CausalHandoffAcceptance acceptance"
  shows "e_target (d_envelope d) = TargetTeam (ha_from_team_id acceptance)"
proof -
  from restored obtain actors teams requests runs mailbox handoffs where
      causal: "validate_causal_history
          (restored_history (snapshot s) mailbox actors teams requests runs handoffs) = Inr ()"
    and mailbox: "s_mailbox r = mailbox"
    by (rule from_snapshot_parts) simp
  let ?ch = "restored_history (snapshot s) mailbox actors teams requests runs handoffs"
  from causal obtain rp where "replay_audit ?ch (s_audit s) (replay_start ?ch) = Inr rp"
    by (auto simp: validate_causal_history_def restored_history_def snapshot_def result_simps)
  then obtain d' rp1 rp2 where d': "fmlookup mailbox k = Some d'"
    and replay: "replay_apply ?ch (with_message (d_envelope d') (replay_message (d_causal d')))
          (d_payload_digest d') (d_required_recipients d') rp1 = Inr rp2"
    using e by (rule replayed_event) (simp add: restored_history_def)
  have "rel_option same_delivery (fmlookup (s_mailbox s) k) (fmlookup (s_mailbox r) k)"
    using restart_is_identity(2) [OF ok restored] unfolding fmrel_iff by (rule spec)
  then have "same_delivery d d'"
    by (simp only: mailbox d(1) d' option.rel_inject)
  then obtain acks where "d' = d\<lparr>d_acknowledgements := acks\<rparr>"
    unfolding same_delivery_def by blast
  with replayed_acceptance_route [OF replay] d(2) show ?thesis
    by (simp add: with_message_def envelope_header.defs envelope.defs)
qed

lemma accepted_delivery:
  assumes "aggregate_ok s" and "apply_envelope x s env = (Inr Applied, s')"
  obtains e kind digest d where "e \<in> set (s_audit s')" and "au_kind e = MessageAccepted (e_message_id env) kind (Some digest)"
    and "fmlookup (s_mailbox s') (e_message_id env) = Some d" and "d_envelope d = header_of env"
    and "d_causal d = causal_message_of (e_message_id env) digest (e_message env)"
  using assms(2)
proof (rule apply_envelope_Inr)
  fix digest sender required reason s1
  assume "record_accepted x s1 env digest required reason
      (request_state_for_observability s env) = (Inr Applied, s')"
  then show thesis
  proof (rule record_accepted_Inr)
    fix sequence
    assume s': "s' = s1\<lparr>s_mailbox := fmmap (retire_delivery (s_requests s1))
               (fmupd (e_message_id env) (accepted_record s1 env digest required reason) (s_mailbox s1)),
            s_audit := s_audit s1 @ [AuditEvent sequence (e_sent_at env) (e_team_id env)
              (e_team_epoch env)
              (MessageAccepted (e_message_id env) (message_kind_of (e_message env)) (Some digest))],
            s_history_checkpoint := s_history_checkpoint s',
            s_pending_bulk_content := s_pending_bulk_content s1 @
              [PendingBulkContent (e_message_id env) digest (e_message env)],
            s_nonterminal_request_counts := s_nonterminal_request_counts s',
            s_pending_observability := s_pending_observability s'\<rparr>"
    let ?d = "retire_delivery (s_requests s1) (accepted_record s1 env digest required reason)"
    have d: "fmlookup (s_mailbox s') (e_message_id env) = Some ?d"
      by (subst s') simp
    have "AuditEvent sequence (e_sent_at env) (e_team_id env) (e_team_epoch env)
        (MessageAccepted (e_message_id env) (message_kind_of (e_message env)) (Some digest)) \<in> set (s_audit s')"
      by (subst s') simp
    then show thesis
      by (rule that [of _ "message_kind_of (e_message env)" digest, OF _ _ d])
        (simp_all add: retire_delivery_def accepted_record_def)
  qed
qed simp

lemma misrouted_acceptance_blocks_restart:
  assumes ok: "aggregate_ok s" and app: "apply_envelope x s env = (Inr Applied, s')"
    and msg: "e_message env = MHandoffAcceptance acceptance"
    and route: "e_target env \<noteq> TargetTeam (ha_from_team_id acceptance)"
    and ok': "aggregate_ok s2" and later: "grows s' s2"
  shows "from_snapshot y g (snapshot s2) \<noteq> Inr r"
proof
  assume restored: "from_snapshot y g (snapshot s2) = Inr r"
  from ok app obtain e kind digest d where e: "e \<in> set (s_audit s')"
      "au_kind e = MessageAccepted (e_message_id env) kind (Some digest)"
    and d: "fmlookup (s_mailbox s') (e_message_id env) = Some d" "d_envelope d = header_of env"
      "d_causal d = causal_message_of (e_message_id env) digest (e_message env)"
    by (rule accepted_delivery)
  from later d(1) obtain d2 where d2: "fmlookup (s_mailbox s2) (e_message_id env) = Some d2" "delivery_le d d2"
    unfolding grows_def fm_le_def by blast
  moreover have "e \<in> set (s_audit s2)"
    using later e(1) by (auto simp: grows_def prefix_def)
  ultimately have "e_target (d_envelope d2) = TargetTeam (ha_from_team_id acceptance)"
    by (intro restorable_acceptance_route [OF restored ok' _ e(2) d2(1)])
      (simp_all add: delivery_le_def d(3) msg)
  with d2(2) d(2) route show False
    by (simp add: delivery_le_def)
qed


section \<open>Properties\<close>

text \<open>
  C26: a handoff acceptance that \<open>apply\<close> admits although it is not addressed to the offering team
  (to the Primary, say) blocks every later restart: whatever operations follow it, \<open>from_snapshot\<close>
  refuses the snapshot of the state they lead to, because the replay of the causal history requires
  the route that the live handler did not check.
\<close>

theorem misrouted_acceptances_block_restarts:
  assumes "reachable x s" and "apply_envelope x s env = (Inr Applied, s')"
    and "e_message env = MHandoffAcceptance acceptance"
    and "e_target env \<noteq> TargetTeam (ha_from_team_id acceptance)"
    and "leads_to x s' s''"
  shows "from_snapshot y g (snapshot s'') \<noteq> Inr r"
proof -
  have "run_op x s (OpApply env) = (Inr (), s')"
    using assms(2) by simp
  then have "op_step x s (OpApply env) s'"
    by (rule op_step.intros)
  with assms(1) have "reachable x s'"
    by (rule reachable.step)
  then have "aggregate_ok s''" "grows s' s''"
    using leads_to_contract [OF assms(5)] by (simp_all add: reachable_ok)
  with reachable_ok [OF assms(1)] assms(2-4) show ?thesis
    by (intro misrouted_acceptance_blocks_restart)
qed

definition acceptance_message :: envelope where
  "acceptance_message = (sample_envelope ''m9'' bob TargetPrimary (Some 1)
     (MHandoffAcceptance (HandoffAcceptance ''h1'' ''req'' ''core'' ''web'' bob)))\<lparr>e_team_id := Some ''web''\<rparr>"


theorem misrouted_acceptances_block_restarts_witness:
  "\<exists>s'. apply_envelope sample_ext offered acceptance_message = (Inr Applied, s') \<and>
     (\<forall>y g r. from_snapshot y g (snapshot s') \<noteq> Inr r)"
proof -
  let ?s' = "snd (apply_envelope sample_ext offered acceptance_message)"
  have "fst (apply_envelope sample_ext offered acceptance_message) = Inr Applied"
    by code_simp
  then have applied: "apply_envelope sample_ext offered acceptance_message = (Inr Applied, ?s')"
    by (cases "apply_envelope sample_ext offered acceptance_message") simp
  have "from_snapshot y g (snapshot ?s') \<noteq> Inr r" for y g r
    by (rule misrouted_acceptances_block_restarts [OF offered_reachable applied _ _ leads_to.here,
          where acceptance = "HandoffAcceptance ''h1'' ''req'' ''core'' ''web'' bob"])
      (simp_all add: acceptance_message_def sample_envelope_def)
  with applied show ?thesis
    by blast
qed













end
