(* ===== verification/Archive_Validation.thy ===== *)
theory Archive_Validation
  imports From_Snapshot Guards
begin

text \<open>
  The validators of archived history in \<open>crates/agsv-core/src/supervisor.rs\<close>: one terminal request
  cycle, one group of messages without a request, and \<open>ArchivedFenceValidator\<close>, which is fed every
  archived delivery and then every hot one in audit order and keeps one fence per actor and team.
\<close>

section \<open>One archived group\<close>

definition archived_history ::
  "supervisor \<Rightarrow> audit_event list \<Rightarrow> (message_id, delivery_record) fmap \<Rightarrow>
   (request_id, request) fmap \<Rightarrow> (run_id, run) fmap \<Rightarrow>
   (request_id, replay_external_request) fmap option \<Rightarrow> causal_history" where
  "archived_history s audit mailbox requests runs external =
     \<lparr>ch_policy_revision = s_policy_revision s, ch_primary_epoch = s_primary_epoch s,
      ch_active_primary = active_primary s, ch_audit = audit, ch_mailbox = mailbox,
      ch_actors = s_actors s, ch_teams = s_teams s, ch_requests = requests, ch_runs = runs,
      ch_handoffs = fmempty, ch_external_requests = external,
      ch_require_completed_consultations = True\<rparr>"

definition is_consultation_response_fact :: "causal_message \<Rightarrow> bool" where
  "is_consultation_response_fact c =
     (case c of CausalConsultationResponse _ _ \<Rightarrow> True | _ \<Rightarrow> False)"

definition unrelated_to_cycle :: "request \<Rightarrow> run \<Rightarrow> delivery_snapshot \<Rightarrow> bool" where
  "unrelated_to_cycle q r d =
     (if e_request_id (ds_envelope d) = None \<and> e_run_id (ds_envelope d) = None
      then \<not> is_consultation_response_fact (ds_causal d)
      else e_request_id (ds_envelope d) \<noteq> Some (q_request_id q) \<or>
           e_run_id (ds_envelope d) \<noteq> Some (r_run_id r))"

definition validate_archived_terminal_cycle ::
  "supervisor \<Rightarrow> request \<Rightarrow> run \<Rightarrow> delivery_snapshot list \<Rightarrow> audit_event list \<Rightarrow>
   archived_request_reference list \<Rightarrow> failure + unit" where
  "validate_archived_terminal_cycle s q r deliveries audit referenced =
     ebind (require (is_terminal (q_status q)) ''archived_request.status''
              ''archived request cycle is not terminal'') (\<lambda>_.
     ebind (validate_archived_group_quota deliveries audit) (\<lambda>_.
     ebind (require (\<not> list_ex (unrelated_to_cycle q r) deliveries)
              ''archived_deliveries.envelope.request_id''
              ''terminal cycle contains unrelated request, run, or requestless history'') (\<lambda>_.
     ebind (restore_requests (s_workspace_id s) (s_policy_revision s) [q] (s_actors s) (s_teams s))
       (\<lambda>requests.
     ebind (restore_runs (s_workspace_id s) [r] requests (s_teams s)) (\<lambda>runs.
     ebind (validate_request_run_links requests runs) (\<lambda>_.
     ebind (restore_deliveries (s_workspace_id s) deliveries (s_actors s) (s_teams s) requests runs)
       (\<lambda>mailbox.
     ebind (validate_archived_audit audit mailbox) (\<lambda>_.
     ebind (restore_archived_request_references referenced (q_request_id q) (s_teams s)) (\<lambda>external.
     validate_causal_history (archived_history s audit mailbox requests runs (Some external)))))))))))"

definition validate_archived_requestless_history ::
  "supervisor \<Rightarrow> delivery_snapshot list \<Rightarrow> audit_event list \<Rightarrow> failure + unit" where
  "validate_archived_requestless_history s deliveries audit =
     ebind (validate_archived_group_quota deliveries audit) (\<lambda>_.
     ebind (require (\<not> list_ex (\<lambda>d. e_request_id (ds_envelope d) \<noteq> None \<or>
                                     e_run_id (ds_envelope d) \<noteq> None) deliveries)
              ''archived_deliveries.envelope.request_id''
              ''requestless archive group contains request-scoped history'') (\<lambda>_.
     ebind (restore_deliveries (s_workspace_id s) deliveries (s_actors s) (s_teams s) fmempty fmempty)
       (\<lambda>mailbox.
     ebind (validate_archived_audit audit mailbox) (\<lambda>_.
     validate_causal_history (archived_history s audit mailbox fmempty fmempty None)))))"

section \<open>The fences across groups\<close>

record fence_validator =
  fv_workspace_id :: workspace_id
  fv_policy_revision :: policy_revision
  fv_primary_epoch :: primary_epoch
  fv_active_primary :: "actor_ref option"
  fv_actors :: "(actor_id, actor) fmap"
  fv_teams :: "(team_id, team) fmap"
  fv_previous_audit_sequence :: u64
  fv_last_primary_epoch :: "primary_epoch option"
  fv_last_primary_actor :: "actor_id option"
  fv_actor_epochs :: "(actor_id, actor_epoch) fmap"
  fv_team_epochs :: "(team_id, team_epoch) fmap"

definition archived_fence_validator :: "supervisor \<Rightarrow> fence_validator" where
  "archived_fence_validator s =
     \<lparr>fv_workspace_id = s_workspace_id s, fv_policy_revision = s_policy_revision s,
      fv_primary_epoch = s_primary_epoch s, fv_active_primary = active_primary s,
      fv_actors = s_actors s, fv_teams = s_teams s, fv_previous_audit_sequence = 0,
      fv_last_primary_epoch = None, fv_last_primary_actor = None,
      fv_actor_epochs = fmempty, fv_team_epochs = fmempty\<rparr>"

text \<open>\<open>validate_next\<close> borrows the validator mutably and writes before its later checks, so its
  methods return the validator they leave on the failing paths too.\<close>

definition validate_primary_fence ::
  "fence_validator \<Rightarrow> delivery_snapshot \<Rightarrow> (failure + unit) \<times> fence_validator" where
  "validate_primary_fence v d =
     (let epoch = e_primary_epoch (ds_envelope d); sender = e_sender (ds_envelope d) in
     attempt v (require (\<not> is_some_and (fv_last_primary_epoch v) (\<lambda>previous. epoch < previous))
                  ''archived_delivery.envelope.primary_epoch''
                  ''accepted Primary epochs regress across archive groups'') (\<lambda>_.
     let v1 = (if fv_last_primary_epoch v \<noteq> Some epoch
               then v\<lparr>fv_last_primary_epoch := Some epoch, fv_last_primary_actor := None\<rparr>
               else v) in
     attempt v1 (ok_or (fmlookup (fv_actors v1) (ref_actor_id sender))
                   (Err (InvalidSnapshot ''archived_delivery.envelope.sender''
                      ''historical sender is missing''))) (\<lambda>a.
     if has_capability a HUMAN_FACING_PRIMARY \<and> a_team_id a = None then
       attempt v1 (require (\<not> (epoch = fv_primary_epoch v1 \<and> fv_active_primary v1 \<noteq> Some sender))
                     ''archived_delivery.envelope.sender''
                     ''current-epoch Primary sender is not the active Primary'') (\<lambda>_.
       attempt v1 (require (\<not> is_some_and (fv_last_primary_actor v1)
                                 (\<lambda>existing. existing \<noteq> a_actor_id a))
                     ''archived_delivery.envelope.primary_epoch''
                     ''multiple Primary actors used the same lease epoch across archive groups'') (\<lambda>_.
       (Inr (), v1\<lparr>fv_last_primary_actor := Some (a_actor_id a)\<rparr>)))
     else (Inr (), v1))))"

definition validate_team_fence ::
  "fence_validator \<Rightarrow> delivery_snapshot \<Rightarrow> actor \<Rightarrow>
   (failure + unit) \<times> fence_validator" where
  "validate_team_fence v d a =
     (case e_team_id (ds_envelope d) of
        None \<Rightarrow> (Inr (), v)
      | Some team_id \<Rightarrow>
          attempt v (ok_or (fmlookup (fv_teams v) team_id)
                       (Err (InvalidSnapshot ''archived_delivery.envelope.team_id''
                          ''historical team is missing''))) (\<lambda>t.
          attempt v (ok_or (e_team_epoch (ds_envelope d))
                       (Err (InvalidSnapshot ''archived_delivery.envelope.team_epoch''
                          ''team fence is missing''))) (\<lambda>epoch.
          attempt v (require
                       (\<not> (t_epoch t < epoch \<or>
                           a_team_id a \<noteq> None \<and>
                           is_some_and (fmlookup (fv_team_epochs v) team_id)
                             (\<lambda>previous. epoch < previous)))
                       ''archived_delivery.envelope.team_epoch''
                       ''accepted team epoch is impossible or regresses across archive groups'') (\<lambda>_.
          (Inr (), if a_team_id a \<noteq> None
                   then v\<lparr>fv_team_epochs := fmupd team_id epoch (fv_team_epochs v)\<rparr> else v)))))"

definition validate_actor_and_team_fences ::
  "fence_validator \<Rightarrow> delivery_snapshot \<Rightarrow> (failure + unit) \<times> fence_validator" where
  "validate_actor_and_team_fences v d =
     (let sender = e_sender (ds_envelope d) in
     attempt v (expect (fmlookup (fv_actors v) (ref_actor_id sender)) ''sender checked above'') (\<lambda>a.
     attempt v (require
                  (\<not> (a_epoch a < ref_actor_epoch sender \<or>
                      is_some_and (fmlookup (fv_actor_epochs v) (a_actor_id a))
                        (\<lambda>previous. ref_actor_epoch sender < previous)))
                  ''archived_delivery.envelope.sender.actor_epoch''
                  ''accepted actor epoch is impossible or regresses across archive groups'') (\<lambda>_.
     let v1 = v\<lparr>fv_actor_epochs :=
                 fmupd (a_actor_id a) (ref_actor_epoch sender) (fv_actor_epochs v)\<rparr> in
     attempt v1 (require (a_team_id a = None \<or> a_team_id a = e_team_id (ds_envelope d))
                   ''archived_delivery.envelope.team_id''
                   ''team actor used another team context'') (\<lambda>_.
     validate_team_fence v1 d a))))"

definition validate_next ::
  "fence_validator \<Rightarrow> u64 \<Rightarrow> delivery_snapshot \<Rightarrow>
   (failure + unit) \<times> fence_validator" where
  "validate_next v seq d =
     attempt v (require (seq \<noteq> 0 \<and> fv_previous_audit_sequence v < seq) ''archived_audit.sequence''
                  ''accepted audit sequence is zero, duplicated, or unordered'') (\<lambda>_.
     let v1 = v\<lparr>fv_previous_audit_sequence := seq\<rparr> in
     attempt v1 (map_err (Err \<circ> Validation \<circ> error_at ''archived_delivery.payload_digest'')
                   (payload_digest_validate (ds_payload_digest d))) (\<lambda>_.
     attempt v1 (require (ds_message_kind d = causal_kind (ds_causal d)) ''archived_delivery.causal''
                   ''causal message kind contradicts the archived payload kind'') (\<lambda>_.
     attempt v1 (validate_causal_content_ref 0 d) (\<lambda>_.
     attempt v1 (map_err (Err \<circ> Validation)
                   (envelope_validate (with_message (ds_envelope d) (replay_message (ds_causal d)))))
       (\<lambda>_.
     attempt v1 (require (e_workspace_id (ds_envelope d) = fv_workspace_id v1 \<and>
                          e_policy_revision (ds_envelope d) = fv_policy_revision v1 \<and>
                          e_primary_epoch (ds_envelope d) \<le> fv_primary_epoch v1)
                   ''archived_delivery.envelope''
                   ''workspace, policy, or Primary fence is inconsistent'') (\<lambda>_.
     sbind (validate_primary_fence v1 d) (\<lambda>_ v2.
     validate_actor_and_team_fences v2 d)))))))"

text \<open>A caller feeds the deliveries in order and stops at the first error.\<close>

fun validate_all ::
  "fence_validator \<Rightarrow> (u64 \<times> delivery_snapshot) list \<Rightarrow>
   (failure + unit) \<times> fence_validator" where
  "validate_all v [] = (Inr (), v)"
| "validate_all v ((seq, d) # ds) = sbind (validate_next v seq d) (\<lambda>_ v1. validate_all v1 ds)"

end
