(* ===== verification/Fence_Order.thy ===== *)
theory Fence_Order
  imports Archive_Validation
begin

text \<open>
  The fences of archived history. The locale \<open>monotone_fence\<close> is the contract of a validator that
  remembers the last epoch it saw for a key and refuses to go back; what it accepts is ordered.
  \<^verbatim>\<open>ArchivedFenceValidator\<close> is three such validators at once.
\<close>

section \<open>Validators that never go back\<close>

fun feed :: "('v \<Rightarrow> 'd \<Rightarrow> ('e + unit) \<times> 'v) \<Rightarrow> 'v \<Rightarrow> 'd list \<Rightarrow> ('e + unit) \<times> 'v" where
  "feed step v [] = (Inr (), v)"
| "feed step v (d # ds) = sbind (step v d) (\<lambda>_ w. feed step w ds)"

locale monotone_fence =
  fixes step :: "'v \<Rightarrow> 'd \<Rightarrow> ('e + unit) \<times> 'v"
    and key :: "'v \<Rightarrow> 'd \<Rightarrow> 'k option"
    and epoch :: "'d \<Rightarrow> u64"
    and floor_of :: "'v \<Rightarrow> 'k \<Rightarrow> u64 option"
  assumes key_fixed: "step v d = (Inr u, w) \<Longrightarrow> key w = key v"
    and admits: "step v d = (Inr u, w) \<Longrightarrow> key v d = Some k \<Longrightarrow> floor_of v k = Some f \<Longrightarrow> f \<le> epoch d"
    and moves: "step v d = (Inr u, w) \<Longrightarrow>
      floor_of w k = (if key v d = Some k then Some (epoch d) else floor_of v k)"
begin

lemma accepted_above:
  assumes "feed step v ds = (Inr u, w)" and "floor_of v k = Some f" and "d \<in> set ds" and "key v d = Some k"
  shows "f \<le> epoch d"
  using assms
proof (induction ds arbitrary: v f)
  case (Cons e ds)
  then obtain v1 where head: "step v e = (Inr (), v1)" and rest: "feed step v1 ds = (Inr u, w)"
    by (auto simp: result_simps)
  show ?case
  proof (cases "d = e")
    case True
    with admits [OF head] Cons.prems show ?thesis by simp
  next
    case False
    have "key v1 d = Some k"
      using key_fixed [OF head] Cons.prems(4) by simp
    moreover have "d \<in> set ds"
      using False Cons.prems(3) by simp
    moreover obtain g where "floor_of v1 k = Some g" and "f \<le> g"
      using moves [OF head, of k] admits [OF head _ Cons.prems(2)] Cons.prems(2)
      by (auto split: if_splits)
    ultimately show ?thesis
      using Cons.IH [OF rest] by (meson order_trans)
  qed
qed simp

theorem accepted_ordered:
  assumes "feed step v ds = (Inr u, w)"
  shows "sorted_wrt (\<lambda>d e. key v d \<noteq> None \<longrightarrow> key v e = key v d \<longrightarrow> epoch d \<le> epoch e) ds"
  using assms
proof (induction ds arbitrary: v)
  case (Cons d ds)
  then obtain v1 where head: "step v d = (Inr (), v1)" and rest: "feed step v1 ds = (Inr u, w)"
    by (auto simp: result_simps)
  have "epoch d \<le> epoch e" if "e \<in> set ds" "key v d \<noteq> None" "key v e = key v d" for e
  proof -
    from that obtain k where k: "key v d = Some k" by auto
    then have "floor_of v1 k = Some (epoch d)"
      using moves [OF head, of k] by simp
    moreover have "key v1 e = Some k"
      using key_fixed [OF head] that k by simp
    ultimately show ?thesis
      using accepted_above [OF rest _ that(1)] by blast
  qed
  with Cons.IH [OF rest] key_fixed [OF head] show ?case by simp
qed simp

end

section \<open>The archived fence validator\<close>

type_synonym archived_step = "u64 \<times> delivery_snapshot"

definition fence_step :: "fence_validator \<Rightarrow> archived_step \<Rightarrow> (failure + unit) \<times> fence_validator" where
  "fence_step v = (\<lambda>(seq, d). validate_next v seq d)"

lemma validate_all_feed: "validate_all v ds = feed fence_step v ds"
  by (induction ds arbitrary: v) (auto simp: fence_step_def)

abbreviation step_header :: "archived_step \<Rightarrow> envelope_header" where
  "step_header d \<equiv> ds_envelope (snd d)"

definition sender_record :: "fence_validator \<Rightarrow> archived_step \<Rightarrow> actor option" where
  "sender_record v d = fmlookup (fv_actors v) (ref_actor_id (e_sender (step_header d)))"

definition primary_sender :: "fence_validator \<Rightarrow> archived_step \<Rightarrow> bool" where
  "primary_sender v d \<longleftrightarrow>
     is_some_and (sender_record v d) (\<lambda>a. has_capability a HUMAN_FACING_PRIMARY \<and> a_team_id a = None)"

text \<open>The team whose fence a delivery moves: that of a sender who belongs to a team.\<close>

definition fenced_team :: "fence_validator \<Rightarrow> archived_step \<Rightarrow> team_id option" where
  "fenced_team v d =
     (if is_some_and (sender_record v d) (\<lambda>a. a_team_id a \<noteq> None) then e_team_id (step_header d) else None)"

definition team_epoch_of :: "archived_step \<Rightarrow> u64" where
  "team_epoch_of d = (case e_team_epoch (step_header d) of None \<Rightarrow> 0 | Some e \<Rightarrow> e)"


section \<open>What one accepted delivery establishes\<close>

lemma accepted_primary_fence:
  assumes "validate_primary_fence v d = (Inr u, w)"
  obtains a where "fmlookup (fv_actors v) (ref_actor_id (e_sender (ds_envelope d))) = Some a"
    and "is_none_or (fv_last_primary_epoch v) (\<lambda>previous. previous \<le> e_primary_epoch (ds_envelope d))"
    and "w = v\<lparr>fv_last_primary_epoch := Some (e_primary_epoch (ds_envelope d)),
             fv_last_primary_actor :=
               (if has_capability a HUMAN_FACING_PRIMARY \<and> a_team_id a = None then Some (a_actor_id a)
                else if fv_last_primary_epoch v = Some (e_primary_epoch (ds_envelope d))
                then fv_last_primary_actor v else None)\<rparr>"
    and "has_capability a HUMAN_FACING_PRIMARY \<and> a_team_id a = None \<and>
      fv_last_primary_epoch v = Some (e_primary_epoch (ds_envelope d)) \<longrightarrow>
      is_none_or (fv_last_primary_actor v) (\<lambda>existing. existing = a_actor_id a)"
proof -
  let ?e = "e_primary_epoch (ds_envelope d)"
  let ?v = "if fv_last_primary_epoch v \<noteq> Some ?e
       then v\<lparr>fv_last_primary_epoch := Some ?e, fv_last_primary_actor := None\<rparr> else v"
  have same: "fv_actors ?v = fv_actors v" by simp
  from assms obtain a where a: "fmlookup (fv_actors v) (ref_actor_id (e_sender (ds_envelope d))) = Some a"
    and above: "\<not> is_some_and (fv_last_primary_epoch v) (\<lambda>previous. ?e < previous)"
    and cases: "(if has_capability a HUMAN_FACING_PRIMARY \<and> a_team_id a = None
        then \<not> is_some_and (fv_last_primary_actor ?v) (\<lambda>existing. existing \<noteq> a_actor_id a) \<and>
          w = ?v\<lparr>fv_last_primary_actor := Some (a_actor_id a)\<rparr>
        else w = ?v)"
    unfolding validate_primary_fence_def Let_def
    by (auto simp: result_simps require_Inr_iff same split: if_splits)
  show thesis
    by (rule that [OF a])
      (use above cases in \<open>auto simp: is_some_and_def is_none_or_def split: option.splits if_splits\<close>)
qed

lemma accepted_team_fence:
  assumes "validate_team_fence v d a = (Inr u, w)"
  shows "w = v\<lparr>fv_team_epochs := fv_team_epochs w\<rparr>"
    and "fmlookup (fv_team_epochs w) k =
      (if a_team_id a \<noteq> None \<and> e_team_id (ds_envelope d) = Some k then e_team_epoch (ds_envelope d)
       else fmlookup (fv_team_epochs v) k)"
    and "a_team_id a \<noteq> None \<Longrightarrow> e_team_id (ds_envelope d) = Some k \<Longrightarrow>
      \<exists>epoch. e_team_epoch (ds_envelope d) = Some epoch \<and>
        is_none_or (fmlookup (fv_team_epochs v) k) (\<lambda>previous. previous \<le> epoch)"
  using assms unfolding validate_team_fence_def
  by (auto simp: result_simps require_Inr_iff is_some_and_def is_none_or_def not_less
      split: option.splits if_splits)

lemma accepted_next:
  assumes "validate_next v seq d = (Inr u, w)"
  obtains a where "fmlookup (fv_actors v) (ref_actor_id (e_sender (ds_envelope d))) = Some a"
    and "fv_previous_audit_sequence v < seq" and "fv_previous_audit_sequence w = seq"
    and "fv_actors w = fv_actors v"
    and "is_none_or (fv_last_primary_epoch v) (\<lambda>previous. previous \<le> e_primary_epoch (ds_envelope d))"
    and "fv_last_primary_epoch w = Some (e_primary_epoch (ds_envelope d))"
    and "fv_last_primary_actor w =
      (if has_capability a HUMAN_FACING_PRIMARY \<and> a_team_id a = None then Some (a_actor_id a)
       else if fv_last_primary_epoch v = Some (e_primary_epoch (ds_envelope d))
       then fv_last_primary_actor v else None)"
    and "has_capability a HUMAN_FACING_PRIMARY \<and> a_team_id a = None \<and>
      fv_last_primary_epoch v = Some (e_primary_epoch (ds_envelope d)) \<longrightarrow>
      is_none_or (fv_last_primary_actor v) (\<lambda>existing. existing = a_actor_id a)"
    and "is_none_or (fmlookup (fv_actor_epochs v) (a_actor_id a))
      (\<lambda>previous. previous \<le> ref_actor_epoch (e_sender (ds_envelope d)))"
    and "fv_actor_epochs w =
      fmupd (a_actor_id a) (ref_actor_epoch (e_sender (ds_envelope d))) (fv_actor_epochs v)"
    and "\<forall>k. fmlookup (fv_team_epochs w) k =
      (if a_team_id a \<noteq> None \<and> e_team_id (ds_envelope d) = Some k then e_team_epoch (ds_envelope d)
       else fmlookup (fv_team_epochs v) k)"
    and "\<forall>k. a_team_id a \<noteq> None \<and> e_team_id (ds_envelope d) = Some k \<longrightarrow>
      (\<exists>epoch. e_team_epoch (ds_envelope d) = Some epoch \<and>
        is_none_or (fmlookup (fv_team_epochs v) k) (\<lambda>previous. previous \<le> epoch))"
proof -
  let ?v = "v\<lparr>fv_previous_audit_sequence := seq\<rparr>"
  from assms obtain v2 where seq: "fv_previous_audit_sequence v < seq"
    and primary: "validate_primary_fence ?v d = (Inr (), v2)"
    and rest: "validate_actor_and_team_fences v2 d = (Inr u, w)"
    unfolding validate_next_def Let_def by (auto simp: result_simps require_Inr_iff)
  from primary obtain a where a: "fmlookup (fv_actors ?v) (ref_actor_id (e_sender (ds_envelope d))) = Some a"
    and above: "is_none_or (fv_last_primary_epoch ?v) (\<lambda>previous. previous \<le> e_primary_epoch (ds_envelope d))"
    and v2: "v2 = ?v\<lparr>fv_last_primary_epoch := Some (e_primary_epoch (ds_envelope d)),
             fv_last_primary_actor :=
               (if has_capability a HUMAN_FACING_PRIMARY \<and> a_team_id a = None then Some (a_actor_id a)
                else if fv_last_primary_epoch ?v = Some (e_primary_epoch (ds_envelope d))
                then fv_last_primary_actor ?v else None)\<rparr>"
    and sole: "has_capability a HUMAN_FACING_PRIMARY \<and> a_team_id a = None \<and>
      fv_last_primary_epoch ?v = Some (e_primary_epoch (ds_envelope d)) \<longrightarrow>
      is_none_or (fv_last_primary_actor ?v) (\<lambda>existing. existing = a_actor_id a)"
    by (rule accepted_primary_fence)
  have look: "fmlookup (fv_actors v2) (ref_actor_id (e_sender (ds_envelope d))) = Some a"
    using a by (simp add: v2)
  let ?v3 = "v2\<lparr>fv_actor_epochs := fmupd (a_actor_id a) (ref_actor_epoch (e_sender (ds_envelope d)))
                 (fv_actor_epochs v2)\<rparr>"
  from rest have actor: "\<not> is_some_and (fmlookup (fv_actor_epochs v2) (a_actor_id a))
        (\<lambda>previous. ref_actor_epoch (e_sender (ds_envelope d)) < previous)"
    and team: "validate_team_fence ?v3 d a = (Inr u, w)"
    unfolding validate_actor_and_team_fences_def Let_def
    by (auto simp: result_simps require_Inr_iff look expect_def)
  note w = accepted_team_fence [OF team]
  have fields: "fv_previous_audit_sequence w = fv_previous_audit_sequence ?v3"
      "fv_actors w = fv_actors ?v3" "fv_last_primary_epoch w = fv_last_primary_epoch ?v3"
      "fv_last_primary_actor w = fv_last_primary_actor ?v3" "fv_actor_epochs w = fv_actor_epochs ?v3"
    by (subst w(1), simp)+
  have actor': "is_none_or (fmlookup (fv_actor_epochs v) (a_actor_id a))
      (\<lambda>previous. previous \<le> ref_actor_epoch (e_sender (ds_envelope d)))"
    using actor by (auto simp: v2 is_some_and_def is_none_or_def not_less split: option.splits)
  show thesis
    by (rule that [of a])
      (use a above sole seq actor' w(2,3) in \<open>simp_all add: fields v2\<close>)
qed

section \<open>The three fences\<close>

abbreviation sequence_fence :: "fence_validator \<Rightarrow> unit \<Rightarrow> u64 option" where
  "sequence_fence v k \<equiv> Some (fv_previous_audit_sequence v)"

interpretation sequence_fence: monotone_fence fence_step "\<lambda>v d. Some ()" fst sequence_fence
  by unfold_locales (auto simp: fence_step_def elim: accepted_next)

interpretation primary_fence: monotone_fence fence_step "\<lambda>v d. Some ()"
    "\<lambda>d. e_primary_epoch (step_header d)" "\<lambda>v (k::unit). fv_last_primary_epoch v"
  by unfold_locales (auto simp: fence_step_def is_none_or_iff elim: accepted_next)

interpretation actor_fence: monotone_fence fence_step
    "\<lambda>v d. map_option a_actor_id (sender_record v d)"
    "\<lambda>d. ref_actor_epoch (e_sender (step_header d))" "\<lambda>v. fmlookup (fv_actor_epochs v)"
  by unfold_locales
    (auto simp: fence_step_def sender_record_def is_none_or_iff fun_eq_iff elim!: accepted_next)

interpretation team_fence: monotone_fence fence_step fenced_team team_epoch_of
    "\<lambda>v. fmlookup (fv_team_epochs v)"
proof unfold_locales
  fix v w :: fence_validator and d u k f
  assume step: "fence_step v d = (Inr u, w)"
  then obtain seq e where d: "d = (seq, e)" and next_ok: "validate_next v seq e = (Inr u, w)"
    by (cases d) (simp add: fence_step_def)
  from next_ok show "fenced_team w = fenced_team v"
    by (rule accepted_next) (simp add: fenced_team_def sender_record_def fun_eq_iff)
  from next_ok show "f \<le> team_epoch_of d"
    if "fenced_team v d = Some k" "fmlookup (fv_team_epochs v) k = Some f"
    by (rule accepted_next)
      (use that in \<open>auto simp: d fenced_team_def sender_record_def team_epoch_of_def is_none_or_iff
         is_some_and_iff split: if_splits\<close>)
  from next_ok show "fmlookup (fv_team_epochs w) k =
      (if fenced_team v d = Some k then Some (team_epoch_of d) else fmlookup (fv_team_epochs v) k)"
    by (rule accepted_next)
      (auto simp: d fenced_team_def sender_record_def team_epoch_of_def is_some_and_iff
         split: if_splits option.splits)
qed

section \<open>Audit sequences and lease holders\<close>

lemma feed_fence_step_Cons:
  assumes "feed fence_step v (d # ds) = (Inr u, w)"
  obtains v1 where "validate_next v (fst d) (snd d) = (Inr (), v1)" and "feed fence_step v1 ds = (Inr u, w)"
    and "fence_step v d = (Inr (), v1)"
  using assms by (cases d) (auto simp: fence_step_def result_simps)

lemma accepted_sequences:
  "feed fence_step v ds = (Inr u, w) \<Longrightarrow>
   sorted_wrt (<) (map fst ds) \<and> (\<forall>d \<in> set ds. fv_previous_audit_sequence v < fst d)"
proof (induction ds arbitrary: v)
  case (Cons d ds)
  from Cons.prems obtain v1 where head: "validate_next v (fst d) (snd d) = (Inr (), v1)"
    and rest: "feed fence_step v1 ds = (Inr u, w)"
    by (rule feed_fence_step_Cons)
  from head have "fv_previous_audit_sequence v < fst d" "fv_previous_audit_sequence v1 = fst d"
    by (auto elim: accepted_next)
  with Cons.IH [OF rest] show ?case
    by (auto intro: less_trans)
qed simp

lemma lease_holder_stays:
  assumes "feed fence_step v ds = (Inr u, w)" and "fv_last_primary_epoch v = Some e"
    and "fv_last_primary_actor v = Some i" and "d \<in> set ds" and "primary_sender v d"
    and "e_primary_epoch (step_header d) = e"
  shows "map_option a_actor_id (sender_record v d) = Some i"
  using assms
proof (induction ds arbitrary: v)
  case (Cons h ds)
  from Cons.prems(1) obtain v1 where head: "validate_next v (fst h) (snd h) = (Inr (), v1)"
    and rest: "feed fence_step v1 ds = (Inr u, w)" and step: "fence_step v h = (Inr (), v1)"
    by (rule feed_fence_step_Cons)
  have floor1: "fv_last_primary_epoch v1 = Some (e_primary_epoch (step_header h))"
    using head by (rule accepted_next)
  have above: "e \<le> e_primary_epoch (step_header h)"
    using primary_fence.admits [OF step refl Cons.prems(2)] .
  have actors: "fv_actors v1 = fv_actors v"
    using head by (rule accepted_next)
  from head obtain a where a: "sender_record v h = Some a"
    and actor1: "fv_last_primary_actor v1 =
      (if has_capability a HUMAN_FACING_PRIMARY \<and> a_team_id a = None then Some (a_actor_id a)
       else if fv_last_primary_epoch v = Some (e_primary_epoch (step_header h))
       then fv_last_primary_actor v else None)"
    and sole: "has_capability a HUMAN_FACING_PRIMARY \<and> a_team_id a = None \<and>
      fv_last_primary_epoch v = Some (e_primary_epoch (step_header h)) \<longrightarrow>
      is_none_or (fv_last_primary_actor v) (\<lambda>existing. existing = a_actor_id a)"
    by (rule accepted_next) (simp add: sender_record_def)
  show ?case
  proof (cases "d = h")
    case True
    with Cons.prems sole a show ?thesis
      by (simp add: primary_sender_def)
  next
    case False
    with Cons.prems(4) have d: "d \<in> set ds" by simp
    have "e_primary_epoch (step_header h) \<le> e_primary_epoch (step_header d)"
      using primary_fence.accepted_above [OF rest floor1 d refl] .
    with above Cons.prems(6) have same: "e_primary_epoch (step_header h) = e"
      by simp
    moreover have "fv_last_primary_actor v1 = Some i"
      using actor1 sole Cons.prems(2,3) same by auto
    moreover have "primary_sender v1 d"
      using Cons.prems(5) by (simp add: primary_sender_def sender_record_def actors)
    ultimately have "map_option a_actor_id (sender_record v1 d) = Some i"
      using Cons.IH [OF rest _ _ d] floor1 Cons.prems(6) by simp
    then show ?thesis
      by (simp add: sender_record_def actors)
  qed
qed simp

lemma one_holder_per_lease:
  assumes "feed fence_step v ds = (Inr u, w)"
  shows "sorted_wrt (\<lambda>d e. primary_sender v d \<and> primary_sender v e \<and>
      e_primary_epoch (step_header d) = e_primary_epoch (step_header e) \<longrightarrow>
      map_option a_actor_id (sender_record v e) = map_option a_actor_id (sender_record v d)) ds"
  using assms
proof (induction ds arbitrary: v)
  case (Cons h ds)
  from Cons.prems obtain v1 where head: "validate_next v (fst h) (snd h) = (Inr (), v1)"
    and rest: "feed fence_step v1 ds = (Inr u, w)"
    by (rule feed_fence_step_Cons)
  have actors: "fv_actors v1 = fv_actors v"
    using head by (rule accepted_next)
  have "map_option a_actor_id (sender_record v e) = map_option a_actor_id (sender_record v h)"
    if e: "e \<in> set ds" and "primary_sender v h" "primary_sender v e"
      "e_primary_epoch (step_header h) = e_primary_epoch (step_header e)" for e
  proof -
    from head obtain a where a: "sender_record v h = Some a"
      and "fv_last_primary_epoch v1 = Some (e_primary_epoch (step_header h))"
      and "fv_last_primary_actor v1 =
        (if has_capability a HUMAN_FACING_PRIMARY \<and> a_team_id a = None then Some (a_actor_id a)
         else if fv_last_primary_epoch v = Some (e_primary_epoch (step_header h))
         then fv_last_primary_actor v else None)"
      by (rule accepted_next) (simp add: sender_record_def)
    moreover have "primary_sender v1 e"
      using that(3) by (simp add: primary_sender_def sender_record_def actors)
    ultimately have "map_option a_actor_id (sender_record v1 e) = Some (a_actor_id a)"
      using lease_holder_stays [OF rest _ _ e] that by (simp add: primary_sender_def)
    with a show ?thesis
      by (simp add: sender_record_def actors)
  qed
  moreover have "primary_sender v1 = primary_sender v" "sender_record v1 = sender_record v"
    by (simp_all add: primary_sender_def sender_record_def actors fun_eq_iff)
  ultimately show ?case
    using Cons.IH [OF rest] by simp
qed simp

end
