(* ===== verification/Review_Plan.thy ===== *)
theory Review_Plan
  imports Messages
begin

text \<open>
  The frozen review plan of \<^verbatim>\<open>crates/agsv-protocol/src/model.rs\<close>: the configured checks, the
  tool-version probes, the declared child environment, and their validators with the path and
  argument validators they share. Paths, arguments and environment values are Unicode text
  (\<open>utext\<close>); \<^verbatim>\<open>Path::components\<close> is written out for Unix, where no path has a prefix component.
\<close>

section \<open>Bounds\<close>

definition MAX_REVIEW_ITEMS :: nat where "MAX_REVIEW_ITEMS = 256"
definition MAX_REVIEW_ARGUMENTS :: nat where "MAX_REVIEW_ARGUMENTS = 256"
definition MAX_REVIEW_ARGUMENT_CHARACTERS :: nat where "MAX_REVIEW_ARGUMENT_CHARACTERS = 8192"
definition MAX_REVIEW_PATH_CHARACTERS :: nat where "MAX_REVIEW_PATH_CHARACTERS = 4096"
definition MAX_REVIEW_VERSION_CHARACTERS :: nat where "MAX_REVIEW_VERSION_CHARACTERS = 4096"
definition MAX_REVIEW_TIMEOUT_SECONDS :: u32 where "MAX_REVIEW_TIMEOUT_SECONDS = 86400"

type_synonym review_session_id = string
type_synonym review_attempt_record_id = string
type_synonym review_check_id = string
type_synonym review_environment_id = string
type_synonym review_tool_id = string
type_synonym review_binary_id = string
type_synonym review_environment_key = string

text \<open>A signed 32-bit exit code: it is compared, never computed with.\<close>

type_synonym i32 = "32 word"

section \<open>Arguments, exit codes and paths\<close>

definition validate_review_value :: "string \<Rightarrow> utext \<Rightarrow> nat \<Rightarrow> validation_error + unit" where
  "validate_review_value fld value maximum =
     (let actual = length value in
      if maximum < actual then
        Inl (with_limit
          (validation_error_new fld OutOfRange
             (''contains '' @ show_nat actual @ '' characters; maximum is '' @ show_nat maximum))
          actual maximum Characters)
      else if list_ex char_is_control value then
        Inl (validation_error_new fld InvalidFormat ''must not contain control characters'')
      else Inr ())"

definition validate_review_argument :: "string \<Rightarrow> nat \<Rightarrow> utext \<Rightarrow> validation_error + unit" where
  "validate_review_argument fld i argument =
     (let path = indexed fld i in
      ebind (validate_review_value path argument MAX_REVIEW_ARGUMENT_CHARACTERS) (\<lambda>_.
      if i = 0 \<and> trim argument = [] then
        Inl (validation_error_new path Required ''executable name must not be blank'')
      else Inr ()))"

definition validate_review_argv :: "string \<Rightarrow> utext list \<Rightarrow> validation_error + unit" where
  "validate_review_argv fld argv =
     (if argv = [] then Inl (validation_error_new fld Required ''must contain an executable name'')
      else
        ebind (validate_count fld (length argv) MAX_REVIEW_ARGUMENTS) (\<lambda>_.
        check_all_from 0 (validate_review_argument fld) argv))"

definition validate_exit_code :: "string \<Rightarrow> i32 \<Rightarrow> validation_error + unit" where
  "validate_exit_code fld value =
     (if 0 \<le> sint value \<and> sint value \<le> 255 then Inr ()
      else Inl (validation_error_new fld OutOfRange ''must be between 0 and 255''))"

definition validate_path_text :: "string \<Rightarrow> utext \<Rightarrow> validation_error + unit" where
  "validate_path_text fld value =
     ebind (validate_text fld value MAX_REVIEW_PATH_CHARACTERS) (\<lambda>_.
     if list_ex char_is_control value then
       Inl (validation_error_new fld InvalidFormat ''must not contain control characters'')
     else Inr ())"

text \<open>\<^verbatim>\<open>Path::components\<close> of the standard library: repeated separators and inner dots vanish.\<close>

datatype path_component = RootDir | CurDir | ParentDir | NormalDir utext

definition path_separator :: nat where "path_separator = 47"
definition dot :: nat where "dot = 46"

fun split_path :: "utext \<Rightarrow> utext list" where
  "split_path [] = [[]]"
| "split_path (c # cs) =
     (if c = path_separator then [] # split_path cs
      else (case split_path cs of [] \<Rightarrow> [[c]] | part # parts \<Rightarrow> (c # part) # parts))"

definition is_absolute :: "utext \<Rightarrow> bool" where
  "is_absolute p \<longleftrightarrow> p \<noteq> [] \<and> hd p = path_separator"

definition path_components :: "utext \<Rightarrow> path_component list" where
  "path_components p =
     (if is_absolute p then [RootDir] else if hd (split_path p) = [dot] then [CurDir] else []) @
     map (\<lambda>part. if part = [dot, dot] then ParentDir else NormalDir part)
       (filter (\<lambda>part. part \<noteq> [] \<and> part \<noteq> [dot]) (split_path p))"

definition validate_relative_review_path :: "string \<Rightarrow> utext \<Rightarrow> validation_error + unit" where
  "validate_relative_review_path fld value =
     ebind (validate_path_text fld value) (\<lambda>_.
     if list_ex (\<lambda>component. component \<in> {RootDir, ParentDir}) (path_components value) then
       Inl (validation_error_new fld InvalidFormat
              ''must be a checkout-relative path without parent traversal'')
     else Inr ())"

definition validate_absolute_review_path :: "string \<Rightarrow> utext \<Rightarrow> validation_error + unit" where
  "validate_absolute_review_path fld value =
     ebind (validate_path_text fld value) (\<lambda>_.
     if \<not> is_absolute value then
       Inl (validation_error_new fld InvalidFormat ''must be an absolute path'')
     else Inr ())"

section \<open>The plan\<close>

datatype review_tree_identity =
  ReviewTreeIdentity (rt_candidate_sha: git_sha) (rt_tree_sha: git_sha)

datatype review_plan_identity =
  ReviewPlanIdentity (pi_policy_revision: policy_revision) (pi_config_digest: payload_digest)

definition plan_identity_validate :: "review_plan_identity \<Rightarrow> validation_error + unit" where
  "plan_identity_validate p =
     map_err (error_at ''config_digest'') (payload_digest_validate (pi_config_digest p))"

record review_check =
  ck_check_id :: review_check_id
  ck_argv :: "utext list"
  ck_relative_cwd :: "utext option"
  ck_timeout_seconds :: u32
  ck_expected_exit_code :: i32
  ck_required_absent_binaries :: "review_binary_id fset"

definition review_check_validate :: "review_check \<Rightarrow> validation_error + unit" where
  "review_check_validate c =
     ebind (validate_review_argv ''argv'' (ck_argv c)) (\<lambda>_.
     ebind (case ck_relative_cwd c of
              None \<Rightarrow> Inr ()
            | Some relative_cwd \<Rightarrow> validate_relative_review_path ''relative_cwd'' relative_cwd) (\<lambda>_.
     if \<not> (1 \<le> ck_timeout_seconds c \<and> ck_timeout_seconds c \<le> MAX_REVIEW_TIMEOUT_SECONDS) then
       Inl (validation_error_new ''timeout_seconds'' OutOfRange
              (''must be between 1 and '' @ show_nat (unat MAX_REVIEW_TIMEOUT_SECONDS) @ '' seconds''))
     else
       ebind (validate_exit_code ''expected_exit_code'' (ck_expected_exit_code c)) (\<lambda>_.
       validate_count ''required_absent_binaries'' (fcard (ck_required_absent_binaries c))
         MAX_REVIEW_ITEMS)))"

datatype review_tool_version_probe =
  ReviewToolVersionProbe (pr_tool_id: review_tool_id) (pr_argv: "utext list")

definition probe_validate :: "review_tool_version_probe \<Rightarrow> validation_error + unit" where
  "probe_validate p = validate_review_argv ''argv'' (pr_argv p)"

record review_plan =
  pl_identity :: review_plan_identity
  pl_checks :: "review_check list"
  pl_tool_version_probes :: "review_tool_version_probe list"
  pl_declared_environment :: "(review_environment_key, utext) fmap"
  pl_declared_environment_digest :: payload_digest
  pl_optional_binaries :: "review_binary_id fset"

section \<open>The declared environment\<close>

definition is_ascii_alphabetic :: "char \<Rightarrow> bool" where
  "is_ascii_alphabetic c \<longleftrightarrow>
     (CHR ''A'' \<le> c \<and> c \<le> CHR ''Z'') \<or> (CHR ''a'' \<le> c \<and> c \<le> CHR ''z'')"

definition starts_with :: "string \<Rightarrow> string \<Rightarrow> bool" where
  "starts_with text prefix \<longleftrightarrow> take (length prefix) text = prefix"

definition environment_path :: "string \<Rightarrow> review_environment_key \<Rightarrow> string" where
  "environment_path fld key = fld @ ''['' @ key @ '']''"

definition is_portable_name :: "string \<Rightarrow> bool" where
  "is_portable_name key \<longleftrightarrow>
     list_all (\<lambda>(index, byte). byte = CHR ''_'' \<or> is_ascii_alphabetic byte \<or>
                 0 < index \<and> is_ascii_digit byte) (List.enumerate (0::nat) key)"

definition is_reserved_key :: "string \<Rightarrow> bool" where
  "is_reserved_key key \<longleftrightarrow>
     key \<in> {''HOME'', ''PATH'', ''PWD''} \<or> starts_with key ''AGSV_'' \<or> starts_with key ''GIT_''"

definition validate_declared_environment_key :: "review_environment_key \<Rightarrow> validation_error + unit" where
  "validate_declared_environment_key key =
     (if \<not> is_portable_name key then
        Inl (validation_error_new (environment_path ''declared_environment'' key) InvalidFormat
               ''key must be a portable environment variable name'')
      else if is_reserved_key key then
        Inl (validation_error_new (environment_path ''declared_environment'' key) InvalidFormat
               ''key is reserved for controller and Git isolation and cannot be declared or inherited'')
      else Inr ())"

definition validate_declared_environment_entry ::
  "review_environment_key \<Rightarrow> utext \<Rightarrow> validation_error + unit" where
  "validate_declared_environment_entry key value =
     ebind (validate_declared_environment_key key) (\<lambda>_.
     validate_review_value (environment_path ''declared_environment'' key) value
       MAX_REVIEW_ARGUMENT_CHARACTERS)"

section \<open>Validation of a plan\<close>

text \<open>
  A loop that validates each element of a list and collects its key in a \<^verbatim>\<open>BTreeSet\<close>, refusing a
  key met before.
\<close>

fun check_unique_from ::
  "string \<Rightarrow> string \<Rightarrow> string \<Rightarrow> ('a \<Rightarrow> validation_error + unit) \<Rightarrow> ('a \<Rightarrow> 'k) \<Rightarrow> nat \<Rightarrow> 'k list \<Rightarrow>
   'a list \<Rightarrow> validation_error + unit" where
  "check_unique_from fld sub msg f key i seen [] = Inr ()"
| "check_unique_from fld sub msg f key i seen (x # xs) =
     ebind (map_err (error_at (indexed fld i)) (f x)) (\<lambda>_.
     if key x \<in> set seen
     then Inl (validation_error_new (indexed fld i @ sub) Inconsistent msg)
     else check_unique_from fld sub msg f key (Suc i) (key x # seen) xs)"

definition program_of :: "utext list \<Rightarrow> utext" where
  "program_of argv = argv ! 0"

definition validate_tool_probe_coverage ::
  "review_check list \<Rightarrow> review_tool_version_probe list \<Rightarrow> validation_error + unit" where
  "validate_tool_probe_coverage checks probes =
     (let probed_programs = map (program_of \<circ> pr_argv) probes in
      check_all_from 0
        (\<lambda>index c.
           if program_of (ck_argv c) \<notin> set probed_programs then
             Inl (validation_error_new (indexed ''checks'' index @ ''.argv[0]'') Inconsistent
                    ''check executable must have a matching tool-version probe'')
           else Inr ())
        checks)"

definition review_plan_validate :: "review_plan \<Rightarrow> validation_error + unit" where
  "review_plan_validate p =
     ebind (map_err (error_at ''identity'') (plan_identity_validate (pl_identity p))) (\<lambda>_.
     if pl_checks p = [] then
       Inl (validation_error_new ''checks'' Required ''must contain at least one configured check'')
     else
     ebind (validate_count ''checks'' (length (pl_checks p)) MAX_REVIEW_ITEMS) (\<lambda>_.
     if pl_tool_version_probes p = [] then
       Inl (validation_error_new ''tool_version_probes'' Required
              ''must contain at least one configured tool-version probe'')
     else
     ebind (validate_count ''tool_version_probes'' (length (pl_tool_version_probes p))
              MAX_REVIEW_ITEMS) (\<lambda>_.
     ebind (validate_count ''declared_environment'' (fmsize (pl_declared_environment p))
              MAX_REVIEW_ITEMS) (\<lambda>_.
     ebind (map_err (error_at ''declared_environment_digest'')
              (payload_digest_validate (pl_declared_environment_digest p))) (\<lambda>_.
     ebind (validate_count ''optional_binaries'' (fcard (pl_optional_binaries p))
              MAX_REVIEW_ITEMS) (\<lambda>_.
     ebind (check_unique_from ''checks'' ''.check_id'' ''configured check identifiers must be unique''
              review_check_validate ck_check_id 0 [] (pl_checks p)) (\<lambda>_.
     ebind (check_unique_from ''tool_version_probes'' ''.tool_id''
              ''tool-version probe identifiers must be unique''
              probe_validate pr_tool_id 0 [] (pl_tool_version_probes p)) (\<lambda>_.
     ebind (check_all_from 0 (\<lambda>_ (key, value). validate_declared_environment_entry key value)
              (sorted_list_of_fmap (pl_declared_environment p))) (\<lambda>_.
     validate_tool_probe_coverage (pl_checks p) (pl_tool_version_probes p))))))))))"

end
