(* ===== verification/Review_Session.thy ===== *)
theory Review_Session
  imports Review_Plan
begin

text \<open>
  The durable review records of \<^verbatim>\<open>crates/agsv-protocol/src/model.rs\<close>: the reusable session with its
  state machine, the append-only attempt facts, check results, tool versions, binary observations
  and environment records, each with its validator, and the validators that tie a record to the
  exact session it belongs to.
\<close>

section \<open>Session states\<close>

datatype review_session_status = SessionPreparing | SessionReady | SessionInvalid

datatype review_recovery_state = NotRequired | ResumeRequired | RecreateRequired

datatype review_session_state =
  ReviewSessionState (ss_status: review_session_status) (ss_recovery: review_recovery_state)

definition session_state_validate :: "review_session_state \<Rightarrow> validation_error + unit" where
  "session_state_validate s =
     (case (ss_status s, ss_recovery s) of
        (SessionPreparing, NotRequired) \<Rightarrow> Inr ()
      | (SessionReady, NotRequired) \<Rightarrow> Inr ()
      | (SessionReady, ResumeRequired) \<Rightarrow> Inr ()
      | (SessionInvalid, RecreateRequired) \<Rightarrow> Inr ()
      | _ \<Rightarrow> Inl (validation_error_new ''recovery'' Inconsistent
                    ''recovery state is inconsistent with review session status''))"

definition session_state_new ::
  "review_session_status \<Rightarrow> review_recovery_state \<Rightarrow> validation_error + review_session_state" where
  "session_state_new status recovery =
     (let state = ReviewSessionState status recovery in
      ebind (session_state_validate state) (\<lambda>_. Inr state))"

definition session_allows_transition_to :: "review_session_state \<Rightarrow> review_session_state \<Rightarrow> bool" where
  "session_allows_transition_to s next_state \<longleftrightarrow>
     s = next_state \<or>
     (case (ss_status s, ss_recovery s, ss_status next_state, ss_recovery next_state) of
        (SessionPreparing, NotRequired, SessionReady, NotRequired) \<Rightarrow> True
      | (SessionPreparing, NotRequired, SessionInvalid, RecreateRequired) \<Rightarrow> True
      | (SessionReady, NotRequired, SessionReady, ResumeRequired) \<Rightarrow> True
      | (SessionReady, ResumeRequired, SessionReady, NotRequired) \<Rightarrow> True
      | (SessionReady, _, SessionInvalid, RecreateRequired) \<Rightarrow> True
      | (SessionInvalid, RecreateRequired, SessionPreparing, NotRequired) \<Rightarrow> True
      | _ \<Rightarrow> False)"

record review_session =
  rs_session_id :: review_session_id
  rs_workspace_id :: workspace_id
  rs_request_id :: request_id
  rs_tree :: review_tree_identity
  rs_checkout_path :: utext
  rs_plan :: review_plan
  rs_state :: review_session_state
  rs_created_at :: timestamp_millis
  rs_updated_at :: timestamp_millis

definition review_session_validate :: "review_session \<Rightarrow> validation_error + unit" where
  "review_session_validate s =
     ebind (validate_absolute_review_path ''checkout_path'' (rs_checkout_path s)) (\<lambda>_.
     ebind (map_err (error_at ''plan'') (review_plan_validate (rs_plan s))) (\<lambda>_.
     ebind (map_err (error_at ''state'') (session_state_validate (rs_state s))) (\<lambda>_.
     if rs_updated_at s < rs_created_at s then
       Inl (validation_error_new ''updated_at'' Inconsistent ''must not precede created_at'')
     else Inr ())))"

section \<open>Attempts\<close>

datatype review_attempt_status = AttemptRunning | AttemptPassed | AttemptFailed | AttemptInterrupted

definition attempt_allows_transition_to :: "review_attempt_status \<Rightarrow> review_attempt_status \<Rightarrow> bool" where
  "attempt_allows_transition_to s next_status \<longleftrightarrow>
     (s = AttemptRunning \<and> next_status \<in> {AttemptPassed, AttemptFailed, AttemptInterrupted}) \<or>
     s = next_status"

record review_attempt =
  at_record_id :: review_attempt_record_id
  at_workspace_id :: workspace_id
  at_session_id :: review_session_id
  at_request_id :: request_id
  at_candidate_sha :: git_sha
  at_attempt_sequence :: u64
  at_plan :: review_plan_identity
  at_status :: review_attempt_status
  at_started_at :: timestamp_millis
  at_finished_at :: "timestamp_millis option"
  at_recorded_at :: timestamp_millis

definition attempt_timestamps :: "review_attempt \<Rightarrow> validation_error + unit" where
  "attempt_timestamps a =
     (case (at_status a, at_finished_at a) of
        (AttemptRunning, None) \<Rightarrow> Inr ()
      | (AttemptRunning, Some _) \<Rightarrow>
          Inl (validation_error_new ''finished_at'' Inconsistent
                 ''a running attempt cannot have a terminal timestamp'')
      | (_, Some finished_at) \<Rightarrow>
          if at_started_at a \<le> finished_at then Inr ()
          else Inl (validation_error_new ''finished_at'' Inconsistent ''must not precede started_at'')
      | (_, None) \<Rightarrow>
          Inl (validation_error_new ''finished_at'' Required
                 ''a terminal attempt status requires a terminal timestamp''))"

definition review_attempt_validate :: "review_attempt \<Rightarrow> validation_error + unit" where
  "review_attempt_validate a =
     (if at_attempt_sequence a = 0 then
        Inl (validation_error_new ''attempt_sequence'' OutOfRange ''must be greater than zero'')
      else
        ebind (map_err (error_at ''plan'') (plan_identity_validate (at_plan a))) (\<lambda>_.
        ebind (attempt_timestamps a) (\<lambda>_.
        if at_recorded_at a < at_started_at a \<or>
           is_some_and (at_finished_at a) (\<lambda>finished_at. at_recorded_at a < finished_at)
        then Inl (validation_error_new ''recorded_at'' Inconsistent
                    ''must not precede attempt timestamps'')
        else Inr ())))"

section \<open>Check results\<close>

datatype review_execution_variant = NormalVariant | RequiredAbsentVariant

datatype review_process_containment = PidNamespaceParentDeath | ProcessGroupOnly | NoContainment

datatype review_output_artifact =
  ReviewOutputArtifact
    (oa_digest: payload_digest)
    (oa_byte_count: u64)
    (oa_truncated: bool)
    (oa_reference: "utext option")

definition output_artifact_validate :: "review_output_artifact \<Rightarrow> validation_error + unit" where
  "output_artifact_validate o' =
     ebind (map_err (error_at ''digest'') (payload_digest_validate (oa_digest o'))) (\<lambda>_.
     case oa_reference o' of
       None \<Rightarrow> Inr ()
     | Some reference \<Rightarrow> validate_relative_review_path ''reference'' reference)"

datatype review_check_outcome = CheckPassed | CheckFailed | CheckExecutionError

datatype review_check_termination =
  Exited | Signaled | TimedOut | OutputLimitExceeded | OutputCaptureIncomplete

record review_check_result =
  cr_workspace_id :: workspace_id
  cr_session_id :: review_session_id
  cr_request_id :: request_id
  cr_candidate_sha :: git_sha
  cr_attempt_sequence :: u64
  cr_plan :: review_plan_identity
  cr_check_id :: review_check_id
  cr_variant :: review_execution_variant
  cr_environment_id :: review_environment_id
  cr_outcome :: review_check_outcome
  cr_termination :: review_check_termination
  cr_expected_exit_code :: i32
  cr_actual_exit_code :: "i32 option"
  cr_process_tree_may_outlive :: bool
  cr_stdout :: review_output_artifact
  cr_stderr :: review_output_artifact
  cr_started_at :: timestamp_millis
  cr_finished_at :: timestamp_millis

definition exit_shape_is_valid :: "review_check_result \<Rightarrow> bool" where
  "exit_shape_is_valid r \<longleftrightarrow>
     (case cr_termination r of
        Exited \<Rightarrow> cr_actual_exit_code r \<noteq> None
      | OutputCaptureIncomplete \<Rightarrow> True
      | _ \<Rightarrow> cr_actual_exit_code r = None)"

definition outcome_shape_is_valid :: "review_check_result \<Rightarrow> bool" where
  "outcome_shape_is_valid r \<longleftrightarrow>
     (case cr_outcome r of
        CheckPassed \<Rightarrow>
          cr_termination r = Exited \<and> cr_actual_exit_code r = Some (cr_expected_exit_code r)
      | CheckFailed \<Rightarrow>
          cr_termination r = Exited \<and>
          is_some_and (cr_actual_exit_code r) (\<lambda>actual. actual \<noteq> cr_expected_exit_code r)
      | CheckExecutionError \<Rightarrow>
          cr_termination r \<in> {Signaled, TimedOut, OutputLimitExceeded, OutputCaptureIncomplete})"

definition survivor_shape_is_valid :: "review_check_result \<Rightarrow> bool" where
  "survivor_shape_is_valid r \<longleftrightarrow>
     (case cr_termination r of
        Exited \<Rightarrow> \<not> cr_process_tree_may_outlive r
      | Signaled \<Rightarrow> \<not> cr_process_tree_may_outlive r
      | OutputCaptureIncomplete \<Rightarrow> cr_process_tree_may_outlive r
      | TimedOut \<Rightarrow> True
      | OutputLimitExceeded \<Rightarrow> True)"

definition truncation_shape_is_valid :: "review_check_result \<Rightarrow> bool" where
  "truncation_shape_is_valid r \<longleftrightarrow>
     (let output_was_truncated = oa_truncated (cr_stdout r) \<or> oa_truncated (cr_stderr r) in
      case cr_termination r of
        OutputLimitExceeded \<Rightarrow> output_was_truncated
      | TimedOut \<Rightarrow> True
      | _ \<Rightarrow> \<not> output_was_truncated)"

definition check_result_validate :: "review_check_result \<Rightarrow> validation_error + unit" where
  "check_result_validate r =
     (if cr_attempt_sequence r = 0 then
        Inl (validation_error_new ''attempt_sequence'' OutOfRange ''must be greater than zero'')
      else
        ebind (map_err (error_at ''plan'') (plan_identity_validate (cr_plan r))) (\<lambda>_.
        ebind (validate_exit_code ''expected_exit_code'' (cr_expected_exit_code r)) (\<lambda>_.
        ebind (case cr_actual_exit_code r of
                 None \<Rightarrow> Inr ()
               | Some actual \<Rightarrow> validate_exit_code ''actual_exit_code'' actual) (\<lambda>_.
        if \<not> exit_shape_is_valid r then
          Inl (validation_error_new ''actual_exit_code'' Inconsistent
                 ''actual exit code is inconsistent with the termination reason'')
        else if \<not> outcome_shape_is_valid r then
          Inl (validation_error_new ''termination'' Inconsistent
                 ''termination reason is inconsistent with the check outcome'')
        else if \<not> survivor_shape_is_valid r then
          Inl (validation_error_new ''process_tree_may_outlive'' Inconsistent
                 ''survivor risk is inconsistent with the termination reason'')
        else
        ebind (map_err (error_at ''stdout'') (output_artifact_validate (cr_stdout r))) (\<lambda>_.
        ebind (map_err (error_at ''stderr'') (output_artifact_validate (cr_stderr r))) (\<lambda>_.
        if \<not> truncation_shape_is_valid r then
          Inl (validation_error_new ''termination'' Inconsistent
                 ''output-limit termination requires truncated output, while exited, signaled, or incomplete-capture execution forbids it'')
        else if cr_finished_at r < cr_started_at r then
          Inl (validation_error_new ''finished_at'' Inconsistent ''must not precede started_at'')
        else Inr ()))))))"

end
