(* ===== verification/Review_Evidence.thy ===== *)
theory Review_Evidence
  imports Review_Session
begin

text \<open>
  The environment evidence of a review attempt and the session's validators of everything that
  claims to belong to it: \<^verbatim>\<open>ReviewToolVersion\<close>, \<^verbatim>\<open>ReviewBinaryObservation\<close>,
  \<^verbatim>\<open>ReviewEnvironmentRecord\<close> and the second \<^verbatim>\<open>impl ReviewSession\<close> of
  \<^verbatim>\<open>crates/agsv-protocol/src/model.rs\<close>.
\<close>

section \<open>Tool versions and binaries\<close>

datatype review_tool_version =
  ReviewToolVersion
    (tv_tool_id: review_tool_id)
    (tv_resolved_executable: utext)
    (tv_executable_digest: payload_digest)
    (tv_probe_exit_code: i32)
    (tv_version: utext)
    (tv_stdout: review_output_artifact)
    (tv_stderr: review_output_artifact)

definition tool_version_validate :: "review_tool_version \<Rightarrow> validation_error + unit" where
  "tool_version_validate t =
     ebind (validate_absolute_review_path ''resolved_executable'' (tv_resolved_executable t)) (\<lambda>_.
     ebind (map_err (error_at ''executable_digest'') (payload_digest_validate (tv_executable_digest t))) (\<lambda>_.
     ebind (validate_exit_code ''probe_exit_code'' (tv_probe_exit_code t)) (\<lambda>_.
     ebind (validate_text ''version'' (tv_version t) MAX_REVIEW_VERSION_CHARACTERS) (\<lambda>_.
     ebind (validate_review_value ''version'' (tv_version t) MAX_REVIEW_VERSION_CHARACTERS) (\<lambda>_.
     ebind (map_err (error_at ''stdout'') (output_artifact_validate (tv_stdout t))) (\<lambda>_.
     map_err (error_at ''stderr'') (output_artifact_validate (tv_stderr t))))))))"

datatype review_binary_presence = BinaryPresent | AbsentFromControlledPath

datatype review_binary_observation =
  ReviewBinaryObservation
    (bo_binary_id: review_binary_id)
    (bo_presence: review_binary_presence)
    (bo_resolved_executable: "utext option")
    (bo_executable_digest: "payload_digest option")

definition binary_observation_validate :: "review_binary_observation \<Rightarrow> validation_error + unit" where
  "binary_observation_validate b =
     (case (bo_presence b, bo_resolved_executable b, bo_executable_digest b) of
        (BinaryPresent, Some path, Some digest) \<Rightarrow>
          ebind (validate_absolute_review_path ''resolved_executable'' path) (\<lambda>_.
          map_err (error_at ''executable_digest'') (payload_digest_validate digest))
      | (AbsentFromControlledPath, None, None) \<Rightarrow> Inr ()
      | _ \<Rightarrow> Inl (validation_error_new ''presence'' Inconsistent
               ''binary presence under the controlled PATH must match executable path and digest fields''))"

section \<open>Environment records\<close>

record review_environment =
  en_environment_id :: review_environment_id
  en_workspace_id :: workspace_id
  en_session_id :: review_session_id
  en_request_id :: request_id
  en_candidate_sha :: git_sha
  en_attempt_sequence :: u64
  en_plan :: review_plan_identity
  en_check_id :: review_check_id
  en_variant :: review_execution_variant
  en_process_containment :: review_process_containment
  en_recorded_at :: timestamp_millis
  en_declared_environment_digest :: payload_digest
  en_execution_environment :: "(review_environment_key, utext) fmap"
  en_execution_environment_digest :: payload_digest
  en_tool_versions :: "review_tool_version list"
  en_binary_observations :: "review_binary_observation list"
  en_required_absent_binaries :: "review_binary_id fset"

definition EXECUTION_ENVIRONMENT_KEYS :: "review_environment_key list" where
  "EXECUTION_ENVIRONMENT_KEYS =
     [''os'', ''arch'', ''agsv_version'', ''cwd_identity'', ''path_digest'', ''path_profile'',
      ''declared_values_digest'', ''tmpdir'', ''developer_dir'', ''locale'', ''language'',
      ''lang'', ''lc_all'']"

definition validate_execution_environment_key :: "review_environment_key \<Rightarrow> validation_error + unit" where
  "validate_execution_environment_key key =
     (if key \<in> set EXECUTION_ENVIRONMENT_KEYS then Inr ()
      else Inl (validation_error_new (environment_path ''execution_environment'' key) InvalidFormat
                  ''key is outside the privacy-safe execution environment allowlist''))"

text \<open>\<^verbatim>\<open>PayloadDigest::new\<close> on text: its length is counted in bytes, and only ASCII digits pass.\<close>

definition payload_digest_new :: "utext \<Rightarrow> validation_error + payload_digest" where
  "payload_digest_new value =
     (if utf8_length value \<noteq> 64 \<or>
         \<not> list_all (\<lambda>c. 48 \<le> c \<and> c \<le> 57 \<or> 97 \<le> c \<and> c \<le> 102) value
      then Inl (validation_error_new ''sha256'' InvalidFormat
                  ''must be exactly 64 lowercase hexadecimal digits'')
      else Inr (map char_of value))"

definition validate_execution_entry :: "review_environment_key \<Rightarrow> utext \<Rightarrow> validation_error + unit" where
  "validate_execution_entry key value =
     ebind (validate_execution_environment_key key) (\<lambda>_.
     let fld = environment_path ''execution_environment'' key in
     ebind (if key \<in> {''tmpdir'', ''developer_dir''} then validate_absolute_review_path fld value
            else validate_review_value fld value MAX_REVIEW_ARGUMENT_CHARACTERS) (\<lambda>_.
     if key \<in> {''path_digest'', ''declared_values_digest''}
     then map_err (error_at fld) (ebind (payload_digest_new value) (\<lambda>_. Inr ()))
     else Inr ()))"

definition REQUIRED_EXECUTION_KEYS :: "review_environment_key list" where
  "REQUIRED_EXECUTION_KEYS =
     [''os'', ''arch'', ''agsv_version'', ''cwd_identity'', ''declared_values_digest'', ''tmpdir'']"

definition validate_execution_environment :: "review_environment \<Rightarrow> validation_error + unit" where
  "validate_execution_environment e =
     ebind (validate_count ''execution_environment'' (fmsize (en_execution_environment e))
              MAX_REVIEW_ITEMS) (\<lambda>_.
     ebind (map_err (error_at ''execution_environment_digest'')
              (payload_digest_validate (en_execution_environment_digest e))) (\<lambda>_.
     ebind (check_all_from 0 (\<lambda>_ (key, value). validate_execution_entry key value)
              (sorted_list_of_fmap (en_execution_environment e))) (\<lambda>_.
     if list_ex (\<lambda>key. \<not> fmhas (en_execution_environment e) key) REQUIRED_EXECUTION_KEYS then
       Inl (validation_error_new ''execution_environment'' Required
              ''must include os, arch, agsv_version, cwd_identity, declared_values_digest, and tmpdir'')
     else if \<not> list_ex (fmhas (en_execution_environment e)) [''path_digest'', ''path_profile''] then
       Inl (validation_error_new ''execution_environment'' Required
              ''must include path_digest or path_profile'')
     else Inr ())))"

definition presence_of :: "review_binary_observation list \<Rightarrow> review_binary_id \<Rightarrow> review_binary_presence option" where
  "presence_of observations binary_id =
     map_of (map (\<lambda>b. (bo_binary_id b, bo_presence b)) observations) binary_id"

definition required_absences_ok :: "review_environment \<Rightarrow> bool" where
  "required_absences_ok e \<longleftrightarrow>
     (case en_variant e of
        NormalVariant \<Rightarrow> en_required_absent_binaries e = {||}
      | RequiredAbsentVariant \<Rightarrow>
          en_required_absent_binaries e \<noteq> {||} \<and>
          fBall (en_required_absent_binaries e)
            (\<lambda>b. presence_of (en_binary_observations e) b = Some AbsentFromControlledPath))"

definition environment_validate :: "review_environment \<Rightarrow> validation_error + unit" where
  "environment_validate e =
     (if en_attempt_sequence e = 0 then
        Inl (validation_error_new ''attempt_sequence'' OutOfRange ''must be greater than zero'')
      else
        ebind (map_err (error_at ''plan'') (plan_identity_validate (en_plan e))) (\<lambda>_.
        ebind (map_err (error_at ''declared_environment_digest'')
                 (payload_digest_validate (en_declared_environment_digest e))) (\<lambda>_.
        ebind (validate_execution_environment e) (\<lambda>_.
        ebind (validate_count ''tool_versions'' (length (en_tool_versions e)) MAX_REVIEW_ITEMS) (\<lambda>_.
        ebind (validate_count ''binary_observations'' (length (en_binary_observations e))
                 MAX_REVIEW_ITEMS) (\<lambda>_.
        ebind (validate_count ''required_absent_binaries'' (fcard (en_required_absent_binaries e))
                 MAX_REVIEW_ITEMS) (\<lambda>_.
        ebind (check_unique_from ''tool_versions'' ''.tool_id''
                 ''tool-version observations must be unique''
                 tool_version_validate tv_tool_id 0 [] (en_tool_versions e)) (\<lambda>_.
        ebind (check_unique_from ''binary_observations'' ''.binary_id''
                 ''binary observations must be unique''
                 binary_observation_validate bo_binary_id 0 [] (en_binary_observations e)) (\<lambda>_.
        if required_absences_ok e then Inr ()
        else Inl (validation_error_new ''required_absent_binaries'' Inconsistent
                    ''execution variant and required-absent observations are inconsistent''))))))))))"

section \<open>Records of one session\<close>

definition validate_child_identity ::
  "review_session \<Rightarrow> workspace_id \<Rightarrow> review_session_id \<Rightarrow> request_id \<Rightarrow> git_sha \<Rightarrow>
   review_plan_identity \<Rightarrow> validation_error + unit" where
  "validate_child_identity s workspace session request candidate plan =
     (if workspace \<noteq> rs_workspace_id s \<or> session \<noteq> rs_session_id s \<or> request \<noteq> rs_request_id s \<or>
         candidate \<noteq> rt_candidate_sha (rs_tree s) \<or> plan \<noteq> pl_identity (rs_plan s)
      then Inl (validation_error_new ''session_id'' Inconsistent
                  ''record does not match the exact session, candidate, or plan identity'')
      else Inr ())"

definition find_review_check :: "review_session \<Rightarrow> review_check_id \<Rightarrow> validation_error + review_check" where
  "find_review_check s check_id =
     ok_or (List.find (\<lambda>c. ck_check_id c = check_id) (pl_checks (rs_plan s)))
       (validation_error_new ''check_id'' Inconsistent ''check is absent from the frozen review plan'')"

definition validate_attempt_record :: "review_session \<Rightarrow> review_attempt \<Rightarrow> validation_error + unit" where
  "validate_attempt_record s a =
     ebind (review_session_validate s) (\<lambda>_.
     ebind (review_attempt_validate a) (\<lambda>_.
     validate_child_identity s (at_workspace_id a) (at_session_id a) (at_request_id a)
       (at_candidate_sha a) (at_plan a)))"

definition validate_check_result :: "review_session \<Rightarrow> review_check_result \<Rightarrow> validation_error + unit" where
  "validate_check_result s r =
     ebind (review_session_validate s) (\<lambda>_.
     ebind (check_result_validate r) (\<lambda>_.
     ebind (validate_child_identity s (cr_workspace_id r) (cr_session_id r) (cr_request_id r)
              (cr_candidate_sha r) (cr_plan r)) (\<lambda>_.
     ebind (find_review_check s (cr_check_id r)) (\<lambda>c.
     if cr_expected_exit_code r \<noteq> ck_expected_exit_code c then
       Inl (validation_error_new ''expected_exit_code'' Inconsistent
              ''does not match the frozen configured check'')
     else if cr_variant r = RequiredAbsentVariant \<and> ck_required_absent_binaries c = {||} then
       Inl (validation_error_new ''variant'' Inconsistent
              ''check has no configured required-absent execution variant'')
     else Inr ()))))"

definition executions_of_check :: "review_check \<Rightarrow> (review_check_id \<times> review_execution_variant) list" where
  "executions_of_check c =
     (ck_check_id c, NormalVariant) #
     (if ck_required_absent_binaries c \<noteq> {||} then [(ck_check_id c, RequiredAbsentVariant)] else [])"

definition expected_executions :: "review_session \<Rightarrow> (review_check_id \<times> review_execution_variant) set" where
  "expected_executions s = set (concat (map executions_of_check (pl_checks (rs_plan s))))"

text \<open>The loop over the results: the executions seen, all passed, any failed.\<close>

fun scan_results ::
  "review_session \<Rightarrow> review_attempt \<Rightarrow> timestamp_millis \<Rightarrow> nat \<Rightarrow>
   (review_check_id \<times> review_execution_variant) list \<Rightarrow> bool \<Rightarrow> bool \<Rightarrow> review_check_result list \<Rightarrow>
   validation_error + (review_check_id \<times> review_execution_variant) list \<times> bool \<times> bool" where
  "scan_results s a finished i observed all_passed any_failed [] =
     Inr (observed, all_passed, any_failed)"
| "scan_results s a finished i observed all_passed any_failed (r # rs) =
     ebind (map_err (error_at (indexed ''results'' i)) (validate_check_result s r)) (\<lambda>_.
     if cr_attempt_sequence r \<noteq> at_attempt_sequence a then
       Inl (validation_error_new (indexed ''results'' i @ ''.attempt_sequence'') Inconsistent
              ''does not match the terminal attempt fact'')
     else if cr_started_at r < at_started_at a \<or> finished < cr_finished_at r then
       Inl (validation_error_new (indexed ''results'' i @ ''.started_at'') Inconsistent
              ''check timestamps must fall within the logical attempt'')
     else if (cr_check_id r, cr_variant r) \<in> set observed then
       Inl (validation_error_new (indexed ''results'' i) Inconsistent
              ''duplicate check execution result'')
     else
       scan_results s a finished (Suc i) ((cr_check_id r, cr_variant r) # observed)
         (all_passed \<and> cr_outcome r = CheckPassed) (any_failed \<or> cr_outcome r \<noteq> CheckPassed) rs)"

definition validate_attempt_results ::
  "review_session \<Rightarrow> review_attempt \<Rightarrow> review_check_result list \<Rightarrow> validation_error + unit" where
  "validate_attempt_results s a results =
     ebind (validate_attempt_record s a) (\<lambda>_.
     if at_status a = AttemptRunning then
       Inl (validation_error_new ''status'' Inconsistent
              ''aggregate result validation requires a terminal attempt fact'')
     else
     let expected = expected_executions s in
     ebind (ok_or (at_finished_at a)
              (validation_error_new ''finished_at'' Required
                 ''terminal attempt fact requires a terminal timestamp'')) (\<lambda>finished.
     ebind (scan_results s a finished 0 [] True False results) (\<lambda>(observed, all_passed, any_failed).
     if \<not> set observed \<subseteq> expected then
       Inl (validation_error_new ''results'' Inconsistent
              ''contains an execution absent from the frozen review plan'')
     else if \<not> (case at_status a of
                   AttemptPassed \<Rightarrow> set observed = expected \<and> all_passed
                 | AttemptFailed \<Rightarrow> any_failed
                 | AttemptInterrupted \<Rightarrow> set observed \<noteq> expected \<or> \<not> all_passed
                 | AttemptRunning \<Rightarrow> False)
     then Inl (validation_error_new ''status'' Inconsistent
                 ''attempt status is not supported by its immutable check results'')
     else Inr ())))"

definition validate_environment_record ::
  "review_session \<Rightarrow> review_environment \<Rightarrow> validation_error + unit" where
  "validate_environment_record s e =
     ebind (review_session_validate s) (\<lambda>_.
     ebind (environment_validate e) (\<lambda>_.
     ebind (validate_child_identity s (en_workspace_id e) (en_session_id e) (en_request_id e)
              (en_candidate_sha e) (en_plan e)) (\<lambda>_.
     if en_declared_environment_digest e \<noteq> pl_declared_environment_digest (rs_plan s) then
       Inl (validation_error_new ''declared_environment_digest'' Inconsistent
              ''does not match the frozen declared environment'')
     else
     ebind (find_review_check s (en_check_id e)) (\<lambda>c.
     if en_required_absent_binaries e \<noteq>
        (case en_variant e of NormalVariant \<Rightarrow> {||} | RequiredAbsentVariant \<Rightarrow> ck_required_absent_binaries c)
     then Inl (validation_error_new ''required_absent_binaries'' Inconsistent
                 ''does not match the frozen configured check variant'')
     else if set (map tv_tool_id (en_tool_versions e)) \<noteq>
             set (map pr_tool_id (pl_tool_version_probes (rs_plan s)))
     then Inl (validation_error_new ''tool_versions'' Inconsistent
                 ''must exactly cover the frozen tool-version probes'')
     else if list_ex (\<lambda>b. bo_binary_id b |\<notin>| pl_optional_binaries (rs_plan s) \<and>
                           bo_binary_id b |\<notin>| ck_required_absent_binaries c)
               (en_binary_observations e)
     then Inl (validation_error_new ''binary_observations'' Inconsistent
                 ''contains a binary absent from the frozen review plan'')
     else Inr ()))))"

definition validate_execution_pair ::
  "review_session \<Rightarrow> review_check_result \<Rightarrow> review_environment \<Rightarrow> validation_error + unit" where
  "validate_execution_pair s r e =
     ebind (validate_check_result s r) (\<lambda>_.
     ebind (validate_environment_record s e) (\<lambda>_.
     if cr_environment_id r \<noteq> en_environment_id e \<or> cr_attempt_sequence r \<noteq> en_attempt_sequence e \<or>
        cr_check_id r \<noteq> en_check_id e \<or> cr_variant r \<noteq> en_variant e
     then Inl (validation_error_new ''environment_id'' Inconsistent
                 ''check result and environment profile do not describe one execution'')
     else if cr_started_at r < en_recorded_at e then
       Inl (validation_error_new ''recorded_at'' Inconsistent
              ''execution environment must be captured before the check starts'')
     else
     let fully_contained = (en_process_containment e = PidNamespaceParentDeath) in
     if fully_contained \<and> cr_process_tree_may_outlive r then
       Inl (validation_error_new ''process_tree_may_outlive'' Inconsistent
              ''a fully contained process tree cannot be recorded as potentially surviving'')
     else if cr_termination r = OutputCaptureIncomplete \<and> fully_contained then
       Inl (validation_error_new ''termination'' Inconsistent
              ''fully contained execution cannot abandon capture for a surviving descendant'')
     else if cr_termination r \<in> {TimedOut, OutputLimitExceeded} \<and> \<not> fully_contained \<and>
             \<not> cr_process_tree_may_outlive r
     then Inl (validation_error_new ''process_tree_may_outlive'' Inconsistent
                 ''forced termination without full containment may leave descendants'')
     else Inr ()))"

end
