(* ===== verification/Control_Error.thy ===== *)
theory Control_Error
  imports Snapshot Review_Evidence "HOL-Library.Multiset" "HOL-Library.List_Lexorder"
begin

text \<open>
  \<^verbatim>\<open>crates/agsv-control/src/error.rs\<close>, the canonical JSON writer at the end of
  \<^verbatim>\<open>crates/agsv-control/src/store.rs\<close> and the digest helpers of \<^verbatim>\<open>identity.rs\<close>. A JSON value is
  \<^verbatim>\<open>serde_json::Value\<close>; the control plane only writes integral numbers. An object is the list of
  its entries in the order of \<^verbatim>\<open>serde_json\<close>'s map. What \<^verbatim>\<open>serde_json\<close>, \<^verbatim>\<open>sha2\<close>, SQLite and the file
  system compute is a field of the record \<open>review_io\<close>.
\<close>

section \<open>JSON values\<close>

datatype json =
    JNull
  | JBool bool
  | JNumber int
  | JString utext
  | JArray "json list"
  | JObject "(utext \<times> json) list"

definition show_int :: "int \<Rightarrow> string" where
  "show_int i = (if i < 0 then CHR ''-'' # show_nat (nat (- i)) else show_nat (nat i))"

text \<open>\<^verbatim>\<open>Map::insert\<close> of a sorted map, and the object that \<^verbatim>\<open>json!\<close> builds entry by entry.\<close>

fun json_insert :: "utext \<Rightarrow> json \<Rightarrow> (utext \<times> json) list \<Rightarrow> (utext \<times> json) list" where
  "json_insert k v [] = [(k, v)]"
| "json_insert k v ((l, w) # es) =
     (if k < l then (k, v) # (l, w) # es
      else if k = l then (k, v) # es
      else (l, w) # json_insert k v es)"

definition json_object :: "(string \<times> json) list \<Rightarrow> json" where
  "json_object entries = JObject (fold (\<lambda>(k, v). json_insert (of_ascii k) v) entries [])"

abbreviation json_text :: "string \<Rightarrow> json" where
  "json_text s \<equiv> JString (of_ascii s)"

abbreviation json_u64 :: "u64 \<Rightarrow> json" where
  "json_u64 n \<equiv> JNumber (uint n)"

section \<open>Errors of the control plane\<close>

record control_error =
  ce_code :: string
  ce_message :: utext
  ce_hint :: "utext option"
  ce_details :: json

definition control_error_new :: "string \<Rightarrow> utext \<Rightarrow> control_error" where
  "control_error_new code message =
     \<lparr>ce_code = code, ce_message = message, ce_hint = None, ce_details = JObject []\<rparr>"

definition with_details :: "control_error \<Rightarrow> json \<Rightarrow> control_error" where
  "with_details e details = e\<lparr>ce_details := details\<rparr>"

definition with_hint :: "control_error \<Rightarrow> string \<Rightarrow> control_error" where
  "with_hint e hint = e\<lparr>ce_hint := Some (of_ascii hint)\<rparr>"

definition io_failure :: "string \<Rightarrow> utext \<Rightarrow> utext \<Rightarrow> control_error" where
  "io_failure action path error =
     with_details
       (control_error_new ''io_error''
          (of_ascii (''could not '' @ action @ '' '') @ path @ of_ascii '': '' @ error))
       (json_object [(''action'', json_text action), (''path'', JString path)])"

definition not_found :: "string \<Rightarrow> string \<Rightarrow> control_error" where
  "not_found kind ident =
     with_details
       (control_error_new ''not_found'' (of_ascii (kind @ '' `'' @ ident @ ''` was not found'')))
       (json_object [(''entity_kind'', json_text kind), (''entity_id'', json_text ident)])"

definition database_error :: "utext \<Rightarrow> control_error" where
  "database_error error =
     control_error_new ''state_store_error'' (of_ascii ''durable state operation failed: '' @ error)"

text \<open>\<^verbatim>\<open>Display\<close> of a validation error, with the \<^verbatim>\<open>Debug\<close> name of its code.\<close>

definition debug_validation_code :: "validation_code \<Rightarrow> string" where
  "debug_validation_code c =
     (case c of
        Required \<Rightarrow> ''Required''
      | InvalidFormat \<Rightarrow> ''InvalidFormat''
      | OutOfRange \<Rightarrow> ''OutOfRange''
      | Inconsistent \<Rightarrow> ''Inconsistent''
      | UnsupportedVersion \<Rightarrow> ''UnsupportedVersion'')"

definition validation_error_display :: "validation_error \<Rightarrow> string" where
  "validation_error_display e =
     v_field e @ '': '' @ v_message e @ '' ('' @ debug_validation_code (v_code e) @ '')''"

section \<open>Machine integers of the database\<close>

text \<open>A column of type \<^verbatim>\<open>i64\<close> holds the bits of a 64-bit word, read as a signed number.\<close>

type_synonym i64 = "64 word"

definition TRY_FROM_INT_ERROR :: utext where
  "TRY_FROM_INT_ERROR = of_ascii ''out of range integral type conversion attempted''"

definition to_i64 :: "u64 \<Rightarrow> control_error + i64" where
  "to_i64 value =
     (if uint value < 2 ^ 63 then Inr value
      else Inl (database_error (of_ascii ''integer overflow: '' @ TRY_FROM_INT_ERROR)))"

definition u64_try_from :: "i64 \<Rightarrow> control_error + u64" where
  "u64_try_from value =
     (if 0 \<le> sint value then Inr value else Inl (database_error TRY_FROM_INT_ERROR))"

section \<open>External computations\<close>

datatype path_probe = PathFound | PathMissing | PathError utext

record review_io =
  io_session_json :: "review_session \<Rightarrow> json option"
  io_parse_session :: "utext \<Rightarrow> review_session option"
  io_attempt_json :: "review_attempt \<Rightarrow> json option"
  io_parse_attempt :: "utext \<Rightarrow> review_attempt option"
  io_environment_json :: "review_environment \<Rightarrow> json option"
  io_parse_environment :: "utext \<Rightarrow> review_environment option"
  io_result_json :: "review_check_result \<Rightarrow> json option"
  io_parse_result :: "utext \<Rightarrow> review_check_result option"
  io_parse_snapshot :: "utext \<Rightarrow> domain_snapshot option"
  io_parse_request :: "utext \<Rightarrow> request option"
  io_parse_run :: "utext \<Rightarrow> run option"
  io_checks_json :: "review_check list \<Rightarrow> json"
  io_probes_json :: "review_tool_version_probe list \<Rightarrow> json"
  io_values_json :: "(review_environment_key, utext) fmap \<Rightarrow> json"
  io_binaries_json :: "review_binary_id fset \<Rightarrow> json"
  io_quote :: "utext \<Rightarrow> utext option"
  io_sha256 :: "u8 list \<Rightarrow> u8 list"
  io_json_error :: utext
  io_sql_error :: utext
  io_metadata :: "utext \<Rightarrow> path_probe"
  io_canonicalize :: "utext \<Rightarrow> utext + utext"

definition sql_error :: "review_io \<Rightarrow> control_error" where
  "sql_error x = database_error (io_sql_error x)"

definition json_error :: "review_io \<Rightarrow> control_error" where
  "json_error x = database_error (io_json_error x)"

section \<open>Canonical JSON and digests\<close>

fun join_texts :: "utext list \<Rightarrow> utext" where
  "join_texts [] = []"
| "join_texts [t] = t"
| "join_texts (t # u # ts) = t @ of_ascii '','' @ join_texts (u # ts)"

lemma size_sorted_entries [simp]:
  "size_list (size_prod f g) (sort_key k (xs :: ('a \<times> 'b) list)) = size_list (size_prod f g) xs"
proof -
  have "sum_list (map h (sort_key k xs)) = sum_list (map h xs)" for h :: "'a \<times> 'b \<Rightarrow> nat"
    by (metis mset_map mset_sort sum_mset_sum_list)
  then show ?thesis
    by (simp add: size_list_conv_sum_list)
qed

function write_canonical_json :: "review_io \<Rightarrow> json \<Rightarrow> control_error + utext"
  and write_values :: "review_io \<Rightarrow> json list \<Rightarrow> control_error + utext list"
  and write_entries :: "review_io \<Rightarrow> (utext \<times> json) list \<Rightarrow> control_error + utext list" where
  "write_canonical_json x JNull = Inr (of_ascii ''null'')"
| "write_canonical_json x (JBool b) = Inr (of_ascii (if b then ''true'' else ''false''))"
| "write_canonical_json x (JNumber n) = Inr (of_ascii (show_int n))"
| "write_canonical_json x (JString s) = ok_or (io_quote x s) (json_error x)"
| "write_canonical_json x (JArray vs) =
     ebind (write_values x vs) (\<lambda>ts. Inr (of_ascii ''['' @ join_texts ts @ of_ascii '']''))"
| "write_canonical_json x (JObject es) =
     ebind (write_entries x (sort_key fst es)) (\<lambda>ts. Inr (of_ascii ''{'' @ join_texts ts @ of_ascii ''}''))"
| "write_values x [] = Inr []"
| "write_values x (v # vs) =
     ebind (write_canonical_json x v) (\<lambda>t. ebind (write_values x vs) (\<lambda>ts. Inr (t # ts)))"
| "write_entries x [] = Inr []"
| "write_entries x (e # es) =
     ebind (ok_or (io_quote x (fst e)) (json_error x)) (\<lambda>k.
     ebind (write_canonical_json x (snd e)) (\<lambda>t.
     ebind (write_entries x es) (\<lambda>ts. Inr ((k @ of_ascii '':'' @ t) # ts))))"
  by pat_completeness auto

termination
  by (relation "measure (\<lambda>input. case input of
       Inl (x, v) \<Rightarrow> size v
     | Inr (Inl (x, vs)) \<Rightarrow> size_list size vs
     | Inr (Inr (x, es)) \<Rightarrow> size_list (size_prod (\<lambda>_. 0) size) es)")
    (auto simp: less_Suc_eq_le)

text \<open>\<^verbatim>\<open>canonical_json\<close> of a value whose \<^verbatim>\<open>serde_json::to_value\<close> is given.\<close>

definition canonical_json :: "review_io \<Rightarrow> json option \<Rightarrow> control_error + utext" where
  "canonical_json x value =
     ebind (ok_or value (json_error x)) (\<lambda>value. write_canonical_json x value)"

definition utf8_bytes_of :: "nat \<Rightarrow> u8 list" where
  "utf8_bytes_of c =
     (if c < 128 then [of_nat c]
      else if c < 2048 then [of_nat (192 + c div 64), of_nat (128 + c mod 64)]
      else if c < 65536 then
        [of_nat (224 + c div 4096), of_nat (128 + c div 64 mod 64), of_nat (128 + c mod 64)]
      else
        [of_nat (240 + c div 262144), of_nat (128 + c div 4096 mod 64),
         of_nat (128 + c div 64 mod 64), of_nat (128 + c mod 64)])"

definition utf8_bytes :: "utext \<Rightarrow> u8 list" where
  "utf8_bytes t = concat (map utf8_bytes_of t)"

definition hex_bytes :: "u8 list \<Rightarrow> string" where
  "hex_bytes bytes = concat (map hex_byte bytes)"

definition sha256_hex :: "review_io \<Rightarrow> u8 list \<Rightarrow> string" where
  "sha256_hex x bytes = hex_bytes (io_sha256 x bytes)"

definition verify_digest :: "review_io \<Rightarrow> string \<Rightarrow> string \<Rightarrow> u8 list \<Rightarrow> control_error + unit" where
  "verify_digest x label expected content =
     (let actual = sha256_hex x content in
      if actual \<noteq> expected then
        Inl (with_details
          (control_error_new ''bulk_content_digest_mismatch''
             (of_ascii (label @ '' digest verification failed'')))
          (json_object [(''expected'', json_text expected), (''actual'', json_text actual)]))
      else Inr ())"

end
