(* ===== verification/Review_Rows.thy ===== *)
theory Review_Rows
  imports Control_Error
begin

text \<open>
  The review tables of \<^verbatim>\<open>crates/agsv-control/src/store.rs\<close>: the rows, how a record is written to
  one, and the validators that read a row back. A row keeps the canonical JSON of its record, the
  digest of that text, and identity columns that must agree with it. A store serves one workspace;
  the tables hold the rows of that workspace.
\<close>

section \<open>Texts of the enumerations\<close>

definition review_attempt_status_text :: "review_attempt_status \<Rightarrow> string" where
  "review_attempt_status_text s =
     (case s of AttemptRunning \<Rightarrow> ''running'' | AttemptPassed \<Rightarrow> ''passed''
      | AttemptFailed \<Rightarrow> ''failed'' | AttemptInterrupted \<Rightarrow> ''interrupted'')"

definition review_execution_variant_text :: "review_execution_variant \<Rightarrow> string" where
  "review_execution_variant_text v =
     (case v of NormalVariant \<Rightarrow> ''normal'' | RequiredAbsentVariant \<Rightarrow> ''required_absent'')"

definition review_check_outcome_text :: "review_check_outcome \<Rightarrow> string" where
  "review_check_outcome_text o' =
     (case o' of CheckPassed \<Rightarrow> ''passed'' | CheckFailed \<Rightarrow> ''failed''
      | CheckExecutionError \<Rightarrow> ''execution_error'')"

definition review_check_termination_text :: "review_check_termination \<Rightarrow> string" where
  "review_check_termination_text t =
     (case t of Exited \<Rightarrow> ''exited'' | Signaled \<Rightarrow> ''signaled'' | TimedOut \<Rightarrow> ''timed_out''
      | OutputLimitExceeded \<Rightarrow> ''output_limit_exceeded''
      | OutputCaptureIncomplete \<Rightarrow> ''output_capture_incomplete'')"

definition review_process_containment_text :: "review_process_containment \<Rightarrow> string" where
  "review_process_containment_text c =
     (case c of PidNamespaceParentDeath \<Rightarrow> ''pid_namespace_parent_death''
      | ProcessGroupOnly \<Rightarrow> ''process_group_only'' | NoContainment \<Rightarrow> ''none'')"

definition review_session_status_text :: "review_session_status \<Rightarrow> string" where
  "review_session_status_text s =
     (case s of SessionPreparing \<Rightarrow> ''preparing'' | SessionReady \<Rightarrow> ''ready''
      | SessionInvalid \<Rightarrow> ''invalid'')"

definition review_recovery_state_text :: "review_recovery_state \<Rightarrow> string" where
  "review_recovery_state_text r =
     (case r of NotRequired \<Rightarrow> ''not_required'' | ResumeRequired \<Rightarrow> ''resume_required''
      | RecreateRequired \<Rightarrow> ''recreate_required'')"

section \<open>Rows\<close>

record session_row =
  sr_session_id :: string
  sr_begin_operation_id :: utext
  sr_request_id :: string
  sr_candidate_sha :: string
  sr_tree_sha :: string
  sr_checkout_path :: utext
  sr_plan_sha256 :: string
  sr_record_sha256 :: string
  sr_record_json :: utext
  sr_policy_revision :: i64
  sr_status :: string
  sr_recovery :: string
  sr_last_error :: "utext option"
  sr_created_at_ms :: i64
  sr_updated_at_ms :: i64

record attempt_row =
  ar_record_id :: string
  ar_session_id :: string
  ar_request_id :: string
  ar_candidate_sha :: string
  ar_attempt_sequence :: i64
  ar_verify_operation_id :: utext
  ar_plan_sha256 :: string
  ar_status :: string
  ar_record_sha256 :: string
  ar_record_json :: utext
  ar_started_at_ms :: i64
  ar_finished_at_ms :: "i64 option"
  ar_recorded_at_ms :: i64

record environment_row =
  er_environment_id :: string
  er_session_id :: string
  er_request_id :: string
  er_candidate_sha :: string
  er_attempt_sequence :: i64
  er_check_id :: string
  er_variant :: string
  er_process_containment :: string
  er_path_sha256 :: string
  er_record_sha256 :: string
  er_record_json :: utext
  er_recorded_at_ms :: i64

record result_row =
  rr_session_id :: string
  rr_request_id :: string
  rr_candidate_sha :: string
  rr_attempt_sequence :: i64
  rr_check_id :: string
  rr_variant :: string
  rr_environment_id :: string
  rr_expected_exit_code :: int
  rr_actual_exit_code :: "int option"
  rr_outcome :: string
  rr_termination :: string
  rr_process_tree_may_outlive :: bool
  rr_stdout_sha256 :: string
  rr_stderr_sha256 :: string
  rr_stdout_bytes :: i64
  rr_stderr_bytes :: i64
  rr_stdout_truncated :: bool
  rr_stderr_truncated :: bool
  rr_stdout_artifact_ref :: "utext option"
  rr_stderr_artifact_ref :: "utext option"
  rr_record_sha256 :: string
  rr_record_json :: utext
  rr_started_at_ms :: i64
  rr_finished_at_ms :: i64

section \<open>Stored records\<close>

datatype stored_session =
  StoredReviewSession
    (so_begin_operation_id: utext) (so_session: review_session) (so_last_error: "utext option")

datatype stored_attempt =
  StoredReviewVerificationAttempt (so_verify_operation_id: utext) (so_attempt: review_attempt)

datatype stored_environment =
  StoredReviewEnvironmentRecord (so_path_digest: payload_digest) (so_environment: review_environment)

section \<open>Errors of the review store\<close>

definition review_session_conflict :: "review_session_id \<Rightarrow> string \<Rightarrow> control_error" where
  "review_session_conflict session message =
     control_error_new ''review_session_conflict''
       (of_ascii (''review session `'' @ session @ ''` conflicts: '' @ message))"

definition invalid_review_session :: "validation_error \<Rightarrow> control_error" where
  "invalid_review_session e =
     control_error_new ''invalid_review_session'' (of_ascii (validation_error_display e))"

definition invalid_review_attempt :: "validation_error \<Rightarrow> control_error" where
  "invalid_review_attempt e =
     control_error_new ''invalid_review_attempt'' (of_ascii (validation_error_display e))"

definition invalid_review_check_result :: "validation_error \<Rightarrow> control_error" where
  "invalid_review_check_result e =
     control_error_new ''invalid_review_check_result'' (of_ascii (validation_error_display e))"

definition invalid_review_environment :: "validation_error \<Rightarrow> control_error" where
  "invalid_review_environment e =
     control_error_new ''invalid_review_environment'' (of_ascii (validation_error_display e))"

definition review_attempt_conflict :: "review_attempt \<Rightarrow> string \<Rightarrow> control_error" where
  "review_attempt_conflict a message =
     control_error_new ''review_attempt_conflict''
       (of_ascii (''review attempt '' @ show_nat (unat (at_attempt_sequence a)) @ '' record `'' @
          at_record_id a @ ''` conflicts: '' @ message))"

definition review_check_result_conflict :: "review_check_result \<Rightarrow> control_error" where
  "review_check_result_conflict r =
     control_error_new ''review_check_result_conflict''
       (of_ascii (''review check `'' @ cr_check_id r @ ''` attempt '' @
          show_nat (unat (cr_attempt_sequence r)) @ '' variant `'' @
          review_execution_variant_text (cr_variant r) @
          ''` already has different immutable content''))"

definition review_environment_conflict :: "review_environment \<Rightarrow> string \<Rightarrow> control_error" where
  "review_environment_conflict e message =
     control_error_new ''review_environment_conflict''
       (of_ascii (''review environment `'' @ en_environment_id e @ ''` conflicts: '' @ message))"

definition index_mismatch :: "string \<Rightarrow> string \<Rightarrow> string \<Rightarrow> control_error" where
  "index_mismatch code kind ident =
     control_error_new code
       (of_ascii (kind @ '' `'' @ ident @ ''` conflicts with its durable identity columns''))"

section \<open>The checkout path\<close>

text \<open>
  Paths are texts; a normalized absolute path is the root or a separator before each of its names.
  The search for the deepest existing ancestor takes the names in reverse.
\<close>

fun render_components :: "path_component list \<Rightarrow> utext" where
  "render_components [] = []"
| "render_components (RootDir # cs) =
     path_separator # render_components cs"
| "render_components (c # cs) =
     (case c of CurDir \<Rightarrow> [dot] | ParentDir \<Rightarrow> [dot, dot] | NormalDir name \<Rightarrow> name | RootDir \<Rightarrow> []) @
     (if cs = [] then [] else path_separator # render_components cs)"

definition absolute_path :: "utext list \<Rightarrow> utext" where
  "absolute_path names = render_components (RootDir # map NormalDir names)"

definition names_of :: "path_component list \<Rightarrow> utext list" where
  "names_of cs = concat (map (\<lambda>c. case c of NormalDir name \<Rightarrow> [name] | _ \<Rightarrow> []) cs)"

definition path_starts_with :: "utext \<Rightarrow> utext \<Rightarrow> bool" where
  "path_starts_with p base \<longleftrightarrow>
     take (length (path_components base)) (path_components p) = path_components base"

fun canonical_ancestor ::
  "review_io \<Rightarrow> utext list \<Rightarrow> utext list \<Rightarrow> control_error + utext \<times> utext list" where
  "canonical_ancestor x names missing =
     (let existing = absolute_path (rev names) in
      case io_metadata x existing of
        PathFound \<Rightarrow>
          (case io_canonicalize x existing of
             Inr canonical \<Rightarrow> Inr (canonical, missing)
           | Inl error \<Rightarrow> Inl (io_failure ''canonicalize review checkout ancestor'' existing error))
      | PathError error \<Rightarrow> Inl (io_failure ''inspect review checkout ancestor'' existing error)
      | PathMissing \<Rightarrow>
          (case names of
             [] \<Rightarrow> Inl (control_error_new ''unsafe_review_checkout''
                     (of_ascii ''review checkout has no existing canonical ancestor''))
           | name # parents \<Rightarrow> canonical_ancestor x parents (name # missing)))"

definition validate_review_checkout_path :: "review_io \<Rightarrow> utext \<Rightarrow> utext \<Rightarrow> control_error + unit" where
  "validate_review_checkout_path x root checkout_path =
     (let components = path_components checkout_path in
      if \<not> is_absolute checkout_path \<or> components = path_components root \<or>
         \<not> path_starts_with checkout_path root \<or>
         render_components components \<noteq> checkout_path \<or>
         list_ex (\<lambda>c. c \<in> {CurDir, ParentDir}) components
      then Inl (with_details
             (control_error_new ''unsafe_review_checkout''
                (of_ascii ''review checkout must be a normalized absolute child of '' @ root))
             (json_object [(''checkout_path'', JString checkout_path)]))
      else
        ebind (canonical_ancestor x (rev (names_of components)) []) (\<lambda>(ancestor, missing).
        let reconstructed = path_components ancestor @ map NormalDir missing in
        if reconstructed \<noteq> components then
          Inl (with_details
            (control_error_new ''unsafe_review_checkout''
               (of_ascii ''review checkout path traverses a symlink or non-canonical ancestor''))
            (json_object
              [(''checkout_path'', JString checkout_path),
               (''canonical_path'', JString (render_components reconstructed))]))
        else Inr ()))"

section \<open>Validation of a session\<close>

record state_store =
  st_workspace_id :: workspace_id
  st_review_checkout_root :: utext

definition validate_review_json_digest ::
  "review_io \<Rightarrow> string \<Rightarrow> json \<Rightarrow> payload_digest \<Rightarrow> control_error + unit" where
  "validate_review_json_digest x label value expected =
     ebind (canonical_json x (Some value)) (\<lambda>canonical.
     let actual = sha256_hex x (utf8_bytes canonical) in
     if actual = expected then Inr ()
     else Inl (with_details
       (control_error_new ''review_content_digest_mismatch''
          (of_ascii (label @ '' does not match its canonical SHA-256 digest'')))
       (json_object [(''expected'', json_text expected), (''actual'', json_text actual)])))"

definition validate_review_plan_digests :: "review_io \<Rightarrow> review_plan \<Rightarrow> control_error + unit" where
  "validate_review_plan_digests x p =
     ebind (validate_review_json_digest x ''declared environment''
              (io_values_json x (pl_declared_environment p)) (pl_declared_environment_digest p)) (\<lambda>_.
     let digest_input = json_object
       [(''checks'', io_checks_json x (pl_checks p)),
        (''tool_version_probes'', io_probes_json x (pl_tool_version_probes p)),
        (''declared_environment'', io_values_json x (pl_declared_environment p)),
        (''optional_binaries'', io_binaries_json x (pl_optional_binaries p))] in
     validate_review_json_digest x ''review plan configuration'' digest_input
       (pi_config_digest (pl_identity p)))"

definition validate_review_environment_digest :: "review_io \<Rightarrow> review_environment \<Rightarrow> control_error + unit" where
  "validate_review_environment_digest x e =
     validate_review_json_digest x ''execution environment''
       (io_values_json x (en_execution_environment e)) (en_execution_environment_digest e)"

definition validate_review_path_digest :: "review_environment \<Rightarrow> payload_digest \<Rightarrow> control_error + unit" where
  "validate_review_path_digest e path_digest =
     (if is_some_and (fmlookup (en_execution_environment e) ''path_digest'')
           (\<lambda>recorded. recorded = of_ascii path_digest)
      then Inr ()
      else Inl (control_error_new ''review_environment_path_mismatch''
                  (of_ascii (''review environment `'' @ en_environment_id e @
                     ''` does not bind its exact PATH digest''))))"

definition validate_review_last_error :: "utext option \<Rightarrow> control_error + unit" where
  "validate_review_last_error last_error =
     (if is_some_and last_error (\<lambda>error.
           trim error = [] \<or> 4096 < length error \<or> list_ex char_is_control error)
      then Inl (control_error_new ''invalid_review_session''
                  (of_ascii ''review session error text must be non-empty printable text of at most 4096 characters''))
      else Inr ())"

definition validate_review_session :: "review_io \<Rightarrow> state_store \<Rightarrow> review_session \<Rightarrow> control_error + unit" where
  "validate_review_session x st s =
     ebind (map_err invalid_review_session (review_session_validate s)) (\<lambda>_.
     ebind (validate_review_plan_digests x (rs_plan s)) (\<lambda>_.
     if rs_workspace_id s \<noteq> st_workspace_id st then
       Inl (control_error_new ''review_session_workspace_mismatch''
              (of_ascii (''review session `'' @ rs_session_id s @ ''` belongs to a different workspace'')))
     else validate_review_checkout_path x (st_review_checkout_root st) (rs_checkout_path s)))"

section \<open>Reading rows back\<close>

text \<open>
  A chain of column comparisons \<open>a || b || c\<close>, where a comparison with an integer column fails
  when the column is negative.
\<close>

fun any_difference :: "(control_error + bool) list \<Rightarrow> control_error + bool" where
  "any_difference [] = Inr False"
| "any_difference (c # cs) =
     ebind c (\<lambda>different. if different then Inr True else any_difference cs)"

definition differs_u64 :: "u64 \<Rightarrow> i64 \<Rightarrow> control_error + bool" where
  "differs_u64 value column = ebind (u64_try_from column) (\<lambda>stored. Inr (value \<noteq> stored))"

definition parse_json :: "review_io \<Rightarrow> 'a option \<Rightarrow> control_error + 'a" where
  "parse_json x parsed = ok_or parsed (json_error x)"

definition validate_stored_review_session ::
  "review_io \<Rightarrow> state_store \<Rightarrow> session_row \<Rightarrow> control_error + stored_session" where
  "validate_stored_review_session x st row =
     ebind (verify_digest x ''review session record'' (sr_record_sha256 row)
              (utf8_bytes (sr_record_json row))) (\<lambda>_.
     ebind (parse_json x (io_parse_session x (sr_record_json row))) (\<lambda>s.
     ebind (validate_review_session x st s) (\<lambda>_.
     ebind (u64_try_from (sr_created_at_ms row)) (\<lambda>created_at_ms.
     ebind (u64_try_from (sr_updated_at_ms row)) (\<lambda>updated_at_ms.
     ebind (any_difference
       [Inr (rs_workspace_id s \<noteq> st_workspace_id st \<or> rs_session_id s \<noteq> sr_session_id row \<or>
             rs_request_id s \<noteq> sr_request_id row \<or>
             rt_candidate_sha (rs_tree s) \<noteq> sr_candidate_sha row \<or>
             rt_tree_sha (rs_tree s) \<noteq> sr_tree_sha row \<or>
             rs_checkout_path s \<noteq> sr_checkout_path row \<or>
             pi_config_digest (pl_identity (rs_plan s)) \<noteq> sr_plan_sha256 row),
        differs_u64 (pi_policy_revision (pl_identity (rs_plan s))) (sr_policy_revision row),
        Inr (review_session_status_text (ss_status (rs_state s)) \<noteq> sr_status row \<or>
             review_recovery_state_text (ss_recovery (rs_state s)) \<noteq> sr_recovery row \<or>
             rs_created_at s \<noteq> created_at_ms \<or> rs_updated_at s \<noteq> updated_at_ms)]) (\<lambda>different.
     if different then
       Inl (index_mismatch ''review_session_index_mismatch'' ''review session'' (sr_session_id row))
     else if sr_begin_operation_id row = [] then
       Inl (control_error_new ''invalid_review_session''
              (of_ascii (''review session `'' @ sr_session_id row @ ''` has no begin operation ID'')))
     else
       ebind (validate_review_last_error (sr_last_error row)) (\<lambda>_.
       Inr (StoredReviewSession (sr_begin_operation_id row) s (sr_last_error row)))))))))"

definition optional_u64 :: "i64 option \<Rightarrow> control_error + u64 option" where
  "optional_u64 column =
     (case column of None \<Rightarrow> Inr None | Some c \<Rightarrow> ebind (u64_try_from c) (\<lambda>v. Inr (Some v)))"

definition validate_stored_review_attempt ::
  "review_io \<Rightarrow> review_session \<Rightarrow> attempt_row \<Rightarrow> control_error + stored_attempt" where
  "validate_stored_review_attempt x s row =
     ebind (verify_digest x ''review verification attempt'' (ar_record_sha256 row)
              (utf8_bytes (ar_record_json row))) (\<lambda>_.
     ebind (parse_json x (io_parse_attempt x (ar_record_json row))) (\<lambda>a.
     ebind (map_err invalid_review_attempt (validate_attempt_record s a)) (\<lambda>_.
     ebind (optional_u64 (ar_finished_at_ms row)) (\<lambda>finished_at.
     ebind (any_difference
       [Inr (at_record_id a \<noteq> ar_record_id row \<or> at_session_id a \<noteq> ar_session_id row \<or>
             at_request_id a \<noteq> ar_request_id row \<or> at_candidate_sha a \<noteq> ar_candidate_sha row),
        differs_u64 (at_attempt_sequence a) (ar_attempt_sequence row),
        Inr (pi_config_digest (at_plan a) \<noteq> ar_plan_sha256 row \<or>
             review_attempt_status_text (at_status a) \<noteq> ar_status row),
        differs_u64 (at_started_at a) (ar_started_at_ms row),
        Inr (at_finished_at a \<noteq> finished_at),
        differs_u64 (at_recorded_at a) (ar_recorded_at_ms row),
        Inr (ar_verify_operation_id row = [])]) (\<lambda>different.
     if different then
       Inl (index_mismatch ''review_attempt_index_mismatch'' ''review attempt record'' (ar_record_id row))
     else Inr (StoredReviewVerificationAttempt (ar_verify_operation_id row) a))))))"

definition validate_stored_review_environment ::
  "review_io \<Rightarrow> review_session \<Rightarrow> environment_row \<Rightarrow> control_error + stored_environment" where
  "validate_stored_review_environment x s row =
     ebind (verify_digest x ''review environment record'' (er_record_sha256 row)
              (utf8_bytes (er_record_json row))) (\<lambda>_.
     ebind (parse_json x (io_parse_environment x (er_record_json row))) (\<lambda>e.
     ebind (map_err invalid_review_environment (validate_environment_record s e)) (\<lambda>_.
     ebind (validate_review_environment_digest x e) (\<lambda>_.
     ebind (map_err invalid_review_environment (payload_digest_new (of_ascii (er_path_sha256 row)))) (\<lambda>path_digest.
     ebind (validate_review_path_digest e path_digest) (\<lambda>_.
     ebind (any_difference
       [Inr (en_environment_id e \<noteq> er_environment_id row \<or> en_session_id e \<noteq> er_session_id row \<or>
             en_request_id e \<noteq> er_request_id row \<or> en_candidate_sha e \<noteq> er_candidate_sha row),
        differs_u64 (en_attempt_sequence e) (er_attempt_sequence row),
        Inr (en_check_id e \<noteq> er_check_id row \<or>
             review_execution_variant_text (en_variant e) \<noteq> er_variant row \<or>
             review_process_containment_text (en_process_containment e) \<noteq> er_process_containment row),
        differs_u64 (en_recorded_at e) (er_recorded_at_ms row)]) (\<lambda>different.
     if different then
       Inl (index_mismatch ''review_environment_index_mismatch'' ''review environment''
              (er_environment_id row))
     else Inr (StoredReviewEnvironmentRecord path_digest e))))))))"

definition validate_stored_review_check_result ::
  "review_io \<Rightarrow> review_session \<Rightarrow> result_row \<Rightarrow> control_error + review_check_result" where
  "validate_stored_review_check_result x s row =
     ebind (verify_digest x ''review check result'' (rr_record_sha256 row)
              (utf8_bytes (rr_record_json row))) (\<lambda>_.
     ebind (parse_json x (io_parse_result x (rr_record_json row))) (\<lambda>r.
     ebind (map_err invalid_review_check_result (validate_check_result s r)) (\<lambda>_.
     ebind (any_difference
       [Inr (cr_session_id r \<noteq> rr_session_id row \<or> cr_request_id r \<noteq> rr_request_id row \<or>
             cr_candidate_sha r \<noteq> rr_candidate_sha row),
        differs_u64 (cr_attempt_sequence r) (rr_attempt_sequence row),
        Inr (cr_check_id r \<noteq> rr_check_id row \<or>
             review_execution_variant_text (cr_variant r) \<noteq> rr_variant row \<or>
             cr_environment_id r \<noteq> rr_environment_id row \<or>
             sint (cr_expected_exit_code r) \<noteq> rr_expected_exit_code row \<or>
             map_option sint (cr_actual_exit_code r) \<noteq> rr_actual_exit_code row \<or>
             review_check_outcome_text (cr_outcome r) \<noteq> rr_outcome row \<or>
             review_check_termination_text (cr_termination r) \<noteq> rr_termination row \<or>
             cr_process_tree_may_outlive r \<noteq> rr_process_tree_may_outlive row \<or>
             oa_digest (cr_stdout r) \<noteq> rr_stdout_sha256 row \<or>
             oa_digest (cr_stderr r) \<noteq> rr_stderr_sha256 row),
        differs_u64 (oa_byte_count (cr_stdout r)) (rr_stdout_bytes row),
        differs_u64 (oa_byte_count (cr_stderr r)) (rr_stderr_bytes row),
        Inr (oa_truncated (cr_stdout r) \<noteq> rr_stdout_truncated row \<or>
             oa_truncated (cr_stderr r) \<noteq> rr_stderr_truncated row \<or>
             oa_reference (cr_stdout r) \<noteq> rr_stdout_artifact_ref row \<or>
             oa_reference (cr_stderr r) \<noteq> rr_stderr_artifact_ref row),
        differs_u64 (cr_started_at r) (rr_started_at_ms row),
        differs_u64 (cr_finished_at r) (rr_finished_at_ms row)]) (\<lambda>different.
     if different then
       Inl (index_mismatch ''review_check_result_index_mismatch'' ''review check result'' (rr_check_id row))
     else Inr r))))"

end
