(* ===== verification/Control_Events.thy ===== *)
theory Control_Events
  imports Review_Rows
begin

text \<open>
  The tables of one workspace that the review operations read and write, and the append-only control
  event log of \<^verbatim>\<open>crates/agsv-control/src/store.rs\<close> with its compaction into the archive. A query is
  a function of the tables, a write returns the new tables, and an error inside a transaction rolls
  all of it back. Failures of SQLite itself (a full disk, a locked file) are not modelled; a
  violated constraint is.
\<close>

section \<open>Tables\<close>

record event_row =
  ev_sequence :: int
  ev_revision :: i64
  ev_operation :: string
  ev_detail_json :: utext
  ev_occurred_at_ms :: i64

record request_archive_row =
  ta_request_id :: string
  ta_run_id :: string
  ta_request_sha256 :: string
  ta_request_json :: utext
  ta_run_sha256 :: string
  ta_run_json :: utext

text \<open>
  \<open>db_domain\<close> is the row of \<^verbatim>\<open>domain_state\<close> (revision and snapshot text), \<open>db_last_sequence\<close> the
  counter of the \<^verbatim>\<open>AUTOINCREMENT\<close> key of \<^verbatim>\<open>control_events\<close>.
\<close>

record review_db =
  db_domain :: "(i64 \<times> utext) option"
  db_request_archive :: "request_archive_row list"
  db_sessions :: "session_row list"
  db_attempts :: "attempt_row list"
  db_environments :: "environment_row list"
  db_results :: "result_row list"
  db_events :: "event_row list"
  db_event_archive :: "(event_row \<times> i64) list"
  db_last_sequence :: int

fun traverse :: "('a \<Rightarrow> 'e + 'b) \<Rightarrow> 'a list \<Rightarrow> 'e + 'b list" where
  "traverse f [] = Inr []"
| "traverse f (y # ys) = ebind (f y) (\<lambda>z. ebind (traverse f ys) (\<lambda>zs. Inr (z # zs)))"

section \<open>Attribution of an event to a team\<close>

definition validate_terminal_request_archive_binding ::
  "workspace_id \<Rightarrow> string \<Rightarrow> string \<Rightarrow> request \<Rightarrow> run \<Rightarrow> control_error + unit" where
  "validate_terminal_request_archive_binding workspace request_id run_id request run =
     (if q_workspace_id request \<noteq> workspace \<or> r_workspace_id run \<noteq> workspace \<or>
         q_request_id request \<noteq> request_id \<or> r_request_id run \<noteq> q_request_id request \<or>
         q_run_id request \<noteq> r_run_id run \<or> r_run_id run \<noteq> run_id
      then Inl (control_error_new ''terminal_request_archive_index_mismatch''
                  (of_ascii (''terminal request archive indexes for request `'' @ request_id @
                     ''` conflict with immutable JSON'')))
      else Inr ())"

definition read_archived_request ::
  "review_io \<Rightarrow> workspace_id \<Rightarrow> review_db \<Rightarrow> request_id \<Rightarrow> control_error + (request \<times> run) option" where
  "read_archived_request x workspace db request_id =
     (case List.find (\<lambda>row. ta_request_id row = request_id) (db_request_archive db) of
        None \<Rightarrow> Inr None
      | Some row \<Rightarrow>
          ebind (verify_digest x ''archived request'' (ta_request_sha256 row)
                   (utf8_bytes (ta_request_json row))) (\<lambda>_.
          ebind (verify_digest x ''archived run'' (ta_run_sha256 row)
                   (utf8_bytes (ta_run_json row))) (\<lambda>_.
          ebind (parse_json x (io_parse_request x (ta_request_json row))) (\<lambda>request.
          ebind (parse_json x (io_parse_run x (ta_run_json row))) (\<lambda>run.
          ebind (validate_terminal_request_archive_binding workspace request_id (ta_run_id row)
                   request run) (\<lambda>_.
          Inr (Some (request, run))))))))"

text \<open>The \<^verbatim>\<open>request_id\<close> of an event's detail, when it is a valid identifier.\<close>

definition detail_request_id :: "(utext \<times> json) list \<Rightarrow> request_id option" where
  "detail_request_id entries =
     (case map_of entries (of_ascii ''request_id'') of
        Some (JString t) \<Rightarrow>
          if list_all (\<lambda>c. c < 128) t then
            (case string_id_new ''request_id'' (map char_of t) of Inr ident \<Rightarrow> Some ident | Inl _ \<Rightarrow> None)
          else None
      | _ \<Rightarrow> None)"

definition attribute_detail ::
  "review_io \<Rightarrow> workspace_id \<Rightarrow> review_db \<Rightarrow> utext \<Rightarrow> json \<Rightarrow> control_error + json" where
  "attribute_detail x workspace db snapshot_json detail =
     (case detail of
        JObject entries \<Rightarrow>
          (case detail_request_id entries of
             None \<Rightarrow> Inr detail
           | Some request_id \<Rightarrow>
               ebind (parse_json x (io_parse_snapshot x snapshot_json)) (\<lambda>sn.
               ebind (case List.find (\<lambda>r. q_request_id r = request_id) (sn_requests sn) of
                        Some request \<Rightarrow> Inr request
                      | None \<Rightarrow>
                          ebind (read_archived_request x workspace db request_id) (\<lambda>item.
                          ok_or (map_option fst item) (not_found ''review request'' request_id))) (\<lambda>request.
               Inr (JObject
                 (json_insert (of_ascii ''team_epoch'') (json_u64 (q_team_epoch request))
                   (json_insert (of_ascii ''team_id'') (json_text (q_team_id request)) entries))))))
      | _ \<Rightarrow> Inr detail)"

section \<open>Compaction\<close>

definition LIVE_CONTROL_EVENT_LIMIT :: nat where "LIVE_CONTROL_EVENT_LIMIT = 1000"

text \<open>The sequence of the thousandth newest event, when there is one.\<close>

definition live_floor :: "review_db \<Rightarrow> int option" where
  "live_floor db =
     (let sequences = rev (sort (map ev_sequence (db_events db))) in
      if LIVE_CONTROL_EVENT_LIMIT - 1 < length sequences
      then Some (sequences ! (LIVE_CONTROL_EVENT_LIMIT - 1)) else None)"

text \<open>\<^verbatim>\<open>INSERT OR IGNORE\<close>: the archive's primary key is the sequence.\<close>

definition archive_events :: "i64 \<Rightarrow> event_row list \<Rightarrow> (event_row \<times> i64) list \<Rightarrow> (event_row \<times> i64) list" where
  "archive_events archived_at events archive =
     fold (\<lambda>ev rows. if ev_sequence ev \<in> set (map (ev_sequence \<circ> fst) rows) then rows
                     else rows @ [(ev, archived_at)]) events archive"

definition archive_conflict :: "event_row list \<Rightarrow> (event_row \<times> i64) list \<Rightarrow> bool" where
  "archive_conflict events archive \<longleftrightarrow>
     list_ex (\<lambda>ev. list_ex (\<lambda>(archived, _). ev_sequence archived = ev_sequence ev \<and> archived \<noteq> ev)
        archive) events"

definition compact_control_events :: "u64 \<Rightarrow> review_db \<Rightarrow> control_error + review_db" where
  "compact_control_events archived_at_ms db =
     (case live_floor db of
        None \<Rightarrow> Inr db
      | Some lowest \<Rightarrow>
          ebind (to_i64 archived_at_ms) (\<lambda>archived_at.
          let old = filter (\<lambda>ev. ev_sequence ev < lowest) (db_events db);
              archive = archive_events archived_at old (db_event_archive db) in
          if archive_conflict old archive then
            Inl (control_error_new ''control_event_archive_conflict''
                   (of_ascii ''an archived control event conflicts with the live append-only event''))
          else
            Inr (db\<lparr>db_events := filter (\<lambda>ev. \<not> (ev_sequence ev < lowest \<and> ev \<in> set (map fst archive)))
                                   (db_events db),
                    db_event_archive := archive\<rparr>)))"

section \<open>Appending an event\<close>

definition append_review_control_event ::
  "review_io \<Rightarrow> workspace_id \<Rightarrow> string \<Rightarrow> json \<Rightarrow> timestamp_millis \<Rightarrow> review_db \<Rightarrow> control_error + review_db" where
  "append_review_control_event x workspace operation detail occurred_at db =
     (case db_domain db of
        None \<Rightarrow> Inl (sql_error x)
      | Some (revision, snapshot_json) \<Rightarrow>
          ebind (attribute_detail x workspace db snapshot_json detail) (\<lambda>attributed_detail.
          ebind (canonical_json x (Some attributed_detail)) (\<lambda>detail_json.
          ebind (to_i64 occurred_at) (\<lambda>occurred.
          if 2 ^ 63 - 1 \<le> db_last_sequence db then Inl (sql_error x)
          else
            let sequence = db_last_sequence db + 1 in
            compact_control_events occurred_at
              (db\<lparr>db_events := db_events db @
                     [\<lparr>ev_sequence = sequence, ev_revision = revision, ev_operation = operation,
                       ev_detail_json = detail_json, ev_occurred_at_ms = occurred\<rparr>],
                  db_last_sequence := sequence\<rparr>)))))"

end
