(* ===== verification/Review_Store.thy ===== *)
theory Review_Store
  imports Control_Events "HOL-Library.Product_Lexorder"
begin

text \<open>
  The review operations of \<^verbatim>\<open>StateStore\<close> in \<^verbatim>\<open>crates/agsv-control/src/store.rs\<close>: sessions, append-only
  attempt facts, environment records and check results. An operation takes the tables and returns
  an error, in which case its transaction is rolled back, or a value with the new tables.
\<close>

section \<open>Event details\<close>

definition review_session_event_operation :: "review_session_state \<Rightarrow> string" where
  "review_session_event_operation s =
     (case ss_status s of
        SessionPreparing \<Rightarrow> ''review.session.preparing''
      | SessionReady \<Rightarrow>
          if ss_recovery s = NotRequired then ''review.session.ready''
          else ''review.session.recovery_required''
      | SessionInvalid \<Rightarrow> ''review.session.invalid'')"

definition review_session_event_detail :: "review_session \<Rightarrow> utext \<Rightarrow> json" where
  "review_session_event_detail s begin_operation_id = json_object
     [(''session_id'', json_text (rs_session_id s)),
      (''request_id'', json_text (rs_request_id s)),
      (''candidate_sha'', json_text (rt_candidate_sha (rs_tree s))),
      (''tree_sha'', json_text (rt_tree_sha (rs_tree s))),
      (''plan_sha256'', json_text (pi_config_digest (pl_identity (rs_plan s)))),
      (''policy_revision'', json_u64 (pi_policy_revision (pl_identity (rs_plan s)))),
      (''begin_operation_id'', JString begin_operation_id),
      (''status'', json_text (review_session_status_text (ss_status (rs_state s)))),
      (''recovery'', json_text (review_recovery_state_text (ss_recovery (rs_state s))))]"

definition review_session_transition_event_detail :: "review_session \<Rightarrow> bool \<Rightarrow> json" where
  "review_session_transition_event_detail s has_error = json_object
     [(''session_id'', json_text (rs_session_id s)),
      (''request_id'', json_text (rs_request_id s)),
      (''candidate_sha'', json_text (rt_candidate_sha (rs_tree s))),
      (''status'', json_text (review_session_status_text (ss_status (rs_state s)))),
      (''recovery'', json_text (review_recovery_state_text (ss_recovery (rs_state s)))),
      (''has_error'', JBool has_error)]"

definition review_attempt_event_operation :: "review_attempt_status \<Rightarrow> string" where
  "review_attempt_event_operation s =
     (case s of
        AttemptRunning \<Rightarrow> ''review.attempt.running'' | AttemptPassed \<Rightarrow> ''review.attempt.passed''
      | AttemptFailed \<Rightarrow> ''review.attempt.failed'' | AttemptInterrupted \<Rightarrow> ''review.attempt.interrupted'')"

definition review_attempt_event_detail :: "review_attempt \<Rightarrow> utext \<Rightarrow> json" where
  "review_attempt_event_detail a verify_operation_id = json_object
     [(''session_id'', json_text (at_session_id a)),
      (''request_id'', json_text (at_request_id a)),
      (''candidate_sha'', json_text (at_candidate_sha a)),
      (''attempt_record_id'', json_text (at_record_id a)),
      (''attempt_sequence'', json_u64 (at_attempt_sequence a)),
      (''verify_operation_id'', JString verify_operation_id),
      (''plan_sha256'', json_text (pi_config_digest (at_plan a))),
      (''status'', json_text (review_attempt_status_text (at_status a)))]"

definition review_environment_event_detail :: "review_environment \<Rightarrow> payload_digest \<Rightarrow> json" where
  "review_environment_event_detail e path_digest = json_object
     [(''session_id'', json_text (en_session_id e)),
      (''request_id'', json_text (en_request_id e)),
      (''candidate_sha'', json_text (en_candidate_sha e)),
      (''attempt_sequence'', json_u64 (en_attempt_sequence e)),
      (''environment_id'', json_text (en_environment_id e)),
      (''check_id'', json_text (en_check_id e)),
      (''variant'', json_text (review_execution_variant_text (en_variant e))),
      (''process_containment'', json_text (review_process_containment_text (en_process_containment e))),
      (''path_sha256'', json_text path_digest),
      (''execution_environment_sha256'', json_text (en_execution_environment_digest e))]"

definition review_check_result_event_detail :: "review_check_result \<Rightarrow> json" where
  "review_check_result_event_detail r = json_object
     [(''session_id'', json_text (cr_session_id r)),
      (''request_id'', json_text (cr_request_id r)),
      (''candidate_sha'', json_text (cr_candidate_sha r)),
      (''attempt_sequence'', json_u64 (cr_attempt_sequence r)),
      (''environment_id'', json_text (cr_environment_id r)),
      (''check_id'', json_text (cr_check_id r)),
      (''variant'', json_text (review_execution_variant_text (cr_variant r))),
      (''outcome'', json_text (review_check_outcome_text (cr_outcome r))),
      (''termination'', json_text (review_check_termination_text (cr_termination r))),
      (''process_tree_may_outlive'', JBool (cr_process_tree_may_outlive r)),
      (''stdout_sha256'', json_text (oa_digest (cr_stdout r))),
      (''stderr_sha256'', json_text (oa_digest (cr_stderr r))),
      (''stdout_truncated'', JBool (oa_truncated (cr_stdout r))),
      (''stderr_truncated'', JBool (oa_truncated (cr_stderr r)))]"

section \<open>Sessions\<close>

definition optional_session ::
  "review_io \<Rightarrow> state_store \<Rightarrow> session_row option \<Rightarrow> control_error + stored_session option" where
  "optional_session x st row =
     (case row of
        None \<Rightarrow> Inr None
      | Some r \<Rightarrow> ebind (validate_stored_review_session x st r) (\<lambda>stored. Inr (Some stored)))"

definition review_session_for_id ::
  "review_io \<Rightarrow> state_store \<Rightarrow> review_db \<Rightarrow> review_session_id \<Rightarrow> control_error + stored_session option" where
  "review_session_for_id x st db session_id =
     optional_session x st (List.find (\<lambda>row. sr_session_id row = session_id) (db_sessions db))"

definition review_session_for_operation ::
  "review_io \<Rightarrow> state_store \<Rightarrow> review_db \<Rightarrow> utext \<Rightarrow> control_error + stored_session option" where
  "review_session_for_operation x st db operation_id =
     optional_session x st (List.find (\<lambda>row. sr_begin_operation_id row = operation_id) (db_sessions db))"

definition review_session_for_candidate_on ::
  "review_io \<Rightarrow> state_store \<Rightarrow> review_db \<Rightarrow> request_id \<Rightarrow> git_sha \<Rightarrow> control_error + stored_session option" where
  "review_session_for_candidate_on x st db request_id candidate_sha =
     optional_session x st
       (List.find (\<lambda>row. sr_request_id row = request_id \<and> sr_candidate_sha row = candidate_sha)
          (db_sessions db))"

definition review_sessions_for_candidate ::
  "review_io \<Rightarrow> state_store \<Rightarrow> review_db \<Rightarrow> git_sha \<Rightarrow> u32 \<Rightarrow> control_error + stored_session list" where
  "review_sessions_for_candidate x st db candidate_sha limit =
     traverse (validate_stored_review_session x st)
       (take (unat limit)
         (rev (sort_key (\<lambda>row. (sint (sr_updated_at_ms row), sr_session_id row))
            (filter (\<lambda>row. sr_candidate_sha row = candidate_sha) (db_sessions db)))))"

definition review_sessions_requiring_recovery ::
  "review_io \<Rightarrow> state_store \<Rightarrow> review_db \<Rightarrow> u32 \<Rightarrow> control_error + stored_session list" where
  "review_sessions_requiring_recovery x st db limit =
     traverse (validate_stored_review_session x st)
       (take (unat limit)
         (sort_key (\<lambda>row. (sint (sr_updated_at_ms row), sr_session_id row))
            (filter (\<lambda>row. sr_recovery row \<in> {''resume_required'', ''recreate_required''})
               (db_sessions db))))"

definition require_session ::
  "review_io \<Rightarrow> state_store \<Rightarrow> review_db \<Rightarrow> review_session_id \<Rightarrow> control_error + stored_session" where
  "require_session x st db session_id =
     ebind (review_session_for_id x st db session_id) (\<lambda>found.
     ok_or found (not_found ''review session'' session_id))"

definition same_review_session_begin :: "review_session \<Rightarrow> review_session \<Rightarrow> bool" where
  "same_review_session_begin existing proposed \<longleftrightarrow>
     rs_session_id existing = rs_session_id proposed \<and>
     rs_workspace_id existing = rs_workspace_id proposed \<and>
     rs_request_id existing = rs_request_id proposed \<and>
     rs_tree existing = rs_tree proposed \<and>
     rs_checkout_path existing = rs_checkout_path proposed \<and>
     rs_plan existing = rs_plan proposed \<and>
     rs_created_at existing = rs_created_at proposed"

definition resolve_existing_review_begin ::
  "review_io \<Rightarrow> state_store \<Rightarrow> review_db \<Rightarrow> utext \<Rightarrow> review_session \<Rightarrow>
   control_error + stored_session option" where
  "resolve_existing_review_begin x st db operation_id proposed =
     ebind (review_session_for_operation x st db operation_id) (\<lambda>by_operation.
     case by_operation of
       Some existing \<Rightarrow>
         if same_review_session_begin (so_session existing) proposed then Inr (Some existing)
         else Inl (review_session_conflict (rs_session_id proposed)
                ''begin operation ID was reused with different immutable review input'')
     | None \<Rightarrow>
         ebind (review_session_for_candidate_on x st db (rs_request_id proposed)
                  (rt_candidate_sha (rs_tree proposed))) (\<lambda>by_candidate.
         case by_candidate of
           None \<Rightarrow> Inr None
         | Some existing \<Rightarrow>
             if same_review_session_begin (so_session existing) proposed then Inr (Some existing)
             else
               let s = so_session existing in
               Inl (with_hint (with_details
                 (control_error_new ''review_session_already_exists''
                    (of_ascii (''candidate already belongs to review session `'' @ rs_session_id s @ ''`'')))
                 (json_object
                   [(''session_id'', json_text (rs_session_id s)),
                    (''request_id'', json_text (rs_request_id s)),
                    (''candidate_sha'', json_text (rt_candidate_sha (rs_tree s)))]))
                 ''reuse the existing exact-candidate review session'')))"

definition verify_review_begin_revision ::
  "review_io \<Rightarrow> review_db \<Rightarrow> u64 \<Rightarrow> review_session \<Rightarrow> control_error + unit" where
  "verify_review_begin_revision x db expected s =
     (case db_domain db of
        None \<Rightarrow> Inl (sql_error x)
      | Some (revision, _) \<Rightarrow>
          ebind (u64_try_from revision) (\<lambda>actual.
          if actual = expected then Inr ()
          else Inl (with_hint (with_details
            (control_error_new ''review_session_revision_conflict''
               (of_ascii ''domain state changed after the review candidate was validated''))
            (json_object
              [(''expected_revision'', json_u64 expected), (''actual_revision'', json_u64 actual),
               (''request_id'', json_text (rs_request_id s)),
               (''candidate_sha'', json_text (rt_candidate_sha (rs_tree s)))]))
            ''reload the request and current candidate, then retry review.begin'')))"

text \<open>The \<^verbatim>\<open>CHECK\<close> constraints and the keys of \<^verbatim>\<open>review_sessions\<close>.\<close>

definition session_row_checks :: "session_row \<Rightarrow> bool" where
  "session_row_checks row \<longleftrightarrow>
     take 1 (sr_checkout_path row) = of_ascii ''/'' \<and> 0 < sint (sr_policy_revision row) \<and>
     sr_status row \<in> {''preparing'', ''ready'', ''invalid''} \<and>
     sr_recovery row \<in> {''not_required'', ''resume_required'', ''recreate_required''} \<and>
     0 \<le> sint (sr_created_at_ms row) \<and> sint (sr_created_at_ms row) \<le> sint (sr_updated_at_ms row)"

definition session_keys_clash :: "session_row \<Rightarrow> session_row \<Rightarrow> bool" where
  "session_keys_clash a b \<longleftrightarrow>
     sr_session_id a = sr_session_id b \<or> sr_begin_operation_id a = sr_begin_operation_id b \<or>
     sr_request_id a = sr_request_id b \<and> sr_candidate_sha a = sr_candidate_sha b \<or>
     sr_checkout_path a = sr_checkout_path b"

text \<open>The columns \<^verbatim>\<open>insert_review_session\<close> writes; \<^verbatim>\<open>transition_review_session\<close> rewrites some of them.\<close>

definition session_row_of ::
  "review_io \<Rightarrow> utext \<Rightarrow> utext option \<Rightarrow> review_session \<Rightarrow> control_error + session_row" where
  "session_row_of x operation_id last_error s =
     ebind (canonical_json x (io_session_json x s)) (\<lambda>record_json.
     ebind (to_i64 (pi_policy_revision (pl_identity (rs_plan s)))) (\<lambda>policy.
     ebind (to_i64 (rs_created_at s)) (\<lambda>created.
     ebind (to_i64 (rs_updated_at s)) (\<lambda>updated.
     Inr \<lparr>sr_session_id = rs_session_id s, sr_begin_operation_id = operation_id,
          sr_request_id = rs_request_id s, sr_candidate_sha = rt_candidate_sha (rs_tree s),
          sr_tree_sha = rt_tree_sha (rs_tree s), sr_checkout_path = rs_checkout_path s,
          sr_plan_sha256 = pi_config_digest (pl_identity (rs_plan s)),
          sr_record_sha256 = sha256_hex x (utf8_bytes record_json), sr_record_json = record_json,
          sr_policy_revision = policy,
          sr_status = review_session_status_text (ss_status (rs_state s)),
          sr_recovery = review_recovery_state_text (ss_recovery (rs_state s)),
          sr_last_error = last_error, sr_created_at_ms = created, sr_updated_at_ms = updated\<rparr>))))"

definition begin_review_session ::
  "review_io \<Rightarrow> state_store \<Rightarrow> utext \<Rightarrow> u64 \<Rightarrow> review_session \<Rightarrow> review_db \<Rightarrow>
   control_error + stored_session \<times> review_db" where
  "begin_review_session x st begin_operation_id expected_domain_revision s db =
     ebind (validate_review_session x st s) (\<lambda>_.
     ebind (map_err invalid_review_session (session_state_new SessionPreparing NotRequired)) (\<lambda>initial.
     if rs_state s \<noteq> initial \<or> rs_created_at s \<noteq> rs_updated_at s then
       Inl (control_error_new ''invalid_review_session''
         (of_ascii ''a new review session must begin in preparing/not-required state with equal timestamps''))
     else if begin_operation_id = [] then
       Inl (control_error_new ''invalid_review_session''
         (of_ascii ''a review session requires a stable begin operation ID''))
     else
     ebind (canonical_json x (io_session_json x s)) (\<lambda>_.
     ebind (resolve_existing_review_begin x st db begin_operation_id s) (\<lambda>resolved.
     case resolved of
       Some existing \<Rightarrow> Inr (existing, db)
     | None \<Rightarrow>
         ebind (verify_review_begin_revision x db expected_domain_revision s) (\<lambda>_.
         ebind (session_row_of x begin_operation_id None s) (\<lambda>row.
         if session_row_checks row \<and> \<not> list_ex (session_keys_clash row) (db_sessions db) then
           ebind (append_review_control_event x (st_workspace_id st) ''review.session.preparing''
                    (review_session_event_detail s begin_operation_id) (rs_created_at s)
                    (db\<lparr>db_sessions := db_sessions db @ [row]\<rparr>)) (\<lambda>db'.
           Inr (StoredReviewSession begin_operation_id s None, db'))
         else Inl (review_session_conflict (rs_session_id s)
                ''session or checkout identity already belongs to another review'')))))))"

text \<open>The \<^verbatim>\<open>WHERE\<close> clause of the guarded update.\<close>

definition session_row_expected ::
  "review_session_id \<Rightarrow> review_session_state \<Rightarrow> i64 \<Rightarrow> session_row \<Rightarrow> bool" where
  "session_row_expected session_id expected previous row \<longleftrightarrow>
     sr_session_id row = session_id \<and>
     sr_status row = review_session_status_text (ss_status expected) \<and>
     sr_recovery row = review_recovery_state_text (ss_recovery expected) \<and>
     sr_updated_at_ms row = previous"

definition transition_review_session ::
  "review_io \<Rightarrow> state_store \<Rightarrow> review_session_id \<Rightarrow> review_session_state \<Rightarrow> review_session_state \<Rightarrow>
   utext option \<Rightarrow> timestamp_millis \<Rightarrow> review_db \<Rightarrow> control_error + stored_session \<times> review_db" where
  "transition_review_session x st session_id expected next_state last_error updated_at db =
     ebind (map_err invalid_review_session (session_state_validate expected)) (\<lambda>_.
     ebind (map_err invalid_review_session (session_state_validate next_state)) (\<lambda>_.
     ebind (validate_review_last_error last_error) (\<lambda>_.
     ebind (require_session x st db session_id) (\<lambda>existing.
     if rs_state (so_session existing) = next_state \<and> so_last_error existing = last_error then
       Inr (existing, db)
     else if rs_state (so_session existing) \<noteq> expected then
       Inl (review_session_conflict session_id
              ''durable state changed before the requested recovery transition'')
     else if \<not> session_allows_transition_to expected next_state then
       Inl (control_error_new ''invalid_review_session_transition''
              (of_ascii (''review session `'' @ session_id @ ''` cannot apply the requested state transition'')))
     else if updated_at < rs_updated_at (so_session existing) then
       Inl (control_error_new ''invalid_review_session_transition''
              (of_ascii ''review session update timestamp precedes its durable timestamp''))
     else
     let updated = (so_session existing)\<lparr>rs_state := next_state, rs_updated_at := updated_at\<rparr> in
     ebind (validate_review_session x st updated) (\<lambda>_.
     ebind (canonical_json x (io_session_json x updated)) (\<lambda>record_json.
     ebind (to_i64 updated_at) (\<lambda>updated_at_ms.
     ebind (to_i64 (rs_updated_at (so_session existing))) (\<lambda>previous.
     let matches = session_row_expected session_id expected previous;
         rewrite = (\<lambda>row. row\<lparr>sr_status := review_session_status_text (ss_status next_state),
                       sr_recovery := review_recovery_state_text (ss_recovery next_state),
                       sr_last_error := last_error,
                       sr_record_sha256 := sha256_hex x (utf8_bytes record_json),
                       sr_record_json := record_json, sr_updated_at_ms := updated_at_ms\<rparr>) in
     if list_ex (\<lambda>row. matches row \<and> \<not> session_row_checks (rewrite row)) (db_sessions db) then
       Inl (sql_error x)
     else if length (filter matches (db_sessions db)) \<noteq> 1 then
       Inl (review_session_conflict session_id ''durable state changed concurrently'')
     else
       ebind (append_review_control_event x (st_workspace_id st)
                (review_session_event_operation next_state)
                (review_session_transition_event_detail updated (last_error \<noteq> None)) updated_at
                (db\<lparr>db_sessions :=
                      map (\<lambda>row. if matches row then rewrite row else row) (db_sessions db)\<rparr>)) (\<lambda>db'.
       Inr (StoredReviewSession (so_begin_operation_id existing) updated last_error, db'))))))))))"

end
