(* ===== verification/Review_Records.thy ===== *)
theory Review_Records
  imports Review_Store
begin

text \<open>
  The append-only review facts of \<^verbatim>\<open>StateStore\<close>: running and terminal attempt facts, environment
  records and check results, with the queries that read them back.
\<close>

section \<open>Attempt facts\<close>

definition same_review_attempt_identity :: "review_attempt \<Rightarrow> review_attempt \<Rightarrow> bool" where
  "same_review_attempt_identity running terminal \<longleftrightarrow>
     at_workspace_id running = at_workspace_id terminal \<and>
     at_session_id running = at_session_id terminal \<and>
     at_request_id running = at_request_id terminal \<and>
     at_candidate_sha running = at_candidate_sha terminal \<and>
     at_attempt_sequence running = at_attempt_sequence terminal \<and>
     at_plan running = at_plan terminal \<and> at_started_at running = at_started_at terminal"

definition query_review_attempts ::
  "review_io \<Rightarrow> review_session \<Rightarrow> attempt_row list \<Rightarrow> control_error + stored_attempt list" where
  "query_review_attempts x s rows = traverse (validate_stored_review_attempt x s) rows"

text \<open>\<^verbatim>\<open>Vec::pop\<close> after a query with \<^verbatim>\<open>LIMIT 1\<close>.\<close>

definition pop_last :: "'a list \<Rightarrow> 'a option" where
  "pop_last xs = (if xs = [] then None else Some (last xs))"

definition review_attempt_for_record_id ::
  "review_io \<Rightarrow> review_db \<Rightarrow> string \<Rightarrow> review_session \<Rightarrow> control_error + stored_attempt option" where
  "review_attempt_for_record_id x db record_id s =
     ebind (query_review_attempts x s
              (take 1 (filter (\<lambda>row. ar_record_id row = record_id) (db_attempts db)))) (\<lambda>attempts.
     Inr (pop_last attempts))"

definition review_attempts_for_operation ::
  "review_io \<Rightarrow> review_db \<Rightarrow> utext \<Rightarrow> review_session \<Rightarrow> control_error + stored_attempt list" where
  "review_attempts_for_operation x db operation_id s =
     query_review_attempts x s
       (take 3 (sort_key (\<lambda>row. (sint (ar_attempt_sequence row),
                     if ar_status row = ''running'' then 0 else (1::nat),
                     sint (ar_recorded_at_ms row), ar_record_id row))
          (filter (\<lambda>row. ar_verify_operation_id row = operation_id) (db_attempts db))))"

definition review_attempts_for_sequence ::
  "review_io \<Rightarrow> review_db \<Rightarrow> review_session_id \<Rightarrow> u64 \<Rightarrow> review_session \<Rightarrow>
   control_error + stored_attempt list" where
  "review_attempts_for_sequence x db session_id attempt_sequence s =
     ebind (to_i64 attempt_sequence) (\<lambda>sequence.
     query_review_attempts x s
       (take 3 (sort_key (\<lambda>row. (sint (ar_recorded_at_ms row), ar_record_id row))
          (filter (\<lambda>row. ar_session_id row = session_id \<and> ar_attempt_sequence row = sequence)
             (db_attempts db)))))"

section \<open>Environment records\<close>

definition query_review_environments ::
  "review_io \<Rightarrow> review_session \<Rightarrow> environment_row list \<Rightarrow> control_error + stored_environment list" where
  "query_review_environments x s rows = traverse (validate_stored_review_environment x s) rows"

definition review_environment_for_id ::
  "review_io \<Rightarrow> review_db \<Rightarrow> string \<Rightarrow> review_session \<Rightarrow> control_error + stored_environment option" where
  "review_environment_for_id x db environment_id s =
     ebind (query_review_environments x s
              (take 1 (filter (\<lambda>row. er_environment_id row = environment_id) (db_environments db)))) (\<lambda>records.
     Inr (pop_last records))"

definition require_environment ::
  "review_io \<Rightarrow> review_db \<Rightarrow> string \<Rightarrow> review_session \<Rightarrow> control_error + stored_environment" where
  "require_environment x db environment_id s =
     ebind (review_environment_for_id x db environment_id s) (\<lambda>found.
     ok_or found (not_found ''review environment'' environment_id))"

section \<open>Check results\<close>

text \<open>A stored result is read together with the environment it refers to.\<close>

definition read_review_check_result ::
  "review_io \<Rightarrow> review_db \<Rightarrow> review_session \<Rightarrow> result_row \<Rightarrow> control_error + review_check_result" where
  "read_review_check_result x db s row =
     ebind (validate_stored_review_check_result x s row) (\<lambda>r.
     ebind (require_environment x db (cr_environment_id r) s) (\<lambda>environment.
     ebind (map_err invalid_review_check_result
              (validate_execution_pair s r (so_environment environment))) (\<lambda>_.
     Inr r)))"

definition query_review_check_results ::
  "review_io \<Rightarrow> review_db \<Rightarrow> review_session \<Rightarrow> result_row list \<Rightarrow> control_error + review_check_result list" where
  "query_review_check_results x db s rows = traverse (read_review_check_result x db s) rows"

definition results_of_attempt ::
  "review_io \<Rightarrow> review_db \<Rightarrow> review_session \<Rightarrow> review_session_id \<Rightarrow> i64 \<Rightarrow> nat \<Rightarrow>
   control_error + review_check_result list" where
  "results_of_attempt x db s session_id sequence limit =
     query_review_check_results x db s
       (take limit (sort_key (\<lambda>row. (rr_variant row, rr_check_id row))
          (filter (\<lambda>row. rr_session_id row = session_id \<and> rr_attempt_sequence row = sequence)
             (db_results db))))"

definition u32_of_count :: "nat \<Rightarrow> string \<Rightarrow> control_error + nat" where
  "u32_of_count n message = (if n < 2 ^ 32 then Inr n else Inl (database_error (of_ascii message)))"

definition validate_terminal_review_results ::
  "review_io \<Rightarrow> review_db \<Rightarrow> review_session \<Rightarrow> review_attempt \<Rightarrow> control_error + unit" where
  "validate_terminal_review_results x db s a =
     (if at_status a = AttemptRunning then Inr ()
      else
        ebind (u32_of_count (length (pl_checks (rs_plan s)) * 2 + 1)
                 ''review result count overflow'') (\<lambda>maximum_results.
        ebind (to_i64 (at_attempt_sequence a)) (\<lambda>sequence.
        ebind (results_of_attempt x db s (at_session_id a) sequence maximum_results) (\<lambda>results.
        map_err invalid_review_attempt (validate_attempt_results s a results)))))"

definition review_check_result_for_key ::
  "review_io \<Rightarrow> review_db \<Rightarrow> review_check_result \<Rightarrow> review_session \<Rightarrow>
   control_error + review_check_result option" where
  "review_check_result_for_key x db r s =
     ebind (to_i64 (cr_attempt_sequence r)) (\<lambda>sequence.
     ebind (query_review_check_results x db s
              (take 1 (filter (\<lambda>row. rr_session_id row = cr_session_id r \<and>
                         rr_attempt_sequence row = sequence \<and>
                         rr_variant row = review_execution_variant_text (cr_variant r) \<and>
                         rr_check_id row = cr_check_id r) (db_results db)))) (\<lambda>results.
     Inr (pop_last results)))"

section \<open>Appending an attempt fact\<close>

definition validate_new_review_attempt ::
  "review_io \<Rightarrow> review_db \<Rightarrow> utext \<Rightarrow> review_session \<Rightarrow> review_attempt \<Rightarrow> control_error + unit" where
  "validate_new_review_attempt x db verify_operation_id s a =
     ebind (map_err invalid_review_session (session_state_new SessionReady NotRequired)) (\<lambda>ready.
     let may_append =
       (case at_status a of
          AttemptRunning \<Rightarrow> rs_state s = ready
        | _ \<Rightarrow> ss_status (rs_state s) = SessionReady) in
     if \<not> may_append then
       Inl (control_error_new ''review_session_not_ready''
              (of_ascii (''review session `'' @ at_session_id a @
                 ''` is not ready for this verification fact'')))
     else
     ebind (review_attempts_for_operation x db verify_operation_id s) (\<lambda>operation_records.
     ebind (review_attempts_for_sequence x db (at_session_id a) (at_attempt_sequence a) s) (\<lambda>prior.
     if at_status a = AttemptRunning \<and> prior = [] \<and> operation_records = [] then
       validate_terminal_review_results x db s a
     else if at_status a = AttemptRunning then
       Inl (review_attempt_conflict a
              ''logical attempt or verification operation already has a running fact'')
     else
       (case prior of
          [p] \<Rightarrow>
            if at_status (so_attempt p) = AttemptRunning \<and>
               same_review_attempt_identity (so_attempt p) a \<and>
               attempt_allows_transition_to (at_status (so_attempt p)) (at_status a) \<and>
               operation_records = [p]
            then validate_terminal_review_results x db s a
            else Inl (review_attempt_conflict a ''terminal fact requires exactly one matching running fact'')
        | _ \<Rightarrow> Inl (review_attempt_conflict a ''terminal fact requires exactly one matching running fact'')))))"

definition attempt_row_of :: "review_io \<Rightarrow> utext \<Rightarrow> review_attempt \<Rightarrow> control_error + attempt_row" where
  "attempt_row_of x operation_id a =
     ebind (canonical_json x (io_attempt_json x a)) (\<lambda>attempt_json.
     ebind (to_i64 (at_attempt_sequence a)) (\<lambda>sequence.
     ebind (to_i64 (at_started_at a)) (\<lambda>started.
     ebind (case at_finished_at a of
              None \<Rightarrow> Inr None
            | Some timestamp \<Rightarrow> ebind (to_i64 timestamp) (\<lambda>f. Inr (Some f))) (\<lambda>finished.
     ebind (to_i64 (at_recorded_at a)) (\<lambda>recorded.
     Inr \<lparr>ar_record_id = at_record_id a, ar_session_id = at_session_id a,
          ar_request_id = at_request_id a, ar_candidate_sha = at_candidate_sha a,
          ar_attempt_sequence = sequence, ar_verify_operation_id = operation_id,
          ar_plan_sha256 = pi_config_digest (at_plan a),
          ar_status = review_attempt_status_text (at_status a),
          ar_record_sha256 = sha256_hex x (utf8_bytes attempt_json), ar_record_json = attempt_json,
          ar_started_at_ms = started, ar_finished_at_ms = finished, ar_recorded_at_ms = recorded\<rparr>)))))"

text \<open>The constraints of \<^verbatim>\<open>review_verification_attempts\<close>, its two partial unique indexes included.\<close>

definition attempt_row_checks :: "attempt_row \<Rightarrow> bool" where
  "attempt_row_checks row \<longleftrightarrow>
     0 < sint (ar_attempt_sequence row) \<and>
     ar_status row \<in> {''running'', ''passed'', ''failed'', ''interrupted''} \<and>
     0 \<le> sint (ar_started_at_ms row) \<and> sint (ar_started_at_ms row) \<le> sint (ar_recorded_at_ms row) \<and>
     (ar_status row = ''running'' \<and> ar_finished_at_ms row = None \<or>
      ar_status row \<noteq> ''running'' \<and>
        is_none_or (ar_finished_at_ms row) (\<lambda>finished. sint (ar_started_at_ms row) \<le> sint finished))"

definition attempt_keys_clash :: "attempt_row \<Rightarrow> attempt_row \<Rightarrow> bool" where
  "attempt_keys_clash a b \<longleftrightarrow>
     ar_record_id a = ar_record_id b \<or>
     ar_session_id a = ar_session_id b \<and> ar_attempt_sequence a = ar_attempt_sequence b \<and>
     (ar_status a = ''running'' \<longleftrightarrow> ar_status b = ''running'')"

definition append_review_verification_attempt ::
  "review_io \<Rightarrow> state_store \<Rightarrow> utext \<Rightarrow> review_attempt \<Rightarrow> review_db \<Rightarrow>
   control_error + stored_attempt \<times> review_db" where
  "append_review_verification_attempt x st verify_operation_id a db =
     (if verify_operation_id = [] then
        Inl (control_error_new ''invalid_review_attempt''
               (of_ascii ''a verification attempt requires a stable operation ID''))
      else
      ebind (require_session x st db (at_session_id a)) (\<lambda>stored.
      let s = so_session stored in
      ebind (map_err invalid_review_attempt (validate_attempt_record s a)) (\<lambda>_.
      ebind (review_attempt_for_record_id x db (at_record_id a) s) (\<lambda>found.
      case found of
        Some existing \<Rightarrow>
          if so_attempt existing = a \<and> so_verify_operation_id existing = verify_operation_id then
            ebind (validate_terminal_review_results x db s (so_attempt existing)) (\<lambda>_.
            Inr (existing, db))
          else Inl (review_attempt_conflict a ''attempt record ID was reused with different content'')
      | None \<Rightarrow>
          ebind (validate_new_review_attempt x db verify_operation_id s a) (\<lambda>_.
          ebind (attempt_row_of x verify_operation_id a) (\<lambda>row.
          if \<not> attempt_row_checks row \<or> list_ex (attempt_keys_clash row) (db_attempts db) then
            Inl (sql_error x)
          else
            ebind (append_review_control_event x (st_workspace_id st)
                     (review_attempt_event_operation (at_status a))
                     (review_attempt_event_detail a verify_operation_id) (at_recorded_at a)
                     (db\<lparr>db_attempts := db_attempts db @ [row]\<rparr>)) (\<lambda>db'.
            Inr (StoredReviewVerificationAttempt verify_operation_id a, db'))))))))"

definition paired_facts :: "review_attempt \<Rightarrow> review_attempt \<Rightarrow> bool" where
  "paired_facts running terminal \<longleftrightarrow>
     at_status running = AttemptRunning \<and> at_status terminal \<noteq> AttemptRunning \<and>
     same_review_attempt_identity running terminal \<and>
     attempt_allows_transition_to (at_status running) (at_status terminal)"

definition review_verification_attempts_for_operation ::
  "review_io \<Rightarrow> state_store \<Rightarrow> review_db \<Rightarrow> review_session_id \<Rightarrow> utext \<Rightarrow>
   control_error + stored_attempt list" where
  "review_verification_attempts_for_operation x st db session_id verify_operation_id =
     (if verify_operation_id = [] then
        Inl (control_error_new ''invalid_review_attempt''
               (of_ascii ''a verification attempt requires a stable operation ID''))
      else
      ebind (require_session x st db session_id) (\<lambda>stored.
      let s = so_session stored in
      ebind (review_attempts_for_operation x db verify_operation_id s) (\<lambda>attempts.
      let valid_shape =
        (case attempts of
           [running] \<Rightarrow> at_status (so_attempt running) = AttemptRunning
         | [running, terminal] \<Rightarrow> paired_facts (so_attempt running) (so_attempt terminal)
         | _ \<Rightarrow> False) in
      if attempts \<noteq> [] \<and> \<not> valid_shape then
        Inl (control_error_new ''review_attempt_operation_conflict''
               (of_ascii ''verification operation `'' @ verify_operation_id @
                of_ascii ''` has conflicting durable facts''))
      else
        ebind (case List.find (\<lambda>stored. at_status (so_attempt stored) \<noteq> AttemptRunning) attempts of
                 None \<Rightarrow> Inr ()
               | Some terminal \<Rightarrow> validate_terminal_review_results x db s (so_attempt terminal)) (\<lambda>_.
        Inr attempts))))"

definition max_sequence :: "attempt_row list \<Rightarrow> i64 option" where
  "max_sequence rows =
     (case map ar_attempt_sequence rows of
        [] \<Rightarrow> None
      | s # ss \<Rightarrow> Some (fold (\<lambda>a b. if sint b < sint a then a else b) ss s))"

definition next_review_attempt_sequence ::
  "review_io \<Rightarrow> state_store \<Rightarrow> review_db \<Rightarrow> review_session_id \<Rightarrow> control_error + u64" where
  "next_review_attempt_sequence x st db session_id =
     ebind (require_session x st db session_id) (\<lambda>_.
     let maximum =
       (case max_sequence (filter (\<lambda>row. ar_session_id row = session_id) (db_attempts db)) of
          None \<Rightarrow> 0 | Some m \<Rightarrow> m) in
     ebind (u64_try_from maximum) (\<lambda>m.
     ok_or (checked_inc m) (database_error (of_ascii ''review attempt sequence overflow''))))"

definition ensure_running_review_attempt ::
  "review_io \<Rightarrow> review_db \<Rightarrow> review_session \<Rightarrow> u64 \<Rightarrow> control_error + review_attempt" where
  "ensure_running_review_attempt x db s attempt_sequence =
     ebind (review_attempts_for_sequence x db (rs_session_id s) attempt_sequence s) (\<lambda>attempts.
     ok_or (map_option so_attempt
              (List.find (\<lambda>stored. at_status (so_attempt stored) = AttemptRunning) attempts))
       (control_error_new ''review_attempt_not_running''
          (of_ascii (''review session `'' @ rs_session_id s @ ''` attempt '' @
             show_nat (unat attempt_sequence) @ '' has no running fact''))))"

section \<open>Appending an environment record\<close>

definition environment_row_of ::
  "review_io \<Rightarrow> payload_digest \<Rightarrow> review_environment \<Rightarrow> control_error + environment_row" where
  "environment_row_of x path_digest e =
     ebind (canonical_json x (io_environment_json x e)) (\<lambda>record_json.
     ebind (to_i64 (en_attempt_sequence e)) (\<lambda>sequence.
     ebind (to_i64 (en_recorded_at e)) (\<lambda>recorded.
     Inr \<lparr>er_environment_id = en_environment_id e, er_session_id = en_session_id e,
          er_request_id = en_request_id e, er_candidate_sha = en_candidate_sha e,
          er_attempt_sequence = sequence, er_check_id = en_check_id e,
          er_variant = review_execution_variant_text (en_variant e),
          er_process_containment = review_process_containment_text (en_process_containment e),
          er_path_sha256 = path_digest, er_record_sha256 = sha256_hex x (utf8_bytes record_json),
          er_record_json = record_json, er_recorded_at_ms = recorded\<rparr>)))"

definition environment_row_checks :: "environment_row \<Rightarrow> bool" where
  "environment_row_checks row \<longleftrightarrow>
     0 < sint (er_attempt_sequence row) \<and> er_variant row \<in> {''normal'', ''required_absent''} \<and>
     er_process_containment row \<in> {''pid_namespace_parent_death'', ''process_group_only'', ''none''} \<and>
     0 \<le> sint (er_recorded_at_ms row)"

definition environment_keys_clash :: "environment_row \<Rightarrow> environment_row \<Rightarrow> bool" where
  "environment_keys_clash a b \<longleftrightarrow>
     er_environment_id a = er_environment_id b \<or>
     er_session_id a = er_session_id b \<and> er_attempt_sequence a = er_attempt_sequence b \<and>
     er_check_id a = er_check_id b \<and> er_variant a = er_variant b"

definition append_review_environment_record ::
  "review_io \<Rightarrow> state_store \<Rightarrow> payload_digest \<Rightarrow> review_environment \<Rightarrow> review_db \<Rightarrow>
   control_error + stored_environment \<times> review_db" where
  "append_review_environment_record x st path_digest e db =
     ebind (map_err invalid_review_environment (payload_digest_validate path_digest)) (\<lambda>_.
     ebind (validate_review_path_digest e path_digest) (\<lambda>_.
     ebind (require_session x st db (en_session_id e)) (\<lambda>stored.
     let s = so_session stored in
     ebind (map_err invalid_review_environment (validate_environment_record s e)) (\<lambda>_.
     ebind (validate_review_environment_digest x e) (\<lambda>_.
     ebind (ensure_running_review_attempt x db s (en_attempt_sequence e)) (\<lambda>running.
     if en_recorded_at e < at_started_at running then
       Inl (control_error_new ''invalid_review_environment''
              (of_ascii ''review environment capture precedes its running attempt''))
     else
     ebind (review_environment_for_id x db (en_environment_id e) s) (\<lambda>found.
     case found of
       Some existing \<Rightarrow>
         if so_environment existing = e \<and> so_path_digest existing = path_digest then Inr (existing, db)
         else Inl (review_environment_conflict e ''environment ID was reused with different content'')
     | None \<Rightarrow>
         ebind (environment_row_of x path_digest e) (\<lambda>row.
         if environment_row_checks row \<and> \<not> list_ex (environment_keys_clash row) (db_environments db) then
           ebind (append_review_control_event x (st_workspace_id st) ''review.environment.recorded''
                    (review_environment_event_detail e path_digest) (en_recorded_at e)
                    (db\<lparr>db_environments := db_environments db @ [row]\<rparr>)) (\<lambda>db'.
           Inr (StoredReviewEnvironmentRecord path_digest e, db'))
         else Inl (review_environment_conflict e
                ''check execution variant already has another environment record'')))))))))"

section \<open>Appending a check result\<close>

definition result_row_of :: "review_io \<Rightarrow> review_check_result \<Rightarrow> control_error + result_row" where
  "result_row_of x r =
     ebind (canonical_json x (io_result_json x r)) (\<lambda>result_json.
     ebind (to_i64 (cr_attempt_sequence r)) (\<lambda>sequence.
     ebind (to_i64 (oa_byte_count (cr_stdout r))) (\<lambda>stdout_bytes.
     ebind (to_i64 (oa_byte_count (cr_stderr r))) (\<lambda>stderr_bytes.
     ebind (to_i64 (cr_started_at r)) (\<lambda>started.
     ebind (to_i64 (cr_finished_at r)) (\<lambda>finished.
     Inr \<lparr>rr_session_id = cr_session_id r, rr_request_id = cr_request_id r,
          rr_candidate_sha = cr_candidate_sha r, rr_attempt_sequence = sequence,
          rr_check_id = cr_check_id r, rr_variant = review_execution_variant_text (cr_variant r),
          rr_environment_id = cr_environment_id r,
          rr_expected_exit_code = sint (cr_expected_exit_code r),
          rr_actual_exit_code = map_option sint (cr_actual_exit_code r),
          rr_outcome = review_check_outcome_text (cr_outcome r),
          rr_termination = review_check_termination_text (cr_termination r),
          rr_process_tree_may_outlive = cr_process_tree_may_outlive r,
          rr_stdout_sha256 = oa_digest (cr_stdout r), rr_stderr_sha256 = oa_digest (cr_stderr r),
          rr_stdout_bytes = stdout_bytes, rr_stderr_bytes = stderr_bytes,
          rr_stdout_truncated = oa_truncated (cr_stdout r),
          rr_stderr_truncated = oa_truncated (cr_stderr r),
          rr_stdout_artifact_ref = oa_reference (cr_stdout r),
          rr_stderr_artifact_ref = oa_reference (cr_stderr r),
          rr_record_sha256 = sha256_hex x (utf8_bytes result_json), rr_record_json = result_json,
          rr_started_at_ms = started, rr_finished_at_ms = finished\<rparr>))))))"

definition result_row_checks :: "result_row \<Rightarrow> bool" where
  "result_row_checks row \<longleftrightarrow>
     0 < sint (rr_attempt_sequence row) \<and> rr_variant row \<in> {''normal'', ''required_absent''} \<and>
     0 \<le> rr_expected_exit_code row \<and> rr_expected_exit_code row \<le> 255 \<and>
     is_none_or (rr_actual_exit_code row) (\<lambda>code. 0 \<le> code \<and> code \<le> 255) \<and>
     rr_outcome row \<in> {''passed'', ''failed'', ''execution_error''} \<and>
     rr_termination row \<in> {''exited'', ''signaled'', ''timed_out'', ''output_limit_exceeded'',
                           ''output_capture_incomplete''} \<and>
     0 \<le> sint (rr_stdout_bytes row) \<and> 0 \<le> sint (rr_stderr_bytes row) \<and>
     0 \<le> sint (rr_started_at_ms row) \<and> sint (rr_started_at_ms row) \<le> sint (rr_finished_at_ms row)"

definition result_keys_clash :: "result_row \<Rightarrow> result_row \<Rightarrow> bool" where
  "result_keys_clash a b \<longleftrightarrow>
     rr_session_id a = rr_session_id b \<and> rr_attempt_sequence a = rr_attempt_sequence b \<and>
     rr_variant a = rr_variant b \<and> rr_check_id a = rr_check_id b"

definition append_review_check_result ::
  "review_io \<Rightarrow> state_store \<Rightarrow> review_check_result \<Rightarrow> review_db \<Rightarrow>
   control_error + review_check_result \<times> review_db" where
  "append_review_check_result x st r db =
     ebind (require_session x st db (cr_session_id r)) (\<lambda>stored.
     let s = so_session stored in
     ebind (map_err invalid_review_check_result (validate_check_result s r)) (\<lambda>_.
     ebind (ensure_running_review_attempt x db s (cr_attempt_sequence r)) (\<lambda>running.
     if cr_started_at r < at_started_at running then
       Inl (control_error_new ''invalid_review_check_result''
              (of_ascii ''review check execution precedes its running attempt''))
     else
     ebind (require_environment x db (cr_environment_id r) s) (\<lambda>environment.
     ebind (map_err invalid_review_check_result
              (validate_execution_pair s r (so_environment environment))) (\<lambda>_.
     ebind (result_row_of x r) (\<lambda>row.
     if result_row_checks row \<and> \<not> list_ex (result_keys_clash row) (db_results db) then
       ebind (append_review_control_event x (st_workspace_id st) ''review.check.recorded''
                (review_check_result_event_detail r) (cr_finished_at r)
                (db\<lparr>db_results := db_results db @ [row]\<rparr>)) (\<lambda>db'.
       Inr (r, db'))
     else
       ebind (review_check_result_for_key x db r s) (\<lambda>existing.
       if existing = Some r then Inr (r, db) else Inl (review_check_result_conflict r))))))))"

section \<open>Reading a session's records\<close>

definition session_results ::
  "review_db \<Rightarrow> review_session_id \<Rightarrow> nat \<Rightarrow> result_row list" where
  "session_results db session_id limit =
     take limit (sort_key (\<lambda>row. (- sint (rr_attempt_sequence row), rr_variant row, rr_check_id row))
       (filter (\<lambda>row. rr_session_id row = session_id) (db_results db)))"

definition review_check_results ::
  "review_io \<Rightarrow> state_store \<Rightarrow> review_db \<Rightarrow> review_session_id \<Rightarrow> u32 \<Rightarrow>
   control_error + review_check_result list" where
  "review_check_results x st db session_id limit =
     ebind (require_session x st db session_id) (\<lambda>stored.
     query_review_check_results x db (so_session stored) (session_results db session_id (unat limit)))"

record stored_records =
  sp_session :: stored_session
  sp_attempts :: "stored_attempt list"
  sp_check_results :: "review_check_result list"
  sp_environments :: "stored_environment list"

definition review_session_records ::
  "review_io \<Rightarrow> state_store \<Rightarrow> review_db \<Rightarrow> review_session_id \<Rightarrow> u32 \<Rightarrow>
   control_error + stored_records" where
  "review_session_records x st db session_id limit =
     ebind (require_session x st db session_id) (\<lambda>stored.
     let s = so_session stored in
     ebind (query_review_attempts x s
              (take (unat limit)
                (rev (sort_key (\<lambda>row. (sint (ar_attempt_sequence row), sint (ar_recorded_at_ms row),
                                       ar_record_id row))
                   (filter (\<lambda>row. ar_session_id row = session_id) (db_attempts db)))))) (\<lambda>attempts.
     ebind (query_review_check_results x db s (session_results db session_id (unat limit))) (\<lambda>results.
     ebind (query_review_environments x s
              (take (unat limit)
                (sort_key (\<lambda>row. (- sint (er_attempt_sequence row), er_check_id row, er_variant row))
                   (filter (\<lambda>row. er_session_id row = session_id) (db_environments db))))) (\<lambda>environments.
     ebind (check_all_from 0 (\<lambda>_ terminal. validate_terminal_review_results x db s (so_attempt terminal))
              (filter (\<lambda>stored. at_status (so_attempt stored) \<noteq> AttemptRunning) attempts)) (\<lambda>_.
     Inr \<lparr>sp_session = stored, sp_attempts = attempts, sp_check_results = results,
          sp_environments = environments\<rparr>)))))"

end
