(* ===== verification/Review_Facts.thy ===== *)
theory Review_Facts
  imports Review_Evidence
begin

text \<open>
  What the validators of review records guarantee: the frozen plan, the aggregate status of an
  attempt, and the containment evidence of an execution.
\<close>

section \<open>Lists with unique keys\<close>

lemma check_unique_from_Inr_iff:
  "check_unique_from fld sub msg f key i seen xs = Inr u \<longleftrightarrow>
     (\<forall>x \<in> set xs. f x = Inr ()) \<and> distinct (map key xs) \<and> set (map key xs) \<inter> set seen = {}"
  by (induction xs arbitrary: i seen) (auto simp: result_simps)

lemma check_all_from_InrD: "check_all_from i f xs = Inr u \<Longrightarrow> x \<in> set xs \<Longrightarrow> \<exists>j. f j x = Inr ()"
  by (induction xs arbitrary: i) (auto simp: result_simps)

lemma find_SomeD: "List.find P xs = Some x \<Longrightarrow> x \<in> set xs \<and> P x"
  by (induction xs) (auto split: if_splits)

lemma find_distinct:
  assumes "distinct (map key xs)" and "x \<in> set xs" and "key x = k"
  shows "List.find (\<lambda>y. key y = k) xs = Some x"
  using assms by (induction xs) (auto simp: image_iff)

section \<open>Plans\<close>

lemma argv_not_empty: "validate_review_argv fld argv = Inr u \<Longrightarrow> argv \<noteq> []"
  by (auto simp: validate_review_argv_def)

lemma valid_plan:
  assumes "review_plan_validate p = Inr u"
  shows "pl_checks p \<noteq> []" and "distinct (map ck_check_id (pl_checks p))"
    and "distinct (map pr_tool_id (pl_tool_version_probes p))"
    and "c \<in> set (pl_checks p) \<Longrightarrow> review_check_validate c = Inr ()"
    and "c \<in> set (pl_checks p) \<Longrightarrow>
      \<exists>q \<in> set (pl_tool_version_probes p). program_of (ck_argv c) = program_of (pr_argv q)"
    and "fmlookup (pl_declared_environment p) k = Some v \<Longrightarrow>
      validate_declared_environment_entry k v = Inr ()"
proof -
  note parts = assms [unfolded review_plan_validate_def]
  from parts show "pl_checks p \<noteq> []"
    by (auto simp: result_simps)
  from parts show "distinct (map ck_check_id (pl_checks p))"
    and "distinct (map pr_tool_id (pl_tool_version_probes p))"
    by (simp_all add: result_simps check_unique_from_Inr_iff)
  show "review_check_validate c = Inr ()" if "c \<in> set (pl_checks p)"
    using parts that by (simp add: result_simps check_unique_from_Inr_iff)
  show "\<exists>q \<in> set (pl_tool_version_probes p). program_of (ck_argv c) = program_of (pr_argv q)"
    if "c \<in> set (pl_checks p)"
  proof -
    from parts have "validate_tool_probe_coverage (pl_checks p) (pl_tool_version_probes p) = Inr ()"
      by (simp add: result_simps)
    with that show ?thesis
      by (auto simp: validate_tool_probe_coverage_def Let_def image_iff
          dest!: check_all_from_InrD split: if_splits)
  qed
  show "validate_declared_environment_entry k v = Inr ()"
    if "fmlookup (pl_declared_environment p) k = Some v"
  proof -
    have "(k, v) \<in> set (sorted_list_of_fmap (pl_declared_environment p))"
      using that by (auto simp: sorted_list_of_fmap_def fmlookup_dom_iff image_iff)
    moreover from parts have "check_all_from 0 (\<lambda>_ (key, value). validate_declared_environment_entry key value)
        (sorted_list_of_fmap (pl_declared_environment p)) = Inr ()"
      by (simp add: result_simps)
    ultimately show ?thesis
      by (auto dest: check_all_from_InrD)
  qed
qed

section \<open>Sessions and their checks\<close>

lemma valid_session:
  assumes "review_session_validate s = Inr u"
  shows "review_plan_validate (rs_plan s) = Inr ()" and "session_state_validate (rs_state s) = Inr ()"
    and "rs_created_at s \<le> rs_updated_at s"
  using assms by (auto simp: review_session_validate_def result_simps)

lemma session_state_step:
  assumes "session_state_validate s = Inr ()" and "session_allows_transition_to s t"
  shows "session_state_validate t = Inr ()"
  using assms unfolding session_allows_transition_to_def session_state_validate_def
  by (cases s; cases t)
    (auto split: review_session_status.splits review_recovery_state.splits)

lemma find_review_check_Inr:
  assumes "find_review_check s k = Inr c"
  shows "c \<in> set (pl_checks (rs_plan s))" and "ck_check_id c = k"
  using assms find_SomeD [of "\<lambda>c. ck_check_id c = k" "pl_checks (rs_plan s)" c]
  by (auto simp: find_review_check_def result_simps)

lemma valid_result:
  assumes "validate_check_result s r = Inr u"
  obtains c where "c \<in> set (pl_checks (rs_plan s))" and "ck_check_id c = cr_check_id r"
    and "cr_expected_exit_code r = ck_expected_exit_code c"
    and "cr_variant r = RequiredAbsentVariant \<Longrightarrow> ck_required_absent_binaries c \<noteq> {||}"
    and "check_result_validate r = Inr ()" and "cr_candidate_sha r = rt_candidate_sha (rs_tree s)"
    and "cr_session_id r = rs_session_id s"
proof -
  from assms obtain c where "find_review_check s (cr_check_id r) = Inr c"
    and "cr_expected_exit_code r = ck_expected_exit_code c"
    and "\<not> (cr_variant r = RequiredAbsentVariant \<and> ck_required_absent_binaries c = {||})"
    and "check_result_validate r = Inr ()"
    and "validate_child_identity s (cr_workspace_id r) (cr_session_id r) (cr_request_id r)
           (cr_candidate_sha r) (cr_plan r) = Inr ()"
    by (auto simp: validate_check_result_def result_simps)
  then show thesis
    using find_review_check_Inr by (intro that) (auto simp: validate_child_identity_def split: if_splits)
qed

lemma passed_result:
  assumes "check_result_validate r = Inr u" and "cr_outcome r = CheckPassed"
  shows "cr_termination r = Exited" and "cr_actual_exit_code r = Some (cr_expected_exit_code r)"
    and "\<not> cr_process_tree_may_outlive r"
  using assms
  by (auto simp: check_result_validate_def result_simps outcome_shape_is_valid_def
      survivor_shape_is_valid_def)

lemma result_interval: "check_result_validate r = Inr u \<Longrightarrow> cr_started_at r \<le> cr_finished_at r"
  by (auto simp: check_result_validate_def result_simps)

section \<open>The results of an attempt\<close>

abbreviation execution_of :: "review_check_result \<Rightarrow> review_check_id \<times> review_execution_variant" where
  "execution_of r \<equiv> (cr_check_id r, cr_variant r)"

lemma scanned_results:
  assumes "scan_results s a finished i seen p q rs = Inr (observed, all_passed, any_failed)"
  shows "set observed = set seen \<union> execution_of ` set rs"
    and "distinct (map execution_of rs)" and "execution_of ` set rs \<inter> set seen = {}"
    and "all_passed \<longleftrightarrow> p \<and> (\<forall>r \<in> set rs. cr_outcome r = CheckPassed)"
    and "any_failed \<longleftrightarrow> q \<or> (\<exists>r \<in> set rs. cr_outcome r \<noteq> CheckPassed)"
    and "r \<in> set rs \<Longrightarrow> validate_check_result s r = Inr () \<and>
      cr_attempt_sequence r = at_attempt_sequence a \<and>
      at_started_at a \<le> cr_started_at r \<and> cr_finished_at r \<le> finished"
proof -
  have "set observed = set seen \<union> execution_of ` set rs \<and> distinct (map execution_of rs) \<and>
      execution_of ` set rs \<inter> set seen = {} \<and>
      all_passed = (p \<and> (\<forall>r \<in> set rs. cr_outcome r = CheckPassed)) \<and>
      any_failed = (q \<or> (\<exists>r \<in> set rs. cr_outcome r \<noteq> CheckPassed)) \<and>
      (\<forall>r \<in> set rs. validate_check_result s r = Inr () \<and>
         cr_attempt_sequence r = at_attempt_sequence a \<and>
         at_started_at a \<le> cr_started_at r \<and> cr_finished_at r \<le> finished)"
    using assms
  proof (induction rs arbitrary: i seen p q)
    case (Cons r rs)
    then have rest: "scan_results s a finished (Suc i) (execution_of r # seen)
          (p \<and> cr_outcome r = CheckPassed) (q \<or> cr_outcome r \<noteq> CheckPassed) rs =
        Inr (observed, all_passed, any_failed)"
      and head: "validate_check_result s r = Inr ()" "cr_attempt_sequence r = at_attempt_sequence a"
        "at_started_at a \<le> cr_started_at r" "cr_finished_at r \<le> finished"
        "execution_of r \<notin> set seen"
      by (auto simp: result_simps not_less)
    from Cons.IH [OF rest] head show ?case
      by (simp add: disjoint_iff) blast
  qed simp
  then show "set observed = set seen \<union> execution_of ` set rs"
    and "distinct (map execution_of rs)" and "execution_of ` set rs \<inter> set seen = {}"
    and "all_passed \<longleftrightarrow> p \<and> (\<forall>r \<in> set rs. cr_outcome r = CheckPassed)"
    and "any_failed \<longleftrightarrow> q \<or> (\<exists>r \<in> set rs. cr_outcome r \<noteq> CheckPassed)"
    and "r \<in> set rs \<Longrightarrow> validate_check_result s r = Inr () \<and>
      cr_attempt_sequence r = at_attempt_sequence a \<and>
      at_started_at a \<le> cr_started_at r \<and> cr_finished_at r \<le> finished"
    by blast+
qed

lemma validated_results:
  assumes "validate_attempt_results s a rs = Inr u"
  obtains finished observed all_passed any_failed where
      "review_session_validate s = Inr ()" and "at_status a \<noteq> AttemptRunning"
    and "at_finished_at a = Some finished"
    and "scan_results s a finished 0 [] True False rs = Inr (observed, all_passed, any_failed)"
    and "set observed \<subseteq> expected_executions s"
    and "case at_status a of
           AttemptPassed \<Rightarrow> set observed = expected_executions s \<and> all_passed
         | AttemptFailed \<Rightarrow> any_failed
         | AttemptInterrupted \<Rightarrow> set observed \<noteq> expected_executions s \<or> \<not> all_passed
         | AttemptRunning \<Rightarrow> False"
  using assms
  by (auto simp: validate_attempt_results_def validate_attempt_record_def Let_def result_simps intro: that)

lemma passed_results_cover_plan:
  assumes valid: "validate_attempt_results s a rs = Inr u" and passed: "at_status a = AttemptPassed"
  shows "bij_betw execution_of (set rs) (expected_executions s)"
    and "r \<in> set rs \<Longrightarrow> cr_candidate_sha r = rt_candidate_sha (rs_tree s) \<and>
      (\<exists>c \<in> set (pl_checks (rs_plan s)). ck_check_id c = cr_check_id r \<and>
         cr_termination r = Exited \<and> cr_actual_exit_code r = Some (ck_expected_exit_code c))"
    and "r \<in> set rs \<Longrightarrow> at_started_at a \<le> cr_started_at r \<and> cr_started_at r \<le> cr_finished_at r \<and>
      is_some_and (at_finished_at a) (\<lambda>finished. cr_finished_at r \<le> finished)"
proof -
  from valid obtain finished observed all_passed any_failed where
      finished: "at_finished_at a = Some finished"
    and scan: "scan_results s a finished 0 [] True False rs = Inr (observed, all_passed, any_failed)"
    and explained: "set observed = expected_executions s" "all_passed"
    using passed by (auto elim: validated_results)
  note scanned = scanned_results [OF scan]
  show "bij_betw execution_of (set rs) (expected_executions s)"
    using scanned(1,2) explained(1) by (simp add: bij_betw_def distinct_map)
  assume r: "r \<in> set rs"
  then have valid_r: "validate_check_result s r = Inr ()" and "cr_outcome r = CheckPassed"
    using scanned(4,6) explained(2) by auto
  from valid_r obtain c where c: "c \<in> set (pl_checks (rs_plan s))" "ck_check_id c = cr_check_id r"
      "cr_expected_exit_code r = ck_expected_exit_code c" "check_result_validate r = Inr ()"
      "cr_candidate_sha r = rt_candidate_sha (rs_tree s)"
    by (rule valid_result)
  from c \<open>cr_outcome r = CheckPassed\<close> show "cr_candidate_sha r = rt_candidate_sha (rs_tree s) \<and>
      (\<exists>c \<in> set (pl_checks (rs_plan s)). ck_check_id c = cr_check_id r \<and>
         cr_termination r = Exited \<and> cr_actual_exit_code r = Some (ck_expected_exit_code c))"
    using passed_result [OF c(4)] by auto
  show "at_started_at a \<le> cr_started_at r \<and> cr_started_at r \<le> cr_finished_at r \<and>
      is_some_and (at_finished_at a) (\<lambda>finished. cr_finished_at r \<le> finished)"
    using scanned(6) [OF r] result_interval [OF c(4)] finished by simp
qed

lemma one_verdict_per_result_set:
  assumes "validate_attempt_results s a rs = Inr u" and "validate_attempt_results s b rs = Inr v"
    and "at_status a = AttemptPassed" and "at_attempt_sequence b = at_attempt_sequence a"
  shows "at_status b = AttemptPassed"
proof -
  from assms(1) obtain f o1 p1 q1 where
      1: "scan_results s a f 0 [] True False rs = Inr (o1, p1, q1)" "set o1 = expected_executions s" "p1"
    using assms(3) by (auto elim: validated_results)
  from assms(2) obtain g o2 p2 q2 where
      2: "scan_results s b g 0 [] True False rs = Inr (o2, p2, q2)" "at_status b \<noteq> AttemptRunning"
        "case at_status b of
           AttemptPassed \<Rightarrow> set o2 = expected_executions s \<and> p2
         | AttemptFailed \<Rightarrow> q2
         | AttemptInterrupted \<Rightarrow> set o2 \<noteq> expected_executions s \<or> \<not> p2
         | AttemptRunning \<Rightarrow> False"
    by (rule validated_results)
  have "set o2 = expected_executions s" "p2" "\<not> q2"
    using scanned_results [OF 1(1)] scanned_results [OF 2(1)] 1(2,3) by auto
  with 2 show ?thesis
    by (cases "at_status b") auto
qed

section \<open>Containment\<close>

lemma survivors_explained:
  assumes "validate_execution_pair s r e = Inr u"
  shows "cr_process_tree_may_outlive r \<longleftrightarrow>
           en_process_containment e \<noteq> PidNamespaceParentDeath \<and>
           cr_termination r \<in> {TimedOut, OutputLimitExceeded, OutputCaptureIncomplete}"
    and "en_recorded_at e \<le> cr_started_at r"
proof -
  from assms have "check_result_validate r = Inr ()"
    by (auto simp: validate_execution_pair_def result_simps elim: valid_result)
  then have shape: "survivor_shape_is_valid r"
    by (auto simp: check_result_validate_def result_simps)
  from assms have pair:
      "\<not> (en_process_containment e = PidNamespaceParentDeath \<and> cr_process_tree_may_outlive r)"
      "\<not> (cr_termination r = OutputCaptureIncomplete \<and> en_process_containment e = PidNamespaceParentDeath)"
      "\<not> (cr_termination r \<in> {TimedOut, OutputLimitExceeded} \<and>
          en_process_containment e \<noteq> PidNamespaceParentDeath \<and> \<not> cr_process_tree_may_outlive r)"
      "en_recorded_at e \<le> cr_started_at r"
    by (auto simp: validate_execution_pair_def Let_def result_simps not_less)
  from shape pair(1-3) show "cr_process_tree_may_outlive r \<longleftrightarrow>
           en_process_containment e \<noteq> PidNamespaceParentDeath \<and>
           cr_termination r \<in> {TimedOut, OutputLimitExceeded, OutputCaptureIncomplete}"
    by (cases "cr_termination r") (auto simp: survivor_shape_is_valid_def)
  show "en_recorded_at e \<le> cr_started_at r" by (rule pair(4))
qed

end
