(* ===== verification/Stored_Rows.thy ===== *)
theory Stored_Rows
  imports Review_Records Review_Facts
begin

text \<open>
  Writing a review record to a row and reading it back. The four tables share the contract
  \<open>row_codec\<close>: a valid record that can be written is read back as it was. Its only assumption about
  code outside the repository is \<open>codec_ok\<close>: \<^verbatim>\<open>serde_json\<close> parses the canonical text of a record it
  has serialized to that record.
\<close>

section \<open>Serialization\<close>

definition codec_ok :: "review_io \<Rightarrow> bool" where
  "codec_ok x \<longleftrightarrow>
     (\<forall>s t. canonical_json x (io_session_json x s) = Inr t \<longrightarrow> io_parse_session x t = Some s) \<and>
     (\<forall>a t. canonical_json x (io_attempt_json x a) = Inr t \<longrightarrow> io_parse_attempt x t = Some a) \<and>
     (\<forall>e t. canonical_json x (io_environment_json x e) = Inr t \<longrightarrow> io_parse_environment x t = Some e) \<and>
     (\<forall>r t. canonical_json x (io_result_json x r) = Inr t \<longrightarrow> io_parse_result x t = Some r)"

section \<open>Columns\<close>

lemma verify_digest_own [simp]: "verify_digest x label (sha256_hex x bytes) bytes = Inr ()"
  by (simp add: verify_digest_def)

lemma parse_json_Inr [result_simps]: "parse_json x p = Inr v \<longleftrightarrow> p = Some v"
  by (auto simp: parse_json_def result_simps)

lemma to_i64_Inr [result_simps]: "to_i64 v = Inr w \<longleftrightarrow> w = v \<and> uint v < 2 ^ 63"
  by (auto simp: to_i64_def)

lemma sint_small: "uint (v :: u64) < 2 ^ 63 \<Longrightarrow> sint v = uint v"
  by (simp add: sint_uint signed_take_bit_int_eq_self_iff) (meson order_trans [OF _ uint_ge_0] neg_le_0_iff_le zero_le_numeral)

lemma sint_nonneg:
  assumes "0 \<le> sint (v :: u64)"
  shows "uint v < 2 ^ 63"
proof (rule ccontr)
  assume large: "\<not> uint v < 2 ^ 63"
  have "uint v < 2 ^ 64"
    using uint_lt2p [of v] by simp
  with large have "uint v div 2 ^ 63 = 1"
    by simp
  then have "bit (uint v) 63"
    by (simp add: bit_iff_odd)
  moreover have "take_bit 64 (uint v) = uint v"
    by (rule take_bit_int_eq_self) (use \<open>uint v < 2 ^ 64\<close> in simp_all)
  ultimately have "sint v = uint v - 2 ^ 64"
    by (simp add: sint_uint signed_take_bit_eq_take_bit_minus)
  with \<open>uint v < 2 ^ 64\<close> assms show False
    by simp
qed

lemma u64_try_from_Inr [result_simps]: "u64_try_from w = Inr v \<longleftrightarrow> v = w \<and> uint w < 2 ^ 63"
  using sint_small [of w] sint_nonneg [of w] by (auto simp: u64_try_from_def)

lemma u64_try_from_small [simp]: "uint w < 2 ^ 63 \<Longrightarrow> u64_try_from w = Inr w"
  by (simp add: u64_try_from_Inr)

lemma any_difference_False [result_simps]:
  "any_difference cs = Inr False \<longleftrightarrow> (\<forall>c \<in> set cs. c = Inr False)"
  by (induction cs) (auto simp: result_simps)

lemma differs_u64_False [result_simps]: "differs_u64 v c = Inr False \<longleftrightarrow> v = c \<and> uint c < 2 ^ 63"
  by (auto simp: differs_u64_def result_simps)

lemma optional_u64_Inr [result_simps]:
  "optional_u64 c = Inr v \<longleftrightarrow> v = c \<and> is_none_or c (\<lambda>w. uint w < 2 ^ 63)"
  by (cases c) (auto simp: optional_u64_def result_simps)

lemma payload_digest_text:
  assumes "payload_digest_validate d = Inr u"
  shows "payload_digest_new (of_ascii d) = Inr d"
proof -
  have chars: "length d = 64" "list_all (\<lambda>byte. is_ascii_digit byte \<or> CHR ''a'' \<le> byte \<and> byte \<le> CHR ''f'') d"
    using assms by (auto simp: payload_digest_validate_def split: if_splits)
  have small: "(of_char c :: nat) < 128 \<and>
      (48 \<le> (of_char c :: nat) \<and> (of_char c :: nat) \<le> 57 \<or>
       97 \<le> (of_char c :: nat) \<and> (of_char c :: nat) \<le> 102)"
    if "c \<in> set d" for c
    using chars(2) that by (auto simp: list_all_iff is_ascii_digit_def less_eq_char_def)
  have "map (\<lambda>c. utf8_width (of_char c)) d = replicate (length d) 1"
    by (rule nth_equalityI) (use small in \<open>auto simp: utf8_width_def\<close>)
  then have "utf8_length (of_ascii d) = 64"
    using chars(1) by (simp add: utf8_length_def of_ascii_def comp_def sum_list_replicate)
  moreover have "list_all (\<lambda>c. 48 \<le> c \<and> c \<le> 57 \<or> 97 \<le> c \<and> c \<le> 102) (of_ascii d)"
    using small by (auto simp: of_ascii_def list_all_iff)
  moreover have "map char_of (of_ascii d) = d"
    by (simp add: of_ascii_def comp_def)
  ultimately show ?thesis
    by (simp add: payload_digest_new_def)
qed

section \<open>The contract of a table\<close>

locale row_codec =
  fixes to_row :: "'v \<Rightarrow> control_error + 'row"
    and of_row :: "'row \<Rightarrow> control_error + 'v"
    and valid :: "'v \<Rightarrow> bool"
  assumes read_back: "to_row v = Inr row \<Longrightarrow> valid v \<Longrightarrow> of_row row = Inr v"
begin

lemma one_record_per_row:
  "to_row v = Inr row \<Longrightarrow> to_row w = Inr row \<Longrightarrow> valid v \<Longrightarrow> valid w \<Longrightarrow> v = w"
  by (metis read_back sum.inject(2))

lemma read_table_back:
  "list_all2 (\<lambda>v row. to_row v = Inr row \<and> valid v) vs rows \<Longrightarrow> traverse of_row rows = Inr vs"
  by (induction rule: list_all2_induct) (auto simp: read_back)

end

text \<open>The four tables. A row belongs to the session \<open>s\<close> it is read with.\<close>

definition stored_session_row :: "review_io \<Rightarrow> stored_session \<Rightarrow> control_error + session_row" where
  "stored_session_row x so =
     session_row_of x (so_begin_operation_id so) (so_last_error so) (so_session so)"

definition session_storable :: "review_io \<Rightarrow> state_store \<Rightarrow> stored_session \<Rightarrow> bool" where
  "session_storable x st so \<longleftrightarrow>
     codec_ok x \<and> validate_review_session x st (so_session so) = Inr () \<and>
     so_begin_operation_id so \<noteq> [] \<and> validate_review_last_error (so_last_error so) = Inr ()"

definition stored_attempt_row :: "review_io \<Rightarrow> stored_attempt \<Rightarrow> control_error + attempt_row" where
  "stored_attempt_row x so = attempt_row_of x (so_verify_operation_id so) (so_attempt so)"

definition attempt_storable :: "review_io \<Rightarrow> review_session \<Rightarrow> stored_attempt \<Rightarrow> bool" where
  "attempt_storable x s so \<longleftrightarrow>
     codec_ok x \<and> validate_attempt_record s (so_attempt so) = Inr () \<and> so_verify_operation_id so \<noteq> []"

definition stored_environment_row :: "review_io \<Rightarrow> stored_environment \<Rightarrow> control_error + environment_row" where
  "stored_environment_row x so = environment_row_of x (so_path_digest so) (so_environment so)"

definition environment_storable :: "review_io \<Rightarrow> review_session \<Rightarrow> stored_environment \<Rightarrow> bool" where
  "environment_storable x s so \<longleftrightarrow>
     codec_ok x \<and> validate_environment_record s (so_environment so) = Inr () \<and>
     validate_review_environment_digest x (so_environment so) = Inr () \<and>
     payload_digest_validate (so_path_digest so) = Inr () \<and>
     validate_review_path_digest (so_environment so) (so_path_digest so) = Inr ()"

definition result_storable :: "review_io \<Rightarrow> review_session \<Rightarrow> review_check_result \<Rightarrow> bool" where
  "result_storable x s r \<longleftrightarrow> codec_ok x \<and> validate_check_result s r = Inr ()"

lemmas reading_back = parse_json_def differs_u64_def to_i64_def optional_u64_def

lemma session_row_read_back:
  assumes "stored_session_row x so = Inr row" and "session_storable x st so"
  shows "validate_stored_review_session x st row = Inr so"
proof -
  have workspace: "rs_workspace_id (so_session so) = st_workspace_id st"
    using assms(2) by (auto simp: session_storable_def validate_review_session_def result_simps)
  from assms(1) obtain json where written: "canonical_json x (io_session_json x (so_session so)) = Inr json"
    and small: "uint (pi_policy_revision (pl_identity (rs_plan (so_session so)))) < 2 ^ 63"
      "uint (rs_created_at (so_session so)) < 2 ^ 63" "uint (rs_updated_at (so_session so)) < 2 ^ 63"
    by (auto simp: stored_session_row_def session_row_of_def result_simps)
  have "io_parse_session x json = Some (so_session so)"
    using assms(2) written by (simp add: session_storable_def codec_ok_def)
  with assms written small workspace show ?thesis
    by (auto simp: stored_session_row_def session_row_of_def session_storable_def
        validate_stored_review_session_def reading_back)
qed

lemma attempt_row_read_back:
  assumes "stored_attempt_row x so = Inr row" and "attempt_storable x s so"
  shows "validate_stored_review_attempt x s row = Inr so"
proof -
  let ?a = "so_attempt so"
  from assms(1) obtain json where written: "canonical_json x (io_attempt_json x ?a) = Inr json"
    and small: "uint (at_attempt_sequence ?a) < 2 ^ 63" "uint (at_started_at ?a) < 2 ^ 63"
      "uint (at_recorded_at ?a) < 2 ^ 63" "is_none_or (at_finished_at ?a) (\<lambda>w. uint w < 2 ^ 63)"
    by (auto simp: stored_attempt_row_def attempt_row_of_def result_simps split: option.splits)
  have "io_parse_attempt x json = Some ?a"
    using assms(2) written by (simp add: attempt_storable_def codec_ok_def)
  with assms written small show ?thesis
    by (cases "at_finished_at ?a") (auto simp: stored_attempt_row_def attempt_row_of_def attempt_storable_def
        validate_stored_review_attempt_def reading_back)
qed

lemma environment_row_read_back:
  assumes "stored_environment_row x so = Inr row" and "environment_storable x s so"
  shows "validate_stored_review_environment x s row = Inr so"
proof -
  let ?e = "so_environment so"
  from assms(1) obtain json where written: "canonical_json x (io_environment_json x ?e) = Inr json"
    and small: "uint (en_attempt_sequence ?e) < 2 ^ 63" "uint (en_recorded_at ?e) < 2 ^ 63"
    by (auto simp: stored_environment_row_def environment_row_of_def result_simps)
  have "io_parse_environment x json = Some ?e"
    using assms(2) written by (simp add: environment_storable_def codec_ok_def)
  with assms written small show ?thesis
    by (auto simp: stored_environment_row_def environment_row_of_def environment_storable_def
        validate_stored_review_environment_def payload_digest_text reading_back)
qed

lemma result_row_read_back:
  assumes "result_row_of x r = Inr row" and "result_storable x s r"
  shows "validate_stored_review_check_result x s row = Inr r"
proof -
  from assms(1) obtain json where written: "canonical_json x (io_result_json x r) = Inr json"
    and small: "uint (cr_attempt_sequence r) < 2 ^ 63" "uint (oa_byte_count (cr_stdout r)) < 2 ^ 63"
      "uint (oa_byte_count (cr_stderr r)) < 2 ^ 63" "uint (cr_started_at r) < 2 ^ 63"
      "uint (cr_finished_at r) < 2 ^ 63"
    by (auto simp: result_row_of_def result_simps)
  have "io_parse_result x json = Some r"
    using assms(2) written by (simp add: result_storable_def codec_ok_def)
  with assms written small show ?thesis
    by (auto simp: result_row_of_def result_storable_def validate_stored_review_check_result_def
        reading_back)
qed

interpretation session_table: row_codec "stored_session_row x" "validate_stored_review_session x st"
    "session_storable x st" for x st
  by unfold_locales (rule session_row_read_back)

interpretation attempt_table: row_codec "stored_attempt_row x" "validate_stored_review_attempt x s"
    "attempt_storable x s" for x s
  by unfold_locales (rule attempt_row_read_back)

interpretation environment_table: row_codec "stored_environment_row x"
    "validate_stored_review_environment x s" "environment_storable x s" for x s
  by unfold_locales (rule environment_row_read_back)

interpretation result_table: row_codec "result_row_of x" "validate_stored_review_check_result x s"
    "result_storable x s" for x s
  by unfold_locales (rule result_row_read_back)

section \<open>What a readable row says\<close>

lemma readable_session:
  assumes "validate_stored_review_session x st row = Inr so"
  shows "validate_review_session x st (so_session so) = Inr ()"
    and "sr_session_id row = rs_session_id (so_session so)"
    and "sr_begin_operation_id row = so_begin_operation_id so"
    and "sr_request_id row = rs_request_id (so_session so)"
    and "sr_candidate_sha row = rt_candidate_sha (rs_tree (so_session so))"
    and "sr_tree_sha row = rt_tree_sha (rs_tree (so_session so))"
    and "sr_checkout_path row = rs_checkout_path (so_session so)"
    and "sr_plan_sha256 row = pi_config_digest (pl_identity (rs_plan (so_session so)))"
    and "to_i64 (pi_policy_revision (pl_identity (rs_plan (so_session so)))) = Inr (sr_policy_revision row)"
    and "sr_status row = review_session_status_text (ss_status (rs_state (so_session so)))"
    and "sr_recovery row = review_recovery_state_text (ss_recovery (rs_state (so_session so)))"
    and "to_i64 (rs_created_at (so_session so)) = Inr (sr_created_at_ms row)"
    and "sr_updated_at_ms row = rs_updated_at (so_session so)" and "sr_last_error row = so_last_error so"
    and "so_begin_operation_id so \<noteq> []"
  using assms by (auto simp: validate_stored_review_session_def result_simps split: if_splits)

lemma readable_attempt:
  assumes "validate_stored_review_attempt x s row = Inr so"
  shows "validate_attempt_record s (so_attempt so) = Inr ()"
    and "ar_record_id row = at_record_id (so_attempt so)"
    and "ar_session_id row = at_session_id (so_attempt so)"
    and "ar_attempt_sequence row = at_attempt_sequence (so_attempt so)"
    and "uint (ar_attempt_sequence row) < 2 ^ 63"
    and "ar_status row = review_attempt_status_text (at_status (so_attempt so))"
    and "ar_verify_operation_id row = so_verify_operation_id so"
  using assms by (auto simp: validate_stored_review_attempt_def result_simps split: if_splits)

lemma payload_digest_new_text: "payload_digest_new (of_ascii t) = Inr d \<Longrightarrow> d = t"
  by (auto simp: payload_digest_new_def of_ascii_def comp_def split: if_splits)

lemma readable_environment:
  assumes "validate_stored_review_environment x s row = Inr so"
  shows "validate_environment_record s (so_environment so) = Inr ()"
    and "er_environment_id row = en_environment_id (so_environment so)"
    and "er_session_id row = en_session_id (so_environment so)"
    and "er_attempt_sequence row = en_attempt_sequence (so_environment so)"
    and "er_check_id row = en_check_id (so_environment so)"
    and "er_variant row = review_execution_variant_text (en_variant (so_environment so))"
    and "er_path_sha256 row = so_path_digest so"
  using assms
  by (auto simp: validate_stored_review_environment_def result_simps dest: payload_digest_new_text
      split: if_splits)

lemma readable_result:
  assumes "validate_stored_review_check_result x s row = Inr r"
  shows "validate_check_result s r = Inr ()"
    and "rr_session_id row = cr_session_id r" and "rr_attempt_sequence row = cr_attempt_sequence r"
    and "uint (rr_attempt_sequence row) < 2 ^ 63"
    and "rr_check_id row = cr_check_id r"
    and "rr_variant row = review_execution_variant_text (cr_variant r)"
    and "rr_environment_id row = cr_environment_id r"
  using assms by (auto simp: validate_stored_review_check_result_def result_simps split: if_splits)

lemma status_text_running [simp]:
  "review_attempt_status_text st = ''running'' \<longleftrightarrow> st = AttemptRunning"
  by (cases st) (simp_all add: review_attempt_status_text_def)

lemma variant_text_eq [simp]:
  "review_execution_variant_text v = review_execution_variant_text w \<longleftrightarrow> v = w"
  by (cases v; cases w) (simp_all add: review_execution_variant_text_def)

end
