(* ===== verification/Review_Steps.thy ===== *)
theory Review_Steps
  imports Stored_Rows
begin

text \<open>
  The review tables as a state machine. \<open>review_step\<close> runs one operation of the store, or anything
  that leaves the review tables alone; \<open>table_change\<close> says what such a step does to the tables.
\<close>

section \<open>Steps and reachable tables\<close>

definition same_tables :: "review_db \<Rightarrow> review_db \<Rightarrow> bool" where
  "same_tables db db' \<longleftrightarrow>
     db_sessions db' = db_sessions db \<and> db_attempts db' = db_attempts db \<and>
     db_environments db' = db_environments db \<and> db_results db' = db_results db"

definition no_reviews :: "review_db \<Rightarrow> bool" where
  "no_reviews db \<longleftrightarrow>
     db_sessions db = [] \<and> db_attempts db = [] \<and> db_environments db = [] \<and> db_results db = []"

inductive review_step :: "review_io \<Rightarrow> state_store \<Rightarrow> review_db \<Rightarrow> review_db \<Rightarrow> bool" for x st where
  begins: "begin_review_session x st operation revision s db = Inr (so, db') \<Longrightarrow> review_step x st db db'"
| transitions: "transition_review_session x st sid expected next_state err at db = Inr (so, db') \<Longrightarrow>
    review_step x st db db'"
| attempts: "append_review_verification_attempt x st operation a db = Inr (sa, db') \<Longrightarrow>
    review_step x st db db'"
| environments: "append_review_environment_record x st digest e db = Inr (se, db') \<Longrightarrow>
    review_step x st db db'"
| results: "append_review_check_result x st r db = Inr (r', db') \<Longrightarrow> review_step x st db db'"
| elsewhere: "same_tables db db' \<Longrightarrow> review_step x st db db'"

definition later_tables :: "review_io \<Rightarrow> state_store \<Rightarrow> review_db \<Rightarrow> review_db \<Rightarrow> bool" where
  "later_tables x st = (review_step x st)\<^sup>*\<^sup>*"

definition reachable_tables :: "review_io \<Rightarrow> state_store \<Rightarrow> review_db \<Rightarrow> bool" where
  "reachable_tables x st db \<longleftrightarrow> (\<exists>db0. no_reviews db0 \<and> later_tables x st db0 db)"

section \<open>Events leave the tables alone\<close>

lemma compaction_tables: "compact_control_events t db = Inr db' \<Longrightarrow> same_tables db db'"
  by (auto simp: compact_control_events_def same_tables_def Let_def result_simps split: option.splits)

lemma event_tables:
  assumes "append_review_control_event x ws operation detail t db = Inr db'"
  shows "same_tables db db'"
proof -
  from assms obtain events last where
      "compact_control_events t (db\<lparr>db_events := events, db_last_sequence := last\<rparr>) = Inr db'"
    by (auto simp: append_review_control_event_def Let_def result_simps split: option.splits)
  from compaction_tables [OF this] show ?thesis
    by (simp add: same_tables_def)
qed

section \<open>What a step does to the tables\<close>

inductive table_change :: "review_io \<Rightarrow> state_store \<Rightarrow> review_db \<Rightarrow> review_db \<Rightarrow> bool" for x st where
  unchanged: "same_tables db db' \<Longrightarrow> table_change x st db db'"
| session_added:
    "stored_session_row x so = Inr row \<Longrightarrow> session_storable x st so \<Longrightarrow>
     \<not> list_ex (session_keys_clash row) (db_sessions db) \<Longrightarrow>
     same_tables (db\<lparr>db_sessions := db_sessions db @ [row]\<rparr>) db' \<Longrightarrow> table_change x st db db'"
| session_moved:
    "require_session x st db sid = Inr so \<Longrightarrow>
     so' = StoredReviewSession (so_begin_operation_id so)
       ((so_session so)\<lparr>rs_state := state, rs_updated_at := at\<rparr>) err \<Longrightarrow>
     stored_session_row x so' = Inr row' \<Longrightarrow> session_storable x st so' \<Longrightarrow>
     same_tables (db\<lparr>db_sessions :=
       map (\<lambda>row. if sr_session_id row = sid then row' else row) (db_sessions db)\<rparr>) db' \<Longrightarrow>
     table_change x st db db'"
| attempt_added:
    "require_session x st db (at_session_id (so_attempt sa)) = Inr so \<Longrightarrow>
     stored_attempt_row x sa = Inr row \<Longrightarrow> attempt_storable x (so_session so) sa \<Longrightarrow>
     validate_new_review_attempt x db (so_verify_operation_id sa) (so_session so) (so_attempt sa) = Inr () \<Longrightarrow>
     \<not> list_ex (attempt_keys_clash row) (db_attempts db) \<Longrightarrow>
     same_tables (db\<lparr>db_attempts := db_attempts db @ [row]\<rparr>) db' \<Longrightarrow> table_change x st db db'"
| environment_added:
    "require_session x st db (en_session_id (so_environment se)) = Inr so \<Longrightarrow>
     stored_environment_row x se = Inr row \<Longrightarrow> environment_storable x (so_session so) se \<Longrightarrow>
     ensure_running_review_attempt x db (so_session so) (en_attempt_sequence (so_environment se)) = Inr running \<Longrightarrow>
     \<not> list_ex (environment_keys_clash row) (db_environments db) \<Longrightarrow>
     same_tables (db\<lparr>db_environments := db_environments db @ [row]\<rparr>) db' \<Longrightarrow> table_change x st db db'"
| result_added:
    "require_session x st db (cr_session_id r) = Inr so \<Longrightarrow>
     result_row_of x r = Inr row \<Longrightarrow> result_storable x (so_session so) r \<Longrightarrow>
     ensure_running_review_attempt x db (so_session so) (cr_attempt_sequence r) = Inr running \<Longrightarrow>
     require_environment x db (cr_environment_id r) (so_session so) = Inr se \<Longrightarrow>
     validate_execution_pair (so_session so) r (so_environment se) = Inr () \<Longrightarrow>
     \<not> list_ex (result_keys_clash row) (db_results db) \<Longrightarrow>
     same_tables (db\<lparr>db_results := db_results db @ [row]\<rparr>) db' \<Longrightarrow> table_change x st db db'"

lemma same_tables_refl [simp]: "same_tables db db"
  by (simp add: same_tables_def)

lemma begin_change:
  assumes "begin_review_session x st operation revision s db = Inr (so, db')" and "codec_ok x"
  shows "table_change x st db db'"
proof -
  from assms(1) have valid: "validate_review_session x st s = Inr ()" "operation \<noteq> []"
    by (auto simp: begin_review_session_def result_simps split: option.splits if_splits)
  from assms(1) consider "db' = db"
    | row where "session_row_of x operation None s = Inr row"
        "\<not> list_ex (session_keys_clash row) (db_sessions db)"
        "same_tables (db\<lparr>db_sessions := db_sessions db @ [row]\<rparr>) db'"
    by (auto simp: begin_review_session_def result_simps split: option.splits if_splits dest: event_tables)
  then show ?thesis
  proof cases
    case 2
    with valid assms(2) show ?thesis
      by (intro session_added [where so = "StoredReviewSession operation s None"])
        (simp_all add: stored_session_row_def session_storable_def validate_review_last_error_def)
  qed (simp add: unchanged)
qed

lemma attempt_change:
  assumes "append_review_verification_attempt x st operation a db = Inr (sa, db')" and "codec_ok x"
  shows "table_change x st db db'"
proof -
  from assms(1) obtain so where valid: "require_session x st db (at_session_id a) = Inr so"
      "validate_attempt_record (so_session so) a = Inr ()" "operation \<noteq> []"
    by (auto simp: append_review_verification_attempt_def Let_def result_simps)
  with assms(1) consider "db' = db"
    | row where "attempt_row_of x operation a = Inr row"
        "validate_new_review_attempt x db operation (so_session so) a = Inr ()"
        "\<not> list_ex (attempt_keys_clash row) (db_attempts db)"
        "same_tables (db\<lparr>db_attempts := db_attempts db @ [row]\<rparr>) db'"
    by (auto simp: append_review_verification_attempt_def Let_def result_simps
        split: option.splits if_splits dest: event_tables)
  then show ?thesis
  proof cases
    case 2
    with valid assms(2) show ?thesis
      by (intro attempt_added [where sa = "StoredReviewVerificationAttempt operation a"])
        (simp_all add: stored_attempt_row_def attempt_storable_def)
  qed (simp add: unchanged)
qed

lemma environment_change:
  assumes "append_review_environment_record x st digest e db = Inr (se, db')" and "codec_ok x"
  shows "table_change x st db db'"
proof -
  from assms(1) obtain so running where valid: "require_session x st db (en_session_id e) = Inr so"
      "payload_digest_validate digest = Inr ()" "validate_review_path_digest e digest = Inr ()"
      "validate_environment_record (so_session so) e = Inr ()"
      "validate_review_environment_digest x e = Inr ()"
      "ensure_running_review_attempt x db (so_session so) (en_attempt_sequence e) = Inr running"
    by (auto simp: append_review_environment_record_def Let_def result_simps)
  with assms(1) consider "db' = db"
    | row where "environment_row_of x digest e = Inr row"
        "\<not> list_ex (environment_keys_clash row) (db_environments db)"
        "same_tables (db\<lparr>db_environments := db_environments db @ [row]\<rparr>) db'"
    by (auto simp: append_review_environment_record_def Let_def result_simps
        split: option.splits if_splits dest: event_tables)
  then show ?thesis
  proof cases
    case 2
    with valid assms(2) show ?thesis
      by (intro environment_added [where se = "StoredReviewEnvironmentRecord digest e"])
        (simp_all add: stored_environment_row_def environment_storable_def)
  qed (simp add: unchanged)
qed

lemma result_change:
  assumes "append_review_check_result x st r db = Inr (r', db')" and "codec_ok x"
  shows "table_change x st db db'"
proof -
  from assms(1) obtain so running se where valid: "require_session x st db (cr_session_id r) = Inr so"
      "validate_check_result (so_session so) r = Inr ()"
      "ensure_running_review_attempt x db (so_session so) (cr_attempt_sequence r) = Inr running"
      "require_environment x db (cr_environment_id r) (so_session so) = Inr se"
      "validate_execution_pair (so_session so) r (so_environment se) = Inr ()"
    by (auto simp: append_review_check_result_def Let_def result_simps)
  with assms(1) consider "db' = db"
    | row where "result_row_of x r = Inr row" "\<not> list_ex (result_keys_clash row) (db_results db)"
        "same_tables (db\<lparr>db_results := db_results db @ [row]\<rparr>) db'"
    by (auto simp: append_review_check_result_def Let_def result_simps
        split: option.splits if_splits dest: event_tables)
  then show ?thesis
  proof cases
    case 2
    with valid assms(2) show ?thesis
      by (intro result_added) (simp_all add: result_storable_def)
  qed (simp add: unchanged)
qed

lemma require_session_Inr:
  "require_session x st db sid = Inr so \<longleftrightarrow>
     (\<exists>row. List.find (\<lambda>row. sr_session_id row = sid) (db_sessions db) = Some row \<and>
        validate_stored_review_session x st row = Inr so)"
  by (auto simp: require_session_def review_session_for_id_def optional_session_def result_simps
      split: option.splits)

text \<open>The guarded update rewrites exactly the row of the session.\<close>

lemma guarded_update:
  assumes "distinct (map key rows)" and "List.find (\<lambda>row. key row = k) rows = Some found"
    and "length (filter matches rows) = 1" and "\<And>row. matches row \<Longrightarrow> key row = k"
  shows "map (\<lambda>row. if matches row then rewrite row else row) rows =
    map (\<lambda>row. if key row = k then rewrite found else row) rows"
proof (rule map_cong [OF refl])
  fix row
  assume row: "row \<in> set rows"
  from assms(2) have found: "found \<in> set rows" "key found = k"
    by (auto dest: find_SomeD)
  from assms(3) obtain m where "m \<in> set rows" "matches m"
    by (metis One_nat_def filter_False length_greater_0_conv list.size(3) zero_less_one)
  with assms(1,4) found have "matches found"
    by (metis distinct_map inj_onD)
  with assms(1,4) found row show "(if matches row then rewrite row else row) =
      (if key row = k then rewrite found else row)"
    by (metis distinct_map inj_onD)
qed

lemma transition_change:
  assumes "transition_review_session x st sid expected next_state err at db = Inr (so', db')"
    and "codec_ok x" and "distinct (map sr_session_id (db_sessions db))"
  shows "table_change x st db db'"
proof -
  from assms(1) obtain so where so: "require_session x st db sid = Inr so"
      "validate_review_last_error err = Inr ()"
    by (auto simp: transition_review_session_def result_simps)
  define updated where "updated = (so_session so)\<lparr>rs_state := next_state, rs_updated_at := at\<rparr>"
  from assms(1) so consider "db' = db"
    | json previous where "validate_review_session x st updated = Inr ()"
        "canonical_json x (io_session_json x updated) = Inr json" "uint at < 2 ^ 63"
        "length (filter (session_row_expected sid expected previous) (db_sessions db)) = 1"
        "same_tables (db\<lparr>db_sessions := map (\<lambda>row. if session_row_expected sid expected previous row then
           row\<lparr>sr_status := review_session_status_text (ss_status next_state),
               sr_recovery := review_recovery_state_text (ss_recovery next_state),
               sr_last_error := err, sr_record_sha256 := sha256_hex x (utf8_bytes json),
               sr_record_json := json, sr_updated_at_ms := at\<rparr> else row) (db_sessions db)\<rparr>) db'"
    by (auto simp: transition_review_session_def Let_def updated_def [symmetric] result_simps
        split: if_splits dest: event_tables)
  then show ?thesis
  proof cases
    case 2
    let ?rewrite = "\<lambda>row. row\<lparr>sr_status := review_session_status_text (ss_status next_state),
      sr_recovery := review_recovery_state_text (ss_recovery next_state),
      sr_last_error := err, sr_record_sha256 := sha256_hex x (utf8_bytes json),
      sr_record_json := json, sr_updated_at_ms := at\<rparr>"
    let ?so' = "StoredReviewSession (so_begin_operation_id so) updated err"
    from so(1) obtain row where row: "List.find (\<lambda>row. sr_session_id row = sid) (db_sessions db) = Some row"
        "validate_stored_review_session x st row = Inr so"
      by (auto simp: require_session_Inr)
    note columns = readable_session [OF row(2)]
    have written: "stored_session_row x ?so' = Inr (?rewrite row)"
    proof -
      have "to_i64 at = Inr at"
        using 2(3) by (simp add: to_i64_Inr)
      with 2(2) columns show ?thesis
        by (cases row) (simp add: stored_session_row_def session_row_of_def updated_def)
    qed
    have only: "sr_session_id r = sid" if "session_row_expected sid expected previous r" for r
      using that by (simp add: session_row_expected_def)
    have "same_tables (db\<lparr>db_sessions :=
        map (\<lambda>r. if sr_session_id r = sid then ?rewrite row else r) (db_sessions db)\<rparr>) db'"
      using 2(5) guarded_update [where rewrite = ?rewrite, OF assms(3) row(1) 2(4) only] by (simp only:)
    then show ?thesis
      using so 2(1) assms(2) columns(15)
      by (intro session_moved [OF so(1) _ written]) (simp_all add: updated_def session_storable_def)
  qed (simp add: unchanged)
qed

end
