(* ===== verification/Review_Invariant.thy ===== *)
theory Review_Invariant
  imports Review_Steps
begin

text \<open>
  The invariant of the review tables: every row reads back against the session it names, keys are
  unique, every environment and result has a running fact, every terminal fact its running one, and
  a passed attempt is backed by its results. Every step keeps it.
\<close>

section \<open>Tables read in order\<close>

lemma traverse_Inr_set: "traverse f rows = Inr vs \<Longrightarrow> v \<in> set vs \<Longrightarrow> \<exists>row \<in> set rows. f row = Inr v"
  by (induction rows arbitrary: vs) (auto simp: result_simps)

lemma traverse_Inr_row: "traverse f rows = Inr vs \<Longrightarrow> row \<in> set rows \<Longrightarrow> \<exists>v \<in> set vs. f row = Inr v"
  by (induction rows arbitrary: vs) (auto simp: result_simps)

lemma traverse_mono:
  "traverse f rows = Inr vs \<Longrightarrow> (\<And>row v. row \<in> set rows \<Longrightarrow> f row = Inr v \<Longrightarrow> g row = Inr v) \<Longrightarrow>
     traverse g rows = Inr vs"
  by (induction rows arbitrary: vs) (auto simp: result_simps)

lemma traverse_total: "\<forall>row \<in> set rows. \<exists>v. f row = Inr v \<Longrightarrow> \<exists>vs. traverse f rows = Inr vs"
  by (induction rows) (auto simp: result_simps)

lemma take_filter_append:
  "filter P xs \<noteq> [] \<Longrightarrow> take 1 (filter P (xs @ ys)) = take 1 (filter P xs)"
  by (cases "filter P xs") simp_all

lemma find_append_Some: "List.find P xs = Some y \<Longrightarrow> List.find P (xs @ ys) = Some y"
  by (induction xs) auto

lemma find_rewritten:
  assumes "key row' = k1"
  shows "List.find (\<lambda>row. key row = k) (map (\<lambda>row. if key row = k1 then row' else row) rows) =
    map_option (\<lambda>row. if key row = k1 then row' else row) (List.find (\<lambda>row. key row = k) rows)"
  using assms by (induction rows) auto

section \<open>One session over time\<close>

abbreviation same_session :: "stored_session \<Rightarrow> stored_session \<Rightarrow> bool" where
  "same_session so so' \<equiv> same_review_session_begin (so_session so) (so_session so') \<and>
     so_begin_operation_id so' = so_begin_operation_id so"

lemma require_session_valid:
  assumes "require_session x st db sid = Inr so"
  shows "review_session_validate (so_session so) = Inr ()" and "rs_session_id (so_session so) = sid"
    and "validate_review_session x st (so_session so) = Inr ()"
proof -
  from assms obtain row where row: "List.find (\<lambda>row. sr_session_id row = sid) (db_sessions db) = Some row"
      "validate_stored_review_session x st row = Inr so"
    by (auto simp: require_session_Inr)
  show "validate_review_session x st (so_session so) = Inr ()"
    by (rule readable_session(1) [OF row(2)])
  then show "review_session_validate (so_session so) = Inr ()"
    by (auto simp: validate_review_session_def result_simps)
  show "rs_session_id (so_session so) = sid"
    using readable_session(2) [OF row(2)] row(1) by (auto dest: find_SomeD)
qed

lemma require_session_cong: "db_sessions db' = db_sessions db \<Longrightarrow> require_session x st db' = require_session x st db"
  by (auto simp: require_session_def review_session_for_id_def fun_eq_iff)

lemma sessions_persist:
  assumes "table_change x st db db'" and "require_session x st db sid = Inr so"
  shows "\<exists>so'. require_session x st db' sid = Inr so' \<and> same_session so so'"
  using assms(1)
proof cases
  case (session_added so1 row)
  then have "db_sessions db' = db_sessions db @ [row]"
    by (simp add: same_tables_def)
  with assms(2) have "require_session x st db' sid = Inr so"
    by (auto simp: require_session_Inr intro: find_append_Some)
  then show ?thesis
    by (auto simp: same_review_session_begin_def)
next
  case (session_moved sid1 so1 so' state at err row')
  have row': "validate_stored_review_session x st row' = Inr so'" "sr_session_id row' = sid1"
    using session_moved(3,4) session_table.read_back readable_session(2) session_moved(2)
      require_session_valid(2) [OF session_moved(1)] by fastforce+
  have moved: "db_sessions db' =
      map (\<lambda>row. if sr_session_id row = sid1 then row' else row) (db_sessions db)"
    using session_moved(5) by (simp add: same_tables_def)
  have find_moved: "List.find (\<lambda>row. sr_session_id row = sid) (db_sessions db') =
      map_option (\<lambda>row. if sr_session_id row = sid1 then row' else row)
        (List.find (\<lambda>row. sr_session_id row = sid) (db_sessions db))"
    unfolding moved by (rule find_rewritten) (rule row'(2))
  show ?thesis
  proof (cases "sid = sid1")
    case True
    with session_moved(1,2) assms(2) row' find_moved show ?thesis
      by (intro exI [of _ so']) (auto simp: require_session_Inr same_review_session_begin_def
          dest: find_SomeD)
  next
    case False
    with assms(2) find_moved show ?thesis
      by (intro exI [of _ so]) (auto simp: require_session_Inr same_review_session_begin_def
          dest: find_SomeD)
  qed
qed (use assms(2) in \<open>auto simp: same_tables_def same_review_session_begin_def
    intro!: exI [of _ so] cong: require_session_cong dest: require_session_cong [of db' db x st]\<close>)

section \<open>Reading with a later form of the session\<close>

lemma same_begin_reads:
  assumes "same_review_session_begin s s'"
    and "review_session_validate s = Inr ()" and "review_session_validate s' = Inr ()"
  shows "validate_attempt_record s' = validate_attempt_record s"
    and "validate_environment_record s' = validate_environment_record s"
    and "validate_check_result s' = validate_check_result s"
    and "validate_execution_pair s' = validate_execution_pair s"
proof -
  have plan: "rs_plan s' = rs_plan s"
    using assms(1) by (simp add: same_review_session_begin_def)
  have "find_review_check s' = find_review_check s"
    by (simp add: fun_eq_iff find_review_check_def plan)
  moreover have "validate_child_identity s' = validate_child_identity s"
    using assms(1) by (simp add: fun_eq_iff validate_child_identity_def same_review_session_begin_def)
  ultimately show "validate_attempt_record s' = validate_attempt_record s"
    and environment: "validate_environment_record s' = validate_environment_record s"
    and result: "validate_check_result s' = validate_check_result s"
    by (simp_all only: fun_eq_iff validate_attempt_record_def validate_environment_record_def
        validate_check_result_def assms(2,3) plan) simp_all
  show "validate_execution_pair s' = validate_execution_pair s"
    by (simp only: fun_eq_iff validate_execution_pair_def environment result) simp
qed

lemma same_begin_results:
  assumes "same_review_session_begin s s'"
    and "review_session_validate s = Inr ()" and "review_session_validate s' = Inr ()"
  shows "validate_attempt_results s' = validate_attempt_results s"
proof -
  have "scan_results s' a finished i observed p q rs = scan_results s a finished i observed p q rs"
    for a finished i observed p q rs
    by (induction rs arbitrary: i observed p q) (simp_all add: same_begin_reads [OF assms])
  moreover have "expected_executions s' = expected_executions s"
    using assms(1) by (simp add: expected_executions_def same_review_session_begin_def)
  ultimately show ?thesis
    by (simp add: fun_eq_iff validate_attempt_results_def same_begin_reads [OF assms])
qed

lemma same_begin_rows:
  assumes "same_review_session_begin s s'"
    and "review_session_validate s = Inr ()" and "review_session_validate s' = Inr ()"
  shows "validate_stored_review_attempt x s' = validate_stored_review_attempt x s"
    and "validate_stored_review_environment x s' = validate_stored_review_environment x s"
    and "validate_stored_review_check_result x s' = validate_stored_review_check_result x s"
    and "read_review_check_result x db s' = read_review_check_result x db s"
proof -
  show "validate_stored_review_attempt x s' = validate_stored_review_attempt x s"
    and environment: "validate_stored_review_environment x s' = validate_stored_review_environment x s"
    and result: "validate_stored_review_check_result x s' = validate_stored_review_check_result x s"
    by (simp_all only: fun_eq_iff validate_stored_review_attempt_def validate_stored_review_environment_def
        validate_stored_review_check_result_def same_begin_reads [OF assms]) simp_all
  have "require_environment x db k s' = require_environment x db k s" for k
    by (simp only: require_environment_def review_environment_for_id_def query_review_environments_def
        environment)
  then show "read_review_check_result x db s' = read_review_check_result x db s"
    by (simp only: fun_eq_iff read_review_check_result_def result same_begin_reads [OF assms]) simp
qed

lemma same_begin_terminal:
  assumes "same_review_session_begin s s'"
    and "review_session_validate s = Inr ()" and "review_session_validate s' = Inr ()"
  shows "validate_terminal_review_results x db s' = validate_terminal_review_results x db s"
proof -
  have "rs_plan s' = rs_plan s"
    using assms(1) by (simp add: same_review_session_begin_def)
  then show ?thesis
    by (simp only: fun_eq_iff validate_terminal_review_results_def results_of_attempt_def
        query_review_check_results_def same_begin_rows [OF assms] same_begin_results [OF assms]) simp
qed

section \<open>The invariant\<close>

definition attempt_readable :: "review_io \<Rightarrow> state_store \<Rightarrow> review_db \<Rightarrow> attempt_row \<Rightarrow> bool" where
  "attempt_readable x st db row \<longleftrightarrow> (\<exists>so sa. require_session x st db (ar_session_id row) = Inr so \<and>
     validate_stored_review_attempt x (so_session so) row = Inr sa)"

definition environment_readable :: "review_io \<Rightarrow> state_store \<Rightarrow> review_db \<Rightarrow> environment_row \<Rightarrow> bool" where
  "environment_readable x st db row \<longleftrightarrow> (\<exists>so se. require_session x st db (er_session_id row) = Inr so \<and>
     validate_stored_review_environment x (so_session so) row = Inr se)"

definition result_readable :: "review_io \<Rightarrow> state_store \<Rightarrow> review_db \<Rightarrow> result_row \<Rightarrow> bool" where
  "result_readable x st db row \<longleftrightarrow> (\<exists>so r. require_session x st db (rr_session_id row) = Inr so \<and>
     read_review_check_result x db (so_session so) row = Inr r)"

definition has_running :: "review_db \<Rightarrow> review_session_id \<Rightarrow> i64 \<Rightarrow> bool" where
  "has_running db sid seq \<longleftrightarrow> (\<exists>run \<in> set (db_attempts db).
     ar_session_id run = sid \<and> ar_attempt_sequence run = seq \<and> ar_status run = ''running'')"

definition terminal_paired :: "review_db \<Rightarrow> attempt_row \<Rightarrow> bool" where
  "terminal_paired db row \<longleftrightarrow> ar_status row = ''running'' \<or>
     (\<exists>run \<in> set (db_attempts db). ar_status run = ''running'' \<and> ar_session_id run = ar_session_id row \<and>
        ar_attempt_sequence run = ar_attempt_sequence row \<and>
        ar_verify_operation_id run = ar_verify_operation_id row)"

definition backed :: "review_io \<Rightarrow> state_store \<Rightarrow> review_db \<Rightarrow> attempt_row \<Rightarrow> bool" where
  "backed x st db row \<longleftrightarrow> (\<forall>so sa. require_session x st db (ar_session_id row) = Inr so \<longrightarrow>
     validate_stored_review_attempt x (so_session so) row = Inr sa \<longrightarrow>
     at_status (so_attempt sa) = AttemptPassed \<longrightarrow>
     validate_terminal_review_results x db (so_session so) (so_attempt sa) = Inr ())"

definition rows_readable :: "review_io \<Rightarrow> state_store \<Rightarrow> review_db \<Rightarrow> bool" where
  "rows_readable x st db \<longleftrightarrow>
     (\<forall>row \<in> set (db_sessions db). \<exists>so. validate_stored_review_session x st row = Inr so) \<and>
     (\<forall>row \<in> set (db_attempts db). attempt_readable x st db row) \<and>
     (\<forall>row \<in> set (db_environments db). environment_readable x st db row) \<and>
     (\<forall>row \<in> set (db_results db). result_readable x st db row)"

definition keys_unique :: "review_db \<Rightarrow> bool" where
  "keys_unique db \<longleftrightarrow>
     sorted_wrt (\<lambda>a b. \<not> session_keys_clash a b) (db_sessions db) \<and>
     sorted_wrt (\<lambda>a b. \<not> attempt_keys_clash a b) (db_attempts db) \<and>
     sorted_wrt (\<lambda>a b. \<not> environment_keys_clash a b) (db_environments db) \<and>
     sorted_wrt (\<lambda>a b. \<not> result_keys_clash a b) (db_results db)"

definition facts_linked :: "review_db \<Rightarrow> bool" where
  "facts_linked db \<longleftrightarrow>
     (\<forall>row \<in> set (db_attempts db). terminal_paired db row) \<and>
     (\<forall>row \<in> set (db_environments db). has_running db (er_session_id row) (er_attempt_sequence row)) \<and>
     (\<forall>row \<in> set (db_results db). has_running db (rr_session_id row) (rr_attempt_sequence row))"

definition tables_ok :: "review_io \<Rightarrow> state_store \<Rightarrow> review_db \<Rightarrow> bool" where
  "tables_ok x st db \<longleftrightarrow> rows_readable x st db \<and> keys_unique db \<and> facts_linked db \<and>
     (\<forall>row \<in> set (db_attempts db). backed x st db row)"

section \<open>Rows stay readable\<close>

lemma tables_extend:
  assumes "table_change x st db db'"
  shows "\<exists>rows. db_attempts db' = db_attempts db @ rows" and "\<exists>rows. db_environments db' = db_environments db @ rows"
    and "\<exists>rows. db_results db' = db_results db @ rows"
  using assms by (auto elim!: table_change.cases simp: same_tables_def)

lemma later_session:
  assumes "table_change x st db db'" and "require_session x st db sid = Inr so"
  obtains so' where "require_session x st db' sid = Inr so'" and "same_session so so'"
    and "review_session_validate (so_session so) = Inr ()"
    and "review_session_validate (so_session so') = Inr ()"
  using sessions_persist [OF assms] require_session_valid(1) assms(2) by blast

lemma attempt_stays_readable:
  assumes "table_change x st db db'" and "attempt_readable x st db row"
  shows "attempt_readable x st db' row"
proof -
  from assms(2) obtain so sa where so: "require_session x st db (ar_session_id row) = Inr so"
    and read: "validate_stored_review_attempt x (so_session so) row = Inr sa"
    by (auto simp: attempt_readable_def)
  from later_session [OF assms(1) so] obtain so' where so': "require_session x st db' (ar_session_id row) = Inr so'"
    and same: "same_session so so'" "review_session_validate (so_session so) = Inr ()"
      "review_session_validate (so_session so') = Inr ()" .
  have "validate_stored_review_attempt x (so_session so') row = Inr sa"
    using read by (simp only: same_begin_rows(1) [OF same(1) [THEN conjunct1] same(2,3)])
  with so' show ?thesis
    by (auto simp: attempt_readable_def)
qed

lemma environment_stays_readable:
  assumes "table_change x st db db'" and "environment_readable x st db row"
  shows "environment_readable x st db' row"
proof -
  from assms(2) obtain so se where so: "require_session x st db (er_session_id row) = Inr so"
    and read: "validate_stored_review_environment x (so_session so) row = Inr se"
    by (auto simp: environment_readable_def)
  from later_session [OF assms(1) so] obtain so' where so': "require_session x st db' (er_session_id row) = Inr so'"
    and same: "same_session so so'" "review_session_validate (so_session so) = Inr ()"
      "review_session_validate (so_session so') = Inr ()" .
  have "validate_stored_review_environment x (so_session so') row = Inr se"
    using read by (simp only: same_begin_rows(2) [OF same(1) [THEN conjunct1] same(2,3)])
  with so' show ?thesis
    by (auto simp: environment_readable_def)
qed

lemma environment_found_later:
  assumes "require_environment x db k s = Inr se" and "db_environments db' = db_environments db @ rows"
  shows "require_environment x db' k s = Inr se"
proof -
  let ?P = "\<lambda>row. er_environment_id row = k"
  have "filter ?P (db_environments db) \<noteq> []"
    using assms(1) by (auto simp: require_environment_def review_environment_for_id_def
        query_review_environments_def pop_last_def result_simps)
  from take_filter_append [OF this, of rows] show ?thesis
    using assms(1) by (simp only: require_environment_def review_environment_for_id_def assms(2))
qed

lemma result_read_later:
  assumes "read_review_check_result x db s row = Inr r" and "db_environments db' = db_environments db @ rows"
  shows "read_review_check_result x db' s row = Inr r"
  using assms(1) environment_found_later [OF _ assms(2)]
  by (auto simp: read_review_check_result_def result_simps)

lemma result_stays_readable:
  assumes "table_change x st db db'" and "result_readable x st db row"
  shows "result_readable x st db' row"
proof -
  from assms(2) obtain so r where so: "require_session x st db (rr_session_id row) = Inr so"
    and read: "read_review_check_result x db (so_session so) row = Inr r"
    by (auto simp: result_readable_def)
  from later_session [OF assms(1) so] obtain so' where so': "require_session x st db' (rr_session_id row) = Inr so'"
    and same: "same_session so so'" "review_session_validate (so_session so) = Inr ()"
      "review_session_validate (so_session so') = Inr ()" .
  obtain rows where "db_environments db' = db_environments db @ rows"
    using tables_extend(2) [OF assms(1)] ..
  with read have "read_review_check_result x db' (so_session so) row = Inr r"
    by (rule result_read_later)
  then have "read_review_check_result x db' (so_session so') row = Inr r"
    by (simp only: same_begin_rows(4) [OF same(1) [THEN conjunct1] same(2,3)])
  with so' show ?thesis
    by (auto simp: result_readable_def)
qed

lemma record_sessions:
  "validate_attempt_record s a = Inr u \<Longrightarrow> at_session_id a = rs_session_id s"
  "validate_environment_record s e = Inr u \<Longrightarrow> en_session_id e = rs_session_id s"
  "validate_check_result s r = Inr u \<Longrightarrow> cr_session_id r = rs_session_id s"
  by (auto simp: validate_attempt_record_def validate_environment_record_def validate_check_result_def
      validate_child_identity_def result_simps)

lemma new_row_columns:
  "stored_attempt_row x sa = Inr ra \<Longrightarrow> ar_session_id ra = at_session_id (so_attempt sa) \<and>
     ar_attempt_sequence ra = at_attempt_sequence (so_attempt sa) \<and>
     ar_status ra = review_attempt_status_text (at_status (so_attempt sa)) \<and>
     ar_verify_operation_id ra = so_verify_operation_id sa"
  "stored_environment_row x se = Inr re \<Longrightarrow> er_session_id re = en_session_id (so_environment se) \<and>
     er_attempt_sequence re = en_attempt_sequence (so_environment se)"
  "result_row_of x r = Inr rr \<Longrightarrow> rr_session_id rr = cr_session_id r \<and>
     rr_attempt_sequence rr = cr_attempt_sequence r \<and> rr_check_id rr = cr_check_id r \<and>
     rr_variant rr = review_execution_variant_text (cr_variant r)"
  by (auto simp: stored_attempt_row_def attempt_row_of_def stored_environment_row_def environment_row_of_def
      result_row_of_def result_simps)

lemma rows_readable_step:
  assumes change: "table_change x st db db'" and old: "rows_readable x st db"
  shows "rows_readable x st db'"
proof -
  note stay = attempt_stays_readable [OF change] environment_stays_readable [OF change]
    result_stays_readable [OF change]
  from change show ?thesis
  proof cases
    case (session_added so row)
    have "validate_stored_review_session x st row = Inr so"
      using session_added(1,2) by (rule session_table.read_back)
    with session_added(4) old stay show ?thesis
      by (auto simp: rows_readable_def same_tables_def)
  next
    case (session_moved sid so so' state at err row')
    have "validate_stored_review_session x st row' = Inr so'"
      using session_moved(3,4) by (rule session_table.read_back)
    with session_moved(5) old stay show ?thesis
      by (auto simp: rows_readable_def same_tables_def)
  next
    case (attempt_added sa so row)
    have "validate_stored_review_attempt x (so_session so) row = Inr sa"
      using attempt_added(2,3) by (rule attempt_table.read_back)
    moreover have "require_session x st db' = require_session x st db"
      using attempt_added(6) by (intro require_session_cong) (simp add: same_tables_def)
    ultimately have "attempt_readable x st db' row"
      using attempt_added(1) new_row_columns(1) [OF attempt_added(2)] by (auto simp: attempt_readable_def)
    with attempt_added(6) old stay show ?thesis
      by (auto simp: rows_readable_def same_tables_def)
  next
    case (environment_added se so row running)
    have "validate_stored_review_environment x (so_session so) row = Inr se"
      using environment_added(2,3) by (rule environment_table.read_back)
    moreover have "require_session x st db' = require_session x st db"
      using environment_added(6) by (intro require_session_cong) (simp add: same_tables_def)
    ultimately have "environment_readable x st db' row"
      using environment_added(1) new_row_columns(2) [OF environment_added(2)]
      by (auto simp: environment_readable_def)
    with environment_added(6) old stay show ?thesis
      by (auto simp: rows_readable_def same_tables_def)
  next
    case (result_added r so row running se)
    have "validate_stored_review_check_result x (so_session so) row = Inr r"
      using result_added(2,3) by (rule result_table.read_back)
    then have "read_review_check_result x db (so_session so) row = Inr r"
      using result_added(5,6) by (simp add: read_review_check_result_def)
    then have "read_review_check_result x db' (so_session so) row = Inr r"
      using result_read_later tables_extend(2) [OF change] by blast
    moreover have "require_session x st db' = require_session x st db"
      using result_added(8) by (intro require_session_cong) (simp add: same_tables_def)
    ultimately have "result_readable x st db' row"
      using result_added(1) new_row_columns(3) [OF result_added(2)] by (auto simp: result_readable_def)
    with result_added(8) old stay show ?thesis
      by (auto simp: rows_readable_def same_tables_def)
  qed (use old stay in \<open>auto simp: rows_readable_def same_tables_def\<close>)
qed

end
