(* ===== verification/Review_Reachable.thy ===== *)
theory Review_Reachable
  imports Review_Invariant
begin

text \<open>Every step keeps unique keys, linked facts and backed verdicts, so reachable tables satisfy the invariant.\<close>

section \<open>Keys\<close>

lemma distinct_session_ids:
  "sorted_wrt (\<lambda>a b. \<not> session_keys_clash a b) rows \<Longrightarrow> distinct (map sr_session_id rows)"
  by (induction rows) (auto simp: session_keys_clash_def)

lemma clash_sym:
  "session_keys_clash a b = session_keys_clash b a"
  "attempt_keys_clash p q = attempt_keys_clash q p"
  "environment_keys_clash e f = environment_keys_clash f e"
  "result_keys_clash r t = result_keys_clash t r"
  by (auto simp: session_keys_clash_def attempt_keys_clash_def environment_keys_clash_def result_keys_clash_def)

lemma sorted_wrt_snoc:
  "(\<And>a b. clash a b = clash b a) \<Longrightarrow> sorted_wrt (\<lambda>a b. \<not> clash a b) xs \<Longrightarrow> \<not> list_ex (clash y) xs \<Longrightarrow>
     sorted_wrt (\<lambda>a b. \<not> clash a b) (xs @ [y])"
  by (auto simp: sorted_wrt_append list_ex_iff)

lemma unique_snoc:
  "sorted_wrt (\<lambda>a b. \<not> session_keys_clash a b) ss \<Longrightarrow> \<not> list_ex (session_keys_clash s) ss \<Longrightarrow>
     sorted_wrt (\<lambda>a b. \<not> session_keys_clash a b) (ss @ [s])"
  "sorted_wrt (\<lambda>a b. \<not> attempt_keys_clash a b) as \<Longrightarrow> \<not> list_ex (attempt_keys_clash a) as \<Longrightarrow>
     sorted_wrt (\<lambda>a b. \<not> attempt_keys_clash a b) (as @ [a])"
  "sorted_wrt (\<lambda>a b. \<not> environment_keys_clash a b) es \<Longrightarrow> \<not> list_ex (environment_keys_clash e) es \<Longrightarrow>
     sorted_wrt (\<lambda>a b. \<not> environment_keys_clash a b) (es @ [e])"
  "sorted_wrt (\<lambda>a b. \<not> result_keys_clash a b) rs \<Longrightarrow> \<not> list_ex (result_keys_clash r) rs \<Longrightarrow>
     sorted_wrt (\<lambda>a b. \<not> result_keys_clash a b) (rs @ [r])"
  by (rule sorted_wrt_snoc, rule clash_sym; assumption)+

lemma keys_unique_step:
  assumes "table_change x st db db'" and "keys_unique db"
  shows "keys_unique db'"
  using assms(1)
proof cases
  case (session_moved sid so so' state at err row')
  from session_moved(1) obtain row where row: "List.find (\<lambda>row. sr_session_id row = sid) (db_sessions db) = Some row"
      "validate_stored_review_session x st row = Inr so"
    by (auto simp: require_session_Inr)
  have "validate_stored_review_session x st row' = Inr so'"
    using session_moved(3,4) by (rule session_table.read_back)
  note new = readable_session [OF this] and old = readable_session [OF row(2)]
  have keys: "sr_session_id row' = sr_session_id row" "sr_begin_operation_id row' = sr_begin_operation_id row"
      "sr_request_id row' = sr_request_id row" "sr_candidate_sha row' = sr_candidate_sha row"
      "sr_checkout_path row' = sr_checkout_path row"
    using new(1-7) old(1-7) session_moved(2) by simp_all
  let ?f = "\<lambda>r. if sr_session_id r = sid then row' else r"
  have ids: "distinct (map sr_session_id (db_sessions db))"
    using assms(2) by (simp add: keys_unique_def distinct_session_ids)
  have only: "r = row" if "r \<in> set (db_sessions db)" "sr_session_id r = sid" for r
    using ids that find_SomeD [OF row(1)] unfolding distinct_map by (auto dest: inj_onD)
  have "session_keys_clash (?f a) (?f b) = session_keys_clash a b"
    if "a \<in> set (db_sessions db)" "b \<in> set (db_sessions db)" for a b
  proof -
    have same: "sr_session_id (?f c) = sr_session_id c" "sr_begin_operation_id (?f c) = sr_begin_operation_id c"
        "sr_request_id (?f c) = sr_request_id c" "sr_candidate_sha (?f c) = sr_candidate_sha c"
        "sr_checkout_path (?f c) = sr_checkout_path c" if "c \<in> set (db_sessions db)" for c
      using only [OF that] keys by (cases "sr_session_id c = sid"; simp)+
    show ?thesis
      unfolding session_keys_clash_def same [OF that(1)] same [OF that(2)] ..
  qed
  then have "sorted_wrt (\<lambda>a b. \<not> session_keys_clash (?f a) (?f b)) (db_sessions db)"
    using assms(2) unfolding keys_unique_def by (metis (no_types, lifting) sorted_wrt_mono_rel)
  with assms(2) session_moved(5) show ?thesis
    by (simp add: keys_unique_def same_tables_def sorted_wrt_map)
next
  case (session_added so row)
  with assms(2) unique_snoc(1) show ?thesis
    by (simp add: keys_unique_def same_tables_def)
next
  case (attempt_added sa so row)
  with assms(2) unique_snoc(2) show ?thesis
    by (simp add: keys_unique_def same_tables_def)
next
  case (environment_added se so row running)
  with assms(2) unique_snoc(3) show ?thesis
    by (simp add: keys_unique_def same_tables_def)
next
  case (result_added r so row running se)
  with assms(2) unique_snoc(4) show ?thesis
    by (simp add: keys_unique_def same_tables_def)
qed (use assms(2) in \<open>simp add: keys_unique_def same_tables_def\<close>)

section \<open>Facts\<close>

lemma query_member:
  assumes "review_attempts_for_sequence x db sid q s = Inr attempts" and "sa \<in> set attempts"
  shows "\<exists>row \<in> set (db_attempts db). ar_session_id row = sid \<and> ar_attempt_sequence row = q \<and>
    validate_stored_review_attempt x s row = Inr sa"
proof -
  let ?rows = "sort_key (\<lambda>row. (sint (ar_recorded_at_ms row), ar_record_id row))
    (filter (\<lambda>row. ar_session_id row = sid \<and> ar_attempt_sequence row = q) (db_attempts db))"
  from assms(1) have "traverse (validate_stored_review_attempt x s) (take 3 ?rows) = Inr attempts"
    by (auto simp: review_attempts_for_sequence_def query_review_attempts_def result_simps)
  from traverse_Inr_set [OF this assms(2)] show ?thesis
    by (auto dest!: in_set_takeD)
qed

lemma running_fact:
  assumes "ensure_running_review_attempt x db s q = Inr a"
  shows "has_running db (rs_session_id s) q"
proof -
  from assms obtain attempts sa where query: "review_attempts_for_sequence x db (rs_session_id s) q s = Inr attempts"
    and "List.find (\<lambda>sa. at_status (so_attempt sa) = AttemptRunning) attempts = Some sa"
    by (auto simp: ensure_running_review_attempt_def result_simps)
  then have "sa \<in> set attempts" "at_status (so_attempt sa) = AttemptRunning"
    by (auto dest: find_SomeD)
  with query_member [OF query] obtain row where "row \<in> set (db_attempts db)"
      "ar_session_id row = rs_session_id s" "ar_attempt_sequence row = q"
      "validate_stored_review_attempt x s row = Inr sa"
    by blast
  with \<open>at_status (so_attempt sa) = AttemptRunning\<close> readable_attempt(6) show ?thesis
    by (auto simp: has_running_def)
qed

lemma operation_member:
  assumes "review_attempts_for_operation x db op s = Inr attempts" and "sa \<in> set attempts"
  shows "so_verify_operation_id sa = op"
proof -
  let ?rows = "sort_key (\<lambda>row. (sint (ar_attempt_sequence row), if ar_status row = ''running'' then 0 else (1::nat),
      sint (ar_recorded_at_ms row), ar_record_id row))
    (filter (\<lambda>row. ar_verify_operation_id row = op) (db_attempts db))"
  from assms(1) have "traverse (validate_stored_review_attempt x s) (take 3 ?rows) = Inr attempts"
    by (simp add: review_attempts_for_operation_def query_review_attempts_def)
  from traverse_Inr_set [OF this assms(2)] obtain row where "row \<in> set (take 3 ?rows)"
      "validate_stored_review_attempt x s row = Inr sa"
    by blast
  then show ?thesis
    using readable_attempt(7) by (auto dest!: in_set_takeD)
qed

lemma new_terminal_queries:
  assumes "validate_new_review_attempt x db op s a = Inr ()" and "at_status a \<noteq> AttemptRunning"
  obtains prior where "review_attempts_for_sequence x db (at_session_id a) (at_attempt_sequence a) s = Inr [prior]"
    and "review_attempts_for_operation x db op s = Inr [prior]"
    and "at_status (so_attempt prior) = AttemptRunning"
    and "same_review_attempt_identity (so_attempt prior) a"
    and "validate_terminal_review_results x db s a = Inr ()"
proof -
  from assms obtain ops prior where
      queries: "review_attempts_for_operation x db op s = Inr ops"
        "review_attempts_for_sequence x db (at_session_id a) (at_attempt_sequence a) s = Inr prior"
    and shape: "(case prior of [p] \<Rightarrow>
          if at_status (so_attempt p) = AttemptRunning \<and> same_review_attempt_identity (so_attempt p) a \<and>
             attempt_allows_transition_to (at_status (so_attempt p)) (at_status a) \<and> ops = [p]
          then validate_terminal_review_results x db s a
          else Inl (review_attempt_conflict a ''terminal fact requires exactly one matching running fact'')
        | _ \<Rightarrow> Inl (review_attempt_conflict a ''terminal fact requires exactly one matching running fact'')) =
        Inr ()"
    by (auto simp: validate_new_review_attempt_def Let_def ebind_Inr_iff simp del: split_paired_Ex
        split del: list.split split: if_split_asm)
  from shape obtain p where "prior = [p]"
    by (cases prior; cases "tl prior") auto
  with shape queries show thesis
    by (auto intro: that split: if_splits)
qed

lemma new_terminal_paired:
  assumes "validate_new_review_attempt x db op s a = Inr ()" and "at_status a \<noteq> AttemptRunning"
  obtains run where "run \<in> set (db_attempts db)" and "ar_status run = ''running''"
    and "ar_session_id run = at_session_id a" and "ar_attempt_sequence run = at_attempt_sequence a"
    and "ar_verify_operation_id run = op"
proof -
  from assms obtain prior where
      query: "review_attempts_for_sequence x db (at_session_id a) (at_attempt_sequence a) s = Inr [prior]"
    and op: "review_attempts_for_operation x db op s = Inr [prior]"
    and running: "at_status (so_attempt prior) = AttemptRunning"
    by (rule new_terminal_queries)
  from query_member [OF query] obtain run where run: "run \<in> set (db_attempts db)"
      "ar_session_id run = at_session_id a" "ar_attempt_sequence run = at_attempt_sequence a"
      "validate_stored_review_attempt x s run = Inr prior"
    by auto
  have "so_verify_operation_id prior = op"
    using operation_member [OF op] by simp
  with run running readable_attempt(6,7) [OF run(4)] that show thesis
    by simp
qed

lemma facts_linked_step:
  assumes change: "table_change x st db db'" and old: "facts_linked db"
  shows "facts_linked db'"
proof -
  obtain rows where attempts: "db_attempts db' = db_attempts db @ rows"
    using tables_extend(1) [OF change] ..
  have stay: "has_running db sid q \<Longrightarrow> has_running db' sid q" "terminal_paired db row \<Longrightarrow> terminal_paired db' row"
    for sid q row
    by (auto simp: has_running_def terminal_paired_def attempts)
  from change show ?thesis
  proof cases
    case (attempt_added sa so row)
    have "terminal_paired db' row"
    proof (cases "at_status (so_attempt sa) = AttemptRunning")
      case False
      with attempt_added(4) new_row_columns(1) [OF attempt_added(2)] attempts show ?thesis
        by (auto simp: terminal_paired_def elim!: new_terminal_paired)
    qed (use new_row_columns(1) [OF attempt_added(2)] in \<open>simp add: terminal_paired_def\<close>)
    with attempt_added(6) old stay show ?thesis
      by (auto simp: facts_linked_def same_tables_def)
  next
    case (environment_added se so row running)
    have "has_running db (er_session_id row) (er_attempt_sequence row)"
      using running_fact [OF environment_added(4)] new_row_columns(2) [OF environment_added(2)]
        environment_added(1) by (auto simp: require_session_valid(2))
    with environment_added(6) old stay show ?thesis
      by (auto simp: facts_linked_def same_tables_def)
  next
    case (result_added r so row running se)
    have "has_running db (rr_session_id row) (rr_attempt_sequence row)"
      using running_fact [OF result_added(4)] new_row_columns(3) [OF result_added(2)]
        result_added(1) by (auto simp: require_session_valid(2))
    with result_added(8) old stay show ?thesis
      by (auto simp: facts_linked_def same_tables_def)
  qed (use old stay in \<open>auto simp: facts_linked_def same_tables_def\<close>)
qed

section \<open>Verdicts\<close>

lemma new_attempt_terminal:
  assumes "validate_new_review_attempt x db op s a = Inr ()"
  shows "validate_terminal_review_results x db s a = Inr ()"
proof (cases "at_status a = AttemptRunning")
  case False
  with assms show ?thesis
    by (rule new_terminal_queries)
qed (simp add: validate_terminal_review_results_def)

lemma result_execution_expected:
  assumes "validate_check_result s r = Inr u"
  shows "execution_of r \<in> expected_executions s"
proof -
  from assms obtain c where "c \<in> set (pl_checks (rs_plan s))" "ck_check_id c = cr_check_id r"
      "cr_variant r = RequiredAbsentVariant \<Longrightarrow> ck_required_absent_binaries c \<noteq> {||}"
    by (rule valid_result) blast
  then show ?thesis
    by (cases "cr_variant r") (force simp: expected_executions_def executions_of_check_def)+
qed

lemma passed_terminal:
  assumes "validate_terminal_review_results x db s a = Inr ()" and "at_status a = AttemptPassed"
  obtains lim results where "uint (at_attempt_sequence a) < 2 ^ 63"
    and "u32_of_count (length (pl_checks (rs_plan s)) * 2 + 1) ''review result count overflow'' = Inr lim"
    and "results_of_attempt x db s (at_session_id a) (at_attempt_sequence a) lim = Inr results"
    and "validate_attempt_results s a results = Inr ()"
  using assms by (auto simp: validate_terminal_review_results_def result_simps)

lemma results_of_attempt_member:
  assumes "results_of_attempt x db s sid q lim = Inr results" and "r \<in> set results"
  shows "\<exists>row \<in> set (db_results db). rr_session_id row = sid \<and> rr_attempt_sequence row = q \<and>
    read_review_check_result x db s row = Inr r"
proof -
  let ?rows = "sort_key (\<lambda>row. (rr_variant row, rr_check_id row))
    (filter (\<lambda>row. rr_session_id row = sid \<and> rr_attempt_sequence row = q) (db_results db))"
  from assms(1) have "traverse (read_review_check_result x db s) (take lim ?rows) = Inr results"
    by (simp add: results_of_attempt_def query_review_check_results_def)
  from traverse_Inr_set [OF this assms(2)] show ?thesis
    by (auto dest!: in_set_takeD)
qed

text \<open>The results of a passed attempt leave no execution of the plan that could still be recorded.\<close>

lemma covered_executions_closed:
  assumes results: "results_of_attempt x db s (at_session_id a) (at_attempt_sequence a) lim = Inr results"
    and passed: "validate_attempt_results s a results = Inr ()" "at_status a = AttemptPassed"
    and new: "validate_check_result s r = Inr ()" "result_row_of x r = Inr row"
    and place: "rr_session_id row = at_session_id a" "rr_attempt_sequence row = at_attempt_sequence a"
  shows "list_ex (result_keys_clash row) (db_results db)"
proof -
  have "execution_of r \<in> execution_of ` set results"
    using passed_results_cover_plan(1) [OF passed] result_execution_expected [OF new(1)]
    by (simp add: bij_betw_def)
  then obtain r0 where "r0 \<in> set results" and same: "cr_check_id r0 = cr_check_id r" "cr_variant r0 = cr_variant r"
    by auto
  with results_of_attempt_member [OF results] obtain row0 where row0: "row0 \<in> set (db_results db)"
      "rr_session_id row0 = at_session_id a" "rr_attempt_sequence row0 = at_attempt_sequence a"
      "read_review_check_result x db s row0 = Inr r0"
    by blast
  then have "validate_stored_review_check_result x s row0 = Inr r0"
    by (auto simp: read_review_check_result_def result_simps)
  with readable_result(5,6) same new_row_columns(3) [OF new(2)] row0 place have "result_keys_clash row row0"
    by (simp add: result_keys_clash_def)
  with row0(1) show ?thesis
    by (auto simp: list_ex_iff)
qed

lemma terminal_persists:
  assumes change: "table_change x st db db'" and so: "require_session x st db sid = Inr so"
    and a: "validate_attempt_record (so_session so) a = Inr ()" "at_status a = AttemptPassed"
    and terminal: "validate_terminal_review_results x db (so_session so) a = Inr ()"
  shows "validate_terminal_review_results x db' (so_session so) a = Inr ()"
proof -
  let ?s = "so_session so"
  let ?P = "\<lambda>row. rr_session_id row = at_session_id a \<and> rr_attempt_sequence row = at_attempt_sequence a"
  from terminal a(2) obtain lim results where small: "uint (at_attempt_sequence a) < 2 ^ 63"
    and lim: "u32_of_count (length (pl_checks (rs_plan ?s)) * 2 + 1) ''review result count overflow'' = Inr lim"
    and results: "results_of_attempt x db ?s (at_session_id a) (at_attempt_sequence a) lim = Inr results"
    and valid: "validate_attempt_results ?s a results = Inr ()"
    by (rule passed_terminal)
  have sid: "at_session_id a = sid"
    using record_sessions(1) [OF a(1)] require_session_valid(2) [OF so] by simp
  have same_rows: "filter ?P (db_results db') = filter ?P (db_results db)"
    using change
  proof cases
    case (result_added r so1 row running se)
    have "\<not> ?P row"
    proof
      assume "?P row"
      with result_added(1,2) so sid new_row_columns(3) have "so1 = so"
        by fastforce
      with result_added(2,3,7) \<open>?P row\<close> covered_executions_closed [OF results valid a(2)] show False
        by (auto simp: result_storable_def)
    qed
    with result_added(8) show ?thesis
      by (auto simp: same_tables_def)
  qed (simp_all add: same_tables_def)
  obtain rows where "db_environments db' = db_environments db @ rows"
    using tables_extend(2) [OF change] ..
  then have "results_of_attempt x db' ?s (at_session_id a) (at_attempt_sequence a) lim = Inr results"
    using results same_rows
    by (auto simp: results_of_attempt_def query_review_check_results_def
        intro: traverse_mono result_read_later)
  with small lim valid a(2) show ?thesis
    by (simp add: validate_terminal_review_results_def to_i64_def)
qed

lemma backed_step:
  assumes change: "table_change x st db db'" and readable: "rows_readable x st db"
    and old: "\<forall>row \<in> set (db_attempts db). backed x st db row"
  shows "\<forall>row \<in> set (db_attempts db'). backed x st db' row"
proof
  fix row
  assume row: "row \<in> set (db_attempts db')"
  have known: "backed x st db' row" if "require_session x st db (ar_session_id row) = Inr so"
      "validate_stored_review_attempt x (so_session so) row = Inr sa"
      "at_status (so_attempt sa) = AttemptPassed \<Longrightarrow>
        validate_terminal_review_results x db (so_session so) (so_attempt sa) = Inr ()" for so sa
    unfolding backed_def
  proof (intro allI impI)
    fix so1 sa1
    assume later: "require_session x st db' (ar_session_id row) = Inr so1"
      "validate_stored_review_attempt x (so_session so1) row = Inr sa1"
      "at_status (so_attempt sa1) = AttemptPassed"
    from later_session [OF change that(1)] later(1) have same: "same_session so so1"
        "review_session_validate (so_session so) = Inr ()" "review_session_validate (so_session so1) = Inr ()"
      by auto
    note reads = same_begin_rows(1) [OF same(1) [THEN conjunct1] same(2,3)]
      same_begin_terminal [OF same(1) [THEN conjunct1] same(2,3)]
    have "sa1 = sa"
      using later(2) that(2) by (simp add: reads)
    with terminal_persists [OF change that(1) readable_attempt(1) [OF that(2)]] that(3) later(3)
    show "validate_terminal_review_results x db' (so_session so1) (so_attempt sa1) = Inr ()"
      by (simp add: reads)
  qed
  show "backed x st db' row"
  proof (cases "row \<in> set (db_attempts db)")
    case True
    then obtain so sa where "require_session x st db (ar_session_id row) = Inr so"
        "validate_stored_review_attempt x (so_session so) row = Inr sa"
      using readable by (auto simp: rows_readable_def attempt_readable_def)
    with known old True show ?thesis
      by (auto simp: backed_def)
  next
    case False
    from change show ?thesis
    proof cases
      case (attempt_added sa so new)
      with row False have "row = new"
        by (auto simp: same_tables_def)
      with attempt_added new_row_columns(1) [OF attempt_added(2)] new_attempt_terminal show ?thesis
        by (intro known [of so sa]) (auto intro: attempt_table.read_back)
    qed (use row False in \<open>auto simp: same_tables_def\<close>)
  qed
qed

section \<open>Reachable tables\<close>

lemma step_changes:
  assumes "review_step x st db db'" and "codec_ok x" and "keys_unique db"
  shows "table_change x st db db'"
  using assms
  by (auto elim!: review_step.cases simp: keys_unique_def
      intro: begin_change attempt_change environment_change result_change transition_change
        distinct_session_ids unchanged)

lemma tables_ok_step:
  assumes "review_step x st db db'" and "codec_ok x" and "tables_ok x st db"
  shows "tables_ok x st db'"
  using step_changes [OF assms(1,2)] assms(3) rows_readable_step keys_unique_step facts_linked_step backed_step
  by (auto simp: tables_ok_def)

lemma tables_ok_later:
  assumes "later_tables x st db db'" and "codec_ok x" and "tables_ok x st db"
  shows "tables_ok x st db'"
  using assms(1,3) unfolding later_tables_def
  by (induction rule: rtranclp_induct) (auto intro: tables_ok_step assms(2))

lemma no_reviews_ok: "no_reviews db \<Longrightarrow> tables_ok x st db"
  by (simp add: no_reviews_def tables_ok_def rows_readable_def keys_unique_def facts_linked_def)

lemma reachable_tables_ok: "reachable_tables x st db \<Longrightarrow> codec_ok x \<Longrightarrow> tables_ok x st db"
  using tables_ok_later no_reviews_ok by (auto simp: reachable_tables_def)

end
