(* ===== verification/Review_Retries.thy ===== *)
theory Review_Retries
  imports Review_Reachable Restore_Soundness
begin

text \<open>
  A check result is recorded once: after it has been appended, appending it again in any later state
  finds the session, the running fact, the environment and the recorded result as they were.
\<close>

section \<open>Later tables\<close>

lemma later_changes:
  assumes "later_tables x st db db'" and "codec_ok x" and "tables_ok x st db"
  shows "(table_change x st)\<^sup>*\<^sup>* db db'"
  using assms(1) unfolding later_tables_def
proof (induction rule: rtranclp_induct)
  case (step db1 db2)
  have "tables_ok x st db1"
    using step(1) assms(2,3) by (auto intro: tables_ok_later simp: later_tables_def)
  with step(2,3) assms(2) step_changes show ?case
    by (auto simp: tables_ok_def intro: rtranclp.rtrancl_into_rtrancl)
qed simp

lemma extend_trans: "\<exists>r. ys = xs @ r \<Longrightarrow> \<exists>r. zs = ys @ r \<Longrightarrow> \<exists>r. zs = xs @ r"
  by auto

lemma later_extend:
  assumes "(table_change x st)\<^sup>*\<^sup>* db db'"
  shows "\<exists>rows. db_attempts db' = db_attempts db @ rows" and "\<exists>rows. db_environments db' = db_environments db @ rows"
    and "\<exists>rows. db_results db' = db_results db @ rows"
proof -
  show "\<exists>rows. db_attempts db' = db_attempts db @ rows"
    using assms by (induction rule: rtranclp_induct) (simp, rule extend_trans, assumption, rule tables_extend(1))
  show "\<exists>rows. db_environments db' = db_environments db @ rows"
    using assms by (induction rule: rtranclp_induct) (simp, rule extend_trans, assumption, rule tables_extend(2))
  show "\<exists>rows. db_results db' = db_results db @ rows"
    using assms by (induction rule: rtranclp_induct) (simp, rule extend_trans, assumption, rule tables_extend(3))
qed

lemma later_same_session:
  assumes "(table_change x st)\<^sup>*\<^sup>* db db'" and "require_session x st db sid = Inr so"
  shows "\<exists>so'. require_session x st db' sid = Inr so' \<and> same_session so so'"
  using assms
proof (induction rule: rtranclp_induct)
  case base
  then show ?case
    by (simp add: same_review_session_begin_def)
next
  case (step db1 db2)
  then obtain so1 where "require_session x st db1 sid = Inr so1" "same_session so so1"
    by blast
  with sessions_persist [OF step(2)] show ?case
    by (fastforce simp: same_review_session_begin_def)
qed

section \<open>The running fact of an attempt\<close>

lemma one_element:
  "sorted_wrt (\<lambda>a b. \<not> clash a b) xs \<Longrightarrow> \<forall>a \<in> set xs. \<forall>b \<in> set xs. clash a b \<Longrightarrow> length xs \<le> 1"
  by (cases xs; cases "tl xs") auto

lemma clash_equal:
  "sorted_wrt (\<lambda>a b. \<not> clash a b) xs \<Longrightarrow> a \<in> set xs \<Longrightarrow> b \<in> set xs \<Longrightarrow> clash a b \<Longrightarrow> clash b a \<Longrightarrow> a = b"
  by (induction xs) auto

lemma find_unique:
  assumes "y \<in> set xs" and "P y" and "\<And>z. z \<in> set xs \<Longrightarrow> P z \<Longrightarrow> z = y"
  shows "List.find P xs = Some y"
proof (cases "List.find P xs")
  case None
  with assms(1,2) show ?thesis
    by (auto simp: find_None_iff)
next
  case (Some z)
  then have "z \<in> set xs" "P z"
    by (auto dest: find_SomeD)
  then have "z = y"
    by (rule assms(3))
  with Some show ?thesis
    by (simp only:)
qed

lemma take_unique:
  assumes "y \<in> set (filter P xs)" and "\<And>z. z \<in> set xs \<Longrightarrow> P z \<Longrightarrow> z = y"
  shows "take 1 (filter P xs) = [y]"
proof (cases "filter P xs")
  case (Cons z zs)
  then have "z \<in> set (filter P xs)"
    by (simp only: list.set_intros)
  then have "z = y"
    by (intro assms(2)) (simp_all only: set_filter mem_Collect_eq)
  with Cons show ?thesis
    by simp
qed (use assms(1) in simp)

lemma inr_unit: "r = Inr (u :: unit) \<Longrightarrow> r = Inr ()" "map_err f r = Inr (u :: unit) \<Longrightarrow> r = Inr ()"
  by (simp_all add: map_err_Inr_iff)

lemma if_Inl_InrE: "(if b then Inl e else r) = Inr y \<Longrightarrow> (\<not> b \<Longrightarrow> r = Inr y \<Longrightarrow> P) \<Longrightarrow> P"
  by (cases b) auto

lemma two_facts_at_most:
  assumes "keys_unique db"
  shows "length (filter (\<lambda>row. ar_session_id row = sid \<and> ar_attempt_sequence row = q) (db_attempts db)) \<le> 2"
proof -
  let ?rows = "filter (\<lambda>row. ar_session_id row = sid \<and> ar_attempt_sequence row = q) (db_attempts db)"
  let ?running = "\<lambda>row. ar_status row = ''running''"
  have "sorted_wrt (\<lambda>a b. \<not> attempt_keys_clash a b) (db_attempts db)"
    using assms by (simp only: keys_unique_def)
  then have sorted: "sorted_wrt (\<lambda>a b. \<not> attempt_keys_clash a b) (filter P ?rows)" for P
    by (intro sorted_wrt_filter)
  have "length (filter ?running ?rows) \<le> 1"
    by (rule one_element [OF sorted]) (simp add: attempt_keys_clash_def)
  moreover have "length (filter (\<lambda>row. \<not> ?running row) ?rows) \<le> 1"
    by (rule one_element [OF sorted]) (simp add: attempt_keys_clash_def)
  ultimately show ?thesis
    using sum_length_filter_compl [of ?running ?rows] by linarith
qed

lemma one_row_per_key:
  assumes "tables_ok x st db"
  shows "a \<in> set (db_attempts db) \<Longrightarrow> b \<in> set (db_attempts db) \<Longrightarrow> attempt_keys_clash a b \<Longrightarrow> a = b"
    and "p \<in> set (db_results db) \<Longrightarrow> q \<in> set (db_results db) \<Longrightarrow> result_keys_clash p q \<Longrightarrow> p = q"
proof -
  have sorted: "sorted_wrt (\<lambda>a b. \<not> attempt_keys_clash a b) (db_attempts db)"
      "sorted_wrt (\<lambda>a b. \<not> result_keys_clash a b) (db_results db)"
    using assms by (simp_all only: tables_ok_def keys_unique_def)
  show "a \<in> set (db_attempts db) \<Longrightarrow> b \<in> set (db_attempts db) \<Longrightarrow> attempt_keys_clash a b \<Longrightarrow> a = b"
    by (rule clash_equal [OF sorted(1)]) (assumption | rule clash_sym(2) [THEN iffD1])+
  show "p \<in> set (db_results db) \<Longrightarrow> q \<in> set (db_results db) \<Longrightarrow> result_keys_clash p q \<Longrightarrow> p = q"
    by (rule clash_equal [OF sorted(2)]) (assumption | rule clash_sym(4) [THEN iffD1])+
qed

lemma running_fact_found:
  assumes ok: "tables_ok x st db" and so: "require_session x st db sid = Inr so"
    and run: "run \<in> set (db_attempts db)" "ar_session_id run = sid" "ar_attempt_sequence run = q"
      "validate_stored_review_attempt x (so_session so) run = Inr sa"
      "at_status (so_attempt sa) = AttemptRunning"
  shows "ensure_running_review_attempt x db (so_session so) q = Inr (so_attempt sa)"
proof -
  let ?s = "so_session so"
  let ?P = "\<lambda>row. ar_session_id row = sid \<and> ar_attempt_sequence row = q"
  let ?rows = "sort_key (\<lambda>row. (sint (ar_recorded_at_ms row), ar_record_id row)) (filter ?P (db_attempts db))"
  have readable: "\<exists>sa. validate_stored_review_attempt x ?s row = Inr sa" if "row \<in> set (db_attempts db)" "?P row" for row
    using ok that so by (auto simp: tables_ok_def rows_readable_def attempt_readable_def)
  then obtain attempts where attempts: "traverse (validate_stored_review_attempt x ?s) ?rows = Inr attempts"
    using traverse_total [of ?rows "validate_stored_review_attempt x ?s"] by auto
  have "take 3 ?rows = ?rows"
    using two_facts_at_most [of db sid q] ok by (simp add: tables_ok_def)
  then have query: "review_attempts_for_sequence x db (rs_session_id ?s) q ?s = Inr attempts"
    using attempts readable_attempt(5) [OF run(4)] run(3) require_session_valid(2) [OF so]
    by (simp add: review_attempts_for_sequence_def query_review_attempts_def to_i64_def)
  have "run \<in> set ?rows"
    using run by simp
  with traverse_Inr_row [OF attempts] run(4) have "sa \<in> set attempts"
    by fastforce
  moreover have "other = sa" if "other \<in> set attempts" "at_status (so_attempt other) = AttemptRunning" for other
  proof -
    from traverse_Inr_set [OF attempts that(1)] obtain row where row: "row \<in> set (db_attempts db)" "?P row"
        "validate_stored_review_attempt x ?s row = Inr other"
      by auto
    have "attempt_keys_clash run row"
      using run row that(2) readable_attempt(6) [OF run(4)] readable_attempt(6) [OF row(3)]
      by (simp add: attempt_keys_clash_def)
    with ok run(1) row(1) have "run = row"
      by (rule one_row_per_key(1))
    with row(3) run(4) show ?thesis
      by simp
  qed
  ultimately have "List.find (\<lambda>sa. at_status (so_attempt sa) = AttemptRunning) attempts = Some sa"
    using run(5) by (intro find_unique) blast+
  with query show ?thesis
    by (simp add: ensure_running_review_attempt_def)
qed

lemma running_persists:
  assumes change: "(table_change x st)\<^sup>*\<^sup>* db db'" and ok: "tables_ok x st db'"
    and so: "require_session x st db sid = Inr so" and so': "require_session x st db' sid = Inr so'" "same_session so so'"
    and running: "ensure_running_review_attempt x db (so_session so) q = Inr a"
  shows "ensure_running_review_attempt x db' (so_session so') q = Inr a"
proof -
  from running obtain attempts sa where query: "review_attempts_for_sequence x db (rs_session_id (so_session so)) q (so_session so) = Inr attempts"
    and found: "List.find (\<lambda>sa. at_status (so_attempt sa) = AttemptRunning) attempts = Some sa" "a = so_attempt sa"
    by (auto simp: ensure_running_review_attempt_def result_simps)
  then have sa: "sa \<in> set attempts" "at_status (so_attempt sa) = AttemptRunning"
    by (auto dest: find_SomeD)
  from query_member [OF query sa(1)] obtain run where run: "run \<in> set (db_attempts db)"
      "ar_session_id run = sid" "ar_attempt_sequence run = q"
      "validate_stored_review_attempt x (so_session so) run = Inr sa"
    using require_session_valid(2) [OF so] by auto
  have "run \<in> set (db_attempts db')"
    using run(1) later_extend(1) [OF change] by auto
  moreover have "validate_stored_review_attempt x (so_session so') run = Inr sa"
    using run(4) same_begin_rows(1) [OF so'(2) [THEN conjunct1]] require_session_valid(1) [OF so]
      require_session_valid(1) [OF so'(1)] by simp
  ultimately show ?thesis
    using running_fact_found [OF ok so'(1) _ run(2,3)] sa(2) found(2) by blast
qed

section \<open>Recording a result again\<close>

lemma appended_result:
  assumes "append_review_check_result x st r db = Inr (r', db')"
  obtains so running se row new where "r' = r"
    and "require_session x st db (cr_session_id r) = Inr so"
    and "validate_check_result (so_session so) r = Inr ()"
    and "ensure_running_review_attempt x db (so_session so) (cr_attempt_sequence r) = Inr running"
    and "\<not> cr_started_at r < at_started_at running"
    and "require_environment x db (cr_environment_id r) (so_session so) = Inr se"
    and "validate_execution_pair (so_session so) r (so_environment se) = Inr ()"
    and "result_row_of x r = Inr new" and "row \<in> set (db_results db')" and "result_keys_clash new row"
    and "row = new \<or> read_review_check_result x db (so_session so) row = Inr r"
proof -
  from assms obtain so running se new where facts: "require_session x st db (cr_session_id r) = Inr so"
      "validate_check_result (so_session so) r = Inr ()"
      "ensure_running_review_attempt x db (so_session so) (cr_attempt_sequence r) = Inr running"
      "\<not> cr_started_at r < at_started_at running"
      "require_environment x db (cr_environment_id r) (so_session so) = Inr se"
      "validate_execution_pair (so_session so) r (so_environment se) = Inr ()"
      "result_row_of x r = Inr new"
    and outcome: "(if result_row_checks new \<and> \<not> list_ex (result_keys_clash new) (db_results db) then
         ebind (append_review_control_event x (st_workspace_id st) ''review.check.recorded''
                  (review_check_result_event_detail r) (cr_finished_at r)
                  (db\<lparr>db_results := db_results db @ [new]\<rparr>)) (\<lambda>db'. Inr (r, db'))
       else ebind (review_check_result_for_key x db r (so_session so)) (\<lambda>existing.
         if existing = Some r then Inr (r, db) else Inl (review_check_result_conflict r))) = Inr (r', db')"
    unfolding append_review_check_result_def Let_def map_err_Inr_iff
    by (elim ebind_InrE if_Inl_InrE) (rule that, (assumption | erule inr_unit)+)
  show thesis
  proof (cases "result_row_checks new \<and> \<not> list_ex (result_keys_clash new) (db_results db)")
    case True
    with outcome have "r' = r" "same_tables (db\<lparr>db_results := db_results db @ [new]\<rparr>) db'"
      by (auto simp: ebind_Inr_iff dest: event_tables)
    with facts show thesis
      by (intro that [of so running se new new]) (auto simp: same_tables_def result_keys_clash_def)
  next
    case False
    with outcome have same: "r' = r" "db' = db"
      and found: "review_check_result_for_key x db r (so_session so) = Inr (Some r)"
      by (auto simp: ebind_Inr_iff split: if_splits)
    let ?P = "\<lambda>row. rr_session_id row = cr_session_id r \<and> rr_attempt_sequence row = cr_attempt_sequence r \<and>
      rr_variant row = review_execution_variant_text (cr_variant r) \<and> rr_check_id row = cr_check_id r"
    from found obtain results where "traverse (read_review_check_result x db (so_session so))
        (take 1 (filter ?P (db_results db))) = Inr results" "pop_last results = Some r"
      by (auto simp: review_check_result_for_key_def query_review_check_results_def result_simps)
    then obtain row where "row \<in> set (db_results db)" "?P row"
        "read_review_check_result x db (so_session so) row = Inr r"
      using traverse_Inr_set [of _ _ results r]
      by (fastforce simp: pop_last_def dest!: in_set_takeD split: if_splits)
    with facts same new_row_columns(3) [OF facts(7)] show thesis
      by (intro that [of so running se new row]) (simp_all add: result_keys_clash_def)
  qed
qed

lemma result_retry:
  assumes io: "codec_ok x" and ok: "tables_ok x st db"
    and appended: "append_review_check_result x st r db = Inr (r', db1)"
    and later: "later_tables x st db1 db2"
  shows "append_review_check_result x st r db2 = Inr (r, db2)"
proof -
  from appended obtain so running se row new where facts: "r' = r"
      "require_session x st db (cr_session_id r) = Inr so"
      "validate_check_result (so_session so) r = Inr ()"
      "ensure_running_review_attempt x db (so_session so) (cr_attempt_sequence r) = Inr running"
      "\<not> cr_started_at r < at_started_at running"
      "require_environment x db (cr_environment_id r) (so_session so) = Inr se"
      "validate_execution_pair (so_session so) r (so_environment se) = Inr ()"
      "result_row_of x r = Inr new"
    and row: "row \<in> set (db_results db1)" "result_keys_clash new row"
      "row = new \<or> read_review_check_result x db (so_session so) row = Inr r"
    by (rule appended_result)
  have all_later: "later_tables x st db db2"
    using review_step.results [OF appended] later unfolding later_tables_def
    by (rule converse_rtranclp_into_rtranclp)
  have ok1: "tables_ok x st db1"
    using review_step.results [OF appended] io ok by (rule tables_ok_step)
  have ok2: "tables_ok x st db2"
    using all_later io ok by (rule tables_ok_later)
  note change = later_changes [OF all_later io ok] and change1 = later_changes [OF later io ok1]
  obtain so2 where so2: "require_session x st db2 (cr_session_id r) = Inr so2" "same_session so so2"
    using later_same_session [OF change facts(2)] by blast
  note valid = require_session_valid(1) [OF facts(2)] require_session_valid(1) [OF so2(1)]
  note reads = same_begin_reads [OF so2(2) [THEN conjunct1] valid]
    and rows = same_begin_rows [OF so2(2) [THEN conjunct1] valid]
  obtain environments where environments: "db_environments db2 = db_environments db @ environments"
    using later_extend(2) [OF change] ..
  have "require_environment x db2 k (so_session so2) = require_environment x db2 k (so_session so)" for k
    by (simp only: require_environment_def review_environment_for_id_def query_review_environments_def rows)
  then have environment: "require_environment x db2 (cr_environment_id r) (so_session so2) = Inr se"
    using environment_found_later [OF facts(6) environments] by simp
  have running2: "ensure_running_review_attempt x db2 (so_session so2) (cr_attempt_sequence r) = Inr running"
    using running_persists [OF change ok2 facts(2) so2 facts(4)] .
  have row2: "row \<in> set (db_results db2)"
    using row(1) later_extend(3) [OF change1] by auto
  have "validate_stored_review_check_result x (so_session so) new = Inr r"
    using facts(3,8) io by (intro result_table.read_back) (simp_all add: result_storable_def)
  then have "read_review_check_result x db (so_session so) new = Inr r"
    using facts(6,7) by (simp add: read_review_check_result_def)
  with row(3) have "read_review_check_result x db (so_session so) row = Inr r"
    by blast
  then have read2: "read_review_check_result x db2 (so_session so2) row = Inr r"
    using result_read_later [OF _ environments] by (simp add: rows)
  let ?P = "\<lambda>row. rr_session_id row = cr_session_id r \<and> rr_attempt_sequence row = cr_attempt_sequence r \<and>
    rr_variant row = review_execution_variant_text (cr_variant r) \<and> rr_check_id row = cr_check_id r"
  have key: "?P row"
    using row(2) new_row_columns(3) [OF facts(8)] by (simp add: result_keys_clash_def)
  have unique: "other = row" if "other \<in> set (db_results db2)" "?P other" for other
    using ok2 that(1) row2 by (rule one_row_per_key(2)) (use that(2) key in \<open>simp add: result_keys_clash_def\<close>)
  have "take 1 (filter ?P (db_results db2)) = [row]"
    using row2 key by (intro take_unique unique) (simp_all only: set_filter mem_Collect_eq simp_thms)
  moreover have "uint (cr_attempt_sequence r) < 2 ^ 63"
    using facts(8) by (auto simp: result_row_of_def result_simps)
  ultimately have "review_check_result_for_key x db2 r (so_session so2) = Inr (Some r)"
    using read2 by (simp add: review_check_result_for_key_def query_review_check_results_def
        pop_last_def to_i64_def)
  moreover have "list_ex (result_keys_clash new) (db_results db2)"
    using row2 row(2) by (auto simp: list_ex_iff)
  ultimately show ?thesis
    using facts(3,5,7,8) so2 environment running2
    by (simp add: append_review_check_result_def reads)
qed

end
