(* ===== verification/Review_Properties.thy ===== *)
theory Review_Properties
  imports Review_Facts
begin

text \<open>
  A concrete review session with one check in both execution variants, and the properties of
  review records: what a passed attempt proves, and what the containment evidence proves.
\<close>

section \<open>A concrete session\<close>

definition zero_digest :: payload_digest where "zero_digest = replicate 64 (CHR ''0'')"

definition sample_identity :: review_plan_identity where
  "sample_identity = ReviewPlanIdentity 1 zero_digest"

definition sample_check :: review_check where
  "sample_check =
     \<lparr>ck_check_id = ''unit'', ck_argv = [of_ascii ''cargo'', of_ascii ''test''],
      ck_relative_cwd = Some (of_ascii ''crates/core''), ck_timeout_seconds = 600,
      ck_expected_exit_code = 0, ck_required_absent_binaries = {|''docker''|}\<rparr>"

definition sample_plan :: review_plan where
  "sample_plan =
     \<lparr>pl_identity = sample_identity, pl_checks = [sample_check],
      pl_tool_version_probes = [ReviewToolVersionProbe ''cargo'' [of_ascii ''cargo'', of_ascii ''-V'']],
      pl_declared_environment = fmupd ''CI'' (of_ascii ''1'') fmempty,
      pl_declared_environment_digest = zero_digest, pl_optional_binaries = {||}\<rparr>"

definition sample_session :: review_session where
  "sample_session =
     \<lparr>rs_session_id = ''s'', rs_workspace_id = ''ws'', rs_request_id = ''req'',
      rs_tree = ReviewTreeIdentity (replicate 40 (CHR ''a'')) (replicate 40 (CHR ''b'')),
      rs_checkout_path = of_ascii ''/reviews/s'', rs_plan = sample_plan,
      rs_state = ReviewSessionState SessionReady NotRequired, rs_created_at = 1, rs_updated_at = 2\<rparr>"

definition sample_attempt :: review_attempt where
  "sample_attempt =
     \<lparr>at_record_id = ''r2'', at_workspace_id = ''ws'', at_session_id = ''s'', at_request_id = ''req'',
      at_candidate_sha = replicate 40 (CHR ''a''), at_attempt_sequence = 1, at_plan = sample_identity,
      at_status = AttemptPassed, at_started_at = 10, at_finished_at = Some 20, at_recorded_at = 21\<rparr>"

definition sample_artifact :: review_output_artifact where
  "sample_artifact = ReviewOutputArtifact zero_digest 0 False None"

definition sample_result :: "review_execution_variant \<Rightarrow> review_environment_id \<Rightarrow> review_check_result" where
  "sample_result variant environment =
     \<lparr>cr_workspace_id = ''ws'', cr_session_id = ''s'', cr_request_id = ''req'',
      cr_candidate_sha = replicate 40 (CHR ''a''), cr_attempt_sequence = 1, cr_plan = sample_identity,
      cr_check_id = ''unit'', cr_variant = variant, cr_environment_id = environment,
      cr_outcome = CheckPassed, cr_termination = Exited, cr_expected_exit_code = 0,
      cr_actual_exit_code = Some 0, cr_process_tree_may_outlive = False,
      cr_stdout = sample_artifact, cr_stderr = sample_artifact, cr_started_at = 12, cr_finished_at = 15\<rparr>"

definition sample_results :: "review_check_result list" where
  "sample_results = [sample_result NormalVariant ''e1'', sample_result RequiredAbsentVariant ''e2'']"

definition timed_out_result :: review_check_result where
  "timed_out_result = (sample_result NormalVariant ''e1'')\<lparr>cr_outcome := CheckExecutionError,
     cr_termination := TimedOut, cr_actual_exit_code := None, cr_process_tree_may_outlive := True\<rparr>"

definition sample_environment :: review_environment where
  "sample_environment =
     \<lparr>en_environment_id = ''e1'', en_workspace_id = ''ws'', en_session_id = ''s'', en_request_id = ''req'',
      en_candidate_sha = replicate 40 (CHR ''a''), en_attempt_sequence = 1, en_plan = sample_identity,
      en_check_id = ''unit'', en_variant = NormalVariant, en_process_containment = ProcessGroupOnly,
      en_recorded_at = 11, en_declared_environment_digest = zero_digest,
      en_execution_environment =
        fmap_of_list (map (\<lambda>k. (k, of_ascii ''x''))
           [''os'', ''arch'', ''agsv_version'', ''cwd_identity'', ''path_profile''] @
          [(''declared_values_digest'', replicate 64 48), (''tmpdir'', of_ascii ''/tmp'')]),
      en_execution_environment_digest = zero_digest,
      en_tool_versions =
        [ReviewToolVersion ''cargo'' (of_ascii ''/bin/cargo'') zero_digest 0 (of_ascii ''1.90'')
           sample_artifact sample_artifact],
      en_binary_observations = [], en_required_absent_binaries = {||}\<rparr>"

section \<open>Properties\<close>

definition required_executions :: "review_session \<Rightarrow> (review_check_id \<times> review_execution_variant) set" where
  "required_executions s =
     (\<lambda>c. (ck_check_id c, NormalVariant)) ` set (pl_checks (rs_plan s)) \<union>
     (\<lambda>c. (ck_check_id c, RequiredAbsentVariant)) `
       {c \<in> set (pl_checks (rs_plan s)). ck_required_absent_binaries c \<noteq> {||}}"

lemma required_executions: "required_executions s = expected_executions s"
  by (auto simp: required_executions_def expected_executions_def executions_of_check_def split: if_splits)

text \<open>
  C32: a passed attempt means what it says. When the results support a passed attempt, they are
  one result per check of the frozen plan and per variant the check is configured for, each of
  them of the session's candidate, exited with the exit code the plan expects, inside the interval
  of the attempt; and no other verdict on the same results is admitted.
\<close>

theorem passed_attempts_cover_the_plan:
  assumes "validate_attempt_results s a results = Inr ()" and "at_status a = AttemptPassed"
  shows "bij_betw (\<lambda>r. (cr_check_id r, cr_variant r)) (set results) (required_executions s) \<and>
    (\<forall>r \<in> set results. cr_candidate_sha r = rt_candidate_sha (rs_tree s) \<and>
      (\<exists>c \<in> set (pl_checks (rs_plan s)). ck_check_id c = cr_check_id r \<and>
         cr_termination r = Exited \<and> cr_actual_exit_code r = Some (ck_expected_exit_code c)) \<and>
      at_started_at a \<le> cr_started_at r \<and> cr_started_at r \<le> cr_finished_at r \<and>
      is_some_and (at_finished_at a) (\<lambda>finished. cr_finished_at r \<le> finished)) \<and>
    (\<forall>b. at_status b \<noteq> AttemptPassed \<longrightarrow> at_attempt_sequence b = at_attempt_sequence a \<longrightarrow>
      validate_attempt_results s b results \<noteq> Inr ())"
proof (intro conjI ballI allI impI)
  show "bij_betw (\<lambda>r. (cr_check_id r, cr_variant r)) (set results) (required_executions s)"
    using passed_results_cover_plan(1) [OF assms] by (simp add: required_executions)
  show "validate_attempt_results s b results \<noteq> Inr ()"
    if "at_status b \<noteq> AttemptPassed" "at_attempt_sequence b = at_attempt_sequence a" for b
    using one_verdict_per_result_set [OF assms(1) _ assms(2) that(2)] that(1) by blast
qed (use passed_results_cover_plan(2,3) [OF assms] in simp_all)

theorem passed_attempts_cover_the_plan_witness:
  "bij_betw (\<lambda>r. (cr_check_id r, cr_variant r)) (set sample_results)
     (required_executions sample_session)"
proof -
  have "validate_attempt_results sample_session sample_attempt sample_results = Inr ()"
    by code_simp
  moreover have "at_status sample_attempt = AttemptPassed"
    by code_simp
  ultimately show ?thesis
    by (rule passed_attempts_cover_the_plan [THEN conjunct1])
qed

text \<open>
  C33: a record of surviving processes is complete and truthful. For an accepted pair of a check
  result and its environment, descendants are recorded as possibly alive exactly when the
  execution was not fully contained and was cut off: by its timeout, by the output limit, or
  because a descendant kept a pipe open.
\<close>

theorem survivors_are_recorded:
  assumes "validate_execution_pair s r e = Inr ()"
  shows "cr_process_tree_may_outlive r \<longleftrightarrow>
    en_process_containment e \<noteq> PidNamespaceParentDeath \<and>
    cr_termination r \<in> {TimedOut, OutputLimitExceeded, OutputCaptureIncomplete}"
  using survivors_explained(1) [OF assms] .

theorem survivors_are_recorded_witness:
  "cr_process_tree_may_outlive timed_out_result \<longleftrightarrow>
    en_process_containment sample_environment \<noteq> PidNamespaceParentDeath \<and>
    cr_termination timed_out_result \<in> {TimedOut, OutputLimitExceeded, OutputCaptureIncomplete}"
proof -
  have "validate_execution_pair sample_session timed_out_result sample_environment = Inr ()"
    by code_simp
  then show ?thesis
    by (rule survivors_are_recorded)
qed

end
