(* ===== verification/Review_Samples.thy ===== *)
theory Review_Samples
  imports Review_Retries Review_Properties Scenario
begin

text \<open>
  A concrete review store: a codec for finitely many records, a checkout root that exists, and the
  tables after each operation of a review that passes.
\<close>

section \<open>A codec for finitely many records\<close>

text \<open>A record is written as a string as long as its position in a list of records.\<close>

definition position_json :: "'a list \<Rightarrow> 'a \<Rightarrow> json option" where
  "position_json vs v =
     (if List.member vs v then Some (JString (replicate (length (takeWhile (\<lambda>w. w \<noteq> v) vs)) 97))
      else None)"

definition parse_position :: "'a list \<Rightarrow> utext \<Rightarrow> 'a option" where
  "parse_position vs t = (let i = length t - 2 in if i < length vs then Some (vs ! i) else None)"

definition quoted :: "utext \<Rightarrow> utext option" where
  "quoted t = Some (34 # t @ [34])"

lemma position_codec:
  assumes "canonical_json x (position_json vs v) = Inr t" and "io_quote x = quoted"
  shows "parse_position vs t = Some v"
proof -
  let ?i = "length (takeWhile (\<lambda>w. w \<noteq> v) vs)"
  have v: "v \<in> set vs"
    using assms(1) by (auto simp: position_json_def canonical_json_def ok_or_def result_simps split: if_splits)
  then have "?i < length vs"
    by (induction vs) auto
  moreover have "vs ! ?i = v"
    using nth_length_takeWhile [of "\<lambda>w. w \<noteq> v" vs] \<open>?i < length vs\<close> by simp
  moreover have "length t = ?i + 2"
    using assms v by (auto simp: position_json_def canonical_json_def ok_or_def quoted_def)
  ultimately show ?thesis
    by (simp add: parse_position_def)
qed

section \<open>Records\<close>

definition new_session :: review_session where
  "new_session = sample_session\<lparr>rs_state := ReviewSessionState SessionPreparing NotRequired,
     rs_updated_at := 1\<rparr>"

definition resuming_session :: review_session where
  "resuming_session = sample_session\<lparr>rs_state := ReviewSessionState SessionReady ResumeRequired,
     rs_updated_at := 10\<rparr>"

definition running_attempt :: review_attempt where
  "running_attempt = sample_attempt\<lparr>at_record_id := ''r1'', at_status := AttemptRunning,
     at_finished_at := None, at_recorded_at := 10\<rparr>"

definition normal_environment :: review_environment where
  "normal_environment = sample_environment\<lparr>en_execution_environment :=
     fmupd ''path_digest'' (replicate 64 48) (en_execution_environment sample_environment)\<rparr>"

definition absent_environment :: review_environment where
  "absent_environment = normal_environment\<lparr>en_environment_id := ''e2'',
     en_variant := RequiredAbsentVariant, en_required_absent_binaries := {|''docker''|},
     en_binary_observations := [ReviewBinaryObservation ''docker'' AbsentFromControlledPath None None]\<rparr>"

definition normal_result :: review_check_result where
  "normal_result = sample_result NormalVariant ''e1''"

definition absent_result :: review_check_result where
  "absent_result = sample_result RequiredAbsentVariant ''e2''"

section \<open>The parameters\<close>

definition request_snapshot :: domain_snapshot where
  "request_snapshot = (snapshot (supervisor_new ''ws'' 1))\<lparr>sn_requests :=
     [\<lparr>q_request_id = ''req'', q_workspace_id = ''ws'', q_team_id = ''core'', q_team_epoch = 1,
       q_run_id = ''run'', q_specification = RequestSpecificationRef ''m1'' zero_digest sha1,
       q_status = InProgress, q_assignment = None, q_candidate = None, q_decision = None,
       q_integration_authorization = None, q_rejection_count = 0, q_fix_cycle_depth = 0,
       q_candidate_history = []\<rparr>]\<rparr>"

definition sample_io :: review_io where
  "sample_io =
     \<lparr>io_session_json = position_json [new_session, sample_session, resuming_session],
      io_parse_session = parse_position [new_session, sample_session, resuming_session],
      io_attempt_json = position_json [running_attempt, sample_attempt],
      io_parse_attempt = parse_position [running_attempt, sample_attempt],
      io_environment_json = position_json [normal_environment, absent_environment],
      io_parse_environment = parse_position [normal_environment, absent_environment],
      io_result_json = position_json [normal_result, absent_result],
      io_parse_result = parse_position [normal_result, absent_result],
      io_parse_snapshot = \<lambda>_. Some request_snapshot, io_parse_request = \<lambda>_. None,
      io_parse_run = \<lambda>_. None, io_checks_json = \<lambda>_. JNull, io_probes_json = \<lambda>_. JNull,
      io_values_json = \<lambda>_. JNull, io_binaries_json = \<lambda>_. JNull, io_quote = quoted,
      io_sha256 = \<lambda>_. replicate 32 0, io_json_error = of_ascii ''json'',
      io_sql_error = of_ascii ''sql'', io_metadata = \<lambda>_. PathFound, io_canonicalize = Inr\<rparr>"

definition sample_store :: state_store where
  "sample_store = \<lparr>st_workspace_id = ''ws'', st_review_checkout_root = of_ascii ''/reviews''\<rparr>"

lemma sample_codec: "codec_ok sample_io"
  unfolding codec_ok_def by (auto simp: sample_io_def intro!: position_codec)

section \<open>A review\<close>

definition empty_tables :: review_db where
  "empty_tables = \<lparr>db_domain = Some (1, []), db_request_archive = [], db_sessions = [], db_attempts = [],
     db_environments = [], db_results = [], db_events = [], db_event_archive = [], db_last_sequence = 0\<rparr>"

definition new_row :: session_row where
  "new_row = \<lparr>sr_session_id = ''s'', sr_begin_operation_id = of_ascii ''begin'', sr_request_id = ''req'',
     sr_candidate_sha = sha1, sr_tree_sha = sha2, sr_checkout_path = of_ascii ''/reviews/s'',
     sr_plan_sha256 = zero_digest, sr_record_sha256 = zero_digest, sr_record_json = [34, 34],
     sr_policy_revision = 1, sr_status = ''preparing'', sr_recovery = ''not_required'',
     sr_last_error = None, sr_created_at_ms = 1, sr_updated_at_ms = 1\<rparr>"

definition ready_row :: session_row where
  "ready_row = new_row\<lparr>sr_record_json := [34, 97, 34], sr_status := ''ready'', sr_updated_at_ms := 2\<rparr>"

definition resuming_row :: session_row where
  "resuming_row = new_row\<lparr>sr_record_json := [34, 97, 97, 34], sr_status := ''ready'',
     sr_recovery := ''resume_required'', sr_updated_at_ms := 10\<rparr>"

definition running_row :: attempt_row where
  "running_row = \<lparr>ar_record_id = ''r1'', ar_session_id = ''s'', ar_request_id = ''req'',
     ar_candidate_sha = sha1, ar_attempt_sequence = 1, ar_verify_operation_id = of_ascii ''verify'',
     ar_plan_sha256 = zero_digest, ar_status = ''running'', ar_record_sha256 = zero_digest,
     ar_record_json = [34, 34], ar_started_at_ms = 10, ar_finished_at_ms = None, ar_recorded_at_ms = 10\<rparr>"

definition passed_row :: attempt_row where
  "passed_row = running_row\<lparr>ar_record_id := ''r2'', ar_status := ''passed'',
     ar_record_json := [34, 97, 34], ar_finished_at_ms := Some 20, ar_recorded_at_ms := 21\<rparr>"

definition normal_environment_row :: environment_row where
  "normal_environment_row = \<lparr>er_environment_id = ''e1'', er_session_id = ''s'', er_request_id = ''req'',
     er_candidate_sha = sha1, er_attempt_sequence = 1, er_check_id = ''unit'', er_variant = ''normal'',
     er_process_containment = ''process_group_only'', er_path_sha256 = zero_digest,
     er_record_sha256 = zero_digest, er_record_json = [34, 34], er_recorded_at_ms = 11\<rparr>"

definition absent_environment_row :: environment_row where
  "absent_environment_row = normal_environment_row\<lparr>er_environment_id := ''e2'',
     er_variant := ''required_absent'', er_record_json := [34, 97, 34]\<rparr>"

definition normal_result_row :: result_row where
  "normal_result_row = \<lparr>rr_session_id = ''s'', rr_request_id = ''req'', rr_candidate_sha = sha1,
     rr_attempt_sequence = 1, rr_check_id = ''unit'', rr_variant = ''normal'', rr_environment_id = ''e1'',
     rr_expected_exit_code = 0, rr_actual_exit_code = Some 0, rr_outcome = ''passed'',
     rr_termination = ''exited'', rr_process_tree_may_outlive = False, rr_stdout_sha256 = zero_digest,
     rr_stderr_sha256 = zero_digest, rr_stdout_bytes = 0, rr_stderr_bytes = 0,
     rr_stdout_truncated = False, rr_stderr_truncated = False, rr_stdout_artifact_ref = None,
     rr_stderr_artifact_ref = None, rr_record_sha256 = zero_digest, rr_record_json = [34, 34],
     rr_started_at_ms = 12, rr_finished_at_ms = 15\<rparr>"

definition absent_result_row :: result_row where
  "absent_result_row = normal_result_row\<lparr>rr_variant := ''required_absent'', rr_environment_id := ''e2'',
     rr_record_json := [34, 97, 34]\<rparr>"

definition begun_tables :: review_db where
  "begun_tables = empty_tables\<lparr>db_sessions := [new_row]\<rparr>"

definition ready_tables :: review_db where
  "ready_tables = empty_tables\<lparr>db_sessions := [ready_row]\<rparr>"

definition running_tables :: review_db where
  "running_tables = ready_tables\<lparr>db_attempts := [running_row]\<rparr>"

definition resuming_tables :: review_db where
  "resuming_tables = running_tables\<lparr>db_sessions := [resuming_row]\<rparr>"

definition captured_tables :: review_db where
  "captured_tables = resuming_tables\<lparr>db_environments := [normal_environment_row]\<rparr>"

definition covered_tables :: review_db where
  "covered_tables = resuming_tables\<lparr>db_environments := [normal_environment_row, absent_environment_row]\<rparr>"

definition checked_tables :: review_db where
  "checked_tables = covered_tables\<lparr>db_results := [normal_result_row]\<rparr>"

definition complete_tables :: review_db where
  "complete_tables = covered_tables\<lparr>db_results := [normal_result_row, absent_result_row]\<rparr>"

definition passed_tables :: review_db where
  "passed_tables = complete_tables\<lparr>db_attempts := [running_row, passed_row]\<rparr>"

section \<open>What the parameters give\<close>

lemma quoted_total:
  assumes "io_quote x = quoted"
  shows "\<exists>t. write_canonical_json x j = Inr t" and "\<exists>ts. write_values x js = Inr ts"
    and "\<exists>ts. write_entries x es = Inr ts"
  using assms
  by (induction x j and x js and x es rule: write_canonical_json_write_values_write_entries.induct)
    (auto simp: quoted_def ok_or_def)

lemma sample_digest: "sha256_hex sample_io bytes = zero_digest"
  by (simp add: sha256_hex_def sample_io_def) code_simp

lemma sample_canonical: "\<exists>t. canonical_json sample_io (Some j) = Inr t"
  using quoted_total(1) [of sample_io j] by (simp add: canonical_json_def ok_or_def sample_io_def)

lemma sample_json_digest: "validate_review_json_digest sample_io label v zero_digest = Inr ()"
  using sample_canonical [of v] by (auto simp: validate_review_json_digest_def sample_digest Let_def)

lemma of_ascii_inj: "of_ascii s = of_ascii t \<longleftrightarrow> s = t"
  by (simp add: of_ascii_def inj_map_eq_map [OF inj_of_char])

lemma map_of_json_insert [simp]: "map_of (json_insert k v es) = (map_of es)(k \<mapsto> v)"
  by (induction es) (auto simp: fun_eq_iff)

definition entries_of :: "(string \<times> json) list \<Rightarrow> (utext \<times> json) list" where
  "entries_of kvs = fold (\<lambda>(k, v). json_insert (of_ascii k) v) kvs []"

lemma entries_lookup: "map_of (entries_of kvs) (of_ascii k) = map_of (rev kvs) k"
  by (induction kvs rule: rev_induct) (auto simp: entries_of_def of_ascii_inj)

lemma request_text: "list_all (\<lambda>c. c < 128) (of_ascii ''req'')" "map char_of (of_ascii ''req'') = ''req''"
  by code_simp+

lemma sample_request_named:
  assumes "map_of (rev kvs) ''request_id'' = Some (json_text ''req'')"
  shows "detail_request_id (entries_of kvs) = Some ''req''"
proof -
  have "string_id_new ''request_id'' ''req'' = Inr ''req''"
    by code_simp
  with assms request_text show ?thesis
    by (simp add: detail_request_id_def entries_lookup)
qed

lemma sample_fields:
  "io_parse_snapshot sample_io t = Some request_snapshot" "io_quote sample_io = quoted"
  by (simp_all add: sample_io_def)

lemma sample_event:
  assumes "db_domain db = Some (1, [])" and "db_events db = []" and "db_last_sequence db = 0"
    and "map_of (rev kvs) ''request_id'' = Some (json_text ''req'')" and "uint t < 2 ^ 63"
  shows "\<exists>db'. append_review_control_event sample_io ws operation (json_object kvs) t db = Inr db' \<and> same_tables db db'"
proof -
  have detail: "json_object kvs = JObject (entries_of kvs)"
    by (simp add: json_object_def entries_of_def)
  have "\<exists>q. List.find (\<lambda>r. q_request_id r = ''req'') (sn_requests request_snapshot) = Some q"
    by (simp add: request_snapshot_def)
  then obtain j where "attribute_detail sample_io ws db [] (json_object kvs) = Inr j"
    using sample_request_named [OF assms(4)]
    by (auto simp: attribute_detail_def detail parse_json_def ok_or_def sample_fields)
  moreover obtain written where "canonical_json sample_io (Some j) = Inr written"
    using sample_canonical by blast
  ultimately have "\<exists>db'. append_review_control_event sample_io ws operation (json_object kvs) t db = Inr db'"
    using assms(1,2,3,5)
    by (simp add: append_review_control_event_def to_i64_def compact_control_events_def live_floor_def Let_def
        LIVE_CONTROL_EVENT_LIMIT_def)
  with event_tables show ?thesis
    by blast
qed

section \<open>The records are valid\<close>

lemma sessions_valid: "review_session_validate new_session = Inr ()" "review_session_validate sample_session = Inr ()"
    "review_session_validate resuming_session = Inr ()"
  by code_simp+

lemma checkout_valid: "validate_review_checkout_path sample_io (of_ascii ''/reviews'') (of_ascii ''/reviews/s'') = Inr ()"
  by code_simp

lemma stored_sessions_valid:
  "validate_review_session sample_io sample_store new_session = Inr ()"
  "validate_review_session sample_io sample_store sample_session = Inr ()"
  "validate_review_session sample_io sample_store resuming_session = Inr ()"
  using checkout_valid
  by (simp_all add: validate_review_session_def sessions_valid validate_review_plan_digests_def Let_def,
      simp_all add: new_session_def resuming_session_def sample_session_def sample_plan_def sample_identity_def sample_store_def
        sample_json_digest)

lemma attempts_valid:
  "validate_attempt_record sample_session running_attempt = Inr ()"
  "validate_attempt_record sample_session sample_attempt = Inr ()"
proof -
  have "review_attempt_validate running_attempt = Inr ()" "review_attempt_validate sample_attempt = Inr ()"
    by code_simp+
  then show "validate_attempt_record sample_session running_attempt = Inr ()"
      "validate_attempt_record sample_session sample_attempt = Inr ()"
    by (simp_all add: validate_attempt_record_def sessions_valid,
        simp_all add: validate_child_identity_def running_attempt_def sample_attempt_def
          sample_session_def sample_plan_def)
qed

lemma environments_valid:
  "validate_environment_record sample_session normal_environment = Inr ()"
  "validate_environment_record sample_session absent_environment = Inr ()"
  by code_simp+

lemma results_valid:
  "validate_check_result sample_session normal_result = Inr ()"
  "validate_check_result sample_session absent_result = Inr ()"
proof -
  have "check_result_validate normal_result = Inr ()" "check_result_validate absent_result = Inr ()"
    by code_simp+
  then show "validate_check_result sample_session normal_result = Inr ()"
      "validate_check_result sample_session absent_result = Inr ()"
    by (simp_all add: validate_check_result_def sessions_valid,
        simp_all add: validate_child_identity_def find_review_check_def ok_or_def normal_result_def absent_result_def
          sample_result_def sample_session_def sample_plan_def sample_check_def)
qed

lemma pairs_valid:
  "validate_execution_pair sample_session normal_result normal_environment = Inr ()"
  "validate_execution_pair sample_session absent_result absent_environment = Inr ()"
  by (simp_all add: validate_execution_pair_def results_valid environments_valid,
      simp_all add: normal_result_def absent_result_def sample_result_def normal_environment_def
        absent_environment_def sample_environment_def Let_def)

text \<open>The session of a running attempt differs in its state only, so the records stay valid.\<close>

lemma resuming_begin: "same_review_session_begin sample_session resuming_session"
  by (simp add: same_review_session_begin_def resuming_session_def)

lemmas resuming_reads = same_begin_reads [OF resuming_begin sessions_valid(2,3)]
  same_begin_rows [OF resuming_begin sessions_valid(2,3)] same_begin_results [OF resuming_begin sessions_valid(2,3)]

section \<open>The rows hold the records\<close>

definition new_stored :: stored_session where
  "new_stored = StoredReviewSession (of_ascii ''begin'') new_session None"

definition ready_stored :: stored_session where
  "ready_stored = StoredReviewSession (of_ascii ''begin'') sample_session None"

definition resuming_stored :: stored_session where
  "resuming_stored = StoredReviewSession (of_ascii ''begin'') resuming_session None"

definition fact_stored :: "review_attempt \<Rightarrow> stored_attempt" where
  "fact_stored = StoredReviewVerificationAttempt (of_ascii ''verify'')"

definition environment_stored :: "review_environment \<Rightarrow> stored_environment" where
  "environment_stored = StoredReviewEnvironmentRecord zero_digest"

lemma verify_named: "of_ascii ''verify'' \<noteq> []" "of_ascii ''begin'' \<noteq> []"
  by (simp_all add: of_ascii_def)

lemma sessions_differ:
  "new_session \<noteq> sample_session" "new_session \<noteq> resuming_session" "sample_session \<noteq> resuming_session"
  using arg_cong [of new_session sample_session rs_updated_at] arg_cong [of new_session resuming_session rs_updated_at]
    arg_cong [of sample_session resuming_session rs_updated_at]
  by (auto simp: new_session_def resuming_session_def sample_session_def)

lemma attempts_differ: "running_attempt \<noteq> sample_attempt"
  using arg_cong [of running_attempt sample_attempt at_record_id]
  by (auto simp: running_attempt_def sample_attempt_def)

lemma results_differ: "normal_result \<noteq> absent_result"
  using arg_cong [of normal_result absent_result cr_variant]
  by (auto simp: normal_result_def absent_result_def sample_result_def)

lemma session_texts:
  "canonical_json sample_io (io_session_json sample_io new_session) = Inr [34, 34]"
  "canonical_json sample_io (io_session_json sample_io sample_session) = Inr [34, 97, 34]"
  "canonical_json sample_io (io_session_json sample_io resuming_session) = Inr [34, 97, 97, 34]"
proof -
  have "io_session_json sample_io = position_json [new_session, sample_session, resuming_session]"
    by (simp add: sample_io_def)
  then show "canonical_json sample_io (io_session_json sample_io new_session) = Inr [34, 34]"
      "canonical_json sample_io (io_session_json sample_io sample_session) = Inr [34, 97, 34]"
      "canonical_json sample_io (io_session_json sample_io resuming_session) = Inr [34, 97, 97, 34]"
    using sessions_differ
    by (simp_all add: position_json_def canonical_json_def ok_or_def sample_fields quoted_def numeral_2_eq_2)
qed

lemma attempt_texts:
  "canonical_json sample_io (io_attempt_json sample_io running_attempt) = Inr [34, 34]"
  "canonical_json sample_io (io_attempt_json sample_io sample_attempt) = Inr [34, 97, 34]"
proof -
  have "io_attempt_json sample_io = position_json [running_attempt, sample_attempt]"
    by (simp add: sample_io_def)
  then show "canonical_json sample_io (io_attempt_json sample_io running_attempt) = Inr [34, 34]"
      "canonical_json sample_io (io_attempt_json sample_io sample_attempt) = Inr [34, 97, 34]"
    using attempts_differ
    by (simp_all add: position_json_def canonical_json_def ok_or_def sample_fields quoted_def numeral_2_eq_2)
qed

lemma result_texts:
  "canonical_json sample_io (io_result_json sample_io normal_result) = Inr [34, 34]"
  "canonical_json sample_io (io_result_json sample_io absent_result) = Inr [34, 97, 34]"
proof -
  have "io_result_json sample_io = position_json [normal_result, absent_result]"
    by (simp add: sample_io_def)
  then show "canonical_json sample_io (io_result_json sample_io normal_result) = Inr [34, 34]"
      "canonical_json sample_io (io_result_json sample_io absent_result) = Inr [34, 97, 34]"
    using results_differ by (simp_all add: position_json_def canonical_json_def ok_or_def sample_fields quoted_def)
qed

lemma session_rows:
  "stored_session_row sample_io new_stored = Inr new_row"
  "stored_session_row sample_io ready_stored = Inr ready_row"
  "stored_session_row sample_io resuming_stored = Inr resuming_row"
  by (simp_all add: stored_session_row_def new_stored_def ready_stored_def resuming_stored_def session_row_of_def session_texts
        sample_digest,
      simp_all add: new_session_def resuming_session_def sample_session_def sample_plan_def sample_identity_def
        to_i64_def new_row_def ready_row_def resuming_row_def review_session_status_text_def review_recovery_state_text_def
        sha1_def sha2_def)

lemma attempt_rows:
  "stored_attempt_row sample_io (fact_stored running_attempt) = Inr running_row"
  "stored_attempt_row sample_io (fact_stored sample_attempt) = Inr passed_row"
  by (simp_all add: stored_attempt_row_def fact_stored_def attempt_row_of_def attempt_texts sample_digest,
      simp_all add: running_attempt_def sample_attempt_def sample_identity_def
        to_i64_def running_row_def passed_row_def review_attempt_status_text_def sha1_def)

lemma environments_differ: "normal_environment \<noteq> absent_environment"
  using arg_cong [of normal_environment absent_environment en_environment_id]
  by (auto simp: normal_environment_def absent_environment_def sample_environment_def)

lemma environment_texts:
  "canonical_json sample_io (io_environment_json sample_io normal_environment) = Inr [34, 34]"
  "canonical_json sample_io (io_environment_json sample_io absent_environment) = Inr [34, 97, 34]"
proof -
  have "io_environment_json sample_io = position_json [normal_environment, absent_environment]"
    by (simp add: sample_io_def)
  then show "canonical_json sample_io (io_environment_json sample_io normal_environment) = Inr [34, 34]"
      "canonical_json sample_io (io_environment_json sample_io absent_environment) = Inr [34, 97, 34]"
    using environments_differ
    by (simp_all add: position_json_def canonical_json_def ok_or_def sample_fields quoted_def)
qed

lemma environment_rows:
  "stored_environment_row sample_io (environment_stored normal_environment) = Inr normal_environment_row"
  "stored_environment_row sample_io (environment_stored absent_environment) = Inr absent_environment_row"
  by (simp_all add: stored_environment_row_def environment_stored_def environment_row_of_def environment_texts
        sample_digest,
      simp_all add: normal_environment_def absent_environment_def sample_environment_def to_i64_def
        normal_environment_row_def absent_environment_row_def review_execution_variant_text_def
        review_process_containment_text_def sha1_def)

lemma result_rows:
  "result_row_of sample_io normal_result = Inr normal_result_row"
  "result_row_of sample_io absent_result = Inr absent_result_row"
  by (simp_all add: result_row_of_def result_texts sample_digest,
      simp_all add: normal_result_def absent_result_def sample_result_def sample_artifact_def to_i64_def
        normal_result_row_def absent_result_row_def review_execution_variant_text_def
        review_check_outcome_text_def review_check_termination_text_def sha1_def)

lemma session_reads:
  "validate_stored_review_session sample_io sample_store new_row = Inr new_stored"
  "validate_stored_review_session sample_io sample_store ready_row = Inr ready_stored"
  "validate_stored_review_session sample_io sample_store resuming_row = Inr resuming_stored"
  by (rule session_table.read_back, rule session_rows,
      simp add: session_storable_def new_stored_def ready_stored_def resuming_stored_def stored_sessions_valid sample_codec
        verify_named validate_review_last_error_def)+

lemma attempt_reads:
  "validate_stored_review_attempt sample_io sample_session running_row = Inr (fact_stored running_attempt)"
  "validate_stored_review_attempt sample_io sample_session passed_row = Inr (fact_stored sample_attempt)"
  by (rule attempt_table.read_back, rule attempt_rows,
      simp add: attempt_storable_def fact_stored_def attempts_valid sample_codec verify_named)+

lemma path_digests:
  "validate_review_path_digest normal_environment zero_digest = Inr ()"
  "validate_review_path_digest absent_environment zero_digest = Inr ()"
  by code_simp+

lemma zero_digest_valid: "payload_digest_validate zero_digest = Inr ()"
  by code_simp

lemma environment_digests:
  "validate_review_environment_digest sample_io normal_environment = Inr ()"
  "validate_review_environment_digest sample_io absent_environment = Inr ()"
  by (simp_all add: validate_review_environment_digest_def normal_environment_def absent_environment_def
      sample_environment_def sample_json_digest)

lemma environment_reads:
  "validate_stored_review_environment sample_io sample_session normal_environment_row =
     Inr (environment_stored normal_environment)"
  "validate_stored_review_environment sample_io sample_session absent_environment_row =
     Inr (environment_stored absent_environment)"
  by (rule environment_table.read_back, rule environment_rows,
      simp add: environment_storable_def environment_stored_def environments_valid sample_codec path_digests
        zero_digest_valid environment_digests)+

lemma result_reads:
  "validate_stored_review_check_result sample_io sample_session normal_result_row = Inr normal_result"
  "validate_stored_review_check_result sample_io sample_session absent_result_row = Inr absent_result"
  by (rule result_table.read_back, rule result_rows, simp add: result_storable_def results_valid sample_codec)+

section \<open>The operations succeed\<close>

lemmas tables_defs = passed_tables_def complete_tables_def checked_tables_def
  covered_tables_def captured_tables_def resuming_tables_def running_tables_def ready_tables_def begun_tables_def empty_tables_def

lemma row_columns:
  "sr_session_id new_row = ''s''" "sr_session_id ready_row = ''s''" "sr_session_id resuming_row = ''s''"
  "sr_begin_operation_id new_row = of_ascii ''begin''"
  "ar_session_id running_row = ''s''" "ar_session_id passed_row = ''s''"
  "ar_attempt_sequence running_row = 1" "ar_attempt_sequence passed_row = 1"
  "ar_record_id running_row = ''r1''" "ar_record_id passed_row = ''r2''"
  "ar_verify_operation_id running_row = of_ascii ''verify''" "ar_verify_operation_id passed_row = of_ascii ''verify''"
  "ar_recorded_at_ms running_row = 10" "ar_recorded_at_ms passed_row = 21"
  "ar_status running_row = ''running''" "ar_status passed_row = ''passed''"
  "er_environment_id normal_environment_row = ''e1''" "er_environment_id absent_environment_row = ''e2''"
  "rr_session_id normal_result_row = ''s''" "rr_session_id absent_result_row = ''s''"
  "rr_attempt_sequence normal_result_row = 1" "rr_attempt_sequence absent_result_row = 1"
  "rr_variant normal_result_row = ''normal''" "rr_variant absent_result_row = ''required_absent''"
  "rr_check_id normal_result_row = ''unit''" "rr_check_id absent_result_row = ''unit''"
  by (simp_all add: new_row_def ready_row_def resuming_row_def running_row_def passed_row_def
      normal_environment_row_def absent_environment_row_def normal_result_row_def absent_result_row_def)

lemma record_fields:
  "rs_session_id sample_session = ''s''" "rs_session_id resuming_session = ''s''"
  "at_session_id running_attempt = ''s''" "at_session_id sample_attempt = ''s''"
  "at_attempt_sequence running_attempt = 1" "at_attempt_sequence sample_attempt = 1"
  "at_status running_attempt = AttemptRunning" "at_status sample_attempt = AttemptPassed"
  "at_record_id running_attempt = ''r1''" "at_record_id sample_attempt = ''r2''"
  "at_started_at running_attempt = 10"
  "en_session_id normal_environment = ''s''" "en_session_id absent_environment = ''s''"
  "en_attempt_sequence normal_environment = 1" "en_attempt_sequence absent_environment = 1"
  "en_environment_id normal_environment = ''e1''" "en_environment_id absent_environment = ''e2''"
  "en_recorded_at normal_environment = 11" "en_recorded_at absent_environment = 11"
  "cr_session_id normal_result = ''s''" "cr_session_id absent_result = ''s''"
  "cr_attempt_sequence normal_result = 1" "cr_attempt_sequence absent_result = 1"
  "cr_environment_id normal_result = ''e1''" "cr_environment_id absent_result = ''e2''"
  "cr_started_at normal_result = 12" "cr_started_at absent_result = 12"
  by (simp_all add: resuming_session_def sample_session_def running_attempt_def sample_attempt_def
      normal_environment_def absent_environment_def sample_environment_def normal_result_def absent_result_def
      sample_result_def)

lemma stored_parts:
  "so_session ready_stored = sample_session" "so_session new_stored = new_session"
  "so_session resuming_stored = resuming_session"
  "so_attempt (fact_stored a) = a" "so_verify_operation_id (fact_stored a) = of_ascii ''verify''"
  "so_environment (environment_stored e) = e" "so_path_digest (environment_stored e) = zero_digest"
  by (simp_all add: ready_stored_def new_stored_def resuming_stored_def fact_stored_def environment_stored_def)

lemma session_required:
  "db_sessions db = [new_row] \<Longrightarrow> require_session sample_io sample_store db ''s'' = Inr new_stored"
  "db_sessions db = [ready_row] \<Longrightarrow> require_session sample_io sample_store db ''s'' = Inr ready_stored"
  "db_sessions db = [resuming_row] \<Longrightarrow> require_session sample_io sample_store db ''s'' = Inr resuming_stored"
  by (simp_all add: require_session_Inr row_columns session_reads)

lemma attempts_queried:
  "db_attempts db = [] \<Longrightarrow> review_attempts_for_sequence sample_io db ''s'' 1 sample_session = Inr []"
  "db_attempts db = [running_row] \<Longrightarrow>
     review_attempts_for_sequence sample_io db ''s'' 1 resuming_session = Inr [fact_stored running_attempt]"
  by (simp_all add: review_attempts_for_sequence_def query_review_attempts_def to_i64_def row_columns attempt_reads
      resuming_reads)

lemma operations_queried:
  "db_attempts db = [] \<Longrightarrow> review_attempts_for_operation sample_io db (of_ascii ''verify'') sample_session = Inr []"
  "db_attempts db = [running_row] \<Longrightarrow>
     review_attempts_for_operation sample_io db (of_ascii ''verify'') resuming_session = Inr [fact_stored running_attempt]"
  by (simp_all add: review_attempts_for_operation_def query_review_attempts_def row_columns attempt_reads
      resuming_reads)

lemma running_found:
  "db_attempts db = [running_row] \<Longrightarrow>
     ensure_running_review_attempt sample_io db resuming_session 1 = Inr running_attempt"
  by (simp add: ensure_running_review_attempt_def record_fields attempts_queried stored_parts ok_or_def)

lemma environment_found:
  "db_environments db = normal_environment_row # rows \<Longrightarrow>
     require_environment sample_io db ''e1'' resuming_session = Inr (environment_stored normal_environment)"
  "db_environments db = [normal_environment_row, absent_environment_row] \<Longrightarrow>
     require_environment sample_io db ''e2'' resuming_session = Inr (environment_stored absent_environment)"
  by (simp_all add: require_environment_def review_environment_for_id_def query_review_environments_def pop_last_def
      row_columns environment_reads ok_or_def resuming_reads)

lemma result_read:
  "db_environments db = [normal_environment_row, absent_environment_row] \<Longrightarrow>
     read_review_check_result sample_io db resuming_session normal_result_row = Inr normal_result"
  "db_environments db = [normal_environment_row, absent_environment_row] \<Longrightarrow>
     read_review_check_result sample_io db resuming_session absent_result_row = Inr absent_result"
  by (simp_all only: read_review_check_result_def resuming_reads(1-7) result_reads)
    (simp_all add: record_fields environment_found stored_parts pairs_valid)

lemma leads_by:
  assumes "\<exists>v db1. operation = Inr (v, db1) \<and> same_tables db' db1"
    and "\<And>v db1. operation = Inr (v, db1) \<Longrightarrow> review_step sample_io sample_store db db1"
  shows "later_tables sample_io sample_store db db'"
proof -
  from assms(1) obtain v db1 where "operation = Inr (v, db1)" "same_tables db1 db'"
    by (auto simp: same_tables_def)
  with assms(2) show ?thesis
    unfolding later_tables_def by (blast intro: rtranclp.intros review_step.elsewhere)
qed

lemma tables_fields:
  "db_sessions begun_tables = [new_row]"
  "db_sessions ready_tables = [ready_row]"
  "db_sessions running_tables = [ready_row]"
  "db_sessions resuming_tables = [resuming_row]"
  "db_sessions captured_tables = [resuming_row]"
  "db_sessions covered_tables = [resuming_row]"
  "db_sessions checked_tables = [resuming_row]"
  "db_sessions complete_tables = [resuming_row]"
  "db_attempts begun_tables = []"
  "db_attempts ready_tables = []"
  "db_attempts running_tables = [running_row]"
  "db_attempts resuming_tables = [running_row]"
  "db_attempts captured_tables = [running_row]"
  "db_attempts covered_tables = [running_row]"
  "db_attempts checked_tables = [running_row]"
  "db_attempts complete_tables = [running_row]"
  "db_environments begun_tables = []"
  "db_environments ready_tables = []"
  "db_environments running_tables = []"
  "db_environments resuming_tables = []"
  "db_environments captured_tables = [normal_environment_row]"
  "db_environments covered_tables = [normal_environment_row, absent_environment_row]"
  "db_environments checked_tables = [normal_environment_row, absent_environment_row]"
  "db_environments complete_tables = [normal_environment_row, absent_environment_row]"
  "db_results begun_tables = []"
  "db_results ready_tables = []"
  "db_results running_tables = []"
  "db_results resuming_tables = []"
  "db_results captured_tables = []"
  "db_results covered_tables = []"
  "db_results checked_tables = [normal_result_row]"
  "db_results complete_tables = [normal_result_row, absent_result_row]"
  by (simp_all add: tables_defs)

lemma tables_updates:
  "begun_tables\<lparr>db_sessions := [ready_row]\<rparr> = ready_tables"
  "ready_tables\<lparr>db_attempts := [running_row]\<rparr> = running_tables"
  "running_tables\<lparr>db_sessions := [resuming_row]\<rparr> = resuming_tables"
  "resuming_tables\<lparr>db_environments := [normal_environment_row]\<rparr> = captured_tables"
  "captured_tables\<lparr>db_environments := [normal_environment_row, absent_environment_row]\<rparr> = covered_tables"
  "covered_tables\<lparr>db_results := [normal_result_row]\<rparr> = checked_tables"
  "checked_tables\<lparr>db_results := [normal_result_row, absent_result_row]\<rparr> = complete_tables"
  "complete_tables\<lparr>db_attempts := [running_row, passed_row]\<rparr> = passed_tables"
  by (simp_all add: tables_defs)

lemma workspace_field: "st_workspace_id sample_store = ''ws''"
  by (simp add: sample_store_def)

lemma begin_succeeds:
  "\<exists>v db. begin_review_session sample_io sample_store (of_ascii ''begin'') 1 new_session empty_tables = Inr (v, db) \<and>
     same_tables begun_tables db"
proof -
  have row: "session_row_of sample_io (of_ascii ''begin'') None new_session = Inr new_row"
    using session_rows(1) by (simp add: stored_session_row_def new_stored_def)
  have state: "session_state_new SessionPreparing NotRequired = Inr (rs_state new_session)"
    by code_simp
  have checked: "session_row_checks new_row"
    by (simp add: session_row_checks_def new_row_def of_ascii_def)
  have fields: "rs_created_at new_session = 1" "rs_updated_at new_session = 1"
    by (simp_all add: new_session_def sample_session_def)
  have "\<exists>db. append_review_control_event sample_io ''ws'' ''review.session.preparing''
      (review_session_event_detail new_session (of_ascii ''begin'')) 1 begun_tables = Inr db \<and> same_tables begun_tables db"
    unfolding review_session_event_detail_def
    by (rule sample_event) (simp_all add: tables_defs new_session_def sample_session_def)
  with row state checked fields show ?thesis
    by (auto simp: begin_review_session_def stored_sessions_valid verify_named session_texts
        resolve_existing_review_begin_def review_session_for_operation_def review_session_for_candidate_on_def
        optional_session_def verify_review_begin_revision_def tables_defs workspace_field)
qed

lemma ready_succeeds:
  "\<exists>v db. transition_review_session sample_io sample_store ''s'' (ReviewSessionState SessionPreparing NotRequired)
      (ReviewSessionState SessionReady NotRequired) None 2 begun_tables = Inr (v, db) \<and> same_tables ready_tables db"
proof -
  let ?prep = "ReviewSessionState SessionPreparing NotRequired" and ?ready = "ReviewSessionState SessionReady NotRequired"
  have states: "session_state_validate ?prep = Inr ()" "session_state_validate ?ready = Inr ()"
      "session_allows_transition_to ?prep ?ready" "session_row_expected ''s'' ?prep 1 new_row"
    by (simp_all add: session_state_validate_def session_allows_transition_to_def session_row_expected_def new_row_def
        review_session_status_text_def review_recovery_state_text_def)
  have checked: "session_row_checks ready_row"
    by (simp add: session_row_checks_def ready_row_def new_row_def of_ascii_def)
  have updated: "new_session\<lparr>rs_state := ?ready, rs_updated_at := 2\<rparr> = sample_session"
    by (simp add: new_session_def sample_session_def)
  have fields: "rs_state new_session = ?prep" "rs_updated_at new_session = 1"
    by (simp_all add: new_session_def sample_session_def)
  have rewritten: "new_row\<lparr>sr_status := review_session_status_text (ss_status ?ready),
      sr_recovery := review_recovery_state_text (ss_recovery ?ready), sr_last_error := None,
      sr_record_sha256 := zero_digest, sr_record_json := [34, 97, 34], sr_updated_at_ms := 2\<rparr> = ready_row"
    by (simp add: new_row_def ready_row_def review_session_status_text_def review_recovery_state_text_def)
  have "\<exists>db. append_review_control_event sample_io ''ws'' (review_session_event_operation ?ready)
      (review_session_transition_event_detail sample_session False) 2 ready_tables = Inr db \<and> same_tables ready_tables db"
    unfolding review_session_transition_event_detail_def
    by (rule sample_event) (simp_all add: tables_defs sample_session_def)
  with states checked updated fields rewritten show ?thesis
    by (auto simp: transition_review_session_def session_required(1) stored_parts stored_sessions_valid session_texts
        sample_digest validate_review_last_error_def tables_fields tables_updates workspace_field to_i64_def Let_def
        simp del: review_session_state.sel)
qed

lemma ready_state: "session_state_new SessionReady NotRequired = Inr (rs_state sample_session)"
    "ss_status (rs_state sample_session) = SessionReady"
  by code_simp+

lemma resuming_state: "ss_status (rs_state resuming_session) = SessionReady"
  by (simp add: resuming_session_def)

lemma attempt_row_checked:
  "attempt_row_checks running_row" "attempt_row_checks passed_row"
  by (simp_all add: attempt_row_checks_def running_row_def passed_row_def)

lemma attempt_row_written: "attempt_row_of sample_io (of_ascii ''verify'') a = stored_attempt_row sample_io (fact_stored a)"
  by (simp add: stored_attempt_row_def fact_stored_def)

lemma running_succeeds:
  "\<exists>v db. append_review_verification_attempt sample_io sample_store (of_ascii ''verify'') running_attempt ready_tables =
      Inr (v, db) \<and> same_tables running_tables db"
proof -
  have "\<exists>db. append_review_control_event sample_io ''ws'' (review_attempt_event_operation AttemptRunning)
      (review_attempt_event_detail running_attempt (of_ascii ''verify'')) (at_recorded_at running_attempt) running_tables = Inr db \<and> same_tables running_tables db"
    unfolding review_attempt_event_detail_def
    by (rule sample_event) (simp_all add: tables_defs running_attempt_def sample_attempt_def)
  then show ?thesis
    by (auto simp: append_review_verification_attempt_def verify_named record_fields session_required tables_fields
        stored_parts attempts_valid review_attempt_for_record_id_def query_review_attempts_def pop_last_def
        validate_new_review_attempt_def ready_state operations_queried attempts_queried
        validate_terminal_review_results_def attempt_row_written attempt_rows attempt_row_checked
        tables_updates workspace_field Let_def)
qed

lemma resuming_succeeds:
  "\<exists>v db. transition_review_session sample_io sample_store ''s'' (ReviewSessionState SessionReady NotRequired)
      (ReviewSessionState SessionReady ResumeRequired) None 10 running_tables = Inr (v, db) \<and>
     same_tables resuming_tables db"
proof -
  let ?ready = "ReviewSessionState SessionReady NotRequired" and ?resume = "ReviewSessionState SessionReady ResumeRequired"
  have states: "session_state_validate ?ready = Inr ()" "session_state_validate ?resume = Inr ()"
      "session_allows_transition_to ?ready ?resume" "session_row_expected ''s'' ?ready 2 ready_row"
    by (simp_all add: session_state_validate_def session_allows_transition_to_def session_row_expected_def ready_row_def
        new_row_def review_session_status_text_def review_recovery_state_text_def)
  have checked: "session_row_checks resuming_row"
    by (simp add: session_row_checks_def resuming_row_def new_row_def of_ascii_def)
  have updated: "sample_session\<lparr>rs_state := ?resume, rs_updated_at := 10\<rparr> = resuming_session"
    by (simp add: resuming_session_def)
  have fields: "rs_state sample_session = ?ready" "rs_updated_at sample_session = 2"
    by (simp_all add: sample_session_def)
  have rewritten: "ready_row\<lparr>sr_status := review_session_status_text (ss_status ?resume),
      sr_recovery := review_recovery_state_text (ss_recovery ?resume), sr_last_error := None,
      sr_record_sha256 := zero_digest, sr_record_json := [34, 97, 97, 34], sr_updated_at_ms := 10\<rparr> = resuming_row"
    by (simp add: new_row_def ready_row_def resuming_row_def review_session_status_text_def review_recovery_state_text_def)
  have "\<exists>db. append_review_control_event sample_io ''ws'' (review_session_event_operation ?resume)
      (review_session_transition_event_detail resuming_session False) 10 resuming_tables = Inr db \<and>
      same_tables resuming_tables db"
    unfolding review_session_transition_event_detail_def
    by (rule sample_event) (simp_all add: tables_defs resuming_session_def sample_session_def)
  with states checked updated fields rewritten show ?thesis
    by (auto simp: transition_review_session_def session_required stored_parts stored_sessions_valid session_texts
        sample_digest validate_review_last_error_def tables_fields tables_updates workspace_field to_i64_def Let_def
        simp del: review_session_state.sel)
qed

lemma captured_succeeds:
  "\<exists>v db. append_review_environment_record sample_io sample_store zero_digest normal_environment resuming_tables =
      Inr (v, db) \<and> same_tables captured_tables db"
proof -
  have row: "environment_row_of sample_io zero_digest normal_environment = Inr normal_environment_row"
      "environment_row_checks normal_environment_row"
    using environment_rows(1)
    by (simp_all add: stored_environment_row_def environment_stored_def environment_row_checks_def normal_environment_row_def)
  have "\<exists>db. append_review_control_event sample_io ''ws'' ''review.environment.recorded''
      (review_environment_event_detail normal_environment zero_digest) 11 captured_tables = Inr db \<and> same_tables captured_tables db"
    unfolding review_environment_event_detail_def
    by (rule sample_event) (simp_all add: tables_defs normal_environment_def sample_environment_def)
  with row show ?thesis
    by (auto simp: append_review_environment_record_def zero_digest_valid path_digests record_fields
        session_required tables_fields stored_parts environments_valid resuming_reads environment_digests running_found
        review_environment_for_id_def query_review_environments_def pop_last_def tables_updates workspace_field Let_def)
qed

lemma covered_succeeds:
  "\<exists>v db. append_review_environment_record sample_io sample_store zero_digest absent_environment captured_tables =
      Inr (v, db) \<and> same_tables covered_tables db"
proof -
  have row: "environment_row_of sample_io zero_digest absent_environment = Inr absent_environment_row"
      "environment_row_checks absent_environment_row" "\<not> environment_keys_clash absent_environment_row normal_environment_row"
    using environment_rows(2)
    by (simp_all add: stored_environment_row_def environment_stored_def environment_row_checks_def
        environment_keys_clash_def normal_environment_row_def absent_environment_row_def)
  have "\<exists>db. append_review_control_event sample_io ''ws'' ''review.environment.recorded''
      (review_environment_event_detail absent_environment zero_digest) 11 covered_tables = Inr db \<and> same_tables covered_tables db"
    unfolding review_environment_event_detail_def
    by (rule sample_event) (simp_all add: tables_defs absent_environment_def normal_environment_def sample_environment_def)
  with row show ?thesis
    by (auto simp: append_review_environment_record_def zero_digest_valid path_digests record_fields row_columns
        session_required tables_fields stored_parts environments_valid resuming_reads environment_digests running_found
        review_environment_for_id_def query_review_environments_def pop_last_def tables_updates workspace_field Let_def)
qed

lemma result_row_checked: "result_row_checks normal_result_row" "result_row_checks absent_result_row"
    "\<not> result_keys_clash absent_result_row normal_result_row"
  by (simp_all add: result_row_checks_def result_keys_clash_def normal_result_row_def absent_result_row_def)

lemma checked_succeeds:
  "\<exists>v db. append_review_check_result sample_io sample_store normal_result covered_tables = Inr (v, db) \<and>
     same_tables checked_tables db"
proof -
  have "\<exists>db. append_review_control_event sample_io ''ws'' ''review.check.recorded''
      (review_check_result_event_detail normal_result) (cr_finished_at normal_result) checked_tables = Inr db \<and> same_tables checked_tables db"
    unfolding review_check_result_event_detail_def
    by (rule sample_event) (simp_all add: tables_defs normal_result_def sample_result_def)
  then show ?thesis
    by (auto simp: append_review_check_result_def record_fields session_required tables_fields stored_parts
        results_valid resuming_reads running_found environment_found pairs_valid result_rows result_row_checked
        tables_updates workspace_field Let_def)
qed

lemma complete_succeeds:
  "\<exists>v db. append_review_check_result sample_io sample_store absent_result checked_tables = Inr (v, db) \<and>
     same_tables complete_tables db"
proof -
  have "\<exists>db. append_review_control_event sample_io ''ws'' ''review.check.recorded''
      (review_check_result_event_detail absent_result) (cr_finished_at absent_result) complete_tables = Inr db \<and> same_tables complete_tables db"
    unfolding review_check_result_event_detail_def
    by (rule sample_event) (simp_all add: tables_defs absent_result_def sample_result_def)
  then show ?thesis
    by (auto simp: append_review_check_result_def record_fields session_required tables_fields stored_parts
        results_valid resuming_reads running_found environment_found pairs_valid result_rows result_row_checked
        tables_updates workspace_field Let_def)
qed

lemma sample_executions:
  "expected_executions sample_session = {(''unit'', NormalVariant), (''unit'', RequiredAbsentVariant)}"
  by (simp add: expected_executions_def executions_of_check_def sample_session_def sample_plan_def sample_check_def)

lemma result_fields:
  "cr_check_id normal_result = ''unit''" "cr_check_id absent_result = ''unit''"
  "cr_variant normal_result = NormalVariant" "cr_variant absent_result = RequiredAbsentVariant"
  "cr_outcome normal_result = CheckPassed" "cr_outcome absent_result = CheckPassed"
  "cr_finished_at normal_result = 15" "cr_finished_at absent_result = 15"
  "at_finished_at sample_attempt = Some 20"
  "at_started_at sample_attempt = 10"
  by (simp_all add: normal_result_def absent_result_def sample_result_def sample_attempt_def)

lemma terminal_valid:
  "validate_attempt_results sample_session sample_attempt [normal_result, absent_result] = Inr ()"
  by (simp_all add: validate_attempt_results_def attempts_valid record_fields result_fields results_valid
      sample_executions ok_or_def doubleton_eq_iff)

lemma result_count: "length (pl_checks (rs_plan resuming_session)) = 1"
  by (simp add: resuming_session_def sample_session_def sample_plan_def)

lemma variant_order: "(''normal'', ''unit'') \<le> (''required_absent'', ''unit'')"
  by code_simp

lemma results_queried:
  "db_environments db = [normal_environment_row, absent_environment_row] \<Longrightarrow>
   db_results db = [normal_result_row, absent_result_row] \<Longrightarrow>
     results_of_attempt sample_io db resuming_session ''s'' 1 3 = Inr [normal_result, absent_result]"
  using variant_order
  by (simp add: results_of_attempt_def query_review_check_results_def row_columns result_read)

lemma terminal_checked:
  "validate_terminal_review_results sample_io complete_tables resuming_session sample_attempt = Inr ()"
  by (simp add: validate_terminal_review_results_def record_fields result_count u32_of_count_def to_i64_def
      results_queried tables_fields terminal_valid resuming_reads)

lemma terminal_identity: "same_review_attempt_identity running_attempt sample_attempt"
  by (simp add: same_review_attempt_identity_def running_attempt_def)

lemma passed_succeeds:
  "\<exists>v db. append_review_verification_attempt sample_io sample_store (of_ascii ''verify'') sample_attempt complete_tables =
      Inr (v, db) \<and> same_tables passed_tables db"
proof -
  have "\<exists>db. append_review_control_event sample_io ''ws'' (review_attempt_event_operation AttemptPassed)
      (review_attempt_event_detail sample_attempt (of_ascii ''verify'')) (at_recorded_at sample_attempt) passed_tables = Inr db \<and> same_tables passed_tables db"
    unfolding review_attempt_event_detail_def
    by (rule sample_event) (simp_all add: tables_defs sample_attempt_def)
  then show ?thesis
    by (auto simp: append_review_verification_attempt_def verify_named record_fields row_columns session_required
        tables_fields stored_parts attempts_valid review_attempt_for_record_id_def query_review_attempts_def
        pop_last_def validate_new_review_attempt_def ready_state resuming_state operations_queried attempts_queried
        resuming_reads terminal_checked terminal_identity attempt_allows_transition_to_def attempt_keys_clash_def
        attempt_row_written attempt_rows attempt_row_checked tables_updates workspace_field Let_def)
qed

lemma later_trans [trans]: "later_tables x st db1 db2 \<Longrightarrow> later_tables x st db2 db3 \<Longrightarrow> later_tables x st db1 db3"
  unfolding later_tables_def by (rule rtranclp_trans)

lemma sample_runs:
  "later_tables sample_io sample_store empty_tables covered_tables"
  "later_tables sample_io sample_store covered_tables checked_tables"
  "later_tables sample_io sample_store checked_tables complete_tables"
  "later_tables sample_io sample_store complete_tables passed_tables"
proof -
  note begin_succeeds [THEN leads_by, OF review_step.begins]
  also note ready_succeeds [THEN leads_by, OF review_step.transitions]
  also note running_succeeds [THEN leads_by, OF review_step.attempts]
  also note resuming_succeeds [THEN leads_by, OF review_step.transitions]
  also note captured_succeeds [THEN leads_by, OF review_step.environments]
  also note covered_succeeds [THEN leads_by, OF review_step.environments]
  finally show "later_tables sample_io sample_store empty_tables covered_tables" .
  show "later_tables sample_io sample_store covered_tables checked_tables"
    by (rule checked_succeeds [THEN leads_by, OF review_step.results])
  show "later_tables sample_io sample_store checked_tables complete_tables"
    by (rule complete_succeeds [THEN leads_by, OF review_step.results])
  show "later_tables sample_io sample_store complete_tables passed_tables"
    by (rule passed_succeeds [THEN leads_by, OF review_step.attempts])
qed

lemma sample_reachable:
  "reachable_tables sample_io sample_store covered_tables"
  "reachable_tables sample_io sample_store complete_tables"
  "reachable_tables sample_io sample_store passed_tables"
proof -
  have start: "no_reviews empty_tables"
    by (simp add: no_reviews_def empty_tables_def)
  note complete = sample_runs(1) [THEN later_trans, OF sample_runs(2), THEN later_trans, OF sample_runs(3)]
  show "reachable_tables sample_io sample_store covered_tables"
    using start sample_runs(1) by (auto simp: reachable_tables_def)
  show "reachable_tables sample_io sample_store complete_tables"
    using start complete by (auto simp: reachable_tables_def)
  show "reachable_tables sample_io sample_store passed_tables"
    using start later_trans [OF complete sample_runs(4)] by (auto simp: reachable_tables_def)
qed

end
