(* ===== verification/Review_Control.thy ===== *)
theory Review_Control
  imports Review_Steps
begin

text \<open>
  The review operations of the controller, \<^verbatim>\<open>review_begin\<close>, \<^verbatim>\<open>review_verify\<close> and \<^verbatim>\<open>review_show\<close> of
  \<^verbatim>\<open>crates/agsv-control/src/engine.rs\<close>, as the closures that \<^verbatim>\<open>idempotent\<close> runs. An operation makes
  several transactions: an action takes the tables and returns its result together with the tables
  its committed transactions left, on errors too.
\<close>

section \<open>Actions\<close>

type_synonym 'a action = "review_db \<Rightarrow> (control_error + 'a) \<times> review_db"

definition act_return :: "'a \<Rightarrow> 'a action" where
  "act_return v db = (Inr v, db)"

definition act_fail :: "control_error \<Rightarrow> 'a action" where
  "act_fail e db = (Inl e, db)"

definition act_bind :: "'a action \<Rightarrow> ('a \<Rightarrow> 'b action) \<Rightarrow> 'b action" where
  "act_bind m k db = (case m db of (Inl e, db') \<Rightarrow> (Inl e, db') | (Inr v, db') \<Rightarrow> k v db')"

text \<open>A computation without transaction, a query, and one committed or rolled back transaction.\<close>

definition act_pure :: "control_error + 'a \<Rightarrow> 'a action" where
  "act_pure r db = (r, db)"

definition act_query :: "(review_db \<Rightarrow> control_error + 'a) \<Rightarrow> 'a action" where
  "act_query q db = (q db, db)"

definition act_transaction :: "(review_db \<Rightarrow> control_error + 'a \<times> review_db) \<Rightarrow> 'a action" where
  "act_transaction f db = (case f db of Inl e \<Rightarrow> (Inl e, db) | Inr (v, db') \<Rightarrow> (Inr v, db'))"

definition act_guard :: "bool \<Rightarrow> control_error \<Rightarrow> unit action" where
  "act_guard b e = (if b then act_return () else act_fail e)"

section \<open>The host\<close>

text \<open>
  What the operations take from \<^verbatim>\<open>ReviewManager\<close> (Git, the file system, sandboxed processes), from
  the domain store and from the clock. A field that is consulted more than once in a call is indexed
  by the place of the call. \<open>rh_crash\<close> is \<^verbatim>\<open>debug_crash_requested\<close>, which is false in release builds.
\<close>

datatype clock_reading =
    BegunAt | InvalidatedAt | PreparingAt | PrepareFailedAt | ReadyAt
  | StartedAt | RecoveringAt | FinishedAt | RecoveredAt

datatype checkout_check = BeforePreparing | BeforeReturning | BeforeVerifying

datatype review_evidence =
  ReviewExecutionEvidence
    (ev_path_digest: payload_digest) (ev_environment: review_environment) (ev_result: review_check_result)

record review_host =
  rh_now :: "clock_reading \<Rightarrow> control_error + timestamp_millis"
  rh_crash :: "string \<Rightarrow> bool"
  rh_load :: "control_error + u64 \<times> supervisor"
  rh_resolve_tree :: "git_sha \<Rightarrow> control_error + review_tree_identity"
  rh_plan :: "policy_revision \<Rightarrow> control_error + review_plan"
  rh_checkout_path :: "review_session_id \<Rightarrow> utext option"
  rh_prepare_checkout :: "review_session \<Rightarrow> control_error + unit"
  rh_verify_checkout :: "checkout_check \<Rightarrow> review_session \<Rightarrow> control_error + unit"
  rh_execute_check :: "review_session \<Rightarrow> u64 \<Rightarrow> review_check \<Rightarrow> review_execution_variant \<Rightarrow> bool \<Rightarrow>
    control_error + review_evidence"
  rh_sandbox_name :: string
  rh_sandbox_enforced :: bool
  rh_process_containment :: review_process_containment

definition protocol_error :: "validation_error \<Rightarrow> control_error" where
  "protocol_error e =
     control_error_new ''protocol_error''
       (of_ascii (''protocol value was rejected: '' @ validation_error_display e))"

definition invalid_request :: "string \<Rightarrow> control_error" where
  "invalid_request message = control_error_new ''invalid_request'' (of_ascii message)"

definition request_status_text :: "request_status \<Rightarrow> string" where
  "request_status_text status =
     (case status of
        Open \<Rightarrow> ''open'' | Assigned \<Rightarrow> ''assigned'' | InProgress \<Rightarrow> ''in_progress'' | Blocked \<Rightarrow> ''blocked''
      | CandidateReady \<Rightarrow> ''candidate_ready'' | ChangesRequested \<Rightarrow> ''changes_requested''
      | Accepted \<Rightarrow> ''accepted'' | IntegrationAuthorized \<Rightarrow> ''integration_authorized''
      | Cancelled \<Rightarrow> ''cancelled'' | Completed \<Rightarrow> ''completed'')"

definition crash_point :: "review_host \<Rightarrow> string \<Rightarrow> string \<Rightarrow> unit action" where
  "crash_point h point message =
     act_guard (\<not> rh_crash h point) (control_error_new ''injected_crash'' (of_ascii message))"

definition stable_id :: "review_io \<Rightarrow> string \<Rightarrow> utext \<Rightarrow> string" where
  "stable_id x stem value = stem @ ''-'' @ take 24 (sha256_hex x (utf8_bytes value))"

definition review_record_limit :: "review_session \<Rightarrow> control_error + u32" where
  "review_record_limit s =
     (let n = length (pl_checks (rs_plan s)) * 2 + 8 in
      if 2 ^ 64 \<le> n then
        Inl (control_error_new ''review_record_limit'' (of_ascii ''review record limit overflow''))
      else if n < 2 ^ 32 then Inr (of_nat n)
      else Inl (control_error_new ''review_record_limit'' (of_ascii ''review record limit exceeds u32'')))"

definition review_state :: "review_session_status \<Rightarrow> review_recovery_state \<Rightarrow> review_session_state action" where
  "review_state status recovery = act_pure (map_err protocol_error (session_state_new status recovery))"

definition move_session ::
  "review_host \<Rightarrow> review_io \<Rightarrow> state_store \<Rightarrow> review_session \<Rightarrow> review_session_status \<Rightarrow>
   review_recovery_state \<Rightarrow> utext option \<Rightarrow> clock_reading \<Rightarrow> stored_session action" where
  "move_session h x st s status recovery last_error reading =
     act_bind (review_state status recovery) (\<lambda>next_state.
     act_bind (act_pure (rh_now h reading)) (\<lambda>now.
     act_transaction (transition_review_session x st (rs_session_id s) (rs_state s) next_state last_error now)))"

section \<open>review.begin\<close>

definition candidate_not_ready :: "string \<Rightarrow> control_error" where
  "candidate_not_ready message = control_error_new ''candidate_not_ready'' (of_ascii message)"

definition new_review_session ::
  "review_host \<Rightarrow> review_io \<Rightarrow> state_store \<Rightarrow> policy_revision \<Rightarrow> request_id \<Rightarrow> git_sha \<Rightarrow>
   review_session action" where
  "new_review_session h x st policy request_id candidate_sha =
     act_bind (act_pure (rh_resolve_tree h candidate_sha)) (\<lambda>tree.
     act_bind (act_pure (rh_plan h policy)) (\<lambda>plan.
     act_bind (act_pure (map_err protocol_error
       (string_id_new ''review_session_id''
          (stable_id x ''review'' (of_ascii (request_id @ '':'' @ candidate_sha)))))) (\<lambda>session_id.
     act_bind (act_pure (ok_or (rh_checkout_path h session_id)
       (control_error_new ''unsafe_review_path'' (of_ascii ''review checkout path must be valid UTF-8'')))) (\<lambda>path.
     act_bind (act_pure (rh_now h BegunAt)) (\<lambda>created_at.
     act_bind (review_state SessionPreparing NotRequired) (\<lambda>state.
     act_return \<lparr>rs_session_id = session_id, rs_workspace_id = st_workspace_id st, rs_request_id = request_id,
       rs_tree = tree, rs_checkout_path = path, rs_plan = plan, rs_state = state,
       rs_created_at = created_at, rs_updated_at = created_at\<rparr>))))))"

definition reviewable_candidate ::
  "supervisor \<Rightarrow> request_id \<Rightarrow> git_sha \<Rightarrow> control_error + unit" where
  "reviewable_candidate aggregate request_id candidate_sha =
     ebind (ok_or (fmlookup (s_requests aggregate) request_id) (not_found ''request'' request_id)) (\<lambda>item.
     if q_status item \<noteq> CandidateReady then
       Inl (with_details
         (candidate_not_ready ''review sessions may begin only for a request awaiting review'')
         (json_object [(''request_id'', json_text request_id),
                       (''request_status'', json_text (request_status_text (q_status item)))]))
     else
     ebind (ok_or (q_candidate item)
              (candidate_not_ready ''request has no current candidate ready for review'')) (\<lambda>candidate.
     if c_sha candidate \<noteq> candidate_sha then
       Inl (with_details
         (control_error_new ''candidate_mismatch''
            (of_ascii ''review candidate SHA does not match the request's current candidate''))
         (json_object [(''request_id'', json_text request_id), (''candidate_sha'', json_text candidate_sha),
                       (''current_candidate_sha'', json_text (c_sha candidate))]))
     else Inr ()))"

text \<open>The checkout of a session: an invalid one is prepared again, a failed preparation is recorded.\<close>

definition recheck_ready ::
  "review_host \<Rightarrow> review_io \<Rightarrow> state_store \<Rightarrow> stored_session \<Rightarrow> stored_session action" where
  "recheck_ready h x st stored =
     (if ss_status (rs_state (so_session stored)) = SessionReady \<and>
         isl (rh_verify_checkout h BeforePreparing (so_session stored))
      then move_session h x st (so_session stored) SessionInvalid RecreateRequired
             (Some (of_ascii ''durable checkout identity no longer matches'')) InvalidatedAt
      else act_return stored)"

definition reopen_invalid ::
  "review_host \<Rightarrow> review_io \<Rightarrow> state_store \<Rightarrow> stored_session \<Rightarrow> stored_session action" where
  "reopen_invalid h x st stored =
     (if ss_status (rs_state (so_session stored)) = SessionInvalid
      then move_session h x st (so_session stored) SessionPreparing NotRequired None PreparingAt
      else act_return stored)"

definition prepare_session ::
  "review_host \<Rightarrow> review_io \<Rightarrow> state_store \<Rightarrow> stored_session \<Rightarrow> stored_session action" where
  "prepare_session h x st stored =
     (if ss_status (rs_state (so_session stored)) = SessionPreparing then
        (case rh_prepare_checkout h (so_session stored) of
           Inl e \<Rightarrow>
             act_bind (review_state SessionInvalid RecreateRequired) (\<lambda>invalid.
             act_bind (act_pure (rh_now h PrepareFailedAt)) (\<lambda>now.
             (\<lambda>db. (Inl e,
               snd (act_transaction (transition_review_session x st (rs_session_id (so_session stored))
                      (rs_state (so_session stored)) invalid
                      (Some (of_ascii (ce_code e @ '': '') @ ce_message e)) now) db))))
         )
         | Inr _ \<Rightarrow>
             act_bind (crash_point h ''review_checkout''
                ''injected crash after exact review checkout creation'') (\<lambda>_.
             move_session h x st (so_session stored) SessionReady NotRequired None ReadyAt))
      else act_return stored)"

definition review_begin ::
  "review_host \<Rightarrow> review_io \<Rightarrow> state_store \<Rightarrow> string \<Rightarrow> string \<Rightarrow> utext \<Rightarrow> review_session action" where
  "review_begin h x st request candidate operation_id =
     act_bind (act_pure (map_err protocol_error (string_id_new ''request_id'' request))) (\<lambda>request_id.
     act_bind (act_pure (map_err protocol_error (git_sha_new candidate))) (\<lambda>candidate_sha.
     act_bind (act_pure (rh_load h)) (\<lambda>(domain_revision, aggregate).
     act_bind (act_pure (reviewable_candidate aggregate request_id candidate_sha)) (\<lambda>_.
     act_bind (act_query (\<lambda>db. review_session_for_candidate_on x st db request_id candidate_sha)) (\<lambda>existing.
     act_bind (case existing of
         Some stored \<Rightarrow> act_return stored
       | None \<Rightarrow>
           act_bind (new_review_session h x st (s_policy_revision aggregate) request_id candidate_sha) (\<lambda>s.
           act_transaction (begin_review_session x st operation_id domain_revision s))) (\<lambda>stored.
     act_bind (recheck_ready h x st stored) (\<lambda>stored.
     act_bind (reopen_invalid h x st stored) (\<lambda>stored.
     act_bind (crash_point h ''review_begin_intent'' ''injected crash after durable review begin intent'') (\<lambda>_.
     act_bind (prepare_session h x st stored) (\<lambda>stored.
     act_bind (act_pure (rh_verify_checkout h BeforeReturning (so_session stored))) (\<lambda>_.
     act_return (so_session stored))))))))))))"

section \<open>The outcome of a verification\<close>

record verification_outcome =
  vo_session_id :: review_session_id
  vo_tree :: review_tree_identity
  vo_attempt :: review_attempt
  vo_check_results :: "review_check_result list"
  vo_sandbox_name :: string
  vo_sandbox_enforced :: bool
  vo_process_containment :: review_process_containment
  vo_interruption_reason :: "utext option"

definition attempt_check_results ::
  "review_io \<Rightarrow> state_store \<Rightarrow> review_session \<Rightarrow> u64 \<Rightarrow> review_check_result list action" where
  "attempt_check_results x st s attempt_sequence =
     act_bind (act_pure (review_record_limit s)) (\<lambda>limit.
     act_bind (act_query (\<lambda>db. review_check_results x st db (rs_session_id s) limit)) (\<lambda>results.
     act_return (filter (\<lambda>r. cr_attempt_sequence r = attempt_sequence) results)))"

definition review_verification_result ::
  "review_host \<Rightarrow> review_io \<Rightarrow> state_store \<Rightarrow> review_session \<Rightarrow> review_attempt \<Rightarrow>
   verification_outcome action" where
  "review_verification_result h x st s terminal =
     act_bind (attempt_check_results x st s (at_attempt_sequence terminal)) (\<lambda>results.
     act_bind (act_pure (map_err protocol_error (validate_attempt_results s terminal results))) (\<lambda>_.
     act_return \<lparr>vo_session_id = rs_session_id s, vo_tree = rs_tree s, vo_attempt = terminal,
       vo_check_results = results, vo_sandbox_name = rh_sandbox_name h,
       vo_sandbox_enforced = rh_sandbox_enforced h, vo_process_containment = rh_process_containment h,
       vo_interruption_reason = None\<rparr>))"

definition attempt_record_id ::
  "review_io \<Rightarrow> string \<Rightarrow> review_session_id \<Rightarrow> utext \<Rightarrow> review_attempt_record_id action" where
  "attempt_record_id x stem session_id operation_id =
     act_pure (map_err protocol_error (string_id_new ''review_attempt_record_id''
       (stable_id x stem (of_ascii (session_id @ '':'') @ operation_id))))"

definition record_terminal ::
  "review_host \<Rightarrow> review_io \<Rightarrow> state_store \<Rightarrow> utext \<Rightarrow> review_session \<Rightarrow> review_attempt \<Rightarrow>
   review_attempt_status \<Rightarrow> review_check_result list \<Rightarrow> review_attempt action" where
  "record_terminal h x st operation_id s running status results =
     act_bind (act_pure (rh_now h FinishedAt)) (\<lambda>finished_at.
     act_bind (attempt_record_id x ''review-attempt-terminal'' (rs_session_id s) operation_id) (\<lambda>record_id.
     let terminal = running\<lparr>at_record_id := record_id, at_status := status,
       at_finished_at := Some finished_at, at_recorded_at := finished_at\<rparr> in
     act_bind (act_pure (map_err protocol_error (validate_attempt_results s terminal results))) (\<lambda>_.
     act_bind (act_transaction (append_review_verification_attempt x st operation_id terminal)) (\<lambda>_.
     act_return terminal))))"

definition interrupt_review_attempt ::
  "review_host \<Rightarrow> review_io \<Rightarrow> state_store \<Rightarrow> utext \<Rightarrow> review_session \<Rightarrow> review_attempt \<Rightarrow>
   review_check_result list \<Rightarrow> utext \<Rightarrow> verification_outcome action" where
  "interrupt_review_attempt h x st operation_id s running results reason =
     act_bind (record_terminal h x st operation_id s running AttemptInterrupted results) (\<lambda>terminal.
     act_bind (move_session h x st s SessionReady NotRequired (Some reason) RecoveredAt) (\<lambda>_.
     act_bind (review_verification_result h x st s terminal) (\<lambda>outcome.
     act_return (outcome\<lparr>vo_interruption_reason := Some reason\<rparr>))))"

section \<open>review.verify\<close>

definition variants_of :: "review_check \<Rightarrow> review_execution_variant list" where
  "variants_of c =
     NormalVariant # (if ck_required_absent_binaries c \<noteq> {||} then [RequiredAbsentVariant] else [])"

definition planned_executions :: "review_session \<Rightarrow> (review_check \<times> review_execution_variant) list" where
  "planned_executions s = concat (map (\<lambda>c. map (Pair c) (variants_of c)) (pl_checks (rs_plan s)))"

datatype checks_outcome = ChecksDone "review_check_result list" | ChecksInterrupted verification_outcome

definition record_execution ::
  "review_host \<Rightarrow> review_io \<Rightarrow> state_store \<Rightarrow> review_evidence \<Rightarrow> review_check_result action" where
  "record_execution h x st evidence =
     act_bind (crash_point h ''review_check_spooled''
        ''injected crash after review output was durably spooled'') (\<lambda>_.
     act_bind (act_transaction
        (append_review_environment_record x st (ev_path_digest evidence) (ev_environment evidence))) (\<lambda>_.
     act_bind (crash_point h ''review_environment_committed''
        ''injected crash after durable review environment evidence'') (\<lambda>_.
     act_transaction (append_review_check_result x st (ev_result evidence)))))"

fun run_review_checks ::
  "review_host \<Rightarrow> review_io \<Rightarrow> state_store \<Rightarrow> utext \<Rightarrow> review_session \<Rightarrow> review_attempt \<Rightarrow>
   review_check_result list \<Rightarrow> (review_check \<times> review_execution_variant) list \<Rightarrow> checks_outcome action" where
  "run_review_checks h x st operation_id s running results [] = act_return (ChecksDone results)"
| "run_review_checks h x st operation_id s running results ((c, v) # pending) =
     act_bind (crash_point h ''review_check_intent''
        ''injected crash before control-plane review check execution'') (\<lambda>_.
     case rh_execute_check h s (at_attempt_sequence running) c v (rh_crash h ''review_child_spawned'') of
       Inl e \<Rightarrow>
         if ce_code e = ''injected_crash'' then act_fail e
         else
           act_bind (interrupt_review_attempt h x st operation_id s running results
             (of_ascii (ce_code e @ '': '') @ ce_message e)) (\<lambda>outcome.
           act_return (ChecksInterrupted outcome))
     | Inr evidence \<Rightarrow>
         act_bind (record_execution h x st evidence) (\<lambda>r.
         act_bind (crash_point h ''review_check_result_committed''
            ''injected crash after durable review check result'') (\<lambda>_.
         run_review_checks h x st operation_id s running (results @ [r]) pending)))"

definition begin_attempt ::
  "review_host \<Rightarrow> review_io \<Rightarrow> state_store \<Rightarrow> utext \<Rightarrow> review_session \<Rightarrow> review_attempt action" where
  "begin_attempt h x st operation_id s =
     act_bind (act_query (\<lambda>db. next_review_attempt_sequence x st db (rs_session_id s))) (\<lambda>sequence.
     act_bind (act_pure (rh_now h StartedAt)) (\<lambda>started_at.
     act_bind (attempt_record_id x ''review-attempt-running'' (rs_session_id s) operation_id) (\<lambda>record_id.
     let running = \<lparr>at_record_id = record_id, at_workspace_id = rs_workspace_id s,
       at_session_id = rs_session_id s, at_request_id = rs_request_id s,
       at_candidate_sha = rt_candidate_sha (rs_tree s), at_attempt_sequence = sequence,
       at_plan = pl_identity (rs_plan s), at_status = AttemptRunning, at_started_at = started_at,
       at_finished_at = None, at_recorded_at = started_at\<rparr> in
     act_bind (act_pure (map_err protocol_error (validate_attempt_record s running))) (\<lambda>_.
     act_bind (act_transaction (append_review_verification_attempt x st operation_id running)) (\<lambda>_.
     act_return running)))))"

definition verify_anew ::
  "review_host \<Rightarrow> review_io \<Rightarrow> state_store \<Rightarrow> utext \<Rightarrow> stored_session \<Rightarrow> verification_outcome action" where
  "verify_anew h x st operation_id stored =
     act_bind (begin_attempt h x st operation_id (so_session stored)) (\<lambda>running.
     act_bind (if ss_recovery (rs_state (so_session stored)) = NotRequired
               then move_session h x st (so_session stored) SessionReady ResumeRequired None RecoveringAt
               else act_return stored) (\<lambda>stored.
     act_bind (crash_point h ''review_verify_intent''
        ''injected crash after durable review verification intent'') (\<lambda>_.
     let s = so_session stored in
     act_bind (run_review_checks h x st operation_id s running [] (planned_executions s)) (\<lambda>checked.
     case checked of
       ChecksInterrupted outcome \<Rightarrow> act_return outcome
     | ChecksDone results \<Rightarrow>
         act_bind (record_terminal h x st operation_id s running
           (if list_all (\<lambda>r. cr_outcome r = CheckPassed) results then AttemptPassed else AttemptFailed)
           results) (\<lambda>terminal.
         act_bind (crash_point h ''review_terminal_committed''
            ''injected crash after durable terminal review result'') (\<lambda>_.
         act_bind (move_session h x st s SessionReady NotRequired None RecoveredAt) (\<lambda>stored.
         review_verification_result h x st (so_session stored) terminal)))))))"

definition resume_terminal ::
  "review_host \<Rightarrow> review_io \<Rightarrow> state_store \<Rightarrow> stored_session \<Rightarrow> review_attempt \<Rightarrow> verification_outcome action" where
  "resume_terminal h x st stored terminal =
     act_bind (if ss_recovery (rs_state (so_session stored)) = ResumeRequired
               then move_session h x st (so_session stored) SessionReady NotRequired (so_last_error stored) RecoveredAt
               else act_return stored) (\<lambda>stored.
     review_verification_result h x st (so_session stored) terminal)"

definition review_verify ::
  "review_host \<Rightarrow> review_io \<Rightarrow> state_store \<Rightarrow> string \<Rightarrow> utext \<Rightarrow> verification_outcome action" where
  "review_verify h x st session operation_id =
     act_bind (act_pure (map_err protocol_error (string_id_new ''review_session_id'' session))) (\<lambda>session_id.
     act_bind (act_query (\<lambda>db. require_session x st db session_id)) (\<lambda>stored.
     act_bind (act_guard (ss_status (rs_state (so_session stored)) = SessionReady)
       (control_error_new ''review_session_not_ready''
          (of_ascii ''review verification requires a ready exact-candidate session''))) (\<lambda>_.
     act_bind (act_pure (rh_verify_checkout h BeforeVerifying (so_session stored))) (\<lambda>_.
     act_bind (act_query (\<lambda>db.
       review_verification_attempts_for_operation x st db session_id operation_id)) (\<lambda>facts.
     case List.find (\<lambda>recorded. at_status (so_attempt recorded) \<noteq> AttemptRunning) facts of
       Some terminal \<Rightarrow> resume_terminal h x st stored (so_attempt terminal)
     | None \<Rightarrow>
         (case facts of
            running # _ \<Rightarrow>
              act_bind (attempt_check_results x st (so_session stored)
                (at_attempt_sequence (so_attempt running))) (\<lambda>results.
              interrupt_review_attempt h x st operation_id (so_session stored) (so_attempt running) results
                (of_ascii ''the prior controller execution ended without terminal evidence; retry with a new operation id''))
          | [] \<Rightarrow> verify_anew h x st operation_id stored))))))"

section \<open>review.show\<close>

definition records_of_sessions ::
  "review_io \<Rightarrow> state_store \<Rightarrow> u32 \<Rightarrow> review_db \<Rightarrow> stored_session list \<Rightarrow> control_error + stored_records list" where
  "records_of_sessions x st limit db sessions =
     traverse (\<lambda>stored. review_session_records x st db (rs_session_id (so_session stored)) limit) sessions"

definition review_show ::
  "review_io \<Rightarrow> state_store \<Rightarrow> string option \<Rightarrow> string option \<Rightarrow> u32 \<Rightarrow> review_db \<Rightarrow>
   control_error + stored_records list" where
  "review_show x st session candidate limit db =
     (case session of
        Some s \<Rightarrow>
          ebind (map_err protocol_error (string_id_new ''review_session_id'' s)) (\<lambda>session_id.
          ebind (review_session_records x st db session_id limit) (\<lambda>records. Inr [records]))
      | None \<Rightarrow>
          ebind (ok_or candidate (invalid_request ''review.show requires session or candidate_sha'')) (\<lambda>c.
          ebind (map_err protocol_error (git_sha_new c)) (\<lambda>candidate_sha.
          ebind (review_sessions_for_candidate x st db candidate_sha limit) (\<lambda>sessions.
          records_of_sessions x st limit db sessions))))"

end
