(* ===== verification/Review_Control_Facts.thy ===== *)
theory Review_Control_Facts
  imports Review_Control Review_Retries Review_Facts
begin

text \<open>
  What the controller's review operations do to the tables: every call is a sequence of steps of the
  store, wherever it stops. And a recovery that cannot work: an attempt whose results are complete
  and all passed, but whose terminal fact was not recorded, can never be resolved.
\<close>

section \<open>Every call is a sequence of steps\<close>

definition runs_steps :: "review_io \<Rightarrow> state_store \<Rightarrow> 'a action \<Rightarrow> bool" where
  "runs_steps x st m \<longleftrightarrow> (\<forall>db. later_tables x st db (snd (m db)))"

named_theorems step_rules

lemma later_refl [simp]: "later_tables x st db db"
  by (simp add: later_tables_def)

lemma runs_still: "(\<And>db. snd (m db) = db) \<Longrightarrow> runs_steps x st m"
  by (simp add: runs_steps_def)

lemma runs_simple [step_rules]:
  "runs_steps x st (act_return v)" "runs_steps x st (act_fail e)" "runs_steps x st (act_pure r)"
  "runs_steps x st (act_query q)" "runs_steps x st (act_guard b e)" "runs_steps x st (crash_point h p m)"
  "runs_steps x st (review_state status recovery)" "runs_steps x st (attempt_record_id x' stem sid op)"
  by (auto intro!: runs_still simp: act_return_def act_fail_def act_pure_def act_query_def act_guard_def
      crash_point_def review_state_def attempt_record_id_def)

lemma runs_bind [step_rules]:
  assumes "runs_steps x st m" and "\<And>v. runs_steps x st (k v)"
  shows "runs_steps x st (act_bind m k)"
  unfolding runs_steps_def
proof
  fix db
  obtain r db1 where m: "m db = (r, db1)"
    by (cases "m db")
  with assms(1) have first: "later_tables x st db db1"
    by (metis runs_steps_def snd_conv)
  show "later_tables x st db (snd (act_bind m k db))"
  proof (cases r)
    case (Inr v)
    with m first assms(2) [of v] show ?thesis
      by (auto simp: act_bind_def runs_steps_def later_tables_def intro: rtranclp_trans)
  qed (use m first in \<open>simp add: act_bind_def\<close>)
qed

lemma runs_transaction:
  assumes "\<And>v db db'. f db = Inr (v, db') \<Longrightarrow> review_step x st db db'"
  shows "runs_steps x st (act_transaction f)"
  using assms by (auto simp: runs_steps_def act_transaction_def later_tables_def split: sum.splits)

lemma runs_transactions [step_rules]:
  "runs_steps x st (act_transaction (begin_review_session x st operation revision s))"
  "runs_steps x st (act_transaction (transition_review_session x st sid expected next_state err now))"
  "runs_steps x st (act_transaction (append_review_verification_attempt x st operation a))"
  "runs_steps x st (act_transaction (append_review_environment_record x st digest e))"
  "runs_steps x st (act_transaction (append_review_check_result x st r))"
  by (rule runs_transaction; erule review_step.intros)+

lemma runs_cases [step_rules]:
  "(b \<Longrightarrow> runs_steps x st m) \<Longrightarrow> (\<not> b \<Longrightarrow> runs_steps x st n) \<Longrightarrow> runs_steps x st (if b then m else n)"
  "(\<And>v. runs_steps x st (f v)) \<Longrightarrow> runs_steps x st n \<Longrightarrow> runs_steps x st (case o' of None \<Rightarrow> n | Some v \<Rightarrow> f v)"
  "(\<And>e. runs_steps x st (g e)) \<Longrightarrow> (\<And>v. runs_steps x st (f' v)) \<Longrightarrow>
     runs_steps x st (case r of Inl e \<Rightarrow> g e | Inr v \<Rightarrow> f' v)"
  "(\<And>a b. runs_steps x st (p a b)) \<Longrightarrow> runs_steps x st (case ab of (a, b) \<Rightarrow> p a b)"
  "(\<And>rs. runs_steps x st (n' rs)) \<Longrightarrow> (\<And>outcome. runs_steps x st (m' outcome)) \<Longrightarrow>
     runs_steps x st (case checked of ChecksDone rs \<Rightarrow> n' rs | ChecksInterrupted outcome \<Rightarrow> m' outcome)"
  "runs_steps x st l \<Longrightarrow> (\<And>item items. runs_steps x st (l' item items)) \<Longrightarrow>
     runs_steps x st (case facts of [] \<Rightarrow> l | item # items \<Rightarrow> l' item items)"
  by (auto split: option.splits sum.splits prod.splits checks_outcome.splits list.splits)

lemma move_session_steps [step_rules]: "runs_steps x st (move_session h x st s status recovery err reading)"
  unfolding move_session_def by (intro step_rules)

lemma begin_steps: "runs_steps x st (review_begin h x st request candidate operation)"
proof -
  have "runs_steps x st (new_review_session h x st policy q c)" for policy q c
    unfolding new_review_session_def by (intro step_rules)
  moreover have "runs_steps x st (prepare_session h x st stored)" for stored
  proof -
    have "runs_steps x st (\<lambda>db. (Inl e, snd (act_transaction f db)))"
      if "runs_steps x st (act_transaction f)" for e :: control_error and f
      using that by (simp add: runs_steps_def)
    then show ?thesis
      unfolding prepare_session_def by (intro step_rules) (auto intro: step_rules)
  qed
  ultimately show ?thesis
    unfolding review_begin_def recheck_ready_def reopen_invalid_def by (intro step_rules) auto
qed

lemma attempt_check_results_steps [step_rules]: "runs_steps x st (attempt_check_results x st s q)"
  unfolding attempt_check_results_def by (intro step_rules)

lemma verification_result_steps [step_rules]: "runs_steps x st (review_verification_result h x st s terminal)"
  unfolding review_verification_result_def by (intro step_rules)

lemma record_terminal_steps [step_rules]:
  "runs_steps x st (record_terminal h x st operation s running status results)"
  unfolding record_terminal_def Let_def by (intro step_rules)

lemma interrupt_steps [step_rules]:
  "runs_steps x st (interrupt_review_attempt h x st operation s running results reason)"
  unfolding interrupt_review_attempt_def by (intro step_rules)

lemma record_execution_steps [step_rules]: "runs_steps x st (record_execution h x st evidence)"
  unfolding record_execution_def by (intro step_rules)

lemma run_checks_steps [step_rules]:
  "runs_steps x st (run_review_checks h x st operation s running results pending)"
proof (induction pending arbitrary: results)
  case (Cons cv pending)
  obtain c v where "cv = (c, v)"
    by (cases cv)
  with Cons show ?case
    by simp (intro step_rules Cons)
qed (simp add: step_rules)

lemma verify_steps: "runs_steps x st (review_verify h x st session operation)"
  unfolding review_verify_def resume_terminal_def verify_anew_def begin_attempt_def Let_def by (intro step_rules)

lemma calls_stay_reachable:
  assumes "reachable_tables x st db"
  shows "reachable_tables x st (snd (review_begin h x st request candidate operation db))"
    and "reachable_tables x st (snd (review_verify h x st session operation db))"
  using assms begin_steps [of x st h request candidate operation] verify_steps [of x st h session operation]
  by (auto simp: reachable_tables_def runs_steps_def later_tables_def intro: rtranclp_trans)

section \<open>A complete attempt cannot be interrupted\<close>

lemma complete_not_interrupted:
  assumes "execution_of ` set results = expected_executions s" and "\<forall>r \<in> set results. cr_outcome r = CheckPassed"
    and "at_status a = AttemptInterrupted"
  shows "validate_attempt_results s a results \<noteq> Inr u"
proof
  assume "validate_attempt_results s a results = Inr u"
  then obtain finished observed all_passed any_failed where
      scan: "scan_results s a finished 0 [] True False results = Inr (observed, all_passed, any_failed)"
    and "set observed \<noteq> expected_executions s \<or> \<not> all_passed"
    using assms(3) by (auto elim: validated_results)
  with scanned_results(1,4) [OF scan] assms(1,2) show False
    by simp
qed

lemma terminal_refused:
  assumes "\<And>a u. at_status a = status \<Longrightarrow> validate_attempt_results s a results \<noteq> Inr u"
  shows "\<exists>e. record_terminal h x st operation s running status results db = (Inl e, db)"
proof (cases "rh_now h FinishedAt")
  case (Inr finished_at)
  show ?thesis
  proof (cases "attempt_record_id x ''review-attempt-terminal'' (rs_session_id s) operation db")
    case (Pair r db1)
    then have "db1 = db"
      by (simp add: attempt_record_id_def act_pure_def)
    let ?terminal = "\<lambda>record_id. running\<lparr>at_record_id := record_id, at_status := status,
      at_finished_at := Some finished_at, at_recorded_at := finished_at\<rparr>"
    have refused: "\<exists>e. validate_attempt_results s (?terminal record_id) results = Inl e" for record_id
      using assms [of "?terminal record_id"] by (cases "validate_attempt_results s (?terminal record_id) results") auto
    show ?thesis
    proof (cases r)
      case (Inr record_id)
      obtain e where "validate_attempt_results s (?terminal record_id) results = Inl e"
        using refused by blast
      with Inr Pair \<open>rh_now h FinishedAt = Inr finished_at\<close> \<open>db1 = db\<close> show ?thesis
        by (simp add: record_terminal_def act_bind_def act_pure_def Let_def map_err_def)
    qed (use Pair \<open>rh_now h FinishedAt = Inr finished_at\<close> \<open>db1 = db\<close> in
        \<open>simp add: record_terminal_def act_bind_def act_pure_def\<close>)
  qed
qed (simp add: record_terminal_def act_bind_def act_pure_def)

text \<open>A running fact is admitted only in the ready state without recovery, and only for a new operation.\<close>

lemma no_new_attempt:
  assumes so: "require_session x st db (at_session_id a) = Inr so"
    and state: "rs_state (so_session so) \<noteq> ReviewSessionState SessionReady NotRequired"
    and unused: "review_attempts_for_operation x db operation (so_session so) = Inr []"
    and a: "at_status a = AttemptRunning"
  shows "\<exists>e. append_review_verification_attempt x st operation a db = Inl e"
proof (rule ccontr)
  assume "\<nexists>e. append_review_verification_attempt x st operation a db = Inl e"
  then obtain sa db' where accepted: "append_review_verification_attempt x st operation a db = Inr (sa, db')"
    by (cases "append_review_verification_attempt x st operation a db") auto
  have none: "filter (\<lambda>row. ar_verify_operation_id row = operation) (db_attempts db) = []"
  proof -
    let ?rows = "sort_key (\<lambda>row. (sint (ar_attempt_sequence row), if ar_status row = ''running'' then 0 else (1::nat),
        sint (ar_recorded_at_ms row), ar_record_id row))
      (filter (\<lambda>row. ar_verify_operation_id row = operation) (db_attempts db))"
    from unused have "traverse (validate_stored_review_attempt x (so_session so)) (take 3 ?rows) = Inr []"
      by (simp add: review_attempts_for_operation_def query_review_attempts_def)
    then have "take 3 ?rows = []"
      by (cases "take 3 ?rows") (auto simp: ebind_Inr_iff)
    then have "length ?rows = 0"
      by simp
    then show ?thesis
      by simp
  qed
  have "session_state_new SessionReady NotRequired = Inr (ReviewSessionState SessionReady NotRequired)"
    by (simp add: session_state_new_def session_state_validate_def)
  then have "validate_new_review_attempt x db operation (so_session so) a \<noteq> Inr u" for u
    using a state by (auto simp: validate_new_review_attempt_def Let_def)
  with accepted so obtain existing where
      "review_attempt_for_record_id x db (at_record_id a) (so_session so) = Inr (Some existing)"
      "so_verify_operation_id existing = operation"
    by (auto simp: append_review_verification_attempt_def Let_def ebind_Inr_iff split: option.splits if_splits)
  then obtain attempts where "traverse (validate_stored_review_attempt x (so_session so))
      (take 1 (filter (\<lambda>row. ar_record_id row = at_record_id a) (db_attempts db))) = Inr attempts"
      and last: "attempts \<noteq> []" "last attempts = existing"
    by (auto simp: review_attempt_for_record_id_def query_review_attempts_def pop_last_def ebind_Inr_iff split: if_splits)
  from traverse_Inr_set [OF this(1), of existing] last obtain row where "row \<in> set (db_attempts db)"
      "validate_stored_review_attempt x (so_session so) row = Inr existing"
    by (auto dest!: in_set_takeD)
  with none readable_attempt(7) \<open>so_verify_operation_id existing = operation\<close> show False
    by (auto simp: filter_empty_conv)
qed

lemma string_id_new_Inr: "string_id_new fld v = Inr w \<Longrightarrow> w = v"
  by (auto simp: string_id_new_def ebind_Inr_iff)

lemma verify_reads:
  assumes "require_session x st db session = Inr so" and "ss_status (rs_state (so_session so)) = SessionReady"
    and "review_verification_attempts_for_operation x st db session operation = Inr attempts"
  shows "(\<exists>e. review_verify h x st session operation db = (Inl e, db)) \<or>
    review_verify h x st session operation db =
      (case List.find (\<lambda>recorded. at_status (so_attempt recorded) \<noteq> AttemptRunning) attempts of
         Some terminal \<Rightarrow> resume_terminal h x st so (so_attempt terminal)
       | None \<Rightarrow>
           (case attempts of
              running # _ \<Rightarrow>
                act_bind (attempt_check_results x st (so_session so) (at_attempt_sequence (so_attempt running))) (\<lambda>results.
                interrupt_review_attempt h x st operation (so_session so) (so_attempt running) results
                  (of_ascii ''the prior controller execution ended without terminal evidence; retry with a new operation id''))
            | [] \<Rightarrow> verify_anew h x st operation so)) db"
  using assms string_id_new_Inr [of "''review_session_id''" session]
  by (cases "string_id_new ''review_session_id'' session"; cases "rh_verify_checkout h BeforeVerifying (so_session so)")
    (auto simp: review_verify_def act_bind_def act_pure_def act_query_def act_guard_def act_return_def map_err_def)

lemma complete_attempt_stuck:
  assumes so: "require_session x st db session = Inr so"
    and state: "rs_state (so_session so) = ReviewSessionState SessionReady ResumeRequired"
    and running: "review_verification_attempts_for_operation x st db session operation = Inr [sa]"
      "at_status (so_attempt sa) = AttemptRunning"
    and results: "fst (attempt_check_results x st (so_session so) (at_attempt_sequence (so_attempt sa)) db) = Inr results"
    and complete: "execution_of ` set results = expected_executions (so_session so)"
      "\<forall>r \<in> set results. cr_outcome r = CheckPassed"
  shows "\<exists>e. review_verify h x st session operation db = (Inl e, db)"
proof -
  let ?reason = "of_ascii ''the prior controller execution ended without terminal evidence; retry with a new operation id''"
  have "snd (attempt_check_results x st s q db) = db" for s q
    by (auto simp: attempt_check_results_def act_bind_def act_pure_def act_query_def act_return_def split: sum.splits)
  with results have read: "attempt_check_results x st (so_session so) (at_attempt_sequence (so_attempt sa)) db = (Inr results, db)"
    by (metis prod.collapse)
  have "\<exists>e. record_terminal h x st operation (so_session so) (so_attempt sa) AttemptInterrupted results db = (Inl e, db)"
    using complete_not_interrupted [OF complete] by (rule terminal_refused)
  then have "\<exists>e. interrupt_review_attempt h x st operation (so_session so) (so_attempt sa) results ?reason db = (Inl e, db)"
    by (auto simp: interrupt_review_attempt_def act_bind_def)
  with read verify_reads [OF so _ running(1), of h] state running(2) show ?thesis
    by (auto simp: act_bind_def)
qed

lemma other_operations_stuck:
  assumes so: "require_session x st db session = Inr so"
    and state: "rs_state (so_session so) = ReviewSessionState SessionReady ResumeRequired"
    and unused: "review_verification_attempts_for_operation x st db session operation = Inr []"
  shows "\<exists>e. review_verify h x st session operation db = (Inl e, db)"
proof -
  have sid: "rs_session_id (so_session so) = session"
    using require_session_valid(2) [OF so] .
  have none: "review_attempts_for_operation x db operation (so_session so) = Inr []"
    using unused so by (auto simp: review_verification_attempts_for_operation_def Let_def ebind_Inr_iff split: if_splits)
  have "\<exists>e. begin_attempt h x st operation (so_session so) db = (Inl e, db)"
  proof -
    have refused: "append_review_verification_attempt x st operation a db \<noteq> Inr (v, db')"
      if "at_session_id a = session" "at_status a = AttemptRunning" for a v db'
      using no_new_attempt [of x st db a so operation] so state none that by auto
    show ?thesis
      using refused sid
      by (auto simp: begin_attempt_def attempt_record_id_def act_bind_def act_pure_def act_query_def act_transaction_def
          Let_def map_err_def split: sum.splits)
  qed
  then have "\<exists>e. verify_anew h x st operation so db = (Inl e, db)"
    by (auto simp: verify_anew_def act_bind_def)
  with verify_reads [OF so _ unused, of h] state show ?thesis
    by auto
qed

end
