(* ===== verification/Review_Integrity.thy ===== *)
theory Review_Integrity
  imports Stored_Rows
begin

text \<open>
  \<^verbatim>\<open>verify_review_integrity\<close> of \<^verbatim>\<open>crates/agsv-control/src/store.rs\<close>: it streams every review row of
  the workspace inside one read transaction, session by session and attempt by attempt, and hands
  each referenced artifact to its caller. The two \<^verbatim>\<open>loop\<close>s are partial functions with \<open>None\<close> for a
  loop that does not end.
\<close>

section \<open>Artifacts and counts\<close>

record artifact_expectation =
  ax_source :: string
  ax_path :: utext
  ax_digest :: payload_digest
  ax_byte_count :: u64

type_synonym artifact_verifier = "artifact_expectation \<Rightarrow> control_error + unit"

record integrity_report =
  ir_sessions :: u64
  ir_attempt_records :: u64
  ir_environments :: u64
  ir_check_results :: u64
  ir_referenced_artifacts :: u64

definition empty_report :: integrity_report where
  "empty_report = \<lparr>ir_sessions = 0, ir_attempt_records = 0, ir_environments = 0,
     ir_check_results = 0, ir_referenced_artifacts = 0\<rparr>"

definition checked_review_count :: "u64 \<Rightarrow> u64 \<Rightarrow> control_error + u64" where
  "checked_review_count current added =
     (if uint current + uint added < 2 ^ 64 then Inr (current + added)
      else Inl (control_error_new ''review_integrity_overflow''
                  (of_ascii ''review integrity count overflow'')))"

definition u64_of_count :: "nat \<Rightarrow> control_error + u64" where
  "u64_of_count n =
     (if n < 2 ^ 64 then Inr (of_nat n) else Inl (database_error TRY_FROM_INT_ERROR))"

text \<open>\<^verbatim>\<open>Path::join\<close>: an absolute second path replaces the first, a separator is not doubled.\<close>

definition join_path :: "utext \<Rightarrow> utext \<Rightarrow> utext" where
  "join_path base relative =
     (if is_absolute relative then relative
      else if base = [] \<or> last base = path_separator then base @ relative
      else base @ path_separator # relative)"

lemma split_path_not_empty [simp]: "split_path p \<noteq> []"
  by (induction p) (auto split: list.splits)

lemma split_path_append: "split_path (p @ path_separator # q) = split_path p @ split_path q"
  by (induction p) (auto split: list.splits)

lemma joined_parts:
  assumes "is_absolute base" and "\<not> is_absolute value"
  shows "path_components (join_path base value) = path_components base @
    map (\<lambda>part. if part = [dot, dot] then ParentDir else NormalDir part)
      (filter (\<lambda>part. part \<noteq> [] \<and> part \<noteq> [dot]) (split_path value))"
proof -
  have "is_absolute (join_path base value)"
    using assms by (auto simp: join_path_def is_absolute_def)
  moreover have "filter (\<lambda>part. part \<noteq> [] \<and> part \<noteq> [dot]) (split_path (join_path base value)) =
      filter (\<lambda>part. part \<noteq> [] \<and> part \<noteq> [dot]) (split_path base @ split_path value)"
  proof (cases "last base = path_separator")
    case True
    with assms(1) obtain prefix where "base = prefix @ [path_separator]"
      by (metis append_butlast_last_id is_absolute_def)
    with True assms show ?thesis
      by (simp add: join_path_def split_path_append)
  qed (use assms in \<open>auto simp: join_path_def split_path_append is_absolute_def\<close>)
  ultimately show ?thesis
    using assms(1) by (simp add: path_components_def)
qed

lemma relative_path_stays_below:
  assumes "validate_relative_review_path fld value = Inr u" and "is_absolute base"
  shows "\<exists>parts. path_components (join_path base value) = path_components base @ map NormalDir parts"
proof -
  from assms(1) have refused: "\<not> list_ex (\<lambda>c. c \<in> {RootDir, ParentDir}) (path_components value)"
    by (auto simp: validate_relative_review_path_def result_simps)
  then have "\<not> is_absolute value"
    by (auto simp: path_components_def)
  with assms(2) have joined: "path_components (join_path base value) = path_components base @
      map (\<lambda>part. if part = [dot, dot] then ParentDir else NormalDir part)
        (filter (\<lambda>part. part \<noteq> [] \<and> part \<noteq> [dot]) (split_path value))"
    by (rule joined_parts)
  from refused have "[dot, dot] \<notin> set (filter (\<lambda>part. part \<noteq> [] \<and> part \<noteq> [dot]) (split_path value))"
    by (auto simp: path_components_def list_ex_iff split: if_splits)
  then have "map (\<lambda>part. if part = [dot, dot] then ParentDir else NormalDir part)
        (filter (\<lambda>part. part \<noteq> [] \<and> part \<noteq> [dot]) (split_path value)) =
      map NormalDir (filter (\<lambda>part. part \<noteq> [] \<and> part \<noteq> [dot]) (split_path value))"
    by (auto intro!: map_cong)
  with joined show ?thesis
    by metis
qed

definition verify_review_artifact ::
  "artifact_verifier \<Rightarrow> utext \<Rightarrow> review_session_id \<Rightarrow> string \<Rightarrow> review_output_artifact \<Rightarrow>
   integrity_report \<Rightarrow> control_error + integrity_report" where
  "verify_review_artifact verify root session_id source artifact report =
     (case oa_reference artifact of
        None \<Rightarrow> Inr report
      | Some reference \<Rightarrow>
          ebind (verify \<lparr>ax_source = source,
                   ax_path = join_path (join_path root (of_ascii session_id)) reference,
                   ax_digest = oa_digest artifact, ax_byte_count = oa_byte_count artifact\<rparr>) (\<lambda>_.
          ebind (checked_review_count (ir_referenced_artifacts report) 1) (\<lambda>n.
          Inr (report\<lparr>ir_referenced_artifacts := n\<rparr>))))"

fun fold_report ::
  "('a \<Rightarrow> integrity_report \<Rightarrow> control_error + integrity_report) \<Rightarrow> 'a list \<Rightarrow>
   integrity_report \<Rightarrow> control_error + integrity_report" where
  "fold_report f [] report = Inr report"
| "fold_report f (y # ys) report = ebind (f y report) (\<lambda>report. fold_report f ys report)"

definition verify_review_environment_artifacts ::
  "artifact_verifier \<Rightarrow> utext \<Rightarrow> review_environment \<Rightarrow> integrity_report \<Rightarrow> control_error + integrity_report" where
  "verify_review_environment_artifacts verify root e report =
     fold_report (\<lambda>tool report.
       ebind (verify_review_artifact verify root (en_session_id e)
                (''tool.'' @ tv_tool_id tool @ ''.stdout'') (tv_stdout tool) report) (\<lambda>report.
       verify_review_artifact verify root (en_session_id e)
         (''tool.'' @ tv_tool_id tool @ ''.stderr'') (tv_stderr tool) report))
       (en_tool_versions e) report"

definition verify_review_result_artifacts ::
  "artifact_verifier \<Rightarrow> utext \<Rightarrow> review_check_result \<Rightarrow> integrity_report \<Rightarrow> control_error + integrity_report" where
  "verify_review_result_artifacts verify root r report =
     (let prefix = ''attempt.'' @ show_nat (unat (cr_attempt_sequence r)) @ ''.check.'' @ cr_check_id r @
                   ''.'' @ review_execution_variant_text (cr_variant r) in
      ebind (verify_review_artifact verify root (cr_session_id r) (prefix @ ''.stdout'')
               (cr_stdout r) report) (\<lambda>report.
      verify_review_artifact verify root (cr_session_id r) (prefix @ ''.stderr'') (cr_stderr r) report))"

section \<open>One attempt\<close>

definition verify_review_attempt_group :: "review_session \<Rightarrow> stored_attempt list \<Rightarrow> control_error + unit" where
  "verify_review_attempt_group s attempts =
     (if (case attempts of
            [running] \<Rightarrow> at_status (so_attempt running) = AttemptRunning
          | [running, terminal] \<Rightarrow>
              so_verify_operation_id running = so_verify_operation_id terminal \<and>
              paired_facts (so_attempt running) (so_attempt terminal)
          | _ \<Rightarrow> False)
      then Inr ()
      else Inl (control_error_new ''review_attempt_history_invalid''
                  (of_ascii (''review session `'' @ rs_session_id s @
                     ''` has malformed append-only attempt facts''))))"

definition review_execution_limit :: "review_session \<Rightarrow> control_error + nat" where
  "review_execution_limit s =
     u32_of_count (length (pl_checks (rs_plan s)) +
        length (filter (\<lambda>c. ck_required_absent_binaries c \<noteq> {||}) (pl_checks (rs_plan s))) + 1)
       ''review execution count overflow''"

definition verify_stored_environment ::
  "artifact_verifier \<Rightarrow> utext \<Rightarrow> review_attempt \<Rightarrow> stored_environment \<Rightarrow> integrity_report \<Rightarrow>
   control_error + integrity_report" where
  "verify_stored_environment verify root running stored report =
     (if en_recorded_at (so_environment stored) < at_started_at running then
        Inl (control_error_new ''invalid_review_environment''
               (of_ascii ''review environment capture precedes its running attempt''))
      else verify_review_environment_artifacts verify root (so_environment stored) report)"

definition verify_stored_result ::
  "artifact_verifier \<Rightarrow> utext \<Rightarrow> review_session \<Rightarrow> review_attempt \<Rightarrow> stored_environment list \<Rightarrow>
   review_check_result \<Rightarrow> integrity_report \<Rightarrow> control_error + integrity_report" where
  "verify_stored_result verify root s running environments r report =
     (if cr_started_at r < at_started_at running then
        Inl (control_error_new ''invalid_review_check_result''
               (of_ascii ''review check execution precedes its running attempt''))
      else
        ebind (ok_or (map_of (rev (map (\<lambda>e. (en_environment_id (so_environment e), so_environment e))
                          environments)) (cr_environment_id r))
                 (control_error_new ''review_environment_missing''
                    (of_ascii (''review result `'' @ cr_check_id r @
                       ''` references missing environment `'' @ cr_environment_id r @ ''`'')))) (\<lambda>environment.
        ebind (map_err invalid_review_check_result (validate_execution_pair s r environment)) (\<lambda>_.
        verify_review_result_artifacts verify root r report)))"

definition environments_of_attempt ::
  "review_io \<Rightarrow> review_db \<Rightarrow> review_session \<Rightarrow> review_session_id \<Rightarrow> i64 \<Rightarrow> nat \<Rightarrow>
   control_error + stored_environment list" where
  "environments_of_attempt x db s session_id sequence limit =
     query_review_environments x s
       (take limit (sort_key (\<lambda>row. (er_variant row, er_check_id row))
          (filter (\<lambda>row. er_session_id row = session_id \<and> er_attempt_sequence row = sequence)
             (db_environments db))))"

definition verify_review_execution_group ::
  "review_io \<Rightarrow> artifact_verifier \<Rightarrow> utext \<Rightarrow> review_db \<Rightarrow> review_session \<Rightarrow> u64 \<Rightarrow> review_attempt \<Rightarrow>
   review_attempt option \<Rightarrow> integrity_report \<Rightarrow> control_error + integrity_report" where
  "verify_review_execution_group x verify root db s attempt_sequence running terminal report =
     ebind (review_execution_limit s) (\<lambda>execution_limit.
     ebind (to_i64 attempt_sequence) (\<lambda>sequence.
     ebind (environments_of_attempt x db s (rs_session_id s) sequence execution_limit) (\<lambda>environments.
     ebind (results_of_attempt x db s (rs_session_id s) sequence execution_limit) (\<lambda>results.
     let maximum = execution_limit - 1 in
     if maximum < length environments \<or> maximum < length results then
       Inl (control_error_new ''review_execution_history_oversized''
              (of_ascii (''review session `'' @ rs_session_id s @ ''` attempt '' @
                 show_nat (unat attempt_sequence) @ '' exceeds its frozen plan'')))
     else
     ebind (fold_report (verify_stored_environment verify root running) environments report) (\<lambda>report.
     ebind (fold_report (verify_stored_result verify root s running environments) results report) (\<lambda>report.
     ebind (case terminal of
              None \<Rightarrow> Inr ()
            | Some t \<Rightarrow> map_err invalid_review_attempt (validate_attempt_results s t results)) (\<lambda>_.
     ebind (u64_of_count (length environments)) (\<lambda>n.
     ebind (checked_review_count (ir_environments report) n) (\<lambda>environment_count.
     ebind (u64_of_count (length results)) (\<lambda>m.
     ebind (checked_review_count (ir_check_results report) m) (\<lambda>result_count.
     Inr (report\<lparr>ir_environments := environment_count, ir_check_results := result_count\<rparr>))))))))))))"

section \<open>The attempts of a session\<close>

text \<open>\<^verbatim>\<open>SELECT MIN(sequence) ... WHERE sequence > prior\<close>.\<close>

definition next_sequence_after :: "review_db \<Rightarrow> review_session_id \<Rightarrow> i64 \<Rightarrow> i64 option" where
  "next_sequence_after db session_id prior =
     (case filter (\<lambda>q. sint prior < sint q)
             (map ar_attempt_sequence (filter (\<lambda>row. ar_session_id row = session_id) (db_attempts db))) of
        [] \<Rightarrow> None
      | q # qs \<Rightarrow> Some (fold (\<lambda>a b. if sint a < sint b then a else b) qs q))"

definition verify_attempt_at ::
  "review_io \<Rightarrow> artifact_verifier \<Rightarrow> utext \<Rightarrow> review_db \<Rightarrow> review_session \<Rightarrow> u64 \<Rightarrow> i64 \<Rightarrow>
   integrity_report \<Rightarrow> control_error + u64 \<times> integrity_report" where
  "verify_attempt_at x verify root db s prior_sequence column report =
     ebind (u64_try_from column) (\<lambda>sequence.
     ebind (ok_or (checked_inc prior_sequence)
              (control_error_new ''review_integrity_overflow''
                 (of_ascii ''review attempt sequence overflow''))) (\<lambda>expected.
     if sequence \<noteq> expected then
       Inl (control_error_new ''review_attempt_sequence_gap''
              (of_ascii (''review session `'' @ rs_session_id s @ ''` has a gap before attempt '' @
                 show_nat (unat sequence))))
     else
     ebind (review_attempts_for_sequence x db (rs_session_id s) sequence s) (\<lambda>attempts.
     ebind (verify_review_attempt_group s attempts) (\<lambda>_.
     ebind (u64_of_count (length attempts)) (\<lambda>n.
     ebind (checked_review_count (ir_attempt_records report) n) (\<lambda>attempt_records.
     ebind (verify_review_execution_group x verify root db s sequence (so_attempt (hd attempts))
              (case attempts of [_, terminal] \<Rightarrow> Some (so_attempt terminal) | _ \<Rightarrow> None)
              (report\<lparr>ir_attempt_records := attempt_records\<rparr>)) (\<lambda>report.
     Inr (sequence, report))))))))"

partial_function (option) verify_attempts_after ::
  "review_io \<Rightarrow> artifact_verifier \<Rightarrow> utext \<Rightarrow> review_db \<Rightarrow> review_session \<Rightarrow> u64 \<Rightarrow>
   integrity_report \<Rightarrow> (control_error + integrity_report) option" where
  "verify_attempts_after x verify root db s prior_sequence report =
     (case to_i64 prior_sequence of
        Inl e \<Rightarrow> Some (Inl e)
      | Inr prior \<Rightarrow>
          (case next_sequence_after db (rs_session_id s) prior of
             None \<Rightarrow> Some (Inr report)
           | Some column \<Rightarrow>
               (case verify_attempt_at x verify root db s prior_sequence column report of
                  Inl e \<Rightarrow> Some (Inl e)
                | Inr (sequence, report') \<Rightarrow>
                    verify_attempts_after x verify root db s sequence report')))"

definition verify_review_attempt_history ::
  "review_io \<Rightarrow> artifact_verifier \<Rightarrow> utext \<Rightarrow> review_db \<Rightarrow> review_session \<Rightarrow>
   integrity_report \<Rightarrow> (control_error + integrity_report) option" where
  "verify_review_attempt_history x verify root db s report =
     verify_attempts_after x verify root db s 0 report"

section \<open>The sessions of a workspace\<close>

text \<open>\<^verbatim>\<open>SELECT ... WHERE session_id > last ORDER BY session_id LIMIT 1\<close>.\<close>

definition next_session_after :: "review_db \<Rightarrow> string \<Rightarrow> session_row option" where
  "next_session_after db last_session_id =
     (case sort_key sr_session_id (filter (\<lambda>row. last_session_id < sr_session_id row) (db_sessions db)) of
        [] \<Rightarrow> None | row # _ \<Rightarrow> Some row)"

definition verify_session_row ::
  "review_io \<Rightarrow> state_store \<Rightarrow> artifact_verifier \<Rightarrow> review_db \<Rightarrow> session_row \<Rightarrow>
   integrity_report \<Rightarrow> (control_error + integrity_report) option" where
  "verify_session_row x st verify db row report =
     (case validate_stored_review_session x st row of
        Inl e \<Rightarrow> Some (Inl e)
      | Inr stored \<Rightarrow>
          (case checked_review_count (ir_sessions report) 1 of
             Inl e \<Rightarrow> Some (Inl e)
           | Inr n \<Rightarrow>
               verify_review_attempt_history x verify (st_review_checkout_root st) db
                 (so_session stored) (report\<lparr>ir_sessions := n\<rparr>)))"

partial_function (option) verify_sessions_after ::
  "review_io \<Rightarrow> state_store \<Rightarrow> artifact_verifier \<Rightarrow> review_db \<Rightarrow> string \<Rightarrow>
   integrity_report \<Rightarrow> (control_error + integrity_report) option" where
  "verify_sessions_after x st verify db last_session_id report =
     (case next_session_after db last_session_id of
        None \<Rightarrow> Some (Inr report)
      | Some row \<Rightarrow>
          Option.bind (verify_session_row x st verify db row report) (\<lambda>outcome.
          case outcome of
            Inl e \<Rightarrow> Some (Inl e)
          | Inr report' \<Rightarrow> verify_sessions_after x st verify db (sr_session_id row) report'))"

definition verify_table_count ::
  "string \<Rightarrow> nat \<Rightarrow> u64 \<Rightarrow> control_error + unit" where
  "verify_table_count table durable_rows verified =
     ebind (u64_of_count durable_rows) (\<lambda>durable.
     if durable \<noteq> verified then
       Inl (with_details
         (control_error_new ''review_integrity_coverage_mismatch''
            (of_ascii (table @ '' contains unowned or unverified rows'')))
         (json_object [(''table'', json_text table), (''durable'', json_u64 durable),
                       (''verified'', json_u64 verified)]))
     else Inr ())"

definition verify_review_row_counts :: "review_db \<Rightarrow> integrity_report \<Rightarrow> control_error + unit" where
  "verify_review_row_counts db observed =
     ebind (verify_table_count ''review_sessions'' (length (db_sessions db)) (ir_sessions observed)) (\<lambda>_.
     ebind (verify_table_count ''review_verification_attempts'' (length (db_attempts db))
              (ir_attempt_records observed)) (\<lambda>_.
     ebind (verify_table_count ''review_environment_records'' (length (db_environments db))
              (ir_environments observed)) (\<lambda>_.
     verify_table_count ''review_check_results'' (length (db_results db)) (ir_check_results observed))))"

definition verify_review_rows ::
  "review_io \<Rightarrow> state_store \<Rightarrow> artifact_verifier \<Rightarrow> review_db \<Rightarrow> (control_error + integrity_report) option" where
  "verify_review_rows x st verify db =
     Option.bind (verify_sessions_after x st verify db [] empty_report) (\<lambda>outcome.
     case outcome of
       Inl e \<Rightarrow> Some (Inl e)
     | Inr report \<Rightarrow> Some (ebind (verify_review_row_counts db report) (\<lambda>_. Inr report)))"

section \<open>The loops end\<close>

lemma fold_min_in: "fold (\<lambda>a b. if sint a < sint b then a else b) qs q \<in> set (q # qs)"
  by (induction qs arbitrary: q) auto

lemma next_sequence_after_greater:
  assumes "next_sequence_after db session_id prior = Some q"
  shows "sint prior < sint q" and "q \<in> ar_attempt_sequence ` set (db_attempts db)"
proof -
  let ?later = "filter (\<lambda>q. sint prior < sint q)
     (map ar_attempt_sequence (filter (\<lambda>row. ar_session_id row = session_id) (db_attempts db)))"
  from assms obtain p qs where "?later = p # qs" and "q = fold (\<lambda>a b. if sint a < sint b then a else b) qs p"
    by (auto simp: next_sequence_after_def split: list.splits)
  then have "q \<in> set ?later"
    using fold_min_in [of qs p] by simp
  then show "sint prior < sint q" and "q \<in> ar_attempt_sequence ` set (db_attempts db)"
    by auto
qed

definition later_attempts :: "review_db \<Rightarrow> i64 \<Rightarrow> nat" where
  "later_attempts db prior = card {q \<in> ar_attempt_sequence ` set (db_attempts db). sint prior < sint q}"

lemma verify_attempts_end: "\<exists>outcome. verify_attempts_after x verify root db s prior report = Some outcome"
proof (induction "later_attempts db prior" arbitrary: prior report rule: less_induct)
  case less
  show ?case
  proof (cases "\<exists>column sequence report'. to_i64 prior = Inr prior \<and>
      next_sequence_after db (rs_session_id s) prior = Some column \<and>
      verify_attempt_at x verify root db s prior column report = Inr (sequence, report')")
    case True
    then obtain column sequence report' where step: "to_i64 prior = Inr prior"
        "next_sequence_after db (rs_session_id s) prior = Some column"
        "verify_attempt_at x verify root db s prior column report = Inr (sequence, report')"
      by blast
    then have "sequence = column"
      by (auto simp: verify_attempt_at_def result_simps u64_try_from_Inr)
    then have "later_attempts db sequence < later_attempts db prior"
      using next_sequence_after_greater [OF step(2)]
      by (auto simp: later_attempts_def intro!: psubset_card_mono)
    from less [OF this] step show ?thesis
      by (simp add: verify_attempts_after.simps [of x verify root db s prior])
  next
    case False
    then show ?thesis
      by (subst verify_attempts_after.simps)
        (auto simp: to_i64_Inr split: sum.splits option.splits)
  qed
qed

lemma next_session_after_greater:
  assumes "next_session_after db last_id = Some row"
  shows "last_id < sr_session_id row" and "row \<in> set (db_sessions db)"
proof -
  let ?later = "filter (\<lambda>row. last_id < sr_session_id row) (db_sessions db)"
  from assms have "row \<in> set (sort_key sr_session_id ?later)"
    by (cases "sort_key sr_session_id ?later") (simp_all add: next_session_after_def)
  then show "last_id < sr_session_id row" and "row \<in> set (db_sessions db)"
    by auto
qed

definition later_sessions :: "review_db \<Rightarrow> string \<Rightarrow> nat" where
  "later_sessions db last_id = card {i \<in> sr_session_id ` set (db_sessions db). last_id < i}"

lemma verify_session_ends: "\<exists>outcome. verify_session_row x st verify db row report = Some outcome"
  using verify_attempts_end
  by (auto simp: verify_session_row_def verify_review_attempt_history_def split: sum.splits)

lemma verify_sessions_end: "\<exists>outcome. verify_sessions_after x st verify db last_id report = Some outcome"
proof (induction "later_sessions db last_id" arbitrary: last_id report rule: less_induct)
  case less
  show ?case
  proof (cases "next_session_after db last_id")
    case None
    then show ?thesis
      by (simp add: verify_sessions_after.simps)
  next
    case (Some row)
    then have smaller: "later_sessions db (sr_session_id row) < later_sessions db last_id"
      using next_session_after_greater [OF Some]
      by (auto simp: later_sessions_def intro!: psubset_card_mono)
    obtain outcome where "verify_session_row x st verify db row report = Some outcome"
      using verify_session_ends by blast
    with Some less [OF smaller] show ?thesis
      by (subst verify_sessions_after.simps) (auto split: sum.splits)
  qed
qed

lemma verify_review_rows_ends: "\<exists>outcome. verify_review_rows x st verify db = Some outcome"
proof -
  obtain outcome where "verify_sessions_after x st verify db [] empty_report = Some outcome"
    using verify_sessions_end by blast
  then show ?thesis
    by (cases outcome) (simp_all add: verify_review_rows_def)
qed

section \<open>A report counts every row\<close>

lemma u64_of_count_Inr: "u64_of_count n = Inr w \<Longrightarrow> uint w = int n"
  by (auto simp: u64_of_count_def unsigned_of_nat take_bit_nat_eq_self split: if_splits)

lemma verify_table_count_Inr: "verify_table_count table n w = Inr u \<Longrightarrow> uint w = int n"
  by (auto simp: verify_table_count_def Let_def ebind_Inr_iff dest: u64_of_count_Inr split: if_splits)

lemma verified_counts:
  assumes "verify_review_row_counts db report = Inr u"
  shows "uint (ir_sessions report) = int (length (db_sessions db))"
    and "uint (ir_attempt_records report) = int (length (db_attempts db))"
    and "uint (ir_environments report) = int (length (db_environments db))"
    and "uint (ir_check_results report) = int (length (db_results db))"
  using assms by (auto simp: verify_review_row_counts_def ebind_Inr_iff dest: verify_table_count_Inr)

lemma report_counts_checked:
  assumes "verify_review_rows x st verify db = Some outcome" and "outcome = Inr report"
  shows "verify_review_row_counts db report = Inr ()"
proof -
  from assms obtain scanned where "verify_sessions_after x st verify db [] empty_report = Some scanned"
      "(case scanned of Inl e \<Rightarrow> Some (Inl e)
        | Inr report \<Rightarrow> Some (ebind (verify_review_row_counts db report) (\<lambda>_. Inr report))) = Some (Inr report)"
    by (auto simp: verify_review_rows_def bind_eq_Some_conv)
  then show ?thesis
    by (cases scanned) (auto simp: ebind_Inr_iff)
qed

end
