(* ===== verification/Review_Store_Properties.thy ===== *)
theory Review_Store_Properties
  imports Review_Samples Review_Control_Facts Review_Integrity
begin

text \<open>
  The properties of the durable review records and of the controller's review operations, each with
  an application to the concrete review of \<open>Review_Samples\<close>.
\<close>

section \<open>Paths below a root\<close>

text \<open>
  C34: an accepted working directory or artifact reference cannot leave the directory it is joined
  to. \<^verbatim>\<open>Path::join\<close> gives up its base when the second path is absolute; for a reference that
  \<^verbatim>\<open>validate_relative_review_path\<close> accepts and an absolute base, the joined path has the components
  of the base followed by ordinary names, so neither an absolute reference nor one that climbs
  through \<^verbatim>\<open>..\<close> is accepted.
\<close>

theorem relative_paths_stay_below:
  assumes "validate_relative_review_path fld value = Inr ()" and "is_absolute base"
  shows "\<exists>parts. path_components (join_path base value) = path_components base @ map NormalDir parts"
  using assms by (rule relative_path_stays_below)

theorem relative_paths_stay_below_witness:
  "\<exists>parts. path_components (join_path (of_ascii ''/r/'') (of_ascii ''a/./b//c'')) =
     path_components (of_ascii ''/r/'') @ map NormalDir parts"
  by (rule relative_paths_stay_below [of "''reference''"]) code_simp+

section \<open>Durable review records\<close>

text \<open>
  The three invariants that follow hold for every answer the file system gives about the ancestors
  of a checkout (\<open>io_metadata\<close> and \<open>io_canonicalize\<close> in \<open>x\<close>), but the same answers in every step:
  reading a session checks its checkout path again, so a directory that is replaced by a symbolic
  link between two calls can make a stored session unreadable. Such changes are outside the claims.
\<close>

text \<open>
  C36: no call can corrupt the review tables. Starting from empty tables, after any sequence of
  store operations, and wherever a call of \<^verbatim>\<open>review.begin\<close> or \<^verbatim>\<open>review.verify\<close> on such tables stops
  (an error, a crash point, a refused transaction), every row reads back against its session, no two
  rows share a key, and every terminal fact, environment and result belongs to a running fact. The
  file system answers alike in all steps.
\<close>

theorem calls_leave_readable_tables:
  assumes "codec_ok x" and "reachable_tables x st db"
    and "db' \<in> {db, snd (review_begin h x st request candidate operation db),
                 snd (review_verify h x st session operation db)}"
  shows "rows_readable x st db' \<and> keys_unique db' \<and> facts_linked db'"
proof -
  have "reachable_tables x st db'"
    using assms(2,3) calls_stay_reachable by auto
  then have "tables_ok x st db'"
    using assms(1) by (rule reachable_tables_ok)
  then show ?thesis
    by (simp add: tables_ok_def)
qed

theorem calls_leave_readable_tables_witness:
  "rows_readable sample_io sample_store passed_tables \<and> keys_unique passed_tables \<and> facts_linked passed_tables"
  by (rule calls_leave_readable_tables [OF sample_codec sample_reachable(3)]) (rule insertI1)

text \<open>
  C37: a stored verdict stays backed. In any reachable tables, whatever was recorded after the
  verdict, the session of a stored passed fact still reads, and the stored results of its attempt
  are one result per check and variant of the frozen plan, each exited with the expected code. The
  file system answers alike in all steps.
\<close>

theorem passed_facts_stay_backed:
  assumes "codec_ok x" and "reachable_tables x st db"
    and "row \<in> set (db_attempts db)" and "ar_status row = ''passed''"
  shows "\<exists>so limit results. require_session x st db (ar_session_id row) = Inr so \<and>
    results_of_attempt x db (so_session so) (ar_session_id row) (ar_attempt_sequence row) limit = Inr results \<and>
    bij_betw (\<lambda>r. (cr_check_id r, cr_variant r)) (set results) (required_executions (so_session so)) \<and>
    (\<forall>r \<in> set results. \<exists>c \<in> set (pl_checks (rs_plan (so_session so))). ck_check_id c = cr_check_id r \<and>
       cr_termination r = Exited \<and> cr_actual_exit_code r = Some (ck_expected_exit_code c))"
proof -
  have ok: "tables_ok x st db"
    using assms(2,1) by (rule reachable_tables_ok)
  then obtain so sa where so: "require_session x st db (ar_session_id row) = Inr so"
    and sa: "validate_stored_review_attempt x (so_session so) row = Inr sa"
    using assms(3) by (auto simp: tables_ok_def rows_readable_def attempt_readable_def)
  note columns = readable_attempt [OF sa]
  have passed: "at_status (so_attempt sa) = AttemptPassed"
    using columns(6) assms(4)
    by (cases "at_status (so_attempt sa)") (simp_all add: review_attempt_status_text_def)
  have "validate_terminal_review_results x db (so_session so) (so_attempt sa) = Inr ()"
    using ok assms(3) so sa passed by (simp add: tables_ok_def backed_def)
  then obtain limit results where
      "results_of_attempt x db (so_session so) (ar_session_id row) (ar_attempt_sequence row) limit = Inr results"
    and valid: "validate_attempt_results (so_session so) (so_attempt sa) results = Inr ()"
    using passed columns(3,4) by (auto elim: passed_terminal)
  with so show ?thesis
    using passed_results_cover_plan(1,2) [OF valid passed] by (auto simp: required_executions)
qed

theorem passed_facts_stay_backed_witness:
  "\<exists>so limit results. require_session sample_io sample_store passed_tables ''s'' = Inr so \<and>
    results_of_attempt sample_io passed_tables (so_session so) ''s'' 1 limit = Inr results \<and>
    bij_betw (\<lambda>r. (cr_check_id r, cr_variant r)) (set results) (required_executions (so_session so))"
proof -
  have "passed_row \<in> set (db_attempts passed_tables)" "ar_status passed_row = ''passed''"
    by (simp_all add: passed_tables_def row_columns)
  from passed_facts_stay_backed [OF sample_codec sample_reachable(3) this] show ?thesis
    by (auto simp: row_columns)
qed

text \<open>
  C38: a result is recorded once. After \<^verbatim>\<open>append_review_check_result\<close> has accepted a result, a retry
  in any later tables is accepted with the same answer and changes nothing, although the session may
  have moved on and the attempt may have its verdict. The file system answers alike in all steps.
\<close>

theorem results_are_recorded_once:
  assumes "codec_ok x" and "reachable_tables x st db"
    and "append_review_check_result x st r db = Inr (r', db1)" and "later_tables x st db1 db2"
  shows "r' = r \<and> append_review_check_result x st r db2 = Inr (r, db2)"
proof
  have ok: "tables_ok x st db"
    using assms(2,1) by (rule reachable_tables_ok)
  from assms(3) show "r' = r"
    by (rule appended_result)
  show "append_review_check_result x st r db2 = Inr (r, db2)"
    using assms(1) ok assms(3,4) by (rule result_retry)
qed

theorem results_are_recorded_once_witness:
  "append_review_check_result sample_io sample_store normal_result passed_tables = Inr (normal_result, passed_tables)"
proof -
  obtain r' db1 where appended: "append_review_check_result sample_io sample_store normal_result covered_tables = Inr (r', db1)"
      "same_tables checked_tables db1"
    using checked_succeeds by blast
  then have "same_tables db1 checked_tables"
    by (simp add: same_tables_def)
  then have "later_tables sample_io sample_store db1 checked_tables"
    unfolding later_tables_def by (intro r_into_rtranclp) (rule review_step.elsewhere)
  also note sample_runs(3)
  also note sample_runs(4)
  finally show ?thesis
    using results_are_recorded_once [OF sample_codec sample_reachable(1) appended(1)] by blast
qed

text \<open>
  C39: an attempt that was cut off between its last result and its verdict blocks its session. If
  the stored results of a running attempt are complete and all passed and the session awaits the
  recovery, \<^verbatim>\<open>review.verify\<close> with the same operation always fails, because it can only record an
  interruption and complete passing results do not support one; and it fails with every operation
  that has no facts yet, because a new attempt needs a session without recovery. Neither changes
  the tables.
\<close>

theorem complete_attempts_block_recovery:
  assumes "require_session x st db session = Inr so"
    and "rs_state (so_session so) = ReviewSessionState SessionReady ResumeRequired"
    and "review_verification_attempts_for_operation x st db session operation = Inr [sa]"
    and "at_status (so_attempt sa) = AttemptRunning"
    and "fst (attempt_check_results x st (so_session so) (at_attempt_sequence (so_attempt sa)) db) = Inr results"
    and "(\<lambda>r. (cr_check_id r, cr_variant r)) ` set results = required_executions (so_session so)"
    and "\<forall>r \<in> set results. cr_outcome r = CheckPassed"
    and "review_verification_attempts_for_operation x st db session other = Inr []"
  shows "(\<exists>e. review_verify h x st session operation db = (Inl e, db)) \<and>
    (\<exists>e. review_verify h x st session other db = (Inl e, db))"
  using complete_attempt_stuck [OF assms(1-5)] other_operations_stuck [OF assms(1,2,8)] assms(6,7)
  by (auto simp: required_executions)

definition sample_host :: review_host where
  "sample_host =
     \<lparr>rh_now = \<lambda>_. Inr 30, rh_crash = \<lambda>_. False, rh_load = Inr (1, supervisor_new ''ws'' 1),
      rh_resolve_tree = \<lambda>_. Inr (rs_tree sample_session), rh_plan = \<lambda>_. Inr sample_plan,
      rh_checkout_path = \<lambda>_. Some (of_ascii ''/reviews/s''), rh_prepare_checkout = \<lambda>_. Inr (),
      rh_verify_checkout = \<lambda>_ _. Inr (),
      rh_execute_check = \<lambda>_ _ _ v _. Inr (case v of
          NormalVariant \<Rightarrow> ReviewExecutionEvidence zero_digest normal_environment normal_result
        | RequiredAbsentVariant \<Rightarrow> ReviewExecutionEvidence zero_digest absent_environment absent_result),
      rh_sandbox_name = ''none'', rh_sandbox_enforced = False, rh_process_containment = ProcessGroupOnly\<rparr>"

theorem complete_attempts_block_recovery_witness:
  "reachable_tables sample_io sample_store complete_tables \<and>
    (\<exists>e. review_verify sample_host sample_io sample_store ''s'' (of_ascii ''verify'') complete_tables = (Inl e, complete_tables)) \<and>
    (\<exists>e. review_verify sample_host sample_io sample_store ''s'' (of_ascii ''again'') complete_tables = (Inl e, complete_tables))"
proof (rule conjI [OF sample_reachable(2)])
  let ?so = resuming_stored
  have so: "require_session sample_io sample_store complete_tables ''s'' = Inr ?so"
    by (simp add: session_required tables_fields)
  have facts: "review_verification_attempts_for_operation sample_io sample_store complete_tables ''s'' (of_ascii ''verify'') =
      Inr [fact_stored running_attempt]"
    by (simp add: review_verification_attempts_for_operation_def so stored_parts operations_queried tables_fields
        verify_named record_fields)
  have other: "of_ascii ''again'' \<noteq> []" "of_ascii ''again'' \<noteq> of_ascii ''verify''"
    by (simp_all add: of_ascii_inj) (simp add: of_ascii_def)
  then have unused: "review_verification_attempts_for_operation sample_io sample_store complete_tables ''s''
      (of_ascii ''again'') = Inr []"
    by (simp add: review_verification_attempts_for_operation_def so stored_parts review_attempts_for_operation_def
        query_review_attempts_def tables_fields row_columns)
  have results: "fst (attempt_check_results sample_io sample_store resuming_session 1 complete_tables) =
      Inr [normal_result, absent_result]"
    using variant_order
    by (simp add: attempt_check_results_def act_bind_def act_pure_def act_query_def act_return_def review_record_limit_def
        result_count review_check_results_def record_fields so stored_parts session_results_def query_review_check_results_def
        tables_fields row_columns result_read)
  have "(\<lambda>r. (cr_check_id r, cr_variant r)) ` set [normal_result, absent_result] = required_executions resuming_session"
    by (auto simp: required_executions expected_executions_def executions_of_check_def resuming_session_def sample_session_def
        sample_plan_def sample_check_def result_fields)
  moreover have "\<forall>r \<in> set [normal_result, absent_result]. cr_outcome r = CheckPassed"
    by (simp add: result_fields)
  moreover have "rs_state resuming_session = ReviewSessionState SessionReady ResumeRequired"
    by (simp add: resuming_session_def)
  ultimately show "(\<exists>e. review_verify sample_host sample_io sample_store ''s'' (of_ascii ''verify'') complete_tables =
        (Inl e, complete_tables)) \<and>
      (\<exists>e. review_verify sample_host sample_io sample_store ''s'' (of_ascii ''again'') complete_tables =
        (Inl e, complete_tables))"
    using results
    by (intro complete_attempts_block_recovery [OF so _ facts _ _ _ _ unused])
      (simp_all only: stored_parts record_fields)
qed

text \<open>
  C40: the integrity scan ends. On any tables, readable or not, with any verifier of artifacts, the
  scan over the sessions and over the attempts of each session returns a report or an error; and a
  report counts exactly the rows that the tables hold.
\<close>

theorem integrity_scan_ends:
  "\<exists>outcome. verify_review_rows x st verify db = Some outcome \<and>
    (\<forall>report. outcome = Inr report \<longrightarrow>
       uint (ir_sessions report) = int (length (db_sessions db)) \<and>
       uint (ir_attempt_records report) = int (length (db_attempts db)) \<and>
       uint (ir_environments report) = int (length (db_environments db)) \<and>
       uint (ir_check_results report) = int (length (db_results db)))"
proof -
  obtain outcome where outcome: "verify_review_rows x st verify db = Some outcome"
    using verify_review_rows_ends by blast
  moreover have "verify_review_row_counts db report = Inr ()" if "outcome = Inr report" for report
    using outcome that by (rule report_counts_checked)
  ultimately show ?thesis
    by (auto dest: verified_counts)
qed

section \<open>A scan that succeeds\<close>

lemma passed_queried:
  "review_attempts_for_sequence sample_io passed_tables ''s'' 1 resuming_session =
     Inr [fact_stored running_attempt, fact_stored sample_attempt]"
  "environments_of_attempt sample_io passed_tables resuming_session ''s'' 1 3 =
     Inr [environment_stored normal_environment, environment_stored absent_environment]"
  "results_of_attempt sample_io passed_tables resuming_session ''s'' 1 3 = Inr [normal_result, absent_result]"
proof -
  have rows: "db_attempts passed_tables = [running_row, passed_row]"
      "db_environments passed_tables = [normal_environment_row, absent_environment_row]"
      "db_results passed_tables = [normal_result_row, absent_result_row]"
    by (simp_all add: tables_defs)
  show "review_attempts_for_sequence sample_io passed_tables ''s'' 1 resuming_session =
      Inr [fact_stored running_attempt, fact_stored sample_attempt]"
    by (simp add: review_attempts_for_sequence_def query_review_attempts_def to_i64_def rows row_columns attempt_reads
        resuming_reads)
  have columns: "er_session_id normal_environment_row = ''s''" "er_session_id absent_environment_row = ''s''"
      "er_attempt_sequence normal_environment_row = 1" "er_attempt_sequence absent_environment_row = 1"
      "er_variant normal_environment_row = ''normal''" "er_variant absent_environment_row = ''required_absent''"
      "er_check_id normal_environment_row = ''unit''" "er_check_id absent_environment_row = ''unit''"
    by (simp_all add: normal_environment_row_def absent_environment_row_def)
  show "environments_of_attempt sample_io passed_tables resuming_session ''s'' 1 3 =
      Inr [environment_stored normal_environment, environment_stored absent_environment]"
    using variant_order
    by (simp add: environments_of_attempt_def query_review_environments_def rows columns environment_reads resuming_reads)
  show "results_of_attempt sample_io passed_tables resuming_session ''s'' 1 3 = Inr [normal_result, absent_result]"
    by (rule results_queried) (simp_all add: rows)
qed

lemma scan_positions:
  "next_session_after passed_tables [] = Some resuming_row" "next_session_after passed_tables ''s'' = None"
  "next_sequence_after passed_tables ''s'' 0 = Some 1" "next_sequence_after passed_tables ''s'' 1 = None"
  by (simp_all add: next_session_after_def next_sequence_after_def tables_defs row_columns)

lemma scanned_execution:
  "verify_review_execution_group sample_io (\<lambda>_. Inr ()) root passed_tables resuming_session 1 running_attempt
     (Some sample_attempt) report =
   ebind (checked_review_count (ir_environments report) 2) (\<lambda>n.
   ebind (checked_review_count (ir_check_results report) 2) (\<lambda>m.
   Inr (report\<lparr>ir_environments := n, ir_check_results := m\<rparr>)))"
proof -
  have limit: "review_execution_limit resuming_session = Inr 3"
    by (simp add: review_execution_limit_def u32_of_count_def resuming_session_def sample_session_def sample_plan_def
        sample_check_def)
  have artifacts: "verify_review_artifact (\<lambda>_. Inr ()) root sid source sample_artifact report = Inr report"
    for sid source report
    by (simp add: verify_review_artifact_def sample_artifact_def)
  have tools: "verify_review_environment_artifacts (\<lambda>_. Inr ()) root normal_environment report = Inr report"
      "verify_review_environment_artifacts (\<lambda>_. Inr ()) root absent_environment report = Inr report" for report
    by (simp_all add: verify_review_environment_artifacts_def absent_environment_def normal_environment_def
        sample_environment_def artifacts)
  have outputs: "verify_review_result_artifacts (\<lambda>_. Inr ()) root normal_result report = Inr report"
      "verify_review_result_artifacts (\<lambda>_. Inr ()) root absent_result report = Inr report" for report
    by (simp_all add: verify_review_result_artifacts_def normal_result_def absent_result_def sample_result_def artifacts)
  have counts: "u64_of_count (Suc (Suc 0)) = Inr 2"
    by (simp add: u64_of_count_def)
  show ?thesis
    by (simp add: verify_review_execution_group_def limit to_i64_def record_fields passed_queried Let_def
        verify_stored_environment_def verify_stored_result_def stored_parts tools outputs pairs_valid resuming_reads
        terminal_valid counts ok_or_def)
qed

lemma scanned_attempt:
  "verify_attempt_at sample_io (\<lambda>_. Inr ()) root passed_tables resuming_session 0 1
     \<lparr>ir_sessions = 1, ir_attempt_records = 0, ir_environments = 0, ir_check_results = 0, ir_referenced_artifacts = 0\<rparr> =
   Inr (1, \<lparr>ir_sessions = 1, ir_attempt_records = 2, ir_environments = 2, ir_check_results = 2,
     ir_referenced_artifacts = 0\<rparr>)"
proof -
  have "checked_inc (0 :: u64) = Some 1" "u64_of_count (Suc (Suc 0)) = Inr 2"
    by (simp_all add: checked_inc_def u64_of_count_def)
  then show ?thesis
    by (simp add: verify_attempt_at_def u64_try_from_small record_fields passed_queried verify_review_attempt_group_def
        paired_facts_def stored_parts terminal_identity attempt_allows_transition_to_def scanned_execution
        checked_review_count_def ok_or_def)
qed

lemma scanned_rows:
  "verify_review_rows sample_io sample_store (\<lambda>_. Inr ()) passed_tables =
   Some (Inr \<lparr>ir_sessions = 1, ir_attempt_records = 2, ir_environments = 2, ir_check_results = 2,
     ir_referenced_artifacts = 0\<rparr>)"
proof -
  let ?report = "\<lparr>ir_sessions = 1, ir_attempt_records = 2, ir_environments = 2, ir_check_results = 2,
     ir_referenced_artifacts = 0\<rparr>"
  have after: "verify_attempts_after sample_io (\<lambda>_. Inr ()) root passed_tables resuming_session 1 ?report =
      Some (Inr ?report)" for root
    by (subst verify_attempts_after.simps) (simp add: to_i64_def record_fields scan_positions)
  have "verify_session_row sample_io sample_store (\<lambda>_. Inr ()) passed_tables resuming_row empty_report = Some (Inr ?report)"
    by (simp add: verify_session_row_def session_reads checked_review_count_def empty_report_def stored_parts
        verify_review_attempt_history_def verify_attempts_after.simps [of _ _ _ _ _ 0] to_i64_def record_fields
        scan_positions scanned_attempt after)
  moreover have "verify_review_row_counts passed_tables ?report = Inr ()"
    by (simp add: verify_review_row_counts_def verify_table_count_def u64_of_count_def tables_defs Let_def)
  ultimately show ?thesis
    by (simp add: verify_review_rows_def verify_sessions_after.simps [of _ _ _ _ "[]"] verify_sessions_after.simps [of _ _ _ _ "''s''"]
        scan_positions row_columns)
qed

theorem integrity_scan_ends_witness:
  "\<exists>report. verify_review_rows sample_io sample_store (\<lambda>_. Inr ()) passed_tables = Some (Inr report) \<and>
    uint (ir_attempt_records report) = int (length (db_attempts passed_tables))"
  using integrity_scan_ends [of sample_io sample_store "\<lambda>_. Inr ()" passed_tables] scanned_rows by auto

end
