(* ===== verification/Spec2Isabelle.thy ===== *)
theory Spec2Isabelle
  imports Bounds Scenario Panic_Absence Restart_Round_Trip Restart_Gaps Lifecycle Causal Fence_Order Review_Store_Properties
begin

text \<open>
  A verification development for agent-supervisor (Rust): the event-sourced aggregate that
  supervises teams of coding agents in a workspace, and the durable review records of its control
  plane.

  The program. Agents talk to the supervisor in typed envelopes. The crate
  \<^verbatim>\<open>crates/agsv-protocol\<close> defines the data (\<^verbatim>\<open>model.rs\<close>), its identifiers and counters (\<^verbatim>\<open>ids.rs\<close>)
  and its validation (\<^verbatim>\<open>validation.rs\<close>). The crate \<^verbatim>\<open>crates/agsv-core\<close> holds the aggregate
  (\<^verbatim>\<open>supervisor.rs\<close>), the lifecycle functions it calls (\<^verbatim>\<open>transitions.rs\<close>) and its errors
  (\<^verbatim>\<open>error.rs\<close>). The control plane (\<^verbatim>\<open>crates/agsv-control\<close>) persists it in SQLite and runs the
  operations of the command line; among them the review of a candidate, which executes the frozen
  checks of a plan and records running and terminal attempt facts, environments and results in
  append-only tables. Runtime adapters, session backends and the command line are drivers around
  it.

  The aggregate keeps actors, teams, requests, runs, a mailbox of deliveries, pending handoffs, an
  audit log with a hash chain, and queues that the store drains. Its public operations are the
  activation of the Primary, the creation and status of teams, actor status and heartbeat,
  registration and replacement of implementation actors, \<^verbatim>\<open>apply\<close> for an envelope,
  \<^verbatim>\<open>acknowledge\<close>, the close sweep and the drains.

  How the model follows the code. One theory per part:
    \<^item> \<open>Prelude\<close>: sequencing with errors (\<open>ebind\<close>, \<open>attempt\<close>, \<open>sbind\<close>), checked and saturating
      \<^verbatim>\<open>u64\<close> counters, \<^verbatim>\<open>BTreeMap\<close> as finite maps listed in key order (\<open>fmvals\<close>).
    \<^item> \<open>Validation\<close>, \<open>Bounds\<close>: \<^verbatim>\<open>validation.rs\<close> and \<^verbatim>\<open>ids.rs\<close>; the epochs are 64-bit words, free text
      is a list of Unicode scalar values.
    \<^item> \<open>Domain_Model\<close>, \<open>Messages\<close>, \<open>Envelopes\<close>, \<open>Causal\<close>: \<^verbatim>\<open>model.rs\<close> and the compact facts of accepted
      messages with the messages replayed from them (\<^verbatim>\<open>replay_message\<close> in \<^verbatim>\<open>supervisor.rs\<close>).
    \<^item> \<open>Core_Error\<close>, \<open>Outcomes\<close>: \<^verbatim>\<open>error.rs\<close>; a failure is an error that is returned or a panic
      (\<^verbatim>\<open>expect\<close>), and a mutating function returns a failure or a value with the state it leaves.
    \<^item> \<open>Transitions\<close>, \<open>Lifecycle\<close>: \<^verbatim>\<open>transitions.rs\<close> and the contract \<open>lifecycle\<close> of the four machines.
    \<^item> \<open>Core_State\<close>, \<open>Recipient_Order\<close>: the record of the aggregate, and the derived order of
      delivery recipients.
    \<^item> \<open>Guards\<close>, \<open>Observability\<close>, \<open>Delivery\<close>, \<open>Membership\<close>, \<open>Registration\<close>, \<open>Handlers\<close>,
      \<open>Review_Handlers\<close>, \<open>Apply\<close>: the operations of \<^verbatim>\<open>supervisor.rs\<close>, with every guard and early
      return in source order.
    \<^item> \<open>Snapshot\<close>, \<open>From_Snapshot\<close>: \<^verbatim>\<open>snapshot\<close> and \<^verbatim>\<open>from_snapshot\<close>. The latter calls the validators of
      \<open>Restore\<close> (actors, teams, requests, runs, recount), \<open>Restore_Deliveries\<close> (mailbox),
      \<open>Restore_History\<close> (handoffs, quotas, history checkpoint, audit links) and \<open>Causal_Replay\<close>
      (\<^verbatim>\<open>CausalReplay\<close>, the re-execution of the accepted history).
    \<^item> \<open>Archive_Validation\<close>: \<^verbatim>\<open>validate_archived_terminal_cycle\<close>, \<^verbatim>\<open>validate_archived_requestless_history\<close>
      and \<^verbatim>\<open>ArchivedFenceValidator\<close>, which check history that has left the aggregate.
    \<^item> \<open>Review_Plan\<close>, \<open>Review_Session\<close>, \<open>Review_Evidence\<close>: the review records of \<^verbatim>\<open>model.rs\<close> (a frozen
      plan, a session and its state machine, verification attempts, check results, environment
      records) and the validators that tie a session's records together. The aggregate never reads
      them; the control plane stores them.
    \<^item> \<open>Control_Error\<close>, \<open>Review_Rows\<close>, \<open>Control_Events\<close>, \<open>Review_Store\<close>, \<open>Review_Records\<close>: the review
      operations of \<^verbatim>\<open>StateStore\<close> in \<^verbatim>\<open>crates/agsv-control/src/store.rs\<close>: control errors, canonical
      JSON and digests; the rows of the four review tables and the validators that read them back;
      the control event log with its compaction; begin and transition of sessions; the append
      operations and their queries. \<open>review_db\<close> holds the tables of one workspace; an operation
      returns an error, which rolls its transaction back, or a value with the new tables. \<^verbatim>\<open>CHECK\<close>
      constraints and unique keys are the predicates \<open>..._row_checks\<close> and \<open>..._keys_clash\<close>.
    \<^item> \<open>Review_Integrity\<close>: \<^verbatim>\<open>verify_review_integrity\<close>, the scan of all review rows, its two loops as
      partial functions.
    \<^item> \<open>Review_Control\<close>: the bodies of \<^verbatim>\<open>review.begin\<close>, \<^verbatim>\<open>review.verify\<close> and \<^verbatim>\<open>review.show\<close> of
      \<^verbatim>\<open>crates/agsv-control/src/engine.rs\<close> as actions on the tables. An action keeps the tables its
      committed transactions left, on errors and at crash points too.

  JSON serialization and SHA-256 are third-party code. For the aggregate they are the fields of the
  record \<open>ext\<close>, an argument of the operations that use them; nothing is assumed of them except, where
  a property says so, that an audit event serializes. For the store they are fields of \<open>review_io\<close>,
  together with the error texts of SQLite and the file system queries on checkout paths; the
  hypothesis \<open>codec_ok\<close> says that a record that serializes is parsed back from its canonical JSON. The
  record \<open>review_host\<close> holds what the controller takes from Git, the checkout, the sandboxed
  processes and the clock; nothing is assumed of it.

  What the lemmas show:
    \<^item> \<open>Handler_Outcomes\<close>, \<open>Operation_Outcomes\<close>, \<open>Panic_Freedom\<close>: a refused call leaves the state as
      it was; the handlers do not panic.
    \<^item> \<open>Work_Steps\<close>: the abstract machine of requests, runs and handoffs, and that each handler is
      one of its steps.
    \<^item> \<open>Evolution\<close>, \<open>Growth\<close>, \<open>Membership_Growth\<close>, \<open>Registration_Growth\<close>: the order \<open>grows\<close> in which
      every operation moves the state.
    \<^item> \<open>Invariants\<close>, \<open>Membership_Invariants\<close>, \<open>Registration_Invariants\<close>, \<open>Message_Invariants\<close>,
      \<open>Mail_Invariants\<close>, \<open>Provenance\<close>, \<open>Provenance_Steps\<close>: the invariant of members, lease, work,
      mailbox and provenance, kept by every operation.
    \<^item> \<open>Restore_Soundness\<close>, \<open>Restore_Mail\<close>, \<open>Replay_Invariants\<close>, \<open>Restart\<close>: what each validator
      guarantees of what it accepts, up to \<open>from_snapshot_ok\<close>: a restored aggregate satisfies the
      whole invariant.
    \<^item> \<open>Operations\<close>, \<open>Reachability\<close>: the operations as one step relation, the contract
      \<open>operation_contract\<close> with one interpretation per operation. A state is reachable from a new
      aggregate or from any snapshot that \<^verbatim>\<open>from_snapshot\<close> accepts, so every property of reachable
      states holds across restarts.
    \<^item> \<open>Exactly_Once\<close>, \<open>Inbox\<close>, \<open>Restore_Facts\<close>, \<open>Restart_Round_Trip\<close>: retries, fences, the inbox,
      and what a restart returns.
    \<^item> \<open>Panic_Absence\<close>: \<^verbatim>\<open>apply\<close> and \<^verbatim>\<open>acknowledge\<close> reach none of their \<^verbatim>\<open>expect\<close>s.
    \<^item> \<open>Fence_Order\<close>: the contract \<open>monotone_fence\<close> of a fence that is fed a sequence of deliveries,
      and its instances in the archived fence validator.
    \<^item> \<open>Review_Facts\<close>, \<open>Review_Properties\<close>: what validated review records guarantee, with a sample
      session.
    \<^item> \<open>Stored_Rows\<close>: the contract \<open>row_codec\<close> of a table, interpreted for the four tables: what was
      written to a row is read back from it.
    \<^item> \<open>Review_Steps\<close>, \<open>Review_Invariant\<close>, \<open>Review_Reachable\<close>, \<open>Review_Retries\<close>: the operations as steps
      on the tables, and the invariant of reachable tables (rows are readable, keys unique, facts
      linked, verdicts backed by results), from which retries find what they wrote.
    \<^item> \<open>Review_Control_Facts\<close>, \<open>Review_Samples\<close>, \<open>Review_Store_Properties\<close>: every controller call is a
      sequence of steps; a review with a concrete codec; and the properties of store and controller.
    \<^item> \<open>Scenario\<close>, \<open>Restart_Gaps\<close>: a concrete run that the witnesses evaluate, and the operations
      that succeed but leave a state whose own snapshot \<^verbatim>\<open>from_snapshot\<close> refuses.
    \<^item> \<open>Bounds\<close>: the canonical spelling of object ids.

  Bounds. The quotas (\<^verbatim>\<open>MAX_DELIVERIES\<close> and the like) and the 64-bit counters are those of the code;
  no operation needs fuel, every loop of the modelled code runs over a finite collection, and the
  two loops of the integrity scan, which follow the keys of the tables, are proved to end.

  Not modelled. The other operations and tables of the control plane, its idempotency wrapper,
  failures of SQLite itself, Git, sandboxes and checkouts; the runtime, session and command-line
  crates: effects on databases, processes, sockets and files around the modelled parts.
\<close>

section \<open>Refusals, retries and fences\<close>

text \<open>
  C1: every public operation is atomic. A call that returns an error leaves the aggregate exactly
  as it was.
\<close>

theorem refused_operations_change_nothing:
  assumes "run_op x s op = (Inl (Err e), s')"
  shows "s' = s"
  using assms by (rule run_op_refused)

theorem refused_operations_change_nothing_witness:
  "snd (run_op sample_ext founded (OpRegister ''ops'' ''eve'')) = founded \<and> fmhas (s_teams founded) ''core''"
proof
  have "fst (run_op sample_ext founded (OpRegister ''ops'' ''eve'')) = Inl (Err (UnknownTeam ''ops''))"
    by code_simp
  then show "snd (run_op sample_ext founded (OpRegister ''ops'' ''eve'')) = founded"
    using refused_operations_change_nothing by (metis prod.collapse)
  show "fmhas (s_teams founded) ''core''" by code_simp
qed

text \<open>
  C2: a message takes effect once. When \<open>apply\<close> has succeeded, every later delivery of the same
  envelope, in whatever state the run has reached, reports a duplicate and changes nothing.
\<close>

theorem applied_once:
  assumes "reachable x s" and "apply_envelope x s env = (Inr outcome, s')" and "leads_to x s' s''"
  shows "apply_envelope x s'' env = (Inr DuplicateMessage, s'')"
  using reachable_ok [OF assms(1)] assms(2,3) by (rule later_retry)

theorem applied_once_witness:
  "apply_envelope sample_ext rejected request_message = (Inr DuplicateMessage, rejected)"
proof -
  have "fst (apply_envelope sample_ext founded request_message) = Inr Applied"
    by code_simp
  moreover have "snd (apply_envelope sample_ext founded request_message) = assigned"
    by (simp add: assigned_def)
  ultimately have "apply_envelope sample_ext founded request_message = (Inr Applied, assigned)"
    by (metis prod.collapse)
  from applied_once [OF founded_reachable this rejected_later] show ?thesis .
qed

text \<open>
  C3: an envelope of a superseded generation stays out for ever. Once its policy revision is not
  the aggregate's, its Primary epoch or its sender's actor epoch is over, or its sender belongs to
  a team and quotes a past team epoch, no later state accepts it.
\<close>

theorem superseded_never_applied:
  assumes "reachable x s" and "superseded s env \<or> team_superseded s env" and "leads_to x s s'"
  shows "fst (apply_envelope x s' env) \<noteq> Inr Applied"
  using reachable_ok [OF assms(1)] assms(2,3) by (rule superseded_forever)

theorem superseded_never_applied_witness:
  "superseded founded (request_message\<lparr>e_policy_revision := 7\<rparr>) \<and>
   fst (apply_envelope sample_ext assigned (request_message\<lparr>e_policy_revision := 7\<rparr>)) \<noteq> Inr Applied"
proof -
  have "superseded founded (request_message\<lparr>e_policy_revision := 7\<rparr>)"
    by code_simp
  moreover have "leads_to sample_ext founded assigned"
    unfolding assigned_def by (rule run_ops_leads_to) code_simp
  ultimately show ?thesis
    using superseded_never_applied [OF founded_reachable] by blast
qed

text \<open>
  C4: who may be heard. An accepted envelope quotes the current policy revision, Primary epoch and
  actor generation of a healthy actor; a sender with a team speaks for that team; and the quoted
  team epoch is the current one, unless an actor without a team closes the cycle of a request of
  an earlier generation of the team.
\<close>

theorem applied_is_fenced:
  assumes "apply_envelope x s env = (Inr Applied, s')"
  shows "\<exists>a. fmlookup (s_actors s) (ref_actor_id (e_sender env)) = Some a \<and> a_status a = ActorHealthy \<and>
    a_epoch a = ref_actor_epoch (e_sender env) \<and> e_policy_revision env = s_policy_revision s \<and>
    e_primary_epoch env = s_primary_epoch s \<and> e_workspace_id env = s_workspace_id s \<and>
    (a_team_id a = None \<or> a_team_id a = e_team_id env) \<and>
    is_none_or (e_team_id env) (\<lambda>team. is_some_and (fmlookup (s_teams s) team) (\<lambda>t.
      e_team_epoch env = Some (t_epoch t) \<or>
      a_team_id a = None \<and> historical_request_epoch s env team t = e_team_epoch env))"
  using assms
proof (rule apply_envelope_Inr)
  fix a
  assume auth: "authorize_envelope s env = Inr a" and ws: "e_workspace_id env = s_workspace_id s"
  note facts = authorize_envelope_Inr [OF auth]
  have "is_some_and (fmlookup (s_teams s) team) (\<lambda>t. e_team_epoch env = Some (t_epoch t) \<or>
      a_team_id a = None \<and> historical_request_epoch s env team t = e_team_epoch env)"
    if team: "e_team_id env = Some team" for team
  proof -
    obtain t where "fmlookup (s_teams s) team = Some t" "ensure_team_fence s env a team t = Inr a"
      using facts(7) [OF team] by blast
    then show ?thesis
      using ensure_team_fence_Inr(3) by fastforce
  qed
  moreover have "a_team_id a = None \<or> a_team_id a = e_team_id env"
    using facts(6) by blast
  ultimately show ?thesis
    using facts(1-5) ws by (intro exI [of _ a]) (simp add: is_none_or_iff)
qed simp

theorem applied_is_fenced_witness:
  "\<exists>a. fmlookup (s_actors founded) ''boss'' = Some a \<and> a_status a = ActorHealthy"
proof -
  have "fst (apply_envelope sample_ext founded request_message) = Inr Applied"
    by code_simp
  then have "apply_envelope sample_ext founded request_message =
      (Inr Applied, snd (apply_envelope sample_ext founded request_message))"
    by (metis prod.collapse)
  from applied_is_fenced [OF this] show ?thesis
    by (auto simp: request_message_def sample_envelope_def boss_def)
qed

text \<open>
  C5: an acknowledgement is recorded once. Repeating it in any later state reports a duplicate and
  changes nothing.
\<close>

theorem acknowledged_once:
  assumes "reachable x s" and "acknowledge x s ack = (Inr Acknowledged, s')" and "leads_to x s' s''"
  shows "acknowledge x s'' ack = (Inr DuplicateAck, s'')"
  using reachable_ok [OF assms(1)] assms(2,3) by (rule later_acknowledgement)

theorem acknowledged_once_witness:
  "\<exists>s'. acknowledge sample_ext s' (Acknowledgement ''ws'' ''m1'' ann 3) = (Inr DuplicateAck, s')"
proof -
  let ?ack = "Acknowledgement ''ws'' ''m1'' ann 3"
  have "fst (acknowledge sample_ext assigned ?ack) = Inr Acknowledged"
    by code_simp
  then have "acknowledge sample_ext assigned ?ack = (Inr Acknowledged, snd (acknowledge sample_ext assigned ?ack))"
    by (metis prod.collapse)
  from acknowledged_once [OF assigned_reachable this leads_to.here] show ?thesis ..
qed

text \<open>
  C6: nothing in an inbox is stuck. Every message that the aggregate lists for a healthy actor can
  be acknowledged by it, as long as there is room in the audit log and in the delivery.
\<close>

theorem listed_messages_can_be_acknowledged:
  assumes "reachable x s" and "unacknowledged_message_ids_for s ref = Inr ids" and "m \<in> set ids"
    and "ensure_audit_capacity s = Inr ()"
    and "\<And>d. fmlookup (s_mailbox s) m = Some d \<Longrightarrow> fmsize (d_acknowledgements d) < MAX_ACKNOWLEDGEMENTS"
    and "\<And>event. x_json_audit_event x event \<noteq> None"
  shows "fst (acknowledge x s (Acknowledgement (s_workspace_id s) m ref at)) = Inr Acknowledged"
  by (rule inbox_acknowledgeable [OF reachable_ok [OF assms(1)] assms(2-6)])

theorem listed_messages_can_be_acknowledged_witness:
  "fst (acknowledge sample_ext assigned (Acknowledgement ''ws'' ''m1'' ann 9)) = Inr Acknowledged"
proof -
  have ids: "unacknowledged_message_ids_for assigned ann = Inr [''m1'']"
    by code_simp
  have room: "ensure_audit_capacity assigned = Inr ()"
    by code_simp
  have "list_all (\<lambda>d. fmsize (d_acknowledgements d) < MAX_ACKNOWLEDGEMENTS) (fmvals (s_mailbox assigned))"
    by code_simp
  then have acks: "fmsize (d_acknowledgements d) < MAX_ACKNOWLEDGEMENTS"
    if "fmlookup (s_mailbox assigned) ''m1'' = Some d" for d
    using that by (auto simp: list_all_iff in_fmvals_iff)
  have "s_workspace_id assigned = ''ws''"
    by code_simp
  then show ?thesis
    using listed_messages_can_be_acknowledged [OF assigned_reachable ids _ room acks, where at = 9]
    by (simp add: sample_ext_def)
qed

text \<open>
  C7: an acknowledged message leaves the inbox of the actor that acknowledged it.
\<close>

theorem acknowledged_messages_leave_the_inbox:
  assumes "reachable x s" and "acknowledge x s ack = (Inr Acknowledged, s')"
    and "unacknowledged_message_ids_for s' (ak_actor ack) = Inr ids"
  shows "ak_message_id ack \<notin> set ids"
  using reachable_ok [OF assms(1)] assms(2,3) by (rule acknowledged_leaves_inbox)

theorem acknowledged_messages_leave_the_inbox_witness:
  "\<exists>ids. unacknowledged_message_ids_for
      (snd (acknowledge sample_ext assigned (Acknowledgement ''ws'' ''m1'' ann 3))) ann = Inr ids \<and>
    ''m1'' \<notin> set ids"
proof -
  let ?ack = "Acknowledgement ''ws'' ''m1'' ann 3"
  have "fst (acknowledge sample_ext assigned ?ack) = Inr Acknowledged"
    by code_simp
  then have app: "acknowledge sample_ext assigned ?ack = (Inr Acknowledged, snd (acknowledge sample_ext assigned ?ack))"
    by (metis prod.collapse)
  have "unacknowledged_message_ids_for (snd (acknowledge sample_ext assigned ?ack)) ann = Inr []"
    by code_simp
  with acknowledged_messages_leave_the_inbox [OF assigned_reachable app] show ?thesis
    by auto
qed

section \<open>Invariants of reachable states\<close>

text \<open>
  C8: one Primary. In every reachable state the check of the restore path accepts the lease: the
  holder exists, is healthy and has the Primary capability outside any team, and no other actor
  of that kind is healthy.
\<close>

theorem sole_primary:
  assumes "reachable x s"
  shows "validate_active_primary (active_primary s) (s_actors s) = Inr ()"
  by (rule validate_lease [OF reachable_wf [OF assms]])

theorem sole_primary_witness:
  "validate_active_primary (Some boss) (s_actors founded) = Inr ()"
proof -
  have "active_primary founded = Some boss"
    by code_simp
  with sole_primary [OF founded_reachable] show ?thesis by simp
qed

text \<open>
  C9: requests and runs move in step. In every reachable state each request has its run with the
  same team, generation and assignment and a matching status, and each run has its request.
\<close>

theorem requests_and_runs_agree:
  assumes "reachable x s"
  shows "validate_request_run_links (s_requests s) (s_runs s) = Inr ()"
  by (rule validate_links [OF reachable_wf [OF assms]])

theorem requests_and_runs_agree_witness:
  "validate_request_run_links (s_requests rejected) (s_runs rejected) = Inr () \<and>
   map r_status (fmvals (s_runs rejected)) = [RunRevisionRequested]"
proof -
  have "map r_status (fmvals (s_runs rejected)) = [RunRevisionRequested]"
    by code_simp
  with requests_and_runs_agree [OF rejected_reachable] show ?thesis by simp
qed

text \<open>
  C10: persisted actors come back. Restoring the actors of a snapshot of a reachable state passes
  every check and gives the map the state had.
\<close>

theorem actors_survive_a_restart:
  assumes "reachable x s"
  shows "restore_actors (sn_workspace_id (snapshot s)) (sn_actors (snapshot s)) = Inr (s_actors s)"
  using restore_actors_snapshot [OF reachable_wf [OF assms]] by (simp add: snapshot_def)

theorem actors_survive_a_restart_witness:
  "restore_actors ''ws'' (fmvals (s_actors founded)) = Inr (s_actors founded) \<and>
   fmsize (s_actors founded) = 3"
proof -
  have "s_workspace_id founded = ''ws''" and "fmsize (s_actors founded) = 3"
    by code_simp+
  with actors_survive_a_restart [OF founded_reachable] show ?thesis
    by (simp add: snapshot_def)
qed

text \<open>
  C11: persisted teams come back, with every check of their members.
\<close>

theorem teams_survive_a_restart:
  assumes "reachable x s"
  shows "restore_teams (sn_workspace_id (snapshot s)) (sn_teams (snapshot s)) (s_actors s) = Inr (s_teams s)"
  using restore_teams_snapshot [OF reachable_wf [OF assms]] by (simp add: snapshot_def)

theorem teams_survive_a_restart_witness:
  "restore_teams ''ws'' (fmvals (s_teams founded)) (s_actors founded) = Inr (s_teams founded) \<and>
   fmsize (s_teams founded) = 2"
proof -
  have "s_workspace_id founded = ''ws''" and "fmsize (s_teams founded) = 2"
    by code_simp+
  with teams_survive_a_restart [OF founded_reachable] show ?thesis
    by (simp add: snapshot_def)
qed

text \<open>
  C12: persisted runs come back.
\<close>

theorem runs_survive_a_restart:
  assumes "reachable x s"
  shows "restore_runs (sn_workspace_id (snapshot s)) (sn_runs (snapshot s)) (s_requests s) (s_teams s) =
    Inr (s_runs s)"
  using restore_runs_snapshot [OF reachable_wf [OF assms]] by (simp add: snapshot_def)

theorem runs_survive_a_restart_witness:
  "restore_runs ''ws'' (fmvals (s_runs rejected)) (s_requests rejected) (s_teams rejected) =
    Inr (s_runs rejected) \<and> fmsize (s_runs rejected) = 1"
proof -
  have "s_workspace_id rejected = ''ws''" and "fmsize (s_runs rejected) = 1"
    by code_simp+
  with runs_survive_a_restart [OF rejected_reachable] show ?thesis
    by (simp add: snapshot_def)
qed

text \<open>
  C13: epochs never run backwards and facts are never lost. Along a run the Primary epoch, every
  actor's and every team's epoch only grow, a terminal request keeps its status, every accepted
  message stays in the mailbox with its header, digest and recorded acknowledgements, and the
  audit log is extended at its end.
\<close>

theorem history_is_monotone:
  assumes "reachable x s" and "leads_to x s s'"
  shows "s_primary_epoch s \<le> s_primary_epoch s' \<and> prefix (s_audit s) (s_audit s') \<and>
    (\<forall>i a. fmlookup (s_actors s) i = Some a \<longrightarrow>
       is_some_and (fmlookup (s_actors s') i) (\<lambda>b. a_epoch a \<le> a_epoch b \<and> a_role b = a_role a)) \<and>
    (\<forall>i t. fmlookup (s_teams s) i = Some t \<longrightarrow>
       is_some_and (fmlookup (s_teams s') i) (\<lambda>u. t_epoch t \<le> t_epoch u)) \<and>
    (\<forall>i q. fmlookup (s_requests s) i = Some q \<longrightarrow>
       is_some_and (fmlookup (s_requests s') i) (\<lambda>q'.
         q_specification q' = q_specification q \<and>
         (is_terminal (q_status q) \<longrightarrow> q_status q' = q_status q))) \<and>
    (\<forall>i d. fmlookup (s_mailbox s) i = Some d \<longrightarrow>
       is_some_and (fmlookup (s_mailbox s') i) (\<lambda>d'.
         d_envelope d' = d_envelope d \<and> d_payload_digest d' = d_payload_digest d \<and>
         (\<forall>r ack. fmlookup (d_acknowledgements d) r = Some ack \<longrightarrow>
            fmlookup (d_acknowledgements d') r = Some ack)))"
proof -
  have g: "grows s s'"
    using leads_to_contract [OF assms(2) reachable_ok [OF assms(1)]] by simp
  have "is_some_and (fmlookup (s_actors s') i) (\<lambda>b. a_epoch a \<le> a_epoch b \<and> a_role b = a_role a)"
    if "fmlookup (s_actors s) i = Some a" for i a
    using grows_actorD [OF g that] by (auto simp: actor_le_def)
  moreover have "is_some_and (fmlookup (s_teams s') i) (\<lambda>u. t_epoch t \<le> t_epoch u)"
    if "fmlookup (s_teams s) i = Some t" for i t
    using grows_teamD [OF g that] by (auto simp: team_le_def)
  moreover have "is_some_and (fmlookup (s_requests s') i) (\<lambda>q'.
      q_specification q' = q_specification q \<and> (is_terminal (q_status q) \<longrightarrow> q_status q' = q_status q))"
    if "fmlookup (s_requests s) i = Some q" for i q
    using grows_requestD [OF g that] by (auto simp: request_le_def)
  moreover have "is_some_and (fmlookup (s_mailbox s') i) (\<lambda>d'.
      d_envelope d' = d_envelope d \<and> d_payload_digest d' = d_payload_digest d \<and>
      (\<forall>r ack. fmlookup (d_acknowledgements d) r = Some ack \<longrightarrow>
         fmlookup (d_acknowledgements d') r = Some ack))"
    if "fmlookup (s_mailbox s) i = Some d" for i d
    using grows_mailboxD [OF g that] by (auto simp: delivery_le_def)
  ultimately show ?thesis
    using g by (simp add: grows_def)
qed

theorem history_is_monotone_witness:
  "prefix (s_audit assigned) (s_audit rejected) \<and> length (s_audit rejected) = 3"
proof -
  have "length (s_audit rejected) = 3"
    by code_simp
  with history_is_monotone [OF assigned_reachable rejected_later] show ?thesis by simp
qed

text \<open>
  C14: the audit log has no gaps. Whatever a run adds to the log is numbered n + 1, n + 2, ... from
  the count n that the history checkpoint carried, up to the count that it carries afterwards.
\<close>

theorem audit_is_contiguous:
  assumes "reachable x s" and "leads_to x s s'"
  shows "\<exists>new. s_audit s' = s_audit s @ new \<and>
    map (\<lambda>e. unat (au_sequence e)) new =
      [Suc (unat (h_audit_event_count (s_history_checkpoint s)))
         ..< Suc (unat (h_audit_event_count (s_history_checkpoint s')))]"
  using leads_to_evolves [OF assms(2) reachable_ok [OF assms(1)]]
  by (auto simp: evolves_def audit_grows_def)

theorem audit_is_contiguous_witness:
  "map (\<lambda>e. unat (au_sequence e)) (s_audit rejected) = map (\<lambda>e. unat (au_sequence e)) (s_audit assigned) @ [2, 3]"
proof -
  have "unat (h_audit_event_count (s_history_checkpoint rejected)) = 3"
    "unat (h_audit_event_count (s_history_checkpoint assigned)) = 1"
    by code_simp+
  with audit_is_contiguous [OF assigned_reachable rejected_later] show ?thesis
    by (auto simp: upt_rec)
qed

text \<open>
  C15: a review decision is the decision of an accepted message. The current decision of every
  request was carried by a review-decision message in the mailbox for that request, and no two
  accepted decision messages share a decision id.
\<close>

theorem decisions_have_messages:
  assumes "reachable x s"
  shows "(\<forall>k q r. fmlookup (s_requests s) k = Some q \<longrightarrow> q_decision q = Some r \<longrightarrow>
      is_some_and (fmlookup (s_mailbox s) (dr_message_id r)) (\<lambda>d.
        d_causal d = CausalReviewDecision r \<and> e_request_id (d_envelope d) = Some (q_request_id q))) \<and>
    decisions_unique (s_mailbox s)"
  using reachable_parts(2) [OF assms]
  by (auto simp: provenance_ok_def decision_backed_def delivery_has_def is_none_or_iff)

theorem decisions_have_messages_witness:
  "decisions_unique (s_mailbox rejected) \<and>
   map (map_option dr_message_id \<circ> q_decision) (fmvals (s_requests rejected)) = [Some ''m3'']"
proof -
  have "map (map_option dr_message_id \<circ> q_decision) (fmvals (s_requests rejected)) = [Some ''m3'']"
    by code_simp
  with decisions_have_messages [OF rejected_reachable] show ?thesis by blast
qed

text \<open>
  C16: a request has the specification of the message that created it, by message id and payload
  digest.
\<close>

theorem specifications_have_messages:
  assumes "reachable x s" and "fmlookup (s_requests s) k = Some q"
  shows "is_some_and (fmlookup (s_mailbox s) (spec_message_id (q_specification q))) (\<lambda>d.
      d_message_kind d = KImplementationRequest \<and>
      d_payload_digest d = spec_payload_digest (q_specification q) \<and>
      e_request_id (d_envelope d) = Some k)"
proof -
  have "q_request_id q = k"
    using reachable_wf [OF assms(1)] assms(2) by (rule wf_request)
  then show ?thesis
    using reachable_parts(2) [OF assms(1)] assms(2)
    by (auto simp: provenance_ok_def specification_backed_def delivery_has_def)
qed

theorem specifications_have_messages_witness:
  "\<exists>q. fmlookup (s_requests rejected) ''req'' = Some q \<and>
    is_some_and (fmlookup (s_mailbox rejected) (spec_message_id (q_specification q)))
      (\<lambda>d. d_message_kind d = KImplementationRequest)"
proof -
  have "fmhas (s_requests rejected) ''req''"
    by code_simp
  then obtain q where q: "fmlookup (s_requests rejected) ''req'' = Some q"
    by (auto simp: fmhas_def)
  from specifications_have_messages [OF rejected_reachable q] q show ?thesis
    by (auto simp: is_some_and_iff)
qed

text \<open>
  C17: a request waits for at most one handoff, and only while its review is open: two pending
  offers for the same request are the same offer, and the request is not accepted, authorized,
  cancelled or completed.
\<close>

theorem one_pending_handoff:
  assumes "reachable x s"
    and "fmlookup (s_handoffs s) k = Some p" and "fmlookup (s_handoffs s) j = Some p'"
    and "hr_request_id (ph_offer p) = hr_request_id (ph_offer p')"
  shows "k = j \<and> is_some_and (fmlookup (s_requests s) (hr_request_id (ph_offer p)))
    (\<lambda>q. q_status q \<notin> {Accepted, IntegrationAuthorized, Cancelled, Completed})"
proof -
  have "handoffs_ok (s_requests s) (s_handoffs s)"
    using reachable_parts(2) [OF assms(1)] by (simp add: provenance_ok_def)
  then show ?thesis
    using assms(2-4) unfolding handoffs_ok_def closed_to_handoff_def by blast
qed

theorem one_pending_handoff_witness:
  "\<exists>p. fmlookup (s_handoffs offered) ''h1'' = Some p \<and>
    is_some_and (fmlookup (s_requests offered) (hr_request_id (ph_offer p)))
      (\<lambda>q. q_status q \<notin> {Accepted, IntegrationAuthorized, Cancelled, Completed})"
proof -
  have "fmhas (s_handoffs offered) ''h1''"
    by code_simp
  then obtain p where p: "fmlookup (s_handoffs offered) ''h1'' = Some p"
    by (auto simp: fmhas_def)
  from one_pending_handoff [OF offered_reachable p p refl] p show ?thesis by blast
qed

text \<open>
  C18: a delivery leaves circulation only when nobody is left to answer it, and every recorded
  acknowledgement belongs to a required recipient, names the message and was not waived.
\<close>

theorem deliveries_are_accounted_for:
  assumes "reachable x s" and "fmlookup (s_mailbox s) k = Some d"
  shows "(d_retired d \<longrightarrow> (\<forall>r. r |\<in>| d_required_recipients d \<longrightarrow> recipient_resolved d r)) \<and>
    (\<forall>r ack. fmlookup (d_acknowledgements d) r = Some ack \<longrightarrow>
       r |\<in>| d_required_recipients d \<and> ak_message_id ack = k \<and>
       \<not> fmhas (d_undeliverable_recipients d) r) \<and>
    (d_required_recipients d = {||} \<longleftrightarrow> d_retirement_reason d \<noteq> None)"
  using mail_okD [OF reachable_parts(1) [OF assms(1)] assms(2)]
  by (auto simp: delivery_ok_def ack_matches_def)

theorem deliveries_are_accounted_for_witness:
  "\<exists>d. fmlookup (s_mailbox assigned) ''m1'' = Some d \<and>
    (d_required_recipients d = {||} \<longleftrightarrow> d_retirement_reason d \<noteq> None)"
proof -
  have "fmhas (s_mailbox assigned) ''m1''"
    by code_simp
  then obtain d where d: "fmlookup (s_mailbox assigned) ''m1'' = Some d"
    by (auto simp: fmhas_def)
  from deliveries_are_accounted_for [OF assigned_reachable d] d show ?thesis by blast
qed

section \<open>Refinement and equivalence\<close>

text \<open>
  C19: the message handlers implement the abstract work steps. Whatever \<open>apply_message\<close> does when
  it succeeds is one step of the review and handoff state machine: nothing, a new request with its
  run, a new offer, or a paired change of one request and its run.
\<close>

theorem handlers_refine_work_steps:
  assumes "reachable x s" and "apply_message s env a digest = (Inr (), s')"
  shows "work_step s env a digest s'"
  by (rule apply_message_step [OF wf_work_keys [OF reachable_wf [OF assms(1)]] assms(2)])

theorem handlers_refine_work_steps_witness:
  "\<exists>a s'. work_step founded request_message a (replicate 64 (CHR ''0'')) s' \<and> fmsize (s_requests s') = 1"
proof -
  let ?a = "the (fmlookup (s_actors founded) ''boss'')"
  let ?d = "replicate 64 (CHR ''0'')"
  have "fst (apply_message founded request_message ?a ?d) = Inr ()"
    by code_simp
  then have "apply_message founded request_message ?a ?d =
      (Inr (), snd (apply_message founded request_message ?a ?d))"
    by (metis prod.collapse)
  moreover have "fmsize (s_requests (snd (apply_message founded request_message ?a ?d))) = 1"
    by code_simp
  ultimately show ?thesis
    using handlers_refine_work_steps [OF founded_reachable] by blast
qed

text \<open>
  C20: an archived delivery answers a retry like the live one. Classifying an envelope against the
  snapshot of the delivery with its id gives what \<open>apply\<close> gives for that delivery in the mailbox.
\<close>

theorem archived_retries_agree:
  assumes "reachable x s" and "fmlookup (s_mailbox s) (e_message_id env) = Some d"
  shows "classify_archived_retry x s env (delivery_snapshot_of d) = fst (apply_envelope x s env)"
  using assms(2) mailbox_keyed [OF reachable_parts(1) [OF assms(1)] assms(2)]
  by (rule archived_retry_agrees)

theorem archived_retries_agree_witness:
  "\<exists>d. fmlookup (s_mailbox assigned) ''m1'' = Some d \<and>
    classify_archived_retry sample_ext assigned request_message (delivery_snapshot_of d) =
      fst (apply_envelope sample_ext assigned request_message)"
proof -
  have "fmhas (s_mailbox assigned) ''m1''"
    by code_simp
  then obtain d where d: "fmlookup (s_mailbox assigned) ''m1'' = Some d"
    by (auto simp: fmhas_def)
  moreover have "e_message_id request_message = ''m1''"
    by (simp add: request_message_def sample_envelope_def)
  ultimately show ?thesis
    using archived_retries_agree [OF assigned_reachable, of request_message] by auto
qed

text \<open>
  C21: the text-free fact kept of a message is faithful. A fact whose content reference is valid
  is what one gets by reducing the message replayed from it, and only such a fact.
\<close>

theorem causal_facts_round_trip:
  "causal_message_of mid digest (replay_message c) = c \<longleftrightarrow> causal_content_ref_valid mid digest c"
  by (rule causal_of_replay)

text \<open>
  C22: replaying an accepted envelope from its header and its text-free fact gives a valid
  envelope again.
\<close>

theorem replayed_envelopes_are_valid:
  assumes "envelope_validate env = Inr ()"
  shows "envelope_validate (with_message (header_of env)
    (replay_message (causal_message_of mid digest (e_message env)))) = Inr ()"
  by (rule envelope_validate_replay [OF assms])

theorem replayed_envelopes_are_valid_witness:
  "envelope_validate (with_message (header_of request_message)
    (replay_message (causal_message_of ''m1'' [] (e_message request_message)))) = Inr ()"
  by (rule replayed_envelopes_are_valid) code_simp

section \<open>State machines\<close>

text \<open>
  C23: no request skips a stage. Whatever events are sent to a new request, accepted or not, the
  events that its status requires (assignment, candidate, acceptance, authorization, completion)
  are among them in that order.
\<close>

theorem no_stage_is_skipped:
  "subseq (required_events (drive transition_request Open evs)) evs"
  by (rule drive_request_required)

text \<open>
  C24: a request whose status is terminal keeps it under every sequence of events.
\<close>

theorem terminal_requests_stay:
  assumes "is_terminal st"
  shows "drive transition_request st evs = st"
  by (rule request_lc.drive_final [OF assms])

theorem terminal_requests_stay_witness:
  "drive transition_request Cancelled [EvStart, EvComplete, EvCancel] = Cancelled"
  by (rule terminal_requests_stay) (simp add: is_terminal_def)

text \<open>
  C25: a request and its run stay matched. An event pair that the aggregate applies to both leaves
  the run status in the set that the request status allows.
\<close>

theorem paired_events_keep_the_match:
  assumes "(qe, re) \<in> paired_events"
    and "transition_request q qe = Inr q'" and "transition_run r re = Inr r'"
  shows "run_status_matches_request r' q'"
  using assms by (rule paired_transition_matches)

theorem paired_events_keep_the_match_witness:
  "run_status_matches_request RunAwaitingReview CandidateReady"
  by (rule paired_events_keep_the_match [of EvSubmitCandidate RevSubmitCandidate InProgress _ RunActive])
    (simp_all add: paired_events_def transition_request_def transition_run_def Let_def)

section \<open>Object ids\<close>

text \<open>
  C27: a commit id is kept in one spelling. An accepted id has 40 or 64 digits, each of them one of
  the lower-case hexadecimal digits; digit for digit it denotes the same number as the input; and
  the constructor maps to it exactly the strings that denote the same digits in either case, the id
  itself among them.
\<close>

theorem git_sha_canonical:
  assumes "git_sha_new v = Inr sha"
  shows "length sha \<in> {40, 64} \<and> set sha \<subseteq> set lower_hex_digits \<and>
    map hex_value sha = map hex_value v \<and>
    (\<forall>w. git_sha_new w = Inr sha \<longleftrightarrow> map hex_value w = map hex_value v)"
  using git_sha_spelling [OF assms] by blast

theorem git_sha_canonical_witness:
  "git_sha_new (replicate 40 (CHR ''A'')) = Inr (replicate 40 (CHR ''a'')) \<and>
   git_sha_new (replicate 40 (CHR ''a'')) = Inr (replicate 40 (CHR ''a''))"
proof -
  have upper: "git_sha_new (replicate 40 (CHR ''A'')) = Inr (replicate 40 (CHR ''a''))"
    by code_simp
  have "map hex_value (replicate 40 (CHR ''a'')) = map hex_value (replicate 40 (CHR ''A''))"
    by code_simp
  with git_sha_canonical [OF upper] have "git_sha_new (replicate 40 (CHR ''a'')) = Inr (replicate 40 (CHR ''a''))"
    by blast
  with upper show ?thesis ..
qed

section \<open>Panics, restarts and archived history\<close>

text \<open>
  C28: messages never bring the supervisor down. In no reachable state does \<open>apply\<close> or \<open>acknowledge\<close>
  panic, whatever the envelope or acknowledgement, provided that audit events serialize.
\<close>

theorem messages_never_panic:
  assumes "reachable x s" and "\<And>event. x_json_audit_event x event \<noteq> None"
  shows "fst (apply_envelope x s env) \<noteq> Inl (Panic m) \<and> fst (acknowledge x s ack) \<noteq> Inl (Panic m)"
  using apply_envelope_calm [OF reachable_wf(1) [OF assms(1)] assms(2)] acknowledge_calm [OF assms(2)]
  by (auto simp: never_panics_def calm_def)

theorem messages_never_panic_witness:
  "fst (apply_envelope sample_ext founded request_message) \<noteq> Inl (Panic ''request checked above'') \<and>
   fst (acknowledge sample_ext founded (Acknowledgement ''ws'' ''m1'' ann 3)) \<noteq>
     Inl (Panic ''request checked above'')"
  by (rule messages_never_panic [OF founded_reachable]) (simp add: sample_ext_def)

text \<open>
  C29: a restart forgets nothing but the drained queues. When \<open>from_snapshot\<close> accepts the snapshot
  of a reachable state it returns that state, with empty queues, recomputed counts, and deliveries
  that differ at most in the slot under which an acknowledgement is kept.
\<close>

theorem restarted_aggregate_is_the_same:
  assumes "reachable x s" and "from_snapshot x j (snapshot s) = Inr s'"
  shows "s' = s\<lparr>s_mailbox := s_mailbox s',
           s_nonterminal_request_counts := s_nonterminal_request_counts s',
           s_pending_bulk_content := [], s_pending_observability := empty_observability\<rparr> \<and>
    fmrel same_delivery (s_mailbox s) (s_mailbox s')"
  using restart_is_identity [OF reachable_ok [OF assms(1)] assms(2)] by blast

theorem restarted_aggregate_is_the_same_witness:
  "\<exists>s'. from_snapshot sample_ext (\<lambda>_. Some []) (snapshot assigned) = Inr s' \<and>
     s_requests s' = s_requests assigned \<and> s_audit s' = s_audit assigned"
proof -
  from assigned_restarts obtain s' where
      restored: "from_snapshot sample_ext (\<lambda>_. Some []) (snapshot assigned) = Inr s'"
    by (rule accepted_restart)
  from restarted_aggregate_is_the_same [OF assigned_reachable this]
  have "s' = assigned\<lparr>s_mailbox := s_mailbox s',
      s_nonterminal_request_counts := s_nonterminal_request_counts s',
      s_pending_bulk_content := [], s_pending_observability := empty_observability\<rparr>" ..
  then obtain m c where "s' = assigned\<lparr>s_mailbox := m, s_nonterminal_request_counts := c,
      s_pending_bulk_content := [], s_pending_observability := empty_observability\<rparr>"
    by blast
  then have "s_requests s' = s_requests assigned \<and> s_audit s' = s_audit assigned"
    by simp
  with restored show ?thesis by blast
qed

text \<open>
  C30: a restart admits sound aggregates only. Whatever snapshot \<open>from_snapshot\<close> accepts, trusted or
  not, the aggregate it builds satisfies the whole invariant of reachable states: members and
  rosters, the sole Primary, requests and runs that agree, settled deliveries, decisions and
  specifications with their messages, an ordered audit log.
\<close>

theorem restored_aggregate_is_sound:
  assumes "from_snapshot x j sn = Inr s"
  shows "aggregate_ok s"
  using assms by (rule from_snapshot_ok)

theorem restored_aggregate_is_sound_witness:
  "\<exists>s. from_snapshot sample_ext (\<lambda>_. Some []) (snapshot assigned) = Inr s \<and> aggregate_ok s"
proof -
  from assigned_restarts obtain s where
      "from_snapshot sample_ext (\<lambda>_. Some []) (snapshot assigned) = Inr s"
    by (rule accepted_restart)
  with restored_aggregate_is_sound show ?thesis by blast
qed

text \<open>
  C31: archived history is fenced. Deliveries that the archived fence validator accepts are in
  strictly increasing audit order; along it the Primary epochs, the epochs of each actor and the
  epochs of each team (as quoted by its members) never decrease; and within one Primary epoch only
  one actor speaks as the Primary.
\<close>

theorem archived_fences_are_ordered:
  assumes "validate_all (archived_fence_validator s) ds = (Inr (), w)"
  shows "sorted_wrt (\<lambda>d e. fst d < fst e \<and>
      e_primary_epoch (step_header d) \<le> e_primary_epoch (step_header e) \<and>
      (ref_actor_id (e_sender (step_header d)) = ref_actor_id (e_sender (step_header e)) \<longrightarrow>
        sender_record (archived_fence_validator s) d \<noteq> None \<longrightarrow>
        ref_actor_epoch (e_sender (step_header d)) \<le> ref_actor_epoch (e_sender (step_header e))) \<and>
      (fenced_team (archived_fence_validator s) d \<noteq> None \<longrightarrow>
        fenced_team (archived_fence_validator s) e = fenced_team (archived_fence_validator s) d \<longrightarrow>
        team_epoch_of d \<le> team_epoch_of e) \<and>
      (primary_sender (archived_fence_validator s) d \<longrightarrow>
        primary_sender (archived_fence_validator s) e \<longrightarrow>
        e_primary_epoch (step_header d) = e_primary_epoch (step_header e) \<longrightarrow>
        map_option a_actor_id (sender_record (archived_fence_validator s) e) =
          map_option a_actor_id (sender_record (archived_fence_validator s) d))) ds"
proof -
  let ?v = "archived_fence_validator s"
  have fed: "feed fence_step ?v ds = (Inr (), w)"
    using assms by (simp add: validate_all_feed)
  note sequences = accepted_sequences [OF fed, THEN conjunct1, unfolded sorted_wrt_map]
  note orders = primary_fence.accepted_ordered [OF fed] actor_fence.accepted_ordered [OF fed]
    team_fence.accepted_ordered [OF fed] one_holder_per_lease [OF fed]
  show ?thesis
    using sequences orders
    by (auto simp: sorted_wrt_iff_nth_less sender_record_def)
qed

theorem archived_fences_are_ordered_witness:
  "sorted_wrt (\<lambda>d e. fst d < fst e \<and> e_primary_epoch (step_header d) \<le> e_primary_epoch (step_header e))
     (zip [1, 2, 3] (sn_deliveries (snapshot rejected)))"
proof -
  let ?ds = "zip [1, 2, 3] (sn_deliveries (snapshot rejected))"
  have "fst (validate_all (archived_fence_validator rejected) ?ds) = Inr ()"
    by code_simp
  then have "validate_all (archived_fence_validator rejected) ?ds =
      (Inr (), snd (validate_all (archived_fence_validator rejected) ?ds))"
    by (metis prod.collapse)
  from archived_fences_are_ordered [OF this] show ?thesis
    by (rule sorted_wrt_mono_rel [rotated]) blast
qed

end
